(* ===== verification/Prelude.thy ===== *)
theory Prelude
  imports Main "HOL-Library.Char_ord" "HOL-Library.List_Lexorder" "HOL-Library.Multiset"
begin

text \<open>
  Shared vocabulary of the development: instants and durations, the errors the store returns,
  the error monad, tables as lists of rows with the SQL statements the code issues on them
  (SELECT, UPDATE, DELETE, INSERT with a primary key, upsert, ORDER BY), loops that stop at the
  first error, and the interface of a keyed table.
\<close>

named_theorems table_simps \<open>lookups and counts after the SQL statements\<close>
named_theorems res_simps \<open>inversion of computations in the error monad\<close>

section \<open>Instants and durations\<close>

text \<open>
  An instant (Go's \<open>time.Time\<close>, always used in UTC here) is its distance from the Unix epoch in
  nanoseconds; a \<open>time.Duration\<close> is a number of nanoseconds. \<open>time.Time{}\<close>, the value of
  \<open>parseTime\<close> on an unreadable text, is midnight of 1 January of year 1.
\<close>

type_synonym time = int

abbreviation second :: time where "second \<equiv> 1000000000"
abbreviation minute :: time where "minute \<equiv> 60 * second"
abbreviation hour :: time where "hour \<equiv> 60 * minute"
abbreviation microsecond :: time where "microsecond \<equiv> 1000"

definition zero_time :: time where
  "zero_time = - 62135596800 * second"

definition IsZero :: "time \<Rightarrow> bool" where
  "IsZero t \<longleftrightarrow> t = zero_time"

section \<open>Errors\<close>

text \<open>
  The sentinel errors of the store, the two errors of \<open>database/sql\<close> the code distinguishes or
  provokes itself (no row, a violated constraint), \<open>errors.New\<close> with its text, and a run-time
  panic.
\<close>

datatype err =
    ErrFleetAccess
  | ErrFleetConflict
  | ErrFleetFeatureUnavailable
  | ErrTunnelPortUnavailable
  | ErrTunnelSessionLimit
  | ErrTunnelRateLimit
  | ErrRolloutGuardInvalid string
  | ErrDeviceBackupInProgress
  | ErrNoRows
  | ErrConstraint string
  | ErrMsg string
  | Panic string

type_synonym 'a res = "err + 'a"

fun bindE :: "'e + 'a \<Rightarrow> ('a \<Rightarrow> 'e + 'b) \<Rightarrow> 'e + 'b" where
  "bindE (Inl e) k = Inl e"
| "bindE (Inr x) k = k x"

lemma bindE_eq_Inr [res_simps]: "bindE m k = Inr y \<longleftrightarrow> (\<exists>x. m = Inr x \<and> k x = Inr y)"
  by (cases m) auto

lemma bindE_eq_Inl [res_simps]:
  "bindE m k = Inl e \<longleftrightarrow> m = Inl e \<or> (\<exists>x. m = Inr x \<and> k x = Inl e)"
  by (cases m) auto

lemma bindE_assoc: "bindE (bindE m f) g = bindE m (\<lambda>x. bindE (f x) g)"
  by (cases m) auto

lemma bindE_cong [fundef_cong]:
  "m = m' \<Longrightarrow> (\<And>x. m' = Inr x \<Longrightarrow> k x = k' x) \<Longrightarrow> bindE m k = bindE m' k'"
  by (cases m') auto

text \<open>Whether a computation succeeded, for evaluation.\<close>

definition isr :: "'e + 'a \<Rightarrow> bool" where
  "isr r = (case r of Inl _ \<Rightarrow> False | Inr _ \<Rightarrow> True)"

lemma isr_iff: "isr r \<longleftrightarrow> (\<exists>x. r = Inr x)"
  by (cases r) (simp_all add: isr_def)

text \<open>A \<open>for range\<close> loop that threads a state and returns at the first error.\<close>

fun foldE :: "('a \<Rightarrow> 's \<Rightarrow> 'e + 's) \<Rightarrow> 'a list \<Rightarrow> 's \<Rightarrow> 'e + 's" where
  "foldE f [] s = Inr s"
| "foldE f (x # xs) s = bindE (f x s) (foldE f xs)"

text \<open>A loop whose body only checks: the error of the first element that has one.\<close>

fun checkE :: "('a \<Rightarrow> 'e + unit) \<Rightarrow> 'a list \<Rightarrow> 'e + unit" where
  "checkE f [] = Inr ()"
| "checkE f (x # xs) = bindE (f x) (\<lambda>_. checkE f xs)"

lemma foldE_invariant:
  assumes "foldE f xs s = Inr t" and "P s"
    and "\<And>x u v. x \<in> set xs \<Longrightarrow> P u \<Longrightarrow> f x u = Inr v \<Longrightarrow> P v"
  shows "P t"
  using assms
proof (induction xs arbitrary: s)
  case Nil
  then show ?case by simp
next
  case (Cons x xs)
  from Cons.prems(1) obtain u where u: "f x s = Inr u" "foldE f xs u = Inr t"
    by (auto simp: res_simps)
  have "P u" using Cons.prems(2,3) u(1) by auto
  with u(2) show ?case using Cons.IH Cons.prems(3) by auto
qed

lemma foldE_append: "foldE f (xs @ ys) s = bindE (foldE f xs s) (foldE f ys)"
proof (induction xs arbitrary: s)
  case Nil
  then show ?case by simp
next
  case (Cons x xs)
  then show ?case by (cases "f x s") auto
qed

lemma checkE_ok: "checkE f xs = Inr u \<longleftrightarrow> (\<forall>x \<in> set xs. f x = Inr ())"
  by (induction xs) (auto simp: res_simps)

section \<open>Tables\<close>

text \<open>
  A table is the list of its rows, in insertion order. The statements of the code are
  UPDATE \<open>upd_where\<close>, DELETE \<open>del_where\<close>, SELECT of one row \<open>find_row\<close>,
  EXISTS \<open>has_row\<close>, COUNT \<open>count_where\<close>, and INSERT \<open>insert_row\<close>, which fails when the
  primary key (or another unique key) is taken.
\<close>

definition upd_where :: "('r \<Rightarrow> bool) \<Rightarrow> ('r \<Rightarrow> 'r) \<Rightarrow> 'r list \<Rightarrow> 'r list" where
  "upd_where p f xs = map (\<lambda>r. if p r then f r else r) xs"

definition del_where :: "('r \<Rightarrow> bool) \<Rightarrow> 'r list \<Rightarrow> 'r list" where
  "del_where p xs = filter (\<lambda>r. \<not> p r) xs"

definition count_where :: "('r \<Rightarrow> bool) \<Rightarrow> 'r list \<Rightarrow> nat" where
  "count_where p xs = length (filter p xs)"

definition has_row :: "('r \<Rightarrow> bool) \<Rightarrow> 'r list \<Rightarrow> bool" where
  "has_row p xs = list_ex p xs"

definition find_row :: "('r \<Rightarrow> bool) \<Rightarrow> 'r list \<Rightarrow> 'r option" where
  "find_row p xs = List.find p xs"

definition insert_row :: "('r \<Rightarrow> 'k) \<Rightarrow> 'r \<Rightarrow> 'r list \<Rightarrow> ('r list) res" where
  "insert_row key r xs =
     (if has_row (\<lambda>x. key x = key r) xs then Inl (ErrConstraint ''unique'') else Inr (xs @ [r]))"

text \<open>INSERT ... ON CONFLICT(key) DO UPDATE: the stored row is merged with the new one.\<close>

definition upsert_row ::
  "('r \<Rightarrow> 'k) \<Rightarrow> ('r \<Rightarrow> 'r \<Rightarrow> 'r) \<Rightarrow> 'r \<Rightarrow> 'r list \<Rightarrow> 'r list" where
  "upsert_row key merge r xs =
     (if has_row (\<lambda>x. key x = key r) xs
      then upd_where (\<lambda>x. key x = key r) (\<lambda>old. merge old r) xs else xs @ [r])"

lemma has_row_iff [table_simps]: "has_row p xs \<longleftrightarrow> (\<exists>r \<in> set xs. p r)"
  by (simp add: has_row_def list_ex_iff)

lemma set_upd_where [table_simps]:
  "set (upd_where p f xs) = (\<lambda>r. if p r then f r else r) ` set xs"
  by (simp add: upd_where_def)

lemma set_del_where [table_simps]: "set (del_where p xs) = {r \<in> set xs. \<not> p r}"
  by (auto simp: del_where_def)

lemma length_upd_where [simp]: "length (upd_where p f xs) = length xs"
  by (simp add: upd_where_def)

lemma upd_where_Nil [simp]: "upd_where p f [] = []"
  by (simp add: upd_where_def)

lemma upd_where_Cons [simp]:
  "upd_where p f (x # xs) = (if p x then f x else x) # upd_where p f xs"
  by (simp add: upd_where_def)

lemma upd_where_append [simp]: "upd_where p f (xs @ ys) = upd_where p f xs @ upd_where p f ys"
  by (simp add: upd_where_def)

lemma upd_where_none: "(\<And>r. r \<in> set xs \<Longrightarrow> \<not> p r) \<Longrightarrow> upd_where p f xs = xs"
  by (simp add: upd_where_def map_idI)

lemma map_upd_where:
  "(\<And>r. r \<in> set xs \<Longrightarrow> p r \<Longrightarrow> key (f r) = key r) \<Longrightarrow> map key (upd_where p f xs) = map key xs"
  by (induction xs) auto

lemma count_where_zero [table_simps]: "count_where p xs = 0 \<longleftrightarrow> (\<forall>r \<in> set xs. \<not> p r)"
  by (simp add: count_where_def filter_empty_conv)

lemma count_where_Nil [simp]: "count_where p [] = 0"
  by (simp add: count_where_def)

lemma count_where_Cons [simp]:
  "count_where p (x # xs) = (if p x then Suc (count_where p xs) else count_where p xs)"
  by (simp add: count_where_def)

lemma count_where_append [simp]:
  "count_where p (xs @ ys) = count_where p xs + count_where p ys"
  by (simp add: count_where_def)

lemma count_where_mono:
  "(\<And>r. r \<in> set xs \<Longrightarrow> p r \<Longrightarrow> q r) \<Longrightarrow> count_where p xs \<le> count_where q xs"
  by (induction xs) (auto simp: le_SucI)

lemma count_where_cong:
  "(\<And>r. r \<in> set xs \<Longrightarrow> p r = q r) \<Longrightarrow> count_where p xs = count_where q xs"
  by (induction xs) auto

lemma find_row_Some [table_simps]:
  "find_row p xs = Some r \<Longrightarrow> r \<in> set xs \<and> p r"
  by (auto simp: find_row_def find_Some_iff in_set_conv_nth)

lemma find_row_None [table_simps]: "find_row p xs = None \<longleftrightarrow> (\<forall>r \<in> set xs. \<not> p r)"
  by (auto simp: find_row_def find_None_iff)

lemma find_row_Nil [simp]: "find_row p [] = None"
  by (simp add: find_row_def)

lemma find_row_Cons [simp]: "find_row p (x # xs) = (if p x then Some x else find_row p xs)"
  by (simp add: find_row_def)

lemma find_row_append: "find_row p (xs @ ys) = (case find_row p xs of None \<Rightarrow> find_row p ys | Some r \<Rightarrow> Some r)"
  by (induction xs) auto

lemma insert_row_eq [res_simps]:
  "insert_row key r xs = Inr ys \<longleftrightarrow> key r \<notin> key ` set xs \<and> ys = xs @ [r]"
  by (auto simp: insert_row_def has_row_iff) (metis imageI)

section \<open>Keyed tables\<close>

text \<open>
  The contract of a primary key: rows with distinct keys, which every statement keeps. An UPDATE
  is only used with a body that leaves the key alone.
\<close>

locale keyed_table =
  fixes key :: "'r \<Rightarrow> 'k"
begin

definition wf :: "'r list \<Rightarrow> bool" where
  "wf xs \<longleftrightarrow> distinct (map key xs)"

lemma wf_insert: "wf xs \<Longrightarrow> insert_row key r xs = Inr ys \<Longrightarrow> wf ys"
  by (auto simp: wf_def insert_row_eq)

lemma wf_upd:
  "wf xs \<Longrightarrow> (\<And>r. r \<in> set xs \<Longrightarrow> p r \<Longrightarrow> key (f r) = key r) \<Longrightarrow> wf (upd_where p f xs)"
  by (simp add: wf_def map_upd_where)

lemma wf_del: "wf xs \<Longrightarrow> wf (del_where p xs)"
  by (simp add: wf_def del_where_def distinct_map_filter)

lemma wf_unique: "wf xs \<Longrightarrow> r \<in> set xs \<Longrightarrow> r' \<in> set xs \<Longrightarrow> key r = key r' \<Longrightarrow> r = r'"
  by (auto simp: wf_def distinct_map inj_on_def)

lemma find_key:
  "wf xs \<Longrightarrow> r \<in> set xs \<Longrightarrow> find_row (\<lambda>x. key x = key r) xs = Some r"
proof -
  assume wf: "wf xs" and r: "r \<in> set xs"
  then obtain r' where r': "find_row (\<lambda>x. key x = key r) xs = Some r'"
    by (cases "find_row (\<lambda>x. key x = key r) xs") (auto simp: find_row_None)
  then have "r' \<in> set xs" "key r' = key r" using find_row_Some by force+
  with wf r have "r' = r" by (auto intro: wf_unique)
  with r' show ?thesis by simp
qed

lemma find_after_insert:
  "insert_row key r xs = Inr ys \<Longrightarrow> find_row (\<lambda>x. key x = key r) ys = Some r"
proof -
  assume "insert_row key r xs = Inr ys"
  then have ys: "ys = xs @ [r]" and "find_row (\<lambda>x. key x = key r) xs = None"
    by (auto simp: insert_row_eq find_row_None) (metis imageI)
  then show ?thesis by (simp add: find_row_append)
qed

lemma find_after_insert_other:
  "insert_row key r xs = Inr ys \<Longrightarrow> k \<noteq> key r \<Longrightarrow>
   find_row (\<lambda>x. key x = k) ys = find_row (\<lambda>x. key x = k) xs"
  by (auto simp: insert_row_eq find_row_append split: option.splits)

lemma find_after_update:
  "find_row (\<lambda>x. key x = k) xs = Some r \<Longrightarrow>
   (\<And>r. p r \<Longrightarrow> key (f r) = key r) \<Longrightarrow>
   find_row (\<lambda>x. key x = k) (upd_where p f xs) = Some (if p r then f r else r)"
  by (induction xs) (auto split: if_splits)

lemma wf_upsert:
  "wf xs \<Longrightarrow> (\<And>old. key old = key r \<Longrightarrow> key (merge old r) = key r) \<Longrightarrow>
   wf (upsert_row key merge r xs)"
proof (cases "key r \<in> key ` set xs")
  assume wf: "wf xs" and m: "\<And>old. key old = key r \<Longrightarrow> key (merge old r) = key r"
  case True
  then have "has_row (\<lambda>x. key x = key r) xs" by (auto simp: has_row_iff)
  moreover have "wf (upd_where (\<lambda>x. key x = key r) (\<lambda>old. merge old r) xs)"
    by (rule wf_upd [OF wf]) (simp add: m)
  ultimately show ?thesis by (simp add: upsert_row_def)
next
  assume "wf xs"
  case False
  then have "\<not> has_row (\<lambda>x. key x = key r) xs" by (auto simp: has_row_iff) (metis imageI)
  with False \<open>wf xs\<close> show ?thesis by (simp add: upsert_row_def wf_def)
qed

lemma find_after_upsert:
  "(\<And>old. key old = key r \<Longrightarrow> key (merge old r) = key r) \<Longrightarrow>
   find_row (\<lambda>x. key x = key r) (upsert_row key merge r xs) =
     Some (case find_row (\<lambda>x. key x = key r) xs of None \<Rightarrow> r | Some old \<Rightarrow> merge old r)"
proof (cases "find_row (\<lambda>x. key x = key r) xs")
  case None
  then have "\<not> has_row (\<lambda>x. key x = key r) xs" by (simp add: has_row_iff find_row_None)
  with None show ?thesis by (simp add: upsert_row_def find_row_append)
next
  case (Some old)
  assume m: "\<And>old. key old = key r \<Longrightarrow> key (merge old r) = key r"
  have "\<exists>x \<in> set xs. key x = key r" and k: "key old = key r"
    using find_row_Some [OF Some] by auto
  moreover have "find_row (\<lambda>x. key x = key r)
      (upd_where (\<lambda>x. key x = key r) (\<lambda>old. merge old r) xs) = Some (merge old r)"
    using find_after_update [OF Some, of "\<lambda>x. key x = key r" "\<lambda>old. merge old r"] m k by simp
  ultimately show ?thesis using Some by (simp add: upsert_row_def has_row_iff)
qed

end

section \<open>ORDER BY\<close>

text \<open>
  ORDER BY with a comparison of rows is stable insertion sort: rows that compare equal stay in
  insertion order.
\<close>

fun insort_by :: "('r \<Rightarrow> 'r \<Rightarrow> bool) \<Rightarrow> 'r \<Rightarrow> 'r list \<Rightarrow> 'r list" where
  "insort_by le x [] = [x]"
| "insort_by le x (y # ys) = (if le x y then x # y # ys else y # insort_by le x ys)"

fun order_by :: "('r \<Rightarrow> 'r \<Rightarrow> bool) \<Rightarrow> 'r list \<Rightarrow> 'r list" where
  "order_by le [] = []"
| "order_by le (x # xs) = insort_by le x (order_by le xs)"

lemma mset_insort_by [simp]: "mset (insort_by le x xs) = add_mset x (mset xs)"
  by (induction xs) auto

lemma mset_order_by [simp]: "mset (order_by le xs) = mset xs"
  by (induction xs) auto

lemma set_order_by [simp]: "set (order_by le xs) = set xs"
  by (metis mset_order_by set_mset_mset)

lemma length_order_by [simp]: "length (order_by le xs) = length xs"
  by (metis mset_order_by size_mset)

lemma distinct_map_order_by [simp]:
  "distinct (map key (order_by le xs)) = distinct (map key xs)"
  by (metis mset_map mset_order_by mset_eq_imp_distinct_iff)

locale total_preorder =
  fixes le :: "'r \<Rightarrow> 'r \<Rightarrow> bool"
  assumes total: "le x y \<or> le y x"
    and trans: "le x y \<Longrightarrow> le y z \<Longrightarrow> le x z"
begin

lemma sorted_insort_by: "sorted_wrt le xs \<Longrightarrow> sorted_wrt le (insort_by le x xs)"
proof (induction xs)
  case Nil
  then show ?case by simp
next
  case (Cons y ys)
  have set: "set (insort_by le x ys) = insert x (set ys)"
    by (metis mset_insort_by set_mset_mset set_mset_add_mset_insert)
  show ?case
  proof (cases "le x y")
    case True
    with Cons.prems show ?thesis by (auto intro: trans)
  next
    case False
    with total have "le y x" by blast
    with Cons False set show ?thesis by auto
  qed
qed

lemma sorted_order_by: "sorted_wrt le (order_by le xs)"
  by (induction xs) (auto intro: sorted_insort_by)

lemma order_by_first:
  assumes "order_by le xs = x # ys" and "y \<in> set xs"
  shows "le x y"
proof -
  have "sorted_wrt le (x # ys)" using sorted_order_by [of xs] assms(1) by simp
  moreover have "set (x # ys) = set xs" using set_order_by [of le xs] assms(1) by simp
  ultimately show ?thesis using assms(2) total [of x x] by auto
qed

end

end
