(* ===== verification/GoText.thy ===== *)
theory GoText
  imports Prelude
begin

text \<open>
  Go strings are byte sequences, so they are HOL strings. This theory models what the sources use
  of the packages \<open>strings\<close>, \<open>encoding/hex\<close> and \<open>encoding/base64\<close>: trimming,
  prefixes, substrings, ASCII case folding, hexadecimal and unpadded base64 text.
\<close>

section \<open>Package strings\<close>

definition ascii_space :: "char \<Rightarrow> bool" where
  "ascii_space c \<longleftrightarrow> c \<in> {CHR '' '', CHR 0x09, CHR 0x0A, CHR 0x0B, CHR 0x0C, CHR 0x0D}"

text \<open>The non-ASCII code points with the White_Space property, in UTF-8.\<close>

definition wide_spaces :: "string list" where
  "wide_spaces =
     [[CHR 0xC2, CHR 0x85], [CHR 0xC2, CHR 0xA0], [CHR 0xE1, CHR 0x9A, CHR 0x80],
      [CHR 0xE2, CHR 0x80, CHR 0x80], [CHR 0xE2, CHR 0x80, CHR 0x81], [CHR 0xE2, CHR 0x80, CHR 0x82],
      [CHR 0xE2, CHR 0x80, CHR 0x83], [CHR 0xE2, CHR 0x80, CHR 0x84], [CHR 0xE2, CHR 0x80, CHR 0x85],
      [CHR 0xE2, CHR 0x80, CHR 0x86], [CHR 0xE2, CHR 0x80, CHR 0x87], [CHR 0xE2, CHR 0x80, CHR 0x88],
      [CHR 0xE2, CHR 0x80, CHR 0x89], [CHR 0xE2, CHR 0x80, CHR 0x8A], [CHR 0xE2, CHR 0x80, CHR 0xA8],
      [CHR 0xE2, CHR 0x80, CHR 0xA9], [CHR 0xE2, CHR 0x80, CHR 0xAF], [CHR 0xE2, CHR 0x81, CHR 0x9F],
      [CHR 0xE3, CHR 0x80, CHR 0x80]]"

fun HasPrefix :: "string \<Rightarrow> string \<Rightarrow> bool" where
  "HasPrefix s [] = True"
| "HasPrefix [] (p # ps) = False"
| "HasPrefix (c # cs) (p # ps) = (c = p \<and> HasPrefix cs ps)"

definition HasSuffix :: "string \<Rightarrow> string \<Rightarrow> bool" where
  "HasSuffix s p = HasPrefix (rev s) (rev p)"

fun Contains :: "string \<Rightarrow> string \<Rightarrow> bool" where
  "Contains [] p = (p = [])"
| "Contains (c # cs) p = (HasPrefix (c # cs) p \<or> Contains cs p)"

text \<open>The length of the white space at the front, among given wide encodings.\<close>

definition space_len :: "string list \<Rightarrow> string \<Rightarrow> nat" where
  "space_len ws s =
     (case s of [] \<Rightarrow> 0
      | c # _ \<Rightarrow> if ascii_space c then 1
                 else (case find_row (HasPrefix s) ws of None \<Rightarrow> 0 | Some w \<Rightarrow> length w))"

function drop_space :: "string list \<Rightarrow> string \<Rightarrow> string" where
  "drop_space ws s =
     (let n = space_len ws s in if n = 0 \<or> s = [] then s else drop_space ws (drop n s))"
  by pat_completeness auto
termination
  by (relation "measure (\<lambda>(ws, s). length s)") (auto simp: Let_def)

declare drop_space.simps [simp del]

definition TrimLeftSpace :: "string \<Rightarrow> string" where
  "TrimLeftSpace s = drop_space wide_spaces s"

definition TrimRightSpace :: "string \<Rightarrow> string" where
  "TrimRightSpace s = rev (drop_space (map rev wide_spaces) (rev s))"

definition TrimSpace :: "string \<Rightarrow> string" where
  "TrimSpace s = TrimRightSpace (TrimLeftSpace s)"

definition lower_char :: "char \<Rightarrow> char" where
  "lower_char c = (if CHR ''A'' \<le> c \<and> c \<le> CHR ''Z'' then char_of (of_char c + 32 :: nat) else c)"

definition ToLower :: "string \<Rightarrow> string" where
  "ToLower s = map lower_char s"

definition upper_char :: "char \<Rightarrow> char" where
  "upper_char c = (if CHR ''a'' \<le> c \<and> c \<le> CHR ''z'' then char_of (of_char c - 32 :: nat) else c)"

definition ToUpper :: "string \<Rightarrow> string" where
  "ToUpper s = map upper_char s"

definition TrimSuffix :: "string \<Rightarrow> string \<Rightarrow> string" where
  "TrimSuffix s suf = (if HasSuffix s suf then take (length s - length suf) s else s)"

definition digit_char :: "char \<Rightarrow> bool" where
  "digit_char c \<longleftrightarrow> CHR ''0'' \<le> c \<and> c \<le> CHR ''9''"

definition alpha_char :: "char \<Rightarrow> bool" where
  "alpha_char c \<longleftrightarrow> (CHR ''A'' \<le> c \<and> c \<le> CHR ''Z'') \<or> (CHR ''a'' \<le> c \<and> c \<le> CHR ''z'')"

text \<open>\<open>strings.CutPrefix\<close>: the rest after the prefix, or nothing.\<close>

definition CutPrefix :: "string \<Rightarrow> string \<Rightarrow> string option" where
  "CutPrefix s p = (if HasPrefix s p then Some (drop (length p) s) else None)"

lemma HasPrefix_iff: "HasPrefix s p \<longleftrightarrow> (\<exists>r. s = p @ r)"
  by (induction s p rule: HasPrefix.induct) auto

lemma HasPrefix_append [simp]: "HasPrefix (p @ r) p"
  by (auto simp: HasPrefix_iff)

lemma CutPrefix_Some: "CutPrefix s p = Some r \<longleftrightarrow> s = p @ r"
  by (auto simp: CutPrefix_def HasPrefix_iff split: if_splits)

lemma Contains_iff: "Contains s p \<longleftrightarrow> (\<exists>a b. s = a @ p @ b)"
proof (induction s)
  case Nil
  then show ?case by auto
next
  case (Cons c cs)
  have "(\<exists>a b. c # cs = a @ p @ b) \<longleftrightarrow> (\<exists>b. c # cs = p @ b) \<or> (\<exists>a b. cs = a @ p @ b)"
    (is "?L = ?R")
  proof
    assume ?L
    then obtain a b where ab: "c # cs = a @ p @ b" by blast
    then show ?R by (cases a) auto
  next
    assume ?R
    then show ?L by (metis append_Cons append_Nil)
  qed
  with Cons show ?case by (simp add: HasPrefix_iff del: HasPrefix.simps)
qed

lemma drop_space_suffix: "\<exists>p. s = p @ drop_space ws s"
proof (induction ws s rule: drop_space.induct)
  case (1 ws s)
  show ?case
  proof (cases "space_len ws s = 0 \<or> s = []")
    case True
    then show ?thesis by (auto simp: drop_space.simps [of ws s] Let_def)
  next
    case False
    with 1 obtain p where "drop (space_len ws s) s = p @ drop_space ws (drop (space_len ws s) s)"
      by auto
    then have "s = (take (space_len ws s) s @ p) @ drop_space ws (drop (space_len ws s) s)"
      by (metis append.assoc append_take_drop_id)
    moreover have "drop_space ws s = drop_space ws (drop (space_len ws s) s)"
      using False by (subst drop_space.simps) (simp add: Let_def)
    ultimately show ?thesis by metis
  qed
qed

lemma drop_space_done: "space_len ws (drop_space ws s) = 0"
proof (induction ws s rule: drop_space.induct)
  case (1 ws s)
  show ?case
  proof (cases "space_len ws s = 0 \<or> s = []")
    case True
    then show ?thesis by (auto simp: drop_space.simps [of ws s] Let_def space_len_def)
  next
    case False
    then have "drop_space ws s = drop_space ws (drop (space_len ws s) s)"
      by (subst drop_space.simps) (simp add: Let_def)
    with 1 False show ?thesis by auto
  qed
qed

lemma drop_space_fix: "space_len ws s = 0 \<Longrightarrow> drop_space ws s = s"
  by (subst drop_space.simps) (simp add: Let_def)

text \<open>A string without white space in front keeps that when it is cut short at the end.\<close>

lemma space_len_prefix:
  assumes "space_len ws (s @ t) = 0" and "\<And>w. w \<in> set ws \<Longrightarrow> w \<noteq> []"
  shows "space_len ws s = 0"
proof (cases s)
  case Nil
  then show ?thesis by (simp add: space_len_def)
next
  case (Cons c cs)
  with assms have na: "\<not> ascii_space c"
    and nf: "find_row (HasPrefix (s @ t)) ws = None"
    by (auto simp: space_len_def split: if_splits option.splits dest: find_row_Some)
  from nf have "find_row (HasPrefix s) ws = None"
    by (auto simp: find_row_None HasPrefix_iff)
  with na Cons show ?thesis by (simp add: space_len_def)
qed

lemma wide_spaces_nonempty: "w \<in> set wide_spaces \<Longrightarrow> w \<noteq> []"
  by (auto simp: wide_spaces_def)

lemma TrimSpace_idem [simp]: "TrimSpace (TrimSpace s) = TrimSpace s"
proof -
  define l where "l = TrimLeftSpace s"
  define m where "m = TrimRightSpace l"
  have l0: "space_len wide_spaces l = 0"
    by (simp add: l_def TrimLeftSpace_def drop_space_done)
  obtain p where "rev l = p @ drop_space (map rev wide_spaces) (rev l)"
    using drop_space_suffix by blast
  then have "l = m @ rev p" by (metis TrimRightSpace_def m_def rev_append rev_rev_ident)
  with l0 have "space_len wide_spaces m = 0"
    by (metis space_len_prefix wide_spaces_nonempty)
  then have "TrimLeftSpace m = m" by (simp add: TrimLeftSpace_def drop_space_fix)
  moreover have "TrimRightSpace m = m"
    by (simp add: m_def TrimRightSpace_def drop_space_fix drop_space_done)
  ultimately show ?thesis by (simp add: TrimSpace_def l_def m_def)
qed

lemma TrimSpace_Nil [simp]: "TrimSpace [] = []"
  by (simp add: TrimSpace_def TrimLeftSpace_def TrimRightSpace_def drop_space.simps)

text \<open>ASCII text without white space is left alone.\<close>

definition plain_char :: "char \<Rightarrow> bool" where
  "plain_char c \<longleftrightarrow> \<not> ascii_space c \<and> of_char c < (128::nat)"

lemma wide_spaces_ends:
  "list_all (\<lambda>w. w \<noteq> [] \<and> \<not> plain_char (hd w) \<and> \<not> plain_char (hd (rev w))) wide_spaces"
  by (simp add: wide_spaces_def plain_char_def)

lemma wide_spaces_wide:
  assumes "w \<in> set wide_spaces"
  shows "\<exists>c r. w = c # r \<and> \<not> plain_char c" and "\<exists>c r. rev w = c # r \<and> \<not> plain_char c"
proof -
  have w: "w \<noteq> []" "\<not> plain_char (hd w)" "\<not> plain_char (hd (rev w))"
    using assms wide_spaces_ends by (simp_all add: list_all_iff)
  then show "\<exists>c r. w = c # r \<and> \<not> plain_char c" by (cases w) auto
  from w have "rev w \<noteq> []" "\<not> plain_char (hd (rev w))" by simp_all
  then show "\<exists>c r. rev w = c # r \<and> \<not> plain_char c" by (cases "rev w") auto
qed

lemma space_len_plain:
  assumes "list_all plain_char s" and "\<And>w. w \<in> set ws \<Longrightarrow> \<exists>c r. w = c # r \<and> \<not> plain_char c"
  shows "space_len ws s = 0"
proof (cases s)
  case Nil
  then show ?thesis by (simp add: space_len_def)
next
  case (Cons c cs)
  then have "find_row (HasPrefix s) ws = None"
    using assms by (fastforce simp: find_row_None)
  with Cons assms(1) show ?thesis by (simp add: space_len_def plain_char_def)
qed

lemma TrimSpace_plain: "list_all plain_char s \<Longrightarrow> TrimSpace s = s"
proof -
  assume s: "list_all plain_char s"
  have "space_len wide_spaces s = 0"
    by (rule space_len_plain [OF s]) (rule wide_spaces_wide(1))
  moreover have "space_len (map rev wide_spaces) (rev s) = 0"
    by (rule space_len_plain) (use s wide_spaces_wide(2) in \<open>auto simp: list_all_iff\<close>)
  ultimately show ?thesis
    by (simp add: TrimSpace_def TrimLeftSpace_def TrimRightSpace_def drop_space_fix)
qed

text \<open>\<open>strings.Fields\<close>: the maximal runs without white space.\<close>

fun take_field :: "string \<Rightarrow> string" where
  "take_field [] = []"
| "take_field (c # s) = (if space_len wide_spaces (c # s) \<noteq> 0 then [] else c # take_field s)"

lemma take_field_nonempty: "s \<noteq> [] \<Longrightarrow> space_len wide_spaces s = 0 \<Longrightarrow> take_field s \<noteq> []"
  by (cases s) auto

lemma length_drop_space: "length (drop_space ws s) \<le> length s"
  using drop_space_suffix [of s ws] by (metis le_add2 length_append)

function Fields :: "string \<Rightarrow> string list" where
  "Fields s =
     (let t = TrimLeftSpace s
      in if t = [] then [] else take_field t # Fields (drop (length (take_field t)) t))"
  by pat_completeness auto
termination
proof (relation "measure length")
  fix s t :: string
  assume t: "t = TrimLeftSpace s" "t \<noteq> []"
  then have "take_field t \<noteq> []"
    by (intro take_field_nonempty) (simp_all add: TrimLeftSpace_def drop_space_done)
  with t show "(drop (length (take_field t)) t, s) \<in> measure length"
    using length_drop_space [of wide_spaces s] length_greater_0_conv [of t]
    by (cases "take_field t") (auto simp: TrimLeftSpace_def simp del: length_greater_0_conv)
qed simp

declare Fields.simps [simp del]

text \<open>\<open>strings.Split(s, c)\<close> and \<open>strings.Join\<close> for a one-character separator.\<close>

fun Split :: "char \<Rightarrow> string \<Rightarrow> string list" where
  "Split c [] = [[]]"
| "Split c (x # s) =
     (if x = c then [] # Split c s
      else case Split c s of [] \<Rightarrow> [[x]] | l # ls \<Rightarrow> (x # l) # ls)"

fun Join :: "char \<Rightarrow> string list \<Rightarrow> string" where
  "Join c [] = []"
| "Join c [l] = l"
| "Join c (l # ls) = l @ c # Join c ls"

lemma Split_nonempty [simp]: "Split c s \<noteq> []"
  by (cases s) (auto split: list.splits)

lemma Join_Split: "Join c (Split c s) = s"
proof (induction s)
  case Nil
  then show ?case by simp
next
  case (Cons x s)
  obtain l ls where "Split c s = l # ls" by (cases "Split c s") auto
  with Cons show ?case by (cases ls) auto
qed

text \<open>\<open>strings.Index\<close> of a substring.\<close>

fun Index :: "string \<Rightarrow> string \<Rightarrow> nat option" where
  "Index [] p = (if p = [] then Some 0 else None)"
| "Index (c # s) p = (if HasPrefix (c # s) p then Some 0 else map_option Suc (Index s p))"

section \<open>Packages encoding/hex and encoding/base64\<close>

definition bytes_of :: "string \<Rightarrow> nat list" where
  "bytes_of s = map of_char s"

definition of_bytes :: "nat list \<Rightarrow> string" where
  "of_bytes bs = map char_of bs"

definition hex_digit :: "nat \<Rightarrow> char" where
  "hex_digit n = ''0123456789abcdef'' ! n"

definition hex_EncodeToString :: "string \<Rightarrow> string" where
  "hex_EncodeToString s = concat (map (\<lambda>b. [hex_digit (b div 16), hex_digit (b mod 16)]) (bytes_of s))"

text \<open>The alphabets of \<open>RawURLEncoding\<close> and \<open>RawStdEncoding\<close>.\<close>

definition url_alphabet :: string where
  "url_alphabet = ''ABCDEFGHIJKLMNOPQRSTUVWXYZabcdefghijklmnopqrstuvwxyz0123456789-_''"

definition std_alphabet :: string where
  "std_alphabet = ''ABCDEFGHIJKLMNOPQRSTUVWXYZabcdefghijklmnopqrstuvwxyz0123456789+/''"

fun sextets :: "nat list \<Rightarrow> nat list" where
  "sextets [] = []"
| "sextets [a] = [a div 4, (a mod 4) * 16]"
| "sextets [a, b] = [a div 4, (a mod 4) * 16 + b div 16, (b mod 16) * 4]"
| "sextets (a # b # c # r) =
     a div 4 # ((a mod 4) * 16 + b div 16) # ((b mod 16) * 4 + c div 64) # (c mod 64) # sextets r"

text \<open>Without strict mode the decoder ignores the unused low bits of the last character.\<close>

fun octets :: "nat list \<Rightarrow> nat list option" where
  "octets [] = Some []"
| "octets [w] = None"
| "octets [w, x] = Some [w * 4 + x div 16]"
| "octets [w, x, y] = Some [w * 4 + x div 16, (x mod 16) * 16 + y div 4]"
| "octets (w # x # y # z # r) =
     map_option (\<lambda>bs. (w * 4 + x div 16) # ((x mod 16) * 16 + y div 4) # ((y mod 4) * 64 + z) # bs)
       (octets r)"

fun index_of :: "char \<Rightarrow> string \<Rightarrow> nat option" where
  "index_of c [] = None"
| "index_of c (x # xs) = (if c = x then Some 0 else map_option Suc (index_of c xs))"

definition b64_EncodeToString :: "string \<Rightarrow> string \<Rightarrow> string" where
  "b64_EncodeToString alphabet s = map (\<lambda>n. alphabet ! n) (sextets (bytes_of s))"

text \<open>The decoder skips carriage returns and line feeds and rejects any other foreign character.\<close>

definition b64_DecodeString :: "string \<Rightarrow> string \<Rightarrow> string option" where
  "b64_DecodeString alphabet s =
     (let vs = map (\<lambda>c. index_of c alphabet) (filter (\<lambda>c. c \<noteq> CHR 0x0A \<and> c \<noteq> CHR 0x0D) s)
      in if None \<in> set vs then None else map_option of_bytes (octets (map the vs)))"

lemma hex_digit_plain: "n < 16 \<Longrightarrow> plain_char (hex_digit n)"
proof -
  assume "n < 16"
  then have "n < length ''0123456789abcdef''" by simp
  then have "hex_digit n \<in> set ''0123456789abcdef''" unfolding hex_digit_def by (rule nth_mem)
  then show ?thesis by (auto simp: plain_char_def ascii_space_def)
qed

lemma hex_plain: "list_all plain_char (hex_EncodeToString s)"
  by (auto simp: hex_EncodeToString_def list_all_iff bytes_of_def less_mult_imp_div_less
      intro!: hex_digit_plain)

lemma of_bytes_of [simp]: "of_bytes (bytes_of s) = s"
  by (simp add: of_bytes_def bytes_of_def map_idI)

lemma bytes_of_bound: "b \<in> set (bytes_of s) \<Longrightarrow> b < 256"
  by (auto simp: bytes_of_def)

lemma byte_split:
  fixes b :: nat
  assumes "b < 256"
  shows "b div 4 < 64" and "b div 16 < 16" and "b div 64 < 4"
  using assms by (simp_all add: less_mult_imp_div_less)

lemma sextet_arith:
  fixes a b c :: nat
  shows "(a mod 4) * 16 < 64"
    and "b < 256 \<Longrightarrow> (a mod 4) * 16 + b div 16 < 64"
    and "(b mod 16) * 4 < 64"
    and "c < 256 \<Longrightarrow> (b mod 16) * 4 + c div 64 < 64"
  using mod_less_divisor [of 4 a] mod_less_divisor [of 16 b] byte_split [of b] byte_split [of c]
  by linarith+

lemma sextets_bound: "\<forall>b \<in> set bs. b < 256 \<Longrightarrow> \<forall>x \<in> set (sextets bs). x < 64"
  by (induction bs rule: sextets.induct) (simp_all add: sextet_arith byte_split)

lemma octets_sextets: "\<forall>b \<in> set bs. b < 256 \<Longrightarrow> octets (sextets bs) = Some bs"
  by (induction bs rule: sextets.induct) (simp_all add: byte_split)

lemma index_of_nth: "distinct xs \<Longrightarrow> n < length xs \<Longrightarrow> index_of (xs ! n) xs = Some n"
proof (induction xs arbitrary: n)
  case Nil
  then show ?case by simp
next
  case (Cons x xs)
  then show ?case by (cases n) (auto simp: nth_eq_iff_index_eq)
qed

text \<open>The contract of an alphabet and the round trip it gives.\<close>

locale base64_alphabet =
  fixes alphabet :: string
  assumes distinct_alphabet: "distinct alphabet"
    and length_alphabet: "length alphabet = 64"
    and plain: "list_all plain_char alphabet"
begin

lemma no_newline: "CHR 0x0A \<notin> set alphabet" "CHR 0x0D \<notin> set alphabet"
  using plain by (auto simp: list_all_iff plain_char_def ascii_space_def)

lemma encode_plain: "list_all plain_char (b64_EncodeToString alphabet s)"
proof -
  have "\<forall>x \<in> set (sextets (bytes_of s)). x < length alphabet"
    using sextets_bound [of "bytes_of s"] bytes_of_bound length_alphabet by auto
  with plain show ?thesis by (auto simp: b64_EncodeToString_def list_all_iff)
qed

lemma trim_encode: "TrimSpace (b64_EncodeToString alphabet s) = b64_EncodeToString alphabet s"
  by (rule TrimSpace_plain) (rule encode_plain)

lemma decode_encode: "b64_DecodeString alphabet (b64_EncodeToString alphabet s) = Some s"
proof -
  let ?xs = "sextets (bytes_of s)"
  have lt: "x < 64" if "x \<in> set ?xs" for x
    using sextets_bound bytes_of_bound that by blast
  have keep: "filter (\<lambda>c. c \<noteq> CHR 0x0A \<and> c \<noteq> CHR 0x0D) (map (\<lambda>n. alphabet ! n) ?xs) =
      map (\<lambda>n. alphabet ! n) ?xs"
    using lt no_newline length_alphabet by (auto intro!: filter_True)
  have vals: "map (\<lambda>c. index_of c alphabet) (map (\<lambda>n. alphabet ! n) ?xs) = map Some ?xs"
    using lt distinct_alphabet length_alphabet by (auto simp: index_of_nth)
  have "octets ?xs = Some (bytes_of s)"
    by (rule octets_sextets) (simp add: bytes_of_bound)
  then show ?thesis
    unfolding b64_DecodeString_def b64_EncodeToString_def keep Let_def vals
    by (auto simp: comp_def)
qed

end

interpretation raw_url: base64_alphabet url_alphabet
  by unfold_locales (simp_all add: url_alphabet_def plain_char_def ascii_space_def)

interpretation raw_std: base64_alphabet std_alphabet
  by unfold_locales (simp_all add: std_alphabet_def plain_char_def ascii_space_def)

end
