(* ===== verification/GoTime.thy ===== *)
theory GoTime
  imports GoText
begin

text \<open>
  The text of an instant in the layout \<open>time.RFC3339Nano\<close>, which the store writes into every
  timestamp column and which the command signature covers: calendar date by the 400/100/4/1 year
  cycles, two-digit fields, a fraction without trailing zeros. The text determines the instant,
  and the textual order the SQLite backend sorts by is not the order of time.
\<close>

section \<open>Decimal fields\<close>

definition dec_digit :: "int \<Rightarrow> char" where
  "dec_digit n = char_of (48 + n)"

function dec_digits :: "int \<Rightarrow> string" where
  "dec_digits n = (if n < 10 then [dec_digit n] else dec_digits (n div 10) @ [dec_digit (n mod 10)])"
  by pat_completeness auto
termination
  by (relation "measure nat") auto

declare dec_digits.simps [simp del]

definition pad :: "nat \<Rightarrow> int \<Rightarrow> string" where
  "pad w n = replicate (w - length (dec_digits n)) (CHR ''0'') @ dec_digits n"

definition dec_val :: "string \<Rightarrow> int" where
  "dec_val s = foldl (\<lambda>a c. 10 * a + (of_char c - 48)) 0 s"

lemma of_dec_digit [simp]: "0 \<le> n \<Longrightarrow> n < 10 \<Longrightarrow> (of_char (dec_digit n) :: int) = 48 + n"
  by (simp add: dec_digit_def of_char_of)

lemma dec_val_snoc [simp]: "dec_val (s @ [c]) = 10 * dec_val s + (of_char c - 48)"
  by (simp add: dec_val_def)

lemma dec_val_digits [simp]: "0 \<le> n \<Longrightarrow> dec_val (dec_digits n) = n"
proof (induction n rule: dec_digits.induct)
  case (1 n)
  show ?case
  proof (cases "n < 10")
    case True
    with 1 show ?thesis by (simp add: dec_digits.simps [of n] dec_val_def)
  next
    case False
    with 1 show ?thesis by (simp add: dec_digits.simps [of n] pos_imp_zdiv_nonneg_iff)
  qed
qed

lemma dec_val_zeros [simp]: "dec_val (replicate k (CHR ''0'') @ s) = dec_val s"
  by (induction k) (simp_all add: dec_val_def)

lemma dec_val_pad [simp]: "0 \<le> n \<Longrightarrow> dec_val (pad w n) = n"
  by (simp add: pad_def)

lemma pad_inj: "pad w n = pad w m \<Longrightarrow> 0 \<le> n \<Longrightarrow> 0 \<le> m \<Longrightarrow> n = m"
  by (metis dec_val_pad)

lemma length_dec_digits: "n < 10 ^ Suc k \<Longrightarrow> length (dec_digits n) \<le> Suc k"
proof (induction k arbitrary: n)
  case 0
  then show ?case by (simp add: dec_digits.simps [of n])
next
  case (Suc k)
  have "n div 10 < 10 ^ Suc k"
    using Suc.prems div_mult_mod_eq [of n 10] pos_mod_sign [of 10 n] unfolding power_Suc [of 10 "Suc k"] by linarith
  with Suc.IH have "length (dec_digits (n div 10)) \<le> Suc k" by blast
  then show ?case by (simp add: dec_digits.simps [of n])
qed

lemma length_pad: "n < 10 ^ Suc k \<Longrightarrow> length (pad (Suc k) n) = Suc k"
  using length_dec_digits [of n k] by (simp add: pad_def)

lemma length_pad2: "n < 100 \<Longrightarrow> length (pad 2 n) = 2"
  using length_pad [of n 1] by (simp add: eval_nat_numeral)

lemma dash_not_dec_digits: "0 \<le> n \<Longrightarrow> c \<in> set (dec_digits n) \<Longrightarrow> c \<noteq> CHR ''-''"
proof (induction n rule: dec_digits.induct)
  case (1 n)
  have "dec_digit k \<noteq> CHR ''-''" if "0 \<le> k" "k < 10" for k
  proof
    assume "dec_digit k = CHR ''-''"
    then have "(of_char (dec_digit k) :: int) = 45" by simp
    with that show False by simp
  qed
  then have "dec_digit (n mod 10) \<noteq> CHR ''-''" "n < 10 \<Longrightarrow> dec_digit n \<noteq> CHR ''-''"
    using 1(2) by simp_all
  with 1 show ?case
    by (cases "n < 10") (auto simp: dec_digits.simps [of n] pos_imp_zdiv_nonneg_iff)
qed

lemma dash_not_pad: "0 \<le> n \<Longrightarrow> CHR ''-'' \<notin> set (pad w n)"
  using dash_not_dec_digits by (auto simp: pad_def)

section \<open>The calendar\<close>

definition leap_year :: "int \<Rightarrow> bool" where
  "leap_year y \<longleftrightarrow> y mod 4 = 0 \<and> (y mod 100 \<noteq> 0 \<or> y mod 400 = 0)"

definition month_lengths :: "int \<Rightarrow> nat list" where
  "month_lengths y = [31, if leap_year y then 29 else 28, 31, 30, 31, 30, 31, 31, 30, 31, 30, 31]"

text \<open>The month and day of the month (both from 1) of a day of the year (from 0).\<close>

fun month_day :: "nat list \<Rightarrow> nat \<Rightarrow> nat \<Rightarrow> nat \<times> nat" where
  "month_day [] m d = (m, Suc d)"
| "month_day (l # ls) m d = (if d < l \<or> ls = [] then (m, Suc d) else month_day ls (Suc m) (d - l))"

text \<open>
  The year and the day of the year of a day counted from 1 January of year 1: cycles of 400, 100,
  4 and 1 years; the last day of a 400 or 4 year cycle belongs to its last century or year.
\<close>

definition year_day :: "int \<Rightarrow> int \<times> int" where
  "year_day n =
     (let n400 = n div 146097; d = n mod 146097;
          q100 = d div 36524; n100 = q100 - q100 div 4; d = d - 36524 * n100;
          n4 = d div 1461; d = d - 1461 * n4;
          q1 = d div 365; n1 = q1 - q1 div 4; d = d - 365 * n1
      in (400 * n400 + 100 * n100 + 4 * n4 + n1 + 1, d))"

lemma cycle_mod: "0 \<le> r \<Longrightarrow> r < k \<Longrightarrow> (k * q + r) mod k = r" for k q r :: int
  by simp

lemma year_day_eq:
  assumes "year_day n = (y, d)"
  shows "0 \<le> d \<and> d < 366 \<and> (d = 365 \<longrightarrow> leap_year y) \<and>
    n = (y - 1) div 400 * 146097 + (y - 1) mod 400 div 100 * 36524
      + (y - 1) mod 100 div 4 * 1461 + (y - 1) mod 4 * 365 + d"
proof -
  define n400 a q100 where "n400 = n div 146097" and "a = n mod 146097" and "q100 = a div 36524"
  define n100 where "n100 = q100 - q100 div 4"
  define b where "b = a - 36524 * n100"
  define n4 where "n4 = b div 1461"
  define c where "c = b - 1461 * n4"
  define q1 where "q1 = c div 365"
  define n1 where "n1 = q1 - q1 div 4"
  have y: "y - 1 = 400 * n400 + 100 * n100 + 4 * n4 + n1" and d: "d = c - 365 * n1"
    using assms unfolding year_day_def Let_def n400_def [symmetric] a_def [symmetric]
      q100_def [symmetric] n100_def [symmetric] b_def [symmetric] n4_def [symmetric]
      c_def [symmetric] q1_def [symmetric] n1_def [symmetric] by simp_all
  have four: "q div 4 = (if q = 4 then 1 else 0)" if "0 \<le> q" "q \<le> 4" for q :: int
  proof (cases "q = 4")
    case False
    with that have "q < 4" by simp
    with that(1) False show ?thesis by (simp only: div_pos_pos_trivial if_False)
  qed simp
  have a: "0 \<le> a" "a < 146097" "n = 146097 * n400 + a"
    by (simp_all add: a_def n400_def)
  have q100: "0 \<le> q100" "q100 \<le> 4" "36524 * q100 \<le> a" "a < 36524 * q100 + 36524"
    using a by (simp_all add: q100_def)
  have n100: "0 \<le> n100" "n100 \<le> 3" "0 \<le> b" "b < 36525"
    using q100 a four [OF q100(1,2)] by (auto simp: n100_def b_def)
  have n4: "0 \<le> n4" "n4 \<le> 24" "0 \<le> c" "c < 1461"
    using n100 by (simp_all add: n4_def c_def)
  have q1: "0 \<le> q1" "q1 \<le> 4" "365 * q1 \<le> c" "c < 365 * q1 + 365"
    using n4 by (simp_all add: q1_def)
  have n1: "0 \<le> n1" "n1 \<le> 3" "0 \<le> d" "d < 366"
    using q1 n4 four [OF q1(1,2)] by (auto simp: n1_def d)
  have leap: "leap_year y" if "d = 365"
  proof -
    have q: "q1 = 4" using that q1 n1 n4 four [OF q1(1,2)] by (cases "q1 = 4") (auto simp: n1_def d)
    then have n1: "n1 = 3" "c = 1460" using that four [OF q1(1,2)] by (simp_all add: n1_def d)
    have y4: "y = 400 * n400 + 100 * n100 + 4 * n4 + 4" using y n1 by simp
    have "y mod 400 = 0" if "y mod 100 = 0"
    proof -
      have "y = 4 * n4 + 4 + 100 * (4 * n400 + n100)" using y4 by simp
      then have z: "(4 * n4 + 4) mod 100 = 0" using that by (simp only: mod_mult_self2)
      have "n4 = 24"
      proof (rule ccontr)
        assume "n4 \<noteq> 24"
        then have "(4 * n4 + 4) mod 100 = 4 * n4 + 4" using n4 by simp
        with z n4 show False by simp
      qed
      then have b: "b = 36524" using n1 by (simp add: c_def)
      then have a': "a = 36524 * (n100 + 1)" by (simp add: b_def)
      have "q100 = 4"
      proof (rule ccontr)
        assume "q100 \<noteq> 4"
        then have "n100 = q100" using four [OF q100(1,2)] by (simp add: n100_def)
        with a' q100 show False by simp
      qed
      then have "n100 = 3" using four [OF q100(1,2)] by (simp add: n100_def)
      with y4 \<open>n4 = 24\<close> have "y = 400 * (n400 + 1)" by simp
      then show ?thesis by simp
    qed
    moreover have "y = 4 * (100 * n400 + 25 * n100 + n4 + 1)" using y4 by simp
    then have "y mod 4 = 0" by (simp only: mod_mult_self1_is_0)
    ultimately show ?thesis by (auto simp: leap_year_def)
  qed
  have "(y - 1) div 400 = n400" "(y - 1) mod 400 = 100 * n100 + 4 * n4 + n1"
    using n100 n4 n1 by (auto simp: y add.assoc)
  moreover have "(100 * n100 + 4 * n4 + n1) div 100 = n100"
    using n4 n1 by (auto simp: add.assoc)
  moreover have "(y - 1) mod 100 = 4 * n4 + n1"
  proof -
    have "y - 1 = 100 * (4 * n400 + n100) + (4 * n4 + n1)" by (simp add: y)
    then show ?thesis by (simp only:) (rule cycle_mod, use n4 n1 in simp_all)
  qed
  moreover have "(4 * n4 + n1) div 4 = n4" "(y - 1) mod 4 = n1"
  proof -
    show "(4 * n4 + n1) div 4 = n4" using n1 by simp
    have "y - 1 = 4 * (100 * n400 + 25 * n100 + n4) + n1" by (simp add: y)
    then show "(y - 1) mod 4 = n1" by (simp only:) (rule cycle_mod, use n1 in simp_all)
  qed
  ultimately show ?thesis
    using a(3) n1 leap by (simp add: d b_def c_def)
qed

lemma year_day_inj: "year_day n = year_day m \<Longrightarrow> n = m"
  using year_day_eq [of n "fst (year_day n)" "snd (year_day n)"]
    year_day_eq [of m "fst (year_day m)" "snd (year_day m)"] by simp

lemma month_day_eq:
  assumes "month_day ls m d = (m', k)"
  shows "m \<le> m' \<and> d + 1 = sum_list (take (m' - m) ls) + k"
  using assms
proof (induction ls m d rule: month_day.induct)
  case (1 m d)
  then show ?case by simp
next
  case (2 l ls m d)
  show ?case
  proof (cases "d < l \<or> ls = []")
    case True
    with 2 show ?thesis by auto
  next
    case False
    with 2 have IH: "Suc m \<le> m'" "d - l + 1 = sum_list (take (m' - Suc m) ls) + k" by auto
    then have "m' - m = Suc (m' - Suc m)" by simp
    with IH False show ?thesis by auto
  qed
qed

lemma month_day_inj: "month_day ls m d = month_day ls m e \<Longrightarrow> d = e"
  using month_day_eq [of ls m d "fst (month_day ls m d)" "snd (month_day ls m d)"]
    month_day_eq [of ls m e "fst (month_day ls m e)" "snd (month_day ls m e)"] by simp

lemma month_day_range:
  assumes "month_day ls m d = (m', k)" and "\<forall>l \<in> set ls. l \<le> b" and "d < sum_list ls + c"
  shows "m' \<le> m + length ls \<and> k \<le> b + c"
  using assms
proof (induction ls m d rule: month_day.induct)
  case (1 m d)
  then show ?case by simp
next
  case (2 l ls m d)
  show ?case
  proof (cases "d < l \<or> ls = []")
    case True
    with 2 show ?thesis by auto
  next
    case False
    then have "d - l < sum_list ls + c" using 2 by auto
    then show ?thesis using 2 False by auto
  qed
qed

lemma month_day_bounds:
  assumes "d < 366" and "month_day (month_lengths y) 1 d = (m, k)"
  shows "m < 100 \<and> k < 100"
proof -
  have "sum_list (month_lengths y) \<ge> 365" "length (month_lengths y) = 12"
    "\<forall>l \<in> set (month_lengths y). l \<le> 31" by (simp_all add: month_lengths_def)
  then show ?thesis using month_day_range [OF assms(2), of 31 1] assms(1) by simp
qed

section \<open>RFC 3339\<close>

definition trim_zeros :: "string \<Rightarrow> string" where
  "trim_zeros s = rev (dropWhile (\<lambda>c. c = CHR ''0'') (rev s))"

definition fraction :: "int \<Rightarrow> string" where
  "fraction ns = (if ns = 0 then [] else CHR ''.'' # trim_zeros (pad 9 ns))"

definition clock_fields :: "time \<Rightarrow> int \<times> int \<times> int \<times> int" where
  "clock_fields t =
     (let r = t mod (24 * hour); s = r div second
      in (s div 3600, s div 60 mod 60, s mod 60, r mod second))"

definition date_text :: "int \<Rightarrow> string" where
  "date_text n =
     (let (y, d) = year_day n; (m, k) = month_day (month_lengths y) 1 (nat d)
      in pad 4 y @ ''-'' @ pad 2 (int m) @ ''-'' @ pad 2 (int k))"

definition clock_text :: "time \<Rightarrow> string" where
  "clock_text t =
     (let (hh, mi, ss, ns) = clock_fields t
      in pad 2 hh @ '':'' @ pad 2 mi @ '':'' @ pad 2 ss @ fraction ns @ ''Z'')"

text \<open>\<open>t.UTC().Format(time.RFC3339Nano)\<close>, for years from 1 on.\<close>

definition RFC3339Nano :: "time \<Rightarrow> string" where
  "RFC3339Nano t = date_text ((t - zero_time) div (24 * hour)) @ CHR ''T'' # clock_text t"

lemma clock_fields_bounds:
  assumes "clock_fields t = (hh, mi, ss, ns)"
  shows "0 \<le> hh \<and> hh < 100 \<and> 0 \<le> mi \<and> mi < 100 \<and> 0 \<le> ss \<and> ss < 100 \<and> 0 \<le> ns \<and> ns < 1000000000"
proof -
  define r where "r = t mod (24 * hour)"
  define s where "s = r div second"
  have r: "0 \<le> r" "r < 86400000000000" by (simp_all add: r_def)
  have s: "0 \<le> s" "s < 86400"
    using r mult_div_mod_eq [of second r] pos_mod_bound [of second r] pos_mod_sign [of second r]
    unfolding s_def [symmetric] by linarith+
  have eqs: "hh = s div 3600" "mi = s div 60 mod 60" "ss = s mod 60" "ns = r mod second"
    using assms by (simp_all only: clock_fields_def Let_def r_def [symmetric] s_def [symmetric] prod.inject)
  have "0 \<le> hh" "hh < 100" unfolding eqs using s by simp_all
  moreover have "0 \<le> mi" "mi < 100" "0 \<le> ss" "ss < 100"
    unfolding eqs using pos_mod_bound [of 60 "s div 60"] pos_mod_bound [of 60 s] by simp_all
  moreover have "0 \<le> ns" "ns < 1000000000"
    unfolding eqs by (simp_all only: pos_mod_sign pos_mod_bound zero_less_numeral)
  ultimately show ?thesis by blast
qed

lemma clock_fields_eq:
  assumes "clock_fields t = (hh, mi, ss, ns)"
  shows "t mod (24 * hour) = ((hh * 60 + mi) * 60 + ss) * second + ns"
proof -
  define r where "r = t mod (24 * hour)"
  define s where "s = r div second"
  have f: "hh = s div 3600" "mi = s div 60 mod 60" "ss = s mod 60" "ns = r mod second"
    using assms by (simp_all only: clock_fields_def Let_def r_def [symmetric] s_def [symmetric] prod.inject)
  have "s div 3600 = s div 60 div 60" using zdiv_zmult2_eq [of 60 s 60] by simp
  then have "(hh * 60 + mi) * 60 + ss = s" by (simp only: f div_mult_mod_eq)
  then have "((hh * 60 + mi) * 60 + ss) * second + ns = s * second + r mod second"
    by (simp only: f(4))
  also have "\<dots> = r" unfolding s_def by (rule div_mult_mod_eq)
  finally show ?thesis by (simp only: r_def)
qed

lemma trim_zeros_split: "\<exists>k. u = trim_zeros u @ replicate k (CHR ''0'')"
proof -
  define w where "w = takeWhile (\<lambda>c. c = CHR ''0'') (rev u)"
  have "w = replicate (length w) (CHR ''0'')"
    unfolding w_def by (rule replicate_eqI) (auto dest: set_takeWhileD)
  moreover have "rev u = w @ dropWhile (\<lambda>c. c = CHR ''0'') (rev u)" by (simp add: w_def)
  then have "rev (rev u) = trim_zeros u @ rev w" unfolding trim_zeros_def by (metis rev_append)
  ultimately show ?thesis by (metis rev_replicate rev_rev_ident)
qed

lemma trim_zeros_inj:
  assumes "trim_zeros s = trim_zeros t" and "length s = length t"
  shows "s = t"
proof -
  obtain i where i: "s = trim_zeros s @ replicate i (CHR ''0'')" using trim_zeros_split by blast
  obtain j where j: "t = trim_zeros t @ replicate j (CHR ''0'')" using trim_zeros_split by blast
  have "length s = length (trim_zeros s) + i" using arg_cong [OF i, of length] by simp
  moreover have "length t = length (trim_zeros t) + j" using arg_cong [OF j, of length] by simp
  ultimately have "i = j" using assms by simp
  with i j assms(1) show ?thesis by simp
qed

lemma fraction_inj:
  assumes "fraction n = fraction m" and "0 \<le> n" "n < 1000000000" and "0 \<le> m" "m < 1000000000"
  shows "n = m"
proof -
  have len: "length (pad 9 k) = 9" if "k < 1000000000" for k
  proof -
    have "k < 10 ^ Suc 8" using that by simp
    from length_pad [OF this] show ?thesis by simp
  qed
  show ?thesis
  proof (cases "n = 0 \<or> m = 0")
    case True
    with assms(1) show ?thesis by (auto simp: fraction_def split: if_splits)
  next
    case False
    then have "trim_zeros (pad 9 n) = trim_zeros (pad 9 m)" using assms(1) by (simp add: fraction_def)
    moreover have "length (pad 9 n) = length (pad 9 m)" by (simp only: len assms(3,5))
    ultimately have "pad 9 n = pad 9 m" by (rule trim_zeros_inj)
    then show ?thesis using assms(2,4) by (rule pad_inj)
  qed
qed

lemma year_day_pos:
  assumes "0 \<le> n" and "year_day n = (y, d)"
  shows "1 \<le> y"
proof (rule ccontr)
  assume "\<not> 1 \<le> y"
  then have "y - 1 < 0" by simp
  then have c: "(y - 1) div 400 < 0" by simp
  have "(y - 1) mod 400 div 100 \<le> 3" "(y - 1) mod 100 div 4 \<le> 24" "(y - 1) mod 4 \<le> 3" by simp_all
  with c year_day_eq [OF assms(2)] assms(1) show False by linarith
qed

lemma div_mod_eqI: "a div k = b div k \<Longrightarrow> a mod k = b mod k \<Longrightarrow> a = b" for a b k :: int
  by (metis div_mult_mod_eq)

lemma split_at: "xs @ c # r = ys @ c # r' \<Longrightarrow> c \<notin> set xs \<Longrightarrow> c \<notin> set ys \<Longrightarrow> xs = ys \<and> r = r'"
proof (induction xs arbitrary: ys)
  case Nil
  then show ?case by (cases ys) auto
next
  case (Cons x xs)
  then show ?case by (cases ys) auto
qed

lemma date_text_inj:
  assumes "date_text n @ r = date_text n' @ r'" and "0 \<le> n" and "0 \<le> n'"
  shows "n = n' \<and> r = r'"
proof -
  obtain y d y' d' where yd: "year_day n = (y, d)" "year_day n' = (y', d')" by fastforce
  obtain m k m' k' where mk: "month_day (month_lengths y) 1 (nat d) = (m, k)"
    "month_day (month_lengths y') 1 (nat d') = (m', k')" by fastforce
  have d: "0 \<le> d" "d < 366" "0 \<le> d'" "d' < 366" using yd year_day_eq by blast+
  then have mb: "m < 100" "k < 100" "m' < 100" "k' < 100"
    using month_day_bounds [OF _ mk(1)] month_day_bounds [OF _ mk(2)] by auto
  have y: "0 \<le> y" "0 \<le> y'" using year_day_pos assms(2,3) yd by fastforce+
  have eq: "pad 4 y @ CHR ''-'' # pad 2 (int m) @ CHR ''-'' # pad 2 (int k) @ r =
      pad 4 y' @ CHR ''-'' # pad 2 (int m') @ CHR ''-'' # pad 2 (int k') @ r'"
    using assms(1) unfolding date_text_def yd mk Let_def prod.case by simp
  have "pad 4 y = pad 4 y'" and
    rest: "pad 2 (int m) @ CHR ''-'' # pad 2 (int k) @ r = pad 2 (int m') @ CHR ''-'' # pad 2 (int k') @ r'"
    using split_at [OF eq dash_not_pad [OF y(1)] dash_not_pad [OF y(2)]] by auto
  then have "y = y'" using pad_inj y by blast
  from rest mb have fields: "pad 2 (int m) = pad 2 (int m')" "pad 2 (int k) = pad 2 (int k')" "r = r'"
    by (simp_all add: length_pad2)
  then have "m = m'" "k = k'" using pad_inj [of 2 "int m" "int m'"] pad_inj [of 2 "int k" "int k'"] by simp_all
  with mk \<open>y = y'\<close> have "nat d = nat d'" using month_day_inj by metis
  with d yd \<open>y = y'\<close> have "n = n'" using year_day_inj by (metis nat_0_le)
  with fields(3) show ?thesis by blast
qed

lemma clock_text_inj:
  assumes "clock_text t = clock_text u"
  shows "t mod (24 * hour) = u mod (24 * hour)"
proof -
  obtain h i s n h' i' s' n' where cf: "clock_fields t = (h, i, s, n)" "clock_fields u = (h', i', s', n')"
    by (metis prod_cases4)
  note cb = clock_fields_bounds [OF cf(1)] clock_fields_bounds [OF cf(2)]
  from assms cb have fields: "pad 2 h = pad 2 h'" "pad 2 i = pad 2 i'" "pad 2 s = pad 2 s'"
    "fraction n = fraction n'"
    by (simp_all add: clock_text_def cf length_pad2)
  then have "h = h'" "i = i'" "s = s'" "n = n'"
    using cb pad_inj fraction_inj by blast+
  then show ?thesis using clock_fields_eq [OF cf(1)] clock_fields_eq [OF cf(2)] by simp
qed

theorem RFC3339Nano_inj:
  assumes "RFC3339Nano t = RFC3339Nano u" and "zero_time \<le> t" and "zero_time \<le> u"
  shows "t = u"
proof -
  have n: "0 \<le> (t - zero_time) div (24 * hour)" "0 \<le> (u - zero_time) div (24 * hour)"
    using assms(2,3) by (simp_all add: pos_imp_zdiv_nonneg_iff)
  have N: "(t - zero_time) div (24 * hour) = (u - zero_time) div (24 * hour)"
    and c: "CHR ''T'' # clock_text t = CHR ''T'' # clock_text u"
    using date_text_inj [OF assms(1) [unfolded RFC3339Nano_def] n] by blast+
  from c have "t mod (24 * hour) = u mod (24 * hour)" by (intro clock_text_inj) simp
  then have "(t - zero_time) mod (24 * hour) = (u - zero_time) mod (24 * hour)"
    by (rule mod_diff_cong) (rule refl)
  with N have "t - zero_time = u - zero_time" by (rule div_mod_eqI)
  then show ?thesis by simp
qed

text \<open>Columns are sorted by their text on SQLite; half a second sorts after half a second and a microsecond.\<close>

definition text_le :: "time \<Rightarrow> time \<Rightarrow> bool" where
  "text_le t u \<longleftrightarrow> RFC3339Nano t \<le> RFC3339Nano u"

section \<open>Parsing\<close>

text \<open>
  \<open>time.Parse(time.RFC3339Nano, s)\<close>: fixed two-digit fields except the hour, which may have one
  digit, an optional fraction of which nine digits count, and \<open>Z\<close> or a numeric offset.
\<close>

definition fixed_num :: "nat \<Rightarrow> string \<Rightarrow> (int \<times> string) option" where
  "fixed_num w s =
     (if length (take w s) = w \<and> list_all digit_char (take w s) then Some (dec_val (take w s), drop w s)
      else None)"

definition lit :: "char \<Rightarrow> string \<Rightarrow> string option" where
  "lit c s = (case s of x # r \<Rightarrow> if x = c then Some r else None | [] \<Rightarrow> None)"

definition parse_hour :: "string \<Rightarrow> (int \<times> string) option" where
  "parse_hour s = (case fixed_num 2 s of Some r \<Rightarrow> Some r | None \<Rightarrow> fixed_num 1 s)"

definition parse_fraction :: "string \<Rightarrow> int \<times> string" where
  "parse_fraction s =
     (case s of
        c # r \<Rightarrow>
          let ds = takeWhile digit_char r
          in if (c = CHR ''.'' \<or> c = CHR '','') \<and> ds \<noteq> []
             then (dec_val (take 9 (ds @ replicate 9 (CHR ''0''))), drop (length ds) r) else (0, s)
      | [] \<Rightarrow> (0, s))"

definition parse_zone :: "string \<Rightarrow> (time \<times> string) option" where
  "parse_zone s =
     (case s of
        [] \<Rightarrow> None
      | c # r \<Rightarrow>
          if c = CHR ''Z'' then Some (0, r)
          else if c = CHR ''+'' \<or> c = CHR ''-'' then
            Option.bind (fixed_num 2 r) (\<lambda>(hh, r).
            Option.bind (lit (CHR '':'') r) (\<lambda>r.
            Option.bind (fixed_num 2 r) (\<lambda>(mm, r).
              if hh \<le> 24 \<and> mm < 60
              then Some ((if c = CHR ''-'' then -1 else 1) * (hh * 60 + mm) * minute, r) else None)))
          else None)"

definition day_number :: "int \<Rightarrow> nat \<Rightarrow> nat \<Rightarrow> int" where
  "day_number y m d =
     (y - 1) div 400 * 146097 + (y - 1) mod 400 div 100 * 36524 + (y - 1) mod 100 div 4 * 1461
     + (y - 1) mod 4 * 365 + int (sum_list (take (m - 1) (month_lengths y))) + int d - 1"

definition parse_date :: "string \<Rightarrow> (int \<times> string) option" where
  "parse_date s =
     Option.bind (fixed_num 4 s) (\<lambda>(y, r).
     Option.bind (lit (CHR ''-'') r) (\<lambda>r.
     Option.bind (fixed_num 2 r) (\<lambda>(m, r).
     Option.bind (lit (CHR ''-'') r) (\<lambda>r.
     Option.bind (fixed_num 2 r) (\<lambda>(d, r).
       if 1 \<le> m \<and> m \<le> 12 \<and> 1 \<le> d \<and> nat d \<le> month_lengths y ! (nat m - 1)
       then Some (day_number y (nat m) (nat d), r) else None)))))"

definition parse_clock :: "string \<Rightarrow> (int \<times> string) option" where
  "parse_clock s =
     Option.bind (parse_hour s) (\<lambda>(hh, r).
     Option.bind (lit (CHR '':'') r) (\<lambda>r.
     Option.bind (fixed_num 2 r) (\<lambda>(mi, r).
     Option.bind (lit (CHR '':'') r) (\<lambda>r.
     Option.bind (fixed_num 2 r) (\<lambda>(ss, r).
       if hh < 24 \<and> mi < 60 \<and> ss < 60
       then (case parse_fraction r of (ns, r) \<Rightarrow> Some ((hh * 3600 + mi * 60 + ss) * second + ns, r))
       else None)))))"

definition time_Parse :: "string \<Rightarrow> time option" where
  "time_Parse s =
     Option.bind (parse_date s) (\<lambda>(n, r).
     Option.bind (lit (CHR ''T'') r) (\<lambda>r.
     Option.bind (parse_clock r) (\<lambda>(c, r).
     Option.bind (parse_zone r) (\<lambda>(off, r).
       if r = [] then Some (zero_time + n * (24 * hour) + c - off) else None))))"

text \<open>\<open>t.Truncate(d)\<close> rounds down to a multiple of \<open>d\<close> since year 1.\<close>

definition Truncate :: "time \<Rightarrow> time \<Rightarrow> time" where
  "Truncate t d = t - (t - zero_time) mod d"

lemma Truncate_le: "0 < d \<Longrightarrow> Truncate t d \<le> t"
  by (simp add: Truncate_def)

lemma Truncate_gt: "0 < d \<Longrightarrow> t - d < Truncate t d"
  using pos_mod_bound [of d "t - zero_time"] by (simp add: Truncate_def)

section \<open>Round trip\<close>

lemma digit_dec_digit: "0 \<le> n \<Longrightarrow> n < 10 \<Longrightarrow> digit_char (dec_digit n)"
proof -
  assume n: "0 \<le> n" "n < 10"
  then have "int (of_char (dec_digit n)) = 48 + n" by (simp only: of_nat_of_char of_dec_digit)
  moreover have "(of_char (CHR ''0'') :: nat) = 48" "(of_char (CHR ''9'') :: nat) = 57" by simp_all
  ultimately show ?thesis unfolding digit_char_def less_eq_char_def using n by linarith
qed

lemma digits_dec_digits: "0 \<le> n \<Longrightarrow> list_all digit_char (dec_digits n)"
proof (induction n rule: dec_digits.induct)
  case (1 n)
  then show ?case
    by (cases "n < 10") (auto simp: dec_digits.simps [of n] digit_dec_digit pos_imp_zdiv_nonneg_iff)
qed

lemma digits_pad: "0 \<le> n \<Longrightarrow> list_all digit_char (pad w n)"
  using digits_dec_digits [of n] by (auto simp: pad_def list_all_iff digit_char_def)

lemma fixed_num_pad: "0 \<le> n \<Longrightarrow> n < 10 ^ Suc k \<Longrightarrow> fixed_num (Suc k) (pad (Suc k) n @ r) = Some (n, r)"
  using length_pad [of n k] digits_pad [of n "Suc k"] by (simp add: fixed_num_def)

lemma fixed_num_pad2: "0 \<le> n \<Longrightarrow> n < 100 \<Longrightarrow> fixed_num 2 (pad 2 n @ r) = Some (n, r)"
  using fixed_num_pad [of n 1 r] by (simp add: eval_nat_numeral)

lemma fixed_num_pad4: "0 \<le> n \<Longrightarrow> n < 10000 \<Longrightarrow> fixed_num 4 (pad 4 n @ r) = Some (n, r)"
  using fixed_num_pad [of n 3 r] by (simp add: eval_nat_numeral)

lemma month_day_valid:
  assumes "month_day ls m d = (m', k)" and "d < sum_list ls"
  shows "m \<le> m' \<and> m' < m + length ls \<and> 1 \<le> k \<and> k \<le> ls ! (m' - m)"
  using assms
proof (induction ls m d rule: month_day.induct)
  case (1 m d)
  then show ?case by simp
next
  case (2 l ls m d)
  show ?case
  proof (cases "d < l \<or> ls = []")
    case True
    with 2 show ?thesis by auto
  next
    case False
    with 2 have IH: "Suc m \<le> m'" "m' < Suc m + length ls" "1 \<le> k" "k \<le> ls ! (m' - Suc m)" by auto
    then have "m' - m = Suc (m' - Suc m)" by simp
    with IH show ?thesis by simp
  qed
qed

lemma parse_date_text:
  assumes "0 \<le> n" and "fst (year_day n) < 10000"
  shows "parse_date (date_text n @ r) = Some (n, r)"
proof -
  obtain y d where yd: "year_day n = (y, d)" by fastforce
  obtain m k where mk: "month_day (month_lengths y) 1 (nat d) = (m, k)" by fastforce
  note eq = year_day_eq [OF yd]
  have y: "1 \<le> y" "y < 10000" using year_day_pos [OF assms(1) yd] assms(2) yd by simp_all
  have "sum_list (month_lengths y) = (if leap_year y then 366 else 365)" by (simp add: month_lengths_def)
  moreover have "0 \<le> d" "d < 366" "d = 365 \<longrightarrow> leap_year y" using eq by blast+
  ultimately have "nat d < sum_list (month_lengths y)" by (cases "d = 365") auto
  then have v: "1 \<le> m" "m < 1 + length (month_lengths y)" "1 \<le> k" "k \<le> month_lengths y ! (m - 1)"
    using month_day_valid [OF mk] by auto
  have l: "length (month_lengths y) = 12" "\<forall>l \<in> set (month_lengths y). l \<le> 31" by (simp_all add: month_lengths_def)
  have "month_lengths y ! (m - 1) \<le> 31" using v l(1) by (intro bspec [OF l(2)] nth_mem) linarith
  then have b: "m < 100" "k < 100" using v l(1) by linarith+
  have "nat d + 1 = sum_list (take (m - 1) (month_lengths y)) + k" using month_day_eq [OF mk] by simp
  moreover have "0 \<le> d" using eq by blast
  ultimately have "int (sum_list (take (m - 1) (month_lengths y))) + int k = d + 1" by linarith
  moreover have "n = (y - 1) div 400 * 146097 + (y - 1) mod 400 div 100 * 36524
      + (y - 1) mod 100 div 4 * 1461 + (y - 1) mod 4 * 365 + d" using eq by blast
  ultimately have "day_number y m k = n" unfolding day_number_def by linarith
  moreover have "date_text n @ r = pad 4 y @ CHR ''-'' # pad 2 (int m) @ CHR ''-'' # pad 2 (int k) @ r"
    by (simp only: date_text_def yd mk Let_def prod.case append.simps append_assoc)
  moreover have "nat (int m) = m" "nat (int k) = k" by simp_all
  ultimately show ?thesis using y v b l(1)
    by (simp add: parse_date_def fixed_num_pad4 fixed_num_pad2 lit_def)
qed

lemma digit_not_Z: "\<not> digit_char (CHR ''Z'')"
  by (simp add: digit_char_def)

lemma parse_fraction_text:
  assumes "0 \<le> ns" and "ns < 1000000000"
  shows "parse_fraction (fraction ns @ ''Z'') = (ns, ''Z'')"
proof (cases "ns = 0")
  case True
  then show ?thesis by (simp add: fraction_def parse_fraction_def)
next
  case False
  define p where "p = pad 9 ns"
  have len: "length p = 9" using length_pad [of ns 8] assms by (simp add: p_def eval_nat_numeral)
  obtain k where k: "p = trim_zeros p @ replicate k (CHR ''0'')" using trim_zeros_split by blast
  have "list_all digit_char p" using digits_pad [OF assms(1)] by (simp add: p_def)
  then have digits: "list_all digit_char (trim_zeros p)" by (metis k list_all_append)
  have val: "dec_val p = ns" using assms by (simp add: p_def)
  have ne: "trim_zeros p \<noteq> []"
  proof
    assume "trim_zeros p = []"
    then have "p = replicate k (CHR ''0'') @ []" using k by simp
    then have "dec_val p = dec_val []" by (metis dec_val_zeros)
    with val False show False by (simp add: dec_val_def)
  qed
  have "takeWhile digit_char (trim_zeros p @ ''Z'') = trim_zeros p"
    using digits digit_not_Z by (simp add: takeWhile_append list_all_iff)
  moreover have "take 9 (trim_zeros p @ replicate 9 (CHR ''0'')) = p"
  proof -
    have "length (trim_zeros p) + k = 9" using len k by (metis length_append length_replicate)
    then have "take 9 (trim_zeros p @ replicate 9 (CHR ''0'')) = trim_zeros p @ replicate k (CHR ''0'')" by simp
    with k show ?thesis by simp
  qed
  ultimately show ?thesis using False ne val by (simp add: fraction_def parse_fraction_def p_def [symmetric] Let_def)
qed

lemma parse_clock_text: "parse_clock (clock_text t) = Some (t mod (24 * hour), ''Z'')"
proof -
  obtain hh mi ss ns where f: "clock_fields t = (hh, mi, ss, ns)" by (cases "clock_fields t") auto
  note b = clock_fields_bounds [OF f] and e = clock_fields_eq [OF f]
  have "t mod (24 * hour) < 24 * hour" by simp
  then have lt: "((hh * 60 + mi) * 60 + ss) * second + ns < 24 * hour" by (simp only: e)
  have pos: "0 \<le> mi" "0 \<le> ss" "0 \<le> ns" using b by auto
  have "X * second + ns < 24 * hour \<Longrightarrow> X < 86400" for X using pos(3) by simp
  from this [OF lt] have hh: "hh < 24" using pos by simp
  have "mi = t mod (24 * hour) div second div 60 mod 60" "ss = t mod (24 * hour) div second mod 60"
    using f by (simp_all only: clock_fields_def Let_def prod.inject)
  then have lt: "mi < 60" "ss < 60" by (simp_all only: pos_mod_bound zero_less_numeral)
  have "(hh * 3600 + mi * 60 + ss) * second + ns = t mod (24 * hour)" using e by simp
  then show ?thesis
    using b hh lt parse_fraction_text [of ns]
    by (simp add: clock_text_def f parse_clock_def parse_hour_def fixed_num_pad2 lit_def)
qed

lemma time_Parse_RFC3339Nano:
  assumes "zero_time \<le> t" and "fst (year_day ((t - zero_time) div (24 * hour))) < 10000"
  shows "time_Parse (RFC3339Nano t) = Some t"
proof -
  define n where "n = (t - zero_time) div (24 * hour)"
  have "0 \<le> n" using assms(1) by (simp add: n_def pos_imp_zdiv_nonneg_iff)
  then have d: "parse_date (date_text n @ r) = Some (n, r)" for r using assms(2) by (intro parse_date_text) (simp_all add: n_def)
  have "t mod (24 * hour) = (t - zero_time) mod (24 * hour)"
  proof -
    have "(t - zero_time) mod (24 * hour) = (t - zero_time mod (24 * hour)) mod (24 * hour)" by (simp add: mod_diff_right_eq)
    then show ?thesis by (simp add: zero_time_def)
  qed
  then have "zero_time + n * (24 * hour) + t mod (24 * hour) = t"
    unfolding n_def using div_mult_mod_eq [of "t - zero_time" "24 * hour"] by linarith
  moreover have "RFC3339Nano t = date_text n @ CHR ''T'' # clock_text t" by (simp only: RFC3339Nano_def n_def)
  moreover have "lit (CHR ''T'') (CHR ''T'' # r) = Some r" "parse_zone ''Z'' = Some (0, [])" for r
    by (simp_all add: lit_def parse_zone_def)
  ultimately show ?thesis by (simp only: time_Parse_def d parse_clock_text bind.bind_lunit prod.case) simp
qed

end
