(* ===== verification/Json.thy ===== *)
theory Json
  imports GoTime
begin

text \<open>
  JSON as the program uses it: documents as \<open>encoding/json\<close> decodes them into \<open>any\<close> with
  \<open>UseNumber\<close> (numbers stay texts), the decoder, the compact printer of \<open>json.Marshal\<close> with its
  HTML escapes, and the normal form of a decoded object (one entry per key, keys sorted), with
  the round trip of printing and decoding. Texts are taken to be valid UTF-8 byte strings.
\<close>

datatype json =
    JNull
  | JBool bool
  | JNum string
  | JStr string
  | JArr "json list"
  | JObj "(string \<times> json) list"

section \<open>Strings\<close>

definition hex_char :: "nat \<Rightarrow> char" where
  "hex_char n = (if n < 10 then char_of (48 + n) else char_of (87 + n))"

definition hex_value :: "char \<Rightarrow> nat option" where
  "hex_value c =
     (let n = of_char c
      in if 48 \<le> n \<and> n \<le> 57 then Some (n - 48)
         else if 97 \<le> n \<and> n \<le> 102 then Some (n - 87)
         else if 65 \<le> n \<and> n \<le> 70 then Some (n - 55) else None)"

definition quad :: "char \<Rightarrow> char \<Rightarrow> char \<Rightarrow> char \<Rightarrow> nat option" where
  "quad a b c d =
     (case (hex_value a, hex_value b, hex_value c, hex_value d) of
        (Some p, Some q, Some r, Some s) \<Rightarrow> Some (((p * 16 + q) * 16 + r) * 16 + s)
      | _ \<Rightarrow> None)"

text \<open>The UTF-8 encoding of a code point.\<close>

definition utf8 :: "nat \<Rightarrow> string" where
  "utf8 n =
     (if n < 128 then [char_of n]
      else if n < 2048 then [char_of (192 + n div 64), char_of (128 + n mod 64)]
      else if n < 65536
      then [char_of (224 + n div 4096), char_of (128 + n div 64 mod 64), char_of (128 + n mod 64)]
      else [char_of (240 + n div 262144), char_of (128 + n div 4096 mod 64),
            char_of (128 + n div 64 mod 64), char_of (128 + n mod 64)])"

definition backslash :: char where "backslash = CHR 0x5C"
definition dquote :: char where "dquote = CHR 0x22"

definition simple_escape :: "char \<Rightarrow> char option" where
  "simple_escape c =
     (if c = dquote \<or> c = backslash \<or> c = CHR ''/'' then Some c
      else if c = CHR ''b'' then Some (CHR 0x08) else if c = CHR ''f'' then Some (CHR 0x0C)
      else if c = CHR ''n'' then Some (CHR 0x0A) else if c = CHR ''r'' then Some (CHR 0x0D)
      else if c = CHR ''t'' then Some (CHR 0x09) else None)"

text \<open>The text of one byte inside a string literal.\<close>

definition escape_char :: "char \<Rightarrow> string" where
  "escape_char c =
     (let n = of_char c :: nat
      in if c = dquote \<or> c = backslash then [backslash, c]
         else if n = 8 then [backslash, CHR ''b''] else if n = 12 then [backslash, CHR ''f'']
         else if n = 10 then [backslash, CHR ''n''] else if n = 13 then [backslash, CHR ''r'']
         else if n = 9 then [backslash, CHR ''t'']
         else if n < 32 \<or> c = CHR ''<'' \<or> c = CHR ''>'' \<or> c = CHR ''&''
         then backslash # ''u00'' @ [hex_char (n div 16), hex_char (n mod 16)]
         else [c])"

text \<open>The line separators U+2028 and U+2029 are escaped too.\<close>

fun escape :: "string \<Rightarrow> string" where
  "escape [] = []"
| "escape (c # s) =
     (case s of
        d # e # r \<Rightarrow>
          (if of_char c = (226::nat) \<and> of_char d = (128::nat) \<and> of_char e \<in> {168, 169::nat}
           then backslash # ''u202'' @ [hex_char (of_char e - 160)] @ escape r
           else escape_char c @ escape s)
      | _ \<Rightarrow> escape_char c @ escape s)"

definition print_string :: "string \<Rightarrow> string" where
  "print_string s = dquote # escape s @ [dquote]"

text \<open>
  A \<open>\u\<close> escape: a high surrogate followed by the escape of a low one is one code point, any
  other surrogate is U+FFFD.
\<close>

definition surrogate_pair :: "nat \<Rightarrow> string \<Rightarrow> nat option" where
  "surrogate_pair n r =
     (if 55296 \<le> n \<and> n < 56320 then
        (case r of
           x # y # a # b # c # d # _ \<Rightarrow>
             (case quad a b c d of
                Some m \<Rightarrow>
                  if x = backslash \<and> y = CHR ''u'' \<and> 56320 \<le> m \<and> m < 57344
                  then Some (65536 + (n - 55296) * 1024 + (m - 56320)) else None
              | None \<Rightarrow> None)
         | _ \<Rightarrow> None)
      else None)"

definition lone_rune :: "nat \<Rightarrow> string" where
  "lone_rune n = utf8 (if 55296 \<le> n \<and> n < 57344 then 65533 else n)"

text \<open>
  The body of a string literal after the opening quote: its value and what follows the closing
  quote.
\<close>

fun unquote :: "string \<Rightarrow> (string \<times> string) option" where
  "unquote [] = None"
| "unquote (c # s) =
     (if c = dquote then Some ([], s)
      else if c = backslash then
        (case s of
           [] \<Rightarrow> None
         | e # t \<Rightarrow>
             if e = CHR ''u'' then
               (case t of
                  a # b # p # q # r \<Rightarrow>
                    (case quad a b p q of
                       None \<Rightarrow> None
                     | Some n \<Rightarrow>
                         (case surrogate_pair n r of
                            Some m \<Rightarrow> map_option (\<lambda>(v, z). (utf8 m @ v, z)) (unquote (drop 6 r))
                          | None \<Rightarrow> map_option (\<lambda>(v, z). (lone_rune n @ v, z)) (unquote r)))
                | _ \<Rightarrow> None)
             else
               (case simple_escape e of
                  None \<Rightarrow> None
                | Some v \<Rightarrow> map_option (\<lambda>(w, z). (v # w, z)) (unquote t)))
      else if of_char c < (32::nat) then None
      else map_option (\<lambda>(w, z). (c # w, z)) (unquote s))"

lemmas string_consts = backslash_def dquote_def

lemma hex_value_char: "n < 16 \<Longrightarrow> hex_value (hex_char n) = Some n"
  by (auto simp: hex_value_def hex_char_def of_char_of Let_def)

lemma quad_zero_zero: "a < 16 \<Longrightarrow> b < 16 \<Longrightarrow>
   quad (CHR ''0'') (CHR ''0'') (hex_char a) (hex_char b) = Some (a * 16 + b)"
  by (simp add: quad_def hex_value_char) (simp add: hex_value_def)

lemma quad_separator: "a \<in> {8, 9} \<Longrightarrow>
   quad (CHR ''2'') (CHR ''0'') (CHR ''2'') (hex_char a) = Some (8224 + a)"
  by (auto simp: quad_def hex_value_def hex_char_def Let_def)

lemma unquote_escape_char:
  assumes "unquote r = Some (v, z)"
  shows "unquote (escape_char c @ r) = Some (c # v, z)"
proof -
  have b: "(of_char c :: nat) < 256" by simp
  consider "c \<in> {dquote, backslash}" | "of_char c \<in> {8, 9, 10, 12, 13 :: nat}"
    | "c \<notin> {dquote, backslash}" "of_char c \<notin> {8, 9, 10, 12, 13 :: nat}"
      "of_char c < (32::nat) \<or> c \<in> {CHR ''<'', CHR ''>'', CHR ''&''}"
    | "c \<notin> {dquote, backslash}" "\<not> of_char c < (32::nat)" "c \<notin> {CHR ''<'', CHR ''>'', CHR ''&''}"
    by blast
  then show ?thesis
  proof cases
    case 1
    then show ?thesis using assms
      by (auto simp: escape_char_def string_consts simple_escape_def Let_def)
  next
    case 2
    then have "(of_char c :: nat) \<in> of_char ` {CHR 0x08, CHR 0x09, CHR 0x0A, CHR 0x0C, CHR 0x0D}" by simp
    then have "c \<in> {CHR 0x08, CHR 0x09, CHR 0x0A, CHR 0x0C, CHR 0x0D}"
      by (simp only: inj_image_mem_iff [OF inj_of_char])
    then show ?thesis using assms
      by (auto simp: escape_char_def string_consts simple_escape_def Let_def)
  next
    case 3
    define n where "n = (of_char c :: nat)"
    have n: "n < 128" "char_of n = c" using 3(3) by (auto simp: n_def)
    have e: "escape_char c = backslash # ''u00'' @ [hex_char (n div 16), hex_char (n mod 16)]"
      using 3 by (auto simp: escape_char_def Let_def n_def)
    have q: "quad (CHR ''0'') (CHR ''0'') (hex_char (n div 16)) (hex_char (n mod 16)) = Some n"
      using quad_zero_zero [of "n div 16" "n mod 16"] n by simp
    show ?thesis using assms n
      by (simp add: e q surrogate_pair_def lone_rune_def utf8_def) (simp add: string_consts)
  next
    case 4
    then show ?thesis using assms by (auto simp: escape_char_def Let_def)
  qed
qed

lemma escape_plain:
  assumes "\<nexists>d e t. s = d # e # t \<and> of_char c = (226::nat) \<and> of_char d = (128::nat) \<and> of_char e \<in> {168, 169::nat}"
  shows "escape (c # s) = escape_char c @ escape s"
proof (cases "\<exists>d e t. s = d # e # t")
  case True
  then obtain d e t where s: "s = d # e # t" by blast
  with assms show ?thesis by (subst escape.simps(2)) (auto simp del: escape.simps)
next
  case False
  then show ?thesis by (subst escape.simps(2)) (simp del: escape.simps split: list.splits)
qed

declare escape.simps(2) [simp del]

theorem unquote_escape: "unquote (escape s @ dquote # r) = Some (s, r)"
proof (induction s rule: length_induct)
  case (1 u)
  show ?case
  proof (cases u)
    case Nil
    then show ?thesis by simp
  next
    case (Cons c s)
    show ?thesis
    proof (cases "\<exists>d e t. s = d # e # t \<and> of_char c = (226::nat) \<and> of_char d = (128::nat) \<and> of_char e \<in> {168, 169::nat}")
      case True
      then obtain d e t where s: "s = d # e # t" "of_char c = (226::nat)" "of_char d = (128::nat)"
        "of_char e \<in> {168, 169::nat}" by blast
      have c: "c = char_of (226::nat)" "d = char_of (128::nat)" using s(2,3) by (metis char_of_char)+
      have e: "e = char_of (168::nat) \<or> e = char_of (169::nat)"
        using s(4) by (metis char_of_char insertE singletonD)
      have IH: "unquote (escape t @ dquote # r) = Some (t, r)" using 1 Cons s(1) by simp
      note sep = quad_separator [of 8] quad_separator [of 9]
      from e show ?thesis
      proof
        assume "e = char_of (168::nat)"
        with c s(1) IH sep Cons show ?thesis
          by (simp add: escape.simps surrogate_pair_def lone_rune_def utf8_def) (simp add: string_consts)
      next
        assume "e = char_of (169::nat)"
        with c s(1) IH sep Cons show ?thesis
          by (simp add: escape.simps surrogate_pair_def lone_rune_def utf8_def) (simp add: string_consts)
      qed
    next
      case False
      moreover have "unquote (escape s @ dquote # r) = Some (s, r)" using 1 Cons by simp
      ultimately show ?thesis by (simp add: Cons escape_plain unquote_escape_char)
    qed
  qed
qed

section \<open>Values\<close>

definition skip_ws :: "string \<Rightarrow> string" where
  "skip_ws s = dropWhile (\<lambda>c. c = CHR '' '' \<or> c = CHR 0x09 \<or> c = CHR 0x0A \<or> c = CHR 0x0D) s"

definition number_char :: "char \<Rightarrow> bool" where
  "number_char c \<longleftrightarrow> digit_char c \<or> c = CHR ''-'' \<or> c = CHR ''+'' \<or> c = CHR ''.'' \<or> c = CHR ''e'' \<or> c = CHR ''E''"

definition exponent_ok :: "string \<Rightarrow> bool" where
  "exponent_ok s =
     (case s of
        [] \<Rightarrow> True
      | c # r \<Rightarrow>
          (c = CHR ''e'' \<or> c = CHR ''E'') \<and>
          (case r of
             d # t \<Rightarrow>
               if d = CHR ''+'' \<or> d = CHR ''-'' then t \<noteq> [] \<and> list_all digit_char t
               else list_all digit_char r
           | [] \<Rightarrow> False))"

definition fraction_ok :: "string \<Rightarrow> bool" where
  "fraction_ok s =
     (case s of
        c # r \<Rightarrow>
          if c = CHR ''.''
          then takeWhile digit_char r \<noteq> [] \<and> exponent_ok (dropWhile digit_char r)
          else exponent_ok s
      | [] \<Rightarrow> True)"

definition valid_number :: "string \<Rightarrow> bool" where
  "valid_number s =
     (let s = (case s of c # r \<Rightarrow> if c = CHR ''-'' then r else s | [] \<Rightarrow> s)
      in case s of
           [] \<Rightarrow> False
         | c # r \<Rightarrow>
             if c = CHR ''0'' then fraction_ok r
             else digit_char c \<and> fraction_ok (dropWhile digit_char r))"

definition parse_number :: "string \<Rightarrow> (json \<times> string) option" where
  "parse_number s =
     (let n = takeWhile number_char s
      in if valid_number n then Some (JNum n, dropWhile number_char s) else None)"

text \<open>
  The decoder, with fuel: every level of nesting and every element takes at least one byte, so
  twice the length of the text is enough.
\<close>

fun parse_value :: "nat \<Rightarrow> string \<Rightarrow> (json \<times> string) option"
  and parse_elems :: "nat \<Rightarrow> string \<Rightarrow> (json list \<times> string) option"
  and parse_members :: "nat \<Rightarrow> string \<Rightarrow> ((string \<times> json) list \<times> string) option" where
  "parse_value 0 s = None"
| "parse_value (Suc k) s =
     (case skip_ws s of
        [] \<Rightarrow> None
      | c # r \<Rightarrow>
          if c = dquote then map_option (\<lambda>(v, z). (JStr v, z)) (unquote r)
          else if c = CHR ''['' then
            (case skip_ws r of
               [] \<Rightarrow> None
             | d # t \<Rightarrow> if d = CHR '']'' then Some (JArr [], t)
                        else map_option (\<lambda>(vs, z). (JArr vs, z)) (parse_elems k r))
          else if c = CHR ''{'' then
            (case skip_ws r of
               [] \<Rightarrow> None
             | d # t \<Rightarrow> if d = CHR ''}'' then Some (JObj [], t)
                        else map_option (\<lambda>(ms, z). (JObj ms, z)) (parse_members k r))
          else (case CutPrefix (c # r) ''null'' of
                  Some z \<Rightarrow> Some (JNull, z)
                | None \<Rightarrow>
                    (case CutPrefix (c # r) ''true'' of
                       Some z \<Rightarrow> Some (JBool True, z)
                     | None \<Rightarrow>
                         (case CutPrefix (c # r) ''false'' of
                            Some z \<Rightarrow> Some (JBool False, z)
                          | None \<Rightarrow> parse_number (c # r)))))"
| "parse_elems 0 s = None"
| "parse_elems (Suc k) s =
     (case parse_value k s of
        None \<Rightarrow> None
      | Some (v, z) \<Rightarrow>
          (case skip_ws z of
             [] \<Rightarrow> None
           | c # r \<Rightarrow>
               if c = CHR '']'' then Some ([v], r)
               else if c = CHR '','' then map_option (\<lambda>(vs, y). (v # vs, y)) (parse_elems k r)
               else None))"
| "parse_members 0 s = None"
| "parse_members (Suc k) s =
     (case skip_ws s of
        [] \<Rightarrow> None
      | q # t \<Rightarrow>
          if q \<noteq> dquote then None
          else (case unquote t of
                  None \<Rightarrow> None
                | Some (key, z) \<Rightarrow>
                    (case skip_ws z of
                       [] \<Rightarrow> None
                     | c # r \<Rightarrow>
                         if c \<noteq> CHR '':'' then None
                         else (case parse_value k r of
                                 None \<Rightarrow> None
                               | Some (v, y) \<Rightarrow>
                                   (case skip_ws y of
                                      [] \<Rightarrow> None
                                    | d # x \<Rightarrow>
                                        if d = CHR ''}'' then Some ([(key, v)], x)
                                        else if d = CHR '',''
                                        then map_option (\<lambda>(ms, w). ((key, v) # ms, w)) (parse_members k x)
                                        else None)))))"

text \<open>\<open>Decode\<close> reads one value and leaves the rest; \<open>json.Unmarshal\<close> wants nothing but white space after it.\<close>

definition json_decode :: "string \<Rightarrow> (json \<times> string) option" where
  "json_decode s = parse_value (2 * length s + 2) s"

definition json_unmarshal :: "string \<Rightarrow> json option" where
  "json_unmarshal s =
     (case json_decode s of Some (v, z) \<Rightarrow> if skip_ws z = [] then Some v else None | None \<Rightarrow> None)"

fun commas :: "string list \<Rightarrow> string" where
  "commas [] = []"
| "commas [x] = x"
| "commas (x # y # xs) = x @ CHR '','' # commas (y # xs)"

fun print_json :: "json \<Rightarrow> string" where
  "print_json JNull = ''null''"
| "print_json (JBool b) = (if b then ''true'' else ''false'')"
| "print_json (JNum n) = n"
| "print_json (JStr s) = print_string s"
| "print_json (JArr vs) = CHR ''['' # commas (map print_json vs) @ '']''"
| "print_json (JObj ms) = CHR ''{'' # commas (map (\<lambda>(k, v). print_string k @ CHR '':'' # print_json v) ms) @ ''}''"

fun numbers_ok :: "json \<Rightarrow> bool" where
  "numbers_ok (JNum n) = (valid_number n \<and> list_all number_char n)"
| "numbers_ok (JArr vs) = (\<forall>v \<in> set vs. numbers_ok v)"
| "numbers_ok (JObj ms) = (\<forall>m \<in> set ms. numbers_ok (snd m))"
| "numbers_ok _ = True"

definition no_number_head :: "string \<Rightarrow> bool" where
  "no_number_head r = (case r of [] \<Rightarrow> True | c # _ \<Rightarrow> \<not> number_char c)"

lemma skip_ws_Cons:
  "skip_ws (c # r) = (if c = CHR '' '' \<or> c = CHR 0x09 \<or> c = CHR 0x0A \<or> c = CHR 0x0D then skip_ws r else c # r)"
  by (simp add: skip_ws_def)

lemma number_head: "valid_number n \<Longrightarrow> \<exists>c t. n = c # t \<and> (digit_char c \<or> c = CHR ''-'')"
  by (auto simp: valid_number_def Let_def digit_char_def split: list.splits if_splits)

lemma print_head:
  assumes "numbers_ok j"
  shows "\<exists>c t. print_json j = c # t \<and> c \<notin> {CHR '' '', CHR 0x09, CHR 0x0A, CHR 0x0D, CHR '']'', CHR ''}''}"
proof (cases j)
  case (JNum n)
  with assms obtain c t where "n = c # t" "digit_char c \<or> c = CHR ''-''" using number_head [of n] by auto
  then show ?thesis using JNum by (auto simp: digit_char_def)
qed (auto simp: print_string_def dquote_def)

lemma print_skip_ws: "numbers_ok j \<Longrightarrow> skip_ws (print_json j @ r) = print_json j @ r"
  using print_head [of j] by (auto simp: skip_ws_Cons)

lemma parse_number_print:
  assumes "numbers_ok (JNum n)" and "no_number_head r"
  shows "parse_number (n @ r) = Some (JNum n, r)"
proof -
  have "takeWhile number_char (n @ r) = n" "dropWhile number_char (n @ r) = r"
    using assms by (auto simp: list_all_iff no_number_head_def split: list.splits)
  then show ?thesis using assms by (simp add: parse_number_def)
qed

lemma parse_value_number:
  assumes "numbers_ok (JNum n)" and "no_number_head r"
  shows "parse_value (Suc k) (n @ r) = Some (JNum n, r)"
proof -
  obtain c t where n: "n = c # t" "digit_char c \<or> c = CHR ''-''"
    using assms(1) number_head [of n] by auto
  then have "skip_ws (n @ r) = c # t @ r" using print_skip_ws [OF assms(1), of r] by simp
  moreover have "c \<notin> {dquote, CHR ''['', CHR ''{'', CHR ''n'', CHR ''t'', CHR ''f''}"
    using n(2) by (auto simp: digit_char_def dquote_def)
  ultimately show ?thesis using parse_number_print [OF assms] n(1)
    by (auto simp: CutPrefix_def)
qed

declare parse_value.simps(2) [simp del] parse_elems.simps(2) [simp del] parse_members.simps(2) [simp del]

lemma parse_elems_print:
  assumes "\<And>v r k. v \<in> set vs \<Longrightarrow> no_number_head r \<Longrightarrow> 2 * length (print_json v) \<le> k \<Longrightarrow>
      parse_value k (print_json v @ r) = Some (v, r)"
    and "vs \<noteq> []" and "2 * length (commas (map print_json vs)) < k"
  shows "parse_elems k (commas (map print_json vs) @ CHR '']'' # r) = Some (vs, r)"
  using assms
proof (induction vs arbitrary: k)
  case Nil
  then show ?case by simp
next
  case (Cons v vs)
  from Cons.prems(3) obtain k' where k: "k = Suc k'" by (cases k) auto
  show ?case
  proof (cases vs)
    case Nil
    have "parse_value k' (print_json v @ CHR '']'' # r) = Some (v, CHR '']'' # r)"
      using Cons.prems(1,3) Nil k by (simp add: no_number_head_def number_char_def digit_char_def)
    then show ?thesis using Nil k by (simp add: parse_elems.simps skip_ws_Cons)
  next
    case (Cons w ws)
    define rest where "rest = commas (map print_json vs) @ CHR '']'' # r"
    have c: "commas (map print_json (v # vs)) = print_json v @ CHR '','' # commas (map print_json vs)"
      using Cons by simp
    have "parse_value k' (print_json v @ CHR '','' # rest) = Some (v, CHR '','' # rest)"
      using Cons.prems(1) Cons.prems(3) k c
      by (simp add: no_number_head_def number_char_def digit_char_def)
    moreover have "parse_elems k' rest = Some (vs, r)"
      unfolding rest_def using Cons.IH Cons.prems k c Cons by simp
    ultimately show ?thesis using k c by (simp add: parse_elems.simps skip_ws_Cons rest_def)
  qed
qed

abbreviation print_member :: "string \<times> json \<Rightarrow> string" where
  "print_member m \<equiv> (case m of (key, v) \<Rightarrow> print_string key @ CHR '':'' # print_json v)"

lemma parse_members_step:
  assumes "parse_value k (print_json v @ r) = Some (v, r)"
  shows "parse_members (Suc k) (print_member (key, v) @ r) =
    (case skip_ws r of
       [] \<Rightarrow> None
     | d # x \<Rightarrow>
         if d = CHR ''}'' then Some ([(key, v)], x)
         else if d = CHR '','' then map_option (\<lambda>(ms, w). ((key, v) # ms, w)) (parse_members k x)
         else None)"
proof -
  have "unquote (escape key @ dquote # CHR '':'' # print_json v @ r) =
      Some (key, CHR '':'' # print_json v @ r)" by (rule unquote_escape)
  then show ?thesis using assms
    by (simp add: parse_members.simps print_string_def skip_ws_Cons) (simp add: dquote_def)
qed

lemma parse_members_print:
  assumes "\<And>m r k. m \<in> set ms \<Longrightarrow> no_number_head r \<Longrightarrow> 2 * length (print_json (snd m)) \<le> k \<Longrightarrow>
      parse_value k (print_json (snd m) @ r) = Some (snd m, r)"
    and "ms \<noteq> []" and "2 * length (commas (map print_member ms)) < k"
  shows "parse_members k (commas (map print_member ms) @ CHR ''}'' # r) = Some (ms, r)"
  using assms
proof (induction ms arbitrary: k)
  case Nil
  then show ?case by simp
next
  case (Cons m ms)
  from Cons.prems(3) obtain k' where k: "k = Suc k'" by (cases k) auto
  obtain key v where m: "m = (key, v)" by fastforce
  show ?case
  proof (cases ms)
    case Nil
    have "parse_value k' (print_json v @ CHR ''}'' # r) = Some (v, CHR ''}'' # r)"
      using Cons.prems(1) [of m] Cons.prems(3) Nil k m
      by (simp add: no_number_head_def number_char_def digit_char_def)
    from parse_members_step [OF this, of key] show ?thesis using Nil k m by (simp add: skip_ws_Cons)
  next
    case (Cons m' ms')
    define rest where "rest = commas (map print_member ms) @ CHR ''}'' # r"
    have c: "commas (map print_member (m # ms)) = print_member m @ CHR '','' # commas (map print_member ms)"
      using Cons by simp
    have "parse_value k' (print_json v @ CHR '','' # rest) = Some (v, CHR '','' # rest)"
      using Cons.prems(1) [of m] Cons.prems(3) k c m
      by (simp add: no_number_head_def number_char_def digit_char_def)
    from parse_members_step [OF this, of key]
    have "parse_members (Suc k') (print_member m @ CHR '','' # rest) =
        map_option (\<lambda>(ms, w). ((key, v) # ms, w)) (parse_members k' rest)"
      using m by (simp add: skip_ws_Cons)
    moreover have "parse_members k' rest = Some (ms, r)"
      unfolding rest_def using Cons.IH Cons.prems k c Cons by simp
    ultimately show ?thesis using k c m by (simp add: rest_def)
  qed
qed

theorem parse_print:
  assumes "numbers_ok j" and "no_number_head r" and "2 * length (print_json j) \<le> k"
  shows "parse_value k (print_json j @ r) = Some (j, r)"
  using assms
proof (induction j arbitrary: k r)
  case (JNum n)
  then obtain k' where "k = Suc k'" using number_head [of n] by (cases k) auto
  then show ?case using JNum parse_value_number by simp
next
  case (JStr s)
  then obtain k' where k: "k = Suc k'" by (cases k) (auto simp: print_string_def)
  have "unquote (escape s @ dquote # r) = Some (s, r)" by (rule unquote_escape)
  then show ?case using k
    by (simp add: parse_value.simps print_string_def skip_ws_Cons) (simp add: dquote_def)
next
  case (JArr vs)
  then obtain k' where k: "k = Suc k'" by (cases k) auto
  show ?case
  proof (cases vs)
    case Nil
    then show ?thesis using k by (simp add: parse_value.simps skip_ws_Cons dquote_def)
  next
    case (Cons v ws)
    obtain c t where h: "print_json v = c # t"
      "c \<notin> {CHR '' '', CHR 0x09, CHR 0x0A, CHR 0x0D, CHR '']'', CHR ''}''}"
      using print_head [of v] JArr.prems(1) Cons by auto
    then obtain t' where c: "commas (map print_json vs) = c # t'" using Cons by (cases ws) auto
    have "parse_elems k' (commas (map print_json vs) @ CHR '']'' # r) = Some (vs, r)"
      using JArr Cons k by (intro parse_elems_print) auto
    then show ?thesis using k c h(2) by (simp add: parse_value.simps skip_ws_Cons dquote_def)
  qed
next
  case (JObj ms)
  then obtain k' where k: "k = Suc k'" by (cases k) auto
  show ?case
  proof (cases ms)
    case Nil
    then show ?thesis using k by (simp add: parse_value.simps skip_ws_Cons dquote_def)
  next
    case (Cons m ms')
    then obtain t where c: "commas (map print_member ms) = dquote # t"
      by (cases m; cases ms') (auto simp: print_string_def)
    have "parse_members k' (commas (map print_member ms) @ CHR ''}'' # r) = Some (ms, r)"
    proof (rule parse_members_print)
      show "parse_value i (print_json (snd m) @ z) = Some (snd m, z)"
        if "m \<in> set ms" "no_number_head z" "2 * length (print_json (snd m)) \<le> i" for m z i
        using JObj.IH [of m "snd m"] JObj.prems that by (cases m) auto
    qed (use JObj.prems Cons k in auto)
    then show ?thesis using k c by (simp add: parse_value.simps skip_ws_Cons dquote_def)
  qed
next
  case JNull
  then obtain k' where "k = Suc k'" by (cases k) auto
  then show ?case by (simp add: parse_value.simps skip_ws_Cons dquote_def CutPrefix_def)
next
  case (JBool b)
  then obtain k' where "k = Suc k'" by (cases k) (auto split: if_splits)
  then show ?case by (cases b) (simp_all add: parse_value.simps skip_ws_Cons dquote_def CutPrefix_def)
qed

corollary unmarshal_print: "numbers_ok j \<Longrightarrow> json_unmarshal (print_json j) = Some j"
  using parse_print [of j "[]" "2 * length (print_json j) + 2"]
  by (simp add: json_unmarshal_def json_decode_def no_number_head_def skip_ws_def)

lemma print_json_inj: "print_json i = print_json j \<Longrightarrow> numbers_ok i \<Longrightarrow> numbers_ok j \<Longrightarrow> i = j"
  by (metis unmarshal_print option.inject)

lemma parse_numbers_ok:
  "parse_value k s = Some (v, z) \<Longrightarrow> numbers_ok v"
  "parse_elems k s = Some (vs, z) \<Longrightarrow> \<forall>v \<in> set vs. numbers_ok v"
  "parse_members k s = Some (ms, z) \<Longrightarrow> \<forall>m \<in> set ms. numbers_ok (snd m)"
proof (induction k s and k s and k s arbitrary: v z and vs z and ms z
    rule: parse_value_parse_elems_parse_members.induct)
  case (2 k s)
  then show ?case
    by (auto simp: parse_value.simps(2) parse_number_def Let_def list_all_iff
        dest: set_takeWhileD split: list.splits if_splits option.splits)
next
  case (4 k s)
  then show ?case
    by (auto simp: parse_elems.simps(2) split: list.splits if_splits option.splits)
next
  case (6 k s)
  then show ?case
    by (fastforce simp: parse_members.simps(2) split: list.splits if_splits option.splits)
qed simp_all

section \<open>Decoded objects\<close>

text \<open>
  Decoding an object into a Go map keeps the last value of a key; \<open>json.Marshal\<close> prints a map
  with its keys in order.
\<close>

fun put_member :: "string \<Rightarrow> json \<Rightarrow> (string \<times> json) list \<Rightarrow> (string \<times> json) list" where
  "put_member k v [] = [(k, v)]"
| "put_member k v ((k', v') # ms) =
     (if k = k' then (k, v) # ms else if k < k' then (k, v) # (k', v') # ms
      else (k', v') # put_member k v ms)"

fun normal :: "json \<Rightarrow> json" where
  "normal (JArr vs) = JArr (map normal vs)"
| "normal (JObj ms) =
     JObj (fold (\<lambda>(k, v). put_member k v) (map (\<lambda>(k, v). (k, normal v)) ms) [])"
| "normal j = j"

lemma snd_put_member: "m \<in> set (put_member k v ms) \<Longrightarrow> m = (k, v) \<or> m \<in> set ms"
  by (induction ms) (auto split: if_splits)

lemma fold_put_member:
  "m \<in> set (fold (\<lambda>(k, v). put_member k v) xs acc) \<Longrightarrow> m \<in> set xs \<or> m \<in> set acc"
  by (induction xs arbitrary: acc) (fastforce dest: snd_put_member)+

lemma numbers_ok_normal: "numbers_ok j \<Longrightarrow> numbers_ok (normal j)"
proof (induction j)
  case (JObj ms)
  then show ?case by (fastforce dest: fold_put_member)
qed auto

section \<open>Decoding into Go types\<close>

text \<open>
  \<open>json.Unmarshal\<close> into a struct matches member names without regard to case, applies the members
  in order, leaves a field alone on \<open>null\<close> and fails on a value of another type. A decoder
  gets the value so far and the member; \<open>None\<close> is the type error.
\<close>

definition decode_field :: "('a \<Rightarrow> json \<Rightarrow> 'a option) \<Rightarrow> string \<Rightarrow> 'a \<Rightarrow> json \<Rightarrow> 'a option" where
  "decode_field dec key init j =
     (case j of
        JObj ms \<Rightarrow>
          fold (\<lambda>(k, v) acc. if ToLower k = ToLower key then Option.bind acc (\<lambda>a. dec a v) else acc)
            ms (Some init)
      | JNull \<Rightarrow> Some init
      | _ \<Rightarrow> None)"

definition to_string :: "string \<Rightarrow> json \<Rightarrow> string option" where
  "to_string old v = (case v of JStr s \<Rightarrow> Some s | JNull \<Rightarrow> Some old | _ \<Rightarrow> None)"

definition to_bool :: "bool \<Rightarrow> json \<Rightarrow> bool option" where
  "to_bool old v = (case v of JBool b \<Rightarrow> Some b | JNull \<Rightarrow> Some old | _ \<Rightarrow> None)"

fun all_some :: "'a option list \<Rightarrow> 'a list option" where
  "all_some [] = Some []"
| "all_some (None # xs) = None"
| "all_some (Some x # xs) = map_option ((#) x) (all_some xs)"

definition to_strings :: "string list \<Rightarrow> json \<Rightarrow> string list option" where
  "to_strings old v =
     (case v of JArr vs \<Rightarrow> all_some (map (to_string []) vs) | JNull \<Rightarrow> Some [] | _ \<Rightarrow> None)"

text \<open>A Go map from strings to strings: the last value of a key counts, an absent key reads \<open>""\<close>.\<close>

definition to_string_map :: "json \<Rightarrow> (string \<times> string) list option" where
  "to_string_map v =
     (case v of
        JObj ms \<Rightarrow> all_some (map (\<lambda>(k, w). map_option (Pair k) (to_string [] w)) (rev ms))
      | JNull \<Rightarrow> Some []
      | _ \<Rightarrow> None)"

definition map_get :: "(string \<times> string) list \<Rightarrow> string \<Rightarrow> string" where
  "map_get m k = (case map_of m k of Some v \<Rightarrow> v | None \<Rightarrow> [])"

definition string_field :: "string \<Rightarrow> json \<Rightarrow> string option" where
  "string_field key j = decode_field to_string key [] j"

text \<open>
  When the error of \<open>json.Unmarshal\<close> is ignored, a value of another type leaves the field as it
  was and decoding goes on.
\<close>

definition lenient_string_field :: "string \<Rightarrow> string \<Rightarrow> string" where
  "lenient_string_field key raw =
     (case json_unmarshal raw of
        Some (JObj ms) \<Rightarrow>
          fold (\<lambda>(k, v) old. if ToLower k = ToLower key
                  then (case to_string old v of Some s \<Rightarrow> s | None \<Rightarrow> old) else old) ms []
      | _ \<Rightarrow> [])"

text \<open>\<open>json.Marshal\<close> of a Go map from strings to strings: each key once, in order.\<close>

definition string_map_json :: "(string \<times> string) list \<Rightarrow> json" where
  "string_map_json m = JObj (fold (\<lambda>(k, v). put_member k v) (map (\<lambda>(k, v). (k, JStr v)) (rev m)) [])"

section \<open>Compact form\<close>

text \<open>\<open>json.Compact\<close> drops the white space outside string literals.\<close>

fun compact :: "bool \<Rightarrow> string \<Rightarrow> string" where
  "compact inside [] = []"
| "compact True (c # s) =
     (if c = backslash then (case s of d # r \<Rightarrow> c # d # compact True r | [] \<Rightarrow> [c])
      else if c = dquote then c # compact False s else c # compact True s)"
| "compact False (c # s) =
     (if c = CHR '' '' \<or> c = CHR 0x09 \<or> c = CHR 0x0A \<or> c = CHR 0x0D then compact False s
      else if c = dquote then c # compact True s else c # compact False s)"

text \<open>
  \<open>json.Marshal\<close> of a \<open>json.RawMessage\<close>: the compact text with \<open><\<close>, \<open>>\<close>, \<open>&\<close> and the line
  separators U+2028 and U+2029 escaped.
\<close>

fun html_escape :: "string \<Rightarrow> string" where
  "html_escape (a # b # c # s) =
     (if a = CHR 0xE2 \<and> b = CHR 0x80 \<and> (c = CHR 0xA8 \<or> c = CHR 0xA9)
      then backslash # ''u202'' @ (if c = CHR 0xA8 then ''8'' else ''9'') @ html_escape s
      else (if a \<in> {CHR ''<'', CHR ''>'', CHR ''&''} then escape_char a else [a]) @ html_escape (b # c # s))"
| "html_escape (a # s) = (if a \<in> {CHR ''<'', CHR ''>'', CHR ''&''} then escape_char a else [a]) @ html_escape s"
| "html_escape [] = []"

definition marshal_raw :: "string \<Rightarrow> string" where
  "marshal_raw raw = html_escape (compact False raw)"

definition json_Valid :: "string \<Rightarrow> bool" where
  "json_Valid s \<longleftrightarrow> json_unmarshal s \<noteq> None"

lemma length_compact: "length (compact b s) \<le> length s"
  by (induction b s rule: compact.induct) (auto split: list.splits)

end
