(* ===== verification/CommandSig.thy ===== *)
theory CommandSig
  imports Json
begin

text \<open>
  The signed command envelope (\<open>internal/commandsig/commandsig.go\<close>): the canonical text of a
  command, its Ed25519 signature in unpadded URL base64, and the texts of keys. Ed25519 and
  SHA-256 are parameters, the fields of \<open>crypto\<close>. A signature made by the server verifies, and
  the canonical text determines every field it covers.
\<close>

section \<open>Parameters\<close>

record crypto =
  ed_Sign :: "string \<Rightarrow> string \<Rightarrow> string"
  ed_Verify :: "string \<Rightarrow> string \<Rightarrow> string \<Rightarrow> bool"
  ed_Public :: "string \<Rightarrow> string"
  sha256_Sum :: "string \<Rightarrow> string"

text \<open>Documented behaviour of \<open>crypto/ed25519\<close>: sizes, and own signatures verify.\<close>

definition ed25519_ok :: "('a crypto_scheme) \<Rightarrow> bool" where
  "ed25519_ok C \<longleftrightarrow>
     (\<forall>k m. length k = 64 \<longrightarrow>
        length (ed_Sign C k m) = 64 \<and> length (ed_Public C k) = 32 \<and>
        ed_Verify C (ed_Public C k) m (ed_Sign C k m))"

abbreviation PrivateKeySize :: nat where "PrivateKeySize \<equiv> 64"
abbreviation PublicKeySize :: nat where "PublicKeySize \<equiv> 32"
abbreviation SignatureSize :: nat where "SignatureSize \<equiv> 64"

section \<open>The canonical envelope\<close>

type_synonym RawMessage = string

record Envelope =
  e_ID :: string
  e_DeviceID :: string
  e_Type :: string
  e_Args :: RawMessage
  e_CreatedAt :: time
  e_ExpiresAt :: time
  e_Nonce :: string

definition payloadVersion :: string where
  "payloadVersion = ''rmm-command-v1''"

definition ensureJSONEOF :: "string \<Rightarrow> err + unit" where
  "ensureJSONEOF rest =
     (if skip_ws rest = [] then Inr ()
      else case json_decode rest of
             None \<Rightarrow> Inl (ErrMsg ''invalid trailing command args'')
           | Some _ \<Rightarrow> Inl (ErrMsg ''command args contain multiple JSON values''))"

definition canonicalArgs :: "RawMessage \<Rightarrow> err + json" where
  "canonicalArgs raw =
     (let args = (if raw = [] then ''{}'' else raw)
      in case json_decode args of
           None \<Rightarrow> Inl (ErrMsg ''invalid command args'')
         | Some (decoded, rest) \<Rightarrow> bindE (ensureJSONEOF rest) (\<lambda>_. Inr (normal decoded)))"

definition canonicalEnvelope :: "Envelope \<Rightarrow> json \<Rightarrow> json" where
  "canonicalEnvelope e args = JObj
     [(''version'', JStr payloadVersion),
      (''id'', JStr (TrimSpace (e_ID e))),
      (''device_id'', JStr (TrimSpace (e_DeviceID e))),
      (''type'', JStr (TrimSpace (e_Type e))),
      (''args'', args),
      (''created_at'', JStr (RFC3339Nano (e_CreatedAt e))),
      (''expires_at'', JStr (RFC3339Nano (e_ExpiresAt e))),
      (''nonce'', JStr (TrimSpace (e_Nonce e)))]"

definition Canonical :: "Envelope \<Rightarrow> err + string" where
  "Canonical e =
     (if TrimSpace (e_ID e) = [] \<or> TrimSpace (e_DeviceID e) = [] \<or> TrimSpace (e_Type e) = [] \<or>
         TrimSpace (e_Nonce e) = []
      then Inl (ErrMsg ''command envelope is incomplete'')
      else if IsZero (e_CreatedAt e) \<or> IsZero (e_ExpiresAt e) \<or> \<not> e_CreatedAt e < e_ExpiresAt e
      then Inl (ErrMsg ''command envelope time range is invalid'')
      else bindE (canonicalArgs (e_Args e)) (\<lambda>args. Inr (print_json (canonicalEnvelope e args))))"

section \<open>Signatures and keys\<close>

definition Sign :: "('a crypto_scheme) \<Rightarrow> string \<Rightarrow> Envelope \<Rightarrow> err + string" where
  "Sign C privateKey e =
     (if length privateKey \<noteq> PrivateKeySize then Inl (ErrMsg ''invalid Ed25519 private key'')
      else bindE (Canonical e)
        (\<lambda>payload. Inr (b64_EncodeToString url_alphabet (ed_Sign C privateKey payload))))"

definition Verify :: "('a crypto_scheme) \<Rightarrow> string \<Rightarrow> Envelope \<Rightarrow> string \<Rightarrow> err + unit" where
  "Verify C publicKey e signature =
     (if length publicKey \<noteq> PublicKeySize then Inl (ErrMsg ''invalid Ed25519 public key'')
      else bindE (Canonical e)
        (\<lambda>payload.
           case b64_DecodeString url_alphabet (TrimSpace signature) of
             None \<Rightarrow> Inl (ErrMsg ''command signature is invalid'')
           | Some raw \<Rightarrow>
               if length raw \<noteq> SignatureSize \<or> \<not> ed_Verify C publicKey payload raw
               then Inl (ErrMsg ''command signature is invalid'') else Inr ()))"

definition KeyID :: "('a crypto_scheme) \<Rightarrow> string \<Rightarrow> string" where
  "KeyID C publicKey = hex_EncodeToString (take 8 (sha256_Sum C publicKey))"

definition EncodePublicKey :: "string \<Rightarrow> string" where
  "EncodePublicKey publicKey = ''ed25519:'' @ b64_EncodeToString std_alphabet publicKey"

definition ParsePublicKey :: "string \<Rightarrow> err + string" where
  "ParsePublicKey value =
     (case CutPrefix (TrimSpace value) ''ed25519:'' of
        None \<Rightarrow> Inl (ErrMsg ''command public key must use the ed25519 prefix'')
      | Some rawValue \<Rightarrow>
          (case b64_DecodeString std_alphabet rawValue of
             None \<Rightarrow> Inl (ErrMsg ''command public key is invalid'')
           | Some raw \<Rightarrow>
               if length raw \<noteq> PublicKeySize then Inl (ErrMsg ''command public key is invalid'')
               else Inr raw))"

text \<open>\<open>NewNonce\<close> from 24 random bytes.\<close>

definition NewNonce :: "string \<Rightarrow> string" where
  "NewNonce raw = b64_EncodeToString url_alphabet raw"

section \<open>Lemmas\<close>

lemma canonicalArgs_numbers_ok: "canonicalArgs raw = Inr args \<Longrightarrow> numbers_ok args"
  by (auto simp: canonicalArgs_def Let_def json_decode_def res_simps
      intro: numbers_ok_normal dest!: parse_numbers_ok(1) split: option.splits if_splits)

lemma canonicalEnvelope_inj:
  "canonicalEnvelope e a = canonicalEnvelope f b \<longleftrightarrow>
     TrimSpace (e_ID e) = TrimSpace (e_ID f) \<and> TrimSpace (e_DeviceID e) = TrimSpace (e_DeviceID f) \<and>
     TrimSpace (e_Type e) = TrimSpace (e_Type f) \<and> a = b \<and>
     RFC3339Nano (e_CreatedAt e) = RFC3339Nano (e_CreatedAt f) \<and>
     RFC3339Nano (e_ExpiresAt e) = RFC3339Nano (e_ExpiresAt f) \<and>
     TrimSpace (e_Nonce e) = TrimSpace (e_Nonce f)"
  by (auto simp: canonicalEnvelope_def)

lemma Canonical_Inr:
  "Canonical e = Inr p \<longleftrightarrow>
     TrimSpace (e_ID e) \<noteq> [] \<and> TrimSpace (e_DeviceID e) \<noteq> [] \<and> TrimSpace (e_Type e) \<noteq> [] \<and>
     TrimSpace (e_Nonce e) \<noteq> [] \<and> \<not> IsZero (e_CreatedAt e) \<and> \<not> IsZero (e_ExpiresAt e) \<and>
     e_CreatedAt e < e_ExpiresAt e \<and>
     (\<exists>args. canonicalArgs (e_Args e) = Inr args \<and> p = print_json (canonicalEnvelope e args))"
  by (auto simp: Canonical_def res_simps)

lemma numbers_ok_envelope: "numbers_ok args \<Longrightarrow> numbers_ok (canonicalEnvelope e args)"
  by (simp add: canonicalEnvelope_def)


text \<open>The arguments of the sample envelope in two spellings; both texts decode to the same object.\<close>

definition sample_envelope :: "string \<Rightarrow> string \<Rightarrow> Envelope" where
  "sample_envelope i args =
     \<lparr>e_ID = i, e_DeviceID = ''dev_1'', e_Type = ''reboot'', e_Args = args,
      e_CreatedAt = 1700000000 * second, e_ExpiresAt = 1700000300 * second, e_Nonce = ''n''\<rparr>"

lemma sample_args:
  "canonicalArgs '' { \"b\" : 1, \"a\" : [true] }'' = Inr (JObj [(''a'', JArr [JBool True]), (''b'', JNum ''1'')])"
  "canonicalArgs ''{\"a\":[true],\"b\":1}'' = Inr (JObj [(''a'', JArr [JBool True]), (''b'', JNum ''1'')])"
  by code_simp+

lemma sample_trim:
  "TrimSpace '' cmd_1'' = ''cmd_1''" "TrimSpace ''cmd_1'' = ''cmd_1''" "TrimSpace ''dev_1'' = ''dev_1''"
  "TrimSpace ''reboot'' = ''reboot''" "TrimSpace ''n'' = ''n''"
  by code_simp+

lemma sample_canonical:
  "TrimSpace i = ''cmd_1'' \<Longrightarrow> canonicalArgs args = Inr a \<Longrightarrow>
   Canonical (sample_envelope i args) = Inr (print_json (canonicalEnvelope (sample_envelope ''cmd_1'' []) a))"
  by (simp add: Canonical_Inr sample_envelope_def canonicalEnvelope_def sample_trim IsZero_def zero_time_def)


lemma Verify_Sign_lemma:
  assumes "ed25519_ok C" and "Sign C k e = Inr s"
  shows "Verify C (ed_Public C k) e s = Inr ()"
proof -
  from assms(2) obtain p where k: "length k = 64" and p: "Canonical e = Inr p"
    and s: "s = b64_EncodeToString url_alphabet (ed_Sign C k p)"
    by (auto simp: Sign_def res_simps split: if_splits)
  have "b64_DecodeString url_alphabet (TrimSpace s) = Some (ed_Sign C k p)"
    by (simp add: s raw_url.trim_encode raw_url.decode_encode)
  with assms(1) k p show ?thesis by (auto simp: Verify_def ed25519_ok_def)
qed

text \<open>An instance with the documented sizes, whose signature is a checksum of the text.\<close>

definition sample_crypto :: crypto where
  "sample_crypto =
     \<lparr>ed_Sign = (\<lambda>k m. replicate 64 (char_of (length m))),
      ed_Verify = (\<lambda>pk m s. s = replicate 64 (char_of (length m))),
      ed_Public = take 32, sha256_Sum = (\<lambda>m. replicate 32 (char_of (length m)))\<rparr>"

lemma sample_crypto_ok: "ed25519_ok sample_crypto"
  by (simp add: ed25519_ok_def sample_crypto_def)

text \<open>A public key read back from its text is the same key.\<close>

lemma ParsePublicKey_Encode:
  assumes "length pk = PublicKeySize"
  shows "ParsePublicKey (EncodePublicKey pk) = Inr pk"
proof -
  have "list_all plain_char (EncodePublicKey pk)"
    by (simp add: EncodePublicKey_def raw_std.encode_plain) (simp add: plain_char_def ascii_space_def)
  then have "CutPrefix (TrimSpace (EncodePublicKey pk)) ''ed25519:'' =
      Some (b64_EncodeToString std_alphabet pk)"
    by (simp add: TrimSpace_plain CutPrefix_Some) (simp add: EncodePublicKey_def)
  then show ?thesis using assms by (simp add: ParsePublicKey_def raw_std.decode_encode)
qed

end
