(* ===== verification/Db.thy ===== *)
theory Db
  imports Complex_Main CommandSig
begin

text \<open>
  The database of the server (\<open>server/internal/store\<close>): one record per row type, with the columns
  of \<open>sqlite.go\<close>, \<open>fleet.sql\<close> and \<open>management.sql\<close> that the modelled operations read or write,
  the store as the record of its tables, the parameters the store relies on (cryptography,
  random numbers, the engine's date function, the sensitive-data cipher), identifiers, and the
  construction of a signed command (\<open>newCommand\<close>).
\<close>

section \<open>Parameters\<close>

text \<open>
  \<open>julianday\<close> is the date function of the SQL engine (SQLite's \<open>julianday\<close>, a cast to
  \<open>timestamptz\<close> on PostgreSQL), \<open>rand_Read n k\<close> the \<open>k\<close> bytes of the \<open>n\<close>-th call of
  \<open>crypto/rand\<close>, \<open>seal\<close> and \<open>unseal\<close> what the cipher of \<open>SetSensitiveDataCipher\<close> does to a plain value
  and to an encrypted one with its context, absent when none is set, and \<open>float_round\<close> the rounding of an exact result to \<open>float64\<close>,
  \<open>None\<close> when it overflows. \<open>float_text\<close> is the text \<open>json.Marshal\<close> gives to the \<open>float64\<close> read from
  a number text, \<open>None\<close> when that is out of range. \<open>LoadLocation\<close> is the time zone database: for a known zone, the offset
  from UTC in seconds that is in force at an instant (in Unix seconds) with the interval it is in
  force.
\<close>

record env = crypto +
  postgres :: bool
  julianday :: "time \<Rightarrow> int"
  rand_Read :: "nat \<Rightarrow> nat \<Rightarrow> string"
  seal :: "(string \<Rightarrow> string \<Rightarrow> string) option"
  unseal :: "string \<Rightarrow> string \<Rightarrow> string option"
  float_round :: "rat \<Rightarrow> rat option"
  float_text :: "string \<Rightarrow> string option"
  LoadLocation :: "string \<Rightarrow> (int \<Rightarrow> int \<times> int \<times> int) option"

text \<open>Documented behaviour: the date function follows the order of time.\<close>

definition julianday_mono :: "env \<Rightarrow> bool" where
  "julianday_mono E \<longleftrightarrow> (\<forall>s t. s \<le> t \<longrightarrow> julianday E s \<le> julianday E t)"

text \<open>
  \<open>ORDER BY\<close> on a timestamp column: by text on SQLite, by time on PostgreSQL. The fleet and
  management tables have text columns on both engines and are ordered by \<open>text_le\<close>.
\<close>

definition ts_le :: "env \<Rightarrow> time \<Rightarrow> time \<Rightarrow> bool" where
  "ts_le E s t \<longleftrightarrow> (if postgres E then s \<le> t else text_le s t)"

interpretation ts: total_preorder "\<lambda>x y. ts_le E (f x) (f y)" for E f
  by unfold_locales (auto simp: ts_le_def text_le_def)

section \<open>Rows\<close>

record user =
  u_id :: string
  u_username :: string
  u_display_name :: string
  u_email :: string
  u_password_hash :: string
  u_role :: string
  u_disabled :: bool
  u_created_at :: time
  u_updated_at :: time

record device =
  d_id :: string
  d_token :: string
  d_token_hash :: string
  d_next_token_hash :: string
  d_next_token_ciphertext :: string
  d_token_epoch :: int
  d_tunnel_public_key :: string
  d_tunnel_key_fingerprint :: string
  d_tunnel_key_epoch :: int
  d_tunnel_credential_updated_at :: "time option"
  d_owner_user_id :: string
  d_dns_label :: string
  d_hostname :: string
  d_openwrt_version :: string
  d_inventory_json :: RawMessage
  d_metrics_json :: RawMessage
  d_group_name :: string
  d_tags :: "string list"
  d_last_seen_at :: "time option"
  d_created_at :: time

record command =
  c_id :: string
  c_device_id :: string
  c_type :: string
  c_args_json :: RawMessage
  c_status :: string
  c_result_json :: RawMessage
  c_output :: string
  c_exit_code :: "int option"
  c_attempt_count :: int
  c_max_attempts :: int
  c_created_at :: time
  c_expires_at :: "time option"
  c_claimed_at :: "time option"
  c_completed_at :: "time option"
  c_cancelled_at :: "time option"
  c_expired_at :: "time option"
  c_nonce :: string
  c_signature_key_id :: string
  c_signature :: string

record device_backup =
  b_id :: string
  b_device_id :: string
  b_command_id :: string
  b_status :: string
  b_archive :: "string option"
  b_size_bytes :: int
  b_sha256 :: string
  b_openwrt_version :: string
  b_target :: string
  b_model :: string
  b_manifest_json :: RawMessage
  b_error :: string
  b_created_at :: time
  b_completed_at :: "time option"

record agent_rollout =
  r_id :: string
  r_channel :: string
  r_target_version :: string
  r_batch_size :: int
  r_failure_threshold :: int
  r_status :: string
  r_failure_count :: int
  r_created_at :: time
  r_updated_at :: time

record rollout_device =
  rd_rollout_id :: string
  rd_device_id :: string
  rd_feed_url :: string
  rd_package_manager :: string
  rd_package_version :: string
  rd_manifest_url :: string
  rd_signature_url :: string
  rd_batch :: int
  rd_status :: string
  rd_command_id :: string
  rd_last_error :: string

text \<open>\<open>model.RolloutGuard\<close>, the JSON document of \<open>management_rollout_guards\<close>, and its row.\<close>

record RolloutGuard =
  g_RequestKey :: string
  g_CanaryIDs :: "string list"
  g_WaveSizes :: "int list"
  g_ObservationSeconds :: int

record rollout_guard =
  rg_rollout_id :: string
  rg_definition :: RolloutGuard
  rg_request_hash :: string
  rg_wave_observed :: int
  rg_healthy_since :: "time option"
  rg_last_checked_at :: "time option"
  rg_pause_reason :: string

record metric_sample =
  ms_id :: string
  ms_device_id :: string
  ms_inventory_json :: RawMessage
  ms_metrics_json :: RawMessage
  ms_created_at :: time

record remote_session =
  rs_id :: string
  rs_device_id :: string
  rs_target :: string
  rs_status :: string
  rs_server_host :: string
  rs_server_port :: int
  rs_remote_port :: int
  rs_luci_port :: int
  rs_luci_scheme :: string
  rs_local_host :: string
  rs_local_port :: int
  rs_command_id :: string
  rs_created_at :: time
  rs_expires_at :: time
  rs_started_at :: "time option"
  rs_closed_at :: "time option"
  rs_updated_at :: time

record audit_event =
  ae_id :: string
  ae_actor :: string
  ae_action :: string
  ae_device_id :: string
  ae_command_id :: string
  ae_details_json :: RawMessage
  ae_created_at :: time

text \<open>\<open>device_access_grants\<close> and \<open>device_access_sessions\<close> have the same columns.\<close>

record access_token =
  at_token_hash :: string
  at_user_id :: string
  at_device_id :: string
  at_remote_session_id :: string
  at_expires_at :: time
  at_created_at :: time

record fleet_asset =
  fa_device_id :: string
  fa_site :: string

text \<open>\<open>PermissionPolicy\<close> (\<open>permissions.go\<close>), the JSON document of \<open>management_permissions\<close>.\<close>

record PermissionPolicy =
  p_Permissions :: "string list"
  p_Groups :: "string list"
  p_Sites :: "string list"
  p_Configured :: bool

record permission_row =
  mp_user_id :: string
  mp_policy :: PermissionPolicy
  mp_updated_at :: time

record command_permission =
  cp_command_id :: string
  cp_user_id :: string
  cp_permission :: string

record fleet_operation =
  fo_id :: string
  fo_user_id :: string
  fo_request_key :: string
  fo_request_hash :: string
  fo_title :: string
  fo_command_type :: string
  fo_args_json :: RawMessage
  fo_parallelism :: int
  fo_stop_on_failure :: bool
  fo_canary_pending :: bool
  fo_deadline_at :: time
  fo_status :: string
  fo_created_at :: time
  fo_updated_at :: time

record fleet_item =
  fi_operation_id :: string
  fi_device_id :: string
  fi_command_id :: string
  fi_args_json :: RawMessage
  fi_status :: string
  fi_error :: string

text \<open>
  \<open>FleetOperationInput\<close>; the fields tagged \<open>json:"-"\<close> are not part of the stored document of a
  schedule or of a run.
\<close>

record FleetOperationInput =
  oi_DeviceArgs :: "(string \<times> RawMessage) list"
  oi_Canary :: bool
  oi_ScheduleRunID :: string
  oi_RequestKey :: string
  oi_Title :: string
  oi_DeviceIDs :: "string list"
  oi_Type :: string
  oi_Args :: RawMessage
  oi_Parallelism :: int
  oi_DeadlineAt :: string
  oi_StopOnFailure :: bool

record fleet_schedule =
  fs_id :: string
  fs_user_id :: string
  fs_title :: string
  fs_operation :: FleetOperationInput
  fs_timezone :: string
  fs_weekdays :: "int list"
  fs_minute_of_day :: int
  fs_window_minutes :: int
  fs_enabled :: bool
  fs_next_run_at :: time
  fs_created_at :: time
  fs_updated_at :: time

record schedule_run =
  sr_id :: string
  sr_schedule_id :: string
  sr_scheduled_at :: time
  sr_deadline_at :: time
  sr_operation :: FleetOperationInput
  sr_operation_id :: string
  sr_status :: string
  sr_error :: string
  sr_created_at :: time

text \<open>\<open>FleetRule\<close> (\<open>fleet_rules.go\<close>); its threshold is a finite \<open>float64\<close>.\<close>

record FleetRule =
  fr_RequestKey :: string
  fr_ID :: string
  fr_Title :: string
  fr_DeviceIDs :: "string list"
  fr_Kind :: string
  fr_Threshold :: rat
  fr_Consecutive :: int
  fr_CooldownSeconds :: int
  fr_MaxActionsPerDay :: int
  fr_Action :: string
  fr_Service :: string
  fr_Enabled :: bool

record fleet_rule =
  fr_id :: string
  fr_user_id :: string
  fr_title :: string
  fr_definition :: FleetRule
  fr_enabled :: bool
  fr_created_at :: time
  fr_updated_at :: time

record rule_state =
  st_rule_id :: string
  st_device_id :: string
  st_last_sample :: string
  st_violations :: int
  st_next_action_at :: "time option"
  st_action_day :: string
  st_action_count :: int

record rule_event =
  ev_id :: string
  ev_rule_id :: string
  ev_device_id :: string
  ev_action :: string
  ev_status :: string
  ev_command_id :: string
  ev_message :: string
  ev_created_at :: time

record inbox_notification =
  in_id :: string
  in_user_id :: string
  in_device_id :: "string option"
  in_incident_id :: string
  in_dedupe_key :: string
  in_severity :: string
  in_event :: string
  in_title :: string
  in_body :: string
  in_read_at :: "time option"
  in_created_at :: time

record incident =
  i_id :: string
  i_device_id :: string
  i_source_key :: string
  i_title :: string
  i_status :: string
  i_assignee_id :: string
  i_occurrences :: int
  i_opened_at :: time
  i_updated_at :: time
  i_resolved_at :: "time option"

record incident_event =
  ie_id :: string
  ie_incident_id :: string
  ie_actor :: string
  ie_action :: string
  ie_body :: string
  ie_created_at :: time

record incident_source =
  is_device_id :: string
  is_source_key :: string
  is_category :: string
  is_active :: bool
  is_updated_at :: time

record alert =
  a_id :: string
  a_device_id :: string
  a_type :: string
  a_severity :: string
  a_status :: string
  a_message :: string
  a_details_json :: RawMessage
  a_first_seen_at :: time
  a_last_seen_at :: time
  a_resolved_at :: "time option"
  a_acknowledged_at :: "time option"
  a_acknowledged_by :: string
  a_created_at :: time
  a_updated_at :: time

text \<open>\<open>FleetAccessPolicy\<close> of \<open>fleet_access.go\<close>.\<close>

record access_policy =
  ap_device_id :: string
  ap_ssh_allowed :: bool
  ap_luci_allowed :: bool
  ap_max_ttl_seconds :: int
  ap_restrict_users :: bool
  ap_user_ids :: "string list"
  ap_updated_at :: time

section \<open>The store\<close>

text \<open>
  \<open>signing_key\<close> is the field \<open>commandSigningKey\<close> of \<open>Store\<close>; \<open>draws\<close> counts the calls of
  \<open>crypto/rand\<close>.
\<close>

record store =
  signing_key :: string
  draws :: nat
  users :: "user list"
  devices :: "device list"
  commands :: "command list"
  device_backups :: "device_backup list"
  agent_rollouts :: "agent_rollout list"
  agent_rollout_devices :: "rollout_device list"
  rollout_guards :: "rollout_guard list"
  metric_samples :: "metric_sample list"
  remote_sessions :: "remote_session list"
  audit_events :: "audit_event list"
  device_access_grants :: "access_token list"
  device_access_sessions :: "access_token list"
  fleet_assets :: "fleet_asset list"
  management_permissions :: "permission_row list"
  command_permissions :: "command_permission list"
  fleet_operations :: "fleet_operation list"
  fleet_operation_items :: "fleet_item list"
  fleet_rules :: "fleet_rule list"
  fleet_rule_states :: "rule_state list"
  fleet_rule_events :: "rule_event list"
  inbox_notifications :: "inbox_notification list"
  incidents :: "incident list"
  incident_events :: "incident_event list"
  incident_sources :: "incident_source list"
  alerts :: "alert list"
  access_policies :: "access_policy list"
  fleet_schedules :: "fleet_schedule list"
  fleet_schedule_runs :: "schedule_run list"

definition empty_store :: "string \<Rightarrow> store" where
  "empty_store k =
     \<lparr>signing_key = k, draws = 0, users = [], devices = [], commands = [], device_backups = [],
      agent_rollouts = [], agent_rollout_devices = [], rollout_guards = [], metric_samples = [],
      remote_sessions = [], audit_events = [], device_access_grants = [],
      device_access_sessions = [], fleet_assets = [], management_permissions = [],
      command_permissions = [], fleet_operations = [], fleet_operation_items = [],
      fleet_rules = [], fleet_rule_states = [], fleet_rule_events = [],
      inbox_notifications = [], incidents = [], incident_events = [], incident_sources = [],
      alerts = [], access_policies = [], fleet_schedules = [], fleet_schedule_runs = []\<rparr>"

section \<open>Identifiers, hashes and JSON columns\<close>

definition randomID :: "env \<Rightarrow> string \<Rightarrow> store \<Rightarrow> string \<times> store" where
  "randomID E prefix st =
     (prefix @ ''_'' @ hex_EncodeToString (rand_Read E (draws st) 16), st\<lparr>draws := draws st + 1\<rparr>)"

definition TokenHash :: "env \<Rightarrow> string \<Rightarrow> string" where
  "TokenHash E token = hex_EncodeToString (sha256_Sum E token)"

definition NormalizeRawJSON :: "RawMessage \<Rightarrow> RawMessage" where
  "NormalizeRawJSON raw = (if raw = [] \<or> \<not> json_Valid raw then ''{}'' else compact False raw)"

definition parseTime :: "string \<Rightarrow> time" where
  "parseTime value = (case time_Parse value of Some t \<Rightarrow> t | None \<Rightarrow> zero_time)"

section \<open>Commands\<close>

definition CommandSigningPublicKey :: "env \<Rightarrow> store \<Rightarrow> string" where
  "CommandSigningPublicKey E st =
     (if length (signing_key st) \<noteq> PrivateKeySize then [] else ed_Public E (signing_key st))"

definition command_envelope :: "command \<Rightarrow> time \<Rightarrow> Envelope" where
  "command_envelope c expiresAt =
     \<lparr>e_ID = c_id c, e_DeviceID = c_device_id c, e_Type = c_type c, e_Args = c_args_json c,
      e_CreatedAt = c_created_at c, e_ExpiresAt = expiresAt, e_Nonce = c_nonce c\<rparr>"

definition newCommand ::
  "env \<Rightarrow> time \<Rightarrow> string \<Rightarrow> string \<Rightarrow> RawMessage \<Rightarrow> time \<Rightarrow> store \<Rightarrow> (command \<times> store) res" where
  "newCommand E now deviceID commandType args ttl st =
     (if length (signing_key st) \<noteq> PrivateKeySize then Inl (ErrMsg ''command signing is unavailable'')
      else
        let (id, st) = randomID E ''cmd'' st;
            nonce = NewNonce (rand_Read E (draws st) 24);
            st = st\<lparr>draws := draws st + 1\<rparr>;
            args = NormalizeRawJSON args;
            createdAt = Truncate now microsecond;
            expiresAt = Truncate (createdAt + ttl) microsecond;
            command =
              \<lparr>c_id = id, c_device_id = deviceID, c_type = commandType, c_args_json = args,
               c_status = ''queued'', c_result_json = ''{}'', c_output = [], c_exit_code = None,
               c_attempt_count = 0, c_max_attempts = 3, c_created_at = createdAt,
               c_expires_at = Some expiresAt, c_claimed_at = None, c_completed_at = None,
               c_cancelled_at = None, c_expired_at = None, c_nonce = nonce,
               c_signature_key_id = KeyID E (CommandSigningPublicKey E st), c_signature = []\<rparr>
        in bindE (Sign E (signing_key st) (command_envelope command expiresAt))
             (\<lambda>signature. Inr (command\<lparr>c_signature := signature\<rparr>, st)))"

text \<open>
  \<open>INSERT INTO commands\<close>: the primary key and the foreign key on the device. \<open>max_attempts\<close> is
  the literal of the statement.
\<close>

definition insert_command :: "int \<Rightarrow> command \<Rightarrow> store \<Rightarrow> store res" where
  "insert_command max_attempts c st =
     (if \<not> has_row (\<lambda>d. d_id d = c_device_id c) (devices st) then Inl (ErrConstraint ''foreign key'')
      else bindE (insert_row c_id (c\<lparr>c_max_attempts := max_attempts\<rparr>) (commands st))
             (\<lambda>cs. Inr (st\<lparr>commands := cs\<rparr>)))"

interpretation command_table: keyed_table c_id .

interpretation device_table: keyed_table d_id .

interpretation user_table: keyed_table u_id .

section \<open>Lemmas\<close>

lemma randomID_fields [simp]:
  "signing_key (snd (randomID E p st)) = signing_key st"
  "commands (snd (randomID E p st)) = commands st"
  by (simp_all add: randomID_def)

text \<open>\<open>newCommand\<close> touches nothing but the random source.\<close>

lemma newCommand_Inr:
  assumes "newCommand E now dev ty args ttl st = Inr (c, st')"
  shows "st' = st\<lparr>draws := draws st + 2\<rparr> \<and> length (signing_key st) = 64 \<and>
    c_id c = ''cmd_'' @ hex_EncodeToString (rand_Read E (draws st) 16) \<and>
    c_device_id c = dev \<and> c_type c = ty \<and> c_args_json c = NormalizeRawJSON args \<and>
    c_status c = ''queued'' \<and> c_attempt_count c = 0 \<and> c_max_attempts c = 3 \<and>
    c_created_at c = Truncate now microsecond \<and> c_claimed_at c = None \<and>
    c_result_json c = ''{}'' \<and> c_exit_code c = None \<and> c_completed_at c = None \<and>
    c_expires_at c = Some (Truncate (Truncate now microsecond + ttl) microsecond) \<and>
    c_signature_key_id c = KeyID E (ed_Public E (signing_key st)) \<and>
    Sign E (signing_key st) (command_envelope c (the (c_expires_at c))) = Inr (c_signature c)"
  using assms
  by (auto simp: newCommand_def randomID_def Let_def res_simps CommandSigningPublicKey_def
      command_envelope_def split: if_splits)

lemma insert_command_Inr [res_simps]:
  "insert_command m c st = Inr st' \<longleftrightarrow>
     (\<exists>d \<in> set (devices st). d_id d = c_device_id c) \<and> c_id c \<notin> c_id ` set (commands st) \<and>
     st' = st\<lparr>commands := commands st @ [c\<lparr>c_max_attempts := m\<rparr>]\<rparr>"
  by (auto simp: insert_command_def res_simps has_row_iff)

text \<open>\<open>crypto/rand\<close> fills the buffer.\<close>

definition rand_ok :: "env \<Rightarrow> bool" where
  "rand_ok E \<longleftrightarrow> (\<forall>n k. length (rand_Read E n k) = k)"

lemma b64_nonempty: "s \<noteq> [] \<Longrightarrow> b64_EncodeToString a s \<noteq> []"
proof -
  have "bs \<noteq> [] \<Longrightarrow> sextets bs \<noteq> []" for bs by (cases bs rule: sextets.cases) auto
  then show "s \<noteq> [] \<Longrightarrow> b64_EncodeToString a s \<noteq> []"
    by (simp add: b64_EncodeToString_def bytes_of_def)
qed

lemma newCommand_defined:
  assumes "length (signing_key st) = 64" and "rand_ok E" and "TrimSpace dev \<noteq> []"
    and "TrimSpace ty \<noteq> []" and "canonicalArgs (NormalizeRawJSON args) = Inr a"
    and "zero_time + microsecond \<le> now" and "microsecond \<le> ttl"
  shows "\<exists>c st'. newCommand E now dev ty args ttl st = Inr (c, st')"
proof -
  have "rand_Read E (Suc (draws st)) 24 \<noteq> []" using assms(2) by (metis rand_ok_def list.size(3) zero_neq_numeral)
  then have n: "TrimSpace (NewNonce (rand_Read E (Suc (draws st)) 24)) \<noteq> []"
    by (simp add: NewNonce_def raw_url.trim_encode b64_nonempty)
  have "list_all plain_char (''cmd_'' @ hex_EncodeToString (rand_Read E (draws st) 16))"
    by (simp add: hex_plain) (simp add: plain_char_def ascii_space_def)
  then have i: "TrimSpace (CHR ''c'' # CHR ''m'' # CHR ''d'' # CHR ''_'' # hex_EncodeToString (rand_Read E (draws st) 16)) \<noteq> []"
    by (simp add: TrimSpace_plain)
  define t where "t = Truncate now microsecond"
  define x where "x = Truncate (t + ttl) microsecond"
  have "now - microsecond < t" unfolding t_def by (rule Truncate_gt) simp
  then have z: "zero_time < t" using assms(6) by simp
  have "t + ttl - microsecond < x" unfolding x_def by (rule Truncate_gt) simp
  with assms(7) have "t < x" by simp
  with z n i assms show ?thesis
    by (auto simp: newCommand_def randomID_def Let_def Sign_def Canonical_def command_envelope_def
        IsZero_def t_def [symmetric] x_def [symmetric])
qed

text \<open>
  Every command the server makes carries a signature that verifies under the server's public
  key, over exactly the columns that are stored and delivered.
\<close>

theorem newCommand_verifies:
  assumes "ed25519_ok E" and "newCommand E now dev ty args ttl st = Inr (c, st')"
  shows "\<exists>t. c_expires_at c = Some t \<and>
    Verify E (ed_Public E (signing_key st)) (command_envelope c t) (c_signature c) = Inr ()"
  using newCommand_Inr [OF assms(2)] Verify_Sign_lemma [OF assms(1)] by auto

text \<open>
  A timestamp the store writes (\<open>Format(time.RFC3339Nano)\<close>, as \<open>nowText\<close> does) is read back
  exactly by \<open>parseTime\<close>, for every instant of the years 1 to 9999.
\<close>

theorem parseTime_RFC3339Nano:
  assumes "zero_time \<le> t" and "fst (year_day ((t - zero_time) div (24 * hour))) < 10000"
  shows "parseTime (RFC3339Nano t) = t"
  by (simp add: parseTime_def time_Parse_RFC3339Nano [OF assms])

theorem parseTime_RFC3339Nano_witness:
  "parseTime (RFC3339Nano (1700000000 * second + 500000)) = 1700000000 * second + 500000"
  by (rule parseTime_RFC3339Nano) (simp_all add: zero_time_def year_day_def)

text \<open>A concrete environment for the examples of this development.\<close>

definition sample_env :: env where
  "sample_env = crypto.extend sample_crypto
     \<lparr>postgres = False, julianday = (\<lambda>t. t div 1000000),
      rand_Read = (\<lambda>n k. replicate k (char_of n)),
      seal = Some (\<lambda>context value. ''enc:v1:'' @ b64_EncodeToString url_alphabet (context @ value)),
      unseal = (\<lambda>context value. case CutPrefix value ''enc:v1:'' of None \<Rightarrow> None
        | Some text \<Rightarrow> (case b64_DecodeString url_alphabet text of None \<Rightarrow> None | Some raw \<Rightarrow> CutPrefix raw context)), float_round = Some, float_text = Some,
      LoadLocation = (\<lambda>name. if name = ''UTC'' then Some (\<lambda>t. (0, -1000000000000000000, 1000000000000000000)) else None)\<rparr>"

definition sample_key :: string where
  "sample_key = replicate 64 (CHR ''k'')"

lemma sample_env_ok: "ed25519_ok sample_env" "rand_ok sample_env" "julianday_mono sample_env"
  by (auto simp: sample_env_def sample_crypto_def ed25519_ok_def rand_ok_def julianday_mono_def
      crypto.defs intro: zdiv_mono1)

lemma sample_texts:
  "TrimSpace ''dev'' = ''dev''" "TrimSpace ''reboot'' = ''reboot''" "TrimSpace ''ping'' = ''ping''"
  "NormalizeRawJSON ''{}'' = ''{}''" "canonicalArgs ''{}'' = Inr (JObj [])"
  by code_simp+

theorem newCommand_verifies_witness:
  "\<exists>c st' t. newCommand sample_env (1700000000 * second) ''dev'' ''reboot'' ''{}'' (24 * hour) (empty_store sample_key)
      = Inr (c, st') \<and> c_expires_at c = Some t \<and>
     Verify sample_env (replicate 32 (CHR ''k'')) (command_envelope c t) (c_signature c) = Inr ()"
proof -
  have "\<exists>c st'. newCommand sample_env (1700000000 * second) ''dev'' ''reboot'' ''{}'' (24 * hour)
      (empty_store sample_key) = Inr (c, st')"
    by (rule newCommand_defined [where a = "JObj []"])
      (simp_all add: sample_env_ok sample_texts empty_store_def sample_key_def zero_time_def)
  then obtain c st' where c: "newCommand sample_env (1700000000 * second) ''dev'' ''reboot'' ''{}''
      (24 * hour) (empty_store sample_key) = Inr (c, st')" by blast
  have "ed_Public sample_env (signing_key (empty_store sample_key)) = replicate 32 (CHR ''k'')"
    by (simp add: sample_env_def sample_crypto_def crypto.defs empty_store_def sample_key_def)
  with newCommand_verifies [OF sample_env_ok(1) c] c show ?thesis by auto
qed

end
