(* ===== verification/Permissions.thy ===== *)
theory Permissions
  imports Db
begin

text \<open>
  Who may do what on which device (\<open>permissions.go\<close>, \<open>fleetPrincipal\<close> and \<open>fleetDeviceAccess\<close> of
  \<open>fleet_operations.go\<close>): an active account, ownership of the device, and the permissions, groups
  and sites of the account's policy; administrators are not restricted. The interface the other
  components rely on is the locale \<open>authorization\<close>.
\<close>

section \<open>Principals and permissions\<close>

definition fleetPrincipal :: "store \<Rightarrow> string \<Rightarrow> bool res" where
  "fleetPrincipal st userID =
     (case find_row (\<lambda>u. u_id u = userID) (users st) of
        None \<Rightarrow> Inl ErrFleetAccess
      | Some u \<Rightarrow> if u_disabled u then Inl ErrFleetAccess else Inr (u_role u = ''admin''))"

definition PermissionNames :: "string list" where
  "PermissionNames =
     [''view'', ''diagnostics'', ''updates'', ''uci'', ''remote'', ''backups'', ''maintenance'', ''incidents'']"

definition CommandPermission :: "string \<Rightarrow> string" where
  "CommandPermission kind =
     (if HasPrefix kind ''uci_'' then ''uci''
      else if HasPrefix kind ''remote_'' then ''remote''
      else if HasPrefix kind ''system_backup_'' then ''backups''
      else if kind = ''agent_update'' \<or> kind = ''agent_rollback'' \<or> HasPrefix kind ''pkg_'' \<or> HasPrefix kind ''opkg_''
      then (if Contains kind ''list'' then ''diagnostics'' else ''updates'')
      else if kind \<in> set [''ping'', ''traceroute'', ''route_show'', ''interfaces_show'', ''diagnostic_report'']
      then ''diagnostics''
      else ''maintenance'')"

definition permissionPolicy :: "store \<Rightarrow> string \<Rightarrow> PermissionPolicy" where
  "permissionPolicy st userID =
     (case find_row (\<lambda>r. mp_user_id r = userID) (management_permissions st) of
        None \<Rightarrow> \<lparr>p_Permissions = PermissionNames, p_Groups = [], p_Sites = [], p_Configured = False\<rparr>
      | Some r \<Rightarrow> (mp_policy r)\<lparr>p_Configured := True\<rparr>)"

definition device_site :: "store \<Rightarrow> string \<Rightarrow> string" where
  "device_site st deviceID =
     (case find_row (\<lambda>a. fa_device_id a = deviceID) (fleet_assets st) of Some a \<Rightarrow> fa_site a | None \<Rightarrow> [])"

definition permissionAllowed :: "store \<Rightarrow> string \<Rightarrow> string \<Rightarrow> string \<Rightarrow> bool \<Rightarrow> unit res" where
  "permissionAllowed st userID deviceID permission admin =
     (if admin then Inr ()
      else let p = permissionPolicy st userID in
        if ''view'' \<notin> set (p_Permissions p) \<or> permission \<notin> set (p_Permissions p) then Inl ErrFleetAccess
        else if deviceID = [] then Inr ()
        else case find_row (\<lambda>d. d_id d = deviceID) (devices st) of
               None \<Rightarrow> Inl ErrFleetAccess
             | Some d \<Rightarrow>
                 if d_owner_user_id d \<noteq> userID \<or>
                    (p_Groups p \<noteq> [] \<and> d_group_name d \<notin> set (p_Groups p)) \<or>
                    (p_Sites p \<noteq> [] \<and> device_site st deviceID \<notin> set (p_Sites p))
                 then Inl ErrFleetAccess else Inr ())"

definition fleetDeviceAccess :: "store \<Rightarrow> string \<Rightarrow> string \<Rightarrow> bool \<Rightarrow> unit res" where
  "fleetDeviceAccess st userID deviceID admin =
     (if \<not> has_row (\<lambda>d. d_id d = deviceID \<and> (d_owner_user_id d = userID \<or> admin)) (devices st)
      then Inl ErrFleetAccess
      else permissionAllowed st userID deviceID ''view'' admin)"

definition CheckPermission :: "store \<Rightarrow> string \<Rightarrow> string \<Rightarrow> string \<Rightarrow> unit res" where
  "CheckPermission st userID deviceID permission =
     bindE (fleetPrincipal st userID) (permissionAllowed st userID deviceID permission)"

section \<open>Editing a policy\<close>

definition open_status :: "string \<Rightarrow> bool" where
  "open_status s \<longleftrightarrow> s = ''requested'' \<or> s = ''queued'' \<or> s = ''active''"

definition policy_limits :: "PermissionPolicy \<Rightarrow> unit res" where
  "policy_limits p =
     (if length (p_Permissions p) > length PermissionNames \<or> length (p_Groups p) > 100 \<or> length (p_Sites p) > 100
      then Inl (ErrMsg ''invalid permission limits'')
      else bindE (checkE (\<lambda>v. if v \<in> set PermissionNames then Inr () else Inl (ErrMsg ''unknown permission'')) (p_Permissions p)) (\<lambda>_.
        bindE (checkE (\<lambda>v. if TrimSpace v = [] \<or> length v > 255 then Inl (ErrMsg ''invalid scope'') else Inr ())
                 (p_Groups p @ p_Sites p)) (\<lambda>_.
        if ''view'' \<notin> set (p_Permissions p) \<and> p_Permissions p \<noteq> [] then Inl (ErrMsg ''view is required'')
        else Inr ())))"

definition policy_json :: "PermissionPolicy \<Rightarrow> json" where
  "policy_json p = JObj
     [(''permissions'', JArr (map JStr (p_Permissions p))), (''groups'', JArr (map JStr (p_Groups p))),
      (''sites'', JArr (map JStr (p_Sites p))), (''configured'', JBool (p_Configured p))]"

text \<open>\<open>users.username\<close> compares without regard to case on SQLite.\<close>

definition username_eq :: "env \<Rightarrow> string \<Rightarrow> string \<Rightarrow> bool" where
  "username_eq E x y \<longleftrightarrow> (if postgres E then x = y else ToLower x = ToLower y)"

text \<open>The sessions a user opened: by a command of his, by the audit trail, or by an access token.\<close>

definition session_of_user :: "env \<Rightarrow> store \<Rightarrow> string \<Rightarrow> remote_session \<Rightarrow> bool" where
  "session_of_user E st userID s \<longleftrightarrow>
     has_row (\<lambda>cp. cp_user_id cp = userID \<and> cp_permission cp = ''remote'' \<and> cp_command_id cp = rs_command_id s)
       (command_permissions st) \<or>
     has_row (\<lambda>a. ae_action a = ''remote_session.create'' \<and> ae_command_id a = rs_command_id s \<and>
         has_row (\<lambda>u. username_eq E (u_username u) (ae_actor a) \<and> u_id u = userID) (users st)) (audit_events st) \<or>
     has_row (\<lambda>t. at_user_id t = userID \<and> at_remote_session_id t = rs_id s) (device_access_sessions st) \<or>
     has_row (\<lambda>t. at_user_id t = userID \<and> at_remote_session_id t = rs_id s) (device_access_grants st)"

definition close_session :: "time \<Rightarrow> remote_session \<Rightarrow> remote_session" where
  "close_session now s = s\<lparr>rs_status := ''closed'', rs_closed_at := Some now, rs_updated_at := now\<rparr>"

definition apply_policy :: "env \<Rightarrow> time \<Rightarrow> string \<Rightarrow> PermissionPolicy \<Rightarrow> store \<Rightarrow> store" where
  "apply_policy E now userID p st =
     (let st = st\<lparr>management_permissions :=
            upsert_row mp_user_id (\<lambda>old new. old\<lparr>mp_policy := mp_policy new, mp_updated_at := mp_updated_at new\<rparr>)
              \<lparr>mp_user_id = userID, mp_policy = p, mp_updated_at = now\<rparr> (management_permissions st)\<rparr>;
          st = st\<lparr>remote_sessions :=
            upd_where (\<lambda>s. open_status (rs_status s) \<and> session_of_user E st userID s) (close_session now)
              (remote_sessions st)\<rparr>;
          st = st\<lparr>commands :=
            upd_where (\<lambda>c. c_status c = ''queued'' \<and> c_type c = ''remote_ssh_reverse'' \<and>
                has_row (\<lambda>s. rs_command_id s = c_id c \<and> rs_status s = ''closed'') (remote_sessions st))
              (\<lambda>c. c\<lparr>c_status := ''cancelled'', c_cancelled_at := Some now\<rparr>) (commands st)\<rparr>;
          st = st\<lparr>device_access_sessions := del_where (\<lambda>t. at_user_id t = userID) (device_access_sessions st)\<rparr>
      in st\<lparr>device_access_grants := del_where (\<lambda>t. at_user_id t = userID) (device_access_grants st)\<rparr>)"

definition add_audit :: "audit_event \<Rightarrow> store \<Rightarrow> store res" where
  "add_audit a st = bindE (insert_row ae_id a (audit_events st)) (\<lambda>as. Inr (st\<lparr>audit_events := as\<rparr>))"

definition SavePermissionPolicy ::
  "env \<Rightarrow> time \<Rightarrow> string \<Rightarrow> string \<Rightarrow> PermissionPolicy \<Rightarrow> store \<Rightarrow> store res" where
  "SavePermissionPolicy E now adminID userID p st =
     bindE (policy_limits p) (\<lambda>_.
       let p = p\<lparr>p_Configured := True\<rparr> in
       bindE (fleetPrincipal st adminID) (\<lambda>admin.
         if \<not> admin then Inl ErrFleetAccess
         else bindE (fleetPrincipal st userID) (\<lambda>targetAdmin.
           if targetAdmin then Inl (ErrMsg ''administrator permissions cannot be restricted'')
           else let st = apply_policy E now userID p st; (id, st) = randomID E ''audit'' st
                in add_audit
                     \<lparr>ae_id = id, ae_actor = adminID, ae_action = ''permissions.update'', ae_device_id = [],
                      ae_command_id = [],
                      ae_details_json = print_json (JObj [(''policy'', policy_json p), (''user_id'', JStr userID)]),
                      ae_created_at = now\<rparr> st)))"

section \<open>The interface\<close>

text \<open>
  What a component that acts for a user relies on: the answers are errors of access or a yes; a
  yes about a device for an account that is not an administrator means ownership.
\<close>

locale authorization =
  fixes principal :: "store \<Rightarrow> string \<Rightarrow> bool res"
    and allowed :: "store \<Rightarrow> string \<Rightarrow> string \<Rightarrow> string \<Rightarrow> bool \<Rightarrow> unit res"
  assumes principal_error: "principal st u = Inl e \<Longrightarrow> e = ErrFleetAccess"
    and principal_active: "principal st u = Inr a \<Longrightarrow>
      \<exists>r \<in> set (users st). u_id r = u \<and> \<not> u_disabled r \<and> a = (u_role r = ''admin'')"
    and allowed_error: "allowed st u d p a = Inl e \<Longrightarrow> e = ErrFleetAccess"
    and allowed_owner: "allowed st u d p False = Inr () \<Longrightarrow> d \<noteq> [] \<Longrightarrow>
      \<exists>r \<in> set (devices st). d_id r = d \<and> d_owner_user_id r = u"
begin

definition may :: "store \<Rightarrow> string \<Rightarrow> string \<Rightarrow> string \<Rightarrow> bool" where
  "may st u d p \<longleftrightarrow> (\<exists>a. principal st u = Inr a \<and> allowed st u d p a = Inr ())"

lemma may_active: "may st u d p \<Longrightarrow> \<exists>r \<in> set (users st). u_id r = u \<and> \<not> u_disabled r"
  using principal_active by (fastforce simp: may_def)

lemma may_owner_or_admin:
  assumes "may st u d p" and "d \<noteq> []"
  shows "(\<exists>r \<in> set (users st). u_id r = u \<and> \<not> u_disabled r \<and> u_role r = ''admin'') \<or>
    (\<exists>r \<in> set (devices st). d_id r = d \<and> d_owner_user_id r = u)"
proof -
  obtain a where a: "principal st u = Inr a" "allowed st u d p a = Inr ()" using assms(1) by (auto simp: may_def)
  show ?thesis
  proof (cases a)
    case True
    with principal_active [OF a(1)] show ?thesis by auto
  next
    case False
    with allowed_owner a(2) assms(2) show ?thesis by auto
  qed
qed

text \<open>A loop over targets that lets all of them pass has checked each one.\<close>

lemma batch_checked:
  assumes "principal st u = Inr a" and "checkE (\<lambda>d. allowed st u d p a) ds = Inr ()" and "d \<in> set ds"
  shows "may st u d p"
  using assms by (auto simp: may_def checkE_ok)

end

lemma permissionAllowed_error: "permissionAllowed st u d p a = Inl e \<Longrightarrow> e = ErrFleetAccess"
  by (auto simp: permissionAllowed_def Let_def split: if_splits option.splits)

lemma permissionAllowed_owner:
  "permissionAllowed st u d p False = Inr () \<Longrightarrow> d \<noteq> [] \<Longrightarrow>
   \<exists>r \<in> set (devices st). d_id r = d \<and> d_owner_user_id r = u"
  by (auto simp: permissionAllowed_def Let_def split: if_splits option.splits dest!: find_row_Some)

lemma fleetPrincipal_Inr:
  "fleetPrincipal st u = Inr a \<Longrightarrow>
   \<exists>r \<in> set (users st). u_id r = u \<and> \<not> u_disabled r \<and> a = (u_role r = ''admin'')"
  by (auto simp: fleetPrincipal_def split: option.splits if_splits dest!: find_row_Some)

interpretation perm: authorization fleetPrincipal permissionAllowed
  by unfold_locales
    (auto simp: fleetPrincipal_def split: option.splits if_splits
      dest: permissionAllowed_error permissionAllowed_owner fleetPrincipal_Inr find_row_Some)

lemma fleetDeviceAccess_error: "fleetDeviceAccess st u d a = Inl e \<Longrightarrow> e = ErrFleetAccess"
  by (auto simp: fleetDeviceAccess_def split: if_splits dest: permissionAllowed_error)

interpretation view: authorization fleetPrincipal "\<lambda>st u d p a. fleetDeviceAccess st u d a"
  by unfold_locales
    (auto simp: fleetDeviceAccess_def has_row_iff split: if_splits dest: perm.principal_error
      permissionAllowed_error permissionAllowed_owner fleetPrincipal_Inr)

interpretation permission_table: keyed_table mp_user_id .

text \<open>Access depends on accounts, devices, policies and sites only.\<close>

lemma access_cong:
  assumes "users st = users st'" and "devices st = devices st'"
    and "management_permissions st = management_permissions st'" and "fleet_assets st = fleet_assets st'"
  shows "fleetPrincipal st = fleetPrincipal st'" and "permissionAllowed st = permissionAllowed st'"
    and "fleetDeviceAccess st = fleetDeviceAccess st'"
proof -
  show "fleetPrincipal st = fleetPrincipal st'"
    by (rule ext) (unfold fleetPrincipal_def assms, rule refl)
  show p: "permissionAllowed st = permissionAllowed st'"
    by (intro ext) (unfold permissionAllowed_def permissionPolicy_def device_site_def assms, rule refl)
  show "fleetDeviceAccess st = fleetDeviceAccess st'"
    by (intro ext) (unfold fleetDeviceAccess_def assms p, rule refl)
qed

section \<open>Properties\<close>


text \<open>A small fleet: an administrator, an operator who owns one router, and a foreign router.\<close>

definition sample_user :: "string \<Rightarrow> string \<Rightarrow> user" where
  "sample_user i role = 
     \<lparr>u_id = i, u_username = i, u_display_name = i, u_email = [], u_password_hash = ''h'', u_role = role,
      u_disabled = False, u_created_at = 0, u_updated_at = 0\<rparr>"

definition sample_device :: "string \<Rightarrow> string \<Rightarrow> device" where
  "sample_device i owner =
     \<lparr>d_id = i, d_token = [], d_token_hash = ''h'', d_next_token_hash = [], d_next_token_ciphertext = [],
      d_token_epoch = 1, d_tunnel_public_key = [], d_tunnel_key_fingerprint = [], d_tunnel_key_epoch = 1,
      d_tunnel_credential_updated_at = None,
      d_owner_user_id = owner, d_dns_label = [], d_hostname = i, d_openwrt_version = ''24.10'',
      d_inventory_json = ''{}'', d_metrics_json = ''{}'', d_group_name = ''branch'', d_tags = [],
      d_last_seen_at = None, d_created_at = 0\<rparr>"

definition sample_store :: store where
  "sample_store = (empty_store sample_key)
     \<lparr>users := [sample_user ''root'' ''admin'', sample_user ''op'' ''user''],
      devices := [sample_device ''dev'' ''op'', sample_device ''other'' ''root'']\<rparr>"


lemma session_of_user_mono:
  "session_of_user E (st\<lparr>management_permissions := m\<rparr>) u s = session_of_user E st u s"
  "session_of_user E st u (close_session now s) = session_of_user E st u s"
  by (simp_all add: session_of_user_def close_session_def)

lemma apply_policy_tables:
  "management_permissions (apply_policy E now u p st) =
     upsert_row mp_user_id (\<lambda>old new. old\<lparr>mp_policy := mp_policy new, mp_updated_at := mp_updated_at new\<rparr>)
       \<lparr>mp_user_id = u, mp_policy = p, mp_updated_at = now\<rparr> (management_permissions st)"
  "remote_sessions (apply_policy E now u p st) =
     upd_where (\<lambda>s. open_status (rs_status s) \<and> session_of_user E st u s) (close_session now) (remote_sessions st)"
  "device_access_sessions (apply_policy E now u p st) = del_where (\<lambda>t. at_user_id t = u) (device_access_sessions st)"
  "device_access_grants (apply_policy E now u p st) = del_where (\<lambda>t. at_user_id t = u) (device_access_grants st)"
  "audit_events (apply_policy E now u p st) = audit_events st"
  "users (apply_policy E now u p st) = users st" "devices (apply_policy E now u p st) = devices st"
  by (simp_all add: apply_policy_def Let_def session_of_user_mono)

lemma SavePermissionPolicy_Inr:
  assumes "SavePermissionPolicy E now adminID u p st = Inr st'"
  shows "policy_limits p = Inr () \<and> fleetPrincipal st adminID = Inr True \<and> fleetPrincipal st u = Inr False \<and>
    (\<exists>as n. st' = (apply_policy E now u (p\<lparr>p_Configured := True\<rparr>) st)\<lparr>draws := n, audit_events := as\<rparr>)"
  using assms
  by (auto simp: SavePermissionPolicy_def res_simps Let_def add_audit_def randomID_def
      split: if_splits)

lemma find_after_upsert_other:
  "k \<noteq> key r \<Longrightarrow> (\<And>old. key old = key r \<Longrightarrow> key (merge old r) = key r) \<Longrightarrow>
   find_row (\<lambda>x. key x = k) (upsert_row key merge r xs) = find_row (\<lambda>x. key x = k) xs"
proof -
  assume k: "k \<noteq> key r" and m: "\<And>old. key old = key r \<Longrightarrow> key (merge old r) = key r"
  have "find_row (\<lambda>x. key x = k) (upd_where (\<lambda>x. key x = key r) (\<lambda>old. merge old r) xs) =
      find_row (\<lambda>x. key x = k) xs" for xs
    using k m by (induction xs) auto
  then show ?thesis using k by (auto simp: upsert_row_def find_row_append split: option.splits)
qed

text \<open>
  C6. Saving a policy takes effect at once: only an administrator does it, and not to another
  administrator; the policy reads back as saved and no other account's policy changes; every
  session the account had opened is closed and all its access tokens are gone.
\<close>

theorem SavePermissionPolicy_revokes:
  assumes "SavePermissionPolicy E now adminID userID p st = Inr st'"
  shows "fleetPrincipal st adminID = Inr True \<and> fleetPrincipal st userID = Inr False \<and>
    (\<forall>v. permissionPolicy st' v = (if v = userID then p\<lparr>p_Configured := True\<rparr> else permissionPolicy st v)) \<and>
    (\<forall>s \<in> set (remote_sessions st'). session_of_user E st userID s \<longrightarrow> \<not> open_status (rs_status s)) \<and>
    (\<forall>t \<in> set (device_access_grants st') \<union> set (device_access_sessions st'). at_user_id t \<noteq> userID)"
proof -
  from SavePermissionPolicy_Inr [OF assms] obtain as n
    where st': "st' = (apply_policy E now userID (p\<lparr>p_Configured := True\<rparr>) st)\<lparr>draws := n, audit_events := as\<rparr>"
      and a: "fleetPrincipal st adminID = Inr True" "fleetPrincipal st userID = Inr False" by auto
  define row where "row = \<lparr>mp_user_id = userID, mp_policy = p\<lparr>p_Configured := True\<rparr>, mp_updated_at = now\<rparr>"
  define merge where "merge = (\<lambda>(old :: permission_row) (new :: permission_row). old\<lparr>mp_policy := mp_policy new, mp_updated_at := mp_updated_at new\<rparr>)"
  have f: "find_row (\<lambda>r. mp_user_id r = v) (upsert_row mp_user_id merge row (management_permissions st)) =
      (if v = userID then Some (case find_row (\<lambda>r. mp_user_id r = userID) (management_permissions st) of
          None \<Rightarrow> row | Some old \<Rightarrow> merge old row)
       else find_row (\<lambda>r. mp_user_id r = v) (management_permissions st))" for v
    using permission_table.find_after_upsert [of row merge "management_permissions st"]
      find_after_upsert_other [of v mp_user_id row merge "management_permissions st"]
    by (simp add: row_def merge_def)
  have "permissionPolicy st' v = (if v = userID then p\<lparr>p_Configured := True\<rparr> else permissionPolicy st v)" for v
    using f [of v]
    by (auto simp: permissionPolicy_def st' apply_policy_tables row_def merge_def split: option.splits)
  moreover have "\<forall>s \<in> set (remote_sessions st'). session_of_user E st userID s \<longrightarrow> \<not> open_status (rs_status s)"
    by (auto simp: st' apply_policy_tables set_upd_where session_of_user_mono close_session_def open_status_def)
  moreover have "\<forall>t \<in> set (device_access_grants st') \<union> set (device_access_sessions st'). at_user_id t \<noteq> userID"
    by (auto simp: st' apply_policy_tables set_del_where)
  ultimately show ?thesis using a by blast
qed

text \<open>The operator of the sample fleet with an open session to his router.\<close>

definition sample_session :: remote_session where
  "sample_session =
     \<lparr>rs_id = ''s'', rs_device_id = ''dev'', rs_target = ''ssh'', rs_status = ''active'', rs_server_host = ''h'',
      rs_server_port = 22, rs_remote_port = 22001, rs_luci_port = 0, rs_luci_scheme = ''http'',
      rs_local_host = ''127.0.0.1'', rs_local_port = 22, rs_command_id = ''c1'', rs_created_at = 0,
      rs_expires_at = hour, rs_started_at = None, rs_closed_at = None, rs_updated_at = 0\<rparr>"

definition sample_sessions :: store where
  "sample_sessions = sample_store
     \<lparr>remote_sessions := [sample_session],
      command_permissions := [\<lparr>cp_command_id = ''c1'', cp_user_id = ''op'', cp_permission = ''remote''\<rparr>]\<rparr>"

theorem SavePermissionPolicy_revokes_witness:
  "\<exists>st'. SavePermissionPolicy sample_env minute ''root'' ''op''
      \<lparr>p_Permissions = [''view''], p_Groups = [''branch''], p_Sites = [], p_Configured = False\<rparr> sample_sessions = Inr st' \<and>
     (\<forall>s \<in> set (remote_sessions st'). session_of_user sample_env sample_sessions ''op'' s \<longrightarrow> \<not> open_status (rs_status s))"
proof -
  let ?p = "\<lparr>p_Permissions = [''view''], p_Groups = [''branch''], p_Sites = [], p_Configured = False\<rparr>"
  have "policy_limits ?p = Inr ()" "fleetPrincipal sample_sessions ''root'' = Inr True"
    "fleetPrincipal sample_sessions ''op'' = Inr False" by code_simp+
  then obtain st' where st': "SavePermissionPolicy sample_env minute ''root'' ''op'' ?p sample_sessions = Inr st'"
    by (simp add: SavePermissionPolicy_def Let_def randomID_def add_audit_def insert_row_def apply_policy_tables
        has_row_def sample_sessions_def sample_store_def empty_store_def)
  from SavePermissionPolicy_revokes [OF st'] st' show ?thesis by blast
qed

end
