(* ===== verification/Reactions.thy ===== *)
theory Reactions
  imports Permissions
begin

text \<open>
  Conditions of automatic reactions (\<open>fleet_rules.go\<close>): the reading of a metrics document, whether
  it violates a rule, and whether a queued automatic restart may still be delivered.
\<close>

section \<open>Numbers\<close>

definition digits_rat :: "string \<Rightarrow> rat" where
  "digits_rat ds = of_int (dec_val ds)"

definition exponent_value :: "string \<Rightarrow> int option" where
  "exponent_value s =
     (case s of
        [] \<Rightarrow> Some 0
      | e # r \<Rightarrow>
          if e = CHR ''e'' \<or> e = CHR ''E'' then
            (case r of
               [] \<Rightarrow> None
             | c # t \<Rightarrow>
                 let (sign, ds) = (if c = CHR ''-'' then (-1, t) else if c = CHR ''+'' then (1, t) else (1, r))
                 in if ds \<noteq> [] \<and> list_all digit_char ds then Some (sign * dec_val ds) else None)
          else None)"

definition scale10 :: "rat \<Rightarrow> int \<Rightarrow> rat" where
  "scale10 q n = (if 0 \<le> n then q * 10 ^ nat n else q / 10 ^ nat (- n))"

text \<open>The value of a decimal floating-point text; hexadecimal notation is not modelled.\<close>

definition decimal_value :: "string \<Rightarrow> rat option" where
  "decimal_value s =
     (let (sign, s) = (case s of
            c # r \<Rightarrow> if c = CHR ''-'' then (-1, r) else if c = CHR ''+'' then (1, r) else (1, s)
          | [] \<Rightarrow> (1, s));
          whole = takeWhile digit_char s; r = dropWhile digit_char s;
          (frac, r) = (case r of
            c # t \<Rightarrow> if c = CHR ''.'' then (takeWhile digit_char t, dropWhile digit_char t) else ([], r)
          | [] \<Rightarrow> ([], r))
      in if whole = [] \<and> frac = [] then None
         else map_option (\<lambda>n. sign * scale10 (digits_rat (whole @ frac)) (n - int (length frac)))
                (exponent_value r))"

definition ParseFloat :: "env \<Rightarrow> string \<Rightarrow> rat option" where
  "ParseFloat E s = Option.bind (decimal_value s) (float_round E)"

definition to_float :: "env \<Rightarrow> rat \<Rightarrow> json \<Rightarrow> rat option" where
  "to_float E old v = (case v of JNum n \<Rightarrow> ParseFloat E n | JNull \<Rightarrow> Some old | _ \<Rightarrow> None)"

section \<open>Metrics\<close>

record metrics_doc =
  m_Load :: string
  m_Total :: rat
  m_Used :: rat
  m_Checks :: "bool option list"

text \<open>A member that is a struct: its fields are decoded over what an earlier duplicate left.\<close>

definition to_memory :: "env \<Rightarrow> rat \<times> rat \<Rightarrow> json \<Rightarrow> (rat \<times> rat) option" where
  "to_memory E old v =
     Option.bind (decode_field (to_float E) ''total_kb'' (fst old) v) (\<lambda>tot.
     Option.bind (decode_field (to_float E) ''used_kb'' (snd old) v) (\<lambda>used. Some (tot, used)))"

definition to_reachable :: "bool option \<Rightarrow> json \<Rightarrow> bool option option" where
  "to_reachable old v = (case v of JBool b \<Rightarrow> Some (Some b) | JNull \<Rightarrow> Some None | _ \<Rightarrow> None)"

definition to_checks :: "bool option list \<Rightarrow> json \<Rightarrow> bool option list option" where
  "to_checks old v =
     (case v of
        JArr vs \<Rightarrow> all_some (map (decode_field to_reachable ''reachable'' None) vs)
      | JNull \<Rightarrow> Some []
      | _ \<Rightarrow> None)"

definition decode_metrics :: "env \<Rightarrow> RawMessage \<Rightarrow> metrics_doc option" where
  "decode_metrics E raw =
     Option.bind (json_unmarshal raw) (\<lambda>j.
     Option.bind (string_field ''loadavg'' j) (\<lambda>load.
     Option.bind (decode_field (to_memory E) ''memory'' (0, 0) j) (\<lambda>(tot, used).
     Option.bind (decode_field to_checks ''connectivity_checks'' [] j) (\<lambda>checks.
       Some \<lparr>m_Load = load, m_Total = tot, m_Used = used, m_Checks = checks\<rparr>))))"

text \<open>\<open>used/total*100 >= threshold\<close> in \<open>float64\<close>; an overflow is \<open>+Inf\<close>.\<close>

definition percent_ge :: "env \<Rightarrow> rat \<Rightarrow> rat \<Rightarrow> rat \<Rightarrow> bool" where
  "percent_ge E used tot threshold =
     (case float_round E (used / tot) of
        None \<Rightarrow> True
      | Some q \<Rightarrow> (case float_round E (q * 100) of None \<Rightarrow> True | Some p \<Rightarrow> threshold \<le> p))"

fun wan_unreachable :: "bool option list \<Rightarrow> bool \<times> bool" where
  "wan_unreachable [] = (True, True)"
| "wan_unreachable (None # cs) = (False, False)"
| "wan_unreachable (Some b # cs) = (if b then (False, True) else wan_unreachable cs)"

text \<open>The pair (violated, known).\<close>

definition reactionViolation :: "env \<Rightarrow> FleetRule \<Rightarrow> RawMessage \<Rightarrow> bool \<times> bool" where
  "reactionViolation E rule raw =
     (case decode_metrics E raw of
        None \<Rightarrow> (False, False)
      | Some m \<Rightarrow>
          if fr_Kind rule = ''memory_high'' then
            (if m_Total m \<le> 0 \<or> m_Used m < 0 \<or> m_Used m > m_Total m then (False, False)
             else (percent_ge E (m_Used m) (m_Total m) (fr_Threshold rule), True))
          else if fr_Kind rule = ''load_high'' then
            (case Fields (m_Load m) of
               [] \<Rightarrow> (False, False)
             | f # _ \<Rightarrow>
                 (case ParseFloat E f of
                    None \<Rightarrow> (False, False)
                  | Some value \<Rightarrow> if value < 0 then (False, False) else (fr_Threshold rule \<le> value, True)))
          else if fr_Kind rule = ''wan_unreachable'' then
            (if m_Checks m = [] then (False, False) else wan_unreachable (m_Checks m))
          else (False, False))"

section \<open>Diagnostics reports\<close>

definition to_check :: "json \<Rightarrow> (string \<times> string) option" where
  "to_check v =
     Option.bind (string_field ''Name'' v) (\<lambda>n. map_option (Pair n) (string_field ''Status'' v))"

definition to_report_checks :: "(string \<times> string) list \<Rightarrow> json \<Rightarrow> (string \<times> string) list option" where
  "to_report_checks old v =
     (case v of JArr vs \<Rightarrow> all_some (map to_check vs) | JNull \<Rightarrow> Some [] | _ \<Rightarrow> None)"

definition decode_report :: "RawMessage \<Rightarrow> (string \<times> string) list option" where
  "decode_report raw =
     Option.bind (json_unmarshal raw)
       (decode_field (decode_field to_report_checks ''checks'') ''diagnostics'' [])"

text \<open>The latest finished diagnostics report of a device within ten minutes.\<close>

definition latest_report :: "env \<Rightarrow> time \<Rightarrow> string \<Rightarrow> store \<Rightarrow> command option" where
  "latest_report E now deviceID st =
     (case order_by (\<lambda>x y. ts_le E (the (c_completed_at y)) (the (c_completed_at x)))
             (filter (\<lambda>c. c_device_id c = deviceID \<and> c_type c = ''diagnostic_report'' \<and>
                (c_status c = ''completed'' \<or> c_status c = ''failed'') \<and>
                (case c_completed_at c of
                   None \<Rightarrow> False | Some t \<Rightarrow> julianday E t > julianday E (now - 10 * minute)))
               (commands st)) of
        [] \<Rightarrow> None
      | c # _ \<Rightarrow> Some c)"

section \<open>Delivery of an automatic restart\<close>

definition reactionCommandStillAllowed ::
  "env \<Rightarrow> time \<Rightarrow> string \<Rightarrow> string \<Rightarrow> string \<Rightarrow> store \<Rightarrow> bool res" where
  "reactionCommandStillAllowed E now deviceID ruleID service st =
     (case find_row (\<lambda>r. fr_id r = ruleID) (fleet_rules st) of
        None \<Rightarrow> Inr False
      | Some row \<Rightarrow>
          let rule = fr_definition row; userID = fr_user_id row in
          if \<not> fr_enabled row then Inr False
          else if fr_Action rule \<noteq> ''service_restart'' \<or> fr_Service rule \<noteq> service \<or>
             (service \<noteq> ''dnsmasq'' \<and> service \<noteq> ''uhttpd'') \<or> deviceID \<notin> set (fr_DeviceIDs rule)
          then Inr False
          else case fleetPrincipal st userID of
            Inl e \<Rightarrow> if e = ErrFleetAccess then Inr False else Inl e
          | Inr admin \<Rightarrow>
              (case fleetDeviceAccess st userID deviceID admin of
                 Inl e \<Rightarrow> if e = ErrFleetAccess then Inr False else Inl e
               | Inr _ \<Rightarrow>
                   (case permissionAllowed st userID deviceID ''maintenance'' admin of
                      Inl e \<Rightarrow> if e = ErrFleetAccess then Inr False else Inl e
                    | Inr _ \<Rightarrow>
                        if fr_Kind rule = ''service_down'' then
                          (case latest_report E now deviceID st of
                             None \<Rightarrow> Inr False
                           | Some c \<Rightarrow>
                               (case decode_report (c_result_json c) of
                                  None \<Rightarrow> Inr False
                                | Some checks \<Rightarrow>
                                    Inr (case find_row (\<lambda>(n, s). n = ''service:'' @ service) checks of
                                           None \<Rightarrow> False
                                         | Some (n, s) \<Rightarrow> s = ''failed'')))
                        else
                          (case find_row (\<lambda>d. d_id d = deviceID) (devices st) of
                             None \<Rightarrow> Inl ErrNoRows
                           | Some d \<Rightarrow>
                               (case d_last_seen_at d of
                                  None \<Rightarrow> Inr False
                                | Some seen \<Rightarrow>
                                    if now - seen \<ge> 2 * minute then Inr False
                                    else let (violation, known) = reactionViolation E rule (d_metrics_json d)
                                         in Inr (violation \<and> known))))))"

end
