(* ===== verification/Commands.thy ===== *)
theory Commands
  imports Reactions
begin

text \<open>
  The command queue (\<open>sqlite.go\<close>, \<open>authorized_commands.go\<close>): creating, listing, cancelling,
  expiring, claiming and finishing commands. A command goes from \<open>queued\<close> to \<open>claimed\<close> to
  \<open>completed\<close> or \<open>failed\<close>, back to \<open>queued\<close> when the agent is silent and attempts are left, and
  may end in \<open>cancelled\<close> or \<open>expired\<close>, which are final.
\<close>

section \<open>Expiry\<close>

definition expired_by :: "env \<Rightarrow> time \<Rightarrow> time option \<Rightarrow> bool" where
  "expired_by E now t = (case t of None \<Rightarrow> False | Some x \<Rightarrow> julianday E x \<le> julianday E now)"

definition ExpireClaimedCommands :: "env \<Rightarrow> time \<Rightarrow> time \<Rightarrow> store \<Rightarrow> store" where
  "ExpireClaimedCommands E now maxAge st =
     (let cutoff = now - maxAge;
          st = st\<lparr>commands :=
            upd_where (\<lambda>c. (c_status c = ''queued'' \<or> c_status c = ''claimed'') \<and> expired_by E now (c_expires_at c))
              (\<lambda>c. c\<lparr>c_status := ''expired'', c_expired_at := Some now\<rparr>) (commands st)\<rparr>;
          st = st\<lparr>commands :=
            upd_where (\<lambda>c. c_status c = ''claimed'' \<and> expired_by E cutoff (c_claimed_at c) \<and>
                c_attempt_count c \<ge> c_max_attempts c)
              (\<lambda>c. c\<lparr>c_status := ''expired'', c_expired_at := Some now\<rparr>) (commands st)\<rparr>;
          st = st\<lparr>commands :=
            upd_where (\<lambda>c. c_status c = ''claimed'' \<and> expired_by E cutoff (c_claimed_at c) \<and>
                c_attempt_count c < c_max_attempts c)
              (\<lambda>c. c\<lparr>c_status := ''queued'', c_claimed_at := None\<rparr>) (commands st)\<rparr>
      in st\<lparr>device_backups :=
           upd_where (\<lambda>b. b_status b = ''creating'' \<and>
               has_row (\<lambda>c. c_id c = b_command_id b \<and> c_status c \<in> set [''failed'', ''expired'', ''cancelled''])
                 (commands st))
             (\<lambda>b. b\<lparr>b_status := ''failed'', b_error := ''backup command expired or was cancelled'',
                 b_completed_at := Some now\<rparr>) (device_backups st)\<rparr>)"

section \<open>Claiming\<close>

text \<open>The oldest deliverable command of the device.\<close>

definition claimable :: "env \<Rightarrow> time \<Rightarrow> string \<Rightarrow> command \<Rightarrow> bool" where
  "claimable E now deviceID c \<longleftrightarrow>
     c_device_id c = deviceID \<and> c_status c = ''queued'' \<and> c_attempt_count c < c_max_attempts c \<and>
     (case c_expires_at c of None \<Rightarrow> True | Some t \<Rightarrow> julianday E t > julianday E now)"

definition claim_candidate :: "env \<Rightarrow> time \<Rightarrow> string \<Rightarrow> store \<Rightarrow> command option" where
  "claim_candidate E now deviceID st =
     (case order_by (\<lambda>x y. ts_le E (c_created_at x) (c_created_at y))
             (filter (claimable E now deviceID) (commands st)) of
        [] \<Rightarrow> None
      | c # _ \<Rightarrow> Some c)"

definition cancel_output :: "time \<Rightarrow> string \<Rightarrow> command \<Rightarrow> command" where
  "cancel_output now text c = c\<lparr>c_status := ''cancelled'', c_cancelled_at := Some now, c_output := text\<rparr>"

definition pauseGuardedRollout :: "time \<Rightarrow> string \<Rightarrow> string \<Rightarrow> store \<Rightarrow> store" where
  "pauseGuardedRollout now rid reason st =
     st\<lparr>agent_rollouts :=
          upd_where (\<lambda>r. r_id r = rid \<and> r_status r = ''running'')
            (\<lambda>r. r\<lparr>r_status := ''paused'', r_updated_at := now\<rparr>) (agent_rollouts st),
        rollout_guards :=
          upd_where (\<lambda>g. rg_rollout_id g = rid)
            (\<lambda>g. g\<lparr>rg_healthy_since := None, rg_pause_reason := reason\<rparr>) (rollout_guards st)\<rparr>"

definition unsuccessful :: "string \<Rightarrow> bool" where
  "unsuccessful s \<longleftrightarrow> s = ''failed'' \<or> s = ''cancelled'' \<or> s = ''expired''"

text \<open>
  The checks between selecting a command and delivering it, in the order of the code. Each lets
  the command pass (\<open>None\<close>), or ends the claim without a command in the store it leaves behind.
\<close>

definition guarded_rollout_of :: "store \<Rightarrow> string \<Rightarrow> (agent_rollout \<times> rollout_device) option" where
  "guarded_rollout_of st commandID =
     (case [(r, rd). rd \<leftarrow> agent_rollout_devices st, rd_command_id rd = commandID,
              r \<leftarrow> agent_rollouts st, r_id r = rd_rollout_id rd \<and>
                has_row (\<lambda>g. rg_rollout_id g = r_id r) (rollout_guards st)] of
        [] \<Rightarrow> None
      | x # _ \<Rightarrow> Some x)"

definition gate_rollout :: "time \<Rightarrow> command \<Rightarrow> store \<Rightarrow> store option" where
  "gate_rollout now c st =
     (if c_type c \<noteq> ''agent_update'' then None
      else case guarded_rollout_of st (c_id c) of
             None \<Rightarrow> None
           | Some (r, rd) \<Rightarrow>
               if r_status r \<noteq> ''running'' then Some st
               else if has_row (\<lambda>x. rd_rollout_id x = r_id r \<and> rd_batch x = rd_batch rd \<and> unsuccessful (rd_status x))
                         (agent_rollout_devices st)
               then Some (pauseGuardedRollout now (r_id r) ''current wave has a failed target'' st)
               else None)"

definition command_actions :: "string list" where
  "command_actions =
     [''command.create'', ''command.bulk_create'', ''agent.update_queue'', ''agent.rollback_queue'',
      ''backup.restore'', ''backup.create'', ''remote_session.create'']"

text \<open>On whose behalf a command runs: its permission row, or the earliest audit event about it.\<close>

definition command_principal :: "env \<Rightarrow> command \<Rightarrow> store \<Rightarrow> (string \<times> string) option" where
  "command_principal E c st =
     (case find_row (\<lambda>cp. cp_command_id cp = c_id c) (command_permissions st) of
        Some cp \<Rightarrow> Some (cp_user_id cp, cp_permission cp)
      | None \<Rightarrow>
          (case order_by (\<lambda>x y. ts_le E (ae_created_at (fst x)) (ae_created_at (fst y)))
                  [(a, u). a \<leftarrow> audit_events st, ae_command_id a = c_id c \<and> ae_action a \<in> set command_actions,
                           u \<leftarrow> users st, username_eq E (u_username u) (ae_actor a)] of
             [] \<Rightarrow> None
           | (a, u) # _ \<Rightarrow> Some (u_id u, CommandPermission (c_type c))))"

definition gate_permission :: "env \<Rightarrow> time \<Rightarrow> string \<Rightarrow> command \<Rightarrow> store \<Rightarrow> (store option) res" where
  "gate_permission E now deviceID c st =
     (case command_principal E c st of
        None \<Rightarrow> Inr None
      | Some (user, permission) \<Rightarrow>
          (case bindE (fleetPrincipal st user) (permissionAllowed st user deviceID permission) of
             Inr _ \<Rightarrow> Inr None
           | Inl e \<Rightarrow>
               if e = ErrFleetAccess then
                 Inr (Some (st\<lparr>commands :=
                   upd_where (\<lambda>x. c_id x = c_id c) (cancel_output now ''permission revoked before delivery'')
                     (commands st)\<rparr>))
               else Inl e))"

definition fleet_user_of :: "store \<Rightarrow> string \<Rightarrow> string option" where
  "fleet_user_of st commandID =
     (case [fo_user_id o'. i \<leftarrow> fleet_operation_items st, fi_command_id i = commandID,
              o' \<leftarrow> fleet_operations st, fo_id o' = fi_operation_id i] of
        [] \<Rightarrow> None
      | u # _ \<Rightarrow> Some u)"

definition gate_fleet :: "time \<Rightarrow> string \<Rightarrow> command \<Rightarrow> store \<Rightarrow> (store option) res" where
  "gate_fleet now deviceID c st =
     (case fleet_user_of st (c_id c) of
        None \<Rightarrow> Inr None
      | Some user \<Rightarrow>
          (case bindE (fleetPrincipal st user) (\<lambda>admin.
                  bindE (fleetDeviceAccess st user deviceID admin)
                    (\<lambda>_. permissionAllowed st user deviceID (CommandPermission (c_type c)) admin)) of
             Inr _ \<Rightarrow> Inr None
           | Inl e \<Rightarrow>
               if e \<noteq> ErrFleetAccess then Inl e
               else Inr (Some (st\<lparr>commands :=
                      upd_where (\<lambda>x. c_id x = c_id c \<and> c_status x = ''queued'')
                        (cancel_output now ''fleet access revoked before delivery'') (commands st)\<rparr>))))"

definition gate_reaction :: "env \<Rightarrow> time \<Rightarrow> string \<Rightarrow> command \<Rightarrow> store \<Rightarrow> (store option) res" where
  "gate_reaction E now deviceID c st =
     (if c_type c \<noteq> ''service_restart'' then Inr None
      else case Option.bind (json_unmarshal (c_args_json c)) to_string_map of
             None \<Rightarrow> Inr None
           | Some args \<Rightarrow>
               if map_get args ''rule_id'' = [] then Inr None
               else bindE (reactionCommandStillAllowed E now deviceID (map_get args ''rule_id'') (map_get args ''service'') st)
                 (\<lambda>allowed.
                    if allowed then Inr None
                    else Inr (Some (st\<lparr>commands :=
                           upd_where (\<lambda>x. c_id x = c_id c \<and> c_status x = ''queued'')
                             (cancel_output now ''automatic condition recovered or rule disabled'') (commands st)\<rparr>))))"

definition claim_gates :: "env \<Rightarrow> time \<Rightarrow> string \<Rightarrow> command \<Rightarrow> store \<Rightarrow> (store option) res" where
  "claim_gates E now deviceID c st =
     (case gate_rollout now c st of
        Some st' \<Rightarrow> Inr (Some st')
      | None \<Rightarrow>
          bindE (gate_permission E now deviceID c st) (\<lambda>r1.
            if r1 \<noteq> None then Inr r1
            else bindE (gate_fleet now deviceID c st) (\<lambda>r2.
              if r2 \<noteq> None then Inr r2 else gate_reaction E now deviceID c st)))"

definition mark_claimed :: "time \<Rightarrow> command \<Rightarrow> command" where
  "mark_claimed now c =
     c\<lparr>c_status := ''claimed'', c_claimed_at := Some now, c_attempt_count := c_attempt_count c + 1\<rparr>"

text \<open>
  The claim of one command: expiry is committed first, then the selected command is delivered,
  withheld or left alone. The returned command has the new status and attempt number.
\<close>

definition ClaimNextCommand :: "env \<Rightarrow> time \<Rightarrow> string \<Rightarrow> store \<Rightarrow> (command option) res \<times> store" where
  "ClaimNextCommand E now deviceID st =
     (let st = ExpireClaimedCommands E now (2 * minute) st in
      case claim_candidate E now deviceID st of
        None \<Rightarrow> (Inr None, st)
      | Some c \<Rightarrow>
          (case claim_gates E now deviceID c st of
             Inl e \<Rightarrow> (Inl e, st)
           | Inr (Some st') \<Rightarrow> (Inr None, st')
           | Inr None \<Rightarrow>
               (Inr (Some (c\<lparr>c_status := ''claimed'', c_attempt_count := c_attempt_count c + 1\<rparr>)),
                st\<lparr>commands :=
                  upd_where (\<lambda>x. c_id x = c_id c \<and> c_status x = ''queued'') (mark_claimed now) (commands st)\<rparr>)))"

section \<open>Results\<close>

definition sensitive_keys :: "string list" where
  "sensitive_keys = [''private_key'', ''password'', ''passwd'', ''secret'', ''psk'', ''token'', ''key'']"

definition redactSensitiveLine :: "string \<Rightarrow> string" where
  "redactSensitiveLine line =
     (let fields = Fields (ToLower (TrimSpace line));
          by_equals =
            (case Index line ''='' of
               None \<Rightarrow> line
             | Some eq \<Rightarrow>
                 let left = ToLower (TrimSpace (take eq line)) in
                 if list_ex (\<lambda>key. left = key \<or> HasSuffix left (CHR ''.'' # key) \<or>
                      HasSuffix left (CHR ''_'' # key) \<or> HasSuffix left (CHR ''-'' # key)) sensitive_keys
                 then take (eq + 1) line @ [CHR 0x27] @ ''[redacted]'' @ [CHR 0x27] else line)
      in if length fields \<ge> 3 \<and> fields ! 0 = ''option'' \<and> fields ! 1 \<in> set sensitive_keys
         then (case Index (ToLower line) (fields ! 1) of
                 Some index \<Rightarrow> take (index + length (fields ! 1)) line @ [CHR '' '', CHR 0x27] @ ''[redacted]'' @ [CHR 0x27]
               | None \<Rightarrow> line)
         else by_equals)"

definition RedactSensitiveOutput :: "string \<Rightarrow> string" where
  "RedactSensitiveOutput output = Join (CHR 0x0A) (map redactSensitiveLine (Split (CHR 0x0A) output))"

definition updateRemoteSessionFromCommandResult :: "time \<Rightarrow> string \<Rightarrow> string \<Rightarrow> store \<Rightarrow> store" where
  "updateRemoteSessionFromCommandResult now commandID status st =
     (if status = ''completed'' then
        st\<lparr>remote_sessions :=
          upd_where (\<lambda>s. rs_command_id s = commandID \<and> (rs_status s = ''requested'' \<or> rs_status s = ''queued''))
            (\<lambda>s. s\<lparr>rs_status := ''active'',
                 rs_started_at := (case rs_started_at s of None \<Rightarrow> Some now | Some t \<Rightarrow> Some t),
                 rs_updated_at := now\<rparr>) (remote_sessions st)\<rparr>
      else if status = ''failed'' then
        st\<lparr>remote_sessions :=
          upd_where (\<lambda>s. rs_command_id s = commandID \<and> open_status (rs_status s))
            (\<lambda>s. s\<lparr>rs_status := ''failed'',
                 rs_closed_at := (case rs_closed_at s of None \<Rightarrow> Some now | Some t \<Rightarrow> Some t),
                 rs_updated_at := now\<rparr>) (remote_sessions st)\<rparr>
      else st)"

definition finishable :: "string \<Rightarrow> string \<Rightarrow> command \<Rightarrow> bool" where
  "finishable commandID deviceID c \<longleftrightarrow>
     c_id c = commandID \<and> c_device_id c = deviceID \<and> c_status c \<noteq> ''cancelled'' \<and> c_status c \<noteq> ''expired''"

definition SaveCommandResult ::
  "time \<Rightarrow> string \<Rightarrow> string \<Rightarrow> string \<Rightarrow> int \<Rightarrow> string \<Rightarrow> RawMessage \<Rightarrow> store \<Rightarrow> bool \<times> store" where
  "SaveCommandResult now commandID deviceID status exitCode output result st =
     (let found = has_row (finishable commandID deviceID) (commands st);
          st = st\<lparr>commands :=
            upd_where (finishable commandID deviceID)
              (\<lambda>c. c\<lparr>c_status := status, c_result_json := NormalizeRawJSON result,
                   c_output := RedactSensitiveOutput output, c_exit_code := Some exitCode,
                   c_completed_at := Some now\<rparr>) (commands st)\<rparr>
      in (found, if found then updateRemoteSessionFromCommandResult now commandID status st else st))"

section \<open>Creating, reading, cancelling\<close>

definition CreateCommand ::
  "env \<Rightarrow> time \<Rightarrow> string \<Rightarrow> string \<Rightarrow> RawMessage \<Rightarrow> store \<Rightarrow> (command option \<times> store) res" where
  "CreateCommand E now deviceID commandType args st =
     (if \<not> has_row (\<lambda>d. d_id d = deviceID) (devices st) then Inr (None, st)
      else bindE (newCommand E now deviceID commandType args (24 * hour) st)
        (\<lambda>(c, st). bindE (insert_command 3 c st) (\<lambda>st. Inr (Some c, st))))"

definition ListCommands :: "env \<Rightarrow> string \<Rightarrow> int \<Rightarrow> int \<Rightarrow> store \<Rightarrow> (command list) option" where
  "ListCommands E deviceID limit offset st =
     (if \<not> has_row (\<lambda>d. d_id d = deviceID) (devices st) then None
      else let limit = (if limit \<le> 0 \<or> limit > 200 then 50 else limit);
               offset = (if offset < 0 then 0 else offset)
           in Some (take (nat limit) (drop (nat offset)
                (order_by (\<lambda>x y. ts_le E (c_created_at y) (c_created_at x))
                   (filter (\<lambda>c. c_device_id c = deviceID) (commands st))))))"

definition GetCommand :: "string \<Rightarrow> string \<Rightarrow> store \<Rightarrow> command option" where
  "GetCommand deviceID commandID st =
     find_row (\<lambda>c. c_device_id c = deviceID \<and> c_id c = commandID) (commands st)"

definition CancelCommand :: "time \<Rightarrow> string \<Rightarrow> string \<Rightarrow> store \<Rightarrow> command option \<times> store" where
  "CancelCommand now deviceID commandID st =
     (let st = st\<lparr>commands :=
            upd_where (\<lambda>c. c_device_id c = deviceID \<and> c_id c = commandID \<and>
                (c_status c = ''queued'' \<or> c_status c = ''claimed''))
              (\<lambda>c. c\<lparr>c_status := ''cancelled'', c_cancelled_at := Some now\<rparr>) (commands st)\<rparr>
      in (GetCommand deviceID commandID st, st))"

text \<open>\<open>DELETE FROM commands\<close> takes the rows that refer to a command with it (\<open>ON DELETE CASCADE\<close>).\<close>

definition purgeable :: "string \<Rightarrow> command \<Rightarrow> bool" where
  "purgeable deviceID c \<longleftrightarrow>
     c_status c \<noteq> ''queued'' \<and> c_status c \<noteq> ''claimed'' \<and> (deviceID = [] \<or> c_device_id c = deviceID)"

definition PurgeCommands :: "string \<Rightarrow> store \<Rightarrow> nat \<times> store" where
  "PurgeCommands device st =
     (let deviceID = TrimSpace device;
          gone = (\<lambda>i. has_row (\<lambda>c. c_id c = i \<and> purgeable deviceID c) (commands st))
      in (count_where (purgeable deviceID) (commands st),
          st\<lparr>commands := del_where (purgeable deviceID) (commands st),
             device_backups := del_where (\<lambda>b. gone (b_command_id b)) (device_backups st),
             command_permissions := del_where (\<lambda>cp. gone (cp_command_id cp)) (command_permissions st)\<rparr>))"

section \<open>Authorized commands\<close>

text \<open>The loop over the selection: a repeated device is skipped, the rest is authorized and signed.\<close>

fun authorize_batch ::
  "env \<Rightarrow> time \<Rightarrow> string \<Rightarrow> bool \<Rightarrow> string \<Rightarrow> RawMessage \<Rightarrow> string list \<Rightarrow> string list \<Rightarrow> store \<Rightarrow>
   (command list \<times> store) res" where
  "authorize_batch E now userID admin kind args seen [] st = Inr ([], st)"
| "authorize_batch E now userID admin kind args seen (dev # ids) st =
     (if dev \<in> set seen then authorize_batch E now userID admin kind args seen ids st
      else bindE (fleetDeviceAccess st userID dev admin) (\<lambda>_.
        bindE (permissionAllowed st userID dev (CommandPermission kind) admin) (\<lambda>_.
        bindE (newCommand E now dev kind args (24 * hour) st) (\<lambda>(c, st).
        bindE (authorize_batch E now userID admin kind args (dev # seen) ids st) (\<lambda>(cs, st).
          Inr (c # cs, st))))))"

definition insert_authorized :: "string \<Rightarrow> string \<Rightarrow> command \<Rightarrow> store \<Rightarrow> store res" where
  "insert_authorized userID permission c st =
     bindE (insert_command 3 c st) (\<lambda>st.
     bindE (insert_row cp_command_id
              \<lparr>cp_command_id = c_id c, cp_user_id = userID, cp_permission = permission\<rparr> (command_permissions st))
       (\<lambda>cps. Inr (st\<lparr>command_permissions := cps\<rparr>)))"

definition CreateAuthorizedCommandBatch ::
  "env \<Rightarrow> time \<Rightarrow> string \<Rightarrow> string list \<Rightarrow> string \<Rightarrow> RawMessage \<Rightarrow> store \<Rightarrow> (command list \<times> store) res" where
  "CreateAuthorizedCommandBatch E now userID deviceIDs kind args st =
     (if length deviceIDs < 1 \<or> length deviceIDs > 100 then Inl (ErrMsg ''invalid batch size'')
      else bindE (fleetPrincipal st userID) (\<lambda>admin.
        bindE (authorize_batch E now userID admin kind args [] deviceIDs st) (\<lambda>(cs, st).
        bindE (foldE (insert_authorized userID (CommandPermission kind)) cs st) (\<lambda>st. Inr (cs, st)))))"

definition CreateAuthorizedCommand ::
  "env \<Rightarrow> time \<Rightarrow> string \<Rightarrow> string \<Rightarrow> string \<Rightarrow> RawMessage \<Rightarrow> store \<Rightarrow> (command \<times> store) res" where
  "CreateAuthorizedCommand E now userID deviceID kind args st =
     bindE (CreateAuthorizedCommandBatch E now userID [deviceID] kind args st)
       (\<lambda>(cs, st). Inr (hd cs, st))"

section \<open>Evolution of the queue\<close>

text \<open>
  What an operation may do to a command: the signed columns never change, attempts grow within
  their bound, and a cancelled or expired command stays that.
\<close>

definition final_status :: "string \<Rightarrow> bool" where
  "final_status s \<longleftrightarrow> s = ''cancelled'' \<or> s = ''expired''"

definition signed_columns :: "command \<Rightarrow> (string \<times> string \<times> string \<times> string) \<times> time \<times> time option \<times> string \<times> string \<times> string" where
  "signed_columns c =
     ((c_id c, c_device_id c, c_type c, c_args_json c), c_created_at c, c_expires_at c, c_nonce c,
      c_signature_key_id c, c_signature c)"

definition row_step :: "command \<Rightarrow> command \<Rightarrow> bool" where
  "row_step c c' \<longleftrightarrow>
     signed_columns c' = signed_columns c \<and> c_max_attempts c' = c_max_attempts c \<and>
     c_attempt_count c \<le> c_attempt_count c' \<and>
     c_attempt_count c' \<le> max (c_attempt_count c) (c_max_attempts c) \<and>
     (final_status (c_status c) \<longrightarrow> c_status c' = c_status c)"

lemma row_step_refl [simp]: "row_step c c"
  by (simp add: row_step_def)

lemma row_step_trans: "row_step a b \<Longrightarrow> row_step b c \<Longrightarrow> row_step a c"
  by (auto simp: row_step_def)

lemma row_step_id: "row_step c c' \<Longrightarrow> c_id c' = c_id c"
  by (simp add: row_step_def signed_columns_def)

text \<open>
  A queue grows when no command disappears, every command steps from its old row or is new with
  property \<open>P\<close>, and ids stay distinct.
\<close>

definition grows :: "(command \<Rightarrow> bool) \<Rightarrow> command list \<Rightarrow> command list \<Rightarrow> bool" where
  "grows P cs cs' \<longleftrightarrow>
     c_id ` set cs \<subseteq> c_id ` set cs' \<and>
     (\<forall>c' \<in> set cs'. (\<exists>c \<in> set cs. row_step c c') \<or> (c_id c' \<notin> c_id ` set cs \<and> P c')) \<and>
     (distinct (map c_id cs) \<longrightarrow> distinct (map c_id cs'))"

lemma grows_refl [simp]: "grows P cs cs"
  unfolding grows_def using row_step_refl by blast

locale command_property =
  fixes P :: "command \<Rightarrow> bool"
  assumes closed: "row_step c c' \<Longrightarrow> P c \<Longrightarrow> P c'"
begin

lemma grows_trans:
  assumes "grows P a b" and "grows P b c"
  shows "grows P a c"
proof -
  have "(\<exists>x \<in> set a. row_step x z) \<or> (c_id z \<notin> c_id ` set a \<and> P z)" if "z \<in> set c" for z
  proof (cases "\<exists>y \<in> set b. row_step y z")
    case True
    then obtain y where y: "y \<in> set b" "row_step y z" by blast
    then have "(\<exists>x \<in> set a. row_step x y) \<or> (c_id y \<notin> c_id ` set a \<and> P y)"
      using assms(1) by (auto simp: grows_def)
    then show ?thesis using y row_step_trans row_step_id closed by metis
  next
    case False
    then have "c_id z \<notin> c_id ` set b" "P z" using assms(2) that by (auto simp: grows_def)
    then show ?thesis using assms(1) by (auto simp: grows_def)
  qed
  moreover have "c_id ` set a \<subseteq> c_id ` set c"
    by (rule subset_trans [OF assms(1) [unfolded grows_def, THEN conjunct1] assms(2) [unfolded grows_def, THEN conjunct1]])
  moreover have "distinct (map c_id a) \<longrightarrow> distinct (map c_id c)"
    using assms(1) [unfolded grows_def, THEN conjunct2, THEN conjunct2]
      assms(2) [unfolded grows_def, THEN conjunct2, THEN conjunct2] by iprover
  ultimately show ?thesis unfolding grows_def by (intro conjI ballI)
qed

lemma grows_keeps: "grows P cs cs' \<Longrightarrow> \<forall>c \<in> set cs. P c \<Longrightarrow> \<forall>c \<in> set cs'. P c"
  using closed by (fastforce simp: grows_def)

lemma grows_foldE:
  assumes "foldE f xs st = Inr st'"
    and "\<And>x s t. x \<in> set xs \<Longrightarrow> f x s = Inr t \<Longrightarrow> grows P (commands s) (commands t)"
  shows "grows P (commands st) (commands st')"
  by (rule foldE_invariant [OF assms(1), of "\<lambda>s. grows P (commands st) (commands s)"])
    (auto intro: grows_trans assms(2))

end

lemma grows_upd:
  assumes "\<And>c. c \<in> set cs \<Longrightarrow> p c \<Longrightarrow> row_step c (f c)"
  shows "grows P cs (upd_where p f cs)"
proof -
  have ids: "c_id (f c) = c_id c" if "c \<in> set cs" "p c" for c using assms that row_step_id by blast
  then have "map c_id (upd_where p f cs) = map c_id cs" by (rule map_upd_where)
  moreover from this have "c_id ` set (upd_where p f cs) = c_id ` set cs" by (metis list.set_map)
  moreover have "\<exists>c \<in> set cs. row_step c c'" if "c' \<in> set (upd_where p f cs)" for c'
  proof -
    from that obtain c where "c \<in> set cs" "c' = (if p c then f c else c)" by (auto simp: set_upd_where)
    then show ?thesis using assms [of c] row_step_refl [of c] by (intro bexI [of _ c]) auto
  qed
  ultimately show ?thesis unfolding grows_def by auto
qed

lemma grows_insert: "c_id c \<notin> c_id ` set cs \<Longrightarrow> P c \<Longrightarrow> grows P cs (cs @ [c])"
proof -
  have "\<exists>x \<in> set cs. row_step x y" if "y \<in> set cs" for y using that row_step_refl by blast
  then show "c_id c \<notin> c_id ` set cs \<Longrightarrow> P c \<Longrightarrow> grows P cs (cs @ [c])"
    unfolding grows_def by (auto simp: image_Un)
qed

lemma grows_final:
  assumes "grows P cs cs'" and "c \<in> set cs" and "distinct (map c_id cs)" and "final_status (c_status c)"
    and "c' \<in> set cs'" and "c_id c' = c_id c"
  shows "row_step c c' \<and> c_status c' = c_status c"
proof -
  obtain d where d: "d \<in> set cs" "row_step d c'"
    using assms(1,2,5,6) unfolding grows_def by (metis image_eqI)
  then have "c_id d = c_id c" using assms(6) row_step_id by metis
  then have "d = c" using assms(2,3) d(1) by (auto simp: distinct_map inj_on_def)
  with d assms(4) show ?thesis by (simp add: row_step_def)
qed

text \<open>The two properties of new commands: attempts within the bound, and a verifying signature.\<close>

definition attempts_ok :: "command \<Rightarrow> bool" where
  "attempts_ok c \<longleftrightarrow> 0 \<le> c_attempt_count c \<and> c_attempt_count c \<le> c_max_attempts c"

definition signature_ok :: "env \<Rightarrow> string \<Rightarrow> command \<Rightarrow> bool" where
  "signature_ok E pk c \<longleftrightarrow>
     (case c_expires_at c of
        None \<Rightarrow> False
      | Some t \<Rightarrow> Verify E pk (command_envelope c t) (c_signature c) = Inr ())"

definition command_ok :: "env \<Rightarrow> string \<Rightarrow> command \<Rightarrow> bool" where
  "command_ok E pk c \<longleftrightarrow> attempts_ok c \<and> signature_ok E pk c"

interpretation cmd: command_property "command_ok E pk" for E pk
proof
  fix c c'
  assume r: "row_step c c'" and "command_ok E pk c"
  then have "attempts_ok c'" by (auto simp: row_step_def attempts_ok_def command_ok_def)
  moreover have "command_envelope c' = command_envelope c" "c_expires_at c' = c_expires_at c"
    "c_signature c' = c_signature c"
    using r by (auto simp: row_step_def signed_columns_def command_envelope_def)
  ultimately show "command_ok E pk c'" using \<open>command_ok E pk c\<close>
    by (simp add: command_ok_def signature_ok_def split: option.splits)
qed

section \<open>Every operation lets the queue grow\<close>

lemmas row_simps = row_step_def signed_columns_def final_status_def

lemma row_step_status:
  "\<not> final_status (c_status c) \<Longrightarrow> c_attempt_count (f c) = c_attempt_count c \<Longrightarrow>
   signed_columns (f c) = signed_columns c \<Longrightarrow> c_max_attempts (f c) = c_max_attempts c \<Longrightarrow> row_step c (f c)"
  by (simp add: row_step_def)

lemma Expire_grows: "grows (command_ok E' pk) (commands st) (commands (ExpireClaimedCommands E now age st))"
  unfolding ExpireClaimedCommands_def Let_def
  by (simp, intro cmd.grows_trans [OF grows_upd cmd.grows_trans [OF grows_upd grows_upd]])
    (auto simp: row_simps)

lemma gate_grows:
  "gate_rollout now c st = Some st' \<Longrightarrow> commands st' = commands st"
  "c \<in> set (commands st) \<Longrightarrow> distinct (map c_id (commands st)) \<Longrightarrow> c_status c = ''queued'' \<Longrightarrow>
   gate_permission E now d c st = Inr (Some st') \<Longrightarrow> grows P (commands st) (commands st')"
  "gate_fleet now d c st = Inr (Some st') \<Longrightarrow> grows P (commands st) (commands st')"
  "gate_reaction E now d c st = Inr (Some st') \<Longrightarrow> grows P (commands st) (commands st')"
proof -
  show "gate_rollout now c st = Some st' \<Longrightarrow> commands st' = commands st"
    by (auto simp: gate_rollout_def pauseGuardedRollout_def split: if_splits option.splits)
  assume "c \<in> set (commands st)" "distinct (map c_id (commands st))" "c_status c = ''queued''"
  then have q: "c_status x = ''queued''" if "x \<in> set (commands st)" "c_id x = c_id c" for x
    using that by (metis command_table.wf_def command_table.wf_unique)
  show "gate_permission E now d c st = Inr (Some st') \<Longrightarrow> grows P (commands st) (commands st')"
    by (auto simp: gate_permission_def cancel_output_def row_simps q intro!: grows_upd
        split: option.splits sum.splits if_splits)
next
  show "gate_fleet now d c st = Inr (Some st') \<Longrightarrow> grows P (commands st) (commands st')"
    by (auto simp: gate_fleet_def cancel_output_def row_simps intro!: grows_upd
        split: option.splits sum.splits if_splits)
  show "gate_reaction E now d c st = Inr (Some st') \<Longrightarrow> grows P (commands st) (commands st')"
    by (auto simp: gate_reaction_def cancel_output_def row_simps res_simps intro!: grows_upd
        split: option.splits sum.splits if_splits)
qed

lemma claim_candidate_Some:
  assumes "claim_candidate E now d st = Some c"
  shows "c \<in> set (commands st) \<and> claimable E now d c \<and>
    (\<forall>x \<in> set (commands st). claimable E now d x \<longrightarrow> ts_le E (c_created_at c) (c_created_at x))"
proof -
  let ?le = "\<lambda>x y. ts_le E (c_created_at x) (c_created_at y)"
  let ?xs = "filter (claimable E now d) (commands st)"
  from assms obtain ys where ys: "order_by ?le ?xs = c # ys"
    by (auto simp: claim_candidate_def split: list.splits)
  have "set (order_by ?le ?xs) = set ?xs" by simp
  then have "c \<in> set ?xs" unfolding ys by auto
  then show ?thesis using ts.order_by_first [OF ys] by auto
qed

lemma claim_candidate_None:
  assumes "claim_candidate E now d st = None"
  shows "\<forall>x \<in> set (commands st). \<not> claimable E now d x"
proof -
  let ?le = "\<lambda>x y. ts_le E (c_created_at x) (c_created_at y)"
  have "order_by ?le (filter (claimable E now d) (commands st)) = []"
    using assms by (auto simp: claim_candidate_def split: list.splits)
  then have "set (filter (claimable E now d) (commands st)) = {}"
    by (metis set_order_by list.set(1))
  then show ?thesis by (auto simp: filter_empty_conv)
qed

lemma claim_gates_grows:
  assumes "claim_gates E now d c st = Inr (Some st')" and "c \<in> set (commands st)"
    and "distinct (map c_id (commands st))" and "c_status c = ''queued''"
  shows "grows P (commands st) (commands st')"
proof -
  note g = gate_grows(2) [OF assms(2,3,4)] gate_grows(3) gate_grows(4)
  consider "gate_rollout now c st = Some st'" | "gate_permission E now d c st = Inr (Some st')"
    | "gate_fleet now d c st = Inr (Some st')" | "gate_reaction E now d c st = Inr (Some st')"
    using assms(1) by (auto simp: claim_gates_def res_simps split: option.splits if_splits)
  then show ?thesis using g by cases (simp add: gate_grows(1), blast+)
qed

lemma Expire_distinct:
  "distinct (map c_id (commands st)) \<Longrightarrow> distinct (map c_id (commands (ExpireClaimedCommands E now age st)))"
  using Expire_grows by (auto simp: grows_def)

lemma Claim_grows:
  assumes "ClaimNextCommand E now d st = (r, st')" and "distinct (map c_id (commands st))"
  shows "grows (command_ok E' pk) (commands st) (commands st')"
proof -
  let ?st = "ExpireClaimedCommands E now (2 * minute) st"
  note e = Expire_grows [of E' pk st E now "2 * minute"]
  have d: "distinct (map c_id (commands ?st))" using Expire_distinct assms(2) by blast
  show ?thesis
  proof (cases "claim_candidate E now d ?st")
    case None
    with assms(1) e show ?thesis by (simp add: ClaimNextCommand_def Let_def)
  next
    case (Some c)
    note c = claim_candidate_Some [OF Some]
    then have q: "c_status c = ''queued''" and a: "c_attempt_count c < c_max_attempts c"
      by (auto simp: claimable_def)
    have m: "grows (command_ok E' pk) (commands ?st)
        (upd_where (\<lambda>x. c_id x = c_id c \<and> c_status x = ''queued'') (mark_claimed now) (commands ?st))"
    proof (rule grows_upd)
      fix x assume "x \<in> set (commands ?st)" "c_id x = c_id c \<and> c_status x = ''queued''"
      then have "x = c" using c d by (metis command_table.wf_def command_table.wf_unique)
      with q a show "row_step x (mark_claimed now x)" by (simp add: mark_claimed_def row_simps)
    qed
    from assms(1) Some consider "st' = ?st" | "claim_gates E now d c ?st = Inr (Some st')"
      | "st' = ?st\<lparr>commands := upd_where (\<lambda>x. c_id x = c_id c \<and> c_status x = ''queued'') (mark_claimed now) (commands ?st)\<rparr>"
      by (auto simp: ClaimNextCommand_def Let_def split: sum.splits option.splits)
    then show ?thesis
    proof cases
      case 1
      with e show ?thesis by simp
    next
      case 2
      have "grows (command_ok E' pk) (commands ?st) (commands st')"
        by (rule claim_gates_grows [OF 2]) (use c d q in auto)
      with e show ?thesis by (rule cmd.grows_trans)
    next
      case 3
      with cmd.grows_trans [OF e m] show ?thesis by simp
    qed
  qed
qed

lemma newCommand_ok:
  assumes "ed25519_ok E" and "newCommand E now dev ty args ttl st = Inr (c, st')" and "0 \<le> m"
  shows "command_ok E (ed_Public E (signing_key st)) (c\<lparr>c_max_attempts := m\<rparr>)"
  using newCommand_Inr [OF assms(2)] assms(3) Verify_Sign_lemma [OF assms(1)]
  by (auto simp: command_ok_def attempts_ok_def signature_ok_def command_envelope_def)

lemma insert_command_grows:
  assumes "ed25519_ok E" and "newCommand E now dev ty args ttl st = Inr (c, st1)" and "0 \<le> m"
    and "insert_command m c st2 = Inr st3"
  shows "grows (command_ok E (ed_Public E (signing_key st))) (commands st2) (commands st3)"
  using assms(4) newCommand_ok [OF assms(1,2,3)] by (auto simp: res_simps intro: grows_insert)

lemma Create_grows:
  assumes "ed25519_ok E" and "CreateCommand E now d ty args st = Inr (r, st')"
  shows "grows (command_ok E (ed_Public E (signing_key st))) (commands st) (commands st')"
proof (cases "has_row (\<lambda>x. d_id x = d) (devices st)")
  case True
  with assms(2) obtain c st1 where "newCommand E now d ty args (24 * hour) st = Inr (c, st1)"
    "insert_command 3 c st1 = Inr st'" by (auto simp: CreateCommand_def res_simps)
  moreover from newCommand_Inr [OF this(1)] have "commands st1 = commands st" by auto
  ultimately show ?thesis using insert_command_grows [OF assms(1), of now d ty args "24 * hour" st c st1 3 st1 st']
    by simp
next
  case False
  with assms(2) show ?thesis by (simp add: CreateCommand_def)
qed

lemma Result_grows:
  "commands (snd (SaveCommandResult now i d s x out res st)) =
     upd_where (finishable i d)
       (\<lambda>c. c\<lparr>c_status := s, c_result_json := NormalizeRawJSON res, c_output := RedactSensitiveOutput out,
            c_exit_code := Some x, c_completed_at := Some now\<rparr>) (commands st)"
  "grows P (commands st) (commands (snd (SaveCommandResult now i d s x out res st)))"
proof -
  show eq: "commands (snd (SaveCommandResult now i d s x out res st)) =
     upd_where (finishable i d)
       (\<lambda>c. c\<lparr>c_status := s, c_result_json := NormalizeRawJSON res, c_output := RedactSensitiveOutput out,
            c_exit_code := Some x, c_completed_at := Some now\<rparr>) (commands st)"
    by (simp add: SaveCommandResult_def Let_def updateRemoteSessionFromCommandResult_def)
  show "grows P (commands st) (commands (snd (SaveCommandResult now i d s x out res st)))"
    unfolding eq by (rule grows_upd) (auto simp: row_simps finishable_def)
qed

lemma Cancel_grows: "grows P (commands st) (commands (snd (CancelCommand now d i st)))"
  by (auto simp: CancelCommand_def Let_def row_simps intro!: grows_upd)

section \<open>Properties\<close>

text \<open>
  C1. A delivered command is a queued command of that device that has not expired and has
  attempts left, the first of them in the order of the creation column; exactly its row is marked
  claimed with one more attempt, within the limit.
\<close>

theorem Claim_delivers:
  assumes "ClaimNextCommand E now deviceID st = (Inr (Some c), st')"
    and "distinct (map c_id (commands st))" and "julianday_mono E"
  shows "\<exists>r \<in> set (commands (ExpireClaimedCommands E now (2 * minute) st)).
    r\<lparr>c_status := ''claimed'', c_attempt_count := c_attempt_count r + 1\<rparr> = c \<and>
    c_device_id r = deviceID \<and> c_status r = ''queued'' \<and> c_attempt_count c \<le> c_max_attempts c \<and>
    (\<forall>t. c_expires_at r = Some t \<longrightarrow> now < t) \<and>
    (\<forall>x \<in> set (commands (ExpireClaimedCommands E now (2 * minute) st)).
       claimable E now deviceID x \<longrightarrow> ts_le E (c_created_at r) (c_created_at x)) \<and>
    commands st' = map (\<lambda>x. if c_id x = c_id c then mark_claimed now x else x)
      (commands (ExpireClaimedCommands E now (2 * minute) st))"
proof -
  let ?st = "ExpireClaimedCommands E now (2 * minute) st"
  from assms(1) obtain r where r: "claim_candidate E now deviceID ?st = Some r"
    and c: "c = r\<lparr>c_status := ''claimed'', c_attempt_count := c_attempt_count r + 1\<rparr>"
    and st': "commands st' = upd_where (\<lambda>x. c_id x = c_id r \<and> c_status x = ''queued'') (mark_claimed now) (commands ?st)"
    by (auto simp: ClaimNextCommand_def Let_def split: option.splits sum.splits)
  note cand = claim_candidate_Some [OF r]
  then have claim: "claimable E now deviceID r" and mem: "r \<in> set (commands ?st)" by auto
  have d: "distinct (map c_id (commands ?st))" using Expire_distinct assms(2) by blast
  have "x = r" if "x \<in> set (commands ?st)" "c_id x = c_id r" for x
    using that mem d by (metis command_table.wf_def command_table.wf_unique)
  then have "commands st' = map (\<lambda>x. if c_id x = c_id c then mark_claimed now x else x) (commands ?st)"
    unfolding st' upd_where_def using claim c by (intro map_cong) (auto simp: claimable_def)
  moreover have "now < t" if "c_expires_at r = Some t" for t
  proof -
    have "julianday E t > julianday E now" using claim that by (simp add: claimable_def)
    then show ?thesis using assms(3) unfolding julianday_mono_def by (metis not_less)
  qed
  ultimately show ?thesis using cand claim c by (intro bexI [OF _ mem]) (auto simp: claimable_def)
qed

lemma Expire_fields [simp]:
  "users (ExpireClaimedCommands E now age st) = users st"
  "devices (ExpireClaimedCommands E now age st) = devices st"
  "management_permissions (ExpireClaimedCommands E now age st) = management_permissions st"
  "fleet_assets (ExpireClaimedCommands E now age st) = fleet_assets st"
  "command_permissions (ExpireClaimedCommands E now age st) = command_permissions st"
  "audit_events (ExpireClaimedCommands E now age st) = audit_events st"
  "fleet_operations (ExpireClaimedCommands E now age st) = fleet_operations st"
  "fleet_operation_items (ExpireClaimedCommands E now age st) = fleet_operation_items st"
  "signing_key (ExpireClaimedCommands E now age st) = signing_key st"
  "fleet_rules (ExpireClaimedCommands E now age st) = fleet_rules st"
  by (simp_all add: ExpireClaimedCommands_def Let_def)

lemma Expire_access [simp]:
  "fleetPrincipal (ExpireClaimedCommands E now age st) = fleetPrincipal st"
  "permissionAllowed (ExpireClaimedCommands E now age st) = permissionAllowed st"
  "fleetDeviceAccess (ExpireClaimedCommands E now age st) = fleetDeviceAccess st"
  by (rule access_cong; simp)+

lemma command_principal_Expire [simp]:
  "command_principal E c (ExpireClaimedCommands E' now age st) = command_principal E c st"
  "fleet_user_of (ExpireClaimedCommands E' now age st) i = fleet_user_of st i"
  unfolding command_principal_def fleet_user_of_def Expire_fields by (rule refl)+

lemma claim_gates_pass:
  assumes "claim_gates E now d c st = Inr None"
  shows "gate_rollout now c st = None" and "gate_permission E now d c st = Inr None"
    and "gate_fleet now d c st = Inr None" and "gate_reaction E now d c st = Inr None"
  using assms by (auto simp: claim_gates_def res_simps split: option.splits if_splits)

lemma gate_permission_pass:
  "gate_permission E now d c st = Inr None \<Longrightarrow> command_principal E c st = Some (u, p) \<Longrightarrow>
   CheckPermission st u d p = Inr ()"
  by (auto simp: gate_permission_def CheckPermission_def split: sum.splits if_splits)

lemma gate_fleet_pass:
  "gate_fleet now d c st = Inr None \<Longrightarrow> fleet_user_of st (c_id c) = Some u \<Longrightarrow>
   CheckPermission st u d (CommandPermission (c_type c)) = Inr ()"
  by (auto simp: gate_fleet_def CheckPermission_def res_simps split: sum.splits if_splits)

text \<open>
  C2. No delivery without permission: at the moment of delivery the user on whose behalf a command
  runs, by its permission row or the audit trail, and the owner of the fleet operation it belongs
  to are active and still hold the permission on that device.
\<close>

theorem Claim_authorized:
  assumes "ClaimNextCommand E now deviceID st = (Inr (Some c), st')"
  shows "(\<forall>u p. command_principal E c st = Some (u, p) \<longrightarrow> CheckPermission st u deviceID p = Inr ()) \<and>
    (\<forall>u. fleet_user_of st (c_id c) = Some u \<longrightarrow>
       CheckPermission st u deviceID (CommandPermission (c_type c)) = Inr ())"
proof -
  let ?st = "ExpireClaimedCommands E now (2 * minute) st"
  from assms obtain r where g: "claim_gates E now deviceID r ?st = Inr None"
    and c: "c = r\<lparr>c_status := ''claimed'', c_attempt_count := c_attempt_count r + 1\<rparr>"
    by (auto simp: ClaimNextCommand_def Let_def split: option.splits sum.splits)
  have ids: "c_id c = c_id r" "c_type c = c_type r" by (simp_all add: c)
  have "command_principal E c st = command_principal E r st"
    unfolding command_principal_def ids by (rule refl)
  moreover have "CheckPermission ?st = CheckPermission st"
    by (intro ext) (simp add: CheckPermission_def)
  ultimately show ?thesis
    using gate_permission_pass [OF claim_gates_pass(2) [OF g]] gate_fleet_pass [OF claim_gates_pass(3) [OF g]]
    by (simp add: ids)
qed

text \<open>A queued command of the sample operator and its claim.\<close>

definition sample_command :: "string \<Rightarrow> command" where
  "sample_command i =
     \<lparr>c_id = i, c_device_id = ''dev'', c_type = ''ping'', c_args_json = ''{}'', c_status = ''queued'',
      c_result_json = ''{}'', c_output = [], c_exit_code = None, c_attempt_count = 0, c_max_attempts = 3,
      c_created_at = 0, c_expires_at = Some hour, c_claimed_at = None, c_completed_at = None,
      c_cancelled_at = None, c_expired_at = None, c_nonce = ''n'', c_signature_key_id = ''k'', c_signature = ''s''\<rparr>"

definition sample_queue :: store where
  "sample_queue = sample_store
     \<lparr>commands := [sample_command ''c1''],
      command_permissions := [\<lparr>cp_command_id = ''c1'', cp_user_id = ''op'', cp_permission = ''diagnostics''\<rparr>]\<rparr>"

lemma sample_claim:
  "fst (ClaimNextCommand sample_env minute ''dev'' sample_queue) =
   Inr (Some ((sample_command ''c1'')\<lparr>c_status := ''claimed'', c_attempt_count := 1\<rparr>))"
  by code_simp

theorem Claim_delivers_witness:
  "\<exists>c st'. ClaimNextCommand sample_env minute ''dev'' sample_queue = (Inr (Some c), st') \<and>
     c_attempt_count c \<le> c_max_attempts c"
proof -
  obtain st' where st': "ClaimNextCommand sample_env minute ''dev'' sample_queue =
      (Inr (Some ((sample_command ''c1'')\<lparr>c_status := ''claimed'', c_attempt_count := 1\<rparr>)), st')"
    using sample_claim by (metis prod.collapse)
  have "distinct (map c_id (commands sample_queue))" by (simp add: sample_queue_def)
  from Claim_delivers [OF st' this sample_env_ok(3)] st' show ?thesis by blast
qed

theorem Claim_authorized_witness:
  "CheckPermission sample_queue ''op'' ''dev'' ''diagnostics'' = Inr ()"
proof -
  obtain st' where st': "ClaimNextCommand sample_env minute ''dev'' sample_queue =
      (Inr (Some ((sample_command ''c1'')\<lparr>c_status := ''claimed'', c_attempt_count := 1\<rparr>)), st')"
    using sample_claim by (metis prod.collapse)
  have "command_principal sample_env ((sample_command ''c1'')\<lparr>c_status := ''claimed'', c_attempt_count := 1\<rparr>) sample_queue
      = Some (''op'', ''diagnostics'')"
    by (simp add: command_principal_def sample_queue_def sample_command_def)
  with Claim_authorized [OF st'] show ?thesis by blast
qed

definition expire_row :: "env \<Rightarrow> time \<Rightarrow> time \<Rightarrow> command \<Rightarrow> command" where
  "expire_row E now age c =
     (if (c_status c = ''queued'' \<or> c_status c = ''claimed'') \<and> expired_by E now (c_expires_at c)
      then c\<lparr>c_status := ''expired'', c_expired_at := Some now\<rparr>
      else if c_status c = ''claimed'' \<and> expired_by E (now - age) (c_claimed_at c)
      then (if c_attempt_count c \<ge> c_max_attempts c then c\<lparr>c_status := ''expired'', c_expired_at := Some now\<rparr>
            else c\<lparr>c_status := ''queued'', c_claimed_at := None\<rparr>)
      else c)"

lemma Expire_rows:
  "commands (ExpireClaimedCommands E now age st) = map (expire_row E now age) (commands st)"
proof -
  define f where "f c = (if (c_status c = ''queued'' \<or> c_status c = ''claimed'') \<and> expired_by E now (c_expires_at c)
      then c\<lparr>c_status := ''expired'', c_expired_at := Some now\<rparr> else c)" for c :: command
  define g where "g c = (if c_status c = ''claimed'' \<and> expired_by E (now - age) (c_claimed_at c) \<and>
      c_attempt_count c \<ge> c_max_attempts c then c\<lparr>c_status := ''expired'', c_expired_at := Some now\<rparr> else c)" for c :: command
  define h where "h c = (if c_status c = ''claimed'' \<and> expired_by E (now - age) (c_claimed_at c) \<and>
      c_attempt_count c < c_max_attempts c then c\<lparr>c_status := ''queued'', c_claimed_at := None\<rparr> else c)" for c :: command
  have "h (g (f c)) = expire_row E now age c" for c
  proof (cases "(c_status c = ''queued'' \<or> c_status c = ''claimed'') \<and> expired_by E now (c_expires_at c)")
    case True
    then have "f c = c\<lparr>c_status := ''expired'', c_expired_at := Some now\<rparr>" by (simp add: f_def)
    with True show ?thesis by (simp add: g_def h_def expire_row_def)
  next
    case False
    then have "f c = c" by (simp only: f_def if_False)
    have e: "expire_row E now age c =
        (if c_status c = ''claimed'' \<and> expired_by E (now - age) (c_claimed_at c)
         then (if c_attempt_count c \<ge> c_max_attempts c then c\<lparr>c_status := ''expired'', c_expired_at := Some now\<rparr>
               else c\<lparr>c_status := ''queued'', c_claimed_at := None\<rparr>) else c)"
      unfolding expire_row_def if_not_P [OF False] by (rule refl)
    show ?thesis
    proof (cases "c_status c = ''claimed'' \<and> expired_by E (now - age) (c_claimed_at c)")
      case True
      then show ?thesis unfolding \<open>f c = c\<close> e if_P [OF True] by (simp add: g_def h_def)
    next
      case False
      then have "g c = c" "h c = c" by (auto simp: g_def h_def)
      then show ?thesis unfolding \<open>f c = c\<close> e if_not_P [OF False] by simp
    qed
  qed
  moreover have "commands (ExpireClaimedCommands E now age st) = map h (map g (map f (commands st)))"
    unfolding ExpireClaimedCommands_def Let_def upd_where_def f_def [abs_def] g_def [abs_def] h_def [abs_def]
    by (simp del: map_map if_split)
  ultimately show ?thesis by simp
qed

text \<open>
  Expiry is complete and final: afterwards no waiting command is past its expiry, no claimed
  command has been silent for the allowed time, a command that ran out of attempts ends as
  expired, and one with attempts left is queued again.
\<close>

theorem ExpireClaimedCommands_spec:
  "commands (ExpireClaimedCommands E now age st) = map (expire_row E now age) (commands st) \<and>
   (\<forall>c \<in> set (commands (ExpireClaimedCommands E now age st)).
      (c_status c = ''queued'' \<or> c_status c = ''claimed'' \<longrightarrow> \<not> expired_by E now (c_expires_at c)) \<and>
      (c_status c = ''claimed'' \<longrightarrow> \<not> expired_by E (now - age) (c_claimed_at c))) \<and>
   (\<forall>b \<in> set (device_backups (ExpireClaimedCommands E now age st)). b_status b = ''creating'' \<longrightarrow>
      (\<forall>c \<in> set (commands (ExpireClaimedCommands E now age st)).
         c_id c = b_command_id b \<longrightarrow> c_status c \<notin> set [''failed'', ''expired'', ''cancelled'']))"
proof -
  have c: "commands (ExpireClaimedCommands E now age st) = map (expire_row E now age) (commands st)"
    by (rule Expire_rows)
  have b: "device_backups (ExpireClaimedCommands E now age st) =
      upd_where (\<lambda>b. b_status b = ''creating'' \<and>
               has_row (\<lambda>c. c_id c = b_command_id b \<and> c_status c \<in> set [''failed'', ''expired'', ''cancelled''])
                 (commands (ExpireClaimedCommands E now age st)))
             (\<lambda>b. b\<lparr>b_status := ''failed'', b_error := ''backup command expired or was cancelled'',
                 b_completed_at := Some now\<rparr>) (device_backups st)"
    by (simp add: ExpireClaimedCommands_def Let_def)
  have "\<forall>b \<in> set (device_backups (ExpireClaimedCommands E now age st)). b_status b = ''creating'' \<longrightarrow>
      (\<forall>c \<in> set (commands (ExpireClaimedCommands E now age st)).
         c_id c = b_command_id b \<longrightarrow> c_status c \<notin> set [''failed'', ''expired'', ''cancelled''])"
    unfolding b by (auto simp: set_upd_where has_row_iff split: if_splits)
  moreover have "\<forall>c \<in> set (commands (ExpireClaimedCommands E now age st)).
      (c_status c = ''queued'' \<or> c_status c = ''claimed'' \<longrightarrow> \<not> expired_by E now (c_expires_at c)) \<and>
      (c_status c = ''claimed'' \<longrightarrow> \<not> expired_by E (now - age) (c_claimed_at c))"
    unfolding c by (auto simp: expire_row_def)
  ultimately show ?thesis using c by blast
qed

theorem ExpireClaimedCommands_spec_witness:
  "commands (ExpireClaimedCommands sample_env (2 * hour) minute sample_queue) =
     [(sample_command ''c1'')\<lparr>c_status := ''expired'', c_expired_at := Some (2 * hour)\<rparr>]"
  using ExpireClaimedCommands_spec [of sample_env "2 * hour" minute sample_queue]
  by (simp add: sample_queue_def sample_command_def expire_row_def expired_by_def sample_env_def crypto.defs)

text \<open>
  A result is taken only from the device the command was for and never after cancellation or
  expiry: then the answer says so and no command changes; otherwise exactly the commands with
  that id and device take the result.
\<close>

theorem SaveCommandResult_spec:
  "SaveCommandResult now commandID deviceID status exitCode output result st = (found, st') \<Longrightarrow>
   (found \<longleftrightarrow> (\<exists>c \<in> set (commands st). c_id c = commandID \<and> c_device_id c = deviceID \<and>
       \<not> final_status (c_status c))) \<and>
   (\<not> found \<longrightarrow> st' = st) \<and>
   commands st' = map (\<lambda>c. if c_id c = commandID \<and> c_device_id c = deviceID \<and> \<not> final_status (c_status c)
       then c\<lparr>c_status := status, c_result_json := NormalizeRawJSON result,
              c_output := RedactSensitiveOutput output, c_exit_code := Some exitCode, c_completed_at := Some now\<rparr>
       else c) (commands st)"
proof -
  assume a: "SaveCommandResult now commandID deviceID status exitCode output result st = (found, st')"
  have f: "finishable commandID deviceID c \<longleftrightarrow>
      c_id c = commandID \<and> c_device_id c = deviceID \<and> \<not> final_status (c_status c)" for c
    by (auto simp: finishable_def final_status_def)
  have "found = has_row (finishable commandID deviceID) (commands st)"
    using a by (simp add: SaveCommandResult_def Let_def)
  moreover have "st' = st" if "\<not> found"
    using a that by (auto simp: SaveCommandResult_def Let_def has_row_iff upd_where_none)
  ultimately show ?thesis
    using a Result_grows(1) [where now = now and i = commandID and d = deviceID and s = status
        and x = exitCode and out = "output" and res = result and st = st]
    by (auto simp: has_row_iff f upd_where_def)
qed

theorem SaveCommandResult_spec_witness:
  "fst (SaveCommandResult minute ''c1'' ''other'' ''completed'' 0 [] [] sample_queue) = False"
proof -
  obtain found st' where r: "SaveCommandResult minute ''c1'' ''other'' ''completed'' 0 [] [] sample_queue = (found, st')"
    by fastforce
  from SaveCommandResult_spec [OF r] r show ?thesis by (auto simp: sample_queue_def sample_command_def)
qed

text \<open>The selection without repetitions, in order.\<close>

fun uniq :: "string list \<Rightarrow> string list \<Rightarrow> string list" where
  "uniq seen [] = []"
| "uniq seen (x # xs) = (if x \<in> set seen then uniq seen xs else x # uniq (x # seen) xs)"

lemma set_uniq: "set (uniq seen xs) = set xs - set seen"
  by (induction seen xs rule: uniq.induct) auto

lemma distinct_uniq: "distinct (uniq seen xs)"
  by (induction seen xs rule: uniq.induct) (auto simp: set_uniq)

lemma access_draws [simp]:
  "fleetPrincipal (st\<lparr>draws := n\<rparr>) = fleetPrincipal st"
  "permissionAllowed (st\<lparr>draws := n\<rparr>) = permissionAllowed st"
  "fleetDeviceAccess (st\<lparr>draws := n\<rparr>) = fleetDeviceAccess st"
  by (rule access_cong; simp)+

lemma authorize_batch_Inr:
  assumes "authorize_batch E now u admin kind args seen ids st = Inr (cs, st')" and "ed25519_ok E"
  shows "(\<exists>n. st' = st\<lparr>draws := n\<rparr>) \<and> map c_device_id cs = uniq seen ids \<and>
    (\<forall>d \<in> set (uniq seen ids). fleetDeviceAccess st u d admin = Inr () \<and>
       permissionAllowed st u d (CommandPermission kind) admin = Inr ()) \<and>
    (\<forall>c \<in> set cs. c_type c = kind \<and> c_max_attempts c = 3 \<and> c_status c = ''queued'' \<and>
       command_ok E (ed_Public E (signing_key st)) c)"
  using assms
proof (induction E now u admin kind args seen ids st arbitrary: cs st' rule: authorize_batch.induct)
  case (1 E now u admin kind args seen st)
  then show ?case by (auto intro: exI [of _ "draws st"])
next
  case (2 E now u admin kind args seen d ids st)
  show ?case
  proof (cases "d \<in> set seen")
    case True
    with 2 show ?thesis by auto
  next
    case False
    with 2(3) obtain c st1 cs' where
      a: "fleetDeviceAccess st u d admin = Inr ()" "permissionAllowed st u d (CommandPermission kind) admin = Inr ()"
        "newCommand E now d kind args (24 * hour) st = Inr (c, st1)"
        "authorize_batch E now u admin kind args (d # seen) ids st1 = Inr (cs', st')" "cs = c # cs'"
      by (auto simp: res_simps)
    note n = newCommand_Inr [OF a(3)]
    then have "c_max_attempts c = 3" by blast
    then have "c\<lparr>c_max_attempts := 3\<rparr> = c" by (metis (full_types) command.surjective command.update_convs(10))
    then have "command_ok E (ed_Public E (signing_key st)) c"
      using newCommand_ok [OF 2(4) a(3), of 3] by simp
    moreover note 2(2) [OF False a(1,2,3) refl a(4) 2(4)]
    ultimately show ?thesis using n a False by auto
  qed
qed

definition permission_of :: "string \<Rightarrow> string \<Rightarrow> command \<Rightarrow> command_permission" where
  "permission_of u p c = \<lparr>cp_command_id = c_id c, cp_user_id = u, cp_permission = p\<rparr>"

lemma insert_authorized_fold:
  assumes "foldE (insert_authorized u p) cs st = Inr st'" and "\<forall>c \<in> set cs. c_max_attempts c = 3"
  shows "st' = st\<lparr>commands := commands st @ cs,
      command_permissions := command_permissions st @ map (permission_of u p) cs\<rparr> \<and>
    distinct (map c_id cs) \<and> (\<forall>c \<in> set cs. c_id c \<notin> c_id ` set (commands st))"
  using assms
proof (induction cs arbitrary: st)
  case Nil
  then show ?case by simp
next
  case (Cons c cs)
  have m: "c\<lparr>c_max_attempts := 3\<rparr> = c" using Cons.prems(2) by (cases c) simp
  from Cons.prems(1) obtain st1 where st1: "insert_authorized u p c st = Inr st1"
    "foldE (insert_authorized u p) cs st1 = Inr st'" by (auto simp: res_simps)
  from st1(1) have "st1 = st\<lparr>commands := commands st @ [c],
      command_permissions := command_permissions st @ [permission_of u p c]\<rparr>"
    and new: "c_id c \<notin> c_id ` set (commands st)"
    by (auto simp: insert_authorized_def res_simps m permission_of_def)
  with Cons.IH [OF st1(2)] Cons.prems(2) show ?case by auto
qed

lemma Batch_grows:
  assumes "ed25519_ok E" and "CreateAuthorizedCommandBatch E now u ids kind args st = Inr (cs, st')"
  shows "grows (command_ok E (ed_Public E (signing_key st))) (commands st) (commands st')"
proof -
  from assms(2) obtain admin st1 where b: "authorize_batch E now u admin kind args [] ids st = Inr (cs, st1)"
    "foldE (insert_authorized u (CommandPermission kind)) cs st1 = Inr st'"
    by (auto simp: CreateAuthorizedCommandBatch_def res_simps split: if_splits)
  note a = authorize_batch_Inr [OF b(1) assms(1)]
  note i = insert_authorized_fold [OF b(2)]
  have "\<exists>x \<in> set (commands st). row_step x y" if "y \<in> set (commands st)" for y using that row_step_refl by blast
  then show ?thesis using a i by (auto simp: grows_def image_Un) (metis image_eqI)
qed

text \<open>
  C14. A batch is all or nothing: if it is accepted, every selected device was accessible to the
  user with the permission of the command type, each device gets exactly one signed queued command
  in the order of the selection, every command is recorded with the user and the permission that
  delivery checks again, and nothing else in the queue changes. Otherwise nothing is stored.
\<close>

theorem AuthorizedBatch_all_or_nothing:
  assumes "CreateAuthorizedCommandBatch E now userID deviceIDs kind args st = Inr (cs, st')" and "ed25519_ok E"
  shows "(\<forall>d \<in> set deviceIDs. CheckPermission st userID d (CommandPermission kind) = Inr ()) \<and>
    map c_device_id cs = uniq [] deviceIDs \<and> distinct (map c_device_id cs) \<and>
    (\<forall>c \<in> set cs. c_type c = kind \<and> c_status c = ''queued'' \<and> command_ok E (ed_Public E (signing_key st)) c) \<and>
    commands st' = commands st @ cs \<and>
    command_permissions st' = command_permissions st @ map (permission_of userID (CommandPermission kind)) cs"
proof -
  from assms(1) obtain admin st1 where b: "fleetPrincipal st userID = Inr admin"
    "authorize_batch E now userID admin kind args [] deviceIDs st = Inr (cs, st1)"
    "foldE (insert_authorized userID (CommandPermission kind)) cs st1 = Inr st'"
    by (auto simp: CreateAuthorizedCommandBatch_def res_simps split: if_splits)
  note a = authorize_batch_Inr [OF b(2) assms(2)]
  then show ?thesis
    using insert_authorized_fold [OF b(3)] b(1)
    by (auto simp: CheckPermission_def set_uniq distinct_uniq)
qed

lemma newCommand_sample:
  assumes "signing_key st = sample_key" and "ty \<in> {''ping'', ''reboot''}"
  shows "\<exists>c. newCommand sample_env (1700000000 * second) ''dev'' ty ''{}'' (24 * hour) st = Inr (c, st\<lparr>draws := draws st + 2\<rparr>)"
proof -
  have "\<exists>c st'. newCommand sample_env (1700000000 * second) ''dev'' ty ''{}'' (24 * hour) st = Inr (c, st')"
    using assms by (intro newCommand_defined [where a = "JObj []"])
      (auto simp: sample_env_ok sample_texts sample_key_def zero_time_def)
  then show ?thesis using newCommand_Inr by blast
qed

theorem AuthorizedBatch_all_or_nothing_witness:
  "\<exists>cs st'. CreateAuthorizedCommandBatch sample_env (1700000000 * second) ''op'' [''dev'', ''dev''] ''ping'' ''{}'' sample_store
      = Inr (cs, st') \<and> map c_device_id cs = [''dev''] \<and> commands st' = cs"
proof -
  have s: "signing_key sample_store = sample_key" "commands sample_store = []"
    by (simp_all add: sample_store_def empty_store_def)
  obtain c where c: "newCommand sample_env (1700000000 * second) ''dev'' ''ping'' ''{}'' (24 * hour) sample_store
      = Inr (c, sample_store\<lparr>draws := draws sample_store + 2\<rparr>)"
    using newCommand_sample [of sample_store "''ping''"] s by auto
  have "fleetPrincipal sample_store ''op'' = Inr False" "fleetDeviceAccess sample_store ''op'' ''dev'' False = Inr ()"
    "permissionAllowed sample_store ''op'' ''dev'' (CommandPermission ''ping'') False = Inr ()" by code_simp+
  then have "\<exists>st'. CreateAuthorizedCommandBatch sample_env (1700000000 * second) ''op'' [''dev'', ''dev''] ''ping'' ''{}'' sample_store
      = Inr ([c], st')"
    using c newCommand_Inr [OF c]
    by (simp add: CreateAuthorizedCommandBatch_def insert_authorized_def insert_command_def insert_row_def has_row_iff
        sample_store_def empty_store_def sample_device_def)
  then obtain st' where st': "CreateAuthorizedCommandBatch sample_env (1700000000 * second) ''op'' [''dev'', ''dev''] ''ping'' ''{}'' sample_store
      = Inr ([c], st')" by blast
  from AuthorizedBatch_all_or_nothing [OF st' sample_env_ok(1)] st' s show ?thesis by auto
qed

end
