(* ===== verification/RemoteSessions.thy ===== *)
theory RemoteSessions
  imports Commands
begin

text \<open>
  Remote access sessions (\<open>sqlite.go\<close>, \<open>fleet_access.go\<close>, \<open>tunnel_security.go\<close>): the access policy of
  a device, the allocation of tunnel sessions and ports, the signed command that opens the tunnel,
  closing and expiry, tunnel keys and the ports the SSH server lets a device forward.
\<close>

section \<open>Access policies\<close>

definition default_access_policy :: "string \<Rightarrow> access_policy" where
  "default_access_policy deviceID =
     \<lparr>ap_device_id = deviceID, ap_ssh_allowed = True, ap_luci_allowed = True, ap_max_ttl_seconds = 7200,
      ap_restrict_users = False, ap_user_ids = [], ap_updated_at = zero_time\<rparr>"

definition loadFleetAccessPolicy :: "store \<Rightarrow> string \<Rightarrow> access_policy \<times> bool" where
  "loadFleetAccessPolicy st deviceID =
     (case find_row (\<lambda>p. ap_device_id p = deviceID) (access_policies st) of
        None \<Rightarrow> (default_access_policy deviceID, False)
      | Some p \<Rightarrow> (p, True))"

definition enforceFleetAccess ::
  "time \<Rightarrow> string \<Rightarrow> string \<Rightarrow> bool \<Rightarrow> bool \<Rightarrow> time \<Rightarrow> store \<Rightarrow> unit res" where
  "enforceFleetAccess now userID deviceID ssh luci expires st =
     bindE (if userID \<noteq> [] then
              bindE (fleetPrincipal st userID) (permissionAllowed st userID deviceID ''remote'')
            else Inr ()) (\<lambda>_.
       let (policy, configured) = loadFleetAccessPolicy st deviceID in
       if \<not> configured then Inr ()
       else if userID = [] then Inl ErrFleetAccess
       else bindE (fleetPrincipal st userID) (\<lambda>admin.
         bindE (fleetDeviceAccess st userID deviceID admin) (\<lambda>_.
           if (ssh \<and> \<not> ap_ssh_allowed policy) \<or> (luci \<and> \<not> ap_luci_allowed policy) \<or>
              (ap_restrict_users policy \<and> userID \<notin> set (ap_user_ids policy)) \<or>
              expires > now + ap_max_ttl_seconds policy * second + second
           then Inl ErrFleetAccess else Inr ())))"

definition GetFleetAccessPolicy :: "string \<Rightarrow> string \<Rightarrow> store \<Rightarrow> access_policy res" where
  "GetFleetAccessPolicy userID deviceID st =
     bindE (fleetPrincipal st userID) (\<lambda>admin.
     bindE (fleetDeviceAccess st userID deviceID admin) (\<lambda>_.
       Inr (fst (loadFleetAccessPolicy st deviceID))))"

text \<open>\<open>slices.Sort\<close> and \<open>slices.Compact\<close>.\<close>

definition sort_compact :: "string list \<Rightarrow> string list" where
  "sort_compact ids = remdups_adj (sort ids)"

definition access_policy_json :: "access_policy \<Rightarrow> string \<Rightarrow> json" where
  "access_policy_json p updated = JObj
     [(''device_id'', JStr (ap_device_id p)), (''ssh_allowed'', JBool (ap_ssh_allowed p)),
      (''luci_allowed'', JBool (ap_luci_allowed p)), (''max_ttl_seconds'', JNum (dec_digits (ap_max_ttl_seconds p))),
      (''restrict_users'', JBool (ap_restrict_users p)), (''user_ids'', JArr (map JStr (ap_user_ids p))),
      (''updated_at'', JStr updated)]"

text \<open>Everything that gave access under the old policy ends.\<close>

definition revoke_device_access :: "time \<Rightarrow> string \<Rightarrow> store \<Rightarrow> store" where
  "revoke_device_access now deviceID st =
     st\<lparr>commands :=
          upd_where (\<lambda>c. c_type c = ''remote_ssh_reverse'' \<and> c_status c = ''queued'' \<and> c_device_id c = deviceID)
            (\<lambda>c. c\<lparr>c_status := ''cancelled''\<rparr>) (commands st),
        device_access_grants := del_where (\<lambda>t. at_device_id t = deviceID) (device_access_grants st),
        device_access_sessions := del_where (\<lambda>t. at_device_id t = deviceID) (device_access_sessions st),
        remote_sessions :=
          upd_where (\<lambda>s. rs_device_id s = deviceID \<and> open_status (rs_status s)) (close_session now)
            (remote_sessions st)\<rparr>"

definition SaveFleetAccessPolicy ::
  "env \<Rightarrow> time \<Rightarrow> string \<Rightarrow> access_policy \<Rightarrow> string \<Rightarrow> store \<Rightarrow> store res" where
  "SaveFleetAccessPolicy E now userID policy updated st =
     (if ap_max_ttl_seconds policy < 60 \<or> ap_max_ttl_seconds policy > 7200 \<or> length (ap_user_ids policy) > 100
      then Inl (ErrMsg ''invalid access policy'')
      else bindE (fleetPrincipal st userID) (\<lambda>admin.
        if \<not> admin then Inl ErrFleetAccess
        else bindE (fleetDeviceAccess st userID (ap_device_id policy) True) (\<lambda>_.
        bindE (checkE (\<lambda>i. if has_row (\<lambda>u. u_id u = i \<and> \<not> u_disabled u) (users st) then Inr ()
                           else Inl (ErrMsg ''policy user unavailable'')) (ap_user_ids policy)) (\<lambda>_.
          let st = st\<lparr>access_policies :=
                 upsert_row ap_device_id (\<lambda>old new. new)
                   (policy\<lparr>ap_user_ids := sort_compact (ap_user_ids policy), ap_updated_at := now\<rparr>)
                   (access_policies st)\<rparr>;
              st = revoke_device_access now (ap_device_id policy) st;
              (eventID, st) = randomID E ''policy-audit'' st
          in add_audit
               \<lparr>ae_id = eventID, ae_actor = userID, ae_action = ''remote_access.policy_update'',
                ae_device_id = ap_device_id policy, ae_command_id = [],
                ae_details_json = print_json (access_policy_json policy updated), ae_created_at = now\<rparr> st))))"

section \<open>Sessions\<close>

definition overdue_session :: "env \<Rightarrow> time \<Rightarrow> remote_session \<Rightarrow> bool" where
  "overdue_session E now s \<longleftrightarrow> open_status (rs_status s) \<and> julianday E (rs_expires_at s) \<le> julianday E now"

definition ExpireRemoteSessions :: "env \<Rightarrow> time \<Rightarrow> store \<Rightarrow> store" where
  "ExpireRemoteSessions E now st =
     st\<lparr>remote_sessions :=
        upd_where (overdue_session E now)
          (\<lambda>s. s\<lparr>rs_status := ''expired'', rs_closed_at := Some now, rs_updated_at := now\<rparr>)
          (remote_sessions st)\<rparr>"

definition open_count :: "string \<Rightarrow> store \<Rightarrow> nat" where
  "open_count deviceID st =
     count_where (\<lambda>s. rs_device_id s = deviceID \<and> open_status (rs_status s)) (remote_sessions st)"

definition recent_count :: "env \<Rightarrow> time \<Rightarrow> string \<Rightarrow> store \<Rightarrow> nat" where
  "recent_count E now deviceID st =
     count_where (\<lambda>s. rs_device_id s = deviceID \<and> julianday E (rs_created_at s) \<ge> julianday E (now - 10 * minute))
       (remote_sessions st)"

definition port_reserved :: "int \<Rightarrow> int \<Rightarrow> store \<Rightarrow> bool" where
  "port_reserved remote luci st =
     has_row (\<lambda>s. open_status (rs_status s) \<and>
         ((rs_remote_port s > 0 \<and> rs_remote_port s \<in> {remote, luci}) \<or>
          (rs_luci_port s > 0 \<and> rs_luci_port s \<in> {remote, luci}))) (remote_sessions st)"

definition trim_default :: "string \<Rightarrow> string \<Rightarrow> string" where
  "trim_default fallback value = (let v = TrimSpace value in if v = [] then fallback else v)"

text \<open>The row of a request with the defaults of the code filled in.\<close>

definition session_defaults :: "time \<Rightarrow> string \<Rightarrow> remote_session \<Rightarrow> remote_session" where
  "session_defaults now sid s =
     s\<lparr>rs_id := sid, rs_status := trim_default ''requested'' (rs_status s),
       rs_target := trim_default ''ssh'' (rs_target s),
       rs_local_host := trim_default ''127.0.0.1'' (rs_local_host s),
       rs_local_port := (if rs_local_port s \<le> 0 then 22 else rs_local_port s),
       rs_server_port := (if rs_server_port s \<le> 0 then 22 else rs_server_port s),
       rs_luci_scheme := (if rs_luci_scheme s = [] then ''http'' else rs_luci_scheme s),
       rs_created_at := (if IsZero (rs_created_at s) then now else rs_created_at s),
       rs_expires_at := (if IsZero (rs_expires_at s) then now + 15 * minute else rs_expires_at s),
       rs_started_at := None, rs_closed_at := None, rs_updated_at := now\<rparr>"

definition CreateRemoteSession ::
  "env \<Rightarrow> time \<Rightarrow> string \<Rightarrow> remote_session \<Rightarrow> store \<Rightarrow> (remote_session option \<times> store) res" where
  "CreateRemoteSession E now requester s st0 =
     bindE (enforceFleetAccess now requester (rs_device_id s) (rs_remote_port s > 0) (rs_luci_port s > 0)
              (rs_expires_at s) st0) (\<lambda>_.
       let st = ExpireRemoteSessions E now st0 in
       if \<not> has_row (\<lambda>d. d_id d = rs_device_id s) (devices st) then Inr (None, st0)
       else if open_count (rs_device_id s) st \<ge> 2 then Inl ErrTunnelSessionLimit
       else if recent_count E now (rs_device_id s) st \<ge> 10 then Inl ErrTunnelRateLimit
       else if port_reserved (rs_remote_port s) (rs_luci_port s) st then Inl ErrTunnelPortUnavailable
       else let (sid, st) = randomID E ''ras'' st; row = session_defaults now sid s
            in bindE (insert_row rs_id row (remote_sessions st))
                 (\<lambda>rows. Inr (Some row, st\<lparr>remote_sessions := rows\<rparr>)))"

definition GetRemoteSession :: "env \<Rightarrow> time \<Rightarrow> string \<Rightarrow> string \<Rightarrow> store \<Rightarrow> remote_session option \<times> store" where
  "GetRemoteSession E now deviceID sessionID st =
     (let st = ExpireRemoteSessions E now st
      in (find_row (\<lambda>s. rs_device_id s = deviceID \<and> rs_id s = sessionID) (remote_sessions st), st))"

definition ListRemoteSessions ::
  "env \<Rightarrow> time \<Rightarrow> string \<Rightarrow> int \<Rightarrow> store \<Rightarrow> (remote_session list) option \<times> store" where
  "ListRemoteSessions E now deviceID limit st =
     (let st = ExpireRemoteSessions E now st in
      if \<not> has_row (\<lambda>d. d_id d = deviceID) (devices st) then (None, st)
      else let limit = (if limit \<le> 0 \<or> limit > 100 then 25 else limit)
           in (Some (take (nat limit) (order_by (\<lambda>x y. ts_le E (rs_created_at y) (rs_created_at x))
                 (filter (\<lambda>s. rs_device_id s = deviceID) (remote_sessions st)))), st))"

definition AttachRemoteSessionCommand ::
  "env \<Rightarrow> time \<Rightarrow> string \<Rightarrow> string \<Rightarrow> string \<Rightarrow> store \<Rightarrow> remote_session option \<times> store" where
  "AttachRemoteSessionCommand E now deviceID sessionID commandID st =
     GetRemoteSession E now deviceID sessionID
       (st\<lparr>remote_sessions :=
          upd_where (\<lambda>s. rs_device_id s = deviceID \<and> rs_id s = sessionID \<and>
              (rs_status s = ''requested'' \<or> rs_status s = ''queued''))
            (\<lambda>s. s\<lparr>rs_status := ''queued'', rs_command_id := commandID, rs_updated_at := now\<rparr>)
            (remote_sessions st)\<rparr>)"

definition CloseRemoteSession ::
  "env \<Rightarrow> time \<Rightarrow> string \<Rightarrow> string \<Rightarrow> store \<Rightarrow> remote_session option \<times> store" where
  "CloseRemoteSession E now deviceID sessionID st =
     GetRemoteSession E now deviceID sessionID
       (st\<lparr>remote_sessions :=
          upd_where (\<lambda>s. rs_device_id s = deviceID \<and> rs_id s = sessionID \<and> open_status (rs_status s))
            (close_session now) (remote_sessions st)\<rparr>)"

text \<open>The permission a command runs under is stored when a user is behind it.\<close>

definition record_permission :: "string \<Rightarrow> string \<Rightarrow> command \<Rightarrow> store \<Rightarrow> store res" where
  "record_permission userID permission c st =
     (if userID \<noteq> [] then
        bindE (insert_row cp_command_id (permission_of userID permission c) (command_permissions st))
          (\<lambda>cps. Inr (st\<lparr>command_permissions := cps\<rparr>))
      else Inr st)"

text \<open>The command that opens the tunnel, tied to a requested session that still runs.\<close>

definition CreateManagedRemoteCommand ::
  "env \<Rightarrow> time \<Rightarrow> string \<Rightarrow> string \<Rightarrow> string \<Rightarrow> RawMessage \<Rightarrow> store \<Rightarrow> (command option \<times> store) res" where
  "CreateManagedRemoteCommand E now userID deviceID sessionID args st =
     (case find_row (\<lambda>s. rs_id s = sessionID \<and> rs_device_id s = deviceID) (remote_sessions st) of
        None \<Rightarrow> Inr (None, st)
      | Some s \<Rightarrow>
          if rs_status s \<noteq> ''requested'' \<or> \<not> rs_expires_at s > now then Inl ErrFleetAccess
          else bindE (enforceFleetAccess now userID deviceID (rs_remote_port s > 0) (rs_luci_port s > 0)
                        (rs_expires_at s) st) (\<lambda>_.
            bindE (newCommand E now deviceID ''remote_ssh_reverse'' args (rs_expires_at s - now) st) (\<lambda>(c, st).
            bindE (insert_command 3 c st) (\<lambda>st.
            bindE (record_permission userID ''remote'' c st) (\<lambda>st.
              Inr (Some c, st\<lparr>remote_sessions :=
                 upd_where (\<lambda>x. rs_id x = sessionID)
                   (\<lambda>x. x\<lparr>rs_status := ''queued'', rs_command_id := c_id c, rs_updated_at := now\<rparr>)
                   (remote_sessions st)\<rparr>))))))"

section \<open>Tunnel keys and ports\<close>

definition SyncTunnelCredential ::
  "time \<Rightarrow> string \<Rightarrow> int \<Rightarrow> string \<Rightarrow> string \<Rightarrow> store \<Rightarrow> (int \<times> bool \<times> store) res" where
  "SyncTunnelCredential now deviceID epoch publicKey fingerprint st =
     (let publicKey = TrimSpace publicKey; fingerprint = TrimSpace fingerprint in
      case find_row (\<lambda>d. d_id d = deviceID) (devices st) of
        None \<Rightarrow> Inl ErrNoRows
      | Some d \<Rightarrow>
          if epoch \<noteq> d_tunnel_key_epoch d \<or> publicKey = [] \<or> fingerprint = []
          then Inr (d_tunnel_key_epoch d, False, st)
          else Inr (d_tunnel_key_epoch d,
                    count_where (\<lambda>x. d_id x = deviceID \<and> d_tunnel_key_epoch x = epoch) (devices st) = 1,
                    st\<lparr>devices :=
                      upd_where (\<lambda>x. d_id x = deviceID \<and> d_tunnel_key_epoch x = epoch)
                        (\<lambda>x. x\<lparr>d_tunnel_public_key := publicKey, d_tunnel_key_fingerprint := fingerprint,
                              d_tunnel_credential_updated_at := Some now\<rparr>) (devices st)\<rparr>))"

definition TunnelCredentialReady :: "string \<Rightarrow> store \<Rightarrow> bool" where
  "TunnelCredentialReady deviceID st =
     (case find_row (\<lambda>d. d_id d = deviceID) (devices st) of
        None \<Rightarrow> False
      | Some d \<Rightarrow> d_tunnel_public_key d \<noteq> [] \<and> d_tunnel_key_fingerprint d \<noteq> [])"

definition live_sessions :: "env \<Rightarrow> time \<Rightarrow> store \<Rightarrow> remote_session list" where
  "live_sessions E t_at st =
     filter (\<lambda>s. open_status (rs_status s) \<and> julianday E (rs_expires_at s) > julianday E t_at) (remote_sessions st)"

definition session_ports :: "(int \<Rightarrow> bool) \<Rightarrow> remote_session list \<Rightarrow> int list" where
  "session_ports ok ss =
     remdups_adj (sort (filter ok (concat (map (\<lambda>s. [rs_remote_port s, rs_luci_port s]) ss))))"

definition TunnelAuthorization :: "env \<Rightarrow> time \<Rightarrow> string \<Rightarrow> store \<Rightarrow> (string \<times> string \<times> int list) option" where
  "TunnelAuthorization E t_at fingerprint st =
     (let fingerprint = TrimSpace fingerprint in
      if fingerprint = [] then None
      else case find_row (\<lambda>d. d_tunnel_key_fingerprint d = fingerprint \<and> d_tunnel_public_key d \<noteq> []) (devices st) of
             None \<Rightarrow> None
           | Some d \<Rightarrow>
               let ports = session_ports (\<lambda>p. 0 < p \<and> p \<le> 65535)
                             (filter (\<lambda>s. rs_device_id s = d_id d) (live_sessions E t_at st))
               in if ports = [] then None else Some (d_id d, d_tunnel_public_key d, ports))"

definition ActiveTunnelPorts :: "env \<Rightarrow> time \<Rightarrow> store \<Rightarrow> int list" where
  "ActiveTunnelPorts E t_at st = session_ports (\<lambda>p. 22000 \<le> p \<and> p \<le> 22199) (live_sessions E t_at st)"

section \<open>Invariants of the session table\<close>

text \<open>
  Two open sessions of different rows never hold the same tunnel port, and a device has at most
  two open sessions.
\<close>

definition ports_of :: "remote_session \<Rightarrow> int set" where
  "ports_of s = {p. 0 < p \<and> (p = rs_remote_port s \<or> p = rs_luci_port s)}"

definition ports_apart :: "remote_session \<Rightarrow> remote_session \<Rightarrow> bool" where
  "ports_apart s t \<longleftrightarrow> open_status (rs_status s) \<longrightarrow> open_status (rs_status t) \<longrightarrow> ports_of s \<inter> ports_of t = {}"

definition sessions_ok :: "remote_session list \<Rightarrow> bool" where
  "sessions_ok ss \<longleftrightarrow> sorted_wrt ports_apart ss \<and>
     (\<forall>d. count_where (\<lambda>s. rs_device_id s = d \<and> open_status (rs_status s)) ss \<le> 2)"

text \<open>
  An operation that opens nothing: rows keep their device and ports, and an open row was open
  before. Such steps keep every invariant that only open sessions can break.
\<close>

definition opens_nothing :: "remote_session \<Rightarrow> remote_session \<Rightarrow> bool" where
  "opens_nothing s t \<longleftrightarrow> rs_id t = rs_id s \<and> rs_device_id t = rs_device_id s \<and>
     rs_remote_port t = rs_remote_port s \<and> rs_luci_port t = rs_luci_port s \<and>
     (open_status (rs_status t) \<longrightarrow> open_status (rs_status s))"

lemma opens_nothing_refl [simp]: "opens_nothing s s"
  by (simp add: opens_nothing_def)

lemma ports_apart_narrow:
  "ports_apart s t \<Longrightarrow> opens_nothing s s' \<Longrightarrow> opens_nothing t t' \<Longrightarrow> ports_apart s' t'"
  by (auto simp: ports_apart_def opens_nothing_def ports_of_def)

lemma sessions_ok_upd:
  assumes "sessions_ok ss" and "\<And>s. s \<in> set ss \<Longrightarrow> p s \<Longrightarrow> opens_nothing s (f s)"
  shows "sessions_ok (upd_where p f ss)"
proof -
  let ?g = "\<lambda>s. if p s then f s else s"
  have g: "opens_nothing s (?g s)" if "s \<in> set ss" for s using assms(2) that by simp
  have "sorted_wrt (\<lambda>s t. ports_apart (?g s) (?g t)) ss"
    by (rule sorted_wrt_mono_rel [of _ ports_apart])
      (use assms(1) g ports_apart_narrow in \<open>auto simp: sessions_ok_def simp del: if_split\<close>)
  moreover have "count_where (\<lambda>s. rs_device_id s = d \<and> open_status (rs_status s)) (upd_where p f ss) \<le>
      count_where (\<lambda>s. rs_device_id s = d \<and> open_status (rs_status s)) ss" for d
    using assms(2) by (induction ss) (auto simp: opens_nothing_def le_SucI)
  ultimately show ?thesis using assms(1) by (auto simp: sessions_ok_def upd_where_def sorted_wrt_map intro: order_trans)
qed

lemma sessions_ok_del: "sessions_ok ss \<Longrightarrow> sessions_ok (del_where p ss)"
proof -
  assume a: "sessions_ok ss"
  have "sorted_wrt ports_apart (del_where p ss)"
    using a by (auto simp: sessions_ok_def del_where_def intro: sorted_wrt_filter)
  moreover have "count_where q (del_where p ss) \<le> count_where q ss" for q
    by (induction ss) (auto simp: del_where_def le_SucI)
  ultimately show ?thesis using a by (auto simp: sessions_ok_def intro: order_trans)
qed

lemma sessions_ok_insert:
  assumes "sessions_ok ss" and "open_status (rs_status s) \<Longrightarrow>
      count_where (\<lambda>t. rs_device_id t = rs_device_id s \<and> open_status (rs_status t)) ss < 2"
    and "\<And>t. t \<in> set ss \<Longrightarrow> ports_apart t s"
  shows "sessions_ok (ss @ [s])"
  using assms by (auto simp: sessions_ok_def sorted_wrt_append)

lemma Expire_sessions_ok: "sessions_ok (remote_sessions st) \<Longrightarrow> sessions_ok (remote_sessions (ExpireRemoteSessions E now st))"
  by (auto simp: ExpireRemoteSessions_def opens_nothing_def open_status_def intro!: sessions_ok_upd)

lemma not_reserved_apart:
  assumes "\<not> port_reserved (rs_remote_port s) (rs_luci_port s) st" and "t \<in> set (remote_sessions st)"
    and "rs_remote_port r = rs_remote_port s" and "rs_luci_port r = rs_luci_port s"
  shows "ports_apart t r"
proof -
  have "\<not> (open_status (rs_status t) \<and>
      ((rs_remote_port t > 0 \<and> rs_remote_port t \<in> {rs_remote_port s, rs_luci_port s}) \<or>
       (rs_luci_port t > 0 \<and> rs_luci_port t \<in> {rs_remote_port s, rs_luci_port s})))"
    using assms(1,2) unfolding port_reserved_def has_row_iff by blast
  then show ?thesis unfolding ports_apart_def ports_of_def assms(3,4) by blast
qed

text \<open>What a new session went through.\<close>

lemma CreateRemoteSession_Inr:
  assumes "CreateRemoteSession E now u s st = Inr (Some row, st')"
  shows "enforceFleetAccess now u (rs_device_id s) (rs_remote_port s > 0) (rs_luci_port s > 0) (rs_expires_at s) st = Inr () \<and>
    (\<exists>d \<in> set (devices st). d_id d = rs_device_id s) \<and>
    open_count (rs_device_id s) (ExpireRemoteSessions E now st) < 2 \<and>
    recent_count E now (rs_device_id s) (ExpireRemoteSessions E now st) < 10 \<and>
    \<not> port_reserved (rs_remote_port s) (rs_luci_port s) (ExpireRemoteSessions E now st) \<and>
    (\<exists>sid. row = session_defaults now sid s \<and> sid \<notin> rs_id ` set (remote_sessions st)) \<and>
    remote_sessions st' = remote_sessions (ExpireRemoteSessions E now st) @ [row]"
proof -
  have ids: "rs_id ` set (remote_sessions (ExpireRemoteSessions E now st)) = rs_id ` set (remote_sessions st)"
    unfolding ExpireRemoteSessions_def by (simp add: set_upd_where image_image if_distrib cong: if_cong del: if_image_distrib)
  have dev: "devices (ExpireRemoteSessions E now st) = devices st" by (simp add: ExpireRemoteSessions_def)
  show ?thesis using assms ids
    by (auto simp: CreateRemoteSession_def res_simps Let_def randomID_def has_row_iff dev session_defaults_def
        split: if_splits)
qed

lemma Create_sessions_ok:
  assumes "CreateRemoteSession E now u s st = Inr (r, st')" and "sessions_ok (remote_sessions st)"
  shows "sessions_ok (remote_sessions st')"
proof (cases r)
  case None
  with assms show ?thesis
    by (auto simp: CreateRemoteSession_def res_simps Let_def randomID_def split: if_splits)
next
  case (Some row)
  let ?st = "ExpireRemoteSessions E now st"
  note c = CreateRemoteSession_Inr [OF assms(1) [unfolded Some]]
  then obtain sid where row: "row = session_defaults now sid s" by blast
  have "sessions_ok (remote_sessions ?st @ [row])"
  proof (rule sessions_ok_insert)
    show "sessions_ok (remote_sessions ?st)" using assms(2) by (rule Expire_sessions_ok)
    show "count_where (\<lambda>t. rs_device_id t = rs_device_id row \<and> open_status (rs_status t)) (remote_sessions ?st) < 2"
      using c by (auto simp: open_count_def row session_defaults_def)
    show "ports_apart t row" if "t \<in> set (remote_sessions ?st)" for t
      by (rule not_reserved_apart [OF _ that]) (use c in \<open>auto simp: row session_defaults_def\<close>)
  qed
  with c show ?thesis by simp
qed

lemma Get_sessions_ok:
  "sessions_ok (remote_sessions st) \<Longrightarrow> sessions_ok (remote_sessions (snd (GetRemoteSession E now d i st)))"
  by (simp add: GetRemoteSession_def Let_def Expire_sessions_ok)

lemma Attach_sessions_ok:
  "sessions_ok (remote_sessions st) \<Longrightarrow> sessions_ok (remote_sessions (snd (AttachRemoteSessionCommand E now d i c st)))"
  unfolding AttachRemoteSessionCommand_def
  by (rule Get_sessions_ok) (auto simp: opens_nothing_def open_status_def intro!: sessions_ok_upd)

lemma Close_sessions_ok:
  "sessions_ok (remote_sessions st) \<Longrightarrow> sessions_ok (remote_sessions (snd (CloseRemoteSession E now d i st)))"
  unfolding CloseRemoteSession_def
  by (rule Get_sessions_ok) (auto simp: opens_nothing_def open_status_def close_session_def intro!: sessions_ok_upd)

lemma record_permission_Inr:
  "record_permission u p c st = Inr st' \<Longrightarrow> \<exists>cps. st' = st\<lparr>command_permissions := cps\<rparr>"
  by (auto simp: record_permission_def res_simps split: if_splits intro: exI [of _ "command_permissions st"])

lemma CreateManagedRemoteCommand_sessions:
  assumes "CreateManagedRemoteCommand E now u d i args st = Inr (Some c, st')"
  shows "\<exists>s. find_row (\<lambda>s. rs_id s = i \<and> rs_device_id s = d) (remote_sessions st) = Some s \<and>
    rs_status s = ''requested'' \<and> now < rs_expires_at s \<and>
    enforceFleetAccess now u d (rs_remote_port s > 0) (rs_luci_port s > 0) (rs_expires_at s) st = Inr () \<and>
    newCommand E now d ''remote_ssh_reverse'' args (rs_expires_at s - now) st = Inr (c, st\<lparr>draws := draws st + 2\<rparr>) \<and>
    c_id c \<notin> c_id ` set (commands st) \<and> commands st' = commands st @ [c\<lparr>c_max_attempts := 3\<rparr>] \<and>
    remote_sessions st' = upd_where (\<lambda>x. rs_id x = i)
      (\<lambda>x. x\<lparr>rs_status := ''queued'', rs_command_id := c_id c, rs_updated_at := now\<rparr>) (remote_sessions st)"
proof -
  obtain s where f: "find_row (\<lambda>s. rs_id s = i \<and> rs_device_id s = d) (remote_sessions st) = Some s"
    using assms by (cases "find_row (\<lambda>s. rs_id s = i \<and> rs_device_id s = d) (remote_sessions st)")
      (simp_all add: CreateManagedRemoteCommand_def)
  from assms f have s: "rs_status s = ''requested''" "now < rs_expires_at s"
    by (auto simp: CreateManagedRemoteCommand_def split: if_splits)
  from assms f s obtain st1 st2 st3 where
    e: "enforceFleetAccess now u d (rs_remote_port s > 0) (rs_luci_port s > 0) (rs_expires_at s) st = Inr ()"
    and n: "newCommand E now d ''remote_ssh_reverse'' args (rs_expires_at s - now) st = Inr (c, st1)"
    and i: "insert_command 3 c st1 = Inr st2" "record_permission u ''remote'' c st2 = Inr st3"
    and st': "st' = st3\<lparr>remote_sessions := upd_where (\<lambda>x. rs_id x = i)
        (\<lambda>x. x\<lparr>rs_status := ''queued'', rs_command_id := c_id c, rs_updated_at := now\<rparr>) (remote_sessions st3)\<rparr>"
    by (auto simp: CreateManagedRemoteCommand_def bindE_eq_Inr)
  from record_permission_Inr [OF i(2)] obtain cps where "st3 = st2\<lparr>command_permissions := cps\<rparr>" by blast
  moreover have "st1 = st\<lparr>draws := draws st + 2\<rparr>" using newCommand_Inr [OF n] by blast
  ultimately show ?thesis using f s e n i(1) st' by (auto simp: insert_command_Inr)
qed

interpretation session_table: keyed_table rs_id .

lemma Managed_sessions_ok:
  assumes "CreateManagedRemoteCommand E now u d i args st = Inr (r, st')" and "sessions_ok (remote_sessions st)"
    and "distinct (map rs_id (remote_sessions st))"
  shows "sessions_ok (remote_sessions st')"
proof (cases r)
  case None
  with assms show ?thesis
    by (auto simp: CreateManagedRemoteCommand_def res_simps split: option.splits if_splits)
next
  case (Some c)
  from CreateManagedRemoteCommand_sessions [OF assms(1) [unfolded Some]] obtain s
    where s: "find_row (\<lambda>s. rs_id s = i \<and> rs_device_id s = d) (remote_sessions st) = Some s" "rs_status s = ''requested''"
      and st': "remote_sessions st' = upd_where (\<lambda>x. rs_id x = i)
        (\<lambda>x. x\<lparr>rs_status := ''queued'', rs_command_id := c_id c, rs_updated_at := now\<rparr>) (remote_sessions st)"
    by blast
  have "x = s" if "x \<in> set (remote_sessions st)" "rs_id x = i" for x
    using that find_row_Some [OF s(1)] assms(3) by (metis session_table.wf_def session_table.wf_unique)
  then show ?thesis unfolding st' using assms(2) s(2)
    by (intro sessions_ok_upd) (auto simp: opens_nothing_def open_status_def)
qed

lemma Result_sessions_ok:
  "sessions_ok (remote_sessions st) \<Longrightarrow>
   sessions_ok (remote_sessions (snd (SaveCommandResult now i d s x out res st)))"
  by (auto simp: SaveCommandResult_def Let_def updateRemoteSessionFromCommandResult_def opens_nothing_def
      open_status_def intro!: sessions_ok_upd)

lemma SavePermissionPolicy_sessions_ok:
  "SavePermissionPolicy E now a u p st = Inr st' \<Longrightarrow> sessions_ok (remote_sessions st) \<Longrightarrow>
   sessions_ok (remote_sessions st')"
  by (auto dest!: SavePermissionPolicy_Inr simp: apply_policy_tables opens_nothing_def close_session_def open_status_def
      intro!: sessions_ok_upd)

section \<open>Properties\<close>

text \<open>
  C16. A session is opened only within the limits: access was enforced, the device exists, at most
  two sessions of the device are open afterwards and at most ten were created in ten minutes, the
  ports are not held by another open session, and besides closing overdue sessions nothing else in
  the table changes.
\<close>

theorem CreateRemoteSession_limits:
  assumes "CreateRemoteSession E now requester s st = Inr (Some row, st')"
  shows "enforceFleetAccess now requester (rs_device_id s) (rs_remote_port s > 0) (rs_luci_port s > 0) (rs_expires_at s) st = Inr () \<and>
    rs_device_id row = rs_device_id s \<and> rs_id row \<notin> rs_id ` set (remote_sessions st) \<and>
    remote_sessions st' = remote_sessions (ExpireRemoteSessions E now st) @ [row] \<and>
    open_count (rs_device_id s) st' \<le> 2 \<and> recent_count E now (rs_device_id s) st' \<le> 10 \<and>
    (\<forall>t \<in> set (remote_sessions (ExpireRemoteSessions E now st)). open_status (rs_status t) \<longrightarrow>
       ports_of t \<inter> ports_of row = {} \<and> julianday E now < julianday E (rs_expires_at t))"
proof -
  let ?st = "ExpireRemoteSessions E now st"
  note c = CreateRemoteSession_Inr [OF assms]
  then obtain sid where row: "row = session_defaults now sid s" "sid \<notin> rs_id ` set (remote_sessions st)" by blast
  have p: "rs_remote_port row = rs_remote_port s" "rs_luci_port row = rs_luci_port s"
    "rs_device_id row = rs_device_id s" "rs_id row = sid"
    by (simp_all add: row session_defaults_def)
  have "\<not> overdue_session E now t \<and> (open_status (rs_status t) \<longrightarrow> ports_of t \<inter> ports_of s = {})"
    if t: "t \<in> set (remote_sessions ?st)" for t
  proof -
    have "\<not> overdue_session E now t"
      using t by (auto simp: ExpireRemoteSessions_def set_upd_where overdue_session_def open_status_def)
    moreover have "ports_apart t s \<or> \<not> open_status (rs_status t) \<or> ports_of t \<inter> ports_of s = {}"
      using c not_reserved_apart [OF _ t refl refl] by blast
    moreover have "\<not> (open_status (rs_status t) \<and>
      ((rs_remote_port t > 0 \<and> rs_remote_port t \<in> {rs_remote_port s, rs_luci_port s}) \<or>
       (rs_luci_port t > 0 \<and> rs_luci_port t \<in> {rs_remote_port s, rs_luci_port s})))"
      using c t unfolding port_reserved_def has_row_iff by blast
    ultimately show ?thesis unfolding ports_of_def by blast
  qed
  moreover have "ports_of row = ports_of s" by (simp add: ports_of_def p)
  ultimately have f: "\<forall>t \<in> set (remote_sessions ?st). open_status (rs_status t) \<longrightarrow>
       ports_of t \<inter> ports_of row = {} \<and> julianday E now < julianday E (rs_expires_at t)"
    by (auto simp: overdue_session_def not_le)
  have "open_count (rs_device_id s) st' \<le> 2" "recent_count E now (rs_device_id s) st' \<le> 10"
    using c by (auto simp: open_count_def recent_count_def)
  with c f p row(2) show ?thesis by blast
qed

definition sample_request :: remote_session where
  "sample_request = sample_session\<lparr>rs_id := [], rs_status := [], rs_remote_port := 22002, rs_command_id := []\<rparr>"

lemma trim_texts [simp]:
  "TrimSpace [] = []" "TrimSpace ''ssh'' = ''ssh''" "TrimSpace ''127.0.0.1'' = ''127.0.0.1''"
  by code_simp+

lemma sample_request_created:
  "\<exists>row st'. CreateRemoteSession sample_env minute ''op'' sample_request sample_sessions = Inr (Some row, st') \<and>
     rs_remote_port row = 22002"
proof -
  have "enforceFleetAccess minute ''op'' (rs_device_id sample_request) (rs_remote_port sample_request > 0)
      (rs_luci_port sample_request > 0) (rs_expires_at sample_request) sample_sessions = Inr ()"
    "\<not> port_reserved (rs_remote_port sample_request) (rs_luci_port sample_request) (ExpireRemoteSessions sample_env minute sample_sessions)"
    "\<not> 2 \<le> open_count (rs_device_id sample_request) (ExpireRemoteSessions sample_env minute sample_sessions)"
    "\<not> 10 \<le> recent_count sample_env minute (rs_device_id sample_request) (ExpireRemoteSessions sample_env minute sample_sessions)"
    "has_row (\<lambda>d. d_id d = rs_device_id sample_request) (devices (ExpireRemoteSessions sample_env minute sample_sessions))"
    by code_simp+
  moreover have "remote_sessions (ExpireRemoteSessions sample_env minute sample_sessions) = [sample_session]"
    by code_simp
  ultimately show ?thesis
    by (simp add: CreateRemoteSession_def Let_def randomID_def insert_row_def has_row_def session_defaults_def)
      (simp add: sample_session_def sample_request_def)
qed

theorem CreateRemoteSession_limits_witness:
  "\<exists>row st'. CreateRemoteSession sample_env minute ''op'' sample_request sample_sessions = Inr (Some row, st') \<and>
     open_count ''dev'' st' \<le> 2"
proof -
  obtain row st' where r: "CreateRemoteSession sample_env minute ''op'' sample_request sample_sessions = Inr (Some row, st')"
    using sample_request_created by blast
  from CreateRemoteSession_limits [OF r] r show ?thesis by (auto simp: sample_request_def sample_session_def)
qed

text \<open>
  A configured access policy binds every session: the requester is a known active user who
  may use remote access on the device and see it, SSH and LuCI only as the policy says, only listed
  users when it restricts them, and not longer than its limit (with one second of slack).
\<close>

theorem enforceFleetAccess_sound:
  assumes "enforceFleetAccess now userID deviceID ssh luci expires st = Inr ()"
    and "loadFleetAccessPolicy st deviceID = (policy, True)"
  shows "CheckPermission st userID deviceID ''remote'' = Inr () \<and>
    (\<exists>admin. fleetPrincipal st userID = Inr admin \<and> fleetDeviceAccess st userID deviceID admin = Inr ()) \<and>
    (ssh \<longrightarrow> ap_ssh_allowed policy) \<and> (luci \<longrightarrow> ap_luci_allowed policy) \<and>
    (ap_restrict_users policy \<longrightarrow> userID \<in> set (ap_user_ids policy)) \<and>
    expires \<le> now + (ap_max_ttl_seconds policy + 1) * second"
  using assms
  by (auto simp: enforceFleetAccess_def CheckPermission_def res_simps algebra_simps split: if_splits)

definition sample_policy :: access_policy where
  "sample_policy = \<lparr>ap_device_id = ''dev'', ap_ssh_allowed = True, ap_luci_allowed = False, ap_max_ttl_seconds = 3600,
      ap_restrict_users = True, ap_user_ids = [''op''], ap_updated_at = 0\<rparr>"

theorem enforceFleetAccess_sound_witness:
  "enforceFleetAccess 0 ''op'' ''dev'' True False hour (sample_sessions\<lparr>access_policies := [sample_policy]\<rparr>) = Inr () \<and>
   hour \<le> 0 + (ap_max_ttl_seconds sample_policy + 1) * second"
proof -
  let ?st = "sample_sessions\<lparr>access_policies := [sample_policy]\<rparr>"
  have "enforceFleetAccess 0 ''op'' ''dev'' True False hour ?st = Inr ()" by code_simp
  moreover have "loadFleetAccessPolicy ?st ''dev'' = (sample_policy, True)"
    by (simp add: loadFleetAccessPolicy_def sample_policy_def)
  ultimately show ?thesis using enforceFleetAccess_sound by blast
qed

interpretation policy_table: keyed_table ap_device_id .

lemma SaveFleetAccessPolicy_Inr:
  assumes "SaveFleetAccessPolicy E now userID policy updated st = Inr st'"
  shows "60 \<le> ap_max_ttl_seconds policy \<and> ap_max_ttl_seconds policy \<le> 7200 \<and> length (ap_user_ids policy) \<le> 100 \<and>
    fleetPrincipal st userID = Inr True \<and>
    (\<forall>u \<in> set (ap_user_ids policy). \<exists>r \<in> set (users st). u_id r = u \<and> \<not> u_disabled r) \<and>
    (\<exists>n as. st' = (revoke_device_access now (ap_device_id policy) (st\<lparr>access_policies :=
                 upsert_row ap_device_id (\<lambda>old new. new)
                   (policy\<lparr>ap_user_ids := sort_compact (ap_user_ids policy), ap_updated_at := now\<rparr>)
                   (access_policies st)\<rparr>))\<lparr>draws := n, audit_events := as\<rparr>)"
  using assms
  by (auto simp: SaveFleetAccessPolicy_def res_simps Let_def add_audit_def randomID_def checkE_ok has_row_iff
      split: if_splits)

text \<open>
  A new access policy takes effect at once: only an administrator saves it, within the limits
  and for active users; it reads back with sorted unique users; every open session of the device is
  closed, its access tokens are gone and no tunnel command for it stays queued.
\<close>

theorem SaveFleetAccessPolicy_revokes:
  assumes "SaveFleetAccessPolicy E now userID policy updated st = Inr st'"
  shows "fleetPrincipal st userID = Inr True \<and> ap_max_ttl_seconds policy \<in> {60..7200} \<and>
    loadFleetAccessPolicy st' (ap_device_id policy) =
      (policy\<lparr>ap_user_ids := sort_compact (ap_user_ids policy), ap_updated_at := now\<rparr>, True) \<and>
    (\<forall>s \<in> set (remote_sessions st'). rs_device_id s = ap_device_id policy \<longrightarrow> \<not> open_status (rs_status s)) \<and>
    (\<forall>t \<in> set (device_access_grants st') \<union> set (device_access_sessions st'). at_device_id t \<noteq> ap_device_id policy) \<and>
    (\<forall>c \<in> set (commands st'). c_device_id c = ap_device_id policy \<and> c_type c = ''remote_ssh_reverse'' \<longrightarrow>
       c_status c \<noteq> ''queued'')"
proof -
  define row where "row = policy\<lparr>ap_user_ids := sort_compact (ap_user_ids policy), ap_updated_at := now\<rparr>"
  note i = SaveFleetAccessPolicy_Inr [OF assms]
  then obtain n as where st': "st' = (revoke_device_access now (ap_device_id policy) (st\<lparr>access_policies :=
                 upsert_row ap_device_id (\<lambda>old new. new) row (access_policies st)\<rparr>))\<lparr>draws := n, audit_events := as\<rparr>"
    unfolding row_def by blast
  have "find_row (\<lambda>p. ap_device_id p = ap_device_id row) (access_policies st') = Some row"
    using policy_table.find_after_upsert [of row "\<lambda>old new. new" "access_policies st"]
    by (simp add: st' revoke_device_access_def option.case_eq_if)
  moreover have "ap_device_id row = ap_device_id policy" by (simp add: row_def)
  ultimately have "loadFleetAccessPolicy st' (ap_device_id policy) = (row, True)"
    by (simp add: loadFleetAccessPolicy_def)
  moreover have "\<forall>s \<in> set (remote_sessions st'). rs_device_id s = ap_device_id policy \<longrightarrow> \<not> open_status (rs_status s)"
    by (auto simp: st' revoke_device_access_def set_upd_where close_session_def open_status_def)
  moreover have "\<forall>t \<in> set (device_access_grants st') \<union> set (device_access_sessions st'). at_device_id t \<noteq> ap_device_id policy"
    by (auto simp: st' revoke_device_access_def set_del_where)
  moreover have "\<forall>c \<in> set (commands st'). c_device_id c = ap_device_id policy \<and> c_type c = ''remote_ssh_reverse'' \<longrightarrow>
       c_status c \<noteq> ''queued''"
    by (auto simp: st' revoke_device_access_def set_upd_where)
  ultimately show ?thesis using i unfolding row_def by (intro conjI) simp_all
qed

theorem SaveFleetAccessPolicy_revokes_witness:
  "\<exists>st'. SaveFleetAccessPolicy sample_env minute ''root'' sample_policy ''t'' sample_sessions = Inr st' \<and>
     (\<forall>s \<in> set (remote_sessions st'). rs_device_id s = ''dev'' \<longrightarrow> \<not> open_status (rs_status s))"
proof -
  have a: "fleetPrincipal sample_sessions ''root'' = Inr True"
    "fleetDeviceAccess sample_sessions ''root'' ''dev'' True = Inr ()"
    "has_row (\<lambda>u. u_id u = ''op'' \<and> \<not> u_disabled u) (users sample_sessions)" by code_simp+
  have "audit_events (revoke_device_access now d (sample_sessions\<lparr>access_policies := p\<rparr>)) = []" for now d p
    by (simp add: revoke_device_access_def sample_sessions_def sample_store_def empty_store_def)
  with a obtain st' where st': "SaveFleetAccessPolicy sample_env minute ''root'' sample_policy ''t'' sample_sessions = Inr st'"
    by (simp add: SaveFleetAccessPolicy_def Let_def sample_policy_def randomID_def add_audit_def insert_row_def has_row_def)
  from SaveFleetAccessPolicy_revokes [OF st'] st' show ?thesis by (auto simp: sample_policy_def)
qed

lemma set_session_ports:
  "set (session_ports ok ss) = {p. ok p \<and> (\<exists>s \<in> set ss. p = rs_remote_port s \<or> p = rs_luci_port s)}"
  by (auto simp: session_ports_def)

lemma strict_remdups_adj: "sorted xs \<Longrightarrow> sorted_wrt (<) (remdups_adj (xs :: 'a :: linorder list))"
  by (induction xs rule: remdups_adj.induct) (auto simp: less_le)

lemma sorted_session_ports: "sorted_wrt (<) (session_ports ok ss)"
  by (simp add: session_ports_def strict_remdups_adj)

lemma sessions_ok_shared:
  assumes "sessions_ok ss" and "s \<in> set ss" and "t \<in> set ss" and "open_status (rs_status s)"
    and "open_status (rs_status t)" and "p \<in> ports_of s" and "p \<in> ports_of t"
  shows "s = t"
proof -
  have sym: "ports_apart x y \<Longrightarrow> ports_apart y x" for x y by (auto simp: ports_apart_def)
  have "sorted_wrt ports_apart ss" using assms(1) by (simp add: sessions_ok_def)
  then have "s = t \<or> ports_apart s t" using assms(2,3)
    by (induction ss) (auto dest: sym)
  with assms(4-7) show ?thesis by (auto simp: ports_apart_def)
qed


definition sample_tunnel :: store where
  "sample_tunnel = sample_sessions\<lparr>devices :=
     [(sample_device ''dev'' ''op'')\<lparr>d_tunnel_public_key := ''ssh-ed25519 A'', d_tunnel_key_fingerprint := ''fp''\<rparr>]\<rparr>"


end
