(* ===== verification/GoUrl.thy ===== *)
theory GoUrl
  imports GoText
begin

text \<open>
  What the program uses of \<open>net/url\<close>: \<open>url.Parse\<close> down to its scheme, its host, whether it
  carries user information, its path and its query, with the errors it reports for control
  characters, bad escapes, bad ports and bad hosts.
\<close>

section \<open>Cutting strings\<close>

text \<open>\<open>strings.Cut\<close> at a byte, and \<open>strings.LastIndex\<close> of a byte.\<close>

definition Cut :: "char \<Rightarrow> string \<Rightarrow> string \<times> string option" where
  "Cut c s =
     (case dropWhile (\<lambda>x. x \<noteq> c) s of [] \<Rightarrow> (s, None) | _ # r \<Rightarrow> (takeWhile (\<lambda>x. x \<noteq> c) s, Some r))"

definition LastIndex :: "char \<Rightarrow> string \<Rightarrow> nat option" where
  "LastIndex c s =
     (let r = takeWhile (\<lambda>x. x \<noteq> c) (rev s) in if length r = length s then None else Some (length s - Suc (length r)))"

section \<open>Escapes\<close>

datatype encoding = encodePath | encodeHost | encodeZone | encodeUserPassword | encodeFragment

definition ishex :: "char \<Rightarrow> bool" where
  "ishex c \<longleftrightarrow> digit_char c \<or> c \<in> set ''abcdefABCDEF''"

text \<open>The bytes that a host may contain unescaped.\<close>

definition host_char :: "char \<Rightarrow> bool" where
  "host_char c \<longleftrightarrow> digit_char c \<or> alpha_char c \<or>
     c \<in> set (''!$&()*+,;=:[]<>-_.~'' @ [CHR 0x27, CHR 0x22])"

definition host_mode :: "encoding \<Rightarrow> bool" where
  "host_mode mode \<longleftrightarrow> mode = encodeHost \<or> mode = encodeZone"

definition unhex :: "char \<Rightarrow> nat" where
  "unhex c = (if digit_char c then of_char c - 48 else of_char (lower_char c) - 87)"

definition escape_ok :: "encoding \<Rightarrow> char \<Rightarrow> char \<Rightarrow> bool" where
  "escape_ok mode a b \<longleftrightarrow>
     (mode = encodeHost \<longrightarrow> \<not> (unhex a < 8 \<and> [a, b] \<noteq> ''25'')) \<and>
     (mode = encodeZone \<longrightarrow>
        (let v = 16 * unhex a + unhex b
         in [a, b] = ''25'' \<or> v = 32 \<or> host_char (char_of v)))"

text \<open>\<open>unescape\<close>; \<open>None\<close> is its error.\<close>

fun unescape :: "encoding \<Rightarrow> string \<Rightarrow> string option" where
  "unescape mode [] = Some []"
| "unescape mode (c # s) =
     (if c = CHR ''%'' then
        (case s of
           a # b # r \<Rightarrow>
             if ishex a \<and> ishex b \<and> escape_ok mode a b
             then map_option ((#) (char_of (16 * unhex a + unhex b))) (unescape mode r) else None
         | _ \<Rightarrow> None)
      else if host_mode mode \<and> of_char c < (128 :: nat) \<and> \<not> host_char c then None
      else map_option ((#) c) (unescape mode s))"

section \<open>The parser\<close>

record URL =
  u_Scheme :: string
  u_Opaque :: string
  u_User :: bool
  u_Host :: string
  u_Path :: string
  u_RawQuery :: string
  u_Fragment :: string

definition validOptionalPort :: "string \<Rightarrow> bool" where
  "validOptionalPort port = (case port of [] \<Rightarrow> True | c # r \<Rightarrow> c = CHR '':'' \<and> list_all digit_char r)"

definition parseHost :: "string \<Rightarrow> string option" where
  "parseHost host =
     (if HasPrefix host ''['' then
        (case LastIndex (CHR '']'') host of
           None \<Rightarrow> None
         | Some i \<Rightarrow>
             if \<not> validOptionalPort (drop (i + 1) host) then None
             else (case Index (take i host) ''%25'' of
                     Some z \<Rightarrow>
                       Option.bind (unescape encodeHost (take z host)) (\<lambda>h1.
                       Option.bind (unescape encodeZone (drop z (take i host))) (\<lambda>h2.
                       Option.bind (unescape encodeHost (drop i host)) (\<lambda>h3. Some (h1 @ h2 @ h3))))
                   | None \<Rightarrow> unescape encodeHost host))
      else (case LastIndex (CHR '':'') host of
              Some i \<Rightarrow> if validOptionalPort (drop i host) then unescape encodeHost host else None
            | None \<Rightarrow> unescape encodeHost host))"

definition userinfo_char :: "char \<Rightarrow> bool" where
  "userinfo_char c \<longleftrightarrow> digit_char c \<or> alpha_char c \<or> c \<in> set (''-._:~!$&()*+,;=%@'' @ [CHR 0x27])"

text \<open>The pair (user information present, host).\<close>

definition parseAuthority :: "string \<Rightarrow> (bool \<times> string) option" where
  "parseAuthority authority =
     (case LastIndex (CHR ''@'') authority of
        None \<Rightarrow> map_option (Pair False) (parseHost authority)
      | Some i \<Rightarrow>
          Option.bind (parseHost (drop (i + 1) authority)) (\<lambda>host.
            let userinfo = take i authority; (user, pass) = Cut (CHR '':'') userinfo in
            if \<not> list_all userinfo_char userinfo then None
            else if unescape encodeUserPassword user = None \<or>
                    (case pass of Some p \<Rightarrow> unescape encodeUserPassword p = None | None \<Rightarrow> False) then None
            else Some (True, host)))"

fun scheme_rest :: "bool \<Rightarrow> string \<Rightarrow> string \<Rightarrow> string \<Rightarrow> (string \<times> string) option" where
  "scheme_rest first raw seen [] = Some ([], raw)"
| "scheme_rest first raw seen (c # s) =
     (if alpha_char c then scheme_rest False raw (seen @ [c]) s
      else if digit_char c \<or> c \<in> {CHR ''+'', CHR ''-'', CHR ''.''}
      then (if first then Some ([], raw) else scheme_rest False raw (seen @ [c]) s)
      else if c = CHR '':'' then (if first then None else Some (seen, s))
      else Some ([], raw))"

definition getScheme :: "string \<Rightarrow> (string \<times> string) option" where
  "getScheme raw = scheme_rest True raw [] raw"

definition control_byte :: "char \<Rightarrow> bool" where
  "control_byte c \<longleftrightarrow> c < CHR '' '' \<or> c = CHR 0x7F"

definition with_path :: "URL \<Rightarrow> string \<Rightarrow> URL option" where
  "with_path u path = map_option (\<lambda>p. u\<lparr>u_Path := p\<rparr>) (unescape encodePath path)"

definition parse_hier :: "URL \<Rightarrow> string \<Rightarrow> URL option" where
  "parse_hier u rest =
     (if HasPrefix rest ''//'' \<and> (u_Scheme u \<noteq> [] \<or> \<not> HasPrefix rest ''///'') then
        (let (authority, path) = Cut (CHR ''/'') (drop 2 rest)
         in Option.bind (parseAuthority authority) (\<lambda>(user, host).
              with_path (u\<lparr>u_User := user, u_Host := host\<rparr>)
                (case path of None \<Rightarrow> [] | Some p \<Rightarrow> CHR ''/'' # p)))
      else with_path u rest)"

definition parse_url :: "string \<Rightarrow> URL option" where
  "parse_url raw =
     (if list_ex control_byte raw then None
      else let u = \<lparr>u_Scheme = [], u_Opaque = [], u_User = False, u_Host = [], u_Path = [], u_RawQuery = [], u_Fragment = []\<rparr>
        in if raw = ''*'' then Some (u\<lparr>u_Path := ''*''\<rparr>)
        else Option.bind (getScheme raw) (\<lambda>(scheme, rest).
          let (rest, query) = Cut (CHR ''?'') rest;
              u = u\<lparr>u_Scheme := ToLower scheme, u_RawQuery := (case query of None \<Rightarrow> [] | Some q \<Rightarrow> q)\<rparr>
          in if \<not> HasPrefix rest ''/'' then
               (if scheme \<noteq> [] then Some (u\<lparr>u_Opaque := rest\<rparr>)
                else if CHR '':'' \<in> set (fst (Cut (CHR ''/'') rest)) then None
                else parse_hier u rest)
             else parse_hier u rest))"

definition url_Parse :: "string \<Rightarrow> URL option" where
  "url_Parse raw =
     (let (u, frag) = Cut (CHR ''#'') raw
      in Option.bind (parse_url u) (\<lambda>url.
           case frag of
             None \<Rightarrow> Some url
           | Some f \<Rightarrow> map_option (\<lambda>x. url\<lparr>u_Fragment := x\<rparr>) (unescape encodeFragment f)))"

text \<open>A URL with the scheme \<open>https\<close>, a host and no user information.\<close>

definition plain_https :: "string \<Rightarrow> bool" where
  "plain_https raw =
     (case url_Parse raw of None \<Rightarrow> False | Some u \<Rightarrow> u_Scheme u = ''https'' \<and> u_Host u \<noteq> [] \<and> \<not> u_User u)"

lemma url_examples:
  "plain_https ''https://feed.example/24.10/all''" "\<not> plain_https ''http://feed.example/''"
  "\<not> plain_https ''https://user@feed.example/''" "\<not> plain_https ''https://''"
  "\<not> plain_https ''https://feed.example:x/''" "plain_https ''HTTPS://[::1]:8443/a?b#c''"
  by code_simp+

end
