(* ===== verification/FleetOperations.thy ===== *)
theory FleetOperations
  imports RemoteSessions GoUrl
begin

text \<open>
  Fleet operations (\<open>fleet_operations.go\<close>, \<open>fleet_updates.go\<close>): one command type sent to many
  devices with a request key that makes retries safe, bounded parallelism, a canary, a deadline,
  pause on failure, resume and cancel.
\<close>

section \<open>Input\<close>

definition fleetObjectID :: "env \<Rightarrow> string \<Rightarrow> string \<Rightarrow> string \<Rightarrow> string res" where
  "fleetObjectID E prefix userID key =
     (if length key < 8 \<or> length key > 128 then Inl (ErrMsg ''invalid request key'')
      else Inr (prefix @ ''_'' @ hex_EncodeToString (take 16 (sha256_Sum E (userID @ [CHR 0x00] @ key)))))"

definition fleetArgsLimit :: "string \<Rightarrow> int" where
  "fleetArgsLimit kind = (if kind = ''agent_update'' then 256 * 1024 else 16384)"

definition FleetCommandAllowed :: "string \<Rightarrow> bool" where
  "FleetCommandAllowed kind \<longleftrightarrow> TrimSpace kind \<in> set
     [''ping'', ''traceroute'', ''route_show'', ''interfaces_show'', ''pkg_list_installed'',
      ''system_backup_create'', ''diagnostic_report'', ''uci_profile_preview'', ''uci_profile_apply'',
      ''uci_profile_rollback'', ''agent_update'']"

text \<open>\<open>FleetUpdateArgs\<close>: a map from devices to maps; \<open>None\<close> is the nil map of a \<open>null\<close>.\<close>

definition to_target :: "json \<Rightarrow> (string \<times> string) list option option" where
  "to_target v = (case v of JNull \<Rightarrow> Some None | _ \<Rightarrow> map_option Some (to_string_map v))"

definition to_targets ::
  "(string \<times> (string \<times> string) list option) list \<Rightarrow> json \<Rightarrow> (string \<times> (string \<times> string) list option) list option" where
  "to_targets old v =
     (case v of
        JObj ms \<Rightarrow> map_option (\<lambda>new. new @ old)
          (all_some (map (\<lambda>(k, w). map_option (Pair k) (to_target w)) (rev ms)))
      | JNull \<Rightarrow> Some []
      | _ \<Rightarrow> None)"

definition valid_update_args :: "(string \<times> string) list \<Rightarrow> bool" where
  "valid_update_args args \<longleftrightarrow>
     map_get args ''package'' = ''rmm-agent-go-production'' \<and> map_get args ''target_version'' \<noteq> [] \<and>
     map_get args ''package_version'' \<noteq> [] \<and> map_get args ''expected_release'' \<noteq> [] \<and>
     map_get args ''expected_target'' \<noteq> [] \<and>
     (map_get args ''package_manager'' = ''apk'' \<or> map_get args ''package_manager'' = ''opkg'')"

definition update_device_args ::
  "(string \<times> (string \<times> string) list option) list \<Rightarrow> string \<Rightarrow> (string \<times> RawMessage) res" where
  "update_device_args targets id' =
     (case map_of targets id' of
        Some (Some args) \<Rightarrow>
          if \<not> valid_update_args args then Inl (ErrMsg ''invalid resolved update'')
          else if \<not> list_all (\<lambda>key. plain_https (map_get args key)) [''feed_url'', ''manifest_url'', ''signature_url'']
          then Inl (ErrMsg ''signed HTTPS update required'')
          else let data = print_json (string_map_json args)
               in if length data > 16384 then Inl (ErrMsg ''update arguments exceed limit'') else Inr (id', data)
      | _ \<Rightarrow> Inl (ErrMsg ''invalid resolved update''))"

fun mapE :: "('a \<Rightarrow> 'e + 'b) \<Rightarrow> 'a list \<Rightarrow> 'e + 'b list" where
  "mapE f [] = Inr []"
| "mapE f (x # xs) = bindE (f x) (\<lambda>y. bindE (mapE f xs) (\<lambda>ys. Inr (y # ys)))"

definition fleetUpdateDeviceArgs :: "RawMessage \<Rightarrow> string list \<Rightarrow> ((string \<times> RawMessage) list) res" where
  "fleetUpdateDeviceArgs raw ids =
     (case Option.bind (json_unmarshal raw) (decode_field to_targets ''targets'' []) of
        None \<Rightarrow> Inl (ErrMsg ''resolved update targets required'')
      | Some targets \<Rightarrow>
          if length (remdups (map fst targets)) \<noteq> length ids
          then Inl (ErrMsg ''resolved update targets required'')
          else mapE (update_device_args targets) ids)"

text \<open>Whether the device already runs the version; an error when it is no longer what was resolved.\<close>

definition validateFleetUpdateDevice :: "string \<Rightarrow> RawMessage \<Rightarrow> store \<Rightarrow> bool res" where
  "validateFleetUpdateDevice deviceID args st =
     (case find_row (\<lambda>d. d_id d = deviceID) (devices st) of
        None \<Rightarrow> Inl ErrNoRows
      | Some d \<Rightarrow>
          (case (json_unmarshal (d_inventory_json d), Option.bind (json_unmarshal args) to_string_map) of
             (Some inventory, Some expected) \<Rightarrow>
               (case (string_field ''agent_runtime'' inventory, string_field ''agent_package'' inventory, string_field ''agent_version'' inventory,
                      string_field ''openwrt_release'' inventory, string_field ''target'' inventory, string_field ''package_manager'' inventory) of
                  (Some runtime, Some package, Some version, Some release, Some targ, Some manager) \<Rightarrow>
                    if runtime \<noteq> ''go'' \<or> package \<noteq> ''rmm-agent-go-production'' \<or>
                       release \<noteq> map_get expected ''expected_release'' \<or> targ \<noteq> map_get expected ''expected_target'' \<or>
                       manager \<noteq> map_get expected ''package_manager''
                    then Inl ErrFleetFeatureUnavailable
                    else Inr (version = map_get expected ''target_version'')
                | _ \<Rightarrow> Inl ErrFleetFeatureUnavailable)
           | _ \<Rightarrow> Inl ErrFleetFeatureUnavailable))"

section \<open>Creating an operation\<close>

definition operation_limits :: "FleetOperationInput \<Rightarrow> unit res" where
  "operation_limits i =
     (if \<not> FleetCommandAllowed (oi_Type i) then Inl (ErrMsg ''command is not available for fleet operations'')
      else if oi_Parallelism i < 1 \<or> oi_Parallelism i > 20 \<or> oi_DeviceIDs i = [] \<or> length (oi_DeviceIDs i) > 100 \<or>
         length (oi_Title i) > 160 \<or> length (oi_RequestKey i) < 8 \<or> length (oi_RequestKey i) > 128 \<or>
         int (length (oi_Args i)) > fleetArgsLimit (oi_Type i)
      then Inl (ErrMsg ''invalid operation limits'') else Inr ())"

definition item_args :: "RawMessage \<Rightarrow> (string \<times> RawMessage) list \<Rightarrow> string \<Rightarrow> RawMessage" where
  "item_args args deviceArgs id' = (case map_of deviceArgs id' of Some a \<Rightarrow> a | None \<Rightarrow> args)"

definition resolve_device_args ::
  "FleetOperationInput \<Rightarrow> string list \<Rightarrow> RawMessage \<Rightarrow> ((string \<times> RawMessage) list) res" where
  "resolve_device_args i ids args =
     (if oi_Type i = ''agent_update'' then fleetUpdateDeviceArgs args ids else Inr (oi_DeviceArgs i))"

text \<open>The document whose hash identifies the request.\<close>

definition operation_payload :: "FleetOperationInput \<Rightarrow> (string \<times> RawMessage) list \<Rightarrow> string res" where
  "operation_payload i deviceArgs =
     (if \<not> list_all (\<lambda>(k, raw). json_Valid raw) deviceArgs then Inl (ErrMsg ''json: error calling MarshalJSON'')
      else Inr (''{\"Title\":'' @ print_string (oi_Title i) @ '',\"Type\":'' @ print_string (oi_Type i) @
        '',\"Deadline\":'' @ print_string (oi_DeadlineAt i) @
        '',\"Parallelism\":'' @ dec_digits (oi_Parallelism i) @
        '',\"Stop\":'' @ print_json (JBool (oi_StopOnFailure i)) @ '',\"Canary\":'' @ print_json (JBool (oi_Canary i)) @
        '',\"Args\":{'' @ commas (map (\<lambda>(k, raw). print_string k @ '':'' @ marshal_raw raw) deviceArgs) @ ''}}''))"

definition feature_available :: "string \<Rightarrow> string \<Rightarrow> store \<Rightarrow> unit res" where
  "feature_available kind id' st =
     (if kind = ''diagnostic_report'' \<or> HasPrefix kind ''uci_profile_'' then
        (case find_row (\<lambda>d. d_id d = id') (devices st) of
           None \<Rightarrow> Inl ErrNoRows
         | Some d \<Rightarrow>
             (case Option.bind (json_unmarshal (d_inventory_json d)) (decode_field to_strings ''rmm_features'' []) of
                None \<Rightarrow> Inl ErrFleetFeatureUnavailable
              | Some features \<Rightarrow> if kind \<in> set features then Inr () else Inl ErrFleetFeatureUnavailable))
      else Inr ())"

definition authorize_target :: "store \<Rightarrow> string \<Rightarrow> string \<Rightarrow> bool \<Rightarrow> string \<Rightarrow> unit res" where
  "authorize_target st userID kind admin id' =
     bindE (fleetDeviceAccess st userID id' admin) (\<lambda>_.
     bindE (permissionAllowed st userID id' (CommandPermission kind) admin) (\<lambda>_.
       feature_available kind id' st))"

type_synonym operation = "fleet_operation \<times> fleet_item list"

text \<open>\<open>ORDER BY device_id\<close> compares bytes.\<close>

definition loadFleetOperation :: "string \<Rightarrow> store \<Rightarrow> operation res" where
  "loadFleetOperation opID st =
     (case find_row (\<lambda>o'. fo_id o' = opID) (fleet_operations st) of
        None \<Rightarrow> Inl ErrNoRows
      | Some o' \<Rightarrow>
          Inr (o', order_by (\<lambda>x y. fi_device_id x \<le> fi_device_id y)
                     (filter (\<lambda>i. fi_operation_id i = opID) (fleet_operation_items st))))"

definition schedule_run_valid :: "string \<Rightarrow> string \<Rightarrow> store \<Rightarrow> bool" where
  "schedule_run_valid runID userID st =
     has_row (\<lambda>r. sr_id r = runID \<and> sr_status r = ''pending'' \<and>
         has_row (\<lambda>s. fs_id s = sr_schedule_id r \<and> fs_enabled s \<and> fs_user_id s = userID) (fleet_schedules st))
       (fleet_schedule_runs st)"

text \<open>A repeated request: the stored operation if it is the same one.\<close>

definition repeated_operation ::
  "FleetOperationInput \<Rightarrow> string list \<Rightarrow> RawMessage \<Rightarrow> string \<Rightarrow> fleet_operation \<Rightarrow> store \<Rightarrow> operation res" where
  "repeated_operation i ids args requestHash row st =
     (if fo_request_hash row \<noteq> requestHash then Inl ErrFleetConflict
      else bindE (loadFleetOperation (fo_id row) st) (\<lambda>(e, items).
        if (oi_DeadlineAt i \<noteq> [] \<and> RFC3339Nano (fo_deadline_at e) \<noteq> oi_DeadlineAt i) \<or> fo_title e \<noteq> oi_Title i \<or>
           fo_command_type e \<noteq> oi_Type i \<or> fo_args_json e \<noteq> args \<or> fo_parallelism e \<noteq> oi_Parallelism i \<or>
           fo_stop_on_failure e \<noteq> oi_StopOnFailure i \<or> ids \<noteq> map fi_device_id items
        then Inl ErrFleetConflict else Inr (e, items)))"

definition operation_deadline :: "time \<Rightarrow> string \<Rightarrow> time res" where
  "operation_deadline now text =
     (if text = [] then Inr (now + 24 * hour)
      else case time_Parse text of
             None \<Rightarrow> Inl (ErrMsg ''invalid operation deadline'')
           | Some t \<Rightarrow> if \<not> t > now \<or> t > now + 24 * hour then Inl (ErrMsg ''invalid operation deadline'') else Inr t)"

definition active_operation :: "string \<Rightarrow> bool" where
  "active_operation s \<longleftrightarrow> s = ''running'' \<or> s = ''paused'' \<or> s = ''cancelling''"

definition insert_item :: "string \<Rightarrow> RawMessage \<Rightarrow> (string \<times> RawMessage) list \<Rightarrow> string \<Rightarrow> store \<Rightarrow> store res" where
  "insert_item opID args deviceArgs dev st =
     (let raw = item_args args deviceArgs dev in
      if \<not> json_Valid raw \<or> length raw > 16384 then Inl (ErrMsg ''invalid device arguments'')
      else bindE (insert_row (\<lambda>i. (fi_operation_id i, fi_device_id i))
                    \<lparr>fi_operation_id = opID, fi_device_id = dev, fi_command_id = [], fi_args_json = raw,
                     fi_status = ''pending'', fi_error = []\<rparr> (fleet_operation_items st))
             (\<lambda>is. Inr (st\<lparr>fleet_operation_items := is\<rparr>)))"

definition insert_operation ::
  "env \<Rightarrow> time \<Rightarrow> string \<Rightarrow> FleetOperationInput \<Rightarrow> string list \<Rightarrow> RawMessage \<Rightarrow> (string \<times> RawMessage) list \<Rightarrow> string \<Rightarrow>
   store \<Rightarrow> (operation \<times> store) res" where
  "insert_operation E now userID i ids args deviceArgs requestHash st =
     (if count_where (\<lambda>o'. fo_user_id o' = userID \<and> active_operation (fo_status o')) (fleet_operations st) \<ge> 20
      then Inl (ErrMsg ''too many active fleet operations'')
      else let (opID, st) = randomID E ''operation'' st in
        bindE (operation_deadline now (oi_DeadlineAt i)) (\<lambda>deadline.
        bindE (insert_row fo_id
                 \<lparr>fo_id = opID, fo_user_id = userID, fo_request_key = oi_RequestKey i, fo_request_hash = requestHash,
                  fo_title = oi_Title i, fo_command_type = oi_Type i, fo_args_json = args,
                  fo_parallelism = oi_Parallelism i, fo_stop_on_failure = oi_StopOnFailure i,
                  fo_canary_pending = oi_Canary i, fo_deadline_at = deadline, fo_status = ''running'',
                  fo_created_at = now, fo_updated_at = now\<rparr> (fleet_operations st)) (\<lambda>ops.
        bindE (foldE (insert_item opID args deviceArgs) ids (st\<lparr>fleet_operations := ops\<rparr>)) (\<lambda>st.
        bindE (loadFleetOperation opID st) (\<lambda>op. Inr (op, st))))))"

definition CreateFleetOperation ::
  "env \<Rightarrow> time \<Rightarrow> string \<Rightarrow> FleetOperationInput \<Rightarrow> store \<Rightarrow> (operation \<times> store) res" where
  "CreateFleetOperation E now userID i st =
     bindE (operation_limits i) (\<lambda>_.
       let ids = sort_compact (oi_DeviceIDs i); args = NormalizeRawJSON (oi_Args i) in
       if \<not> json_Valid args then Inl (ErrMsg ''invalid operation arguments'')
       else bindE (resolve_device_args i ids args) (\<lambda>deviceArgs.
         bindE (operation_payload i (map (\<lambda>d. (d, item_args args deviceArgs d)) ids)) (\<lambda>payload.
           let requestHash = TokenHash E payload in
           if oi_ScheduleRunID i \<noteq> [] \<and> \<not> schedule_run_valid (oi_ScheduleRunID i) userID st then Inl ErrFleetAccess
           else bindE (fleetPrincipal st userID) (\<lambda>admin.
             bindE (checkE (authorize_target st userID (oi_Type i) admin) ids) (\<lambda>_.
               case find_row (\<lambda>o'. fo_user_id o' = userID \<and> fo_request_key o' = oi_RequestKey i) (fleet_operations st) of
                 Some row \<Rightarrow> bindE (repeated_operation i ids args requestHash row st) (\<lambda>op. Inr (op, st))
               | None \<Rightarrow> insert_operation E now userID i ids args deviceArgs requestHash st)))))"

definition visible_operation :: "string \<Rightarrow> bool \<Rightarrow> store \<Rightarrow> operation \<Rightarrow> operation" where
  "visible_operation userID admin st = (\<lambda>(o', items).
     (if permissionAllowed st userID [] (CommandPermission (fo_command_type o')) admin = Inr () then o'
      else o'\<lparr>fo_args_json := ''{}''\<rparr>,
      filter (\<lambda>i. permissionAllowed st userID (fi_device_id i) ''view'' admin = Inr ()) items))"

definition ListFleetOperations :: "string \<Rightarrow> store \<Rightarrow> (operation list) res" where
  "ListFleetOperations userID st =
     bindE (fleetPrincipal st userID) (\<lambda>admin.
     bindE (mapE (\<lambda>o'. loadFleetOperation (fo_id o') st)
              (take 100 (order_by (\<lambda>x y. text_le (fo_created_at y) (fo_created_at x))
                 (filter (\<lambda>o'. fo_user_id o' = userID) (fleet_operations st))))) (\<lambda>ops.
       Inr (map (visible_operation userID admin st) ops)))"

section \<open>Actions of the owner\<close>

definition upd_operation :: "string \<Rightarrow> (fleet_operation \<Rightarrow> fleet_operation) \<Rightarrow> store \<Rightarrow> store" where
  "upd_operation opID f st = st\<lparr>fleet_operations := upd_where (\<lambda>o'. fo_id o' = opID) f (fleet_operations st)\<rparr>"

definition command_of_operation :: "string \<Rightarrow> store \<Rightarrow> command \<Rightarrow> bool" where
  "command_of_operation opID st c =
     has_row (\<lambda>i. fi_operation_id i = opID \<and> fi_command_id i = c_id c) (fleet_operation_items st)"

definition cancel_operation :: "time \<Rightarrow> string \<Rightarrow> store \<Rightarrow> store" where
  "cancel_operation now opID st =
     (let st = upd_operation opID (\<lambda>o'. o'\<lparr>fo_status := ''cancelling'', fo_updated_at := now\<rparr>) st;
          st = st\<lparr>fleet_operation_items :=
            upd_where (\<lambda>i. fi_operation_id i = opID \<and> fi_status i = ''pending'') (\<lambda>i. i\<lparr>fi_status := ''cancelled''\<rparr>)
              (fleet_operation_items st)\<rparr>
      in st\<lparr>commands :=
           upd_where (\<lambda>c. c_status c = ''queued'' \<and> command_of_operation opID st c)
             (\<lambda>c. c\<lparr>c_status := ''cancelled'', c_cancelled_at := Some now\<rparr>) (commands st)\<rparr>)"

definition SetFleetOperationAction :: "time \<Rightarrow> string \<Rightarrow> string \<Rightarrow> string \<Rightarrow> store \<Rightarrow> store res" where
  "SetFleetOperationAction now userID opID action st =
     bindE (fleetPrincipal st userID) (\<lambda>admin.
       case find_row (\<lambda>o'. fo_id o' = opID \<and> fo_user_id o' = userID) (fleet_operations st) of
         None \<Rightarrow> Inl ErrFleetAccess
       | Some o' \<Rightarrow>
           bindE (if action = ''resume'' then permissionAllowed st userID [] (CommandPermission (fo_command_type o')) admin
                  else Inr ()) (\<lambda>_.
             if action = ''cancel'' then
               (if \<not> active_operation (fo_status o') then Inr st else Inr (cancel_operation now opID st))
             else if action = ''resume'' \<and> fo_status o' = ''paused'' then
               Inr (upd_operation opID (\<lambda>o'. o'\<lparr>fo_status := ''running'', fo_updated_at := now\<rparr>) st)
             else Inl (ErrMsg ''operation action is unavailable'')))"

section \<open>Advancing an operation\<close>

definition expire_operation_commands :: "env \<Rightarrow> time \<Rightarrow> string \<Rightarrow> store \<Rightarrow> store" where
  "expire_operation_commands E now opID st =
     st\<lparr>commands :=
        upd_where (\<lambda>c. (c_status c = ''queued'' \<or> c_status c = ''claimed'') \<and> expired_by E now (c_expires_at c) \<and>
            command_of_operation opID st c)
          (\<lambda>c. c\<lparr>c_status := ''expired'', c_expired_at := Some now\<rparr>) (commands st)\<rparr>"

text \<open>After the deadline what has not started fails.\<close>

definition close_window :: "fleet_item \<Rightarrow> fleet_item" where
  "close_window i =
     (if fi_status i = ''pending'' then i\<lparr>fi_status := ''failed'', fi_error := ''maintenance window expired''\<rparr> else i)"

definition started_status :: "string \<Rightarrow> bool" where
  "started_status s \<longleftrightarrow> s = ''queued'' \<or> s = ''claimed''"

text \<open>What the command of an item says about it.\<close>

definition observed_status :: "time \<Rightarrow> fleet_operation \<Rightarrow> string \<Rightarrow> store \<Rightarrow> string" where
  "observed_status now op commandID st =
     (case find_row (\<lambda>c. c_id c = commandID) (commands st) of
        None \<Rightarrow> ''failed''
      | Some c \<Rightarrow>
          let status = c_status c;
              status = (if status = ''completed'' \<and> c_exit_code c \<noteq> Some 0 then ''failed'' else status);
              status = (if status = ''cancelled'' \<and> fo_status op \<noteq> ''cancelling'' then ''failed'' else status)
          in if fo_command_type op = ''agent_update'' \<and> status = ''completed'' \<and>
                lenient_string_field ''health_status'' (c_result_json c) \<noteq> ''healthy''
             then (if \<not> fo_deadline_at op > now \<or>
                      (case c_completed_at c of None \<Rightarrow> False | Some t \<Rightarrow> now - t > 5 * minute)
                   then ''failed'' else ''claimed'')
             else status)"

definition refresh_item :: "time \<Rightarrow> fleet_operation \<Rightarrow> store \<Rightarrow> fleet_item \<Rightarrow> fleet_item" where
  "refresh_item now op st i =
     (if \<not> started_status (fi_status i) then i
      else let status = observed_status now op (fi_command_id i) st in
        if started_status status \<or> status = ''completed'' \<or> status = ''cancelled'' then i\<lparr>fi_status := status\<rparr>
        else i\<lparr>fi_status := ''failed'', fi_error := ''command failed, expired or was removed''\<rparr>)"

text \<open>An item that was running and has failed now.\<close>

definition new_failure :: "time \<Rightarrow> fleet_operation \<Rightarrow> store \<Rightarrow> fleet_item \<Rightarrow> bool" where
  "new_failure now op st i \<longleftrightarrow> started_status (fi_status i) \<and> fi_status (refresh_item now op st i) = ''failed''"

definition upd_items :: "string \<Rightarrow> (fleet_item \<Rightarrow> fleet_item) \<Rightarrow> store \<Rightarrow> store" where
  "upd_items opID f st =
     st\<lparr>fleet_operation_items := upd_where (\<lambda>i. fi_operation_id i = opID) f (fleet_operation_items st)\<rparr>"

text \<open>The first pause: after a new failure when the operation stops on failures.\<close>

definition pause_on_failure :: "bool \<Rightarrow> fleet_operation \<Rightarrow> fleet_operation" where
  "pause_on_failure newFailure op =
     (if newFailure \<and> fo_stop_on_failure op \<and> fo_status op = ''running'' then op\<lparr>fo_status := ''paused''\<rparr> else op)"

text \<open>The canary has finished: the operation waits for the owner.\<close>

definition finish_canary :: "fleet_item list \<Rightarrow> fleet_operation \<Rightarrow> fleet_operation" where
  "finish_canary items op =
     (if fo_canary_pending op \<and> list_ex (\<lambda>i. fi_command_id i \<noteq> [] \<and> \<not> started_status (fi_status i)) items
      then op\<lparr>fo_canary_pending := False,
             fo_status := (if fo_status op = ''running'' then ''paused'' else fo_status op)\<rparr>
      else op)"

definition effective_parallelism :: "fleet_operation \<Rightarrow> int" where
  "effective_parallelism op = (if fo_canary_pending op then 1 else fo_parallelism op)"

subsection \<open>Starting items\<close>

text \<open>
  The loop over pending items: the number of items under way, the status of the operation, and the
  store.
\<close>

record dispatch =
  ds_active :: int
  ds_status :: string
  ds_store :: store

definition target_access :: "fleet_operation \<Rightarrow> bool res \<Rightarrow> string \<Rightarrow> store \<Rightarrow> unit res" where
  "target_access op access dev st =
     bindE access (\<lambda>admin.
     bindE (fleetDeviceAccess st (fo_user_id op) dev admin) (\<lambda>_.
       permissionAllowed st (fo_user_id op) dev (CommandPermission (fo_command_type op)) admin))"

definition set_item :: "fleet_item \<Rightarrow> store \<Rightarrow> store" where
  "set_item i st =
     st\<lparr>fleet_operation_items :=
        upd_where (\<lambda>x. fi_operation_id x = fi_operation_id i \<and> fi_device_id x = fi_device_id i)
          (\<lambda>x. x\<lparr>fi_status := fi_status i, fi_error := fi_error i, fi_command_id := fi_command_id i\<rparr>)
          (fleet_operation_items st)\<rparr>"

definition fail_item :: "fleet_operation \<Rightarrow> string \<Rightarrow> fleet_item \<Rightarrow> dispatch \<Rightarrow> fleet_item \<times> dispatch" where
  "fail_item op error i ds =
     (let i = i\<lparr>fi_status := ''failed'', fi_error := error\<rparr>
      in (i, ds\<lparr>ds_status := (if fo_stop_on_failure op then ''paused'' else ds_status ds),
               ds_store := set_item i (ds_store ds)\<rparr>))"

definition backup_running :: "string \<Rightarrow> store \<Rightarrow> bool" where
  "backup_running dev st = has_row (\<lambda>b. b_device_id b = dev \<and> b_status b = ''creating'') (device_backups st)"

definition insert_backup :: "env \<Rightarrow> string \<Rightarrow> command \<Rightarrow> store \<Rightarrow> store res" where
  "insert_backup E dev c st =
     (let (backupID, st) = randomID E ''bkp'' st
      in bindE (insert_row b_id
                  \<lparr>b_id = backupID, b_device_id = dev, b_command_id = c_id c, b_status = ''creating'', b_archive = None,
                   b_size_bytes = 0, b_sha256 = [], b_openwrt_version = [], b_target = [], b_model = [],
                   b_manifest_json = ''[]'', b_error = [], b_created_at = c_created_at c, b_completed_at = None\<rparr>
                  (device_backups st))
           (\<lambda>bs. Inr (st\<lparr>device_backups := bs\<rparr>)))"

definition start_audit :: "time \<Rightarrow> fleet_operation \<Rightarrow> command \<Rightarrow> audit_event" where
  "start_audit now op c =
     \<lparr>ae_id = c_id c @ ''-fleet'', ae_actor = fo_user_id op, ae_action = ''fleet.command_create'',
      ae_device_id = c_device_id c, ae_command_id = c_id c,
      ae_details_json = ''{\"operation_id\":\"'' @ fo_id op @ ''\"}'', ae_created_at = now\<rparr>"

definition start_item :: "env \<Rightarrow> time \<Rightarrow> fleet_operation \<Rightarrow> fleet_item \<Rightarrow> store \<Rightarrow> (fleet_item \<times> store) res" where
  "start_item E now op i st =
     bindE (newCommand E now (fi_device_id i) (fo_command_type op) (fi_args_json i) (fo_deadline_at op - now) st) (\<lambda>(c, st).
     bindE (insert_command 3 c st) (\<lambda>st.
     bindE (if fo_command_type op = ''system_backup_create'' then insert_backup E (fi_device_id i) c st else Inr st) (\<lambda>st.
       let i = i\<lparr>fi_status := ''queued'', fi_command_id := c_id c\<rparr>
       in bindE (add_audit (start_audit now op c) (set_item i st)) (\<lambda>st. Inr (i, st)))))"

definition update_check :: "fleet_operation \<Rightarrow> fleet_item \<Rightarrow> store \<Rightarrow> (bool option) res" where
  "update_check op i st =
     (if fo_command_type op \<noteq> ''agent_update'' then Inr (Some False)
      else case validateFleetUpdateDevice (fi_device_id i) (fi_args_json i) st of
             Inr current \<Rightarrow> Inr (Some current)
           | Inl e \<Rightarrow> if e = ErrFleetFeatureUnavailable then Inr None else Inl e)"

text \<open>One item; the third component tells whether the loop stops.\<close>

definition dispatch_item ::
  "env \<Rightarrow> time \<Rightarrow> fleet_operation \<Rightarrow> bool res \<Rightarrow> fleet_item \<Rightarrow> dispatch \<Rightarrow> (fleet_item \<times> dispatch \<times> bool) res" where
  "dispatch_item E now op access i ds =
     (if fi_status i \<noteq> ''pending'' \<or> ds_active ds \<ge> effective_parallelism op then Inr (i, ds, False)
      else case target_access op access (fi_device_id i) (ds_store ds) of
        Inl e \<Rightarrow>
          if e \<noteq> ErrFleetAccess then Inl e
          else let (i, ds) = fail_item op ''device access changed'' i ds in Inr (i, ds, fo_stop_on_failure op)
      | Inr _ \<Rightarrow>
          bindE (update_check op i (ds_store ds)) (\<lambda>check.
            case check of
              None \<Rightarrow>
                let (i, ds) = fail_item op ''update platform changed; recreate schedule'' i ds
                in Inr (i, ds, fo_stop_on_failure op)
            | Some current \<Rightarrow>
                if current then
                  let i = i\<lparr>fi_status := ''completed''\<rparr>
                  in Inr (i, ds\<lparr>ds_store := set_item i (ds_store ds)\<rparr>, False)
                else if fo_command_type op = ''system_backup_create'' \<and> backup_running (fi_device_id i) (ds_store ds)
                then Inr (i, ds, False)
                else bindE (start_item E now op i (ds_store ds)) (\<lambda>(i, st).
                       Inr (i, ds\<lparr>ds_active := ds_active ds + 1, ds_store := st\<rparr>, False))))"

fun dispatch_items ::
  "env \<Rightarrow> time \<Rightarrow> fleet_operation \<Rightarrow> bool res \<Rightarrow> fleet_item list \<Rightarrow> dispatch \<Rightarrow> (fleet_item list \<times> dispatch) res" where
  "dispatch_items E now op access [] ds = Inr ([], ds)"
| "dispatch_items E now op access (i # is) ds =
     bindE (dispatch_item E now op access i ds) (\<lambda>(i, ds, stop).
       if stop then Inr (i # is, ds)
       else bindE (dispatch_items E now op access is ds) (\<lambda>(is, ds). Inr (i # is, ds)))"

subsection \<open>The whole step\<close>

definition closing_status :: "fleet_item list \<Rightarrow> string \<Rightarrow> string" where
  "closing_status items status =
     (if list_ex (\<lambda>i. fi_status i = ''pending'' \<or> started_status (fi_status i)) items then status
      else if status = ''cancelling'' then ''cancelled''
      else if list_ex (\<lambda>i. fi_status i = ''failed'') items then ''failed'' else ''completed'')"

text \<open>
  The first half: overdue commands expire, a closed window fails what has not started, items take
  over the outcome of their commands, and the operation pauses after a failure or its canary.
\<close>

definition refresh_operation :: "env \<Rightarrow> time \<Rightarrow> operation \<Rightarrow> store \<Rightarrow> operation \<times> store" where
  "refresh_operation E now = (\<lambda>(op, items) st.
     let opID = fo_id op;
         st = expire_operation_commands E now opID st;
         closed = \<not> fo_deadline_at op > now;
         st = (if closed then upd_items opID close_window st else st);
         items = (if closed then map close_window items else items);
         newFailure = list_ex (new_failure now op st) items;
         refresh = refresh_item now op st;
         items' = map refresh items
     in ((finish_canary items' (pause_on_failure newFailure op), items'), upd_items opID refresh st))"

definition advanceFleetOperation :: "env \<Rightarrow> time \<Rightarrow> string \<Rightarrow> store \<Rightarrow> store res" where
  "advanceFleetOperation E now opID st =
     bindE (loadFleetOperation opID st) (\<lambda>(op, items).
       if \<not> active_operation (fo_status op) then Inr st
       else
         let access = fleetPrincipal st (fo_user_id op);
             ((op, items), st) = refresh_operation E now (op, items) st;
             ds = \<lparr>ds_active = int (count_where (\<lambda>i. started_status (fi_status i)) items), ds_status = fo_status op,
                   ds_store = st\<rparr>
         in bindE (if fo_status op = ''running'' then dispatch_items E now op access items ds else Inr (items, ds))
              (\<lambda>(items, ds).
                 Inr (upd_operation opID
                        (\<lambda>x. x\<lparr>fo_status := closing_status items (ds_status ds),
                               fo_canary_pending := fo_canary_pending op, fo_updated_at := now\<rparr>) (ds_store ds))))"

definition AdvanceFleetOperations :: "env \<Rightarrow> time \<Rightarrow> store \<Rightarrow> err option \<times> store" where
  "AdvanceFleetOperations E now st =
     (let ids = map fo_id (take 100 (order_by (\<lambda>x y. text_le (fo_updated_at x) (fo_updated_at y))
                  (filter (\<lambda>o'. active_operation (fo_status o')) (fleet_operations st))))
      in fold (\<lambda>i (e, st). case e of
                 Some _ \<Rightarrow> (e, st)
               | None \<Rightarrow> (case advanceFleetOperation E now i st of Inl e \<Rightarrow> (Some e, st) | Inr st \<Rightarrow> (None, st)))
           ids (None, st))"

section \<open>Lemmas\<close>

lemma order_by_sorted: "sorted_wrt le xs \<Longrightarrow> order_by le xs = xs"
proof (induction xs)
  case Nil
  then show ?case by simp
next
  case (Cons x xs)
  then show ?case by (cases xs) auto
qed

lemma mapE_Inr: "mapE f xs = Inr ys \<Longrightarrow> list_all2 (\<lambda>x y. f x = Inr y) xs ys"
  by (induction xs arbitrary: ys) (auto simp: res_simps)

text \<open>The tables that decide about access, and the signing key.\<close>

definition access_tables :: "store \<Rightarrow> string \<times> user list \<times> device list \<times> permission_row list \<times> fleet_asset list" where
  "access_tables st = (signing_key st, users st, devices st, management_permissions st, fleet_assets st)"

lemma access_tables_cong:
  assumes "access_tables st' = access_tables st"
  shows "fleetPrincipal st' = fleetPrincipal st" and "permissionAllowed st' = permissionAllowed st"
    and "fleetDeviceAccess st' = fleetDeviceAccess st" and "CheckPermission st' = CheckPermission st"
    and "signing_key st' = signing_key st" and "devices st' = devices st"
proof -
  have t: "users st' = users st" "devices st' = devices st" "management_permissions st' = management_permissions st"
    "fleet_assets st' = fleet_assets st" "signing_key st' = signing_key st" using assms by (auto simp: access_tables_def)
  note a = access_cong [OF t(1-4)]
  show "fleetPrincipal st' = fleetPrincipal st" "permissionAllowed st' = permissionAllowed st"
    "fleetDeviceAccess st' = fleetDeviceAccess st" "signing_key st' = signing_key st" "devices st' = devices st"
    by (fact a t)+
  show "CheckPermission st' = CheckPermission st" by (intro ext) (simp add: CheckPermission_def a)
qed

lemma insert_item_fold:
  assumes "foldE (insert_item opID args dargs) ids st = Inr st'"
  shows "st' = st\<lparr>fleet_operation_items := fleet_operation_items st @
      map (\<lambda>d. \<lparr>fi_operation_id = opID, fi_device_id = d, fi_command_id = [], fi_args_json = item_args args dargs d,
             fi_status = ''pending'', fi_error = []\<rparr>) ids\<rparr>"
  using assms
proof (induction ids arbitrary: st)
  case Nil
  then show ?case by simp
next
  case (Cons d ids)
  then obtain st1 where "insert_item opID args dargs d st = Inr st1" "foldE (insert_item opID args dargs) ids st1 = Inr st'"
    by (auto simp: res_simps)
  with Cons.IH [OF this(2)] show ?case by (auto simp: insert_item_def Let_def res_simps split: if_splits)
qed

lemma sort_compact_sorted: "sorted_wrt (<) (sort_compact ids)"
  by (simp add: sort_compact_def strict_remdups_adj)

lemma set_sort_compact [simp]: "set (sort_compact ids) = set ids"
  by (simp add: sort_compact_def)

text \<open>Every item refers to an operation.\<close>

definition items_ok :: "store \<Rightarrow> bool" where
  "items_ok st \<longleftrightarrow>
     distinct (map (\<lambda>i. (fi_operation_id i, fi_device_id i)) (fleet_operation_items st)) \<and>
     fi_operation_id ` set (fleet_operation_items st) \<subseteq> fo_id ` set (fleet_operations st)"

lemma insert_operation_Inr:
  assumes "insert_operation E now u i (sort_compact ds) args dargs h st = Inr ((o', items), st')" and "items_ok st"
  shows "fo_user_id o' = u \<and> fo_request_key o' = oi_RequestKey i \<and> fo_request_hash o' = h \<and> fo_title o' = oi_Title i \<and>
    fo_command_type o' = oi_Type i \<and> fo_args_json o' = args \<and> fo_parallelism o' = oi_Parallelism i \<and>
    fo_stop_on_failure o' = oi_StopOnFailure i \<and> fo_status o' = ''running'' \<and> fo_canary_pending o' = oi_Canary i \<and>
    operation_deadline now (oi_DeadlineAt i) = Inr (fo_deadline_at o') \<and>
    fo_id o' \<notin> fo_id ` set (fleet_operations st) \<and>
    loadFleetOperation (fo_id o') st' = Inr (o', items) \<and>
    map fi_device_id items = sort_compact ds \<and> (\<forall>x \<in> set items. fi_operation_id x = fo_id o' \<and> fi_status x = ''pending'') \<and>
    st' = st\<lparr>draws := draws st + 1, fleet_operations := fleet_operations st @ [o'],
      fleet_operation_items := fleet_operation_items st @ items\<rparr>"
proof -
  let ?ids = "sort_compact ds"
  define opID where "opID = fst (randomID E ''operation'' st)"
  define new where "new d = \<lparr>fi_operation_id = opID, fi_device_id = d, fi_command_id = [],
      fi_args_json = item_args args dargs d, fi_status = ''pending'', fi_error = []\<rparr>" for d
  from assms(1) obtain deadline ops st1 where d: "operation_deadline now (oi_DeadlineAt i) = Inr deadline"
    and ops: "insert_row fo_id \<lparr>fo_id = opID, fo_user_id = u, fo_request_key = oi_RequestKey i, fo_request_hash = h,
                  fo_title = oi_Title i, fo_command_type = oi_Type i, fo_args_json = args,
                  fo_parallelism = oi_Parallelism i, fo_stop_on_failure = oi_StopOnFailure i,
                  fo_canary_pending = oi_Canary i, fo_deadline_at = deadline, fo_status = ''running'',
                  fo_created_at = now, fo_updated_at = now\<rparr> (fleet_operations st) = Inr ops"
    and f: "foldE (insert_item opID args dargs) ?ids (st\<lparr>draws := draws st + 1, fleet_operations := ops\<rparr>) = Inr st'"
    and l: "loadFleetOperation opID st' = Inr (o', items)"
    by (auto simp: insert_operation_def randomID_def Let_def opID_def bindE_eq_Inr split: if_splits)
  let ?row = "\<lparr>fo_id = opID, fo_user_id = u, fo_request_key = oi_RequestKey i, fo_request_hash = h,
                  fo_title = oi_Title i, fo_command_type = oi_Type i, fo_args_json = args,
                  fo_parallelism = oi_Parallelism i, fo_stop_on_failure = oi_StopOnFailure i,
                  fo_canary_pending = oi_Canary i, fo_deadline_at = deadline, fo_status = ''running'',
                  fo_created_at = now, fo_updated_at = now\<rparr>"
  from ops have new_op: "opID \<notin> fo_id ` set (fleet_operations st)" "ops = fleet_operations st @ [?row]"
    by (auto simp: insert_row_eq)
  have st': "st' = st\<lparr>draws := draws st + 1, fleet_operations := ops, fleet_operation_items := fleet_operation_items st @ map new ?ids\<rparr>"
    using insert_item_fold [OF f] by (simp add: new_def [abs_def])
  have "find_row (\<lambda>x. fo_id x = opID) (fleet_operations st) = None" using new_op(1) by (auto simp: find_row_None)
  then have o': "o' = ?row" using l by (simp add: loadFleetOperation_def st' new_op(2) find_row_append)
  have "fi_operation_id x \<noteq> opID" if "x \<in> set (fleet_operation_items st)" for x
    using assms(2) new_op(1) that by (auto simp: items_ok_def)
  then have "filter (\<lambda>x. fi_operation_id x = opID) (fleet_operation_items st') = map new ?ids"
    by (simp add: st' filter_empty_conv filter_id_conv new_def)
  moreover have "order_by (\<lambda>x y. fi_device_id x \<le> fi_device_id y) (map new ?ids) = map new ?ids"
  proof (rule order_by_sorted)
    have "sorted_wrt (\<le>) ?ids" by (rule sorted_wrt_mono_rel [OF _ sort_compact_sorted]) simp
    then show "sorted_wrt (\<lambda>x y. fi_device_id x \<le> fi_device_id y) (map new ?ids)"
      by (simp add: sorted_wrt_map new_def)
  qed
  ultimately have items: "items = map new ?ids"
    using l by (auto simp: loadFleetOperation_def split: option.splits)
  have i: "fo_id o' = opID" "map fi_device_id items = ?ids"
    "\<forall>x \<in> set items. fi_operation_id x = opID \<and> fi_status x = ''pending''"
    by (simp_all add: o' items new_def comp_def)
  have "st' = st\<lparr>draws := draws st + 1, fleet_operations := fleet_operations st @ [o'],
      fleet_operation_items := fleet_operation_items st @ items\<rparr>"
    unfolding o' items st' new_op(2) by (rule refl)
  with i l new_op(1) show ?thesis using d unfolding i(1) by (simp add: o')
qed

section \<open>Retries\<close>

lemma create_again:
  assumes "CreateFleetOperation E now userID i st = Inr ((o', items), st')" and "items_ok st"
  shows "CreateFleetOperation E later userID i st' =
    (if oi_DeadlineAt i = [] \<or> RFC3339Nano (fo_deadline_at o') = oi_DeadlineAt i then Inr ((o', items), st')
     else Inl ErrFleetConflict)"
proof -
  let ?ids = "sort_compact (oi_DeviceIDs i)" and ?args = "NormalizeRawJSON (oi_Args i)"
  let ?key = "\<lambda>x. fo_user_id x = userID \<and> fo_request_key x = oi_RequestKey i"
  from assms(1) obtain dargs payload admin where c: "operation_limits i = Inr ()" "json_Valid ?args"
    "resolve_device_args i ?ids ?args = Inr dargs"
    "operation_payload i (map (\<lambda>d. (d, item_args ?args dargs d)) ?ids) = Inr payload"
    "\<not> (oi_ScheduleRunID i \<noteq> [] \<and> \<not> schedule_run_valid (oi_ScheduleRunID i) userID st)"
    "fleetPrincipal st userID = Inr admin" "checkE (authorize_target st userID (oi_Type i) admin) ?ids = Inr ()"
    and r: "(case find_row ?key (fleet_operations st) of
        Some row \<Rightarrow> bindE (repeated_operation i ?ids ?args (TokenHash E payload) row st) (\<lambda>op. Inr (op, st))
      | None \<Rightarrow> insert_operation E now userID i ?ids ?args dargs (TokenHash E payload) st) = Inr ((o', items), st')"
    unfolding CreateFleetOperation_def by (auto simp: bindE_eq_Inr Let_def split: if_splits)
  show ?thesis
  proof (cases "find_row ?key (fleet_operations st)")
    case (Some row)
    with r have "st' = st" and rep: "repeated_operation i ?ids ?args (TokenHash E payload) row st = Inr (o', items)"
      by (auto simp: bindE_eq_Inr)
    moreover from rep have "oi_DeadlineAt i = [] \<or> RFC3339Nano (fo_deadline_at o') = oi_DeadlineAt i"
      by (auto simp: repeated_operation_def bindE_eq_Inr split: if_splits)
    ultimately show ?thesis using c Some by (simp add: CreateFleetOperation_def Let_def)
  next
    case None
    with r have ins: "insert_operation E now userID i ?ids ?args dargs (TokenHash E payload) st = Inr ((o', items), st')"
      by simp
    note n = insert_operation_Inr [OF ins assms(2)]
    then have st': "st' = st\<lparr>draws := draws st + 1, fleet_operations := fleet_operations st @ [o'],
      fleet_operation_items := fleet_operation_items st @ items\<rparr>" by blast
    have a: "access_tables st' = access_tables st" by (simp add: st' access_tables_def)
    have "authorize_target st' = authorize_target st"
      by (intro ext) (simp add: authorize_target_def feature_available_def access_tables_cong [OF a])
    moreover have "schedule_run_valid (oi_ScheduleRunID i) userID st' = schedule_run_valid (oi_ScheduleRunID i) userID st"
      by (simp add: schedule_run_valid_def st')
    moreover have "find_row ?key (fleet_operations st') = Some o'"
      using None n by (simp add: st' find_row_append)
    moreover have "repeated_operation i ?ids ?args (TokenHash E payload) o' st' =
        (if oi_DeadlineAt i = [] \<or> RFC3339Nano (fo_deadline_at o') = oi_DeadlineAt i then Inr (o', items) else Inl ErrFleetConflict)"
    proof -
      have "loadFleetOperation (fo_id o') st' = Inr (o', items)" "map fi_device_id items = ?ids"
        "fo_request_hash o' = TokenHash E payload" "fo_title o' = oi_Title i" "fo_command_type o' = oi_Type i"
        "fo_args_json o' = ?args" "fo_parallelism o' = oi_Parallelism i" "fo_stop_on_failure o' = oi_StopOnFailure i"
        using n by blast+
      then show ?thesis by (simp add: repeated_operation_def)
    qed
    ultimately show ?thesis using c by (auto simp: CreateFleetOperation_def Let_def access_tables_cong [OF a])
  qed
qed

text \<open>
  C18. Retrying a request is safe: once an operation is created, the same request from the same
  user, at any later time, stores nothing and returns that operation, unless its deadline was
  written in another form than the server writes it, which is then reported as a conflict.
\<close>

theorem CreateFleetOperation_retry:
  assumes "CreateFleetOperation E now userID i st = Inr ((o', items), st')" and "items_ok st"
  shows "CreateFleetOperation E later userID i st' =
    (if oi_DeadlineAt i = [] \<or> RFC3339Nano (fo_deadline_at o') = oi_DeadlineAt i then Inr ((o', items), st')
     else Inl ErrFleetConflict)"
  by (rule create_again [OF assms])

definition sample_input :: "string \<Rightarrow> FleetOperationInput" where
  "sample_input deadline =
     \<lparr>oi_DeviceArgs = [], oi_Canary = False, oi_ScheduleRunID = [], oi_RequestKey = ''request-1'', oi_Title = ''Ping'',
      oi_DeviceIDs = [''dev''], oi_Type = ''ping'', oi_Args = ''{}'', oi_Parallelism = 1, oi_DeadlineAt = deadline,
      oi_StopOnFailure = True\<rparr>"

lemma sample_input_created:
  assumes "operation_deadline now d = Inr t"
  shows "\<exists>o' items st'. CreateFleetOperation sample_env now ''op'' (sample_input d) sample_store = Inr ((o', items), st') \<and>
    fo_deadline_at o' = t"
proof -
  have s: "operation_limits (sample_input d) = Inr ()" "sort_compact [''dev''] = [''dev'']"
    "json_Valid ''{}''" "authorize_target sample_store ''op'' ''ping'' False ''dev'' = Inr ()"
    "fleetPrincipal sample_store ''op'' = Inr False"
    subgoal by (simp add: operation_limits_def sample_input_def fleetArgsLimit_def FleetCommandAllowed_def sample_texts)
    by code_simp+
  then show ?thesis using assms
    by (simp add: CreateFleetOperation_def Let_def sample_input_def sample_texts resolve_device_args_def operation_payload_def
        item_args_def insert_operation_def randomID_def loadFleetOperation_def insert_item_def insert_row_def has_row_def
        sample_store_def empty_store_def)
qed

theorem CreateFleetOperation_retry_witness:
  "\<exists>o' items st'. CreateFleetOperation sample_env (1700000000 * second) ''op'' (sample_input []) sample_store = Inr ((o', items), st') \<and>
     CreateFleetOperation sample_env (1700000100 * second) ''op'' (sample_input []) st' = Inr ((o', items), st')"
proof -
  obtain o' items st' where c: "CreateFleetOperation sample_env (1700000000 * second) ''op'' (sample_input []) sample_store = Inr ((o', items), st')"
    using sample_input_created [of "1700000000 * second" "[]"] by (auto simp: operation_deadline_def)
  have "items_ok sample_store" by (simp add: items_ok_def sample_store_def empty_store_def)
  from CreateFleetOperation_retry [OF c this, of "1700000100 * second"] c show ?thesis
    by (auto simp: sample_input_def)
qed

section \<open>Parallelism\<close>

definition running_items :: "string \<Rightarrow> store \<Rightarrow> nat" where
  "running_items opID st =
     count_where (\<lambda>i. fi_operation_id i = opID \<and> started_status (fi_status i)) (fleet_operation_items st)"

lemma insert_backup_Inr:
  assumes "(if b then insert_backup E d c st else Inr st) = Inr st'"
  shows "\<exists>k bs. st' = st\<lparr>draws := k, device_backups := bs\<rparr>"
proof (cases b)
  case True
  with assms show ?thesis by (auto simp: insert_backup_def randomID_def res_simps)
next
  case False
  with assms show ?thesis by (intro exI [of _ "draws st"] exI [of _ "device_backups st"]) simp
qed

lemma start_item_Inr:
  assumes "start_item E now op i st = Inr (i', st')"
  shows "\<exists>c. newCommand E now (fi_device_id i) (fo_command_type op) (fi_args_json i) (fo_deadline_at op - now) st
        = Inr (c, st\<lparr>draws := draws st + 2\<rparr>) \<and>
    i' = i\<lparr>fi_status := ''queued'', fi_command_id := c_id c\<rparr> \<and>
    c_id c \<notin> c_id ` set (commands st) \<and> commands st' = commands st @ [c\<lparr>c_max_attempts := 3\<rparr>] \<and>
    fleet_operation_items st' = fleet_operation_items (set_item i' st) \<and>
    fleet_operations st' = fleet_operations st \<and> access_tables st' = access_tables st \<and>
    remote_sessions st' = remote_sessions st"
proof -
  from assms obtain c st1 st2 st3 where
    n: "newCommand E now (fi_device_id i) (fo_command_type op) (fi_args_json i) (fo_deadline_at op - now) st = Inr (c, st1)"
    and c: "insert_command 3 c st1 = Inr st2"
    and b: "(if fo_command_type op = ''system_backup_create'' then insert_backup E (fi_device_id i) c st2 else Inr st2) = Inr st3"
    and i: "i' = i\<lparr>fi_status := ''queued'', fi_command_id := c_id c\<rparr>"
    and a: "add_audit (start_audit now op c) (set_item i' st3) = Inr st'"
    unfolding start_item_def by (auto simp: bindE_eq_Inr Let_def)
  have st1: "st1 = st\<lparr>draws := draws st + 2\<rparr>" using newCommand_Inr [OF n] by blast
  from insert_backup_Inr [OF b] obtain bs k where "st3 = st2\<lparr>draws := k, device_backups := bs\<rparr>" by blast
  moreover from a obtain as where "st' = (set_item i' st3)\<lparr>audit_events := as\<rparr>" by (auto simp: add_audit_def res_simps)
  ultimately show ?thesis using n c i st1
    by (auto simp: insert_command_Inr access_tables_def set_item_def)
qed

text \<open>What a step of the loop may do.\<close>

lemma dispatch_item_cases:
  assumes "dispatch_item E now op access i ds = Inr (i', ds', stop)"
  obtains (same) "i' = i" "ds' = ds"
  | (settled) "fi_status i = ''pending''" "fi_status i' = ''failed'' \<or> fi_status i' = ''completed''"
      "fi_operation_id i' = fi_operation_id i" "fi_device_id i' = fi_device_id i"
      "ds_active ds' = ds_active ds" "ds_store ds' = set_item i' (ds_store ds)"
  | (started) "fi_status i = ''pending''" "ds_active ds < effective_parallelism op"
      "target_access op access (fi_device_id i) (ds_store ds) = Inr ()"
      "start_item E now op i (ds_store ds) = Inr (i', ds_store ds')" "ds_active ds' = ds_active ds + 1"
proof -
  consider "fi_status i \<noteq> ''pending'' \<or> ds_active ds \<ge> effective_parallelism op"
    | "fi_status i = ''pending''" "ds_active ds < effective_parallelism op" by linarith
  then show thesis
  proof cases
    case 1
    with assms show thesis by (auto simp: dispatch_item_def intro: same)
  next
    case 2
    then have n: "\<not> (fi_status i \<noteq> ''pending'' \<or> ds_active ds \<ge> effective_parallelism op)" by auto
    note d = assms [unfolded dispatch_item_def if_not_P [OF n]]
    show thesis
    proof (cases "target_access op access (fi_device_id i) (ds_store ds)")
      case (Inl e)
      with d 2 show thesis
        by (intro settled) (auto simp: fail_item_def Let_def set_item_def split: if_splits)
    next
      case (Inr u)
      with d obtain check where c: "update_check op i (ds_store ds) = Inr check" by (auto simp: bindE_eq_Inr)
      show thesis
      proof (cases "check = Some False")
        case False
        with d Inr c 2 show thesis
          by (intro settled) (auto simp: fail_item_def Let_def split: option.splits if_splits)
      next
        case True
        with d Inr c have "(if fo_command_type op = ''system_backup_create'' \<and> backup_running (fi_device_id i) (ds_store ds)
              then Inr (i, ds, False)
              else bindE (start_item E now op i (ds_store ds)) (\<lambda>(i, st).
                     Inr (i, ds\<lparr>ds_active := ds_active ds + 1, ds_store := st\<rparr>, False))) = Inr (i', ds', stop)"
          by simp
        with same started 2 Inr show thesis by (auto simp: bindE_eq_Inr split: if_splits)
      qed
    qed
  qed
qed

lemma dispatch_items_invariant:
  assumes "dispatch_items E now op access is ds = Inr (is', ds')" and "P ds"
    and "\<And>i u i' v stop. i \<in> set is \<Longrightarrow> P u \<Longrightarrow> dispatch_item E now op access i u = Inr (i', v, stop) \<Longrightarrow> P v"
  shows "P ds'"
  using assms
proof (induction "is" arbitrary: ds is')
  case Nil
  then show ?case by simp
next
  case (Cons i rest)
  from Cons.prems(1) obtain i' v stop where s: "dispatch_item E now op access i ds = Inr (i', v, stop)"
    and r: "(if stop then Inr (i' # rest, v) else bindE (dispatch_items E now op access rest v) (\<lambda>(is, ds). Inr (i' # is, ds)))
       = Inr (is', ds')"
    by (auto simp: bindE_eq_Inr)
  have v: "P v" using Cons.prems(3) [OF _ Cons.prems(2) s] by simp
  show ?case
  proof (cases stop)
    case True
    with r v show ?thesis by simp
  next
    case False
    with r obtain is'' where "dispatch_items E now op access rest v = Inr (is'', ds')" by (auto simp: bindE_eq_Inr)
    with v show ?thesis using Cons.IH Cons.prems(3) by (meson list.set_intros(2))
  qed
qed

abbreviation item_key :: "fleet_item \<Rightarrow> string \<times> string" where
  "item_key i \<equiv> (fi_operation_id i, fi_device_id i)"

interpretation item_table: keyed_table item_key .

lemma set_item_keys: "map item_key (fleet_operation_items (set_item i st)) = map item_key (fleet_operation_items st)"
  by (auto simp: set_item_def intro!: map_upd_where)

lemma count_upd_key:
  assumes "distinct (map key xs)"
  shows "count_where p (upd_where (\<lambda>x. key x = k) f xs) \<le> Suc (count_where p xs)"
  using assms
proof (induction xs)
  case Nil
  then show ?case by simp
next
  case (Cons x xs)
  show ?case
  proof (cases "key x = k")
    case True
    with Cons.prems have "upd_where (\<lambda>x. key x = k) f xs = xs" by (intro upd_where_none) (auto simp: image_iff)
    with True show ?thesis by simp
  next
    case False
    with Cons show ?thesis by simp
  qed
qed

lemma count_upd_mono:
  "(\<And>x. x \<in> set xs \<Longrightarrow> q x \<Longrightarrow> p (f x) \<Longrightarrow> p x) \<Longrightarrow> count_where p (upd_where q f xs) \<le> count_where p xs"
  by (induction xs) (auto simp: le_SucI)

lemma set_item_running:
  assumes "distinct (map item_key (fleet_operation_items st))"
  shows "running_items opID (set_item i st) \<le> Suc (running_items opID st)"
    and "\<not> started_status (fi_status i) \<Longrightarrow> running_items opID (set_item i st) \<le> running_items opID st"
proof -
  show "running_items opID (set_item i st) \<le> Suc (running_items opID st)"
    using count_upd_key [OF assms, of _ "item_key i"] by (simp add: running_items_def set_item_def)
  assume "\<not> started_status (fi_status i)"
  then show "running_items opID (set_item i st) \<le> running_items opID st"
    unfolding running_items_def set_item_def by (auto intro!: count_upd_mono)
qed

lemma dispatch_running:
  assumes "dispatch_items E now op access is ds = Inr (is', ds')"
    and "distinct (map item_key (fleet_operation_items (ds_store ds)))"
    and "int (running_items opID (ds_store ds)) \<le> ds_active ds"
  shows "int (running_items opID (ds_store ds')) \<le> max (ds_active ds) (effective_parallelism op)"
proof -
  let ?P = "\<lambda>v. distinct (map item_key (fleet_operation_items (ds_store v))) \<and>
      int (running_items opID (ds_store v)) \<le> ds_active v \<and> ds_active v \<le> max (ds_active ds) (effective_parallelism op)"
  have "?P ds'"
  proof (rule dispatch_items_invariant [OF assms(1), of ?P])
    show "?P ds" using assms(2,3) by simp
    fix i u i' v stop
    assume u: "?P u" and d: "dispatch_item E now op access i u = Inr (i', v, stop)"
    from d show "?P v"
    proof (cases rule: dispatch_item_cases)
      case same
      with u show ?thesis by simp
    next
      case settled
      then have "\<not> started_status (fi_status i')" by (auto simp: started_status_def)
      with settled u set_item_running(2) [of "ds_store u" i' opID] show ?thesis by (auto simp: set_item_keys)
    next
      case started
      from start_item_Inr [OF started(4)]
      have f: "fleet_operation_items (ds_store v) = fleet_operation_items (set_item i' (ds_store u))" by blast
      then have "running_items opID (ds_store v) = running_items opID (set_item i' (ds_store u))"
        by (simp add: running_items_def)
      with started u set_item_running(1) [of "ds_store u" opID i'] show ?thesis by (auto simp: f set_item_keys)
    qed
  qed
  then show ?thesis by linarith
qed

subsection \<open>The refresh\<close>

lemma count_where_mset: "count_where p xs = size (filter_mset p (mset xs))"
  by (simp add: count_where_def flip: mset_filter)

lemma count_where_order_by [simp]: "count_where p (order_by le xs) = count_where p xs"
  by (simp add: count_where_mset)

lemma count_where_map: "count_where p (map f xs) = count_where (\<lambda>x. p (f x)) xs"
  by (simp add: count_where_def filter_map comp_def)

lemma count_upd_filter:
  "(\<And>x. q (f x) = q x) \<Longrightarrow>
   count_where (\<lambda>x. q x \<and> p x) (upd_where q f xs) = count_where p (map f (filter q xs))"
  by (induction xs) auto

lemma refresh_keys:
  "fi_operation_id (close_window i) = fi_operation_id i" "fi_device_id (close_window i) = fi_device_id i"
  "fi_operation_id (refresh_item now op st i) = fi_operation_id i"
  "fi_device_id (refresh_item now op st i) = fi_device_id i"
  by (simp_all add: close_window_def refresh_item_def Let_def)

lemma refresh_op_fields:
  "fo_id (finish_canary is (pause_on_failure b op)) = fo_id op"
  "fo_user_id (finish_canary is (pause_on_failure b op)) = fo_user_id op"
  "fo_command_type (finish_canary is (pause_on_failure b op)) = fo_command_type op"
  "fo_deadline_at (finish_canary is (pause_on_failure b op)) = fo_deadline_at op"
  "fo_parallelism (finish_canary is (pause_on_failure b op)) = fo_parallelism op"
  "fo_stop_on_failure (finish_canary is (pause_on_failure b op)) = fo_stop_on_failure op"
  by (simp_all add: finish_canary_def pause_on_failure_def)

lemma load_Inr:
  assumes "loadFleetOperation opID st = Inr (op, items)"
  shows "op \<in> set (fleet_operations st)" and "fo_id op = opID"
    and "items = order_by (\<lambda>x y. fi_device_id x \<le> fi_device_id y)
      (filter (\<lambda>i. fi_operation_id i = opID) (fleet_operation_items st))"
  using assms by (auto simp: loadFleetOperation_def split: option.splits dest: find_row_Some)

lemma expire_operation_commands_fields [simp]:
  "fleet_operation_items (expire_operation_commands E now opID st) = fleet_operation_items st"
  "fleet_operations (expire_operation_commands E now opID st) = fleet_operations st"
  "access_tables (expire_operation_commands E now opID st) = access_tables st"
  "remote_sessions (expire_operation_commands E now opID st) = remote_sessions st"
  by (simp_all add: expire_operation_commands_def access_tables_def)

lemma upd_items_fields [simp]:
  "fleet_operations (upd_items opID f st) = fleet_operations st"
  "access_tables (upd_items opID f st) = access_tables st"
  "commands (upd_items opID f st) = commands st"
  "remote_sessions (upd_items opID f st) = remote_sessions st"
  "fleet_operation_items (upd_items opID f st) =
     upd_where (\<lambda>i. fi_operation_id i = opID) f (fleet_operation_items st)"
  by (simp_all add: upd_items_def access_tables_def)

text \<open>The whole refresh as one function of an item.\<close>

definition refreshed :: "env \<Rightarrow> time \<Rightarrow> fleet_operation \<Rightarrow> store \<Rightarrow> fleet_item \<Rightarrow> fleet_item" where
  "refreshed E now op st i =
     refresh_item now op (expire_operation_commands E now (fo_id op) st)
       (if fo_deadline_at op > now then i else close_window i)"

lemma observed_status_cong: "commands st' = commands st \<Longrightarrow> observed_status now op c st' = observed_status now op c st"
  by (simp add: observed_status_def)

lemma refresh_item_cong: "commands st' = commands st \<Longrightarrow> refresh_item now op st' = refresh_item now op st"
  by (intro ext) (simp only: refresh_item_def observed_status_cong [of st' st])

lemma refresh_operation_eq:
  assumes "refresh_operation E now (op, items) st = ((op', items'), st')"
  shows "items' = map (refreshed E now op st) items"
    and "\<exists>b. op' = finish_canary items' (pause_on_failure b op)"
    and "commands st' = commands (expire_operation_commands E now (fo_id op) st)"
    and "fleet_operation_items st' =
      upd_where (\<lambda>i. fi_operation_id i = fo_id op) (refreshed E now op st) (fleet_operation_items st)"
    and "access_tables st' = access_tables st" and "fleet_operations st' = fleet_operations st"
    and "remote_sessions st' = remote_sessions st"
proof -
  let ?e = "expire_operation_commands E now (fo_id op) st"
  have r: "refresh_item now op (upd_items (fo_id op) f ?e) = refresh_item now op ?e" for f
    by (rule refresh_item_cong) simp
  show "items' = map (refreshed E now op st) items" "\<exists>b. op' = finish_canary items' (pause_on_failure b op)"
    "commands st' = commands ?e" "access_tables st' = access_tables st" "fleet_operations st' = fleet_operations st"
    "remote_sessions st' = remote_sessions st"
    using assms by (auto simp: refresh_operation_def Let_def refreshed_def [abs_def] r split: if_splits)
  have "upd_where (\<lambda>i. fi_operation_id i = k) g (upd_where (\<lambda>i. fi_operation_id i = k) close_window xs) =
      upd_where (\<lambda>i. fi_operation_id i = k) (\<lambda>i. g (close_window i)) xs" for k g xs
    by (induction xs) (auto simp: refresh_keys)
  with assms show "fleet_operation_items st' =
      upd_where (\<lambda>i. fi_operation_id i = fo_id op) (refreshed E now op st) (fleet_operation_items st)"
    by (auto simp: refresh_operation_def Let_def refreshed_def [abs_def] r split: if_splits)
qed

lemma refreshed_started: "started_status (fi_status (refreshed E now op st i)) \<Longrightarrow> started_status (fi_status i)"
proof -
  have "started_status (fi_status (refresh_item now op st' j)) \<Longrightarrow> started_status (fi_status j)" for st' j
    by (metis refresh_item_def)
  moreover have "started_status (fi_status (close_window i)) \<Longrightarrow> started_status (fi_status i)"
    by (cases "fi_status i = ''pending''") (simp_all add: close_window_def started_status_def)
  ultimately show "started_status (fi_status (refreshed E now op st i)) \<Longrightarrow> started_status (fi_status i)"
    unfolding refreshed_def by (metis (full_types))
qed

lemma refreshed_keys:
  "fi_operation_id (refreshed E now op st i) = fi_operation_id i"
  "fi_device_id (refreshed E now op st i) = fi_device_id i"
  by (simp_all add: refreshed_def refresh_keys)

text \<open>The parts of a step that did something.\<close>

lemma advance_Inr:
  assumes "advanceFleetOperation E now opID st = Inr st'" and "loadFleetOperation opID st = Inr (op, items)"
    and "active_operation (fo_status op)"
  obtains op1 items1 st1 items2 ds where
    "refresh_operation E now (op, items) st = ((op1, items1), st1)"
    "(if fo_status op1 = ''running'' then
        dispatch_items E now op1 (fleetPrincipal st (fo_user_id op)) items1
          \<lparr>ds_active = int (count_where (\<lambda>i. started_status (fi_status i)) items1), ds_status = fo_status op1, ds_store = st1\<rparr>
      else Inr (items1, \<lparr>ds_active = int (count_where (\<lambda>i. started_status (fi_status i)) items1),
                 ds_status = fo_status op1, ds_store = st1\<rparr>)) = Inr (items2, ds)"
    "st' = upd_operation opID (\<lambda>x. x\<lparr>fo_status := closing_status items2 (ds_status ds),
        fo_canary_pending := fo_canary_pending op1, fo_updated_at := now\<rparr>) (ds_store ds)"
proof -
  obtain op1 items1 st1 where r: "refresh_operation E now (op, items) st = ((op1, items1), st1)"
    by (metis prod.exhaust)
  from assms r obtain items2 ds where
    "(if fo_status op1 = ''running'' then
        dispatch_items E now op1 (fleetPrincipal st (fo_user_id op)) items1
          \<lparr>ds_active = int (count_where (\<lambda>i. started_status (fi_status i)) items1), ds_status = fo_status op1, ds_store = st1\<rparr>
      else Inr (items1, \<lparr>ds_active = int (count_where (\<lambda>i. started_status (fi_status i)) items1),
                 ds_status = fo_status op1, ds_store = st1\<rparr>)) = Inr (items2, ds)"
    "st' = upd_operation opID (\<lambda>x. x\<lparr>fo_status := closing_status items2 (ds_status ds),
        fo_canary_pending := fo_canary_pending op1, fo_updated_at := now\<rparr>) (ds_store ds)"
    by (auto simp: advanceFleetOperation_def Let_def bindE_eq_Inr)
  with r that show thesis by blast
qed

lemma refresh_running:
  assumes "refresh_operation E now (op, items) st = ((op1, items1), st1)"
    and "loadFleetOperation opID st = Inr (op, items)"
  shows "running_items opID st1 = count_where (\<lambda>i. started_status (fi_status i)) items1"
    and "count_where (\<lambda>i. started_status (fi_status i)) items1 \<le> running_items opID st"
proof -
  let ?f = "refreshed E now op st" and ?q = "\<lambda>i. fi_operation_id i = opID"
  note r = refresh_operation_eq [OF assms(1)] and l = load_Inr [OF assms(2)]
  have "running_items opID st1 = count_where (\<lambda>i. started_status (fi_status i)) (map ?f (filter ?q (fleet_operation_items st)))"
    unfolding running_items_def r(4) l(2) by (rule count_upd_filter) (simp add: refreshed_keys)
  also have "\<dots> = count_where (\<lambda>i. started_status (fi_status i)) items1"
    unfolding r(1) l(3) count_where_map by simp
  finally show eq: "running_items opID st1 = count_where (\<lambda>i. started_status (fi_status i)) items1" .
  have "running_items opID st1 \<le> running_items opID st"
    unfolding running_items_def r(4) l(2) by (rule count_upd_mono) (auto simp: refreshed_keys dest: refreshed_started)
  with eq show "count_where (\<lambda>i. started_status (fi_status i)) items1 \<le> running_items opID st" by simp
qed

lemma refresh_distinct:
  assumes "refresh_operation E now (op, items) st = ((op1, items1), st1)" and "items_ok st"
  shows "distinct (map item_key (fleet_operation_items st1))"
proof -
  have "map item_key (fleet_operation_items st1) = map item_key (fleet_operation_items st)"
    unfolding refresh_operation_eq(4) [OF assms(1)] by (rule map_upd_where) (simp add: refreshed_keys)
  with assms(2) show ?thesis by (simp add: items_ok_def)
qed

lemma running_upd_operation [simp]: "running_items opID (upd_operation i f st) = running_items opID st"
  by (simp add: running_items_def upd_operation_def)

text \<open>
  C19. An operation never runs on more devices at once than allowed: after a step the number of its
  started items is at most the parallelism (or what was already under way), and at most one while
  its canary is pending.
\<close>

theorem advance_parallelism:
  assumes "advanceFleetOperation E now opID st = Inr st'" and "items_ok st"
    and "loadFleetOperation opID st = Inr (op, items)" and "1 \<le> fo_parallelism op"
  shows "int (running_items opID st') \<le> max (int (running_items opID st)) (fo_parallelism op) \<and>
    (\<forall>o' \<in> set (fleet_operations st'). fo_id o' = opID \<and> fo_canary_pending o' \<longrightarrow>
       int (running_items opID st') \<le> max (int (running_items opID st)) 1)"
proof (cases "active_operation (fo_status op)")
  case False
  with assms(1,3) have "st' = st" by (simp add: advanceFleetOperation_def)
  then show ?thesis by simp
next
  case True
  obtain op1 items1 st1 items2 ds where
    r: "refresh_operation E now (op, items) st = ((op1, items1), st1)"
    and d: "(if fo_status op1 = ''running'' then
        dispatch_items E now op1 (fleetPrincipal st (fo_user_id op)) items1
          \<lparr>ds_active = int (count_where (\<lambda>i. started_status (fi_status i)) items1), ds_status = fo_status op1, ds_store = st1\<rparr>
      else Inr (items1, \<lparr>ds_active = int (count_where (\<lambda>i. started_status (fi_status i)) items1),
                 ds_status = fo_status op1, ds_store = st1\<rparr>)) = Inr (items2, ds)"
    and st': "st' = upd_operation opID (\<lambda>x. x\<lparr>fo_status := closing_status items2 (ds_status ds),
        fo_canary_pending := fo_canary_pending op1, fo_updated_at := now\<rparr>) (ds_store ds)"
    by (rule advance_Inr [OF assms(1,3) True])
  let ?n = "int (count_where (\<lambda>i. started_status (fi_status i)) items1)"
  note n = refresh_running [OF r assms(3)]
  have "int (running_items opID (ds_store ds)) \<le> max ?n (effective_parallelism op1)"
  proof (cases "fo_status op1 = ''running''")
    case True
    with d have "dispatch_items E now op1 (fleetPrincipal st (fo_user_id op)) items1
        \<lparr>ds_active = ?n, ds_status = fo_status op1, ds_store = st1\<rparr> = Inr (items2, ds)" by simp
    from dispatch_running [OF this] n refresh_distinct [OF r assms(2)] show ?thesis by simp
  next
    case False
    with d n show ?thesis by auto
  qed
  with n(2) have b: "int (running_items opID st') \<le> max (int (running_items opID st)) (effective_parallelism op1)"
    unfolding st' by auto
  obtain c where "op1 = finish_canary items1 (pause_on_failure c op)" using refresh_operation_eq(2) [OF r] by blast
  then have "fo_parallelism op1 = fo_parallelism op" by (simp add: refresh_op_fields)
  with assms(4) have "effective_parallelism op1 \<le> fo_parallelism op" by (simp add: effective_parallelism_def)
  moreover have "effective_parallelism op1 = 1" if "o' \<in> set (fleet_operations st')" "fo_id o' = opID" "fo_canary_pending o'" for o'
  proof -
    from that(1) obtain x where x: "o' = (if fo_id x = opID then x\<lparr>fo_status := closing_status items2 (ds_status ds),
        fo_canary_pending := fo_canary_pending op1, fo_updated_at := now\<rparr> else x)"
      by (auto simp: st' upd_operation_def upd_where_def simp del: if_image_distrib)
    with that(2,3) have "fo_canary_pending op1" by (cases "fo_id x = opID") auto
    then show ?thesis by (simp add: effective_parallelism_def)
  qed
  ultimately show ?thesis using b by auto
qed

definition sample_fleet :: store where
  "sample_fleet = sample_store
     \<lparr>fleet_operations := [\<lparr>fo_id = ''o1'', fo_user_id = ''op'', fo_request_key = ''request-1'', fo_request_hash = ''h'',
        fo_title = ''Ping'', fo_command_type = ''ping'', fo_args_json = ''{}'', fo_parallelism = 2, fo_stop_on_failure = True,
        fo_canary_pending = True, fo_deadline_at = 1700086400 * second, fo_status = ''running'', fo_created_at = 0, fo_updated_at = 0\<rparr>],
      fleet_operation_items := [\<lparr>fi_operation_id = ''o1'', fi_device_id = ''dev'', fi_command_id = [], fi_args_json = ''{}'',
        fi_status = ''pending'', fi_error = []\<rparr>]\<rparr>"

lemma sample_fleet_load:
  "loadFleetOperation ''o1'' sample_fleet = Inr (hd (fleet_operations sample_fleet), fleet_operation_items sample_fleet)"
  "items_ok sample_fleet" "active_operation (fo_status (hd (fleet_operations sample_fleet)))"
  by (simp_all add: loadFleetOperation_def sample_fleet_def items_ok_def active_operation_def)

lemma sample_fleet_refresh:
  "refresh_operation sample_env (1700000000 * second) (hd (fleet_operations sample_fleet), fleet_operation_items sample_fleet) sample_fleet =
   ((hd (fleet_operations sample_fleet), fleet_operation_items sample_fleet), sample_fleet)"
  by (simp add: refresh_operation_def Let_def expire_operation_commands_def sample_fleet_def sample_store_def empty_store_def
      refresh_item_def new_failure_def started_status_def upd_items_def pause_on_failure_def finish_canary_def)

lemma sample_fleet_advance:
  "\<exists>c st'. advanceFleetOperation sample_env (1700000000 * second) ''o1'' sample_fleet = Inr st' \<and> commands st' = [c]"
proof -
  obtain now where now: "now = 1700000000 * second" by blast
  let ?op = "hd (fleet_operations sample_fleet)"
  have s: "signing_key sample_fleet = sample_key" "commands sample_fleet = []" "audit_events sample_fleet = []"
    "fo_command_type ?op = ''ping''" "fo_deadline_at ?op - now = 24 * hour"
    "fo_status ?op = ''running''" "effective_parallelism ?op = 1" "fo_user_id ?op = ''op''"
    "has_row (\<lambda>d. d_id d = ''dev'') (devices sample_fleet)"
    by (simp_all add: now sample_fleet_def sample_store_def empty_store_def effective_parallelism_def has_row_def sample_device_def)
  obtain x where x: "fleet_operation_items sample_fleet = [x]" "fi_status x = ''pending''" "fi_device_id x = ''dev''"
    "fi_args_json x = ''{}''" by (simp add: sample_fleet_def)
  obtain c where c: "newCommand sample_env (now) ''dev'' ''ping'' ''{}'' (24 * hour) sample_fleet
      = Inr (c, sample_fleet\<lparr>draws := draws sample_fleet + 2\<rparr>)"
    using newCommand_sample [of sample_fleet "''ping''", folded now] s(1) by auto
  have cd: "c_device_id c = ''dev''" using newCommand_Inr [OF c] by blast
  have t: "fleetPrincipal sample_fleet ''op'' = Inr False"
    "fleetDeviceAccess sample_fleet ''op'' ''dev'' False = Inr ()"
    "permissionAllowed sample_fleet ''op'' ''dev'' (CommandPermission ''ping'') False = Inr ()" by code_simp+
  let ?st = "sample_fleet\<lparr>draws := draws sample_fleet + 2\<rparr>" and ?j = "x\<lparr>fi_status := ''queued'', fi_command_id := c_id c\<rparr>"
  have ic: "insert_command 3 c ?st = Inr (?st\<lparr>commands := [c\<lparr>c_max_attempts := 3\<rparr>]\<rparr>)"
    using s(9) by (simp add: insert_command_Inr cd s(2) has_row_iff)
  have aa: "audit_events st = [] \<Longrightarrow> add_audit e st = Inr (st\<lparr>audit_events := [e]\<rparr>)" for e st
    by (simp add: add_audit_def insert_row_def has_row_def)
  obtain st1 where i: "start_item sample_env (now) ?op x sample_fleet = Inr (?j, st1)"
    "commands st1 = [c\<lparr>c_max_attempts := 3\<rparr>]"
    unfolding start_item_def x s(4,5) c bindE.simps prod.case ic Let_def
    by (simp add: aa set_item_def s(3))
  have "dispatch_items sample_env (now) ?op (Inr False) [x]
      \<lparr>ds_active = 0, ds_status = ''running'', ds_store = sample_fleet\<rparr> =
    Inr ([?j], \<lparr>ds_active = 1, ds_status = ''running'', ds_store = st1\<rparr>)"
    by (simp add: dispatch_item_def x(2-4) s(4-8) target_access_def t update_check_def i)
  then show ?thesis unfolding now [symmetric]
    using sample_fleet_load [unfolded x(1)] sample_fleet_refresh [folded now, unfolded x(1)] t(1) i(2)
    unfolding advanceFleetOperation_def x(1)
    by (simp add: Let_def x(2-4) s(4-8) upd_operation_def started_status_def)
qed

theorem advance_parallelism_witness:
  "\<exists>st'. advanceFleetOperation sample_env (1700000000 * second) ''o1'' sample_fleet = Inr st' \<and> int (running_items ''o1'' st') \<le> 2"
proof -
  obtain st' where s: "advanceFleetOperation sample_env (1700000000 * second) ''o1'' sample_fleet = Inr st'"
    using sample_fleet_advance by blast
  have "1 \<le> fo_parallelism (hd (fleet_operations sample_fleet))" by (simp add: sample_fleet_def)
  from advance_parallelism [OF s sample_fleet_load(2,1) this] s
  show ?thesis by (auto simp: running_items_def sample_fleet_def started_status_def)
qed

section \<open>Commands of an operation\<close>

definition started_by :: "store \<Rightarrow> fleet_operation \<Rightarrow> command \<Rightarrow> bool" where
  "started_by st op c \<longleftrightarrow> c_type c = fo_command_type op \<and> c_status c = ''queued'' \<and>
     CheckPermission st (fo_user_id op) (c_device_id c) (CommandPermission (fo_command_type op)) = Inr () \<and>
     (\<exists>t. c_expires_at c = Some t \<and> t \<le> fo_deadline_at op)"

lemma set_item_fields [simp]:
  "access_tables (set_item i st) = access_tables st" "commands (set_item i st) = commands st"
  "fleet_operations (set_item i st) = fleet_operations st" "remote_sessions (set_item i st) = remote_sessions st"
  by (simp_all add: set_item_def access_tables_def)

lemma newCommand_deadline:
  assumes "newCommand E now d ty args (deadline - now) st = Inr (c, st')"
  shows "\<exists>t. c_expires_at c = Some t \<and> t \<le> deadline"
proof -
  let ?t = "Truncate (Truncate now microsecond + (deadline - now)) microsecond"
  have "?t \<le> Truncate now microsecond + (deadline - now)" by (rule Truncate_le) simp
  also have "\<dots> \<le> deadline" using Truncate_le [of microsecond now] by simp
  finally show ?thesis using newCommand_Inr [OF assms] by auto
qed

lemma start_item_started:
  assumes "start_item E now op i st = Inr (i', st')" and "target_access op (fleetPrincipal st (fo_user_id op)) (fi_device_id i) st = Inr ()"
  shows "\<exists>c. commands st' = commands st @ [c] \<and> started_by st op c \<and> c_id c \<notin> c_id ` set (commands st)"
    and "ed25519_ok E \<Longrightarrow> grows (command_ok E (ed_Public E (signing_key st))) (commands st) (commands st')"
proof -
  from start_item_Inr [OF assms(1)] obtain c where
    n: "newCommand E now (fi_device_id i) (fo_command_type op) (fi_args_json i) (fo_deadline_at op - now) st
        = Inr (c, st\<lparr>draws := draws st + 2\<rparr>)"
    and c: "commands st' = commands st @ [c\<lparr>c_max_attempts := 3\<rparr>]" "c_id c \<notin> c_id ` set (commands st)" by blast
  have p: "CheckPermission st (fo_user_id op) (fi_device_id i) (CommandPermission (fo_command_type op)) = Inr ()"
    using assms(2) by (auto simp: target_access_def CheckPermission_def bindE_eq_Inr)
  have "c_device_id c = fi_device_id i" "c_type c = fo_command_type op" "c_status c = ''queued''"
    using newCommand_Inr [OF n] by blast+
  with p newCommand_deadline [OF n] have "started_by st op (c\<lparr>c_max_attempts := 3\<rparr>)" by (simp add: started_by_def)
  with c show "\<exists>c. commands st' = commands st @ [c] \<and> started_by st op c \<and> c_id c \<notin> c_id ` set (commands st)" by auto
  assume "ed25519_ok E"
  from newCommand_ok [OF this n, of 3] c
  show "grows (command_ok E (ed_Public E (signing_key st))) (commands st) (commands st')"
    by (auto intro: grows_insert)
qed

lemma dispatch_commands:
  assumes "dispatch_items E now op (fleetPrincipal st (fo_user_id op)) is ds = Inr (is', ds')"
    and "access_tables (ds_store ds) = access_tables st"
  shows "access_tables (ds_store ds') = access_tables st"
    and "\<exists>cs. commands (ds_store ds') = commands (ds_store ds) @ cs \<and> (\<forall>c \<in> set cs. started_by st op c)"
    and "ed25519_ok E \<Longrightarrow>
      grows (command_ok E (ed_Public E (signing_key st))) (commands (ds_store ds)) (commands (ds_store ds'))"
    and "fleet_operations (ds_store ds') = fleet_operations (ds_store ds)"
    and "remote_sessions (ds_store ds') = remote_sessions (ds_store ds)"
proof -
  let ?P = "\<lambda>v. access_tables (ds_store v) = access_tables st \<and>
      (\<exists>cs. commands (ds_store v) = commands (ds_store ds) @ cs \<and> (\<forall>c \<in> set cs. started_by st op c)) \<and>
      (ed25519_ok E \<longrightarrow>
        grows (command_ok E (ed_Public E (signing_key st))) (commands (ds_store ds)) (commands (ds_store v))) \<and>
      fleet_operations (ds_store v) = fleet_operations (ds_store ds) \<and>
      remote_sessions (ds_store v) = remote_sessions (ds_store ds)"
  have "?P ds'"
  proof (rule dispatch_items_invariant [OF assms(1), of ?P])
    show "?P ds" using assms(2) by auto
    fix i u i' v stop
    assume u: "?P u" and d: "dispatch_item E now op (fleetPrincipal st (fo_user_id op)) i u = Inr (i', v, stop)"
    from d show "?P v"
    proof (cases rule: dispatch_item_cases)
      case same
      with u show ?thesis by simp
    next
      case settled
      with u show ?thesis by simp
    next
      case started
      have a: "access_tables (ds_store u) = access_tables st" using u by blast
      note f = access_tables_cong [OF a]
      have t: "target_access op (fleetPrincipal (ds_store u) (fo_user_id op)) (fi_device_id i) (ds_store u) = Inr ()"
        using started(3) by (simp add: f)
      note s = start_item_started [OF started(4) t]
      from start_item_Inr [OF started(4)] have fr: "access_tables (ds_store v) = access_tables (ds_store u)"
        "fleet_operations (ds_store v) = fleet_operations (ds_store u)"
        "remote_sessions (ds_store v) = remote_sessions (ds_store u)" by blast+
      from s(1) obtain c where c: "commands (ds_store v) = commands (ds_store u) @ [c]" "started_by st op c"
        by (auto simp: started_by_def f)
      from u obtain cs where cs: "commands (ds_store u) = commands (ds_store ds) @ cs" "\<forall>c \<in> set cs. started_by st op c" by blast
      have "grows (command_ok E (ed_Public E (signing_key st))) (commands (ds_store ds)) (commands (ds_store v))" if "ed25519_ok E"
        using that u s(2) cmd.grows_trans by (auto simp: f)
      moreover have "\<exists>cs. commands (ds_store v) = commands (ds_store ds) @ cs \<and> (\<forall>c \<in> set cs. started_by st op c)"
        using c cs by (intro exI [of _ "cs @ [c]"]) auto
      ultimately show ?thesis using fr u by simp
    qed
  qed
  then show "access_tables (ds_store ds') = access_tables st"
    and "\<exists>cs. commands (ds_store ds') = commands (ds_store ds) @ cs \<and> (\<forall>c \<in> set cs. started_by st op c)"
    and "ed25519_ok E \<Longrightarrow>
      grows (command_ok E (ed_Public E (signing_key st))) (commands (ds_store ds)) (commands (ds_store ds'))"
    and "fleet_operations (ds_store ds') = fleet_operations (ds_store ds)"
    and "remote_sessions (ds_store ds') = remote_sessions (ds_store ds)" by blast+
qed

lemma expire_operation_grows: "grows P (commands st) (commands (expire_operation_commands E now opID st))"
  by (auto simp: expire_operation_commands_def row_simps intro!: grows_upd)

lemma upd_operation_fields [simp]:
  "access_tables (upd_operation opID f st) = access_tables st" "commands (upd_operation opID f st) = commands st"
  "remote_sessions (upd_operation opID f st) = remote_sessions st"
  "fleet_operation_items (upd_operation opID f st) = fleet_operation_items st"
  by (simp_all add: upd_operation_def access_tables_def)

text \<open>What a step does to commands, sessions and access.\<close>

lemma advance_commands:
  assumes "advanceFleetOperation E now opID st = Inr st'" and "loadFleetOperation opID st = Inr (op, items)"
  shows "access_tables st' = access_tables st" and "remote_sessions st' = remote_sessions st"
    and "ed25519_ok E \<Longrightarrow> grows (command_ok E (ed_Public E (signing_key st))) (commands st) (commands st')"
    and "\<forall>c \<in> set (commands st'). c_id c \<in> c_id ` set (commands st) \<or> started_by st op c"
proof -
  have "access_tables st' = access_tables st \<and> remote_sessions st' = remote_sessions st \<and>
    (ed25519_ok E \<longrightarrow> grows (command_ok E (ed_Public E (signing_key st))) (commands st) (commands st')) \<and>
    (\<forall>c \<in> set (commands st'). c_id c \<in> c_id ` set (commands st) \<or> started_by st op c)"
  proof (cases "active_operation (fo_status op)")
    case False
    with assms have "st' = st" by (simp add: advanceFleetOperation_def)
    then show ?thesis by simp
  next
    case True
    obtain op1 items1 st1 items2 ds where
      r: "refresh_operation E now (op, items) st = ((op1, items1), st1)"
      and d: "(if fo_status op1 = ''running'' then
          dispatch_items E now op1 (fleetPrincipal st (fo_user_id op)) items1
            \<lparr>ds_active = int (count_where (\<lambda>i. started_status (fi_status i)) items1), ds_status = fo_status op1, ds_store = st1\<rparr>
        else Inr (items1, \<lparr>ds_active = int (count_where (\<lambda>i. started_status (fi_status i)) items1),
                   ds_status = fo_status op1, ds_store = st1\<rparr>)) = Inr (items2, ds)"
      and st': "st' = upd_operation opID (\<lambda>x. x\<lparr>fo_status := closing_status items2 (ds_status ds),
          fo_canary_pending := fo_canary_pending op1, fo_updated_at := now\<rparr>) (ds_store ds)"
      by (rule advance_Inr [OF assms True])
    note re = refresh_operation_eq [OF r]
    obtain b where "op1 = finish_canary items1 (pause_on_failure b op)" using re(2) by blast
    then have o: "fo_user_id op = fo_user_id op1" "started_by st op1 = started_by st op"
      by (auto simp: refresh_op_fields started_by_def fun_eq_iff)
    let ?Q = "\<lambda>cs. (ed25519_ok E \<longrightarrow> grows (command_ok E (ed_Public E (signing_key st))) (commands st1) cs) \<and>
        (\<exists>xs. cs = commands st1 @ xs \<and> (\<forall>c \<in> set xs. started_by st op c))"
    have q: "access_tables (ds_store ds) = access_tables st \<and> remote_sessions (ds_store ds) = remote_sessions st \<and>
        ?Q (commands (ds_store ds))"
    proof (cases "fo_status op1 = ''running''")
      case True
      then have d': "dispatch_items E now op1 (fleetPrincipal st (fo_user_id op1)) items1
            \<lparr>ds_active = int (count_where (\<lambda>i. started_status (fi_status i)) items1), ds_status = fo_status op1, ds_store = st1\<rparr>
          = Inr (items2, ds)"
        using d unfolding o(1) by simp
      from dispatch_commands [OF d'] re show ?thesis by (simp add: o(2))
    next
      case False
      with d re show ?thesis by auto
    qed
    have e: "grows P (commands st) (commands st1)" for P unfolding re(3) by (rule expire_operation_grows)
    have "grows (command_ok E (ed_Public E (signing_key st))) (commands st) (commands (ds_store ds))" if "ed25519_ok E"
      using cmd.grows_trans [OF e] q that by blast
    moreover have "c_id c \<in> c_id ` set (commands st)" if "c \<in> set (commands st1)" for c
      using that by (auto simp: re(3) expire_operation_commands_def set_upd_where)
    ultimately show ?thesis using q unfolding st' by auto
  qed
  then show "access_tables st' = access_tables st" and "remote_sessions st' = remote_sessions st"
    and "ed25519_ok E \<Longrightarrow> grows (command_ok E (ed_Public E (signing_key st))) (commands st) (commands st')"
    and "\<forall>c \<in> set (commands st'). c_id c \<in> c_id ` set (commands st) \<or> started_by st op c" by blast+
qed

text \<open>
  C20. An operation starts a command only where its owner may still run it: every command a step
  adds is queued, has the type of the operation, expires no later than the operation's deadline,
  and goes to a device on which the owner holds the permission at that moment.
\<close>

theorem advance_authorized:
  assumes "advanceFleetOperation E now opID st = Inr st'" and "loadFleetOperation opID st = Inr (op, items)"
    and "c \<in> set (commands st')" and "c_id c \<notin> c_id ` set (commands st)"
  shows "c_status c = ''queued'' \<and> c_type c = fo_command_type op \<and>
    (\<exists>t. c_expires_at c = Some t \<and> t \<le> fo_deadline_at op) \<and>
    CheckPermission st (fo_user_id op) (c_device_id c) (CommandPermission (c_type c)) = Inr ()"
  using advance_commands(4) [OF assms(1,2)] assms(3,4) by (auto simp: started_by_def)

theorem advance_authorized_witness:
  "\<exists>c st'. advanceFleetOperation sample_env (1700000000 * second) ''o1'' sample_fleet = Inr st' \<and> c \<in> set (commands st') \<and>
     CheckPermission sample_fleet ''op'' (c_device_id c) (CommandPermission (c_type c)) = Inr ()"
proof -
  obtain c st' where s: "advanceFleetOperation sample_env (1700000000 * second) ''o1'' sample_fleet = Inr st'" "commands st' = [c]"
    using sample_fleet_advance by blast
  have "c \<in> set (commands st')" "c_id c \<notin> c_id ` set (commands sample_fleet)" using s(2)
    by (simp_all add: sample_fleet_def sample_store_def empty_store_def)
  from advance_authorized [OF s(1) sample_fleet_load(1) this] this(1) s(1) show ?thesis
    by (auto simp: sample_fleet_def)
qed

section \<open>Operations end\<close>

lemma observed_after_deadline:
  assumes "\<And>c. find_row (\<lambda>c. c_id c = i) (commands st) = Some c \<Longrightarrow> \<not> started_status (c_status c)"
    and "fo_deadline_at op \<le> now"
  shows "\<not> started_status (observed_status now op i st)"
proof (cases "find_row (\<lambda>c. c_id c = i) (commands st)")
  case None
  then show ?thesis by (simp add: observed_status_def started_status_def)
next
  case (Some c)
  with assms(1) have "\<not> started_status (c_status c)" by blast
  with Some assms(2) show ?thesis by (auto simp: observed_status_def Let_def started_status_def)
qed

lemma refresh_after_deadline:
  assumes "\<And>c. c \<in> set (commands st) \<Longrightarrow> c_id c = fi_command_id i \<Longrightarrow> \<not> started_status (c_status c)"
    and "fo_deadline_at op \<le> now" and "fi_status i \<noteq> ''pending''"
  shows "\<not> started_status (fi_status (refresh_item now op st i)) \<and> fi_status (refresh_item now op st i) \<noteq> ''pending''"
proof (cases "started_status (fi_status i)")
  case False
  with assms(3) show ?thesis by (simp add: refresh_item_def)
next
  case True
  let ?s = "observed_status now op (fi_command_id i) st"
  have "\<not> started_status ?s"
    by (rule observed_after_deadline [OF _ assms(2)]) (use assms(1) find_row_Some in fastforce)
  with True show ?thesis by (auto simp: refresh_item_def Let_def started_status_def)
qed

lemma close_window_status: "fi_status (close_window i) \<noteq> ''pending''" "fi_command_id (close_window i) = fi_command_id i"
  by (simp_all add: close_window_def)

lemma dispatch_nothing_pending:
  "list_all (\<lambda>i. fi_status i \<noteq> ''pending'') is \<Longrightarrow> dispatch_items E now op access is ds = Inr (is, ds)"
  by (induction "is") (simp_all add: dispatch_item_def)

text \<open>
  C21. An operation ends: at any step at or after its deadline, if its commands expire by the
  deadline (as every command an operation starts does), the step succeeds, and the operation is
  closed as cancelled, failed or completed with no item pending or under way.
\<close>

theorem advance_closes:
  assumes "loadFleetOperation opID st = Inr (op, items)" and "active_operation (fo_status op)" and "fo_deadline_at op \<le> now"
    and "julianday_mono E"
    and "\<forall>c \<in> set (commands st). command_of_operation opID st c \<longrightarrow> (\<exists>t. c_expires_at c = Some t \<and> t \<le> fo_deadline_at op)"
  shows "\<exists>st'. advanceFleetOperation E now opID st = Inr st' \<and> running_items opID st' = 0 \<and>
    (\<forall>i \<in> set (fleet_operation_items st'). fi_operation_id i = opID \<longrightarrow> fi_status i \<noteq> ''pending'') \<and>
    (\<forall>o' \<in> set (fleet_operations st'). fo_id o' = opID \<longrightarrow> \<not> active_operation (fo_status o'))"
proof -
  obtain op1 items1 st1 where r: "refresh_operation E now (op, items) st = ((op1, items1), st1)" by (metis prod.exhaust)
  note re = refresh_operation_eq [OF r] and l = load_Inr [OF assms(1)]
  let ?e = "expire_operation_commands E now opID st"
  have over: "\<not> started_status (fi_status (refreshed E now op st i)) \<and> fi_status (refreshed E now op st i) \<noteq> ''pending''"
    if i: "i \<in> set (fleet_operation_items st)" "fi_operation_id i = opID" for i
  proof -
    have "\<not> started_status (c_status c)" if c: "c \<in> set (commands ?e)" "c_id c = fi_command_id i" for c
    proof -
      from c(1) obtain x where x: "x \<in> set (commands st)"
        "c = (if (c_status x = ''queued'' \<or> c_status x = ''claimed'') \<and> expired_by E now (c_expires_at x) \<and>
            command_of_operation opID st x then x\<lparr>c_status := ''expired'', c_expired_at := Some now\<rparr> else x)"
        unfolding expire_operation_commands_def by (auto simp: set_upd_where simp del: if_image_distrib)
      have "c_id c = c_id x" by (simp add: x(2))
      then have "c_id x = fi_command_id i" using c(2) by simp
      then have k: "command_of_operation opID st x" using i by (auto simp: command_of_operation_def has_row_iff)
      then obtain t where "c_expires_at x = Some t" "t \<le> now" using assms(3,5) x(1) by fastforce
      then have "expired_by E now (c_expires_at x)" using assms(4) by (simp add: expired_by_def julianday_mono_def)
      with x(2) k show ?thesis by (cases "c_status x = ''queued'' \<or> c_status x = ''claimed''") (auto simp: started_status_def)
    qed
    then show ?thesis unfolding refreshed_def l(2)
      using refresh_after_deadline [of ?e "close_window i" op now] assms(3) by (simp add: close_window_status)
  qed
  then have i1: "\<not> started_status (fi_status i) \<and> fi_status i \<noteq> ''pending''" if "i \<in> set items1" for i
    using that by (auto simp: re(1) l(3))
  then have none: "list_all (\<lambda>i. fi_status i \<noteq> ''pending'') items1" "\<not> list_ex (\<lambda>i. fi_status i = ''pending'' \<or> started_status (fi_status i)) items1"
    by (auto simp: list_all_iff list_ex_iff)
  define f where "f = (\<lambda>x :: fleet_operation. x\<lparr>fo_status := closing_status items1 (fo_status op1),
      fo_canary_pending := fo_canary_pending op1, fo_updated_at := now\<rparr>)"
  have adv: "advanceFleetOperation E now opID st = Inr (upd_operation opID f st1)"
    using assms(1,2) r by (simp add: advanceFleetOperation_def Let_def dispatch_nothing_pending [OF none(1)] f_def)
  have "\<not> active_operation (closing_status items1 (fo_status op1))"
    using none(2) by (simp add: closing_status_def active_operation_def)
  then have "\<not> active_operation (fo_status (f x))" for x by (simp add: f_def)
  moreover have "fo_id (f x) = fo_id x" for x by (simp add: f_def)
  ultimately have closed: "\<forall>o' \<in> set (fleet_operations (upd_operation opID f st1)). fo_id o' = opID \<longrightarrow> \<not> active_operation (fo_status o')"
    by (auto simp: upd_operation_def set_upd_where)
  have items: "\<not> started_status (fi_status i) \<and> fi_status i \<noteq> ''pending''"
    if i: "i \<in> set (fleet_operation_items st1)" "fi_operation_id i = opID" for i
  proof -
    from i(1) obtain x where x: "x \<in> set (fleet_operation_items st)"
      "i = (if fi_operation_id x = opID then refreshed E now op st x else x)"
      unfolding re(4) l(2) by (auto simp: set_upd_where simp del: if_image_distrib)
    with i(2) have "fi_operation_id x = opID" by (cases "fi_operation_id x = opID") auto
    with x over show ?thesis by simp
  qed
  then have "running_items opID st1 = 0" by (auto simp: running_items_def count_where_zero)
  with adv closed items show ?thesis by (intro exI [of _ "upd_operation opID f st1"]) auto
qed

theorem advance_closes_witness:
  "\<exists>st'. advanceFleetOperation sample_env (1700086400 * second) ''o1'' sample_fleet = Inr st' \<and> running_items ''o1'' st' = 0"
proof -
  have "fo_deadline_at (hd (fleet_operations sample_fleet)) \<le> 1700086400 * second"
    "\<forall>c \<in> set (commands sample_fleet). command_of_operation ''o1'' sample_fleet c \<longrightarrow>
       (\<exists>t. c_expires_at c = Some t \<and> t \<le> fo_deadline_at (hd (fleet_operations sample_fleet)))"
    by (simp_all add: sample_fleet_def sample_store_def empty_store_def)
  from advance_closes [OF sample_fleet_load(1,3) this(1) sample_env_ok(3) this(2)] show ?thesis by blast
qed

end
