(* ===== verification/Rollouts.thy ===== *)
theory Rollouts
  imports FleetOperations
begin

text \<open>
  Agent rollouts (\<open>sqlite.go\<close>, \<open>rollout_waves.go\<close>): updates of many agents in batches, optionally
  guarded by a canary wave, growing waves and an observation period. A rollout is \<open>running\<close>,
  \<open>paused\<close>, \<open>cancelled\<close> or \<open>completed\<close>; its devices go from \<open>pending\<close> to \<open>queued\<close> to
  \<open>waiting_reconnect\<close> to \<open>completed\<close>, or to \<open>failed\<close>.
\<close>

section \<open>Guards\<close>

fun canaries_ok :: "string list \<Rightarrow> string list \<Rightarrow> string list \<Rightarrow> bool" where
  "canaries_ok eligible seen [] = True"
| "canaries_ok eligible seen (i # is) = (i \<in> set eligible \<and> i \<notin> set seen \<and> canaries_ok eligible (i # seen) is)"

definition validateRolloutGuard :: "RolloutGuard \<Rightarrow> rollout_device list \<Rightarrow> unit res" where
  "validateRolloutGuard g targets =
     (if g_RequestKey g \<noteq> [] \<and> (length (g_RequestKey g) < 8 \<or> length (g_RequestKey g) > 128)
      then Inl (ErrMsg ''invalid rollout request key'')
      else if length (g_CanaryIDs g) < 1 \<or> length (g_CanaryIDs g) > 10 \<or> length (g_WaveSizes g) < 1 \<or>
         length (g_WaveSizes g) > 8 \<or> g_ObservationSeconds g < 60 \<or> g_ObservationSeconds g > 3600
      then Inl (ErrMsg ''invalid rollout waves or observation period'')
      else if \<not> canaries_ok (map rd_device_id targets) [] (g_CanaryIDs g)
      then Inl (ErrMsg ''canary must be a unique eligible target'')
      else if \<not> list_all (\<lambda>n. 1 \<le> n \<and> n \<le> 500) (g_WaveSizes g) then Inl (ErrMsg ''invalid wave size'')
      else Inr ())"

definition loadRolloutGuard :: "string \<Rightarrow> store \<Rightarrow> rollout_guard option" where
  "loadRolloutGuard rid st = find_row (\<lambda>g. rg_rollout_id g = rid) (rollout_guards st)"

definition max_batch :: "string \<Rightarrow> store \<Rightarrow> int" where
  "max_batch rid st =
     foldr max (map rd_batch (filter (\<lambda>rd. rd_rollout_id rd = rid) (agent_rollout_devices st))) 0"

text \<open>The current wave with the state of its devices.\<close>

definition wave_samples :: "string \<Rightarrow> int \<Rightarrow> store \<Rightarrow> (rollout_device \<times> device) list" where
  "wave_samples rid wave st =
     [(rd, d). rd \<leftarrow> agent_rollout_devices st, rd_rollout_id rd = rid \<and> rd_batch rd = wave,
               d \<leftarrow> devices st, d_id d = rd_device_id rd]"

definition version_confirmed :: "time \<Rightarrow> string \<Rightarrow> device \<Rightarrow> bool" where
  "version_confirmed now version d \<longleftrightarrow>
     Option.bind (json_unmarshal (d_inventory_json d)) (string_field ''agent_version'') = Some version \<and>
     (case d_last_seen_at d of None \<Rightarrow> False | Some seen \<Rightarrow> now - seen \<le> 2 * minute)"

definition connectivity_lost :: "device \<Rightarrow> bool" where
  "connectivity_lost d =
     (case Option.bind (json_unmarshal (d_metrics_json d)) (decode_field to_checks ''connectivity_checks'' []) of
        None \<Rightarrow> False
      | Some checks \<Rightarrow> list_ex (\<lambda>c. c \<noteq> None) checks \<and> \<not> list_ex (\<lambda>c. c = Some True) checks)"

text \<open>The verdict on the wave: a reason to pause, wait, or healthy.\<close>

datatype verdict = PauseWith string | Wait | Healthy

fun wave_verdict :: "time \<Rightarrow> string \<Rightarrow> (rollout_device \<times> device) list \<Rightarrow> verdict" where
  "wave_verdict now version [] = Healthy"
| "wave_verdict now version ((rd, d) # vs) =
     (if rd_status rd \<noteq> ''completed'' then Wait
      else if \<not> version_confirmed now version d then PauseWith ''completed wave lost contact or changed version''
      else if connectivity_lost d then PauseWith ''completed wave reports loss of connectivity''
      else wave_verdict now version vs)"

definition upd_guard :: "string \<Rightarrow> (rollout_guard \<Rightarrow> rollout_guard) \<Rightarrow> store \<Rightarrow> store" where
  "upd_guard rid f st = st\<lparr>rollout_guards := upd_where (\<lambda>g. rg_rollout_id g = rid) f (rollout_guards st)\<rparr>"

definition observe_wave :: "time \<Rightarrow> string \<Rightarrow> int \<Rightarrow> rollout_guard \<Rightarrow> store \<Rightarrow> bool \<times> store" where
  "observe_wave now rid wave g st =
     (let stale = (case rg_last_checked_at g of None \<Rightarrow> False | Some t \<Rightarrow> now - t > 2 * minute);
          since = (if stale then None else rg_healthy_since g);
          st = upd_guard rid (\<lambda>g. g\<lparr>rg_last_checked_at := Some now\<rparr>) st
      in case since of
           None \<Rightarrow> (False, upd_guard rid (\<lambda>g. g\<lparr>rg_wave_observed := wave, rg_healthy_since := Some now, rg_pause_reason := []\<rparr>) st)
         | Some t \<Rightarrow> (now - t \<ge> g_ObservationSeconds (rg_definition g) * second, st))"

definition guardReady :: "time \<Rightarrow> string \<Rightarrow> string \<Rightarrow> rollout_guard \<Rightarrow> store \<Rightarrow> bool \<times> store" where
  "guardReady now rid version g st =
     (let wave = max_batch rid st in
      if wave = 0 then (True, st)
      else let samples = wave_samples rid wave st in
        if list_ex (\<lambda>(rd, d). unsuccessful (rd_status rd)) samples
        then (False, pauseGuardedRollout now rid ''previous wave failed'' st)
        else case wave_verdict now version samples of
               PauseWith reason \<Rightarrow> (False, pauseGuardedRollout now rid reason st)
             | Wait \<Rightarrow> (False, st)
             | Healthy \<Rightarrow> observe_wave now rid wave g st)"

section \<open>Queueing a batch\<close>

definition update_args :: "agent_rollout \<Rightarrow> rollout_device \<Rightarrow> (string \<times> string) list" where
  "update_args r rd =
     (if rd_manifest_url rd \<noteq> [] \<and> rd_signature_url rd \<noteq> []
      then [(''manifest_url'', rd_manifest_url rd), (''signature_url'', rd_signature_url rd)] else []) @
     [(''rollout_id'', r_id r), (''channel'', r_channel r), (''target_version'', r_target_version r),
      (''feed_url'', rd_feed_url rd), (''package_manager'', rd_package_manager rd),
      (''package'', ''rmm-agent-go-production''), (''package_version'', rd_package_version rd)]"

definition queue_device :: "env \<Rightarrow> time \<Rightarrow> agent_rollout \<Rightarrow> int \<Rightarrow> rollout_device \<Rightarrow> store \<Rightarrow> store res" where
  "queue_device E now r batch rd st =
     bindE (newCommand E now (rd_device_id rd) ''agent_update'' (print_json (string_map_json (update_args r rd))) (24 * hour) st)
       (\<lambda>(c, st). bindE (insert_command (c_max_attempts c) c st) (\<lambda>st.
          Inr (st\<lparr>agent_rollout_devices :=
             upd_where (\<lambda>x. rd_rollout_id x = r_id r \<and> rd_device_id x = rd_device_id rd)
               (\<lambda>x. x\<lparr>rd_status := ''queued'', rd_batch := batch, rd_command_id := c_id c\<rparr>)
               (agent_rollout_devices st)\<rparr>)))"

definition batch_active :: "string \<Rightarrow> store \<Rightarrow> bool" where
  "batch_active rid st =
     has_row (\<lambda>rd. rd_rollout_id rd = rid \<and> rd_status rd = ''queued'' \<and>
         has_row (\<lambda>c. c_id c = rd_command_id rd \<and> (c_status c = ''queued'' \<or> c_status c = ''claimed'')) (commands st))
       (agent_rollout_devices st)"

definition pending_devices :: "string \<Rightarrow> nat \<Rightarrow> store \<Rightarrow> rollout_device list" where
  "pending_devices rid limit st =
     take limit (order_by (\<lambda>x y. rd_device_id x \<le> rd_device_id y)
       (filter (\<lambda>rd. rd_rollout_id rd = rid \<and> rd_status rd = ''pending'') (agent_rollout_devices st)))"

text \<open>The wave of a guarded rollout: first the canaries, then the wave sizes, the last one repeated.\<close>

definition guarded_wave :: "RolloutGuard \<Rightarrow> int \<Rightarrow> rollout_device list \<Rightarrow> rollout_device list" where
  "guarded_wave g batch pending =
     (if batch = 1 then filter (\<lambda>rd. rd_device_id rd \<in> set (g_CanaryIDs g)) pending
      else take (nat (g_WaveSizes g ! nat (min (batch - 2) (int (length (g_WaveSizes g)) - 1)))) pending)"

definition complete_rollout :: "time \<Rightarrow> string \<Rightarrow> store \<Rightarrow> store" where
  "complete_rollout now rid st =
     (if has_row (\<lambda>rd. rd_rollout_id rd = rid \<and> rd_status rd \<noteq> ''completed'') (agent_rollout_devices st) then st
      else st\<lparr>agent_rollouts :=
             upd_where (\<lambda>r. r_id r = rid) (\<lambda>r. r\<lparr>r_status := ''completed'', r_updated_at := now\<rparr>) (agent_rollouts st)\<rparr>)"

definition queue_wave :: "env \<Rightarrow> time \<Rightarrow> agent_rollout \<Rightarrow> rollout_guard option \<Rightarrow> store \<Rightarrow> store res" where
  "queue_wave E now r guard st =
     (let limit = (case guard of None \<Rightarrow> nat (r_batch_size r) | Some _ \<Rightarrow> 500);
          pending = pending_devices (r_id r) limit st;
          batch = max_batch (r_id r) st + 1;
          (wave, st) = (case guard of
              None \<Rightarrow> (pending, st)
            | Some g \<Rightarrow> (guarded_wave (rg_definition g) batch pending,
                        upd_guard (r_id r) (\<lambda>g. g\<lparr>rg_healthy_since := None, rg_pause_reason := []\<rparr>) st))
      in bindE (foldE (queue_device E now r batch) wave st) (\<lambda>st.
           Inr (if wave = [] then complete_rollout now (r_id r) st else st)))"

definition queueRolloutBatch :: "env \<Rightarrow> time \<Rightarrow> string \<Rightarrow> store \<Rightarrow> store res" where
  "queueRolloutBatch E now rid st =
     (case find_row (\<lambda>r. r_id r = rid) (agent_rollouts st) of
        None \<Rightarrow> Inl ErrNoRows
      | Some r \<Rightarrow>
          if r_status r \<noteq> ''running'' then Inr st
          else case loadRolloutGuard rid st of
                 None \<Rightarrow> if batch_active rid st then Inr st else queue_wave E now r None st
               | Some g \<Rightarrow>
                   let (ready, st1) = guardReady now rid (r_target_version r) g st
                   in if \<not> ready then Inr st1
                      else if batch_active rid st1 then Inr st else queue_wave E now r (Some g) st1)"

section \<open>Operations\<close>

definition GetAgentRollout :: "string \<Rightarrow> store \<Rightarrow> (agent_rollout \<times> rollout_device list \<times> rollout_guard option) res" where
  "GetAgentRollout rid st =
     (case find_row (\<lambda>r. r_id r = rid) (agent_rollouts st) of
        None \<Rightarrow> Inl ErrNoRows
      | Some r \<Rightarrow>
          Inr (r, order_by (\<lambda>x y. rd_batch x < rd_batch y \<or> rd_batch x = rd_batch y \<and> rd_device_id x \<le> rd_device_id y)
                    (filter (\<lambda>rd. rd_rollout_id rd = rid) (agent_rollout_devices st)),
               loadRolloutGuard rid st))"

definition ListAgentRollouts :: "env \<Rightarrow> store \<Rightarrow> ((agent_rollout \<times> rollout_device list \<times> rollout_guard option) list) res" where
  "ListAgentRollouts E st =
     mapE (\<lambda>r. GetAgentRollout (r_id r) st)
       (order_by (\<lambda>x y. ts_le E (r_created_at y) (r_created_at x)) (agent_rollouts st))"

definition rollout_device_json :: "rollout_device \<Rightarrow> json" where
  "rollout_device_json d = JObj
     ([(''device_id'', JStr (rd_device_id d)), (''status'', JStr (rd_status d)), (''batch'', JNum (dec_digits (rd_batch d)))] @
      (if rd_command_id d = [] then [] else [(''command_id'', JStr (rd_command_id d))]) @
      [(''feed_url'', JStr (rd_feed_url d)), (''package_version'', JStr (rd_package_version d))] @
      (if rd_manifest_url d = [] then [] else [(''manifest_url'', JStr (rd_manifest_url d))]) @
      (if rd_signature_url d = [] then [] else [(''signature_url'', JStr (rd_signature_url d))]) @
      (if rd_last_error d = [] then [] else [(''last_error'', JStr (rd_last_error d))]))"

definition guard_json :: "RolloutGuard \<Rightarrow> json" where
  "guard_json g = JObj
     ((if g_RequestKey g = [] then [] else [(''request_key'', JStr (g_RequestKey g))]) @
      [(''canary_ids'', JArr (map JStr (g_CanaryIDs g))),
       (''wave_sizes'', JArr (map (\<lambda>n. JNum (dec_digits n)) (g_WaveSizes g))),
       (''observation_seconds'', JNum (dec_digits (g_ObservationSeconds g)))])"

definition rollout_payload ::
  "string \<Rightarrow> string \<Rightarrow> int \<Rightarrow> rollout_device list \<Rightarrow> RolloutGuard \<Rightarrow> string" where
  "rollout_payload channel version batch targets g = print_json (JObj
     [(''Channel'', JStr channel), (''Version'', JStr version), (''Batch'', JNum (dec_digits batch)),
      (''Devices'', JArr (map rollout_device_json targets)), (''Guard'', guard_json g)])"

definition insert_rollout_device :: "string \<Rightarrow> rollout_device \<Rightarrow> store \<Rightarrow> store res" where
  "insert_rollout_device rid d st =
     (if \<not> has_row (\<lambda>x. d_id x = rd_device_id d) (devices st) then Inl (ErrConstraint ''foreign key'')
      else bindE (insert_row (\<lambda>x. (rd_rollout_id x, rd_device_id x))
                    (d\<lparr>rd_rollout_id := rid, rd_batch := 0, rd_status := ''pending'', rd_command_id := [], rd_last_error := []\<rparr>)
                    (agent_rollout_devices st))
             (\<lambda>rows. Inr (st\<lparr>agent_rollout_devices := rows\<rparr>)))"

definition insert_rollout ::
  "time \<Rightarrow> string \<Rightarrow> string \<Rightarrow> string \<Rightarrow> int \<Rightarrow> int \<Rightarrow> rollout_device list \<Rightarrow> RolloutGuard option \<Rightarrow> string \<Rightarrow> store \<Rightarrow> store res" where
  "insert_rollout now rid channel version batchSize threshold targets guard requestHash st =
     bindE (insert_row r_id
              \<lparr>r_id = rid, r_channel = channel, r_target_version = version, r_batch_size = batchSize,
               r_failure_threshold = threshold, r_status = ''running'', r_failure_count = 0, r_created_at = now,
               r_updated_at = now\<rparr> (agent_rollouts st)) (\<lambda>rs.
     bindE (foldE (insert_rollout_device rid) targets (st\<lparr>agent_rollouts := rs\<rparr>)) (\<lambda>st.
       case guard of
         None \<Rightarrow> Inr st
       | Some g \<Rightarrow>
           bindE (insert_row rg_rollout_id
                    \<lparr>rg_rollout_id = rid, rg_definition = g, rg_request_hash = requestHash, rg_wave_observed = 0,
                     rg_healthy_since = None, rg_last_checked_at = None, rg_pause_reason = []\<rparr> (rollout_guards st))
             (\<lambda>gs. Inr (st\<lparr>rollout_guards := gs\<rparr>))))"

text \<open>The id of the rollout, and the store: the rows stay when queueing the first batch fails.\<close>

definition createAgentRollout ::
  "env \<Rightarrow> time \<Rightarrow> string \<Rightarrow> string \<Rightarrow> int \<Rightarrow> int \<Rightarrow> rollout_device list \<Rightarrow> RolloutGuard option \<Rightarrow> store \<Rightarrow>
   string res \<times> store" where
  "createAgentRollout E now channel version batchSize threshold targets guard st =
     (let (rid, st) = randomID E ''rollout'' st in
      case (case guard of
              Some g \<Rightarrow>
                if g_RequestKey g \<noteq> []
                then bindE (fleetObjectID E ''rollout'' ''administrators'' (g_RequestKey g))
                       (\<lambda>i. Inr (i, TokenHash E (rollout_payload channel version batchSize targets g)))
                else Inr (rid, [])
            | None \<Rightarrow> Inr (rid, [])) of
        Inl e \<Rightarrow> (Inl e, st)
      | Inr (rid, requestHash) \<Rightarrow>
          (case (if requestHash \<noteq> [] then loadRolloutGuard rid st else None) of
             Some previous \<Rightarrow> (if rg_request_hash previous \<noteq> requestHash then Inl ErrFleetConflict else Inr rid, st)
           | None \<Rightarrow>
               (case insert_rollout now rid channel version batchSize threshold targets guard requestHash st of
                  Inl e \<Rightarrow> (Inl e, st)
                | Inr st \<Rightarrow>
                    (case queueRolloutBatch E now rid st of Inl e \<Rightarrow> (Inl e, st) | Inr st \<Rightarrow> (Inr rid, st)))))"

definition CreateAgentRollout ::
  "env \<Rightarrow> time \<Rightarrow> string \<Rightarrow> string \<Rightarrow> int \<Rightarrow> int \<Rightarrow> rollout_device list \<Rightarrow> store \<Rightarrow> string res \<times> store" where
  "CreateAgentRollout E now channel version batchSize threshold targets st =
     createAgentRollout E now channel version batchSize threshold targets None st"

definition CreateGuardedAgentRollout ::
  "env \<Rightarrow> time \<Rightarrow> string \<Rightarrow> string \<Rightarrow> int \<Rightarrow> rollout_device list \<Rightarrow> RolloutGuard \<Rightarrow> store \<Rightarrow> string res \<times> store" where
  "CreateGuardedAgentRollout E now channel version batchSize targets g st =
     (if channel \<noteq> ''stable'' \<and> channel \<noteq> ''candidate'' \<or> TrimSpace version = [] \<or> length targets > 500 \<or>
         targets = [] \<or> batchSize < 1 \<or> batchSize > 500
      then (Inl (ErrRolloutGuardInvalid ''invalid rollout''), st)
      else case validateRolloutGuard g targets of
        Inl (ErrMsg e) \<Rightarrow> (Inl (ErrRolloutGuardInvalid e), st)
      | Inl e \<Rightarrow> (Inl e, st)
      | Inr _ \<Rightarrow>
          if \<not> list_all (\<lambda>d. HasPrefix (rd_manifest_url d) ''https://'' \<and> HasPrefix (rd_signature_url d) ''https://'') targets
          then (Inl (ErrRolloutGuardInvalid ''guarded waves require signed agent updates''), st)
          else createAgentRollout E now channel version batchSize 1 targets (Some g) st)"

definition set_rollout_status :: "time \<Rightarrow> string \<Rightarrow> string \<Rightarrow> store \<Rightarrow> store res" where
  "set_rollout_status now rid status st =
     (let st = (if status = ''cancelled'' then
            st\<lparr>commands :=
              upd_where (\<lambda>c. c_status c = ''queued'' \<and>
                  has_row (\<lambda>rd. rd_rollout_id rd = rid \<and> rd_command_id rd = c_id c) (agent_rollout_devices st))
                (\<lambda>c. c\<lparr>c_status := ''cancelled'', c_cancelled_at := Some now\<rparr>) (commands st)\<rparr>
          else st);
          open_rollout = (\<lambda>r. r_id r = rid \<and> r_status r \<noteq> ''cancelled'' \<and> r_status r \<noteq> ''completed'')
      in if \<not> has_row open_rollout (agent_rollouts st) then Inl ErrNoRows
         else Inr (upd_guard rid
                (\<lambda>g. g\<lparr>rg_healthy_since := None, rg_last_checked_at := None,
                       rg_pause_reason := (if status = ''paused'' then ''paused by operator'' else [])\<rparr>)
                (st\<lparr>agent_rollouts :=
                  upd_where open_rollout (\<lambda>r. r\<lparr>r_status := status, r_updated_at := now\<rparr>) (agent_rollouts st)\<rparr>)))"

definition SetAgentRolloutStatus :: "env \<Rightarrow> time \<Rightarrow> string \<Rightarrow> string \<Rightarrow> store \<Rightarrow> unit res \<times> store" where
  "SetAgentRolloutStatus E now rid status st =
     (if status \<noteq> ''running'' \<and> status \<noteq> ''paused'' \<and> status \<noteq> ''cancelled'' then (Inl (ErrMsg ''invalid rollout status''), st)
      else case set_rollout_status now rid status st of
        Inl e \<Rightarrow> (Inl e, st)
      | Inr st \<Rightarrow>
          if status = ''running'' then
            (case queueRolloutBatch E now rid st of Inl e \<Rightarrow> (Inl e, st) | Inr st \<Rightarrow> (Inr (), st))
          else (Inr (), st))"

definition HandleAgentRolloutResult :: "time \<Rightarrow> string \<Rightarrow> string \<Rightarrow> string \<Rightarrow> store \<Rightarrow> store" where
  "HandleAgentRolloutResult now commandID status output' st =
     (case find_row (\<lambda>rd. rd_command_id rd = commandID) (agent_rollout_devices st) of
        None \<Rightarrow> st
      | Some rd \<Rightarrow>
          let row = (\<lambda>x. rd_rollout_id x = rd_rollout_id rd \<and> rd_device_id x = rd_device_id rd) in
          if status \<noteq> ''completed'' then
            st\<lparr>agent_rollout_devices :=
                 upd_where row (\<lambda>x. x\<lparr>rd_status := ''failed'', rd_last_error := output'\<rparr>) (agent_rollout_devices st),
               agent_rollouts :=
                 upd_where (\<lambda>r. r_id r = rd_rollout_id rd \<and> r_status r = ''running'')
                   (\<lambda>r. r\<lparr>r_failure_count := r_failure_count r + 1,
                          r_status := (if r_failure_count r + 1 \<ge> r_failure_threshold r then ''paused'' else r_status r),
                          r_updated_at := now\<rparr>) (agent_rollouts st)\<rparr>
          else
            st\<lparr>agent_rollout_devices :=
                 upd_where row (\<lambda>x. x\<lparr>rd_status := ''waiting_reconnect'', rd_last_error := []\<rparr>)
                   (agent_rollout_devices st)\<rparr>)"

text \<open>The loop of the server: a rollout that fails to advance ends the pass.\<close>

definition AdvanceGuardedRollouts :: "env \<Rightarrow> time \<Rightarrow> store \<Rightarrow> err option \<times> store" where
  "AdvanceGuardedRollouts E now st =
     (let ids = map r_id (take 100 (order_by (\<lambda>x y. ts_le E (r_created_at x) (r_created_at y))
                  (filter (\<lambda>r. r_status r = ''running'' \<and> has_row (\<lambda>g. rg_rollout_id g = r_id r) (rollout_guards st))
                     (agent_rollouts st))))
      in fold (\<lambda>i (e, st). case e of
                 Some _ \<Rightarrow> (e, st)
               | None \<Rightarrow> (case queueRolloutBatch E now i st of Inl e \<Rightarrow> (Some e, st) | Inr st \<Rightarrow> (None, st)))
           ids (None, st))"

section \<open>Confirmation by heartbeat\<close>

text \<open>
  \<open>map[string]any\<close>: numbers become \<open>float64\<close> and print in their shortest form; \<open>None\<close> is the nil
  map of a \<open>null\<close>, and a document of another type or with an error leaves the empty map.
\<close>

fun float_numbers :: "env \<Rightarrow> json \<Rightarrow> json" where
  "float_numbers E (JNum t) = (case float_text E t of Some t' \<Rightarrow> JNum t' | None \<Rightarrow> JNull)"
| "float_numbers E (JArr vs) = JArr (map (float_numbers E) vs)"
| "float_numbers E (JObj ms) = JObj (map (\<lambda>(k, v). (k, float_numbers E v)) ms)"
| "float_numbers E j = j"

definition any_map :: "env \<Rightarrow> RawMessage \<Rightarrow> (string \<times> json) list option" where
  "any_map E raw =
     (case json_unmarshal raw of
        Some (JObj ms) \<Rightarrow> (case normal (float_numbers E (JObj ms)) of JObj ns \<Rightarrow> Some ns | _ \<Rightarrow> Some [])
      | Some JNull \<Rightarrow> None
      | _ \<Rightarrow> Some [])"

definition put_all :: "(string \<times> json) list \<Rightarrow> (string \<times> json) list \<Rightarrow> (string \<times> json) list" where
  "put_all new ms = fold (\<lambda>(k, v). put_member k v) new ms"

definition healthy_result :: "time \<Rightarrow> string \<Rightarrow> bool \<Rightarrow> (string \<times> json) list \<Rightarrow> RawMessage" where
  "healthy_result observedAt version recovered result = print_json (JObj
     (put_all ([(''health_status'', JStr ''healthy''), (''installed_version'', JStr version),
                (''reconnect_verified_at'', JStr (RFC3339Nano observedAt))] @
               (if recovered then [(''recovered_from_failed_result'', JBool True)] else [])) result))"

text \<open>A finished update whose requested version the device now reports.\<close>

definition confirmation :: "env \<Rightarrow> time \<Rightarrow> string \<Rightarrow> command \<Rightarrow> (string \<times> RawMessage \<times> bool) option" where
  "confirmation E observedAt version c =
     (case Option.bind (json_unmarshal (c_args_json c)) to_string_map of
        None \<Rightarrow> None
      | Some args \<Rightarrow>
          let result = (if TrimSpace (c_result_json c) \<noteq> [] then
                 (case any_map E (c_result_json c) of None \<Rightarrow> [] | Some ms \<Rightarrow> ms) else []);
              recovered = (c_status c = ''failed'')
          in if map_of result ''health_status'' = Some (JStr ''healthy'') \<or> map_get args ''target_version'' \<noteq> version
             then None else Some (c_id c, healthy_result observedAt version recovered result, recovered))"

definition finished_updates :: "env \<Rightarrow> string \<Rightarrow> store \<Rightarrow> command list" where
  "finished_updates E deviceID st =
     (let seq = (\<lambda>c. case c_completed_at c of Some t \<Rightarrow> t | None \<Rightarrow> c_created_at c)
      in take 10 (order_by (\<lambda>x y. ts_le E (seq y) (seq x))
           (filter (\<lambda>c. c_device_id c = deviceID \<and> (c_type c = ''agent_update'' \<or> c_type c = ''agent_rollback'') \<and>
               (c_status c = ''completed'' \<or> c_status c = ''failed'')) (commands st))))"

definition reconnecting :: "string \<Rightarrow> rollout_device \<Rightarrow> bool" where
  "reconnecting commandID rd \<longleftrightarrow>
     rd_command_id rd = commandID \<and> (rd_status rd = ''waiting_reconnect'' \<or> rd_status rd = ''failed'')"

text \<open>
  A recovered failure gives a count back and resumes a paused rollout. The scalar \<open>MAX\<close> of two
  arguments exists on SQLite only; PostgreSQL rejects the statement.
\<close>

definition recover_rollout :: "env \<Rightarrow> time \<Rightarrow> string \<Rightarrow> store \<Rightarrow> store res" where
  "recover_rollout E now rid st =
     (if postgres E then Inl (ErrMsg ''function max(integer, integer) does not exist'')
      else Inr (st\<lparr>agent_rollouts :=
             upd_where (\<lambda>r. r_id r = rid)
               (\<lambda>r. r\<lparr>r_failure_count := max (r_failure_count r - 1) 0,
                      r_status := (if r_status r = ''paused'' \<and> r_failure_count r - 1 < r_failure_threshold r
                                   then ''running'' else r_status r),
                      r_updated_at := now\<rparr>) (agent_rollouts st)\<rparr>))"

definition confirm_command ::
  "env \<Rightarrow> time \<Rightarrow> string \<times> RawMessage \<times> bool \<Rightarrow> store \<Rightarrow> err option \<times> store" where
  "confirm_command E now = (\<lambda>(commandID, result, recovered) st.
     let st = st\<lparr>commands :=
           upd_where (\<lambda>c. c_id c = commandID)
             (\<lambda>c. c\<lparr>c_status := ''completed'', c_exit_code := Some 0, c_result_json := result,
                    c_completed_at := (case c_completed_at c of Some t \<Rightarrow> Some t | None \<Rightarrow> Some now)\<rparr>) (commands st)\<rparr>
     in case find_row (reconnecting commandID) (agent_rollout_devices st) of
          None \<Rightarrow> (None, st)
        | Some rd \<Rightarrow>
            let st = st\<lparr>agent_rollout_devices :=
                  upd_where (reconnecting commandID) (\<lambda>x. x\<lparr>rd_status := ''completed'', rd_last_error := []\<rparr>)
                    (agent_rollout_devices st)\<rparr>
            in case (if recovered then recover_rollout E now (rd_rollout_id rd) st else Inr st) of
                 Inl e \<Rightarrow> (Some e, st)
               | Inr st \<Rightarrow>
                   (case queueRolloutBatch E now (rd_rollout_id rd) st of Inl e \<Rightarrow> (Some e, st) | Inr st \<Rightarrow> (None, st)))"

fun until_error :: "('a \<Rightarrow> store \<Rightarrow> err option \<times> store) \<Rightarrow> 'a list \<Rightarrow> store \<Rightarrow> err option \<times> store" where
  "until_error f [] st = (None, st)"
| "until_error f (x # xs) st = (case f x st of (None, st) \<Rightarrow> until_error f xs st | (Some e, st) \<Rightarrow> (Some e, st))"

definition confirmAgentPackageOperation :: "env \<Rightarrow> time \<Rightarrow> string \<Rightarrow> RawMessage \<Rightarrow> store \<Rightarrow> err option \<times> store" where
  "confirmAgentPackageOperation E now deviceID inventory st =
     (case Option.bind (json_unmarshal inventory) (string_field ''agent_version'') of
        None \<Rightarrow> (None, st)
      | Some reported \<Rightarrow>
          let version = TrimSpace reported in
          if version = [] then (None, st)
          else until_error (confirm_command E now)
                 (List.map_filter (confirmation E now version) (finished_updates E deviceID st)) st)"

section \<open>Timeouts\<close>

definition timed_out :: "env \<Rightarrow> time \<Rightarrow> store \<Rightarrow> (rollout_device \<times> command) list" where
  "timed_out E cutoff st =
     [(rd, c). rd \<leftarrow> agent_rollout_devices st, rd_status rd = ''waiting_reconnect'',
               c \<leftarrow> commands st, c_id c = rd_command_id rd \<and> expired_by E cutoff (c_completed_at c)]"

definition fail_rollout_device :: "time \<Rightarrow> string \<Rightarrow> string \<Rightarrow> rollout_device \<Rightarrow> store \<Rightarrow> store" where
  "fail_rollout_device now status reason rd st =
     st\<lparr>agent_rollout_devices :=
          upd_where (\<lambda>x. rd_rollout_id x = rd_rollout_id rd \<and> rd_device_id x = rd_device_id rd \<and> rd_status x = status)
            (\<lambda>x. x\<lparr>rd_status := ''failed'', rd_last_error := reason\<rparr>) (agent_rollout_devices st),
        agent_rollouts :=
          upd_where (\<lambda>r. r_id r = rd_rollout_id rd \<and> r_status r = ''running'')
            (\<lambda>r. r\<lparr>r_failure_count := r_failure_count r + 1, r_status := ''paused'', r_updated_at := now\<rparr>)
            (agent_rollouts st)\<rparr>"

text \<open>Writing into the nil map of a \<open>null\<close> result panics.\<close>

definition time_out_device :: "env \<Rightarrow> time \<Rightarrow> rollout_device \<times> command \<Rightarrow> store \<Rightarrow> err option \<times> store" where
  "time_out_device E now = (\<lambda>(rd, c) st.
     case any_map E (c_result_json c) of
       None \<Rightarrow> (Some (Panic ''assignment to entry in nil map''), st)
     | Some result \<Rightarrow>
         let encoded = print_json (JObj (put_all
               [(''health_status'', JStr ''reconnect_timeout''),
                (''health_error'', JStr ''agent did not report the requested version before the reconnect deadline'')] result));
             st = st\<lparr>commands := upd_where (\<lambda>x. c_id x = rd_command_id rd) (\<lambda>x. x\<lparr>c_result_json := encoded\<rparr>) (commands st)\<rparr>
         in (None, fail_rollout_device now ''waiting_reconnect'' ''agent reconnect verification timed out'' rd st))"

definition stale_devices :: "env \<Rightarrow> time \<Rightarrow> store \<Rightarrow> rollout_device list" where
  "stale_devices E cutoff st =
     [rd. rd \<leftarrow> agent_rollout_devices st, rd_status rd = ''queued'',
          c \<leftarrow> commands st, c_id c = rd_command_id rd \<and> c_status c \<in> set [''queued'', ''claimed'', ''expired''] \<and>
            julianday E (c_created_at c) \<le> julianday E cutoff]"

definition expire_stale :: "time \<Rightarrow> rollout_device \<Rightarrow> store \<Rightarrow> err option \<times> store" where
  "expire_stale now rd st =
     (let st = st\<lparr>commands :=
           upd_where (\<lambda>c. c_id c = rd_command_id rd \<and> (c_status c = ''queued'' \<or> c_status c = ''claimed''))
             (\<lambda>c. c\<lparr>c_status := ''expired'',
                    c_expired_at := (case c_expired_at c of Some t \<Rightarrow> Some t | None \<Rightarrow> Some now)\<rparr>) (commands st)\<rparr>
      in (None, fail_rollout_device now ''queued'' ''agent did not claim or finish the update before the deadline'' rd st))"

text \<open>The error, the number of devices that were given up, and the store.\<close>

definition ReconcileAgentRollouts :: "env \<Rightarrow> time \<Rightarrow> time \<Rightarrow> store \<Rightarrow> err option \<times> nat \<times> store" where
  "ReconcileAgentRollouts E now reconnectTimeout st =
     (let timeout = (if reconnectTimeout \<le> 0 then 5 * minute else reconnectTimeout);
          cutoff = now - timeout;
          expired = timed_out E cutoff st
      in case until_error (time_out_device E now) expired st of
           (Some e, st) \<Rightarrow> (Some e, 0, st)
         | (None, st) \<Rightarrow>
             let stale = stale_devices E cutoff st in
             (case until_error (expire_stale now) stale st of
                (Some e, st) \<Rightarrow> (Some e, length expired, st)
              | (None, st) \<Rightarrow> (None, length expired + length stale, st)))"

section \<open>The result of a command\<close>

definition FailDeviceBackup :: "time \<Rightarrow> string \<Rightarrow> string \<Rightarrow> store \<Rightarrow> store" where
  "FailDeviceBackup now commandID message st =
     st\<lparr>device_backups :=
        upd_where (\<lambda>b. b_command_id b = commandID \<and> b_status b = ''creating'')
          (\<lambda>b. b\<lparr>b_status := ''failed'', b_error := TrimSpace message, b_completed_at := Some now\<rparr>) (device_backups st)\<rparr>"

definition AddAuditEvent ::
  "env \<Rightarrow> time \<Rightarrow> string \<Rightarrow> string \<Rightarrow> string \<Rightarrow> string \<Rightarrow> RawMessage \<Rightarrow> store \<Rightarrow> audit_event res \<times> store" where
  "AddAuditEvent E now actor action deviceID commandID details st =
     (let (i, st) = randomID E ''aud'' st;
          e = \<lparr>ae_id = i, ae_actor = actor, ae_action = action, ae_device_id = deviceID, ae_command_id = commandID,
               ae_details_json = NormalizeRawJSON details, ae_created_at = now\<rparr>
      in case add_audit e st of Inl err \<Rightarrow> (Inl err, st) | Inr st \<Rightarrow> (Inr e, st))"

definition ListAuditEvents :: "env \<Rightarrow> string \<Rightarrow> int \<Rightarrow> int \<Rightarrow> store \<Rightarrow> audit_event list" where
  "ListAuditEvents E deviceID limit offset st =
     (let limit = (if limit \<le> 0 \<or> limit > 200 then 50 else limit); offset = (if offset < 0 then 0 else offset)
      in take (nat limit) (drop (nat offset) (order_by (\<lambda>x y. ts_le E (ae_created_at y) (ae_created_at x))
           (filter (\<lambda>a. TrimSpace deviceID = [] \<or> ae_device_id a = deviceID) (audit_events st)))))"

text \<open>
  The handler after the device has authenticated: the result is stored, the rollout is told, then
  an unknown command is answered as not found. The result is the HTTP status.
\<close>

definition result_details :: "string \<Rightarrow> string \<Rightarrow> RawMessage" where
  "result_details status requestID = print_json (JObj [(''request_id'', JStr requestID), (''status'', JStr status)])"

definition handleCommandResult ::
  "env \<Rightarrow> time \<Rightarrow> string \<Rightarrow> string \<Rightarrow> string \<Rightarrow> string \<Rightarrow> int \<Rightarrow> string \<Rightarrow> RawMessage \<Rightarrow> store \<Rightarrow> nat \<times> store" where
  "handleCommandResult E now requestID commandID deviceID reqStatus exitCode out result st =
     (let status = (if reqStatus = [] then ''completed'' else reqStatus) in
      if status \<noteq> ''completed'' \<and> status \<noteq> ''failed'' then (400, st)
      else let (found, st) = SaveCommandResult now commandID deviceID status exitCode out result st;
               st = HandleAgentRolloutResult now commandID status out st;
               details = result_details status requestID
           in if \<not> found
              then (404, snd (AddAuditEvent E now ''agent'' ''command.result_rejected'' deviceID commandID details st))
              else (200, snd (AddAuditEvent E now ''agent'' ''command.result'' deviceID commandID details
                     (if status = ''failed'' then FailDeviceBackup now commandID out st else st))))"

section \<open>Lemmas\<close>

lemma queue_device_Inr:
  assumes "queue_device E now r batch rd st = Inr st'"
  shows "\<exists>c. newCommand E now (rd_device_id rd) ''agent_update'' (print_json (string_map_json (update_args r rd))) (24 * hour) st
        = Inr (c, st\<lparr>draws := draws st + 2\<rparr>) \<and> c_id c \<notin> c_id ` set (commands st) \<and>
    commands st' = commands st @ [c] \<and> c_device_id c = rd_device_id rd \<and> c_type c = ''agent_update'' \<and>
    agent_rollout_devices st' = upd_where (\<lambda>x. rd_rollout_id x = r_id r \<and> rd_device_id x = rd_device_id rd)
      (\<lambda>x. x\<lparr>rd_status := ''queued'', rd_batch := batch, rd_command_id := c_id c\<rparr>) (agent_rollout_devices st) \<and>
    agent_rollouts st' = agent_rollouts st \<and> rollout_guards st' = rollout_guards st \<and>
    access_tables st' = access_tables st \<and> remote_sessions st' = remote_sessions st"
proof -
  from assms obtain c st1 st2 where
    n: "newCommand E now (rd_device_id rd) ''agent_update'' (print_json (string_map_json (update_args r rd))) (24 * hour) st = Inr (c, st1)"
    and i: "insert_command (c_max_attempts c) c st1 = Inr st2"
    and st': "st' = st2\<lparr>agent_rollout_devices :=
       upd_where (\<lambda>x. rd_rollout_id x = r_id r \<and> rd_device_id x = rd_device_id rd)
         (\<lambda>x. x\<lparr>rd_status := ''queued'', rd_batch := batch, rd_command_id := c_id c\<rparr>) (agent_rollout_devices st2)\<rparr>"
    by (auto simp: queue_device_def bindE_eq_Inr)
  have "st1 = st\<lparr>draws := draws st + 2\<rparr>" "c_device_id c = rd_device_id rd" "c_type c = ''agent_update''"
    using newCommand_Inr [OF n] by blast+
  moreover have "c\<lparr>c_max_attempts := c_max_attempts c\<rparr> = c" by simp
  ultimately show ?thesis using n i st' by (auto simp: insert_command_Inr access_tables_def)
qed

lemma queue_devices_fold:
  assumes "foldE (queue_device E now r batch) wave st = Inr st'"
  shows "\<exists>cs. commands st' = commands st @ cs \<and> map c_device_id cs = map rd_device_id wave \<and>
      (\<forall>c \<in> set cs. c_type c = ''agent_update'')"
    and "access_tables st' = access_tables st" and "agent_rollouts st' = agent_rollouts st"
    and "remote_sessions st' = remote_sessions st" and "rollout_guards st' = rollout_guards st"
    and "ed25519_ok E \<Longrightarrow> grows (command_ok E (ed_Public E (signing_key st))) (commands st) (commands st')"
proof -
  have "(\<exists>cs. commands st' = commands st @ cs \<and> map c_device_id cs = map rd_device_id wave \<and>
      (\<forall>c \<in> set cs. c_type c = ''agent_update'')) \<and> access_tables st' = access_tables st \<and>
    agent_rollouts st' = agent_rollouts st \<and> remote_sessions st' = remote_sessions st \<and>
    rollout_guards st' = rollout_guards st \<and>
    (ed25519_ok E \<longrightarrow> grows (command_ok E (ed_Public E (signing_key st))) (commands st) (commands st'))"
    using assms
  proof (induction wave arbitrary: st)
    case Nil
    then show ?case by auto
  next
    case (Cons rd wave)
    then obtain st1 where q: "queue_device E now r batch rd st = Inr st1" "foldE (queue_device E now r batch) wave st1 = Inr st'"
      by (auto simp: bindE_eq_Inr)
    from queue_device_Inr [OF q(1)] obtain c where c: "commands st1 = commands st @ [c]" "c_device_id c = rd_device_id rd"
      "c_type c = ''agent_update''" "access_tables st1 = access_tables st" "agent_rollouts st1 = agent_rollouts st"
      "remote_sessions st1 = remote_sessions st" "rollout_guards st1 = rollout_guards st"
      "c_id c \<notin> c_id ` set (commands st)"
      and n: "newCommand E now (rd_device_id rd) ''agent_update'' (print_json (string_map_json (update_args r rd))) (24 * hour) st
        = Inr (c, st\<lparr>draws := draws st + 2\<rparr>)" by blast
    have "c_max_attempts c = 3" using newCommand_Inr [OF n] by blast
    then have "c\<lparr>c_max_attempts := 3\<rparr> = c" by (cases c) simp
    then have g: "ed25519_ok E \<Longrightarrow> grows (command_ok E (ed_Public E (signing_key st))) (commands st) (commands st1)"
      using newCommand_ok [OF _ n, of 3] c(1,8) by (auto intro: grows_insert)
    have k: "signing_key st1 = signing_key st" by (rule access_tables_cong(5) [OF c(4)])
    note ih = Cons.IH [OF q(2)]
    then obtain cs where cs: "commands st' = commands st1 @ cs" "map c_device_id cs = map rd_device_id wave"
      "\<forall>c \<in> set cs. c_type c = ''agent_update''" by blast
    have "\<exists>cs. commands st' = commands st @ cs \<and> map c_device_id cs = map rd_device_id (rd # wave) \<and>
      (\<forall>c \<in> set cs. c_type c = ''agent_update'')"
      using c cs by (intro exI [of _ "c # cs"]) auto
    moreover have "ed25519_ok E \<longrightarrow> grows (command_ok E (ed_Public E (signing_key st))) (commands st) (commands st')"
      using g ih cmd.grows_trans by (auto simp: k)
    ultimately show ?case using ih c by simp
  qed
  then show "\<exists>cs. commands st' = commands st @ cs \<and> map c_device_id cs = map rd_device_id wave \<and>
      (\<forall>c \<in> set cs. c_type c = ''agent_update'')"
    and "access_tables st' = access_tables st" and "agent_rollouts st' = agent_rollouts st"
    and "remote_sessions st' = remote_sessions st" and "rollout_guards st' = rollout_guards st"
    and "ed25519_ok E \<Longrightarrow> grows (command_ok E (ed_Public E (signing_key st))) (commands st) (commands st')" by blast+
qed

lemma upd_guard_fields [simp]:
  "commands (upd_guard rid f st) = commands st" "access_tables (upd_guard rid f st) = access_tables st"
  "agent_rollout_devices (upd_guard rid f st) = agent_rollout_devices st"
  "agent_rollouts (upd_guard rid f st) = agent_rollouts st" "remote_sessions (upd_guard rid f st) = remote_sessions st"
  by (simp_all add: upd_guard_def access_tables_def)

lemma pauseGuardedRollout_fields [simp]:
  "commands (pauseGuardedRollout now rid reason st) = commands st"
  "access_tables (pauseGuardedRollout now rid reason st) = access_tables st"
  "agent_rollout_devices (pauseGuardedRollout now rid reason st) = agent_rollout_devices st"
  "remote_sessions (pauseGuardedRollout now rid reason st) = remote_sessions st"
  by (simp_all add: pauseGuardedRollout_def access_tables_def)

lemma complete_rollout_fields [simp]:
  "commands (complete_rollout now rid st) = commands st" "access_tables (complete_rollout now rid st) = access_tables st"
  "remote_sessions (complete_rollout now rid st) = remote_sessions st"
  by (simp_all add: complete_rollout_def access_tables_def)

lemma guardReady_fields:
  "guardReady now rid version g st = (ready, st') \<Longrightarrow>
   commands st' = commands st \<and> access_tables st' = access_tables st \<and> remote_sessions st' = remote_sessions st \<and>
   agent_rollout_devices st' = agent_rollout_devices st"
  by (auto simp: guardReady_def observe_wave_def Let_def split: if_splits verdict.splits option.splits)

lemma queue_wave_Inr:
  assumes "queue_wave E now r guard st = Inr st'"
  shows "access_tables st' = access_tables st" and "remote_sessions st' = remote_sessions st"
    and "ed25519_ok E \<Longrightarrow> grows (command_ok E (ed_Public E (signing_key st))) (commands st) (commands st')"
    and "\<exists>cs. commands st' = commands st @ cs \<and> (\<forall>c \<in> set cs. c_type c = ''agent_update'') \<and>
      (cs = [] \<or> (\<exists>wave. map c_device_id cs = map rd_device_id wave \<and>
        wave = (let pending = pending_devices (r_id r) (case guard of None \<Rightarrow> nat (r_batch_size r) | Some _ \<Rightarrow> 500) st
                in case guard of None \<Rightarrow> pending | Some g \<Rightarrow> guarded_wave (rg_definition g) (max_batch (r_id r) st + 1) pending)))"
proof -
  have "access_tables st' = access_tables st \<and> remote_sessions st' = remote_sessions st \<and>
    (ed25519_ok E \<longrightarrow> grows (command_ok E (ed_Public E (signing_key st))) (commands st) (commands st')) \<and>
    (\<exists>cs. commands st' = commands st @ cs \<and> (\<forall>c \<in> set cs. c_type c = ''agent_update'') \<and>
      (cs = [] \<or> (\<exists>wave. map c_device_id cs = map rd_device_id wave \<and>
        wave = (let pending = pending_devices (r_id r) (case guard of None \<Rightarrow> nat (r_batch_size r) | Some _ \<Rightarrow> 500) st
                in case guard of None \<Rightarrow> pending | Some g \<Rightarrow> guarded_wave (rg_definition g) (max_batch (r_id r) st + 1) pending))))"
  proof -
    let ?p = "pending_devices (r_id r) (case guard of None \<Rightarrow> nat (r_batch_size r) | Some _ \<Rightarrow> 500) st"
    let ?w = "case guard of None \<Rightarrow> ?p | Some g \<Rightarrow> guarded_wave (rg_definition g) (max_batch (r_id r) st + 1) ?p"
    let ?s = "case guard of None \<Rightarrow> st | Some g \<Rightarrow> upd_guard (r_id r) (\<lambda>g. g\<lparr>rg_healthy_since := None, rg_pause_reason := []\<rparr>) st"
    from assms obtain st1 where q: "foldE (queue_device E now r (max_batch (r_id r) st + 1)) ?w ?s = Inr st1"
      and st': "st' = (if ?w = [] then complete_rollout now (r_id r) st1 else st1)"
      by (cases guard) (auto simp: queue_wave_def Let_def bindE_eq_Inr)
    note f = queue_devices_fold [OF q]
    have s: "commands ?s = commands st" "access_tables ?s = access_tables st" "remote_sessions ?s = remote_sessions st"
      by (cases guard; simp)+
    note k = access_tables_cong(5) [OF s(2)]
    have e: "commands st' = commands st1" "access_tables st' = access_tables st1" "remote_sessions st' = remote_sessions st1"
      by (simp_all add: st')
    show ?thesis using f unfolding e s k Let_def by blast
  qed
  then show "access_tables st' = access_tables st" and "remote_sessions st' = remote_sessions st"
    and "ed25519_ok E \<Longrightarrow> grows (command_ok E (ed_Public E (signing_key st))) (commands st) (commands st')"
    and "\<exists>cs. commands st' = commands st @ cs \<and> (\<forall>c \<in> set cs. c_type c = ''agent_update'') \<and>
      (cs = [] \<or> (\<exists>wave. map c_device_id cs = map rd_device_id wave \<and>
        wave = (let pending = pending_devices (r_id r) (case guard of None \<Rightarrow> nat (r_batch_size r) | Some _ \<Rightarrow> 500) st
                in case guard of None \<Rightarrow> pending | Some g \<Rightarrow> guarded_wave (rg_definition g) (max_batch (r_id r) st + 1) pending)))"
    by blast+
qed

lemma queueRolloutBatch_cases:
  assumes "queueRolloutBatch E now rid st = Inr st'"
  obtains (same) "st' = st"
  | (plain) r where "queue_wave E now r None st = Inr st'"
  | (waiting) version g where "guardReady now rid version g st = (False, st')"
  | (guarded) r version g st1 where "guardReady now rid version g st = (True, st1)" "queue_wave E now r (Some g) st1 = Inr st'"
proof -
  obtain r where r: "find_row (\<lambda>r. r_id r = rid) (agent_rollouts st) = Some r"
    using assms by (cases "find_row (\<lambda>r. r_id r = rid) (agent_rollouts st)") (simp_all add: queueRolloutBatch_def)
  note q = assms [unfolded queueRolloutBatch_def r option.case]
  show thesis
  proof (cases "r_status r = ''running''")
    case False
    with q same show thesis by simp
  next
    case run: True
    show thesis
    proof (cases "loadRolloutGuard rid st")
      case None
      with q run have "(if batch_active rid st then Inr st else queue_wave E now r None st) = Inr st'" by simp
      then show thesis using plain same by (cases "batch_active rid st") auto
    next
      case (Some g)
      obtain ready st1 where gr: "guardReady now rid (r_target_version r) g st = (ready, st1)" by fastforce
      show thesis
      proof (cases ready)
        case True
        show thesis
        proof (cases "batch_active rid st1")
          case act: True
          with q run Some gr True have "st' = st" by simp
          then show thesis by (rule same)
        next
          case act: False
          with q run Some gr True have "queue_wave E now r (Some g) st1 = Inr st'" by simp
          with gr [unfolded True [THEN iffD2 [OF eq_True]]] show thesis by (rule guarded)
        qed
      next
        case False
        with q run Some gr waiting [of "r_target_version r" g] show thesis by simp
      qed
    qed
  qed
qed

lemma queueRolloutBatch_fields:
  assumes "queueRolloutBatch E now rid st = Inr st'"
  shows "access_tables st' = access_tables st \<and> remote_sessions st' = remote_sessions st \<and>
    (ed25519_ok E \<longrightarrow> grows (command_ok E (ed_Public E (signing_key st))) (commands st) (commands st'))"
  using assms
proof (cases rule: queueRolloutBatch_cases)
  case same
  then show ?thesis by simp
next
  case (plain r)
  from queue_wave_Inr(1-3) [OF plain] show ?thesis by blast
next
  case (waiting version g)
  from guardReady_fields [OF waiting] show ?thesis by simp
next
  case (guarded r version g st1)
  note f = guardReady_fields [OF guarded(1)]
  then have k: "signing_key st1 = signing_key st" using access_tables_cong(5) by blast
  from queue_wave_Inr(1-3) [OF guarded(2)] f show ?thesis by (simp add: k)
qed

lemma wave_verdict_Healthy:
  "wave_verdict now version vs = Healthy \<longleftrightarrow>
   (\<forall>(rd, d) \<in> set vs. rd_status rd = ''completed'' \<and> version_confirmed now version d \<and> \<not> connectivity_lost d)"
  by (induction now version vs rule: wave_verdict.induct) auto

text \<open>What it takes to leave a wave behind.\<close>

definition wave_healthy :: "time \<Rightarrow> string \<Rightarrow> string \<Rightarrow> rollout_guard \<Rightarrow> store \<Rightarrow> bool" where
  "wave_healthy now rid version g st \<longleftrightarrow>
     (\<forall>(rd, d) \<in> set (wave_samples rid (max_batch rid st) st).
        rd_status rd = ''completed'' \<and> version_confirmed now version d \<and> \<not> connectivity_lost d) \<and>
     (\<exists>t. rg_healthy_since g = Some t \<and> now - t \<ge> g_ObservationSeconds (rg_definition g) * second) \<and>
     (\<forall>t. rg_last_checked_at g = Some t \<longrightarrow> now - t \<le> 2 * minute)"

lemma guardReady_True:
  assumes "guardReady now rid version g st = (True, st')"
  shows "max_batch rid st = 0 \<and> st' = st \<or> max_batch rid st \<noteq> 0 \<and> wave_healthy now rid version g st"
proof (cases "max_batch rid st = 0")
  case True
  with assms show ?thesis by (simp add: guardReady_def)
next
  case False
  with assms have h: "wave_verdict now version (wave_samples rid (max_batch rid st) st) = Healthy"
    and o: "observe_wave now rid (max_batch rid st) g st = (True, st')"
    by (auto simp: guardReady_def Let_def split: if_splits verdict.splits)
  from o have "(\<exists>t. rg_healthy_since g = Some t \<and> now - t \<ge> g_ObservationSeconds (rg_definition g) * second) \<and>
     (\<forall>t. rg_last_checked_at g = Some t \<longrightarrow> now - t \<le> 2 * minute)"
    by (auto simp: observe_wave_def Let_def split: option.splits if_splits)
  with False h show ?thesis unfolding wave_healthy_def wave_verdict_Healthy by blast
qed

lemma pending_devices_pending:
  "rd \<in> set (pending_devices rid n st) \<Longrightarrow>
   rd \<in> set (agent_rollout_devices st) \<and> rd_rollout_id rd = rid \<and> rd_status rd = ''pending''"
  by (auto simp: pending_devices_def dest: in_set_takeD)

lemma max_batch_cong: "agent_rollout_devices st' = agent_rollout_devices st \<Longrightarrow> max_batch rid st' = max_batch rid st"
  by (simp add: max_batch_def)


text \<open>A guarded rollout of one canary.\<close>

definition sample_guard :: rollout_guard where
  "sample_guard =
     \<lparr>rg_rollout_id = ''r1'', rg_definition = \<lparr>g_RequestKey = [], g_CanaryIDs = [''dev''], g_WaveSizes = [2], g_ObservationSeconds = 60\<rparr>,
      rg_request_hash = [], rg_wave_observed = 0, rg_healthy_since = None, rg_last_checked_at = None, rg_pause_reason = []\<rparr>"

definition sample_rollout :: "int \<Rightarrow> string \<Rightarrow> store" where
  "sample_rollout threshold status = sample_store
     \<lparr>agent_rollouts := [\<lparr>r_id = ''r1'', r_channel = ''stable'', r_target_version = ''2.0'', r_batch_size = 1,
        r_failure_threshold = threshold, r_status = ''running'', r_failure_count = 0, r_created_at = 0, r_updated_at = 0\<rparr>],
      agent_rollout_devices := [\<lparr>rd_rollout_id = ''r1'', rd_device_id = ''dev'', rd_feed_url = [], rd_package_manager = ''apk'',
        rd_package_version = ''2.0'', rd_manifest_url = [], rd_signature_url = [], rd_batch = 1, rd_status = status,
        rd_command_id = ''c1'', rd_last_error = []\<rparr>],
      rollout_guards := [sample_guard],
      commands := [(sample_command ''c1'')\<lparr>c_type := ''agent_update'', c_status := ''claimed''\<rparr>]\<rparr>"


section \<open>Results and rollouts\<close>

lemma HandleAgentRolloutResult_fields [simp]:
  "commands (HandleAgentRolloutResult now c s out st) = commands st"
  "access_tables (HandleAgentRolloutResult now c s out st) = access_tables st"
  "remote_sessions (HandleAgentRolloutResult now c s out st) = remote_sessions st"
  by (simp_all add: HandleAgentRolloutResult_def access_tables_def Let_def split: option.splits)

lemma AddAuditEvent_fields [simp]:
  "commands (snd (AddAuditEvent E now a b c d e st)) = commands st"
  "access_tables (snd (AddAuditEvent E now a b c d e st)) = access_tables st"
  "remote_sessions (snd (AddAuditEvent E now a b c d e st)) = remote_sessions st"
  "agent_rollouts (snd (AddAuditEvent E now a b c d e st)) = agent_rollouts st"
  "agent_rollout_devices (snd (AddAuditEvent E now a b c d e st)) = agent_rollout_devices st"
  "device_backups (snd (AddAuditEvent E now a b c d e st)) = device_backups st"
  by (auto simp: AddAuditEvent_def Let_def randomID_def add_audit_def insert_row_def access_tables_def)

lemma FailDeviceBackup_fields [simp]:
  "commands (FailDeviceBackup now c m st) = commands st" "access_tables (FailDeviceBackup now c m st) = access_tables st"
  "remote_sessions (FailDeviceBackup now c m st) = remote_sessions st"
  by (simp_all add: FailDeviceBackup_def access_tables_def)

text \<open>
  The handler tells the rollout about a result before it looks whether the device may report it: a
  result for a command of another device is answered as not found and still fails the device of
  the rollout and pauses the rollout.
\<close>

lemma rejected_result_pauses_rollout:
  "let (code, st) = handleCommandResult sample_env minute ''q'' ''c1'' ''other'' ''failed'' 1 ''boom'' [] (sample_rollout 1 ''queued'')
   in code = 404 \<and> map rd_status (agent_rollout_devices st) = [''failed''] \<and> map r_status (agent_rollouts st) = [''paused''] \<and>
      commands st = commands (sample_rollout 1 ''queued'')"
  by (simp add: handleCommandResult_def SaveCommandResult_def finishable_def has_row_def HandleAgentRolloutResult_def
      sample_rollout_def sample_command_def Let_def)

text \<open>The same failed result delivered twice counts as two failures of the rollout.\<close>

lemma repeated_result_counts_twice:
  "let st1 = snd (handleCommandResult sample_env minute ''q'' ''c1'' ''dev'' ''failed'' 1 ''boom'' [] (sample_rollout 5 ''queued''));
       st2 = snd (handleCommandResult sample_env minute ''q'' ''c1'' ''dev'' ''failed'' 1 ''boom'' [] st1)
   in map r_failure_count (agent_rollouts st1) = [1] \<and> map r_failure_count (agent_rollouts st2) = [2]"
proof -
  have a: "agent_rollouts (snd (handleCommandResult sample_env now ''q'' i d ''failed'' x out' r st)) =
      agent_rollouts (HandleAgentRolloutResult now i ''failed'' out' st)"
    "agent_rollout_devices (snd (handleCommandResult sample_env now ''q'' i d ''failed'' x out' r st)) =
      agent_rollout_devices (HandleAgentRolloutResult now i ''failed'' out' st)" for now i d x out' r st
  proof -
    obtain f s1 where S: "SaveCommandResult now i d ''failed'' x out' r st = (f, s1)" by fastforce
    then have e: "agent_rollouts s1 = agent_rollouts st" "agent_rollout_devices s1 = agent_rollout_devices st"
      by (auto simp: SaveCommandResult_def updateRemoteSessionFromCommandResult_def Let_def)
    have "agent_rollouts (snd (handleCommandResult sample_env now ''q'' i d ''failed'' x out' r st)) =
        agent_rollouts (HandleAgentRolloutResult now i ''failed'' out' s1)"
      "agent_rollout_devices (snd (handleCommandResult sample_env now ''q'' i d ''failed'' x out' r st)) =
        agent_rollout_devices (HandleAgentRolloutResult now i ''failed'' out' s1)"
      by (simp_all add: handleCommandResult_def S FailDeviceBackup_def Let_def)
    then show "agent_rollouts (snd (handleCommandResult sample_env now ''q'' i d ''failed'' x out' r st)) =
      agent_rollouts (HandleAgentRolloutResult now i ''failed'' out' st)"
    "agent_rollout_devices (snd (handleCommandResult sample_env now ''q'' i d ''failed'' x out' r st)) =
      agent_rollout_devices (HandleAgentRolloutResult now i ''failed'' out' st)"
      by (simp_all add: HandleAgentRolloutResult_def e Let_def split: option.split)
  qed
  show ?thesis unfolding Let_def a
    by (simp add: HandleAgentRolloutResult_def Let_def a sample_rollout_def)
qed

text \<open>A heartbeat that confirms a failed update resumes a paused rollout, guarded or not.\<close>

lemma heartbeat_resumes_paused_rollout:
  assumes "\<not> postgres E" and "r \<in> set (agent_rollouts st)" and "r_status r = ''paused''" and "r_failure_count r \<le> r_failure_threshold r"
  shows "\<exists>st' r'. recover_rollout E now (r_id r) st = Inr st' \<and> r' \<in> set (agent_rollouts st') \<and> r_id r' = r_id r \<and>
    r_status r' = ''running'' \<and> rollout_guards st' = rollout_guards st"
proof -
  let ?f = "\<lambda>r. r\<lparr>r_failure_count := max (r_failure_count r - 1) 0,
      r_status := (if r_status r = ''paused'' \<and> r_failure_count r - 1 < r_failure_threshold r then ''running'' else r_status r),
      r_updated_at := now\<rparr>"
  have "?f r \<in> set (upd_where (\<lambda>x. r_id x = r_id r) ?f (agent_rollouts st))"
    using assms(2) by (auto simp: upd_where_def image_iff intro!: bexI [of _ r])
  with assms show ?thesis by (auto simp: recover_rollout_def intro!: bexI [of _ "?f r"])
qed

text \<open>
  A device that reports \<open>null\<close> as the result of its update makes the reconnect check panic once the
  deadline has passed.
\<close>

lemma null_result_panics:
  "let st = snd (handleCommandResult sample_env minute ''q'' ''c1'' ''dev'' ''completed'' 0 [] ''null'' (sample_rollout 1 ''queued''))
   in fst (ReconcileAgentRollouts sample_env hour (5 * minute) st) = Some (Panic ''assignment to entry in nil map'')"
proof -
  have n: "NormalizeRawJSON ''null'' = ''null''" "any_map sample_env ''null'' = None" by code_simp+
  obtain st where st: "snd (handleCommandResult sample_env minute ''q'' ''c1'' ''dev'' ''completed'' 0 [] ''null'' (sample_rollout 1 ''queued'')) = st"
    by blast
  have "commands st = [(sample_command ''c1'')\<lparr>c_type := ''agent_update'', c_status := ''completed'', c_result_json := ''null'',
        c_output := RedactSensitiveOutput [], c_exit_code := Some 0, c_completed_at := Some minute\<rparr>]"
    "map rd_status (agent_rollout_devices st) = [''waiting_reconnect'']" "map rd_command_id (agent_rollout_devices st) = [''c1'']"
    unfolding st [symmetric]
    by (simp_all add: handleCommandResult_def SaveCommandResult_def finishable_def has_row_def HandleAgentRolloutResult_def
        updateRemoteSessionFromCommandResult_def sample_rollout_def sample_command_def Let_def n)
  then have "\<exists>rd c. timed_out sample_env (hour - 5 * minute) st = [(rd, c)] \<and> c_result_json c = ''null''"
    by (auto simp: timed_out_def map_eq_Cons_conv expired_by_def sample_env_def crypto.defs sample_command_def)
  then show ?thesis unfolding st Let_def
    by (auto simp: ReconcileAgentRollouts_def time_out_device_def n)
qed

end
