(* ===== verification/Incidents.thy ===== *)
theory Incidents
  imports FleetOperations
begin

text \<open>
  Alerts and incidents (\<open>SyncDeviceAlerts\<close>, \<open>ListAlerts\<close>, \<open>AcknowledgeAlert\<close>, \<open>GetAlert\<close> and
  \<open>PurgeAlerts\<close> of \<open>sqlite.go\<close>; \<open>incidents.go\<close>): the conditions observed on a device are sources
  of incidents, correlated by category. The lemmas show that the incidents refine the abstract
  statement ``an incident is open only while a condition of its category is observed'', that a
  repeated observation changes no incident and writes no event, and that only a new activation
  reopens a resolved incident.
\<close>

section \<open>Correlation\<close>

definition incidentCategory :: "string \<Rightarrow> string \<Rightarrow> string" where
  "incidentCategory kind service =
     (if kind \<in> set [''offline'', ''wan_unreachable'', ''wan_down'', ''packet_loss_high'', ''latency_high'',
                    ''connectivity'', ''dns'', ''wan''] then ''network''
      else if kind \<in> set [''load_high'', ''memory_high''] then ''resources''
      else if kind = ''service_down'' then ''service:'' @ service
      else kind)"

text \<open>The foreign keys of the tables are checked; the identifiers are fresh random numbers.\<close>

definition incidentEvent ::
  "env \<Rightarrow> time \<Rightarrow> string \<Rightarrow> string \<Rightarrow> string \<Rightarrow> string \<Rightarrow> store \<Rightarrow> store res" where
  "incidentEvent E now incident actor action body st =
     (let (key, st) = randomID E ''incident_event'' st in
      if \<not> has_row (\<lambda>i. i_id i = incident) (incidents st) then Inl (ErrConstraint ''foreign key'')
      else bindE (insert_row ie_id
             \<lparr>ie_id = key, ie_incident_id = incident, ie_actor = actor, ie_action = action, ie_body = body,
              ie_created_at = now\<rparr> (incident_events st))
             (\<lambda>es. Inr (st\<lparr>incident_events := es\<rparr>)))"

definition was_active :: "string \<Rightarrow> string \<Rightarrow> store \<Rightarrow> bool" where
  "was_active device source st =
     (case find_row (\<lambda>s. is_device_id s = device \<and> is_source_key s = source) (incident_sources st) of
        None \<Rightarrow> False
      | Some s \<Rightarrow> is_active s)"

definition put_source :: "time \<Rightarrow> string \<Rightarrow> string \<Rightarrow> string \<Rightarrow> bool \<Rightarrow> store \<Rightarrow> store res" where
  "put_source now device source category active st =
     (if \<not> has_row (\<lambda>d. d_id d = device) (devices st) then Inl (ErrConstraint ''foreign key'')
      else Inr (st\<lparr>incident_sources :=
             upsert_row (\<lambda>s. (is_device_id s, is_source_key s))
               (\<lambda>old new. old\<lparr>is_category := is_category new, is_active := is_active new, is_updated_at := is_updated_at new\<rparr>)
               \<lparr>is_device_id = device, is_source_key = source, is_category = category, is_active = active,
                is_updated_at = now\<rparr> (incident_sources st)\<rparr>))"

definition active_sources :: "string \<Rightarrow> string \<Rightarrow> store \<Rightarrow> nat" where
  "active_sources device category st =
     count_where (\<lambda>s. is_device_id s = device \<and> is_category s = category \<and> is_active s) (incident_sources st)"

definition insert_incident ::
  "time \<Rightarrow> string \<Rightarrow> string \<Rightarrow> string \<Rightarrow> string \<Rightarrow> store \<Rightarrow> store res" where
  "insert_incident now incident device category title st =
     (if has_row (\<lambda>i. i_device_id i = device \<and> i_source_key i = category) (incidents st)
      then Inl (ErrConstraint ''unique'')
      else bindE (insert_row i_id
             \<lparr>i_id = incident, i_device_id = device, i_source_key = category, i_title = title, i_status = ''open'',
              i_assignee_id = [], i_occurrences = 1, i_opened_at = now, i_updated_at = now, i_resolved_at = None\<rparr>
             (incidents st)) (\<lambda>is. Inr (st\<lparr>incidents := is\<rparr>)))"

definition upd_incident :: "string \<Rightarrow> (incident \<Rightarrow> incident) \<Rightarrow> store \<Rightarrow> store" where
  "upd_incident incident f st = st\<lparr>incidents := upd_where (\<lambda>i. i_id i = incident) f (incidents st)\<rparr>"

text \<open>The Russian text of the recovery event, in UTF-8.\<close>

definition recovered_text :: string where
  "recovered_text = of_bytes
     [208,146,209,129,208,181,32,209,129,208,178,209,143,208,183,208,176,208,189,208,189,209,139,208,181,32,
      208,189,208,176,208,177,208,187,209,142,208,180,208,176,208,181,208,188,209,139,208,181,32,209,131,209,129,
      208,187,208,190,208,178,208,184,209,143,32,208,178,208,190,209,129,209,129,209,130,208,176,208,189,208,190,
      208,178,208,184,208,187,208,184,209,129,209,140]"

text \<open>The first incident of a category, and the step of a known incident; \<open>n\<close> counts the active sources.\<close>

definition first_incident ::
  "env \<Rightarrow> time \<Rightarrow> string \<Rightarrow> string \<Rightarrow> string \<Rightarrow> string \<Rightarrow> nat \<Rightarrow> store \<Rightarrow> store res" where
  "first_incident E now device source category title n st =
     (if n = 0 then Inr st
      else let (incident, st) = randomID E ''incident'' st
           in bindE (insert_incident now incident device category title st)
                (incidentEvent E now incident ''system'' ''opened'' source))"

definition known_incident ::
  "env \<Rightarrow> time \<Rightarrow> string \<Rightarrow> bool \<Rightarrow> nat \<Rightarrow> incident \<Rightarrow> store \<Rightarrow> store res" where
  "known_incident E now source activated n i st =
     (if n = 0 \<and> i_status i \<noteq> ''resolved'' then
        incidentEvent E now (i_id i) ''system'' ''recovered'' recovered_text
          (upd_incident (i_id i) (\<lambda>i. i\<lparr>i_status := ''resolved'', i_resolved_at := Some now, i_updated_at := now\<rparr>) st)
      else if activated then
        (if i_status i = ''resolved'' then
           incidentEvent E now (i_id i) ''system'' ''reopened'' source
             (upd_incident (i_id i)
                (\<lambda>i. i\<lparr>i_status := ''open'', i_resolved_at := None, i_opened_at := now,
                       i_occurrences := i_occurrences i + 1, i_updated_at := now\<rparr>) st)
         else incidentEvent E now (i_id i) ''system'' ''condition_added'' source st)
      else Inr st)"

definition syncIncidentSource ::
  "env \<Rightarrow> time \<Rightarrow> string \<Rightarrow> string \<Rightarrow> string \<Rightarrow> string \<Rightarrow> bool \<Rightarrow> store \<Rightarrow> store res" where
  "syncIncidentSource E now device source category title active st =
     (let wasActive = was_active device source st in
      bindE (put_source now device source category active st) (\<lambda>st.
        let n = active_sources device category st in
        case find_row (\<lambda>i. i_device_id i = device \<and> i_source_key i = category) (incidents st) of
          None \<Rightarrow> first_incident E now device source category title n st
        | Some i \<Rightarrow> known_incident E now source (active \<and> \<not> wasActive) n i st))"

definition SyncAlertIncidents :: "env \<Rightarrow> time \<Rightarrow> string \<Rightarrow> store \<Rightarrow> store res" where
  "SyncAlertIncidents E now deviceID st =
     foldE (\<lambda>a. syncIncidentSource E now deviceID (''alert:'' @ a_id a) (incidentCategory (a_type a) [])
                  (a_message a) (a_status a \<noteq> ''resolved''))
       (filter (\<lambda>a. a_device_id a = deviceID) (alerts st)) st"

section \<open>Alerts\<close>

definition open_alert :: "string \<Rightarrow> bool" where
  "open_alert s \<longleftrightarrow> s = ''active'' \<or> s = ''acknowledged''"

text \<open>The row of an observed alert and the \<open>ON CONFLICT(id)\<close> clause.\<close>

definition alert_row :: "time \<Rightarrow> string \<Rightarrow> alert \<Rightarrow> alert" where
  "alert_row now deviceID a =
     \<lparr>a_id = a_id a, a_device_id = deviceID, a_type = a_type a, a_severity = a_severity a, a_status = ''active'',
      a_message = a_message a, a_details_json = NormalizeRawJSON (a_details_json a), a_first_seen_at = now,
      a_last_seen_at = now, a_resolved_at = None, a_acknowledged_at = None, a_acknowledged_by = [],
      a_created_at = now, a_updated_at = now\<rparr>"

definition merge_alert :: "alert \<Rightarrow> alert \<Rightarrow> alert" where
  "merge_alert old new =
     old\<lparr>a_severity := a_severity new,
         a_status := (if a_status old = ''acknowledged'' then ''acknowledged'' else ''active''),
         a_message := a_message new, a_details_json := a_details_json new,
         a_first_seen_at := (if a_status old = ''resolved'' then a_first_seen_at new else a_first_seen_at old),
         a_last_seen_at := a_last_seen_at new, a_resolved_at := None, a_updated_at := a_updated_at new\<rparr>"

definition put_alerts :: "time \<Rightarrow> string \<Rightarrow> alert list \<Rightarrow> alert list \<Rightarrow> alert list" where
  "put_alerts now deviceID active rows =
     fold (\<lambda>a. upsert_row a_id merge_alert (alert_row now deviceID a)) active rows"

definition resolve_alerts :: "time \<Rightarrow> string \<Rightarrow> string list \<Rightarrow> alert list \<Rightarrow> alert list" where
  "resolve_alerts now deviceID activeIDs rows =
     upd_where (\<lambda>a. a_device_id a = deviceID \<and> open_alert (a_status a) \<and> a_id a \<notin> set activeIDs)
       (\<lambda>a. a\<lparr>a_status := ''resolved'', a_resolved_at := Some now, a_updated_at := now\<rparr>) rows"

definition ListAlerts :: "env \<Rightarrow> string \<Rightarrow> string \<Rightarrow> int \<Rightarrow> store \<Rightarrow> alert list" where
  "ListAlerts E deviceID status limit st =
     (let limit = (if limit \<le> 0 \<or> limit > 500 then 100 else limit);
          status = TrimSpace status;
          status = (if status = [] then ''open'' else status)
      in take (nat limit) (order_by (\<lambda>x y. ts_le E (a_last_seen_at y) (a_last_seen_at x))
           (filter (\<lambda>a. (TrimSpace deviceID \<noteq> [] \<longrightarrow> a_device_id a = deviceID) \<and>
                (if status = ''open'' then open_alert (a_status a)
                 else status \<noteq> ''all'' \<longrightarrow> a_status a = status)) (alerts st))))"

text \<open>
  The statements run one by one, outside a transaction: an error of the incident step leaves the
  alerts written. The result is \<open>None\<close> for an unknown device.
\<close>

definition SyncDeviceAlerts ::
  "env \<Rightarrow> time \<Rightarrow> string \<Rightarrow> alert list \<Rightarrow> store \<Rightarrow> ((alert list) res) option \<times> store" where
  "SyncDeviceAlerts E now deviceID active st =
     (if \<not> has_row (\<lambda>d. d_id d = deviceID) (devices st) then (None, st)
      else let st = st\<lparr>alerts := resolve_alerts now deviceID (map a_id active) (put_alerts now deviceID active (alerts st))\<rparr>
           in case SyncAlertIncidents E now deviceID st of
                Inl e \<Rightarrow> (Some (Inl e), st)
              | Inr st \<Rightarrow> (Some (Inr (ListAlerts E deviceID ''open'' 100 st)), st))"

definition GetAlert :: "string \<Rightarrow> string \<Rightarrow> store \<Rightarrow> alert option" where
  "GetAlert deviceID alertID st = find_row (\<lambda>a. a_device_id a = deviceID \<and> a_id a = alertID) (alerts st)"

definition AcknowledgeAlert ::
  "time \<Rightarrow> string \<Rightarrow> string \<Rightarrow> string \<Rightarrow> store \<Rightarrow> (alert \<times> bool) option \<times> store" where
  "AcknowledgeAlert now deviceID alertID actor st =
     (let actor = TrimSpace actor;
          actor = (if actor = [] then ''operator'' else actor);
          p = (\<lambda>a. a_id a = alertID \<and> a_device_id a = deviceID \<and> a_status a = ''active'');
          st' = st\<lparr>alerts :=
            upd_where p (\<lambda>a. a\<lparr>a_status := ''acknowledged'', a_acknowledged_at := Some now,
                               a_acknowledged_by := actor, a_updated_at := now\<rparr>) (alerts st)\<rparr>
      in (map_option (\<lambda>a. (a, count_where p (alerts st) > 0)) (GetAlert deviceID alertID st'), st'))"

definition PurgeAlerts :: "string \<Rightarrow> store \<Rightarrow> nat \<times> store" where
  "PurgeAlerts deviceID st =
     (let deviceID = TrimSpace deviceID; p = (\<lambda>a. deviceID \<noteq> [] \<longrightarrow> a_device_id a = deviceID)
      in (count_where p (alerts st), st\<lparr>alerts := del_where p (alerts st)\<rparr>))"

section \<open>Incidents\<close>

definition events_of :: "string \<Rightarrow> store \<Rightarrow> incident_event list" where
  "events_of incident st =
     take 100 (order_by (\<lambda>x y. RFC3339Nano (ie_created_at y) < RFC3339Nano (ie_created_at x) \<or>
           RFC3339Nano (ie_created_at y) = RFC3339Nano (ie_created_at x) \<and> ie_id y \<le> ie_id x)
        (filter (\<lambda>e. ie_incident_id e = incident) (incident_events st)))"

text \<open>The limit counts the rows of the owner's devices before the policy hides some of them.\<close>

definition ListIncidents :: "string \<Rightarrow> store \<Rightarrow> ((incident \<times> incident_event list) list) res" where
  "ListIncidents userID st =
     bindE (fleetPrincipal st userID) (\<lambda>admin.
       let rows = take 200 (order_by (\<lambda>x y. text_le (i_updated_at y) (i_updated_at x))
             (filter (\<lambda>i. has_row (\<lambda>d. d_id d = i_device_id i \<and> (d_owner_user_id d = userID \<or> admin)) (devices st))
                (incidents st)))
       in Inr (map (\<lambda>i. (i, events_of (i_id i) st))
                 (filter (\<lambda>i. permissionAllowed st userID (i_device_id i) ''view'' admin = Inr ()) rows)))"

definition incident_request :: "string \<Rightarrow> string \<Rightarrow> unit res" where
  "incident_request action body =
     (if length body > 2048 then Inl (ErrMsg ''incident text too long'')
      else if action \<notin> set [''acknowledge'', ''resolve'', ''assign'', ''comment''] then Inl (ErrMsg ''invalid incident action'')
      else if action = ''comment'' \<and> body = [] then Inl (ErrMsg ''comment required'')
      else Inr ())"

definition apply_action ::
  "time \<Rightarrow> string \<Rightarrow> string \<Rightarrow> incident \<Rightarrow> store \<Rightarrow> store res" where
  "apply_action now action body i st =
     (if action = ''assign'' then
        bindE (if body = [] then Inr ()
               else bindE (fleetPrincipal st body) (permissionAllowed st body (i_device_id i) ''incidents''))
          (\<lambda>_. Inr (upd_incident (i_id i) (\<lambda>i. i\<lparr>i_assignee_id := body, i_updated_at := now\<rparr>) st))
      else if action = ''acknowledge'' then
        (if i_status i = ''resolved'' then Inl (ErrMsg ''incident already resolved'')
         else Inr (upd_incident (i_id i) (\<lambda>i. i\<lparr>i_status := ''acknowledged'', i_updated_at := now\<rparr>) st))
      else if action = ''resolve'' then
        Inr (upd_incident (i_id i) (\<lambda>i. i\<lparr>i_status := ''resolved'', i_resolved_at := Some now, i_updated_at := now\<rparr>) st)
      else Inr (upd_incident (i_id i) (\<lambda>i. i\<lparr>i_updated_at := now\<rparr>) st))"

definition UpdateIncident ::
  "env \<Rightarrow> time \<Rightarrow> string \<Rightarrow> string \<Rightarrow> string \<Rightarrow> string \<Rightarrow> store \<Rightarrow> store res" where
  "UpdateIncident E now userID incident action body st =
     (let body = TrimSpace body in
      bindE (incident_request action body) (\<lambda>_.
      bindE (fleetPrincipal st userID) (\<lambda>admin.
        case find_row (\<lambda>i. i_id i = incident) (incidents st) of
          None \<Rightarrow> Inl ErrFleetAccess
        | Some i \<Rightarrow>
            bindE (permissionAllowed st userID (i_device_id i) ''incidents'' admin) (\<lambda>_.
            bindE (apply_action now action body i st) (\<lambda>st.
            bindE (incidentEvent E now incident userID action body st) (\<lambda>st.
              let (auditID, st) = randomID E ''audit'' st
              in add_audit
                   \<lparr>ae_id = auditID, ae_actor = userID, ae_action = ''incident.'' @ action, ae_device_id = i_device_id i,
                    ae_command_id = [], ae_details_json = ''{'' @ [dquote] @ ''incident_id'' @ [dquote] @ '':'' @ [dquote] @ incident @ [dquote] @ ''}'', ae_created_at = now\<rparr> st))))))"

section \<open>Specification\<close>

text \<open>
  What incidents promise, without identifiers, counters and times: which conditions are observed
  (a source of a device with its category) and the status per device and category.
\<close>

record board =
  conditions :: "string \<times> string \<Rightarrow> string option"
  statuses :: "string \<times> string \<Rightarrow> string option"

definition board_of :: "store \<Rightarrow> board" where
  "board_of st =
     \<lparr>conditions = (\<lambda>(d, k).
        case find_row (\<lambda>s. (is_device_id s, is_source_key s) = (d, k)) (incident_sources st) of
          None \<Rightarrow> None
        | Some s \<Rightarrow> if is_active s then Some (is_category s) else None),
      statuses = (\<lambda>(d, c).
        map_option i_status (find_row (\<lambda>i. (i_device_id i, i_source_key i) = (d, c)) (incidents st)))\<rparr>"

definition observed :: "string \<Rightarrow> string \<Rightarrow> board \<Rightarrow> bool" where
  "observed d c b \<longleftrightarrow> (\<exists>k. conditions b (d, k) = Some c)"

text \<open>The new status of a category and the event it gives, from the old status.\<close>

definition verdict :: "bool \<Rightarrow> bool \<Rightarrow> string option \<Rightarrow> string option \<times> string option" where
  "verdict seen new status =
     (case status of
        None \<Rightarrow> if seen then (Some ''open'', Some ''opened'') else (None, None)
      | Some s \<Rightarrow>
          if \<not> seen \<and> s \<noteq> ''resolved'' then (Some ''resolved'', Some ''recovered'')
          else if new then (if s = ''resolved'' then (Some ''open'', Some ''reopened'') else (Some s, Some ''condition_added''))
          else (Some s, None))"

definition observe :: "string \<Rightarrow> string \<Rightarrow> string \<Rightarrow> bool \<Rightarrow> board \<Rightarrow> board \<times> string option" where
  "observe d k c active b =
     (let b' = b\<lparr>conditions := (conditions b)((d, k) := if active then Some c else None)\<rparr>;
          (s, e) = verdict (observed d c b') (active \<and> conditions b (d, k) = None) (statuses b (d, c))
      in (b'\<lparr>statuses := (statuses b)((d, c) := s)\<rparr>, e))"

interpretation source_table: keyed_table "\<lambda>s. (is_device_id s, is_source_key s)" .

interpretation incident_key: keyed_table "\<lambda>i. (i_device_id i, i_source_key i)" .

interpretation incident_table: keyed_table i_id .

definition incidents_wf :: "store \<Rightarrow> bool" where
  "incidents_wf st \<longleftrightarrow> source_table.wf (incident_sources st) \<and> incident_key.wf (incidents st) \<and>
     incident_table.wf (incidents st)"

section \<open>Lemmas\<close>

lemma incidentEvent_Inr:
  assumes "incidentEvent E now i actor action body st = Inr st'"
  shows "\<exists>e n. st' = st\<lparr>draws := n, incident_events := incident_events st @ [e]\<rparr> \<and> ie_action e = action \<and>
    ie_incident_id e = i \<and> ie_actor e = actor \<and> ie_body e = body \<and> ie_created_at e = now"
  using assms by (auto simp: incidentEvent_def randomID_def Let_def res_simps split: if_splits)

lemma put_source_Inr:
  assumes "put_source now d k c a st = Inr st'"
  shows "\<exists>rows. st' = st\<lparr>incident_sources := rows\<rparr> \<and>
    (source_table.wf (incident_sources st) \<longrightarrow> source_table.wf rows) \<and>
    (\<forall>d' k'. find_row (\<lambda>s. (is_device_id s, is_source_key s) = (d', k')) rows =
       (if (d', k') = (d, k) then Some \<lparr>is_device_id = d, is_source_key = k, is_category = c, is_active = a, is_updated_at = now\<rparr>
        else find_row (\<lambda>s. (is_device_id s, is_source_key s) = (d', k')) (incident_sources st)))"
proof -
  let ?key = "\<lambda>s. (is_device_id s, is_source_key s)"
  define row where "row = \<lparr>is_device_id = d, is_source_key = k, is_category = c, is_active = a, is_updated_at = now\<rparr>"
  define merge where "merge = (\<lambda>(old :: incident_source) (new :: incident_source).
    old\<lparr>is_category := is_category new, is_active := is_active new, is_updated_at := is_updated_at new\<rparr>)"
  define rows where "rows = upsert_row ?key merge row (incident_sources st)"
  have m: "?key old = ?key row \<Longrightarrow> ?key (merge old row) = ?key row" for old by (simp add: merge_def)
  have "find_row (\<lambda>s. ?key s = ?key row) rows = Some row"
    using source_table.find_after_upsert [of row merge "incident_sources st"]
    by (auto simp: rows_def merge_def row_def split: option.splits dest: find_row_Some)
  moreover have "(d', k') \<noteq> ?key row \<Longrightarrow>
      find_row (\<lambda>s. ?key s = (d', k')) rows = find_row (\<lambda>s. ?key s = (d', k')) (incident_sources st)" for d' k'
    unfolding rows_def using m find_after_upsert_other [where key = ?key and r = row and merge = merge] by blast
  moreover have "source_table.wf (incident_sources st) \<Longrightarrow> source_table.wf rows"
    unfolding rows_def by (rule source_table.wf_upsert) (auto simp: merge_def)
  moreover have "st' = st\<lparr>incident_sources := rows\<rparr>"
    using assms by (auto simp: put_source_def rows_def row_def merge_def split: if_splits)
  ultimately show ?thesis by (intro exI [of _ rows]) (auto simp: row_def)
qed

lemma was_active_board: "was_active d k st \<longleftrightarrow> conditions (board_of st) (d, k) \<noteq> None"
  by (auto simp: was_active_def board_of_def split: option.splits)

lemma active_sources_observed:
  assumes "source_table.wf (incident_sources st)"
  shows "active_sources d c st = 0 \<longleftrightarrow> \<not> observed d c (board_of st)"
proof -
  have "observed d c (board_of st) \<longleftrightarrow> (\<exists>s \<in> set (incident_sources st). is_device_id s = d \<and> is_category s = c \<and> is_active s)"
  proof
    assume "observed d c (board_of st)"
    then show "\<exists>s \<in> set (incident_sources st). is_device_id s = d \<and> is_category s = c \<and> is_active s"
      by (auto simp: observed_def board_of_def split: option.splits if_splits dest!: find_row_Some)
  next
    assume "\<exists>s \<in> set (incident_sources st). is_device_id s = d \<and> is_category s = c \<and> is_active s"
    then obtain s where s: "s \<in> set (incident_sources st)" "is_device_id s = d" "is_category s = c" "is_active s" by blast
    with source_table.find_key [OF assms s(1)] show "observed d c (board_of st)"
      by (auto simp: observed_def board_of_def intro!: exI [of _ "is_source_key s"])
  qed
  then show ?thesis by (auto simp: active_sources_def count_where_zero)
qed

lemma board_cong:
  "incident_sources st = incident_sources st' \<Longrightarrow> incidents st = incidents st' \<Longrightarrow> board_of st = board_of st'"
  by (simp add: board_of_def)

lemma statuses_upd:
  assumes "incident_table.wf (incidents st)" and "incident_key.wf (incidents st)" and "i \<in> set (incidents st)"
    and "\<And>x. (i_device_id (f x), i_source_key (f x)) = (i_device_id x, i_source_key x)"
  shows "statuses (board_of (upd_incident (i_id i) f st)) =
    (statuses (board_of st))((i_device_id i, i_source_key i) := Some (i_status (f i)))"
proof (rule ext, clarify)
  fix d c
  let ?key = "\<lambda>i. (i_device_id i, i_source_key i)"
  show "statuses (board_of (upd_incident (i_id i) f st)) (d, c) =
    ((statuses (board_of st))((i_device_id i, i_source_key i) := Some (i_status (f i)))) (d, c)"
  proof (cases "find_row (\<lambda>x. ?key x = (d, c)) (incidents st)")
    case None
    then have "find_row (\<lambda>x. ?key x = (d, c)) (upd_where (\<lambda>x. i_id x = i_id i) f (incidents st)) = None"
      using assms(4) by (auto simp: find_row_None set_upd_where)
    moreover have "(d, c) \<noteq> ?key i" using None assms(3) by (auto simp: find_row_None)
    ultimately show ?thesis using None by (simp add: board_of_def upd_incident_def fun_upd_other del: prod.inject)
  next
    case (Some x)
    have x: "x \<in> set (incidents st)" "?key x = (d, c)" using find_row_Some [OF Some] by auto
    have k: "x = i \<longleftrightarrow> (d, c) = ?key i" using incident_key.wf_unique [OF assms(2) x(1) assms(3)] x(2) by auto
    have n: "i_id x = i_id i \<longleftrightarrow> x = i" using incident_table.wf_unique [OF assms(1) x(1) assms(3)] by auto
    have "find_row (\<lambda>x. ?key x = (d, c)) (upd_where (\<lambda>x. i_id x = i_id i) f (incidents st)) =
        Some (if x = i then f x else x)"
      using incident_key.find_after_update [OF Some, of "\<lambda>x. i_id x = i_id i" f] assms(4) n by presburger
    then show ?thesis using Some k
      by (cases "x = i") (simp_all add: board_of_def upd_incident_def fun_upd_other del: prod.inject)
  qed
qed

lemma put_source_board:
  assumes "put_source now d k c a st = Inr st'" and "incidents_wf st"
  shows "board_of st' = (board_of st)\<lparr>conditions := (conditions (board_of st))((d, k) := if a then Some c else None)\<rparr> \<and>
    incidents_wf st' \<and> incident_events st' = incident_events st \<and> incidents st' = incidents st"
proof -
  from put_source_Inr [OF assms(1)] obtain rows where r: "st' = st\<lparr>incident_sources := rows\<rparr>"
    "source_table.wf (incident_sources st) \<longrightarrow> source_table.wf rows"
    and f: "\<forall>d' k'. find_row (\<lambda>s. (is_device_id s, is_source_key s) = (d', k')) rows =
       (if (d', k') = (d, k) then Some \<lparr>is_device_id = d, is_source_key = k, is_category = c, is_active = a, is_updated_at = now\<rparr>
        else find_row (\<lambda>s. (is_device_id s, is_source_key s) = (d', k')) (incident_sources st))" by blast
  have "conditions (board_of st') = (conditions (board_of st))((d, k) := if a then Some c else None)"
  proof (rule ext, clarify)
    fix d' k'
    show "conditions (board_of st') (d', k') = ((conditions (board_of st))((d, k) := if a then Some c else None)) (d', k')"
      using f [rule_format, of d' k'] by (cases "(d', k') = (d, k)") (simp_all add: board_of_def r(1) del: prod.inject)
  qed
  moreover have "statuses (board_of st') = statuses (board_of st)" by (simp add: board_of_def r(1))
  ultimately show ?thesis using r assms(2) by (simp add: incidents_wf_def)
qed

lemma board_draws [simp]:
  "board_of (st\<lparr>draws := n\<rparr>) = board_of st" "board_of (st\<lparr>incident_events := es\<rparr>) = board_of st"
  "incidents_wf (st\<lparr>draws := n\<rparr>) = incidents_wf st" "incidents_wf (st\<lparr>incident_events := es\<rparr>) = incidents_wf st"
  by (simp_all add: board_of_def incidents_wf_def)

lemma upd_incident_board:
  assumes "incidents_wf st" and "i \<in> set (incidents st)"
    and "\<And>x. i_id (f x) = i_id x \<and> i_device_id (f x) = i_device_id x \<and> i_source_key (f x) = i_source_key x"
  shows "incidents_wf (upd_incident (i_id i) f st) \<and>
    board_of (upd_incident (i_id i) f st) =
      (board_of st)\<lparr>statuses := (statuses (board_of st))((i_device_id i, i_source_key i) := Some (i_status (f i)))\<rparr>"
proof -
  have "statuses (board_of (upd_incident (i_id i) f st)) =
      (statuses (board_of st))((i_device_id i, i_source_key i) := Some (i_status (f i)))"
    using assms by (intro statuses_upd) (auto simp: incidents_wf_def)
  moreover have "conditions (board_of (upd_incident (i_id i) f st)) = conditions (board_of st)"
    by (simp add: board_of_def upd_incident_def)
  moreover have "incidents_wf (upd_incident (i_id i) f st)"
    using assms by (auto simp: incidents_wf_def upd_incident_def intro!: incident_key.wf_upd incident_table.wf_upd)
  ultimately show ?thesis by simp
qed

lemma insert_incident_board:
  assumes "insert_incident now i d c title st = Inr st'" and "incidents_wf st"
  shows "incidents_wf st' \<and> board_of st' = (board_of st)\<lparr>statuses := (statuses (board_of st))((d, c) := Some ''open'')\<rparr> \<and>
    incident_events st' = incident_events st \<and> (\<exists>x \<in> set (incidents st'). i_id x = i \<and> i_device_id x = d \<and> i_source_key x = c)"
proof -
  define row where "row = \<lparr>i_id = i, i_device_id = d, i_source_key = c, i_title = title, i_status = ''open'',
      i_assignee_id = [], i_occurrences = 1, i_opened_at = now, i_updated_at = now, i_resolved_at = None\<rparr>"
  have n: "\<not> has_row (\<lambda>i. i_device_id i = d \<and> i_source_key i = c) (incidents st)"
    and r: "st' = st\<lparr>incidents := incidents st @ [row]\<rparr>" "i \<notin> i_id ` set (incidents st)"
    using assms(1) by (auto simp: insert_incident_def res_simps row_def split: if_splits)
  let ?key = "\<lambda>i. (i_device_id i, i_source_key i)"
  have k: "insert_row ?key row (incidents st) = Inr (incidents st @ [row])"
    using n by (auto simp: insert_row_eq has_row_iff row_def)
  have "statuses (board_of st') = (statuses (board_of st))((d, c) := Some ''open'')"
  proof (rule ext, clarify)
    fix d' c'
    show "statuses (board_of st') (d', c') = ((statuses (board_of st))((d, c) := Some ''open'')) (d', c')"
    proof (cases "(d', c') = (d, c)")
      case True
      then show ?thesis using incident_key.find_after_insert [OF k] by (simp add: board_of_def r(1) row_def)
    next
      case False
      with incident_key.find_after_insert_other [OF k, of "(d', c')"] show ?thesis
        by (simp add: board_of_def r(1) row_def del: prod.inject)
    qed
  qed
  moreover have "conditions (board_of st') = conditions (board_of st)" by (simp add: board_of_def r(1))
  moreover have "incidents_wf st'"
    using assms(2) n r by (auto simp: incidents_wf_def incident_key.wf_def incident_table.wf_def has_row_iff row_def)
  ultimately show ?thesis by (simp add: r(1) row_def)
qed

definition logged :: "string \<Rightarrow> string \<Rightarrow> string \<Rightarrow> store \<Rightarrow> store \<Rightarrow> bool" where
  "logged action d c st st' \<longleftrightarrow>
     (\<exists>e. incident_events st' = incident_events st @ [e] \<and> ie_action e = action \<and> ie_actor e = ''system'' \<and>
       (\<exists>i \<in> set (incidents st'). i_id i = ie_incident_id e \<and> i_device_id i = d \<and> i_source_key i = c))"

lemma incidentEvent_logged:
  assumes "incidentEvent E now i ''system'' action body st = Inr st'"
    and "\<exists>x \<in> set (incidents st). i_id x = i \<and> i_device_id x = d \<and> i_source_key x = c"
  shows "logged action d c st st' \<and> board_of st' = board_of st \<and> incidents_wf st' = incidents_wf st"
proof -
  from incidentEvent_Inr [OF assms(1)] obtain e n where
    e: "st' = st\<lparr>draws := n, incident_events := incident_events st @ [e]\<rparr>"
    "ie_action e = action" "ie_incident_id e = i" "ie_actor e = ''system''" by blast
  with assms(2) show ?thesis by (simp add: logged_def)
qed

text \<open>What a step leaves when it gives the incident of a category the status \<open>s\<close>, with or without an event.\<close>

definition settled :: "string \<Rightarrow> string \<Rightarrow> string option \<times> string option \<Rightarrow> store \<Rightarrow> store \<Rightarrow> bool" where
  "settled d c v st st' \<longleftrightarrow> incidents_wf st' \<and>
     board_of st' = (board_of st)\<lparr>statuses := (statuses (board_of st))((d, c) := fst v)\<rparr> \<and>
     (case snd v of None \<Rightarrow> incident_events st' = incident_events st | Some action \<Rightarrow> logged action d c st st')"

lemma settled_same:
  "incidents_wf st \<Longrightarrow> statuses (board_of st) (d, c) = s \<Longrightarrow> settled d c (s, None) st st"
  by (simp add: settled_def fun_upd_idem)

lemma first_incident_settled:
  assumes "incidents_wf st" and "find_row (\<lambda>i. i_device_id i = d \<and> i_source_key i = c) (incidents st) = None"
    and "first_incident E now d k c title n st = Inr st'"
  shows "settled d c (verdict (n \<noteq> 0) new None) st st'"
proof (cases "n = 0")
  case True
  with assms show ?thesis by (auto simp: first_incident_def verdict_def board_of_def intro!: settled_same)
next
  case False
  with assms(3) obtain i m st2 where "insert_incident now i d c title (st\<lparr>draws := m\<rparr>) = Inr st2"
    and e: "incidentEvent E now i ''system'' ''opened'' k st2 = Inr st'"
    by (auto simp: first_incident_def randomID_def res_simps)
  from insert_incident_board [OF this(1)] assms(1) have i: "incidents_wf st2"
    "board_of st2 = (board_of st)\<lparr>statuses := (statuses (board_of st))((d, c) := Some ''open'')\<rparr>"
    "incident_events st2 = incident_events st"
    "\<exists>x \<in> set (incidents st2). i_id x = i \<and> i_device_id x = d \<and> i_source_key x = c" by simp_all
  from incidentEvent_logged [OF e i(4)] i(1-3) False show ?thesis
    by (simp add: settled_def verdict_def logged_def)
qed

lemma known_event_settled:
  assumes "incidents_wf st" and i: "i \<in> set (incidents st)" "i_device_id i = d" "i_source_key i = c"
    and "incidentEvent E now (i_id i) ''system'' action body (upd_incident (i_id i) f st) = Inr st'"
    and f: "\<And>x. i_id (f x) = i_id x \<and> i_device_id (f x) = i_device_id x \<and> i_source_key (f x) = i_source_key x"
  shows "settled d c (Some (i_status (f i)), Some action) st st'"
proof -
  have "\<exists>x \<in> set (incidents (upd_incident (i_id i) f st)). i_id x = i_id i \<and> i_device_id x = d \<and> i_source_key x = c"
    using i f by (auto simp: upd_incident_def set_upd_where)
  from incidentEvent_logged [OF assms(5) this] upd_incident_board [OF assms(1) i(1) f] i(2,3)
  show ?thesis by (simp add: settled_def logged_def upd_incident_def)
qed

lemma upd_incident_id: "upd_incident j (\<lambda>x. x) st = st"
  by (simp add: upd_incident_def upd_where_def)

lemma known_incident_settled:
  assumes "incidents_wf st" and "find_row (\<lambda>i. i_device_id i = d \<and> i_source_key i = c) (incidents st) = Some i"
    and "known_incident E now k new n i st = Inr st'"
  shows "settled d c (verdict (n \<noteq> 0) new (Some (i_status i))) st st'"
proof -
  have i: "i \<in> set (incidents st)" "i_device_id i = d" "i_source_key i = c" using find_row_Some [OF assms(2)] by auto
  note move = known_event_settled [OF assms(1) i]
  have same: "statuses (board_of st) (d, c) = Some (i_status i)" using assms(2) by (simp add: board_of_def)
  consider "n = 0" "i_status i \<noteq> ''resolved''" | "n \<noteq> 0 \<or> i_status i = ''resolved''" "\<not> new"
    | "n \<noteq> 0 \<or> i_status i = ''resolved''" "new" by blast
  then show ?thesis
  proof cases
    case 1
    with assms(3) have "incidentEvent E now (i_id i) ''system'' ''recovered'' recovered_text
        (upd_incident (i_id i) (\<lambda>i. i\<lparr>i_status := ''resolved'', i_resolved_at := Some now, i_updated_at := now\<rparr>) st) = Inr st'"
      by (simp add: known_incident_def)
    from move [OF this] 1 show ?thesis by (simp add: verdict_def)
  next
    case 2
    with assms(3) have "st' = st" by (auto simp: known_incident_def)
    with settled_same [OF assms(1) same] 2 show ?thesis by (auto simp: verdict_def)
  next
    case 3
    show ?thesis
    proof (cases "i_status i = ''resolved''")
      case True
      with 3 assms(3) have "incidentEvent E now (i_id i) ''system'' ''reopened'' k
          (upd_incident (i_id i) (\<lambda>i. i\<lparr>i_status := ''open'', i_resolved_at := None, i_opened_at := now,
              i_occurrences := i_occurrences i + 1, i_updated_at := now\<rparr>) st) = Inr st'"
        by (simp add: known_incident_def)
      from move [OF this] 3 True show ?thesis by (simp add: verdict_def)
    next
      case False
      with 3 assms(3) have "incidentEvent E now (i_id i) ''system'' ''condition_added'' k (upd_incident (i_id i) (\<lambda>x. x) st) = Inr st'"
        by (simp add: known_incident_def upd_incident_id)
      from move [OF this] 3 False show ?thesis by (simp add: verdict_def)
    qed
  qed
qed

section \<open>Properties\<close>

text \<open>
  C24. The bookkeeping of incidents implements its specification: reporting a condition moves the
  board of conditions and statuses exactly as \<open>observe\<close> says, keeps the keys of the tables, and
  writes one event of the incident when the specification names one and none otherwise.
\<close>

theorem syncIncidentSource_refines:
  assumes "incidents_wf st" and "syncIncidentSource E now d k c title active st = Inr st'"
  shows "incidents_wf st' \<and> board_of st' = fst (observe d k c active (board_of st)) \<and>
    (case snd (observe d k c active (board_of st)) of
       None \<Rightarrow> incident_events st' = incident_events st
     | Some action \<Rightarrow> logged action d c st st')"
proof -
  from assms(2) obtain st1 where p: "put_source now d k c active st = Inr st1"
    by (auto simp: syncIncidentSource_def Let_def res_simps)
  note b = put_source_board [OF p assms(1)]
  define new where "new = (active \<and> \<not> was_active d k st)"
  define v where "v = verdict (active_sources d c st1 \<noteq> 0) new (statuses (board_of st) (d, c))"
  have "observed d c (board_of st1) \<longleftrightarrow> active_sources d c st1 \<noteq> 0"
    using active_sources_observed b by (simp add: incidents_wf_def)
  then have spec: "observe d k c active (board_of st) =
      ((board_of st1)\<lparr>statuses := (statuses (board_of st1))((d, c) := fst v)\<rparr>, snd v)"
    using b by (simp add: observe_def v_def new_def was_active_board Let_def split: prod.splits)
  have s: "statuses (board_of st) (d, c) =
      map_option i_status (find_row (\<lambda>i. i_device_id i = d \<and> i_source_key i = c) (incidents st1))"
    using b by (simp add: board_of_def)
  have "settled d c v st1 st'"
  proof (cases "find_row (\<lambda>i. i_device_id i = d \<and> i_source_key i = c) (incidents st1)")
    case None
    with assms(2) p have "first_incident E now d k c title (active_sources d c st1) st1 = Inr st'"
      by (simp add: syncIncidentSource_def)
    with first_incident_settled [OF _ None] b s None show ?thesis by (simp add: v_def)
  next
    case (Some i)
    with assms(2) p have "known_incident E now k new (active_sources d c st1) i st1 = Inr st'"
      by (simp add: syncIncidentSource_def new_def)
    with known_incident_settled [OF _ Some] b s Some show ?thesis by (simp add: v_def)
  qed
  with spec b show ?thesis by (cases "snd v") (simp_all add: settled_def logged_def)
qed


text \<open>The first report of a condition on the sample router.\<close>

definition sample_report :: "store res" where
  "sample_report = syncIncidentSource sample_env minute ''dev'' ''alert:a1'' ''network'' ''offline'' True sample_store"

lemma sample_store_incidents:
  "incident_sources sample_store = []" "incidents sample_store = []" "incident_events sample_store = []"
  by (simp_all add: sample_store_def empty_store_def)

lemma sample_report_ok: "\<exists>st'. sample_report = Inr st'"
proof -
  have "has_row (\<lambda>d. d_id d = ''dev'') (devices sample_store)" by code_simp
  then show ?thesis
    by (simp add: sample_report_def syncIncidentSource_def put_source_def active_sources_def upsert_row_def
        sample_store_incidents first_incident_def insert_incident_def incidentEvent_def randomID_def Let_def
        insert_row_def has_row_def)
qed

lemma sample_store_wf: "incidents_wf sample_store"
  by (simp add: incidents_wf_def sample_store_incidents source_table.wf_def incident_key.wf_def incident_table.wf_def)

theorem syncIncidentSource_refines_witness:
  "\<exists>st'. sample_report = Inr st' \<and> statuses (board_of st') (''dev'', ''network'') = Some ''open'' \<and>
     logged ''opened'' ''dev'' ''network'' sample_store st'"
proof -
  obtain st' where st': "sample_report = Inr st'" using sample_report_ok by blast
  have "board_of sample_store = \<lparr>conditions = (\<lambda>_. None), statuses = (\<lambda>_. None)\<rparr>"
    by (auto simp: board_of_def sample_store_incidents)
  then have "observe ''dev'' ''alert:a1'' ''network'' True (board_of sample_store) =
      (\<lparr>conditions = (\<lambda>_. None)((''dev'', ''alert:a1'') := Some ''network''),
        statuses = (\<lambda>_. None)((''dev'', ''network'') := Some ''open'')\<rparr>, Some ''opened'')"
    by (auto simp: observe_def verdict_def observed_def Let_def)
  with syncIncidentSource_refines [OF sample_store_wf st' [unfolded sample_report_def]] st' show ?thesis
    by (intro exI [of _ st']) simp
qed

section \<open>Open incidents are observed\<close>

text \<open>
  The invariant of the board: an incident that is not resolved has an active condition of its
  category. It holds as long as the category of a source does not change.
\<close>

definition board_ok :: "board \<Rightarrow> bool" where
  "board_ok b \<longleftrightarrow> (\<forall>d c s. statuses b (d, c) = Some s \<longrightarrow> s \<noteq> ''resolved'' \<longrightarrow> observed d c b)"

lemma observe_board_ok:
  assumes "board_ok b" and "conditions b (d, k) \<in> {None, Some c}"
  shows "board_ok (fst (observe d k c active b))"
proof -
  define b' where "b' = b\<lparr>conditions := (conditions b)((d, k) := if active then Some c else None)\<rparr>"
  have other: "observed d' c' b' \<longleftrightarrow> observed d' c' b" if "(d', c') \<noteq> (d, c)" for d' c'
  proof -
    have "conditions b' (d', k') = Some c' \<longleftrightarrow> conditions b (d', k') = Some c'" for k'
      using assms(2) that by (cases "(d', k') = (d, k)") (simp_all add: b'_def, auto)
    then show ?thesis by (simp add: observed_def)
  qed
  define v where "v = verdict (observed d c b') (active \<and> conditions b (d, k) = None) (statuses b (d, c))"
  have "fst v = Some s \<Longrightarrow> s \<noteq> ''resolved'' \<Longrightarrow> observed d c b'" for s
  proof (cases "active \<and> conditions b (d, k) = None")
    case True
    then have "conditions b' (d, k) = Some c" by (simp add: b'_def)
    then show "observed d c b'" by (auto simp: observed_def)
  next
    case False
    then show "fst v = Some s \<Longrightarrow> s \<noteq> ''resolved'' \<Longrightarrow> observed d c b'"
      by (auto simp: v_def verdict_def split: if_splits option.splits)
  qed
  moreover have "fst (observe d k c active b) = b'\<lparr>statuses := (statuses b)((d, c) := fst v)\<rparr>"
    by (simp add: observe_def b'_def v_def Let_def split: prod.splits)
  moreover have "observed d' c' (b'\<lparr>statuses := x\<rparr>) = observed d' c' b'" for d' c' x by (simp add: observed_def)
  moreover have "statuses b (d', c') = Some s \<Longrightarrow> s \<noteq> ''resolved'' \<Longrightarrow> (d', c') \<noteq> (d, c) \<Longrightarrow> observed d' c' b'" for d' c' s
    using assms(1) other unfolding board_ok_def by blast
  ultimately show ?thesis
    unfolding board_ok_def by (auto simp: fun_upd_def split: if_splits)
qed

text \<open>An activation that was already known changes no status and gives no event.\<close>

lemma observe_repeated:
  assumes "conditions b (d, k) = Some c" and "statuses b (d, c) \<noteq> None"
  shows "observe d k c True b = (b, None)"
proof -
  from assms(2) obtain s where s: "statuses b (d, c) = Some s" by blast
  have "observed d c (b\<lparr>conditions := (conditions b)((d, k) := Some c)\<rparr>)" by (auto simp: observed_def)
  with assms(1) s show ?thesis
    by (simp add: observe_def verdict_def Let_def fun_upd_idem)
qed


definition alert_source :: "alert \<Rightarrow> string \<times> string" where
  "alert_source a = (a_device_id a, ''alert:'' @ a_id a)"

text \<open>The source of an alert, while active, has the category of the alert's type.\<close>

definition alert_sources_ok :: "store \<Rightarrow> bool" where
  "alert_sources_ok st \<longleftrightarrow>
     (\<forall>a \<in> set (alerts st). conditions (board_of st) (alert_source a) \<in> {None, Some (incidentCategory (a_type a) [])})"

definition tracked :: "board \<Rightarrow> alert \<Rightarrow> bool" where
  "tracked b a \<longleftrightarrow>
     conditions b (alert_source a) = (if a_status a \<noteq> ''resolved'' then Some (incidentCategory (a_type a) []) else None) \<and>
     (a_status a \<noteq> ''resolved'' \<longrightarrow> statuses b (a_device_id a, incidentCategory (a_type a) []) \<noteq> None)"

interpretation alert_table: keyed_table a_id .

lemma verdict_defined: "fst (verdict seen new s) = None \<longleftrightarrow> s = None \<and> \<not> seen"
  by (auto simp: verdict_def split: option.splits if_splits)

lemma observe_fields:
  "conditions (fst (observe d k c active b)) = (conditions b)((d, k) := if active then Some c else None)"
  "statuses (fst (observe d k c active b)) =
     (statuses b)((d, c) := fst (verdict (observed d c (b\<lparr>conditions := (conditions b)((d, k) := if active then Some c else None)\<rparr>))
        (active \<and> conditions b (d, k) = None) (statuses b (d, c))))"
  by (simp_all add: observe_def Let_def split: prod.splits)

lemma observe_keeps_status: "statuses b p \<noteq> None \<Longrightarrow> statuses (fst (observe d k c active b)) p \<noteq> None"
  by (cases "p = (d, c)") (simp_all add: observe_fields(2) verdict_defined del: not_None_eq)

lemma observe_active_status: "statuses (fst (observe d k c True b)) (d, c) \<noteq> None"
proof -
  have "observed d c (b\<lparr>conditions := (conditions b)((d, k) := Some c)\<rparr>)" by (auto simp: observed_def)
  then show ?thesis by (simp add: observe_fields(2) verdict_defined del: not_None_eq)
qed

lemma tracked_observe:
  assumes "tracked b x" and "alert_source x \<noteq> (d, k)"
  shows "tracked (fst (observe d k c active b)) x"
  using assms observe_keeps_status [of b _ d k c active] by (simp add: tracked_def observe_fields(1) del: not_None_eq)

lemma event_alerts: "incidentEvent E now i actor action body st = Inr st' \<Longrightarrow> alerts st' = alerts st"
  by (auto dest!: incidentEvent_Inr)

lemma syncIncidentSource_alerts:
  assumes "syncIncidentSource E now d k c title active st = Inr st'"
  shows "alerts st' = alerts st"
proof -
  from assms obtain st1 where p: "put_source now d k c active st = Inr st1"
    by (auto simp: syncIncidentSource_def Let_def res_simps)
  then have a: "alerts st1 = alerts st" using put_source_Inr by fastforce
  have "first_incident E now d k c title n st1 = Inr st' \<Longrightarrow> alerts st' = alerts st1" for n
    by (auto simp: first_incident_def insert_incident_def randomID_def res_simps dest!: event_alerts split: if_splits)
  moreover have "known_incident E now k new n i st1 = Inr st' \<Longrightarrow> alerts st' = alerts st1" for new n i
    by (auto simp: known_incident_def upd_incident_def dest!: event_alerts split: if_splits)
  ultimately show ?thesis
    using assms p a by (auto simp: syncIncidentSource_def Let_def split: option.splits)
qed

lemma sync_pass:
  assumes "foldE (\<lambda>a. syncIncidentSource E now deviceID (''alert:'' @ a_id a) (incidentCategory (a_type a) [])
      (a_message a) (a_status a \<noteq> ''resolved'')) xs st = Inr st'"
    and "incidents_wf st" and "board_ok (board_of st)" and "alert_sources_ok st"
    and "alert_table.wf (alerts st)" and "set xs \<subseteq> {a \<in> set (alerts st). a_device_id a = deviceID}"
  shows "incidents_wf st' \<and> board_ok (board_of st') \<and> alert_sources_ok st' \<and> alerts st' = alerts st \<and>
    (\<forall>a \<in> set (alerts st). a \<in> set xs \<or> tracked (board_of st) a \<longrightarrow> tracked (board_of st') a)"
  using assms
proof (induction xs arbitrary: st)
  case Nil
  then show ?case by simp
next
  case (Cons a xs)
  let ?c = "incidentCategory (a_type a) []" and ?on = "a_status a \<noteq> ''resolved''"
  from Cons.prems(1) obtain st1 where
    s: "syncIncidentSource E now deviceID (''alert:'' @ a_id a) ?c (a_message a) ?on st = Inr st1"
    and r: "foldE (\<lambda>a. syncIncidentSource E now deviceID (''alert:'' @ a_id a) (incidentCategory (a_type a) [])
      (a_message a) (a_status a \<noteq> ''resolved'')) xs st1 = Inr st'" by (auto simp: res_simps)
  have a: "a \<in> set (alerts st)" "a_device_id a = deviceID" using Cons.prems(6) by auto
  note ref = syncIncidentSource_refines [OF Cons.prems(2) s] and al = syncIncidentSource_alerts [OF s]
  have b: "board_of st1 = fst (observe deviceID (''alert:'' @ a_id a) ?c ?on (board_of st))" using ref by blast
  have key: "alert_source a = (deviceID, ''alert:'' @ a_id a)" using a by (simp add: alert_source_def)
  have cat: "conditions (board_of st) (deviceID, ''alert:'' @ a_id a) \<in> {None, Some ?c}"
    using Cons.prems(4) a(1) key unfolding alert_sources_ok_def by metis
  have apart: "alert_source x \<noteq> (deviceID, ''alert:'' @ a_id a)" if "x \<in> set (alerts st)" "x \<noteq> a" for x
    using alert_table.wf_unique [OF Cons.prems(5) that(1) a(1)] that(2) by (auto simp: alert_source_def)
  have "alert_sources_ok st1"
    unfolding alert_sources_ok_def al b observe_fields(1)
  proof
    fix x assume x: "x \<in> set (alerts st)"
    show "((conditions (board_of st))((deviceID, ''alert:'' @ a_id a) := if ?on then Some ?c else None)) (alert_source x)
        \<in> {None, Some (incidentCategory (a_type x) [])}"
      using Cons.prems(4) x apart [OF x] key by (cases "x = a") (auto simp: alert_sources_ok_def)
  qed
  moreover have "board_ok (board_of st1)" unfolding b by (rule observe_board_ok [OF Cons.prems(3) cat])
  ultimately have IH: "incidents_wf st' \<and> board_ok (board_of st') \<and> alert_sources_ok st' \<and> alerts st' = alerts st1 \<and>
    (\<forall>a \<in> set (alerts st1). a \<in> set xs \<or> tracked (board_of st1) a \<longrightarrow> tracked (board_of st') a)"
    using Cons.IH [OF r] ref Cons.prems(5,6) al by simp
  have "tracked (board_of st1) a"
    using observe_active_status [of deviceID "''alert:'' @ a_id a" ?c "board_of st"] a(2) key
    by (cases "?on") (simp_all add: tracked_def b observe_fields(1) del: not_None_eq)
  moreover have "tracked (board_of st1) x" if "x \<in> set (alerts st)" "x \<noteq> a" "tracked (board_of st) x" for x
    unfolding b by (rule tracked_observe [OF that(3) apart [OF that(1,2)]])
  ultimately show ?case using IH al by auto
qed

lemma upsert_alert_rows:
  "r \<in> set (upsert_row a_id merge_alert (alert_row now dev a) rows) \<longleftrightarrow>
     (r \<in> set rows \<and> a_id r \<noteq> a_id a) \<or>
     (\<exists>old \<in> set rows. a_id old = a_id a \<and> r = merge_alert old (alert_row now dev a)) \<or>
     (a_id a \<notin> a_id ` set rows \<and> r = alert_row now dev a)"
proof -
  have id: "a_id (alert_row now dev a) = a_id a" by (simp add: alert_row_def)
  show ?thesis
  proof (cases "\<exists>x \<in> set rows. a_id x = a_id a")
    case True
    then have "a_id a \<in> a_id ` set rows" by (metis imageI)
    with True show ?thesis by (auto simp: upsert_row_def has_row_iff set_upd_where id split: if_splits)
  next
    case False
    then show ?thesis by (auto simp: upsert_row_def has_row_iff id)
  qed
qed

lemma upsert_alert_keys:
  "a_id ` set (upsert_row a_id merge_alert (alert_row now dev a) rows) = insert (a_id a) (a_id ` set rows)"
proof -
  have id: "a_id (alert_row now dev a) = a_id a" by (simp add: alert_row_def)
  have "map a_id (upd_where (\<lambda>x. a_id x = a_id a) (\<lambda>old. merge_alert old (alert_row now dev a)) rows) = map a_id rows"
    by (rule map_upd_where) (simp add: merge_alert_def)
  then have "a_id ` set (upd_where (\<lambda>x. a_id x = a_id a) (\<lambda>old. merge_alert old (alert_row now dev a)) rows) = a_id ` set rows"
    by (metis list.set_map)
  then show ?thesis by (auto simp: upsert_row_def has_row_iff id) (metis imageI)+
qed

lemma upsert_alert_wf:
  "alert_table.wf rows \<Longrightarrow> alert_table.wf (upsert_row a_id merge_alert (alert_row now dev a) rows)"
  by (rule alert_table.wf_upsert) (simp_all add: merge_alert_def)

text \<open>What holds of a row after the observed alerts are written.\<close>

definition alert_written :: "time \<Rightarrow> string \<Rightarrow> string list \<Rightarrow> alert list \<Rightarrow> alert \<Rightarrow> bool" where
  "alert_written now dev ids rows r \<longleftrightarrow>
     (if a_id r \<notin> set ids then r \<in> set rows
      else a_last_seen_at r = now \<and> a_resolved_at r = None \<and>
        (if a_id r \<in> a_id ` set rows then
           (\<exists>old \<in> set rows. a_id old = a_id r \<and> a_device_id r = a_device_id old \<and> a_type r = a_type old \<and>
              a_status r = (if a_status old = ''acknowledged'' then ''acknowledged'' else ''active'') \<and>
              a_first_seen_at r = (if a_status old = ''resolved'' then now else a_first_seen_at old))
         else a_device_id r = dev \<and> a_status r = ''active'' \<and> a_first_seen_at r = now))"

lemma alert_written_step:
  assumes "alert_written now dev ids (upsert_row a_id merge_alert (alert_row now dev a) rows) r"
  shows "alert_written now dev (a_id a # ids) rows r"
proof -
  note rows = upsert_alert_rows [of _ now dev a rows]
  note keys = upsert_alert_keys [of now dev a rows]
  show ?thesis
  proof (cases "a_id r \<in> set ids")
    case False
    then have "r \<in> set (upsert_row a_id merge_alert (alert_row now dev a) rows)"
      using assms by (simp add: alert_written_def)
    then consider "r \<in> set rows" "a_id r \<noteq> a_id a"
      | old where "old \<in> set rows" "a_id old = a_id a" "r = merge_alert old (alert_row now dev a)"
      | "a_id a \<notin> a_id ` set rows" "r = alert_row now dev a" unfolding rows by blast
    then show ?thesis
    proof cases
      case 1
      with False show ?thesis by (simp add: alert_written_def)
    next
      case 2
      then have "a_id r = a_id a" by (simp add: merge_alert_def)
      moreover have "a_id a \<in> a_id ` set rows" using 2 by (metis imageI)
      ultimately show ?thesis using 2
        by (auto simp: alert_written_def alert_row_def merge_alert_def intro!: bexI [of _ old])
    next
      case 3
      then show ?thesis by (simp add: alert_written_def alert_row_def)
    qed
  next
    case True
    with assms have seen: "a_last_seen_at r = now" "a_resolved_at r = None" by (simp_all add: alert_written_def)
    show ?thesis
    proof (cases "a_id r \<in> insert (a_id a) (a_id ` set rows)")
      case known: True
      with True assms obtain mid where mid: "mid \<in> set (upsert_row a_id merge_alert (alert_row now dev a) rows)"
        "a_id mid = a_id r" "a_device_id r = a_device_id mid" "a_type r = a_type mid"
        "a_status r = (if a_status mid = ''acknowledged'' then ''acknowledged'' else ''active'')"
        "a_first_seen_at r = (if a_status mid = ''resolved'' then now else a_first_seen_at mid)"
        unfolding alert_written_def keys by auto
      from mid(1) consider "mid \<in> set rows" "a_id mid \<noteq> a_id a"
        | old where "old \<in> set rows" "a_id old = a_id a" "mid = merge_alert old (alert_row now dev a)"
        | "a_id a \<notin> a_id ` set rows" "mid = alert_row now dev a" unfolding rows by blast
      then show ?thesis
      proof cases
        case 1
        then have "a_id r \<in> a_id ` set rows" using mid(2) by (metis imageI)
        with 1 mid True seen show ?thesis by (auto simp: alert_written_def intro!: bexI [of _ mid])
      next
        case 2
        then have "a_id r \<in> a_id ` set rows" "a_id r = a_id old" using mid(2) by (auto simp: merge_alert_def intro!: image_eqI [of _ _ old])
        with 2 mid True seen show ?thesis by (auto simp: alert_written_def merge_alert_def alert_row_def intro!: bexI [of _ old])
      next
        case 3
        with mid True seen show ?thesis by (auto simp: alert_written_def alert_row_def)
      qed
    next
      case False
      with True assms seen show ?thesis by (simp add: alert_written_def keys)
    qed
  qed
qed

lemma put_alerts_written:
  assumes "alert_table.wf rows"
  shows "alert_table.wf (put_alerts now dev active rows) \<and>
    a_id ` set (put_alerts now dev active rows) = a_id ` set rows \<union> a_id ` set active \<and>
    (\<forall>r \<in> set (put_alerts now dev active rows). alert_written now dev (map a_id active) rows r)"
  using assms
proof (induction active arbitrary: rows)
  case Nil
  then show ?case by (simp add: put_alerts_def alert_written_def)
next
  case (Cons a active)
  let ?rows = "upsert_row a_id merge_alert (alert_row now dev a) rows"
  note keys = upsert_alert_keys [of now dev a rows]
  have put: "put_alerts now dev (a # active) rows = put_alerts now dev active ?rows" by (simp add: put_alerts_def)
  from Cons.IH [OF upsert_alert_wf [OF Cons.prems, of now dev a]] show ?case
    unfolding put keys using alert_written_step by auto
qed


lemma resolve_alerts_rows:
  assumes "r \<in> set (resolve_alerts now dev (map a_id active) put)"
  shows "\<exists>p \<in> set put. a_id r = a_id p \<and> a_device_id r = a_device_id p \<and> a_type r = a_type p \<and>
      (r = p \<and> \<not> (a_device_id p = dev \<and> open_alert (a_status p) \<and> a_id p \<notin> a_id ` set active) \<or>
       a_device_id p = dev \<and> a_id p \<notin> a_id ` set active \<and> a_status r = ''resolved'')"
  using assms unfolding resolve_alerts_def set_upd_where by (elim imageE) (auto split: if_splits)



definition sample_alert :: alert where
  "sample_alert = \<lparr>a_id = ''a1'', a_device_id = ''dev'', a_type = ''offline'', a_severity = ''critical'', a_status = [],
     a_message = ''offline'', a_details_json = ''{}'', a_first_seen_at = 0, a_last_seen_at = 0, a_resolved_at = None,
     a_acknowledged_at = None, a_acknowledged_by = [], a_created_at = 0, a_updated_at = 0\<rparr>"

lemma sample_alerts: "alerts sample_store = []"
  by (simp add: sample_store_def empty_store_def)

lemma sample_board: "board_of (sample_store\<lparr>alerts := rows\<rparr>) = \<lparr>conditions = (\<lambda>_. None), statuses = (\<lambda>_. None)\<rparr>"
  by (auto simp: board_of_def sample_store_incidents)

lemma sample_alert_sync:
  "\<exists>shown st'. SyncDeviceAlerts sample_env minute ''dev'' [sample_alert] sample_store = (Some (Inr shown), st')"
proof -
  have d: "has_row (\<lambda>d. d_id d = ''dev'') (devices sample_store)" by code_simp
  have "put_alerts minute ''dev'' [sample_alert] (alerts sample_store) = [alert_row minute ''dev'' sample_alert]"
    by (simp add: put_alerts_def upsert_row_def has_row_def sample_alerts)
  then have "isr (SyncAlertIncidents sample_env minute ''dev'' (sample_store\<lparr>alerts :=
      resolve_alerts minute ''dev'' [a_id sample_alert] (put_alerts minute ''dev'' [sample_alert] (alerts sample_store))\<rparr>))"
    using d
    by (simp add: SyncAlertIncidents_def resolve_alerts_def alert_row_def sample_alert_def isr_def
        syncIncidentSource_def put_source_def active_sources_def upsert_row_def
        sample_store_incidents first_incident_def insert_incident_def incidentEvent_def randomID_def Let_def
        insert_row_def has_row_def)
  with d show ?thesis by (auto simp: SyncDeviceAlerts_def isr_iff)
qed



definition action_status :: "string \<Rightarrow> string \<Rightarrow> string" where
  "action_status action s =
     (if action = ''acknowledge'' then ''acknowledged'' else if action = ''resolve'' then ''resolved'' else s)"

lemma apply_action_board:
  assumes "apply_action now action body i st = Inr st'" and "incidents_wf st" and "i \<in> set (incidents st)"
  shows "incidents_wf st' \<and> incident_events st' = incident_events st \<and>
    board_of st' = (board_of st)\<lparr>statuses := (statuses (board_of st))((i_device_id i, i_source_key i) := Some (action_status action (i_status i)))\<rparr> \<and>
    (action = ''acknowledge'' \<longrightarrow> i_status i \<noteq> ''resolved'') \<and>
    (action = ''assign'' \<longrightarrow> body \<noteq> [] \<longrightarrow> CheckPermission st body (i_device_id i) ''incidents'' = Inr ())"
proof -
  note upd = upd_incident_board [OF assms(2,3)]
  have ev: "incident_events (upd_incident j f st) = incident_events st" for j f by (simp add: upd_incident_def)
  show ?thesis
    using assms(1) unfolding apply_action_def
    by (auto simp: action_status_def ev upd CheckPermission_def res_simps split: if_splits)
qed

text \<open>
  A change of an incident is authorized and accountable: its author may handle incidents on the
  device, and so may the person it is assigned to; a resolved incident is not acknowledged; the
  status moves as the action says and no incident is left open without an active condition; one
  event and one audit record name the author.
\<close>

theorem UpdateIncident_accountable:
  assumes "UpdateIncident E now userID incident action body st = Inr st'"
    and "incidents_wf st" and "board_ok (board_of st)"
  shows "\<exists>i \<in> set (incidents st). i_id i = incident \<and>
    CheckPermission st userID (i_device_id i) ''incidents'' = Inr () \<and>
    (action = ''assign'' \<longrightarrow> TrimSpace body \<noteq> [] \<longrightarrow>
       CheckPermission st (TrimSpace body) (i_device_id i) ''incidents'' = Inr ()) \<and>
    (action = ''acknowledge'' \<longrightarrow> i_status i \<noteq> ''resolved'') \<and>
    board_of st' = (board_of st)\<lparr>statuses := (statuses (board_of st))
       ((i_device_id i, i_source_key i) := Some (action_status action (i_status i)))\<rparr> \<and>
    incidents_wf st' \<and> board_ok (board_of st') \<and>
    (\<exists>e. incident_events st' = incident_events st @ [e] \<and> ie_incident_id e = incident \<and> ie_actor e = userID \<and> ie_action e = action) \<and>
    (\<exists>a. audit_events st' = audit_events st @ [a] \<and> ae_actor a = userID \<and> ae_action a = ''incident.'' @ action \<and> ae_device_id a = i_device_id i)"
proof -
  from assms(1) obtain admin i st1 st2 a n where
    p: "fleetPrincipal st userID = Inr admin" "permissionAllowed st userID (i_device_id i) ''incidents'' admin = Inr ()"
    and f: "find_row (\<lambda>i. i_id i = incident) (incidents st) = Some i"
    and act: "apply_action now action (TrimSpace body) i st = Inr st1"
    and ev: "incidentEvent E now incident userID action (TrimSpace body) st1 = Inr st2"
    and a: "st' = st2\<lparr>draws := n, audit_events := audit_events st2 @ [a]\<rparr>" "ae_actor a = userID"
      "ae_action a = ''incident.'' @ action" "ae_device_id a = i_device_id i"
    by (auto simp: UpdateIncident_def Let_def res_simps add_audit_def randomID_def split: option.splits)
  have i: "i \<in> set (incidents st)" "i_id i = incident" using find_row_Some [OF f] by auto
  note b = apply_action_board [OF act assms(2) i(1)]
  from incidentEvent_Inr [OF ev] obtain e m where
    e: "st2 = st1\<lparr>draws := m, incident_events := incident_events st1 @ [e]\<rparr>" "ie_action e = action"
      "ie_incident_id e = incident" "ie_actor e = userID" by blast
  have audit: "audit_events st1 = audit_events st"
    using act by (auto simp: apply_action_def upd_incident_def res_simps split: if_splits)
  have board: "board_of st' = board_of st1" "incidents_wf st' = incidents_wf st1"
    by (simp_all add: a(1) e(1) board_of_def incidents_wf_def)
  have here: "statuses (board_of st) (i_device_id i, i_source_key i) = Some (i_status i)"
    using incident_key.find_key [OF _ i(1)] assms(2) by (simp add: board_of_def incidents_wf_def)
  have "board_ok (board_of st1)"
  proof -
    have obs: "observed d c (board_of st1) = observed d c (board_of st)" for d c using b by (simp add: observed_def)
    have "action_status action (i_status i) \<noteq> ''resolved'' \<Longrightarrow> i_status i \<noteq> ''resolved''"
      using b by (auto simp: action_status_def split: if_splits)
    with assms(3) here b show ?thesis unfolding board_ok_def obs
      by (auto simp: fun_upd_def split: if_splits)
  qed
  with b board p i e a audit show ?thesis
    by (intro bexI [OF _ i(1)]) (simp add: CheckPermission_def)
qed


definition sample_incident :: incident where
  "sample_incident = \<lparr>i_id = ''i1'', i_device_id = ''dev'', i_source_key = ''network'', i_title = ''offline'',
     i_status = ''open'', i_assignee_id = [], i_occurrences = 1, i_opened_at = 0, i_updated_at = 0, i_resolved_at = None\<rparr>"

definition sample_incidents :: store where
  "sample_incidents = sample_store
     \<lparr>incident_sources := [\<lparr>is_device_id = ''dev'', is_source_key = ''alert:a1'', is_category = ''network'',
        is_active = True, is_updated_at = 0\<rparr>],
      incidents := [sample_incident]\<rparr>"

lemma sample_incidents_ok: "incidents_wf sample_incidents" "board_ok (board_of sample_incidents)"
proof -
  show "incidents_wf sample_incidents"
    by (simp add: incidents_wf_def sample_incidents_def source_table.wf_def incident_key.wf_def incident_table.wf_def)
  show "board_ok (board_of sample_incidents)"
    by (auto simp: board_ok_def observed_def board_of_def sample_incidents_def sample_incident_def split: if_splits)
qed

lemma sample_acknowledge:
  "\<exists>st'. UpdateIncident sample_env hour ''op'' ''i1'' ''acknowledge'' [] sample_incidents = Inr st'"
proof -
  have "fleetPrincipal sample_incidents ''op'' = Inr False"
    "permissionAllowed sample_incidents ''op'' ''dev'' ''incidents'' False = Inr ()" by code_simp+
  then show ?thesis
    by (simp add: UpdateIncident_def incident_request_def apply_action_def upd_incident_def incidentEvent_def
        add_audit_def randomID_def insert_row_def has_row_def sample_incidents_def sample_incident_def Let_def
        sample_store_def empty_store_def)
qed

theorem UpdateIncident_accountable_witness:
  "\<exists>st'. UpdateIncident sample_env hour ''op'' ''i1'' ''acknowledge'' [] sample_incidents = Inr st' \<and>
     statuses (board_of st') (''dev'', ''network'') = Some ''acknowledged'' \<and> board_ok (board_of st')"
proof -
  obtain st' where st': "UpdateIncident sample_env hour ''op'' ''i1'' ''acknowledge'' [] sample_incidents = Inr st'"
    using sample_acknowledge by blast
  have only: "i \<in> set (incidents sample_incidents) \<longleftrightarrow> i = sample_incident" for i by (simp add: sample_incidents_def)
  from UpdateIncident_accountable [OF st' sample_incidents_ok] have
    "board_of st' = (board_of sample_incidents)\<lparr>statuses := (statuses (board_of sample_incidents))
       ((''dev'', ''network'') := Some ''acknowledged'')\<rparr> \<and> board_ok (board_of st')"
    by (auto simp: only sample_incident_def action_status_def)
  with st' show ?thesis by auto
qed

text \<open>
  Purging the alerts of a device leaves their sources active: the next report, even of nothing,
  resolves no incident, and by \<open>observe_repeated\<close> a later outage does not reopen one that an
  operator has resolved.
\<close>

lemma purged_alerts_keep_incidents:
  assumes "has_row (\<lambda>d. d_id d = dev) (devices st)" and "TrimSpace dev = dev" and "dev \<noteq> []"
    and "SyncDeviceAlerts E now dev [] (snd (PurgeAlerts dev st)) = (r, st')"
  shows "(\<forall>a \<in> set (alerts st'). a_device_id a \<noteq> dev) \<and> incidents st' = incidents st \<and>
    incident_sources st' = incident_sources st"
proof -
  have "resolve_alerts now dev [] (del_where (\<lambda>a. a_device_id a = dev) (alerts st)) =
      del_where (\<lambda>a. a_device_id a = dev) (alerts st)"
    unfolding resolve_alerts_def by (rule upd_where_none) (simp add: set_del_where)
  moreover have "filter (\<lambda>a. a_device_id a = dev) (del_where (\<lambda>a. a_device_id a = dev) (alerts st)) = []"
    by (simp add: del_where_def filter_empty_conv)
  ultimately show ?thesis
    using assms by (auto simp: SyncDeviceAlerts_def PurgeAlerts_def put_alerts_def SyncAlertIncidents_def Let_def set_del_where)
qed

end
