(* ===== verification/FleetRules.thy ===== *)
theory FleetRules
  imports Rollouts Incidents
begin

text \<open>
  Reaction rules (\<open>fleet_rules.go\<close>): saving a rule, and the step that observes the devices of an
  enabled rule and reacts, by a notification or by an automatic restart of a service. The
  theorems bound what a rule may do on its own: it acts only after the required number of
  consecutive violations, not within its cool-down, at most so many times a day, never twice for
  one sample, and restarts a service only on a device that is online and not while an earlier
  restart is under way.
\<close>

section \<open>Rules\<close>

definition rulePermission :: "FleetRule \<Rightarrow> string" where
  "rulePermission rule = (if fr_Action rule = ''notify'' then ''incidents'' else ''maintenance'')"

definition auto_service :: "string \<Rightarrow> bool" where
  "auto_service s \<longleftrightarrow> s = ''dnsmasq'' \<or> s = ''uhttpd''"

definition rule_limits :: "FleetRule \<Rightarrow> unit res" where
  "rule_limits rule =
     (if length (fr_Title rule) = 0 \<or> length (fr_Title rule) > 160 \<or> length (fr_DeviceIDs rule) = 0 \<or>
         length (fr_DeviceIDs rule) > 100 \<or> fr_Consecutive rule < 1 \<or> fr_Consecutive rule > 20 \<or>
         fr_CooldownSeconds rule < 300 \<or> fr_CooldownSeconds rule > 86400 \<or> fr_MaxActionsPerDay rule < 1 \<or>
         fr_MaxActionsPerDay rule > 5 \<or> fr_Threshold rule < 0 \<or> fr_Threshold rule > 100
      then Inl (ErrMsg ''invalid reaction limits'')
      else if fr_Kind rule \<notin> set [''memory_high'', ''load_high'', ''wan_unreachable'', ''offline'', ''service_down'']
      then Inl (ErrMsg ''invalid reaction condition'')
      else if fr_Action rule \<noteq> ''notify'' \<and> fr_Action rule \<noteq> ''service_restart''
      then Inl (ErrMsg ''invalid reaction action'')
      else if (fr_Action rule = ''service_restart'' \<or> fr_Kind rule = ''service_down'') \<and> \<not> auto_service (fr_Service rule)
      then Inl (ErrMsg ''automatic service must be dnsmasq or uhttpd'')
      else if fr_Action rule = ''service_restart'' \<and> fr_Kind rule = ''offline''
      then Inl (ErrMsg ''offline rules can only notify'')
      else Inr ())"

text \<open>Queued commands of the rule's events are withdrawn.\<close>

definition cancel_reactions :: "(rule_event \<Rightarrow> bool) \<Rightarrow> store \<Rightarrow> store" where
  "cancel_reactions p st =
     st\<lparr>commands :=
        upd_where (\<lambda>c. c_status c = ''queued'' \<and> has_row (\<lambda>e. ev_command_id e = c_id c \<and> p e) (fleet_rule_events st))
          (\<lambda>c. c\<lparr>c_status := ''cancelled''\<rparr>) (commands st)\<rparr>"

definition store_rule :: "time \<Rightarrow> string \<Rightarrow> FleetRule \<Rightarrow> store \<Rightarrow> store" where
  "store_rule now userID rule st =
     (let st = st\<lparr>fleet_rules :=
            upsert_row fr_id
              (\<lambda>old new. old\<lparr>fr_title := fr_title new, fr_definition := fr_definition new,
                             fr_enabled := fr_enabled new, fr_updated_at := fr_updated_at new\<rparr>)
              \<lparr>fr_id = fr_ID rule, fr_user_id = userID, fr_title = fr_Title rule, fr_definition = rule,
               fr_enabled = fr_Enabled rule, fr_created_at = now, fr_updated_at = now\<rparr> (fleet_rules st)\<rparr>;
          st = st\<lparr>fleet_rule_states := del_where (\<lambda>s. st_rule_id s = fr_ID rule) (fleet_rule_states st)\<rparr>
      in cancel_reactions (\<lambda>e. ev_rule_id e = fr_ID rule) st)"

text \<open>
  Where the rule goes: \<open>Inl\<close> the stored rule of a repeated request, \<open>Inr\<close> the identifier to store
  it under. Documents are compared as values: the encoder is injective on the texts a request can
  carry.
\<close>

definition rule_target ::
  "env \<Rightarrow> bool \<Rightarrow> string \<Rightarrow> FleetRule \<Rightarrow> store \<Rightarrow> (FleetRule + FleetRule \<times> store) res" where
  "rule_target E newRequest userID rule st =
     (case (if newRequest then find_row (\<lambda>r. fr_id r = fr_ID rule \<and> fr_user_id r = userID) (fleet_rules st) else None) of
        Some row \<Rightarrow> if fr_definition row \<noteq> rule then Inl ErrFleetConflict else Inr (Inl rule)
      | None \<Rightarrow>
          if fr_ID rule = [] \<or> newRequest then
            if count_where (\<lambda>r. fr_user_id r = userID) (fleet_rules st) \<ge> 100 then Inl (ErrMsg ''too many reaction rules'')
            else if fr_ID rule = [] then
              let (i, st) = randomID E ''rule'' st in Inr (Inr (rule\<lparr>fr_ID := i\<rparr>, st))
            else Inr (Inr (rule, st))
          else
            (case find_row (\<lambda>r. fr_id r = fr_ID rule) (fleet_rules st) of
               None \<Rightarrow> Inl ErrFleetAccess
             | Some row \<Rightarrow> if fr_user_id row \<noteq> userID then Inl ErrFleetAccess else Inr (Inr (rule, st))))"

definition SaveFleetRule :: "env \<Rightarrow> time \<Rightarrow> string \<Rightarrow> FleetRule \<Rightarrow> store \<Rightarrow> (FleetRule \<times> store) res" where
  "SaveFleetRule E now userID rule st =
     (let newRequest = (fr_ID rule = [] \<and> fr_RequestKey rule \<noteq> []) in
      bindE (if newRequest then bindE (fleetObjectID E ''rule'' userID (fr_RequestKey rule)) (\<lambda>i. Inr (rule\<lparr>fr_ID := i\<rparr>))
             else Inr rule) (\<lambda>rule.
      bindE (rule_limits rule) (\<lambda>_.
      bindE (fleetPrincipal st userID) (\<lambda>admin.
      bindE (permissionAllowed st userID [] (rulePermission rule) admin) (\<lambda>_.
      bindE (checkE (\<lambda>d. fleetDeviceAccess st userID d admin) (fr_DeviceIDs rule)) (\<lambda>_.
      bindE (rule_target E newRequest userID rule st) (\<lambda>t.
        case t of
          Inl rule \<Rightarrow> Inr (rule, st)
        | Inr (rule, st) \<Rightarrow> Inr (rule, store_rule now userID rule st))))))))"

definition ListFleetRules :: "string \<Rightarrow> store \<Rightarrow> FleetRule list" where
  "ListFleetRules userID st =
     map fr_definition (order_by (\<lambda>x y. fr_title x \<le> fr_title y) (filter (\<lambda>r. fr_user_id r = userID) (fleet_rules st)))"

section \<open>Observation\<close>

definition latest_sample :: "env \<Rightarrow> time \<Rightarrow> string \<Rightarrow> store \<Rightarrow> metric_sample option" where
  "latest_sample E now deviceID st =
     (case order_by (\<lambda>x y. ts_le E (ms_created_at y) (ms_created_at x))
             (filter (\<lambda>m. ms_device_id m = deviceID \<and> julianday E (ms_created_at m) > julianday E (now - 2 * minute))
                (metric_samples st)) of
        [] \<Rightarrow> None
      | m # _ \<Rightarrow> Some m)"

text \<open>The last check of the service that passed or failed counts.\<close>

definition service_verdict :: "string \<Rightarrow> (string \<times> string) list \<Rightarrow> bool \<times> bool" where
  "service_verdict service checks =
     fold (\<lambda>(n, s) v. if n = ''service:'' @ service \<and> (s = ''passed'' \<or> s = ''failed'') then (s = ''failed'', True) else v)
       checks (False, False)"

text \<open>The sample a device shows now, with (violated, known); \<open>None\<close> skips the device.\<close>

definition observation ::
  "env \<Rightarrow> time \<Rightarrow> FleetRule \<Rightarrow> string \<Rightarrow> bool \<Rightarrow> store \<Rightarrow> (string \<times> bool \<times> bool) option" where
  "observation E now rule deviceID online st =
     (if fr_Kind rule = ''offline'' then
        Some (''offline:'' @ RFC3339Nano (Truncate now minute), \<not> online, True)
      else if fr_Kind rule = ''service_down'' then
        Option.bind (latest_report E now deviceID st) (\<lambda>c.
          map_option (\<lambda>checks. (c_id c, service_verdict (fr_Service rule) checks)) (decode_report (c_result_json c)))
      else map_option (\<lambda>m. (ms_id m, reactionViolation E rule (ms_metrics_json m))) (latest_sample E now deviceID st))"

section \<open>Reaction\<close>

definition day_text :: "time \<Rightarrow> string" where
  "day_text t = date_text ((t - zero_time) div (24 * hour))"

definition init_state :: "string \<Rightarrow> string \<Rightarrow> store \<Rightarrow> store" where
  "init_state rule device st =
     st\<lparr>fleet_rule_states :=
        upsert_row (\<lambda>s. (st_rule_id s, st_device_id s)) (\<lambda>old new. old)
          \<lparr>st_rule_id = rule, st_device_id = device, st_last_sample = [], st_violations = 0, st_next_action_at = None,
           st_action_day = [], st_action_count = 0\<rparr> (fleet_rule_states st)\<rparr>"

definition reaction_active :: "string \<Rightarrow> string \<Rightarrow> store \<Rightarrow> nat" where
  "reaction_active rule device st =
     count_where (\<lambda>c. (c_status c = ''queued'' \<or> c_status c = ''claimed'') \<and>
        has_row (\<lambda>e. ev_command_id e = c_id c \<and> ev_rule_id e = rule \<and> ev_device_id e = device) (fleet_rule_events st))
       (commands st)"

text \<open>The Russian text of the notification, in UTF-8.\<close>

definition reaction_text :: string where
  "reaction_text = of_bytes
     [208,163,209,129,208,187,208,190,208,178,208,184,208,181,32,208,191,209,128,208,176,208,178,208,184,
      208,187,208,176,32,208,191,208,190,208,180,209,130,208,178,208,181,209,128,208,182,208,180,208,181,
      208,189,208,190,32,208,191,208,190,209,129,208,187,208,181,208,180,208,190,208,178,208,176,209,130,
      208,181,208,187,209,140,208,189,209,139,208,188,208,184,32,208,189,208,176,208,177,208,187,209,142,
      208,180,208,181,208,189,208,184,209,143,208,188,208,184]"

definition insert_inbox :: "inbox_notification \<Rightarrow> store \<Rightarrow> store res" where
  "insert_inbox n st =
     (if has_row (\<lambda>x. in_dedupe_key x = in_dedupe_key n) (inbox_notifications st) \<or>
         \<not> has_row (\<lambda>u. u_id u = in_user_id n) (users st) \<or>
         (case in_device_id n of None \<Rightarrow> False | Some d \<Rightarrow> \<not> has_row (\<lambda>x. d_id x = d) (devices st))
      then Inl (ErrConstraint ''inbox_notifications'')
      else bindE (insert_row in_id n (inbox_notifications st)) (\<lambda>ns. Inr (st\<lparr>inbox_notifications := ns\<rparr>)))"

definition insert_rule_event :: "rule_event \<Rightarrow> store \<Rightarrow> store res" where
  "insert_rule_event e st =
     bindE (insert_row ev_id e (fleet_rule_events st)) (\<lambda>es. Inr (st\<lparr>fleet_rule_events := es\<rparr>))"

text \<open>
  The action of a rule: the identifier of its command and the status of the event. The command is
  stored with the text of its arguments and a single attempt.
\<close>

definition reaction_effect ::
  "env \<Rightarrow> time \<Rightarrow> string \<Rightarrow> string \<Rightarrow> FleetRule \<Rightarrow> string \<Rightarrow> string \<Rightarrow> store \<Rightarrow> (string \<times> string \<times> store) res" where
  "reaction_effect E now i userID rule deviceID eventID st =
     (if fr_Action rule = ''service_restart'' then
        let args = print_json (string_map_json [(''rule_id'', i), (''service'', fr_Service rule)]) in
        bindE (newCommand E now deviceID ''service_restart'' args (5 * minute) st) (\<lambda>(c, st).
        bindE (insert_command 1 (c\<lparr>c_args_json := args\<rparr>) st) (\<lambda>st. Inr (c_id c, ''queued'', st)))
      else
        bindE (insert_inbox
          \<lparr>in_id = eventID, in_user_id = userID, in_device_id = Some deviceID, in_incident_id = [], in_dedupe_key = eventID,
           in_severity = ''warning'', in_event = ''fleet.reaction'', in_title = fr_Title rule, in_body = reaction_text,
           in_read_at = None, in_created_at = now\<rparr> st) (\<lambda>st. Inr ([], ''notified'', st)))"

definition react ::
  "env \<Rightarrow> time \<Rightarrow> string \<Rightarrow> string \<Rightarrow> FleetRule \<Rightarrow> string \<Rightarrow> store \<Rightarrow> store res" where
  "react E now i userID rule deviceID st =
     (let (eventID, st) = randomID E ''reaction'' st in
      bindE (reaction_effect E now i userID rule deviceID eventID st) (\<lambda>(commandID, status, st).
      bindE (insert_rule_event
        \<lparr>ev_id = eventID, ev_rule_id = i, ev_device_id = deviceID, ev_action = fr_Action rule, ev_status = status,
         ev_command_id = commandID, ev_message = ''condition: '' @ fr_Kind rule, ev_created_at = now\<rparr> st) (\<lambda>st.
        add_audit
          \<lparr>ae_id = eventID, ae_actor = userID, ae_action = ''fleet.reaction'', ae_device_id = deviceID,
           ae_command_id = commandID,
           ae_details_json = print_json (string_map_json [(''action'', fr_Action rule), (''rule_id'', i)]),
           ae_created_at = now\<rparr> st)))"

text \<open>When a rule acts: after its row of violations, after the cool-down, within the day's limit.\<close>

definition action_due :: "time \<Rightarrow> FleetRule \<Rightarrow> int \<Rightarrow> time option \<Rightarrow> int \<Rightarrow> bool" where
  "action_due now rule violations nextAction attempts \<longleftrightarrow>
     violations \<ge> fr_Consecutive rule \<and> \<not> (case nextAction of None \<Rightarrow> zero_time | Some t \<Rightarrow> t) > now \<and>
     attempts < fr_MaxActionsPerDay rule"

definition set_rule_state :: "string \<Rightarrow> string \<Rightarrow> (rule_state \<Rightarrow> rule_state) \<Rightarrow> store \<Rightarrow> store" where
  "set_rule_state rule device f st =
     st\<lparr>fleet_rule_states := upd_where (\<lambda>s. st_rule_id s = rule \<and> st_device_id s = device) f (fleet_rule_states st)\<rparr>"

text \<open>One new sample of a device, with the stored state \<open>s\<close> of the rule on it.\<close>

definition react_to_sample ::
  "env \<Rightarrow> time \<Rightarrow> string \<Rightarrow> string \<Rightarrow> FleetRule \<Rightarrow> string \<Rightarrow> bool \<Rightarrow> string \<times> bool \<times> bool \<Rightarrow> rule_state \<Rightarrow> store \<Rightarrow> store res" where
  "react_to_sample E now i userID rule deviceID online obs s st =
     (case obs of (sampleID, violation, known) \<Rightarrow>
        let today = day_text now;
            attempts = (if st_action_day s \<noteq> today then 0 else st_action_count s);
            violations = (if violation \<and> known then min (st_violations s + 1) (fr_Consecutive rule) else 0);
            st = (if violation \<and> known then st
                  else cancel_reactions (\<lambda>e. ev_rule_id e = i \<and> ev_device_id e = deviceID) st)
        in bindE (if known \<and> (\<not> violation \<or> violations \<ge> fr_Consecutive rule)
                  then syncIncidentSource E now deviceID (''rule:'' @ i) (incidentCategory (fr_Kind rule) (fr_Service rule))
                         (fr_Title rule) violation st
                  else Inr st) (\<lambda>st.
             if action_due now rule violations (st_next_action_at s) attempts \<and> reaction_active i deviceID st = 0 \<and>
                (fr_Action rule = ''notify'' \<or> online)
             then bindE (react E now i userID rule deviceID st) (\<lambda>st.
                    Inr (set_rule_state i deviceID
                      (\<lambda>x. x\<lparr>st_last_sample := sampleID, st_violations := 0,
                             st_next_action_at := Some (now + fr_CooldownSeconds rule * second),
                             st_action_day := today, st_action_count := attempts + 1\<rparr>) st))
             else Inr (set_rule_state i deviceID
                    (\<lambda>x. x\<lparr>st_last_sample := sampleID, st_violations := violations, st_next_action_at := st_next_action_at s,
                           st_action_day := today, st_action_count := attempts\<rparr>) st)))"

definition advance_device ::
  "env \<Rightarrow> time \<Rightarrow> string \<Rightarrow> string \<Rightarrow> FleetRule \<Rightarrow> bool \<Rightarrow> string \<Rightarrow> store \<Rightarrow> store res" where
  "advance_device E now i userID rule admin deviceID st =
     (case fleetDeviceAccess st userID deviceID admin of
        Inl e \<Rightarrow> if e = ErrFleetAccess then Inr st else Inl e
      | Inr _ \<Rightarrow>
          (case find_row (\<lambda>d. d_id d = deviceID) (devices st) of
             None \<Rightarrow> Inl ErrNoRows
           | Some d \<Rightarrow>
               (case d_last_seen_at d of
                  None \<Rightarrow> Inr st
                | Some seen \<Rightarrow>
                    let online = now - seen < 2 * minute in
                    (case observation E now rule deviceID online st of
                       None \<Rightarrow> Inr st
                     | Some (sampleID, violation, known) \<Rightarrow>
                         if \<not> known \<and> sampleID = [] then Inr st
                         else let st = init_state i deviceID st in
                           (case find_row (\<lambda>s. st_rule_id s = i \<and> st_device_id s = deviceID) (fleet_rule_states st) of
                              None \<Rightarrow> Inl ErrNoRows
                            | Some s \<Rightarrow>
                                if sampleID = st_last_sample s then Inr st
                                else react_to_sample E now i userID rule deviceID online (sampleID, violation, known) s st)))))"

definition advanceFleetRule :: "env \<Rightarrow> time \<Rightarrow> string \<Rightarrow> string \<Rightarrow> store \<Rightarrow> store res" where
  "advanceFleetRule E now i userID st =
     (case find_row (\<lambda>r. fr_id r = i \<and> fr_user_id r = userID) (fleet_rules st) of
        None \<Rightarrow> Inr st
      | Some row \<Rightarrow>
          if \<not> fr_enabled row then Inr st
          else let rule = fr_definition row in
            (case fleetPrincipal st userID of
               Inl e \<Rightarrow> if e = ErrFleetAccess then Inr st else Inl e
             | Inr admin \<Rightarrow>
                 (case permissionAllowed st userID [] (rulePermission rule) admin of
                    Inl e \<Rightarrow> if e = ErrFleetAccess then Inr st else Inl e
                  | Inr _ \<Rightarrow> foldE (advance_device E now i userID rule admin) (remdups_adj (fr_DeviceIDs rule)) st)))"

definition AdvanceFleetRules :: "env \<Rightarrow> time \<Rightarrow> store \<Rightarrow> err option \<times> store" where
  "AdvanceFleetRules E now st =
     until_error (\<lambda>r st. case advanceFleetRule E now (fr_id r) (fr_user_id r) st of Inl e \<Rightarrow> (Some e, st) | Inr st \<Rightarrow> (None, st))
       (take 100 (order_by (\<lambda>x y. text_le (fr_updated_at x) (fr_updated_at y)) (filter fr_enabled (fleet_rules st)))) st"

text \<open>The events of a user's rules, with the status of the command where there is one.\<close>

definition event_status :: "store \<Rightarrow> rule_event \<Rightarrow> string" where
  "event_status st e =
     (if ev_command_id e = [] then ev_status e
      else case find_row (\<lambda>c. c_id c = ev_command_id e) (commands st) of None \<Rightarrow> ''failed'' | Some c \<Rightarrow> c_status c)"

definition ListFleetRuleEvents :: "string \<Rightarrow> store \<Rightarrow> rule_event list" where
  "ListFleetRuleEvents userID st =
     take 100 (order_by (\<lambda>x y. text_le (ev_created_at y) (ev_created_at x))
       (map (\<lambda>e. e\<lparr>ev_status := event_status st e\<rparr>)
          (filter (\<lambda>e. has_row (\<lambda>r. fr_id r = ev_rule_id e \<and> fr_user_id r = userID) (fleet_rules st)) (fleet_rule_events st))))"

section \<open>Lemmas\<close>

text \<open>Incidents touch their own tables and the random source only.\<close>

definition outside_incidents :: "store \<Rightarrow> store" where
  "outside_incidents st = st\<lparr>draws := 0, incident_sources := [], incidents := [], incident_events := []\<rparr>"

lemma event_outside: "incidentEvent E now i actor action body st = Inr st' \<Longrightarrow> outside_incidents st' = outside_incidents st"
  by (drule incidentEvent_Inr, elim exE conjE) (simp add: outside_incidents_def)

lemma syncIncidentSource_outside:
  assumes "syncIncidentSource E now d k c title active st = Inr st'"
  shows "outside_incidents st' = outside_incidents st"
proof -
  from assms obtain st1 where p: "put_source now d k c active st = Inr st1"
    by (auto simp: syncIncidentSource_def Let_def res_simps)
  from put_source_Inr [OF p] have a: "outside_incidents st1 = outside_incidents st"
    by (elim exE conjE) (simp add: outside_incidents_def)
  have "first_incident E now d k c title n st1 = Inr st' \<Longrightarrow> outside_incidents st' = outside_incidents st1" for n
    by (auto simp: first_incident_def insert_incident_def randomID_def res_simps dest!: event_outside split: if_splits)
      (simp add: outside_incidents_def)
  moreover have "known_incident E now k new n i st1 = Inr st' \<Longrightarrow> outside_incidents st' = outside_incidents st1" for new n i
    by (auto simp: known_incident_def upd_incident_def dest!: event_outside split: if_splits)
      (simp_all add: outside_incidents_def)
  ultimately show ?thesis
    using assms p a by (auto simp: syncIncidentSource_def Let_def split: option.splits)
qed

lemma outside_incidents_keeps:
  "fleet_rule_states (outside_incidents st) = fleet_rule_states st"
  "fleet_rule_events (outside_incidents st) = fleet_rule_events st"
  "fleet_rules (outside_incidents st) = fleet_rules st"
  "commands (outside_incidents st) = commands st"
  "devices (outside_incidents st) = devices st"
  "users (outside_incidents st) = users st"
  "management_permissions (outside_incidents st) = management_permissions st"
  "fleet_assets (outside_incidents st) = fleet_assets st"
  "signing_key (outside_incidents st) = signing_key st"
  "inbox_notifications (outside_incidents st) = inbox_notifications st"
  "audit_events (outside_incidents st) = audit_events st"
  "remote_sessions (outside_incidents st) = remote_sessions st"
  by (simp_all add: outside_incidents_def)

lemma outside_incidents_fields:
  assumes "outside_incidents st' = outside_incidents st"
  shows "fleet_rule_states st' = fleet_rule_states st" "fleet_rule_events st' = fleet_rule_events st"
    "fleet_rules st' = fleet_rules st" "commands st' = commands st" "devices st' = devices st" "users st' = users st"
    "management_permissions st' = management_permissions st" "fleet_assets st' = fleet_assets st"
    "signing_key st' = signing_key st" "inbox_notifications st' = inbox_notifications st" "audit_events st' = audit_events st"
    "remote_sessions st' = remote_sessions st"
  by (metis outside_incidents_keeps assms)+

lemma reaction_effect_Inr:
  assumes "reaction_effect E now i u rule dev eid st = Inr (cid, status, st')"
  shows "fleet_rule_states st' = fleet_rule_states st \<and> fleet_rule_events st' = fleet_rule_events st \<and>
    fleet_rules st' = fleet_rules st \<and> access_tables st' = access_tables st \<and> audit_events st' = audit_events st"
  using assms
  by (auto simp: reaction_effect_def Let_def res_simps insert_inbox_def access_tables_def
      dest!: newCommand_Inr split: if_splits)

lemma react_Inr:
  assumes "react E now i u rule dev st = Inr st'"
  shows "\<exists>e. fleet_rule_events st' = fleet_rule_events st @ [e] \<and> ev_rule_id e = i \<and> ev_device_id e = dev \<and>
      ev_created_at e = now \<and> ev_action e = fr_Action rule" (is ?e)
    and "fleet_rule_states st' = fleet_rule_states st" "fleet_rules st' = fleet_rules st"
    "access_tables st' = access_tables st"
proof -
  from assms obtain n eid cid status st2 where r: "reaction_effect E now i u rule dev eid (st\<lparr>draws := n\<rparr>) = Inr (cid, status, st2)"
    and s: "bindE (insert_rule_event
        \<lparr>ev_id = eid, ev_rule_id = i, ev_device_id = dev, ev_action = fr_Action rule, ev_status = status,
         ev_command_id = cid, ev_message = ''condition: '' @ fr_Kind rule, ev_created_at = now\<rparr> st2) (\<lambda>st.
        add_audit
          \<lparr>ae_id = eid, ae_actor = u, ae_action = ''fleet.reaction'', ae_device_id = dev,
           ae_command_id = cid,
           ae_details_json = print_json (string_map_json [(''action'', fr_Action rule), (''rule_id'', i)]),
           ae_created_at = now\<rparr> st) = Inr st'"
    by (auto simp: react_def randomID_def res_simps)
  note f = reaction_effect_Inr [OF r]
  from s show ?e "fleet_rule_states st' = fleet_rule_states st" "fleet_rules st' = fleet_rules st"
    "access_tables st' = access_tables st"
    using f by (auto simp: insert_rule_event_def add_audit_def res_simps access_tables_def)
qed

definition day_number_of :: "time \<Rightarrow> int" where
  "day_number_of t = (t - zero_time) div (24 * hour)"

lemma day_text_eq:
  assumes "day_text s = day_text t" and "zero_time \<le> s" and "zero_time \<le> t"
  shows "day_number_of s = day_number_of t"
  using date_text_inj [of "day_number_of s" "[]" "day_number_of t" "[]"] assms
  by (simp add: day_text_def day_number_of_def)

lemma day_number_mono: "s \<le> t \<Longrightarrow> day_number_of s \<le> day_number_of t"
  by (simp add: day_number_of_def zdiv_mono1)

lemma day_between:
  assumes "day_text s = day_text t" and "zero_time \<le> s" and "s \<le> m" and "m \<le> t"
  shows "day_text m = day_text t"
proof -
  have "day_number_of s = day_number_of t" using assms by (intro day_text_eq) auto
  then have "day_number_of m = day_number_of t" using day_number_mono [of s m] day_number_mono [of m t] assms by simp
  then show ?thesis by (simp add: day_text_def day_number_of_def)
qed

section \<open>The pace of a rule\<close>

definition rule_events_of :: "string \<Rightarrow> string \<Rightarrow> store \<Rightarrow> rule_event list" where
  "rule_events_of i dev st = filter (\<lambda>e. ev_rule_id e = i \<and> ev_device_id e = dev) (fleet_rule_events st)"

definition apart :: "FleetRule \<Rightarrow> rule_event list \<Rightarrow> bool" where
  "apart rule es \<longleftrightarrow>
     sorted_wrt (\<lambda>x y. ev_created_at x + fr_CooldownSeconds rule * second \<le> ev_created_at y) es"

definition on_day :: "string \<Rightarrow> rule_event list \<Rightarrow> nat" where
  "on_day day es = count_where (\<lambda>e. day_text (ev_created_at e) = day) es"

interpretation rule_state_table: keyed_table "\<lambda>s. (st_rule_id s, st_device_id s)" .

text \<open>What the counters of a row say about the events so far.\<close>

definition counters_ok :: "FleetRule \<Rightarrow> time \<Rightarrow> rule_event list \<Rightarrow> rule_state \<Rightarrow> bool" where
  "counters_ok rule t es s \<longleftrightarrow>
     int (on_day (st_action_day s) es) = st_action_count s \<and>
     (es \<noteq> [] \<longrightarrow> (\<exists>T. zero_time \<le> T \<and> T \<le> t \<and> st_action_day s = day_text T \<and> (\<forall>e \<in> set es. ev_created_at e \<le> T))) \<and>
     (\<forall>e \<in> set es. \<exists>n. st_next_action_at s = Some n \<and> ev_created_at e + fr_CooldownSeconds rule * second \<le> n)"

definition paced :: "FleetRule \<Rightarrow> string \<Rightarrow> time \<Rightarrow> store \<Rightarrow> bool" where
  "paced rule i t st \<longleftrightarrow> rule_state_table.wf (fleet_rule_states st) \<and>
     (\<forall>dev. let es = rule_events_of i dev st in
        apart rule es \<and> (\<forall>day. int (on_day day es) \<le> fr_MaxActionsPerDay rule) \<and>
        (\<forall>e \<in> set es. zero_time \<le> ev_created_at e) \<and>
        (es \<noteq> [] \<longrightarrow> (\<exists>s \<in> set (fleet_rule_states st). st_rule_id s = i \<and> st_device_id s = dev)) \<and>
        (\<forall>s \<in> set (fleet_rule_states st). st_rule_id s = i \<longrightarrow> st_device_id s = dev \<longrightarrow> counters_ok rule t es s))"

lemma today_count:
  assumes "counters_ok rule t es s" and "\<forall>e \<in> set es. zero_time \<le> ev_created_at e" and "t \<le> now"
  shows "int (on_day (day_text now) es) = (if st_action_day s \<noteq> day_text now then 0 else st_action_count s)"
proof (cases "st_action_day s = day_text now")
  case True
  with assms(1) show ?thesis by (simp add: counters_ok_def)
next
  case False
  have "day_text (ev_created_at e) \<noteq> day_text now" if e: "e \<in> set es" for e
  proof
    assume d: "day_text (ev_created_at e) = day_text now"
    from e assms(1) obtain T where T: "T \<le> t" "st_action_day s = day_text T" "ev_created_at e \<le> T"
      by (auto simp: counters_ok_def)
    with day_between [OF d _ T(3)] assms e have "day_text T = day_text now" by auto
    with T False show False by simp
  qed
  then have "on_day (day_text now) es = 0" by (simp add: on_day_def count_where_zero)
  with False show ?thesis by simp
qed

lemma counters_mono: "counters_ok rule t es s \<Longrightarrow> t \<le> now \<Longrightarrow> counters_ok rule now es s"
  by (fastforce simp: counters_ok_def)

lemma counters_idle:
  assumes "counters_ok rule t es s" and "\<forall>e \<in> set es. zero_time \<le> ev_created_at e" and "t \<le> now" and "zero_time \<le> now"
    and "st_next_action_at s' = st_next_action_at s" and "st_action_day s' = day_text now"
    and "st_action_count s' = (if st_action_day s \<noteq> day_text now then 0 else st_action_count s)"
  shows "counters_ok rule now es s'"
proof -
  have "ev_created_at e \<le> now" if "e \<in> set es" for e using assms(1,3) that by (force simp: counters_ok_def)
  with assms today_count [OF assms(1-3)] show ?thesis by (auto simp: counters_ok_def)
qed

lemma counters_act:
  assumes "counters_ok rule t es s" and "\<forall>e \<in> set es. zero_time \<le> ev_created_at e" and "t \<le> now" and "zero_time \<le> now"
    and "ev_created_at e = now" and "st_next_action_at s' = Some (now + fr_CooldownSeconds rule * second)"
    and "st_action_day s' = day_text now"
    and "st_action_count s' = (if st_action_day s \<noteq> day_text now then 0 else st_action_count s) + 1"
  shows "counters_ok rule now (es @ [e]) s'"
proof -
  have "ev_created_at x \<le> now" if "x \<in> set es" for x using assms(1,3) that by (force simp: counters_ok_def)
  with assms today_count [OF assms(1-3)] show ?thesis by (auto simp: counters_ok_def on_day_def)
qed

lemma act_apart:
  assumes "counters_ok rule t es s" and "apart rule es" and "ev_created_at e = now"
    and "action_due now rule v (st_next_action_at s) attempts"
  shows "apart rule (es @ [e])"
  using assms by (fastforce simp: apart_def counters_ok_def action_due_def sorted_wrt_append)

lemma paced_update:
  assumes "paced rule i t st" and "t \<le> now"
    and "fleet_rule_states st' = upd_where (\<lambda>s. st_rule_id s = i \<and> st_device_id s = dev) f (fleet_rule_states st)"
    and "\<And>s. st_rule_id (f s) = st_rule_id s \<and> st_device_id (f s) = st_device_id s"
    and "s \<in> set (fleet_rule_states st)" and "st_rule_id s = i" and "st_device_id s = dev"
    and "\<And>d. d \<noteq> dev \<Longrightarrow> rule_events_of i d st' = rule_events_of i d st"
    and "apart rule (rule_events_of i dev st')" and "\<forall>e \<in> set (rule_events_of i dev st'). zero_time \<le> ev_created_at e"
    and "\<And>day. int (on_day day (rule_events_of i dev st')) \<le> fr_MaxActionsPerDay rule"
    and "counters_ok rule now (rule_events_of i dev st') (f s)"
  shows "paced rule i now st'"
proof -
  have wf: "rule_state_table.wf (fleet_rule_states st)" using assms(1) by (simp add: paced_def)
  have one: "x = s" if "x \<in> set (fleet_rule_states st)" "st_rule_id x = i" "st_device_id x = dev" for x
    using rule_state_table.wf_unique [OF wf that(1) assms(5)] that assms(6,7) by simp
  have rows: "x \<in> set (fleet_rule_states st') \<Longrightarrow> st_rule_id x = i \<Longrightarrow> st_device_id x = dev \<Longrightarrow> x = f s" for x
    using assms(4) one by (auto simp: assms(3) set_upd_where split: if_splits)
  have other: "x \<in> set (fleet_rule_states st') \<Longrightarrow> st_device_id x \<noteq> dev \<Longrightarrow> x \<in> set (fleet_rule_states st)" for x
    using assms(4) by (auto simp: assms(3) set_upd_where split: if_splits)
  have kept: "x \<in> set (fleet_rule_states st) \<Longrightarrow> st_device_id x \<noteq> dev \<Longrightarrow> x \<in> set (fleet_rule_states st')" for x
    by (force simp: assms(3) set_upd_where)
  have here: "f s \<in> set (fleet_rule_states st')" using assms(5-7) by (auto simp: assms(3) set_upd_where)
  have "rule_state_table.wf (fleet_rule_states st')" unfolding assms(3)
    using assms(4) by (intro rule_state_table.wf_upd [OF wf]) simp
  moreover have "let es = rule_events_of i d st' in
        apart rule es \<and> (\<forall>day. int (on_day day es) \<le> fr_MaxActionsPerDay rule) \<and>
        (\<forall>e \<in> set es. zero_time \<le> ev_created_at e) \<and>
        (es \<noteq> [] \<longrightarrow> (\<exists>s \<in> set (fleet_rule_states st'). st_rule_id s = i \<and> st_device_id s = d)) \<and>
        (\<forall>s \<in> set (fleet_rule_states st'). st_rule_id s = i \<longrightarrow> st_device_id s = d \<longrightarrow> counters_ok rule now es s)" for d
  proof (cases "d = dev")
    case True
    have "\<exists>s \<in> set (fleet_rule_states st'). st_rule_id s = i \<and> st_device_id s = dev" using here assms(4,6,7) by blast
    with True assms(9-12) rows show ?thesis unfolding Let_def by blast
  next
    case False
    with assms(1) have "let es = rule_events_of i d st in
        apart rule es \<and> (\<forall>day. int (on_day day es) \<le> fr_MaxActionsPerDay rule) \<and>
        (\<forall>e \<in> set es. zero_time \<le> ev_created_at e) \<and>
        (es \<noteq> [] \<longrightarrow> (\<exists>s \<in> set (fleet_rule_states st). st_rule_id s = i \<and> st_device_id s = d)) \<and>
        (\<forall>s \<in> set (fleet_rule_states st). st_rule_id s = i \<longrightarrow> st_device_id s = d \<longrightarrow> counters_ok rule t es s)"
      by (simp add: paced_def)
    with False other kept assms(2,8) counters_mono show ?thesis by (simp add: Let_def) blast
  qed
  ultimately show ?thesis by (simp add: paced_def)
qed

definition attempts_today :: "time \<Rightarrow> rule_state \<Rightarrow> int" where
  "attempts_today now s = (if st_action_day s \<noteq> day_text now then 0 else st_action_count s)"

definition violations_now :: "FleetRule \<Rightarrow> bool \<Rightarrow> rule_state \<Rightarrow> int" where
  "violations_now rule violated s = (if violated then min (st_violations s + 1) (fr_Consecutive rule) else 0)"

text \<open>What a rule relies on: its own tables, the rules and the tables of access control.\<close>

definition rule_frame :: "store \<Rightarrow> store \<Rightarrow> bool" where
  "rule_frame st st' \<longleftrightarrow> fleet_rule_states st' = fleet_rule_states st \<and> fleet_rule_events st' = fleet_rule_events st \<and>
     fleet_rules st' = fleet_rules st \<and> access_tables st' = access_tables st"

lemma sample_prepared:
  assumes "(if p then syncIncidentSource E now dev k c title v st else Inr st) = Inr st2"
  shows "rule_frame st st2"
proof (cases p)
  case True
  with assms have "outside_incidents st2 = outside_incidents st" by (simp add: syncIncidentSource_outside)
  from outside_incidents_fields [OF this] show ?thesis by (simp add: rule_frame_def access_tables_def)
next
  case False
  with assms show ?thesis by (simp add: rule_frame_def)
qed

lemma cancel_reactions_frame: "rule_frame st (cancel_reactions p st)"
  by (simp add: rule_frame_def cancel_reactions_def access_tables_def)

lemma rule_frame_trans: "rule_frame a b \<Longrightarrow> rule_frame b c \<Longrightarrow> rule_frame a c"
  by (simp add: rule_frame_def)

lemma react_to_sample_cases:
  assumes "react_to_sample E now i u rule dev online (sid, v, k) s st = Inr st'"
  obtains (act) st2 st3 where "rule_frame st st2"
      and "action_due now rule (violations_now rule (v \<and> k) s) (st_next_action_at s) (attempts_today now s)"
      and "reaction_active i dev st2 = 0" and "fr_Action rule = ''notify'' \<or> online"
      and "react E now i u rule dev st2 = Inr st3"
      and "st' = set_rule_state i dev
         (\<lambda>x. x\<lparr>st_last_sample := sid, st_violations := 0,
                st_next_action_at := Some (now + fr_CooldownSeconds rule * second),
                st_action_day := day_text now, st_action_count := attempts_today now s + 1\<rparr>) st3"
  | (idle) st2 where "rule_frame st st2"
      and "st' = set_rule_state i dev
         (\<lambda>x. x\<lparr>st_last_sample := sid, st_violations := violations_now rule (v \<and> k) s,
                st_next_action_at := st_next_action_at s,
                st_action_day := day_text now, st_action_count := attempts_today now s\<rparr>) st2"
proof -
  define stc where "stc = (if v \<and> k then st else cancel_reactions (\<lambda>e. ev_rule_id e = i \<and> ev_device_id e = dev) st)"
  have c: "rule_frame st stc" by (simp add: stc_def cancel_reactions_frame) (simp add: rule_frame_def)
  define p where "p = (k \<and> (\<not> v \<or> violations_now rule (v \<and> k) s \<ge> fr_Consecutive rule))"
  from assms obtain st2 where s2: "(if p then syncIncidentSource E now dev (''rule:'' @ i)
      (incidentCategory (fr_Kind rule) (fr_Service rule)) (fr_Title rule) v stc else Inr stc) = Inr st2"
    and rest: "(if action_due now rule (violations_now rule (v \<and> k) s) (st_next_action_at s) (attempts_today now s) \<and>
          reaction_active i dev st2 = 0 \<and> (fr_Action rule = ''notify'' \<or> online)
        then bindE (react E now i u rule dev st2) (\<lambda>st.
               Inr (set_rule_state i dev
                 (\<lambda>x. x\<lparr>st_last_sample := sid, st_violations := 0,
                        st_next_action_at := Some (now + fr_CooldownSeconds rule * second),
                        st_action_day := day_text now, st_action_count := attempts_today now s + 1\<rparr>) st))
        else Inr (set_rule_state i dev
               (\<lambda>x. x\<lparr>st_last_sample := sid, st_violations := violations_now rule (v \<and> k) s, st_next_action_at := st_next_action_at s,
                      st_action_day := day_text now, st_action_count := attempts_today now s\<rparr>) st2)) = Inr st'"
    unfolding react_to_sample_def Let_def attempts_today_def [symmetric] violations_now_def [symmetric] prod.case
      stc_def [symmetric] p_def [symmetric] bindE_eq_Inr by blast
  have f: "rule_frame st st2" using rule_frame_trans [OF c sample_prepared [OF s2]] .
  show thesis
  proof (cases "action_due now rule (violations_now rule (v \<and> k) s) (st_next_action_at s) (attempts_today now s) \<and>
          reaction_active i dev st2 = 0 \<and> (fr_Action rule = ''notify'' \<or> online)")
    case True
    with rest obtain st3 where "react E now i u rule dev st2 = Inr st3"
      "st' = set_rule_state i dev
         (\<lambda>x. x\<lparr>st_last_sample := sid, st_violations := 0,
                st_next_action_at := Some (now + fr_CooldownSeconds rule * second),
                st_action_day := day_text now, st_action_count := attempts_today now s + 1\<rparr>) st3"
      by (auto simp: res_simps)
    with True f show thesis by (intro act) auto
  next
    case False
    with rest have "st' = set_rule_state i dev
         (\<lambda>x. x\<lparr>st_last_sample := sid, st_violations := violations_now rule (v \<and> k) s,
                st_next_action_at := st_next_action_at s,
                st_action_day := day_text now, st_action_count := attempts_today now s\<rparr>) st2" by (metis sum.inject(2))
    with f show thesis by (rule idle)
  qed
qed

lemma set_rule_state_fields [simp]:
  "fleet_rule_states (set_rule_state i d f st) =
     upd_where (\<lambda>s. st_rule_id s = i \<and> st_device_id s = d) f (fleet_rule_states st)"
  "fleet_rule_events (set_rule_state i d f st) = fleet_rule_events st"
  "fleet_rules (set_rule_state i d f st) = fleet_rules st"
  "access_tables (set_rule_state i d f st) = access_tables st"
  "rule_events_of i' d' (set_rule_state i d f st) = rule_events_of i' d' st"
  by (simp_all add: set_rule_state_def access_tables_def rule_events_of_def)

lemma paced_device:
  assumes "paced rule i t st" and "s \<in> set (fleet_rule_states st)" and "st_rule_id s = i" and "st_device_id s = dev"
  shows "apart rule (rule_events_of i dev st)" "\<forall>e \<in> set (rule_events_of i dev st). zero_time \<le> ev_created_at e"
    "counters_ok rule t (rule_events_of i dev st) s" "int (on_day day (rule_events_of i dev st)) \<le> fr_MaxActionsPerDay rule"
  using assms by (auto simp: paced_def Let_def)

lemma react_to_sample_paced:
  assumes "react_to_sample E now i u rule dev online (sid, v, k) s st = Inr st'"
    and "paced rule i t st" and "t \<le> now" and "zero_time \<le> now"
    and s: "s \<in> set (fleet_rule_states st)" "st_rule_id s = i" "st_device_id s = dev"
  shows "paced rule i now st'"
  using assms(1)
proof (cases rule: react_to_sample_cases)
  case (act st2 st3)
  let ?es = "rule_events_of i dev st"
  note p = paced_device [OF assms(2) s]
  from react_Inr(1) [OF act(5)] act(1) obtain e where
    ev: "fleet_rule_events st3 = fleet_rule_events st @ [e]" "ev_rule_id e = i" "ev_device_id e = dev" "ev_created_at e = now"
    by (auto simp: rule_frame_def)
  have es: "rule_events_of i dev st' = ?es @ [e]" "d \<noteq> dev \<Longrightarrow> rule_events_of i d st' = rule_events_of i d st" for d
    using ev by (simp_all add: act(6)) (simp_all add: rule_events_of_def)
  have today: "int (on_day (day_text now) ?es) = attempts_today now s"
    using today_count [OF p(3,2) assms(3)] by (simp add: attempts_today_def)
  show ?thesis
  proof (rule paced_update [OF assms(2,3) _ _ s es(2)])
    show "fleet_rule_states st' = upd_where (\<lambda>s. st_rule_id s = i \<and> st_device_id s = dev)
        (\<lambda>x. x\<lparr>st_last_sample := sid, st_violations := 0, st_next_action_at := Some (now + fr_CooldownSeconds rule * second),
               st_action_day := day_text now, st_action_count := attempts_today now s + 1\<rparr>) (fleet_rule_states st)"
      using act(1) react_Inr(2) [OF act(5)] by (simp add: act(6) rule_frame_def)
    show "int (on_day day (rule_events_of i dev st')) \<le> fr_MaxActionsPerDay rule" for day
      using p(4) [of day] today act(2) by (auto simp: es(1) on_day_def ev(4) action_due_def)
    show "apart rule (rule_events_of i dev st')"
      unfolding es(1) by (rule act_apart [OF p(3,1) ev(4) act(2)])
    show "\<forall>e \<in> set (rule_events_of i dev st'). zero_time \<le> ev_created_at e"
      using p(2) assms(4) by (simp add: es(1) ev(4))
  qed (simp_all add: es(1), rule counters_act [OF p(3,2) assms(3,4) ev(4)], simp_all add: attempts_today_def)
next
  case (idle st2)
  note p = paced_device [OF assms(2) s]
  have es: "rule_events_of i d st' = rule_events_of i d st" for d
    using idle(1) by (simp add: idle(2)) (simp add: rule_events_of_def rule_frame_def)
  show ?thesis
  proof (rule paced_update [OF assms(2,3) _ _ s es])
    show "fleet_rule_states st' = upd_where (\<lambda>s. st_rule_id s = i \<and> st_device_id s = dev)
        (\<lambda>x. x\<lparr>st_last_sample := sid, st_violations := violations_now rule (v \<and> k) s, st_next_action_at := st_next_action_at s,
               st_action_day := day_text now, st_action_count := attempts_today now s\<rparr>) (fleet_rule_states st)"
      using idle(1) by (simp add: idle(2) rule_frame_def)
  qed (use p es in simp_all, rule counters_idle [OF p(3,2) assms(3,4)], simp_all add: attempts_today_def)
qed

lemma init_state_rows:
  "fleet_rule_states (init_state i dev st) =
     (if \<exists>s \<in> set (fleet_rule_states st). st_rule_id s = i \<and> st_device_id s = dev then fleet_rule_states st
      else fleet_rule_states st @ [\<lparr>st_rule_id = i, st_device_id = dev, st_last_sample = [], st_violations = 0,
             st_next_action_at = None, st_action_day = [], st_action_count = 0\<rparr>])"
  by (auto simp: init_state_def upsert_row_def has_row_iff upd_where_def)

lemma init_state_fields [simp]:
  "fleet_rule_events (init_state i dev st) = fleet_rule_events st" "fleet_rules (init_state i dev st) = fleet_rules st"
  "access_tables (init_state i dev st) = access_tables st" "rule_events_of j d (init_state i dev st) = rule_events_of j d st"
  by (simp_all add: init_state_def access_tables_def rule_events_of_def)

lemma init_state_paced:
  assumes "paced rule i t st"
  shows "paced rule i t (init_state i dev st)"
proof (cases "\<exists>s \<in> set (fleet_rule_states st). st_rule_id s = i \<and> st_device_id s = dev")
  case True
  with assms show ?thesis by (simp add: paced_def init_state_rows)
next
  case False
  with assms have es: "rule_events_of i dev st = []" by (auto simp: paced_def Let_def)
  have wf: "rule_state_table.wf (fleet_rule_states (init_state i dev st))"
    using assms False by (auto simp: paced_def init_state_rows rule_state_table.wf_def)
  show ?thesis
    unfolding paced_def
  proof (intro conjI allI)
    fix d
    let ?es = "rule_events_of i d st"
    have old: "apart rule ?es \<and> (\<forall>day. int (on_day day ?es) \<le> fr_MaxActionsPerDay rule) \<and>
        (\<forall>e \<in> set ?es. zero_time \<le> ev_created_at e) \<and>
        (?es \<noteq> [] \<longrightarrow> (\<exists>s \<in> set (fleet_rule_states st). st_rule_id s = i \<and> st_device_id s = d)) \<and>
        (\<forall>s \<in> set (fleet_rule_states st). st_rule_id s = i \<longrightarrow> st_device_id s = d \<longrightarrow> counters_ok rule t ?es s)"
      using assms by (simp add: paced_def Let_def)
    have new: "counters_ok rule t [] s" if "st_action_count s = 0" for s
      using that by (simp add: counters_ok_def on_day_def)
    show "let es = rule_events_of i d (init_state i dev st) in
        apart rule es \<and> (\<forall>day. int (on_day day es) \<le> fr_MaxActionsPerDay rule) \<and>
        (\<forall>e \<in> set es. zero_time \<le> ev_created_at e) \<and>
        (es \<noteq> [] \<longrightarrow> (\<exists>s \<in> set (fleet_rule_states (init_state i dev st)). st_rule_id s = i \<and> st_device_id s = d)) \<and>
        (\<forall>s \<in> set (fleet_rule_states (init_state i dev st)). st_rule_id s = i \<longrightarrow> st_device_id s = d \<longrightarrow> counters_ok rule t es s)"
      using old es new False by (cases "d = dev") (auto simp: init_state_rows Let_def)
  qed (rule wf)
qed

lemma paced_later: "paced rule i t st \<Longrightarrow> t \<le> now \<Longrightarrow> paced rule i now st"
  unfolding paced_def Let_def by (blast intro: counters_mono)

lemma advance_device_cases:
  assumes "advance_device E now i u rule admin dev st = Inr st'"
  obtains (skip) "st' = st"
  | (known_sample) "st' = init_state i dev st"
  | (sample) d seen sid v k s where "fleetDeviceAccess st u dev admin = Inr ()"
      and "find_row (\<lambda>d. d_id d = dev) (devices st) = Some d" and "d_last_seen_at d = Some seen"
      and "observation E now rule dev (now - seen < 2 * minute) st = Some (sid, v, k)"
      and "s \<in> set (fleet_rule_states (init_state i dev st))" and "st_rule_id s = i" and "st_device_id s = dev"
      and "sid \<noteq> st_last_sample s"
      and "react_to_sample E now i u rule dev (now - seen < 2 * minute) (sid, v, k) s (init_state i dev st) = Inr st'"
proof (cases "fleetDeviceAccess st u dev admin")
  case (Inl e)
  with assms skip show thesis by (auto simp: advance_device_def split: if_splits)
next
  case (Inr ok)
  show thesis
  proof (cases "find_row (\<lambda>d. d_id d = dev) (devices st)")
    case None
    with Inr assms show thesis by (simp add: advance_device_def)
  next
    case (Some d)
    show thesis
    proof (cases "d_last_seen_at d")
      case None
      with Inr Some assms skip show thesis by (simp add: advance_device_def)
    next
      case seen: (Some seen)
      show thesis
      proof (cases "observation E now rule dev (now - seen < 2 * minute) st")
        case None
        with Inr Some seen assms skip show thesis by (simp add: advance_device_def)
      next
        case obs: (Some obs)
        obtain sid v k where o: "obs = (sid, v, k)" by (cases obs) auto
        from Inr Some seen obs assms have r: "(if \<not> k \<and> sid = [] then Inr st
            else case find_row (\<lambda>s. st_rule_id s = i \<and> st_device_id s = dev) (fleet_rule_states (init_state i dev st)) of
                   None \<Rightarrow> Inl ErrNoRows
                 | Some s \<Rightarrow> if sid = st_last_sample s then Inr (init_state i dev st)
                     else react_to_sample E now i u rule dev (now - seen < 2 * minute) (sid, v, k) s (init_state i dev st)) = Inr st'"
          by (simp only: advance_device_def Let_def o option.case sum.case prod.case)
        show thesis
        proof (cases "\<not> k \<and> sid = []")
          case True
          with r show thesis by (intro skip) simp
        next
          case False
          with r obtain s where s: "find_row (\<lambda>s. st_rule_id s = i \<and> st_device_id s = dev) (fleet_rule_states (init_state i dev st)) = Some s"
            and t: "(if sid = st_last_sample s then Inr (init_state i dev st)
                     else react_to_sample E now i u rule dev (now - seen < 2 * minute) (sid, v, k) s (init_state i dev st)) = Inr st'"
            by (auto split: option.splits)
          from t Inr Some seen obs o find_row_Some [OF s] known_sample sample show thesis
            by (cases "sid = st_last_sample s") auto
        qed
      qed
    qed
  qed
qed

lemma advance_device_paced:
  assumes "advance_device E now i u rule admin dev st = Inr st'"
    and "paced rule i t st" and "t \<le> now" and "zero_time \<le> now"
  shows "paced rule i now st'"
proof -
  have later: "paced rule i now st" "paced rule i now (init_state i dev st)"
    using assms(2,3) init_state_paced paced_later by blast+
  from assms(1) show ?thesis
  proof (cases rule: advance_device_cases)
    case (sample d seen sid v k s)
    from react_to_sample_paced [OF sample(9) later(2) order_refl assms(4) sample(5-7)] show ?thesis .
  qed (use later in simp_all)
qed

lemma advanceFleetRule_paced:
  assumes "advanceFleetRule E now i u st = Inr st'"
    and "\<And>row. find_row (\<lambda>r. fr_id r = i \<and> fr_user_id r = u) (fleet_rules st) = Some row \<Longrightarrow> fr_definition row = rule"
    and "paced rule i t st" and "t \<le> now" and "zero_time \<le> now"
  shows "paced rule i now st'"
proof -
  have "foldE (advance_device E now i u rule admin) ds st = Inr st' \<Longrightarrow> paced rule i now st'" for admin ds
    by (erule foldE_invariant [where P = "paced rule i now"])
      (use assms paced_later advance_device_paced [OF _ _ order_refl] in blast)+
  with assms show ?thesis
    by (auto simp: advanceFleetRule_def Let_def split: option.splits if_splits sum.splits intro: paced_later)
qed

section \<open>Histories\<close>

text \<open>
  The life of a rule from the moment it is saved: at growing times the rule is advanced, and
  between two steps any other operation runs, none of which writes the events or the counters of
  the rule. (Saving the rule again starts a new history.)
\<close>

inductive rule_history :: "env \<Rightarrow> string \<Rightarrow> string \<Rightarrow> FleetRule \<Rightarrow> time \<Rightarrow> store \<Rightarrow> bool"
  for E :: env and i :: string and u :: string and rule :: FleetRule where
  saved: "rule_state_table.wf (fleet_rule_states st) \<Longrightarrow> \<forall>s \<in> set (fleet_rule_states st). st_rule_id s \<noteq> i \<Longrightarrow>
    \<forall>e \<in> set (fleet_rule_events st). ev_rule_id e \<noteq> i \<Longrightarrow> zero_time \<le> t \<Longrightarrow> rule_history E i u rule t st"
| advanced: "rule_history E i u rule t st \<Longrightarrow> t \<le> now \<Longrightarrow>
    find_row (\<lambda>r. fr_id r = i \<and> fr_user_id r = u) (fleet_rules st) = Some row \<Longrightarrow> fr_definition row = rule \<Longrightarrow>
    advanceFleetRule E now i u st = Inr st' \<Longrightarrow> rule_history E i u rule now st'"
| elsewhere: "rule_history E i u rule t st \<Longrightarrow> t \<le> now \<Longrightarrow> rule_state_table.wf (fleet_rule_states st') \<Longrightarrow>
    filter (\<lambda>s. st_rule_id s = i) (fleet_rule_states st') = filter (\<lambda>s. st_rule_id s = i) (fleet_rule_states st) \<Longrightarrow>
    filter (\<lambda>e. ev_rule_id e = i) (fleet_rule_events st') = filter (\<lambda>e. ev_rule_id e = i) (fleet_rule_events st) \<Longrightarrow>
    rule_history E i u rule now st'"

lemma rule_events_of_filter:
  "rule_events_of i d st = filter (\<lambda>e. ev_device_id e = d) (filter (\<lambda>e. ev_rule_id e = i) (fleet_rule_events st))"
  by (simp add: rule_events_of_def conj_commute)

lemma paced_elsewhere:
  assumes "paced rule i t st" and "rule_state_table.wf (fleet_rule_states st')"
    and "filter (\<lambda>s. st_rule_id s = i) (fleet_rule_states st') = filter (\<lambda>s. st_rule_id s = i) (fleet_rule_states st)"
    and "filter (\<lambda>e. ev_rule_id e = i) (fleet_rule_events st') = filter (\<lambda>e. ev_rule_id e = i) (fleet_rule_events st)"
  shows "paced rule i t st'"
proof -
  have es: "rule_events_of i d st' = rule_events_of i d st" for d by (simp only: rule_events_of_filter assms(4))
  have rows: "s \<in> set (fleet_rule_states st') \<and> st_rule_id s = i \<longleftrightarrow> s \<in> set (fleet_rule_states st) \<and> st_rule_id s = i" for s
    using assms(3) [THEN arg_cong, of set] by auto
  from assms(1,2) rows show ?thesis unfolding paced_def Let_def es by blast
qed

lemma rule_history_paced:
  assumes "rule_history E i u rule t st" and "0 \<le> fr_MaxActionsPerDay rule"
  shows "paced rule i t st \<and> zero_time \<le> t"
  using assms(1)
proof induction
  case (saved st t)
  then have "rule_events_of i d st = []" for d by (auto simp: rule_events_of_def filter_empty_conv)
  with saved assms(2) show ?case by (auto simp: paced_def apart_def on_day_def)
next
  case (advanced t st now row st')
  then show ?case using advanceFleetRule_paced [OF advanced(5)] by auto
next
  case (elsewhere t st now st')
  then show ?case using paced_elsewhere paced_later by (meson order_trans)
qed

section \<open>Properties\<close>


definition sample_rule :: FleetRule where
  "sample_rule = \<lparr>fr_RequestKey = [], fr_ID = ''r1'', fr_Title = ''offline'', fr_DeviceIDs = [''dev''], fr_Kind = ''offline'',
     fr_Threshold = 0, fr_Consecutive = 1, fr_CooldownSeconds = 300, fr_MaxActionsPerDay = 2, fr_Action = ''notify'',
     fr_Service = [], fr_Enabled = True\<rparr>"

definition sample_rules :: store where
  "sample_rules = sample_store
     \<lparr>devices := [(sample_device ''dev'' ''op'')\<lparr>d_last_seen_at := Some 0\<rparr>],
      fleet_rules := [\<lparr>fr_id = ''r1'', fr_user_id = ''op'', fr_title = ''offline'', fr_definition = sample_rule,
        fr_enabled = True, fr_created_at = 0, fr_updated_at = 0\<rparr>]\<rparr>"

lemma sample_rules_tables:
  "fleet_rule_states sample_rules = []" "fleet_rule_events sample_rules = []" "incident_sources sample_rules = []"
  "incidents sample_rules = []" "incident_events sample_rules = []" "inbox_notifications sample_rules = []"
  "audit_events sample_rules = []" "commands sample_rules = []"
  by (simp_all add: sample_rules_def sample_store_def empty_store_def)

lemma sample_reaction:
  "\<exists>st'. advanceFleetRule sample_env hour ''r1'' ''op'' sample_rules = Inr st' \<and> length (fleet_rule_events st') = 1"
proof -
  have a: "fleetPrincipal sample_rules ''op'' = Inr False" "fleetDeviceAccess sample_rules ''op'' ''dev'' False = Inr ()"
    "permissionAllowed sample_rules ''op'' [] ''incidents'' False = Inr ()"
    "has_row (\<lambda>d. d_id d = ''dev'') (devices sample_rules)" "has_row (\<lambda>u. u_id u = ''op'') (users sample_rules)" by code_simp+
  have r: "find_row (\<lambda>r. fr_id r = ''r1'' \<and> fr_user_id r = ''op'') (fleet_rules sample_rules) =
      Some \<lparr>fr_id = ''r1'', fr_user_id = ''op'', fr_title = ''offline'', fr_definition = sample_rule,
        fr_enabled = True, fr_created_at = 0, fr_updated_at = 0\<rparr>"
    "find_row (\<lambda>d. d_id d = ''dev'') (devices sample_rules) = Some ((sample_device ''dev'' ''op'')\<lparr>d_last_seen_at := Some 0\<rparr>)"
    by (simp_all add: sample_rules_def sample_device_def)
  have z: "zero_time \<le> hour" by (simp add: zero_time_def)
  have "\<exists>st'. advance_device sample_env hour ''r1'' ''op'' sample_rule False ''dev'' sample_rules = Inr st' \<and>
      length (fleet_rule_events st') = 1"
    using a r z
    by (simp add: advance_device_def observation_def sample_rule_def init_state_def upsert_row_def has_row_def
        sample_rules_tables react_to_sample_def Let_def syncIncidentSource_def put_source_def active_sources_def
        first_incident_def insert_incident_def incidentEvent_def randomID_def insert_row_def action_due_def
        reaction_active_def react_def reaction_effect_def insert_inbox_def insert_rule_event_def add_audit_def set_rule_state_def)
  then obtain st' where s: "advance_device sample_env hour ''r1'' ''op'' sample_rule False ''dev'' sample_rules = Inr st'"
    "length (fleet_rule_events st') = 1" by blast
  have d: "fr_DeviceIDs sample_rule = [''dev'']" "rulePermission sample_rule = ''incidents''"
    by (simp_all add: sample_rule_def rulePermission_def)
  have "foldE (advance_device sample_env hour ''r1'' ''op'' sample_rule False) (remdups_adj (fr_DeviceIDs sample_rule)) sample_rules = Inr st'"
    unfolding d by (simp only: remdups_adj.simps foldE.simps s bindE.simps)
  then have "advanceFleetRule sample_env hour ''r1'' ''op'' sample_rules = Inr st'"
    by (simp only: advanceFleetRule_def r a d option.case sum.case fleet_rule.simps Let_def simp_thms if_False)
  with s(2) show ?thesis by blast
qed


text \<open>
  C23. A rule acts only while it is enabled, for an owner who is active and holds the permission of
  its action, on a device of the rule the owner may see; anything but a notification needs the
  device to be online.
\<close>

theorem advanceFleetRule_authorized:
  assumes "advanceFleetRule E now i u st = Inr st'" and "e \<in> set (fleet_rule_events st')" and "e \<notin> set (fleet_rule_events st)"
  shows "\<exists>row admin. find_row (\<lambda>r. fr_id r = i \<and> fr_user_id r = u) (fleet_rules st) = Some row \<and> fr_enabled row \<and>
    ev_rule_id e = i \<and> ev_created_at e = now \<and> ev_action e = fr_Action (fr_definition row) \<and>
    ev_device_id e \<in> set (fr_DeviceIDs (fr_definition row)) \<and>
    fleetPrincipal st u = Inr admin \<and> permissionAllowed st u [] (rulePermission (fr_definition row)) admin = Inr () \<and>
    fleetDeviceAccess st u (ev_device_id e) admin = Inr () \<and>
    (ev_action e \<noteq> ''notify'' \<longrightarrow>
       (\<exists>d seen. d \<in> set (devices st) \<and> d_id d = ev_device_id e \<and> d_last_seen_at d = Some seen \<and> now - seen < 2 * minute))"
proof -
  from assms obtain row admin where row: "find_row (\<lambda>r. fr_id r = i \<and> fr_user_id r = u) (fleet_rules st) = Some row" "fr_enabled row"
    and p: "fleetPrincipal st u = Inr admin" "permissionAllowed st u [] (rulePermission (fr_definition row)) admin = Inr ()"
    and f: "foldE (advance_device E now i u (fr_definition row) admin) (remdups_adj (fr_DeviceIDs (fr_definition row))) st = Inr st'"
    by (auto simp: advanceFleetRule_def Let_def split: option.splits if_splits sum.splits)
  let ?rule = "fr_definition row"
  define Q where "Q e \<longleftrightarrow> ev_rule_id e = i \<and> ev_created_at e = now \<and> ev_action e = fr_Action ?rule \<and>
    ev_device_id e \<in> set (fr_DeviceIDs ?rule) \<and> fleetDeviceAccess st u (ev_device_id e) admin = Inr () \<and>
    (ev_action e \<noteq> ''notify'' \<longrightarrow>
       (\<exists>d seen. d \<in> set (devices st) \<and> d_id d = ev_device_id e \<and> d_last_seen_at d = Some seen \<and> now - seen < 2 * minute))" for e :: rule_event
  define I where "I x \<longleftrightarrow> access_tables x = access_tables st \<and> (\<forall>e \<in> set (fleet_rule_events x). e \<in> set (fleet_rule_events st) \<or> Q e)" for x :: store
  have "I st'"
  proof (rule foldE_invariant [OF f, of I])
    show "I st" by (simp add: I_def)
    fix dev x y
    assume dev: "dev \<in> set (remdups_adj (fr_DeviceIDs ?rule))" and x: "I x" and y: "advance_device E now i u ?rule admin dev x = Inr y"
    have acc: "access_tables x = access_tables st" using x by (simp add: I_def)
    from y show "I y"
    proof (cases rule: advance_device_cases)
      case (sample d seen sid v k s)
      have fa: "fleetDeviceAccess st u dev admin = Inr ()" using sample(1) access_tables_cong [OF acc] by simp
      have dd: "d \<in> set (devices st)" "d_id d = dev" using find_row_Some [OF sample(2)] acc by (auto simp: access_tables_def)
      from sample(9) show ?thesis
      proof (cases rule: react_to_sample_cases)
        case (act st2 st3)
        from react_Inr(1) [OF act(5)] obtain e where ev: "fleet_rule_events st3 = fleet_rule_events st2 @ [e]"
          "ev_rule_id e = i" "ev_device_id e = dev" "ev_created_at e = now" "ev_action e = fr_Action ?rule" by blast
        have "Q e" using ev act(4) dev fa dd sample(3) by (auto simp: Q_def)
        then show ?thesis using act(1) ev(1) x react_Inr(4) [OF act(5)]
          by (auto simp: I_def act(6) rule_frame_def)
      next
        case (idle st2)
        with x show ?thesis by (simp add: I_def rule_frame_def)
      qed
    qed (use x in \<open>simp_all add: I_def\<close>)
  qed
  with assms(2,3) have "Q e" by (auto simp: I_def)
  with row p show ?thesis unfolding Q_def by blast
qed

theorem advanceFleetRule_authorized_witness:
  "\<exists>st' e. advanceFleetRule sample_env hour ''r1'' ''op'' sample_rules = Inr st' \<and> fleet_rule_events st' = [e] \<and>
     ev_device_id e = ''dev'' \<and> fleetDeviceAccess sample_rules ''op'' ''dev'' False = Inr ()"
proof -
  obtain st' where s: "advanceFleetRule sample_env hour ''r1'' ''op'' sample_rules = Inr st'" "length (fleet_rule_events st') = 1"
    using sample_reaction by blast
  then obtain e where e: "fleet_rule_events st' = [e]" by (cases "fleet_rule_events st'") auto
  have r: "find_row (\<lambda>r. fr_id r = ''r1'' \<and> fr_user_id r = ''op'') (fleet_rules sample_rules) = Some row \<Longrightarrow> fr_definition row = sample_rule" for row
    by (auto simp: sample_rules_def)
  have "fleetPrincipal sample_rules ''op'' = Inr False" by code_simp
  with advanceFleetRule_authorized [OF s(1), of e] e r have "ev_device_id e \<in> set (fr_DeviceIDs sample_rule)"
    "fleetDeviceAccess sample_rules ''op'' (ev_device_id e) False = Inr ()" by (auto simp: sample_rules_tables)
  with s e show ?thesis by (auto simp: sample_rule_def)
qed

text \<open>
  A rule whose condition is edited to one of another category leaves the incident of the old
  category open: the source moves to the new category, and nothing looks at the old one.
\<close>

lemma category_change_orphans:
  assumes "conditions b (d, k) = Some c0" and "c0 \<noteq> c" and "\<forall>k'. k' \<noteq> k \<longrightarrow> conditions b (d, k') \<noteq> Some c0"
    and "statuses b (d, c0) = Some ''open''"
  shows "\<not> observed d c0 (fst (observe d k c active b)) \<and> statuses (fst (observe d k c active b)) (d, c0) = Some ''open''"
  using assms by (auto simp: observed_def observe_fields)

end
