(* ===== verification/Schedules.thy ===== *)
theory Schedules
  imports Rollouts
begin

text \<open>
  Scheduled fleet operations (\<open>fleet_schedules.go\<close>): the calendar (\<open>nextFleetSlot\<close> over the time
  zone database), saving a schedule, reserving the runs that are due and starting them. The
  theorems show that the calendar is exact, that a slot is reserved once and moves the schedule
  past the present, and that a run starts one operation even when the start is repeated.
\<close>

section \<open>Calendar\<close>

text \<open>
  Wall-clock time is kept as (day, second of the day) with day 0 = 1 January 1970, in place of
  year, month and day, which \<open>time.Date\<close> normalises; \<open>lookup\<close> is the zone's offset with the
  interval it is in force, as in Go's \<open>Location.lookup\<close>.
\<close>

type_synonym zone = "int \<Rightarrow> int \<times> int \<times> int"

definition zone_offset :: "zone \<Rightarrow> int \<Rightarrow> int" where
  "zone_offset lookup unix = fst (lookup unix)"

definition local_seconds :: "zone \<Rightarrow> int \<Rightarrow> int" where
  "local_seconds lookup unix = unix + zone_offset lookup unix"

definition local_day :: "zone \<Rightarrow> int \<Rightarrow> int" where
  "local_day lookup unix = local_seconds lookup unix div 86400"

definition local_minute :: "zone \<Rightarrow> int \<Rightarrow> int" where
  "local_minute lookup unix = local_seconds lookup unix mod 86400 div 60"

definition weekday :: "int \<Rightarrow> int" where
  "weekday day = (day + 4) mod 7"

definition time_Date :: "zone \<Rightarrow> int \<Rightarrow> int \<Rightarrow> int" where
  "time_Date lookup day sec =
     (let unix = day * 86400 + sec; (offset, start, end') = lookup unix in
      if offset = 0 then unix
      else let utc = unix - offset
           in unix - (if utc < start \<or> utc \<ge> end' then zone_offset lookup utc else offset))"

text \<open>The slot on the day \<open>n\<close> days after the local day of \<open>after\<close>, if the clock shows it.\<close>

definition slot_on :: "zone \<Rightarrow> int list \<Rightarrow> int \<Rightarrow> time \<Rightarrow> int \<Rightarrow> time option" where
  "slot_on lookup weekdays minute' after n =
     (let today = local_day lookup (after div second);
          date = time_Date lookup (today + n) (12 * 3600);
          slot = time_Date lookup (local_day lookup date) (minute' div 60 * 3600 + minute' mod 60 * 60)
      in if local_minute lookup slot div 60 \<noteq> minute' div 60 \<or> local_minute lookup slot mod 60 \<noteq> minute' mod 60 then None
         else if weekday (local_day lookup date) \<in> set weekdays \<and> slot * second > after then Some (slot * second)
         else None)"

fun first_slot :: "(int \<Rightarrow> time option) \<Rightarrow> int list \<Rightarrow> time option" where
  "first_slot f [] = None"
| "first_slot f (n # ns) = (case f n of Some t \<Rightarrow> Some t | None \<Rightarrow> first_slot f ns)"

definition nextFleetSlot :: "env \<Rightarrow> time \<Rightarrow> string \<Rightarrow> int list \<Rightarrow> int \<Rightarrow> time res" where
  "nextFleetSlot E after timezone weekdays minute' =
     (case LoadLocation E timezone of
        None \<Rightarrow> Inl (ErrMsg ''invalid schedule calendar'')
      | Some lookup \<Rightarrow>
          if minute' < 0 \<or> minute' \<ge> 1440 \<or> length weekdays = 0 \<or> length weekdays > 7
          then Inl (ErrMsg ''invalid schedule calendar'')
          else if \<not> list_all (\<lambda>d. 0 \<le> d \<and> d \<le> 6) weekdays then Inl (ErrMsg ''invalid weekday'')
          else case first_slot (slot_on lookup weekdays minute' after) [0..14] of
                 None \<Rightarrow> Inl (ErrMsg ''no schedule slot found'')
               | Some t \<Rightarrow> Inr t)"

section \<open>Saving a schedule\<close>

text \<open>\<open>FleetSchedule\<close>, the request and the answer; \<open>NextRunAt\<close> is set by the server.\<close>

record FleetSchedule =
  sc_RequestKey :: string
  sc_ID :: string
  sc_UserID :: string
  sc_Title :: string
  sc_Operation :: FleetOperationInput
  sc_Timezone :: string
  sc_Weekdays :: "int list"
  sc_MinuteOfDay :: int
  sc_WindowMinutes :: int
  sc_Enabled :: bool
  sc_NextRunAt :: "time option"

definition schedule_limits :: "FleetSchedule \<Rightarrow> unit res" where
  "schedule_limits s =
     (let op = sc_Operation s in
      if length (sc_Title s) = 0 \<or> length (sc_Title s) > 160 \<or> sc_WindowMinutes s < 1 \<or> sc_WindowMinutes s > 1440 \<or>
         \<not> FleetCommandAllowed (oi_Type op) \<or> length (oi_DeviceIDs op) = 0 \<or> length (oi_DeviceIDs op) > 100 \<or>
         oi_Parallelism op < 1 \<or> oi_Parallelism op > 20 \<or> int (length (oi_Args op)) > fleetArgsLimit (oi_Type op)
      then Inl (ErrMsg ''invalid schedule'')
      else if oi_Type op = ''agent_update''
      then bindE (fleetUpdateDeviceArgs (oi_Args op) (oi_DeviceIDs op)) (\<lambda>_. Inr ())
      else Inr ())"

text \<open>
  A stored document leaves out what is tagged \<open>json:"-"\<close> and carries its arguments as \<open>json.Marshal\<close>
  writes them.
\<close>

definition stored_input :: "FleetOperationInput \<Rightarrow> FleetOperationInput" where
  "stored_input op = op\<lparr>oi_DeviceArgs := [], oi_ScheduleRunID := [], oi_Args := marshal_raw (oi_Args op)\<rparr>"

definition plain_operation :: "FleetSchedule \<Rightarrow> FleetSchedule" where
  "plain_operation s =
     s\<lparr>sc_Operation := (sc_Operation s)\<lparr>oi_RequestKey := [], oi_DeadlineAt := [], oi_Title := sc_Title s,
         oi_Args := NormalizeRawJSON (oi_Args (sc_Operation s))\<rparr>\<rparr>"

definition same_schedule :: "fleet_schedule \<Rightarrow> FleetSchedule \<Rightarrow> bool" where
  "same_schedule row s \<longleftrightarrow>
     fs_title row = sc_Title s \<and> fs_operation row = stored_input (sc_Operation s) \<and> fs_timezone row = sc_Timezone s \<and>
     fs_weekdays row = sc_Weekdays s \<and> fs_minute_of_day row = sc_MinuteOfDay s \<and>
     fs_window_minutes row = sc_WindowMinutes s \<and> fs_enabled row = sc_Enabled s"

definition store_schedule :: "time \<Rightarrow> string \<Rightarrow> time \<Rightarrow> FleetSchedule \<Rightarrow> store \<Rightarrow> store" where
  "store_schedule now userID nextRun s st =
     (let st = st\<lparr>fleet_schedules :=
            upsert_row fs_id
              (\<lambda>old new. new\<lparr>fs_id := fs_id old, fs_user_id := fs_user_id old, fs_created_at := fs_created_at old\<rparr>)
              \<lparr>fs_id = sc_ID s, fs_user_id = userID, fs_title = sc_Title s, fs_operation = stored_input (sc_Operation s),
               fs_timezone = sc_Timezone s, fs_weekdays = sc_Weekdays s, fs_minute_of_day = sc_MinuteOfDay s,
               fs_window_minutes = sc_WindowMinutes s, fs_enabled = sc_Enabled s, fs_next_run_at = nextRun,
               fs_created_at = now, fs_updated_at = now\<rparr> (fleet_schedules st)\<rparr>
      in st\<lparr>fleet_schedule_runs :=
            upd_where (\<lambda>r. sr_schedule_id r = sc_ID s \<and> sr_status r = ''pending'')
              (\<lambda>r. r\<lparr>sr_status := ''cancelled'', sr_error := ''schedule changed''\<rparr>) (fleet_schedule_runs st)\<rparr>)"

text \<open>\<open>Inl\<close> the answer to a repeated request, \<open>Inr\<close> the schedule with its identifier.\<close>

definition schedule_target ::
  "env \<Rightarrow> bool \<Rightarrow> string \<Rightarrow> FleetSchedule \<Rightarrow> store \<Rightarrow> (FleetSchedule + FleetSchedule \<times> store) res" where
  "schedule_target E newRequest userID s st =
     (case (if newRequest then find_row (\<lambda>r. fs_id r = sc_ID s \<and> fs_user_id r = userID) (fleet_schedules st) else None) of
        Some row \<Rightarrow>
          if \<not> same_schedule row s then Inl ErrFleetConflict
          else Inr (Inl (s\<lparr>sc_UserID := userID, sc_NextRunAt := Some (fs_next_run_at row)\<rparr>))
      | None \<Rightarrow>
          if sc_ID s = [] \<or> newRequest then
            if count_where (\<lambda>r. fs_user_id r = userID) (fleet_schedules st) \<ge> 100 then Inl (ErrMsg ''too many schedules'')
            else if sc_ID s = [] then
              let (i, st) = randomID E ''schedule'' st in Inr (Inr (s\<lparr>sc_ID := i\<rparr>, st))
            else Inr (Inr (s, st))
          else
            (case find_row (\<lambda>r. fs_id r = sc_ID s) (fleet_schedules st) of
               None \<Rightarrow> Inl ErrFleetAccess
             | Some row \<Rightarrow> if fs_user_id row \<noteq> userID then Inl ErrFleetAccess else Inr (Inr (s, st))))"

definition SaveFleetSchedule ::
  "env \<Rightarrow> time \<Rightarrow> string \<Rightarrow> FleetSchedule \<Rightarrow> store \<Rightarrow> (FleetSchedule \<times> store) res" where
  "SaveFleetSchedule E now userID s st =
     (let newRequest = (sc_ID s = [] \<and> sc_RequestKey s \<noteq> []) in
      bindE (if newRequest then bindE (fleetObjectID E ''schedule'' userID (sc_RequestKey s)) (\<lambda>i. Inr (s\<lparr>sc_ID := i\<rparr>))
             else Inr s) (\<lambda>s.
      bindE (schedule_limits s) (\<lambda>_.
      bindE (nextFleetSlot E now (sc_Timezone s) (sc_Weekdays s) (sc_MinuteOfDay s)) (\<lambda>nextRun.
        let s = plain_operation s in
        if \<not> json_Valid (oi_Args (sc_Operation s)) then Inl (ErrMsg ''invalid operation arguments'')
        else bindE (fleetPrincipal st userID) (\<lambda>admin.
        bindE (checkE (\<lambda>d. fleetDeviceAccess st userID d admin) (oi_DeviceIDs (sc_Operation s))) (\<lambda>_.
        bindE (permissionAllowed st userID [] (CommandPermission (oi_Type (sc_Operation s))) admin) (\<lambda>_.
        bindE (schedule_target E newRequest userID s st) (\<lambda>t.
          case t of
            Inl s \<Rightarrow> Inr (s, st)
          | Inr (s, st) \<Rightarrow>
              let s = s\<lparr>sc_UserID := userID, sc_NextRunAt := Some nextRun\<rparr>
              in Inr (s, store_schedule now userID nextRun s st)))))))))"

definition ListFleetSchedules :: "string \<Rightarrow> store \<Rightarrow> fleet_schedule list" where
  "ListFleetSchedules userID st =
     order_by (\<lambda>x y. fs_title x \<le> fs_title y) (filter (\<lambda>s. fs_user_id s = userID) (fleet_schedules st))"

section \<open>Runs\<close>

definition due_schedules :: "env \<Rightarrow> time \<Rightarrow> store \<Rightarrow> fleet_schedule list" where
  "due_schedules E now st =
     take 100 (order_by (\<lambda>x y. text_le (fs_next_run_at x) (fs_next_run_at y))
       (filter (\<lambda>s. fs_enabled s \<and> julianday E (fs_next_run_at s) \<le> julianday E now) (fleet_schedules st)))"

definition reserve_run :: "env \<Rightarrow> time \<Rightarrow> fleet_schedule \<Rightarrow> store \<Rightarrow> store res" where
  "reserve_run E now s st =
     bindE (nextFleetSlot E now (fs_timezone s) (fs_weekdays s) (fs_minute_of_day s)) (\<lambda>nextRun.
       let slot = fs_next_run_at s;
           deadline = slot + fs_window_minutes s * minute;
           (runID, st) = randomID E ''schedule-run'' st;
           op = (fs_operation s)\<lparr>oi_RequestKey := ''schedule:'' @ runID, oi_DeadlineAt := RFC3339Nano deadline\<rparr>
       in if has_row (\<lambda>r. sr_schedule_id r = fs_id s \<and> sr_scheduled_at r = slot) (fleet_schedule_runs st)
          then Inl (ErrConstraint ''unique'')
          else bindE (insert_row sr_id
                 \<lparr>sr_id = runID, sr_schedule_id = fs_id s, sr_scheduled_at = slot, sr_deadline_at = deadline,
                  sr_operation = stored_input op, sr_operation_id = [],
                  sr_status = (if \<not> deadline > now then ''missed'' else ''pending''), sr_error = [], sr_created_at = now\<rparr>
                 (fleet_schedule_runs st)) (\<lambda>rs.
                 Inr (st\<lparr>fleet_schedule_runs := rs,
                         fleet_schedules := upd_where (\<lambda>x. fs_id x = fs_id s)
                           (\<lambda>x. x\<lparr>fs_next_run_at := nextRun, fs_updated_at := now\<rparr>) (fleet_schedules st)\<rparr>)))"

definition reserveFleetSchedules :: "env \<Rightarrow> time \<Rightarrow> store \<Rightarrow> store res" where
  "reserveFleetSchedules E now st = foldE (reserve_run E now) (due_schedules E now st) st"

text \<open>Errors of the PostgreSQL driver carry an SQL state and are retried.\<close>

definition retryable :: "env \<Rightarrow> err \<Rightarrow> bool" where
  "retryable E e = (case e of ErrConstraint _ \<Rightarrow> postgres E | _ \<Rightarrow> False)"

definition set_run :: "string \<Rightarrow> string \<Rightarrow> string \<Rightarrow> string \<Rightarrow> store \<Rightarrow> store" where
  "set_run runID status message operationID st =
     st\<lparr>fleet_schedule_runs :=
        upd_where (\<lambda>r. sr_id r = runID \<and> sr_status r = ''pending'')
          (\<lambda>r. r\<lparr>sr_status := status, sr_error := message, sr_operation_id := operationID\<rparr>) (fleet_schedule_runs st)\<rparr>"

definition start_run :: "env \<Rightarrow> time \<Rightarrow> schedule_run \<times> string \<Rightarrow> store \<Rightarrow> err option \<times> store" where
  "start_run E now run st =
     (case run of (r, user) \<Rightarrow>
        let input = (sr_operation r)\<lparr>oi_ScheduleRunID := sr_id r\<rparr> in
        if \<not> sr_deadline_at r > now then (None, set_run (sr_id r) ''missed'' [] [] st)
        else case CreateFleetOperation E now user input st of
               Inl e \<Rightarrow>
                 if retryable E e then (Some e, st)
                 else (None, set_run (sr_id r) ''failed''
                        ''operation unavailable; verify device access, capabilities and limits'' [] st)
             | Inr (op, st) \<Rightarrow> (None, set_run (sr_id r) ''queued'' [] (fo_id (fst op)) st))"

definition pending_runs :: "store \<Rightarrow> (schedule_run \<times> string) list" where
  "pending_runs st =
     take 100 (order_by (\<lambda>x y. text_le (sr_created_at (fst x)) (sr_created_at (fst y)))
       [(r, fs_user_id s). r \<leftarrow> fleet_schedule_runs st, sr_status r = ''pending'',
          s \<leftarrow> fleet_schedules st, fs_id s = sr_schedule_id r, fs_enabled s])"

definition AdvanceFleetSchedules :: "env \<Rightarrow> time \<Rightarrow> store \<Rightarrow> err option \<times> store" where
  "AdvanceFleetSchedules E now st =
     (case reserveFleetSchedules E now st of
        Inl e \<Rightarrow> (Some e, st)
      | Inr st \<Rightarrow> until_error (start_run E now) (pending_runs st) st)"

definition ListFleetScheduleRuns :: "string \<Rightarrow> store \<Rightarrow> schedule_run list" where
  "ListFleetScheduleRuns userID st =
     take 100 (order_by (\<lambda>x y. text_le (sr_created_at y) (sr_created_at x))
       (filter (\<lambda>r. has_row (\<lambda>s. fs_id s = sr_schedule_id r \<and> fs_user_id s = userID) (fleet_schedules st))
          (fleet_schedule_runs st)))"

section \<open>The calendar\<close>

text \<open>
  What the zone database documents: offsets are whole minutes, and the offsets of a zone lie less
  than a day apart.
\<close>

definition zone_ok :: "zone \<Rightarrow> bool" where
  "zone_ok lookup \<longleftrightarrow>
     (\<forall>t. zone_offset lookup t mod 60 = 0) \<and> (\<forall>t u. \<bar>zone_offset lookup t - zone_offset lookup u\<bar> < 86400)"

lemma zone_minutes: "zone_ok lookup \<Longrightarrow> zone_offset lookup t mod 60 = 0"
  by (simp add: zone_ok_def)

text \<open>The instant is off by a zone offset; for noon this is less than a day.\<close>

lemma time_Date_offset:
  "\<exists>t. time_Date lookup day sec = day * 86400 + sec - zone_offset lookup t"
proof -
  obtain off start end' where l: "lookup (day * 86400 + sec) = (off, start, end')" by (cases "lookup (day * 86400 + sec)")
  then have o: "zone_offset lookup (day * 86400 + sec) = off" by (simp add: zone_offset_def)
  show ?thesis
  proof (cases "off \<noteq> 0 \<and> (day * 86400 + sec - off < start \<or> day * 86400 + sec - off \<ge> end')")
    case True
    then show ?thesis by (intro exI [of _ "day * 86400 + sec - off"]) (simp add: time_Date_def l Let_def)
  next
    case False
    then show ?thesis using o by (intro exI [of _ "day * 86400 + sec"]) (auto simp: time_Date_def l Let_def)
  qed
qed

lemma whole_minutes_apart:
  fixes x y :: int
  assumes "(x + y) mod 86400 div 60 = x mod 86400 div 60" and "x mod 60 = 0" and "y mod 60 = 0" and "\<bar>y\<bar> < 86400"
  shows "y = 0"
proof -
  have "z mod 86400 mod 60 = z mod 60" for z :: int by (rule mod_mod_cancel) simp
  moreover have "(x + y) mod 60 = 0" using assms(2,3) by (simp add: mod_add_eq [symmetric])
  ultimately have "(x + y) mod 86400 mod 60 = 0" "x mod 86400 mod 60 = 0" using assms(2) by simp_all
  then have "(x + y) mod 86400 = x mod 86400" using assms(1) by (metis div_mult_mod_eq)
  then have "(x + y - x) mod 86400 = 0" by (metis mod_diff_cong diff_self mod_0)
  then have "86400 dvd y" by (simp add: dvd_eq_mod_eq_0)
  then show ?thesis using assms(4) dvd_imp_le_int [of y 86400] by linarith
qed

lemma time_Date_exact:
  assumes "zone_ok lookup" and "0 \<le> sec" and "sec < 86400" and "sec mod 60 = 0"
    and "local_minute lookup (time_Date lookup day sec) = sec div 60"
  shows "local_seconds lookup (time_Date lookup day sec) = day * 86400 + sec"
proof -
  obtain t where t: "time_Date lookup day sec = day * 86400 + sec - zone_offset lookup t"
    using time_Date_offset by blast
  define y where "y = zone_offset lookup (time_Date lookup day sec) - zone_offset lookup t"
  have l: "local_seconds lookup (time_Date lookup day sec) = day * 86400 + sec + y"
    unfolding local_seconds_def y_def using t by simp
  have m: "(day * 86400 + sec) mod 86400 = sec" using assms(2,3) by simp
  have "y = 0"
  proof (rule whole_minutes_apart)
    show "(day * 86400 + sec + y) mod 86400 div 60 = (day * 86400 + sec) mod 86400 div 60"
      using assms(5) unfolding local_minute_def l m .
    show "(day * 86400 + sec) mod 60 = 0" using assms(4) by presburger
    show "y mod 60 = 0"
      unfolding y_def using zone_minutes [OF assms(1), of "time_Date lookup day sec"] zone_minutes [OF assms(1), of t]
      by presburger
    show "\<bar>y\<bar> < 86400" unfolding y_def using assms(1) by (simp add: zone_ok_def)
  qed
  with l show ?thesis by simp
qed

lemma first_slot_Some:
  "first_slot f ns = Some t \<Longrightarrow> \<exists>xs n ys. ns = xs @ n # ys \<and> f n = Some t \<and> (\<forall>x \<in> set xs. f x = None)"
proof (induction ns)
  case Nil
  then show ?case by simp
next
  case (Cons a ns)
  show ?case
  proof (cases "f a")
    case None
    with Cons obtain xs n ys where "ns = xs @ n # ys" "f n = Some t" "\<forall>x \<in> set xs. f x = None" by auto
    with None show ?thesis by (intro exI [of _ "a # xs"] exI [of _ n] exI [of _ ys]) simp
  next
    case (Some x)
    with Cons.prems show ?thesis by (intro exI [of _ "[]"] exI [of _ a] exI [of _ ns]) simp
  qed
qed

lemma first_slot_None: "first_slot f ns = None \<longleftrightarrow> (\<forall>n \<in> set ns. f n = None)"
  by (induction ns) (auto split: option.splits)

lemma nextFleetSlot_Inr:
  assumes "nextFleetSlot E after tz wd m = Inr slot" and "LoadLocation E tz = Some lookup"
  shows "0 \<le> m \<and> m < 1440 \<and> (\<exists>n. 0 \<le> n \<and> n \<le> 14 \<and> slot_on lookup wd m after n = Some slot \<and>
    (\<forall>k. 0 \<le> k \<longrightarrow> k < n \<longrightarrow> slot_on lookup wd m after k = None))"
proof -
  from assms have m: "0 \<le> m" "m < 1440" and f: "first_slot (slot_on lookup wd m after) [0..14] = Some slot"
    by (auto simp: nextFleetSlot_def split: if_splits option.splits)
  from f obtain xs n ys where n: "[0..14] = xs @ n # ys" "slot_on lookup wd m after n = Some slot"
    "\<forall>x \<in> set xs. slot_on lookup wd m after x = None" using first_slot_Some by blast
  have "sorted_wrt (<) (xs @ n # ys)" using n(1) sorted_wrt_upto [of 0 14] by simp
  then have "k \<in> set xs" if "k \<in> set [0..14]" "k < n" for k
    using that unfolding n(1) sorted_wrt_append by fastforce
  moreover have "n \<in> set [0..14]" by (simp only: n(1)) simp
  ultimately show ?thesis using m n(2,3) by force
qed



lemma sample_zone: "\<exists>lookup. LoadLocation sample_env ''UTC'' = Some lookup \<and> zone_ok lookup \<and> (\<forall>t. zone_offset lookup t = 0)"
  by (auto simp: sample_env_def zone_ok_def zone_offset_def crypto.defs)

lemma sample_slot: "nextFleetSlot sample_env (1700000000 * second) ''UTC'' [1, 3] 90 = Inr (1700011800 * second)"
  by code_simp


text \<open>What a schedule asks for, in a zone with a fixed offset.\<close>

definition scheduled_at :: "int \<Rightarrow> int list \<Rightarrow> int \<Rightarrow> time \<Rightarrow> bool" where
  "scheduled_at off weekdays m t \<longleftrightarrow> t mod second = 0 \<and> (t div second + off) mod 86400 = m * 60 \<and>
     weekday ((t div second + off) div 86400) \<in> set weekdays"

lemma time_Date_fixed: "\<forall>t. zone_offset lookup t = off \<Longrightarrow> time_Date lookup day sec = day * 86400 + sec - off"
  using time_Date_offset [of lookup day sec] by auto

lemma less_next_multiple: "0 < k \<Longrightarrow> x < (x div k + 1) * k" for x k :: int
proof -
  assume "0 < k"
  then have "x mod k < k" by (rule pos_mod_bound)
  with div_mult_mod_eq [of x k] have "x < x div k * k + k" by linarith
  then show ?thesis by (simp add: distrib_right)
qed

lemma weekday_soon:
  assumes "0 \<le> w" and "w \<le> 6"
  shows "\<exists>n. 1 \<le> n \<and> n \<le> 7 \<and> weekday (day + n) = w"
proof (intro exI conjI)
  let ?n = "(w - weekday day - 1) mod 7 + 1"
  show "1 \<le> ?n" "?n \<le> 7" by simp_all
  show "weekday (day + ?n) = w" using assms unfolding weekday_def by presburger
qed

lemma slot_on_fixed:
  assumes "\<forall>t. zone_offset lookup t = off" and "0 \<le> m" and "m < 1440"
  shows "slot_on lookup weekdays m after n =
    (let day = local_day lookup (after div second) + n; slot = (day * 86400 + m * 60 - off) * second
     in if weekday day \<in> set weekdays \<and> slot > after then Some slot else None)"
proof -
  define day where "day = local_day lookup (after div second) + n"
  have sec: "m div 60 * 3600 + m mod 60 * 60 = m * 60" using div_mult_mod_eq [of m 60] by linarith
  have noon: "local_day lookup (time_Date lookup day (12 * 3600)) = day"
    by (simp add: local_day_def local_seconds_def assms(1) time_Date_fixed [OF assms(1)])
  have "local_minute lookup (time_Date lookup day (m * 60)) = m"
    using assms(2,3) by (simp add: local_minute_def local_seconds_def assms(1) time_Date_fixed [OF assms(1)])
  then show ?thesis
    unfolding slot_on_def Let_def day_def [symmetric] noon sec
    by (simp add: time_Date_fixed [OF assms(1)])
qed

lemma scheduled_at_day:
  assumes "scheduled_at off weekdays m t" and "0 \<le> m" and "m < 1440"
  shows "\<exists>day. t = (day * 86400 + m * 60 - off) * second \<and> weekday day \<in> set weekdays \<and> day = (t div second + off) div 86400"
proof -
  define day where "day = (t div second + off) div 86400"
  have "t div second + off = day * 86400 + m * 60"
    using assms(1) div_mult_mod_eq [of "t div second + off" 86400] by (simp add: scheduled_at_def day_def)
  then have d: "t div second = day * 86400 + m * 60 - off" by linarith
  have "t = t div second * second" using assms(1) div_mult_mod_eq [of t second] by (simp add: scheduled_at_def)
  then have "t = (day * 86400 + m * 60 - off) * second" unfolding d .
  moreover have "weekday day \<in> set weekdays" using assms(1) unfolding scheduled_at_def day_def by blast
  ultimately show ?thesis unfolding day_def by blast
qed

text \<open>
  C26. In a zone with a fixed offset the calendar is the reference definition: for every valid
  schedule it finds a slot, and the slot is the least instant after the given one that has the
  requested weekday and minute.
\<close>

theorem nextFleetSlot_least:
  assumes "LoadLocation E tz = Some lookup" and "\<forall>t. zone_offset lookup t = off"
    and "0 \<le> m" and "m < 1440" and "weekdays \<noteq> []" and "length weekdays \<le> 7" and "\<forall>d \<in> set weekdays. 0 \<le> d \<and> d \<le> 6"
  shows "\<exists>slot. nextFleetSlot E after tz weekdays m = Inr slot \<and> after < slot \<and> scheduled_at off weekdays m slot \<and>
    (\<forall>t. after < t \<longrightarrow> scheduled_at off weekdays m t \<longrightarrow> slot \<le> t)"
proof -
  define today where "today = local_day lookup (after div second)"
  define cand where "cand n = ((today + n) * 86400 + m * 60 - off) * second" for n
  have today: "today = (after div second + off) div 86400" by (simp add: today_def local_day_def local_seconds_def assms(2))
  have on: "slot_on lookup weekdays m after n = (if weekday (today + n) \<in> set weekdays \<and> cand n > after then Some (cand n) else None)" for n
    unfolding slot_on_fixed [OF assms(2-4)] Let_def today_def cand_def ..
  have future: "cand n > after" if "1 \<le> n" for n
  proof -
    have "after div second + off < (today + 1) * 86400" unfolding today by (rule less_next_multiple) simp
    also have "\<dots> \<le> (today + n) * 86400 + m * 60" using that assms(3) by simp
    finally have "after div second < (today + n) * 86400 + m * 60 - off" by simp
    then have "after div second + 1 \<le> (today + n) * 86400 + m * 60 - off" by simp
    then have "(after div second + 1) * second \<le> cand n" unfolding cand_def by (rule mult_right_mono) simp
    moreover have "after < (after div second + 1) * second" by (rule less_next_multiple) simp
    ultimately show ?thesis by linarith
  qed
  obtain w where w: "w \<in> set weekdays" using assms(5) by (cases weekdays) auto
  from weekday_soon [of w today] assms(7) w obtain n where n: "1 \<le> n" "n \<le> 7" "weekday (today + n) = w" by blast
  have "first_slot (slot_on lookup weekdays m after) [0..14] \<noteq> None"
    unfolding first_slot_None using n w future [of n] by (auto simp: on intro!: bexI [of _ n])
  then obtain slot where slot: "nextFleetSlot E after tz weekdays m = Inr slot"
    using assms by (auto simp: nextFleetSlot_def list_all_iff)
  from nextFleetSlot_Inr [OF slot assms(1)] obtain k where k: "0 \<le> k" "slot_on lookup weekdays m after k = Some slot"
    and none: "\<forall>j. 0 \<le> j \<longrightarrow> j < k \<longrightarrow> slot_on lookup weekdays m after j = None" by blast
  from k(2) have s: "slot = cand k" "after < slot" "weekday (today + k) \<in> set weekdays" by (auto simp: on split: if_splits)
  have sched: "scheduled_at off weekdays m slot"
  proof -
    have "slot mod second = 0" "slot div second + off = (today + k) * 86400 + m * 60" unfolding s(1) cand_def by simp_all
    moreover have "(d * 86400 + r) mod 86400 = r" "(d * 86400 + r) div 86400 = d" if "0 \<le> r" "r < 86400" for d r :: int
      using that by simp_all
    moreover have "0 \<le> m * 60" "m * 60 < 86400" using assms(3,4) by simp_all
    ultimately show ?thesis using s(3) by (simp only: scheduled_at_def simp_thms)
  qed
  have "slot \<le> t" if t: "after < t" "scheduled_at off weekdays m t" for t
  proof -
    from scheduled_at_day [OF t(2) assms(3,4)] obtain day where d: "t = (day * 86400 + m * 60 - off) * second"
      "weekday day \<in> set weekdays" "day = (t div second + off) div 86400" by blast
    have "after div second \<le> t div second" using t(1) by (simp add: zdiv_mono1)
    then have "today \<le> day" unfolding today d(3) by (simp add: zdiv_mono1)
    define j where "j = day - today"
    have j: "0 \<le> j" "t = cand j" "weekday (today + j) \<in> set weekdays" using \<open>today \<le> day\<close> d(1,2) by (simp_all add: j_def cand_def)
    then have "slot_on lookup weekdays m after j \<noteq> None" using t(1) by (simp add: on)
    with none j(1) have "k \<le> j" by fastforce
    with s(1) j(2) show ?thesis by (simp add: cand_def)
  qed
  with slot s(2) sched show ?thesis by blast
qed

theorem nextFleetSlot_least_witness:
  "\<exists>slot. nextFleetSlot sample_env (1700000000 * second) ''UTC'' [1, 3] 90 = Inr slot \<and> scheduled_at 0 [1, 3] 90 slot"
proof -
  obtain lookup where l: "LoadLocation sample_env ''UTC'' = Some lookup" "\<forall>t. zone_offset lookup t = 0" using sample_zone by blast
  from nextFleetSlot_least [OF l, of 90 "[1, 3]" "1700000000 * second"] show ?thesis by auto
qed

section \<open>Reservations and runs\<close>

lemma slot_on_future: "slot_on lookup wd m now n = Some t \<Longrightarrow> now < t"
  unfolding slot_on_def Let_def by (simp split: if_splits)

lemma nextFleetSlot_future:
  assumes "nextFleetSlot E now tz wd m = Inr t"
  shows "now < t"
proof (cases "LoadLocation E tz")
  case None
  with assms show ?thesis by (simp add: nextFleetSlot_def)
next
  case (Some lookup)
  from nextFleetSlot_Inr [OF assms Some] show ?thesis using slot_on_future by blast
qed

text \<open>The run a due schedule is given.\<close>

definition reserved :: "time \<Rightarrow> fleet_schedule \<Rightarrow> schedule_run \<Rightarrow> bool" where
  "reserved now s r \<longleftrightarrow> sr_schedule_id r = fs_id s \<and> sr_scheduled_at r = fs_next_run_at s \<and>
     sr_deadline_at r = fs_next_run_at s + fs_window_minutes s * minute \<and>
     sr_status r = (if sr_deadline_at r \<le> now then ''missed'' else ''pending'') \<and> sr_created_at r = now \<and>
     sr_operation r = stored_input ((fs_operation s)\<lparr>oi_RequestKey := ''schedule:'' @ sr_id r,
        oi_DeadlineAt := RFC3339Nano (sr_deadline_at r)\<rparr>)"

definition slots_unique :: "store \<Rightarrow> bool" where
  "slots_unique st \<longleftrightarrow> distinct (map sr_id (fleet_schedule_runs st)) \<and>
     distinct (map (\<lambda>r. (sr_schedule_id r, sr_scheduled_at r)) (fleet_schedule_runs st))"

lemma reserve_run_Inr:
  assumes "reserve_run E now s st = Inr st'"
  shows "\<exists>r nextRun. fleet_schedule_runs st' = fleet_schedule_runs st @ [r] \<and> reserved now s r \<and> now < nextRun \<and>
    fleet_schedules st' = upd_where (\<lambda>x. fs_id x = fs_id s)
      (\<lambda>x. x\<lparr>fs_next_run_at := nextRun, fs_updated_at := now\<rparr>) (fleet_schedules st) \<and>
    (slots_unique st \<longrightarrow> slots_unique st') \<and> fleet_operations st' = fleet_operations st \<and> commands st' = commands st"
proof -
  from assms obtain nextRun where n: "nextFleetSlot E now (fs_timezone s) (fs_weekdays s) (fs_minute_of_day s) = Inr nextRun"
    by (auto simp: reserve_run_def res_simps)
  define deadline where "deadline = fs_next_run_at s + fs_window_minutes s * minute"
  define runID where "runID = fst (randomID E ''schedule-run'' st)"
  define r where "r = \<lparr>sr_id = runID, sr_schedule_id = fs_id s, sr_scheduled_at = fs_next_run_at s, sr_deadline_at = deadline,
      sr_operation = stored_input ((fs_operation s)\<lparr>oi_RequestKey := ''schedule:'' @ runID, oi_DeadlineAt := RFC3339Nano deadline\<rparr>),
      sr_operation_id = [], sr_status = (if \<not> deadline > now then ''missed'' else ''pending''), sr_error = [], sr_created_at = now\<rparr>"
  from assms n have nx: "\<not> has_row (\<lambda>r. sr_schedule_id r = fs_id s \<and> sr_scheduled_at r = fs_next_run_at s) (fleet_schedule_runs st)"
    and i: "runID \<notin> sr_id ` set (fleet_schedule_runs st)"
    and st': "st' = st\<lparr>draws := draws st + 1, fleet_schedule_runs := fleet_schedule_runs st @ [r],
        fleet_schedules := upd_where (\<lambda>x. fs_id x = fs_id s)
          (\<lambda>x. x\<lparr>fs_next_run_at := nextRun, fs_updated_at := now\<rparr>) (fleet_schedules st)\<rparr>"
    by (auto simp: reserve_run_def res_simps Let_def randomID_def runID_def r_def deadline_def split: if_splits)
  have "slots_unique st \<Longrightarrow> slots_unique st'"
    using nx i by (auto simp: slots_unique_def st' r_def has_row_iff)
  moreover have "reserved now s r" by (auto simp: reserved_def r_def deadline_def)
  ultimately show ?thesis using nextFleetSlot_future [OF n] by (auto simp: st')
qed

text \<open>
  C28. Reserving is exact and happens once: each due schedule gets one run, frozen with the request
  key that makes its start repeatable, missed if its window is over; no slot of a schedule is
  ever reserved twice; and every schedule that was served moves to a slot after the present.
\<close>

theorem reserveFleetSchedules_once:
  assumes "reserveFleetSchedules E now st = Inr st'" and "slots_unique st"
  shows "\<exists>rs. fleet_schedule_runs st' = fleet_schedule_runs st @ rs \<and>
      list_all2 (reserved now) (due_schedules E now st) rs \<and> slots_unique st' \<and>
      (\<forall>s \<in> set (due_schedules E now st). \<forall>x \<in> set (fleet_schedules st'). fs_id x = fs_id s \<longrightarrow> now < fs_next_run_at x)"
proof -
  have "foldE (reserve_run E now) ds st = Inr st' \<Longrightarrow> slots_unique st \<Longrightarrow>
    \<exists>rs. fleet_schedule_runs st' = fleet_schedule_runs st @ rs \<and> list_all2 (reserved now) ds rs \<and> slots_unique st' \<and>
      (\<forall>i. i \<in> fs_id ` set ds \<or> (\<forall>x \<in> set (fleet_schedules st). fs_id x = i \<longrightarrow> now < fs_next_run_at x) \<longrightarrow>
         (\<forall>x \<in> set (fleet_schedules st'). fs_id x = i \<longrightarrow> now < fs_next_run_at x))" for ds st
  proof (induction ds arbitrary: st)
    case Nil
    then show ?case by auto
  next
    case (Cons s ds)
    from Cons.prems(1) obtain st1 where s: "reserve_run E now s st = Inr st1" and r: "foldE (reserve_run E now) ds st1 = Inr st'"
      by (auto simp: res_simps)
    from reserve_run_Inr [OF s] obtain r nextRun where
      run: "fleet_schedule_runs st1 = fleet_schedule_runs st @ [r]" "reserved now s r" "now < nextRun" "slots_unique st1"
      and sch: "fleet_schedules st1 = upd_where (\<lambda>x. fs_id x = fs_id s)
        (\<lambda>x. x\<lparr>fs_next_run_at := nextRun, fs_updated_at := now\<rparr>) (fleet_schedules st)"
      using Cons.prems(2) by blast
    from Cons.IH [OF r run(4)] obtain rs where rs: "fleet_schedule_runs st' = fleet_schedule_runs st1 @ rs"
      "list_all2 (reserved now) ds rs" "slots_unique st'"
      and nx: "\<forall>i. i \<in> fs_id ` set ds \<or> (\<forall>x \<in> set (fleet_schedules st1). fs_id x = i \<longrightarrow> now < fs_next_run_at x) \<longrightarrow>
         (\<forall>x \<in> set (fleet_schedules st'). fs_id x = i \<longrightarrow> now < fs_next_run_at x)" by blast
    have moved: "\<forall>x \<in> set (fleet_schedules st1). fs_id x = i \<longrightarrow> now < fs_next_run_at x"
      if "i = fs_id s \<or> (\<forall>x \<in> set (fleet_schedules st). fs_id x = i \<longrightarrow> now < fs_next_run_at x)" for i
      using that run(3) by (auto simp: sch set_upd_where split: if_splits)
    then have "\<forall>i. i \<in> fs_id ` set (s # ds) \<or> (\<forall>x \<in> set (fleet_schedules st). fs_id x = i \<longrightarrow> now < fs_next_run_at x) \<longrightarrow>
         (\<forall>x \<in> set (fleet_schedules st'). fs_id x = i \<longrightarrow> now < fs_next_run_at x)"
      using nx by (metis image_insert insertE list.set(2))
    with rs run show ?case by (intro exI [of _ "r # rs"]) simp
  qed
  from this [OF assms(1) [unfolded reserveFleetSchedules_def] assms(2)] show ?thesis by blast
qed


definition sample_schedule :: fleet_schedule where
  "sample_schedule = \<lparr>fs_id = ''s1'', fs_user_id = ''op'', fs_title = ''Ping'', fs_operation = sample_input [],
     fs_timezone = ''UTC'', fs_weekdays = [1, 3], fs_minute_of_day = 90, fs_window_minutes = 60, fs_enabled = True,
     fs_next_run_at = 1699925400 * second, fs_created_at = 0, fs_updated_at = 0\<rparr>"

definition sample_schedules :: store where
  "sample_schedules = sample_store\<lparr>fleet_schedules := [sample_schedule]\<rparr>"

lemma sample_due: "due_schedules sample_env (1700000000 * second) sample_schedules = [sample_schedule]"
  by (simp add: due_schedules_def sample_schedules_def sample_schedule_def sample_env_def crypto.defs)

lemma sample_schedules_unique: "slots_unique sample_schedules"
  by (simp add: slots_unique_def sample_schedules_def sample_store_def empty_store_def)

lemma sample_reserve: "\<exists>st'. reserveFleetSchedules sample_env (1700000000 * second) sample_schedules = Inr st'"
proof -
  have "nextFleetSlot sample_env (1700000000 * second) (fs_timezone sample_schedule) (fs_weekdays sample_schedule)
      (fs_minute_of_day sample_schedule) = Inr (1700011800 * second)"
    using sample_slot by (simp only: sample_schedule_def fleet_schedule.simps)
  then show ?thesis
    unfolding reserveFleetSchedules_def sample_due
    by (simp add: reserve_run_def Let_def randomID_def insert_row_def has_row_def sample_schedules_def sample_store_def empty_store_def)
qed

theorem reserveFleetSchedules_once_witness:
  "\<exists>st' r. reserveFleetSchedules sample_env (1700000000 * second) sample_schedules = Inr st' \<and>
     fleet_schedule_runs st' = [r] \<and> reserved (1700000000 * second) sample_schedule r"
proof -
  obtain st' where s: "reserveFleetSchedules sample_env (1700000000 * second) sample_schedules = Inr st'"
    using sample_reserve by blast
  from reserveFleetSchedules_once [OF s sample_schedules_unique] obtain rs where
    "fleet_schedule_runs st' = fleet_schedule_runs sample_schedules @ rs" "list_all2 (reserved (1700000000 * second)) [sample_schedule] rs"
    unfolding sample_due by blast
  moreover from this(2) obtain r where "rs = [r]" "reserved (1700000000 * second) sample_schedule r" by (auto simp: list_all2_Cons1)
  ultimately show ?thesis using s by (auto simp: sample_schedules_def sample_store_def empty_store_def)
qed

lemma create_deadline:
  assumes "CreateFleetOperation E now u i st = Inr ((o', items), st')" and "items_ok st"
    and "oi_DeadlineAt i = RFC3339Nano t" and "time_Parse (RFC3339Nano t) = Some t"
  shows "RFC3339Nano (fo_deadline_at o') = oi_DeadlineAt i"
proof -
  let ?ids = "sort_compact (oi_DeviceIDs i)" and ?args = "NormalizeRawJSON (oi_Args i)"
  have ne: "oi_DeadlineAt i \<noteq> []" using assms(3) by (simp add: RFC3339Nano_def)
  from assms(1) obtain dargs h where r: "(case find_row (\<lambda>o'. fo_user_id o' = u \<and> fo_request_key o' = oi_RequestKey i) (fleet_operations st) of
        Some row \<Rightarrow> bindE (repeated_operation i ?ids ?args h row st) (\<lambda>op. Inr (op, st))
      | None \<Rightarrow> insert_operation E now u i ?ids ?args dargs h st) = Inr ((o', items), st')"
    unfolding CreateFleetOperation_def by (auto simp: bindE_eq_Inr Let_def split: if_splits)
  show ?thesis
  proof (cases "find_row (\<lambda>o'. fo_user_id o' = u \<and> fo_request_key o' = oi_RequestKey i) (fleet_operations st)")
    case None
    with r have "insert_operation E now u i ?ids ?args dargs h st = Inr ((o', items), st')" by simp
    from insert_operation_Inr [OF this assms(2)] have "operation_deadline now (oi_DeadlineAt i) = Inr (fo_deadline_at o')" by blast
    with assms(3,4) ne show ?thesis by (auto simp: operation_deadline_def split: if_splits)
  next
    case (Some row)
    with r have "repeated_operation i ?ids ?args h row st = Inr (o', items)" by (auto simp: bindE_eq_Inr)
    with ne show ?thesis by (auto simp: repeated_operation_def bindE_eq_Inr split: if_splits)
  qed
qed

text \<open>
  C29. A crash between creating the operation of a run and recording it is harmless: when the
  reserved run is started again while its window is open, no second operation appears; the run is
  marked as queued with the operation of the first attempt.
\<close>

theorem start_run_repeatable:
  assumes "reserved now0 s r" and "zero_time \<le> sr_deadline_at r"
    and "fst (year_day ((sr_deadline_at r - zero_time) div (24 * hour))) < 10000" and "items_ok st"
    and "CreateFleetOperation E now user ((sr_operation r)\<lparr>oi_ScheduleRunID := sr_id r\<rparr>) st = Inr ((o', items), st1)"
    and "later < sr_deadline_at r"
  shows "start_run E later (r, user) st1 = (None, set_run (sr_id r) ''queued'' [] (fo_id o') st1) \<and>
    fleet_operations (snd (start_run E later (r, user) st1)) = fleet_operations st1"
proof -
  let ?i = "(sr_operation r)\<lparr>oi_ScheduleRunID := sr_id r\<rparr>"
  have "oi_DeadlineAt ?i = RFC3339Nano (sr_deadline_at r)" using assms(1) by (simp add: reserved_def stored_input_def)
  with create_deadline [OF assms(5,4)] time_Parse_RFC3339Nano [OF assms(2,3)]
  have "RFC3339Nano (fo_deadline_at o') = oi_DeadlineAt ?i" by blast
  with create_again [OF assms(5,4), of later] have "CreateFleetOperation E later user ?i st1 = Inr ((o', items), st1)" by simp
  with assms(6) have "start_run E later (r, user) st1 = (None, set_run (sr_id r) ''queued'' [] (fo_id o') st1)"
    by (simp add: start_run_def)
  then show ?thesis by (simp add: set_run_def)
qed


definition sample_run :: schedule_run where
  "sample_run = \<lparr>sr_id = ''run-1'', sr_schedule_id = ''s1'', sr_scheduled_at = 1699925400 * second,
     sr_deadline_at = 1699925400 * second + 60 * minute,
     sr_operation = stored_input ((sample_input [])\<lparr>oi_RequestKey := ''schedule:run-1'',
        oi_DeadlineAt := RFC3339Nano (1699925400 * second + 60 * minute)\<rparr>),
     sr_operation_id = [], sr_status = ''pending'', sr_error = [], sr_created_at = 1699925400 * second\<rparr>"

definition sample_pending :: store where
  "sample_pending = sample_schedules\<lparr>fleet_schedule_runs := [sample_run]\<rparr>"

lemma sample_run_reserved: "reserved (1699925400 * second) sample_schedule sample_run"
  by (simp add: reserved_def sample_run_def sample_schedule_def)

lemma sample_run_times: "zero_time \<le> sr_deadline_at sample_run"
  "fst (year_day ((sr_deadline_at sample_run - zero_time) div (24 * hour))) < 10000"
  by (simp_all add: sample_run_def zero_time_def year_day_def)

lemma sample_run_created:
  "\<exists>o' items st1. CreateFleetOperation sample_env (1699925460 * second) ''op''
     ((sr_operation sample_run)\<lparr>oi_ScheduleRunID := sr_id sample_run\<rparr>) sample_pending = Inr ((o', items), st1)"
proof -
  obtain t where t: "t = 1699925400 * second + 60 * minute" by blast
  have p: "time_Parse (RFC3339Nano t) = Some t"
    using time_Parse_RFC3339Nano [OF sample_run_times] by (simp only: sample_run_def schedule_run.simps t)
  have ne: "RFC3339Nano t \<noteq> []" by (simp add: RFC3339Nano_def)
  have d: "operation_deadline (1699925460 * second) (RFC3339Nano t) = Inr t"
    using p ne t by (simp add: operation_deadline_def)
  have m: "marshal_raw ''{}'' = ''{}''" by code_simp
  have i: "(sr_operation sample_run)\<lparr>oi_ScheduleRunID := sr_id sample_run\<rparr> =
      (sample_input (RFC3339Nano t))\<lparr>oi_RequestKey := ''schedule:run-1'', oi_ScheduleRunID := ''run-1''\<rparr>"
    using m by (simp add: sample_run_def stored_input_def sample_input_def t)
  have s: "operation_limits ((sample_input (RFC3339Nano t))\<lparr>oi_RequestKey := ''schedule:run-1'', oi_ScheduleRunID := ''run-1''\<rparr>) = Inr ()"
    "sort_compact [''dev''] = [''dev'']" "json_Valid ''{}''" "authorize_target sample_pending ''op'' ''ping'' False ''dev'' = Inr ()"
    "fleetPrincipal sample_pending ''op'' = Inr False"
    subgoal by (simp add: operation_limits_def sample_input_def fleetArgsLimit_def FleetCommandAllowed_def sample_texts)
    by code_simp+
  have v: "schedule_run_valid ''run-1'' ''op'' sample_pending"
    by (simp add: schedule_run_valid_def sample_pending_def sample_schedules_def sample_run_def sample_schedule_def has_row_def)
  have tabs: "fleet_operations sample_pending = []" "fleet_operation_items sample_pending = []"
    by (simp_all add: sample_pending_def sample_schedules_def sample_store_def empty_store_def)
  show ?thesis unfolding i using s v d tabs
    by (simp add: CreateFleetOperation_def Let_def sample_input_def sample_texts resolve_device_args_def operation_payload_def
        item_args_def insert_operation_def randomID_def loadFleetOperation_def insert_item_def insert_row_def has_row_def)
qed

theorem start_run_repeatable_witness:
  "\<exists>o' items st1. CreateFleetOperation sample_env (1699925460 * second) ''op''
      ((sr_operation sample_run)\<lparr>oi_ScheduleRunID := sr_id sample_run\<rparr>) sample_pending = Inr ((o', items), st1) \<and>
     fleet_operations (snd (start_run sample_env (1699925520 * second) (sample_run, ''op'') st1)) = fleet_operations st1"
proof -
  obtain o' items st1 where c: "CreateFleetOperation sample_env (1699925460 * second) ''op''
      ((sr_operation sample_run)\<lparr>oi_ScheduleRunID := sr_id sample_run\<rparr>) sample_pending = Inr ((o', items), st1)"
    using sample_run_created by blast
  have "items_ok sample_pending"
    by (simp add: items_ok_def sample_pending_def sample_schedules_def sample_store_def empty_store_def)
  from start_run_repeatable [OF sample_run_reserved sample_run_times this c, of "1699925520 * second"] c show ?thesis
    by (auto simp: sample_run_def)
qed

end
