(* ===== verification/Accounts.thy ===== *)
theory Accounts
  imports RemoteSessions
begin

text \<open>
  Accounts and the tokens that prove them (\<open>security.go\<close>): operators with their roles, operator
  sessions, password resets, enrolment grants, and the purge of what has expired. The invariant
  that an active administrator remains is kept by every operation on accounts.
\<close>

section \<open>Tables\<close>

text \<open>\<open>operator_sessions\<close> and \<open>password_reset_tokens\<close> have the same columns.\<close>

record user_token =
  ut_token_hash :: string
  ut_user_id :: string
  ut_expires_at :: time
  ut_created_at :: time

record enrollment_grant =
  eg_id :: string
  eg_token_hash :: string
  eg_user_id :: string
  eg_dns_label :: string
  eg_expires_at :: time
  eg_used_at :: "time option"
  eg_created_at :: time

record dns_record =
  dr_device_id :: string
  dr_ipv4 :: string
  dr_ipv6 :: string
  dr_ttl :: int
  dr_enabled :: bool
  dr_last_agent_update_at :: "time option"
  dr_created_at :: time
  dr_updated_at :: time

record dns_address =
  da_id :: string
  da_device_id :: string
  da_ipv4 :: string
  da_ipv6 :: string
  da_source :: string
  da_created_at :: time

record lan_client =
  lc_device_id :: string
  lc_client_key :: string
  lc_mac :: string
  lc_ip :: string
  lc_hostname :: string
  lc_interface :: string
  lc_connection :: string
  lc_confirmation :: string
  lc_first_seen_at :: time
  lc_last_seen_at :: "time option"
  lc_last_checked_at :: time

text \<open>
  The database with the tables of this part; \<open>base\<close> holds the tables the other components share.
\<close>

record accounts =
  base :: store
  operator_sessions :: "user_token list"
  password_reset_tokens :: "user_token list"
  enrollment_grants :: "enrollment_grant list"
  device_dns_records :: "dns_record list"
  dns_address_history :: "dns_address list"
  lan_clients :: "lan_client list"
  security_metadata :: "(string \<times> string) list"

definition on_base :: "(store \<Rightarrow> store) \<Rightarrow> accounts \<Rightarrow> accounts" where
  "on_base f st = st\<lparr>base := f (base st)\<rparr>"

definition draw :: "env \<Rightarrow> string \<Rightarrow> accounts \<Rightarrow> string \<times> accounts" where
  "draw E prefix st = (let (i, b) = randomID E prefix (base st) in (i, st\<lparr>base := b\<rparr>))"

definition set_users :: "user list \<Rightarrow> accounts \<Rightarrow> accounts" where
  "set_users us = on_base (\<lambda>b. b\<lparr>users := us\<rparr>)"

definition update_user :: "string \<Rightarrow> (user \<Rightarrow> user) \<Rightarrow> accounts \<Rightarrow> accounts" where
  "update_user userID f st = set_users (upd_where (\<lambda>u. u_id u = userID) f (users (base st))) st"

text \<open>\<open>UPDATE devices SET dns_label\<close> fails on the unique index of the labels that are not empty.\<close>

definition labels_distinct :: "device list \<Rightarrow> bool" where
  "labels_distinct ds = distinct (filter (\<lambda>l. l \<noteq> []) (map d_dns_label ds))"

section \<open>DNS labels\<close>

text \<open>
  \<open>strings.ToLower\<close> maps two runes outside ASCII to letters: the Kelvin sign and the dotted capital I.
  Any other rune outside ASCII stays outside, and each of its bytes is then no label character.
\<close>

fun dns_lower :: "string \<Rightarrow> string" where
  "dns_lower [] = []"
| "dns_lower (c # s) =
     (if HasPrefix (c # s) [CHR 0xE2, CHR 0x84, CHR 0xAA] then CHR ''k'' # dns_lower (drop 2 s)
      else if HasPrefix (c # s) [CHR 0xC4, CHR 0xB0] then CHR ''i'' # dns_lower (drop 1 s)
      else lower_char c # dns_lower s)"

definition label_char :: "char \<Rightarrow> bool" where
  "label_char c \<longleftrightarrow> CHR ''a'' \<le> c \<and> c \<le> CHR ''z'' \<or> digit_char c"

fun label_loop :: "string \<Rightarrow> string \<Rightarrow> bool \<Rightarrow> string" where
  "label_loop [] builder lastDash = builder"
| "label_loop (r # rs) builder lastDash =
     (let (builder, lastDash) =
        (if label_char r then (builder @ [r], False)
         else if \<not> lastDash \<and> builder \<noteq> [] then (builder @ ''-'', True)
         else (builder, lastDash))
      in if length builder \<ge> 48 then builder else label_loop rs builder lastDash)"

text \<open>\<open>strings.Trim(s, "-")\<close>.\<close>

definition trim_dashes :: "string \<Rightarrow> string" where
  "trim_dashes s = rev (dropWhile (\<lambda>c. c = CHR ''-'') (rev (dropWhile (\<lambda>c. c = CHR ''-'') s)))"

definition generatedDNSLabel :: "string \<Rightarrow> string \<Rightarrow> string" where
  "generatedDNSLabel hostname deviceID =
     (let stem = trim_dashes (label_loop (dns_lower (TrimSpace hostname)) [] False);
          stem = (if stem = [] then ''router'' else stem);
          suffix = (case CutPrefix deviceID ''dev_'' of Some r \<Rightarrow> r | None \<Rightarrow> deviceID);
          suffix = (if length suffix > 8 then take 8 suffix else suffix)
      in trim_dashes (stem @ ''-'' @ suffix))"

section \<open>Accounts\<close>

text \<open>\<open>scanUser\<close>: the value \<open>model.User\<close> has no password hash.\<close>

definition scanUser :: "user \<Rightarrow> user" where
  "scanUser u = u\<lparr>u_password_hash := []\<rparr>"

text \<open>\<open>COLLATE NOCASE\<close>, and \<open>lower\<close> of both sides on PostgreSQL.\<close>

definition nocase_eq :: "string \<Rightarrow> string \<Rightarrow> bool" where
  "nocase_eq x y \<longleftrightarrow> ToLower x = ToLower y"

definition GetUserByUsername :: "string \<Rightarrow> accounts \<Rightarrow> (user \<times> string) option" where
  "GetUserByUsername username st =
     map_option (\<lambda>u. (scanUser u, u_password_hash u))
       (find_row (\<lambda>u. nocase_eq (u_username u) (TrimSpace username)) (users (base st)))"

definition GetUserByID :: "string \<Rightarrow> accounts \<Rightarrow> user option" where
  "GetUserByID i st = map_option scanUser (find_row (\<lambda>u. u_id u = i) (users (base st)))"

text \<open>\<open>INSERT INTO users\<close>: the primary key and the unique user name.\<close>

definition insert_user :: "user \<Rightarrow> accounts \<Rightarrow> accounts res" where
  "insert_user u st =
     (if has_row (\<lambda>v. nocase_eq (u_username v) (u_username u)) (users (base st))
      then Inl (ErrConstraint ''username'')
      else bindE (insert_row u_id u (users (base st))) (\<lambda>us. Inr (set_users us st)))"

text \<open>
  The statements are not one transaction: what was assigned before a label clashes stays.
\<close>

definition assign_device :: "string \<Rightarrow> string \<Rightarrow> string \<Rightarrow> device \<Rightarrow> device" where
  "assign_device userID label deviceID d =
     (if d_id d = deviceID then
        d\<lparr>d_owner_user_id := (if d_owner_user_id d = [] then userID else d_owner_user_id d),
          d_dns_label := (if d_dns_label d = [] then label else d_dns_label d)\<rparr>
      else d)"

fun assign_devices :: "string \<Rightarrow> (string \<times> string) list \<Rightarrow> accounts \<Rightarrow> unit res \<times> accounts" where
  "assign_devices userID [] st = (Inr (), st)"
| "assign_devices userID ((deviceID, hostname) # rest) st =
     (let ds = map (assign_device userID (generatedDNSLabel hostname deviceID) deviceID) (devices (base st)) in
      if labels_distinct ds then assign_devices userID rest (on_base (\<lambda>b. b\<lparr>devices := ds\<rparr>) st)
      else (Inl (ErrConstraint ''dns_label''), st))"

definition assignLegacyDevices :: "string \<Rightarrow> accounts \<Rightarrow> unit res \<times> accounts" where
  "assignLegacyDevices userID st =
     assign_devices userID
       (map (\<lambda>d. (d_id d, d_hostname d)) (filter (\<lambda>d. d_owner_user_id d = [] \<or> d_dns_label d = []) (devices (base st)))) st"

text \<open>A user when one is returned together with an error: \<open>model.User{}\<close>.\<close>

definition EnsureBootstrapUser ::
  "env \<Rightarrow> time \<Rightarrow> string \<Rightarrow> string \<Rightarrow> accounts \<Rightarrow> (user option) res \<times> accounts" where
  "EnsureBootstrapUser E now username passwordHash st =
     (let username = TrimSpace username in
      if username = [] \<or> passwordHash = []
      then (Inl (ErrMsg ''bootstrap username and password hash are required''), st)
      else case GetUserByUsername username st of
        Some (user, _) \<Rightarrow>
          let st = update_user (u_id user) (\<lambda>u. u\<lparr>u_role := ''admin'', u_disabled := False, u_updated_at := now\<rparr>) st in
          (case assignLegacyDevices (u_id user) st of
             (Inl e, st) \<Rightarrow> (Inl e, st)
           | (Inr _, st) \<Rightarrow> (Inr (Some (user\<lparr>u_role := ''admin'', u_disabled := False\<rparr>)), st))
      | None \<Rightarrow>
          let (id, st) = draw E ''usr'' st in
          (case insert_user \<lparr>u_id = id, u_username = username, u_display_name = [], u_email = [], u_password_hash = passwordHash,
                 u_role = ''admin'', u_disabled = False, u_created_at = now, u_updated_at = now\<rparr> st of
             Inl e \<Rightarrow> (Inl e, st)
           | Inr st \<Rightarrow>
               (case assignLegacyDevices id st of
                  (Inl e, st) \<Rightarrow> (Inl e, st)
                | (Inr _, st) \<Rightarrow> (Inr (map_option fst (GetUserByUsername username st)), st))))"

definition CreateUser ::
  "env \<Rightarrow> time \<Rightarrow> string \<Rightarrow> string \<Rightarrow> string \<Rightarrow> string \<Rightarrow> string \<Rightarrow> accounts \<Rightarrow> (user option \<times> accounts) res" where
  "CreateUser E now username displayName email passwordHash role st =
     (let username = TrimSpace username; displayName = TrimSpace displayName;
          email = ToLower (TrimSpace email); role = ToLower (TrimSpace role) in
      if username = [] \<or> passwordHash = [] \<or> (role \<noteq> ''admin'' \<and> role \<noteq> ''user'') then Inl (ErrMsg ''invalid user'')
      else let (id, st) = draw E ''usr'' st in
        if email \<noteq> [] \<and> has_row (\<lambda>u. nocase_eq (u_email u) email) (users (base st))
        then Inl (ErrMsg ''email is already in use'')
        else bindE (insert_user \<lparr>u_id = id, u_username = username, u_display_name = displayName, u_email = email,
                 u_password_hash = passwordHash, u_role = role, u_disabled = False, u_created_at = now, u_updated_at = now\<rparr> st) (\<lambda>st.
          Inr (map_option fst (GetUserByUsername username st), st)))"

definition active_admin :: "user \<Rightarrow> bool" where
  "active_admin u \<longleftrightarrow> u_role u = ''admin'' \<and> \<not> u_disabled u"

definition UpdateUserSecurity ::
  "time \<Rightarrow> string \<Rightarrow> bool option \<Rightarrow> string \<Rightarrow> string \<Rightarrow> accounts \<Rightarrow> (user option \<times> accounts) res" where
  "UpdateUserSecurity now userID disabled passwordHash role st =
     (let role = ToLower (TrimSpace role) in
      if role \<noteq> [] \<and> role \<noteq> ''admin'' \<and> role \<noteq> ''user'' then Inl (ErrMsg ''invalid user role'')
      else case find_row (\<lambda>u. u_id u = userID) (users (base st)) of
        None \<Rightarrow> Inr (None, st)
      | Some current \<Rightarrow>
          if active_admin current \<and> (disabled = Some True \<or> role = ''user'') \<and>
             count_where active_admin (users (base st)) \<le> 1
          then Inl (ErrMsg ''cannot disable or demote the last active administrator'')
          else let
            st = (case disabled of None \<Rightarrow> st
                  | Some flag \<Rightarrow> update_user userID (\<lambda>u. u\<lparr>u_disabled := flag, u_updated_at := now\<rparr>) st);
            st = (if passwordHash \<noteq> []
                  then update_user userID (\<lambda>u. u\<lparr>u_password_hash := passwordHash, u_updated_at := now\<rparr>) st else st);
            st = (if role \<noteq> [] then update_user userID (\<lambda>u. u\<lparr>u_role := role, u_updated_at := now\<rparr>) st else st);
            st = (if disabled = Some True \<or> passwordHash \<noteq> [] \<or> role \<noteq> []
                  then st\<lparr>operator_sessions := del_where (\<lambda>t. ut_user_id t = userID) (operator_sessions st)\<rparr> else st)
          in Inr (GetUserByID userID st, st))"

definition ListUsers :: "accounts \<Rightarrow> user list" where
  "ListUsers st = map scanUser (order_by (\<lambda>x y. ToLower (u_username x) \<le> ToLower (u_username y)) (users (base st)))"

definition UpdateUserProfile ::
  "time \<Rightarrow> string \<Rightarrow> string \<Rightarrow> string \<Rightarrow> accounts \<Rightarrow> (user option \<times> accounts) res" where
  "UpdateUserProfile now userID displayName email st =
     (let email = ToLower (TrimSpace email) in
      if email \<noteq> [] \<and> has_row (\<lambda>u. nocase_eq (u_email u) email \<and> u_id u \<noteq> userID) (users (base st))
      then Inl (ErrMsg ''email is already in use'')
      else if \<not> has_row (\<lambda>u. u_id u = userID) (users (base st)) then Inr (None, st)
      else let st = update_user userID (\<lambda>u. u\<lparr>u_display_name := TrimSpace displayName, u_email := email, u_updated_at := now\<rparr>) st
        in Inr (GetUserByID userID st, st))"

section \<open>Operator sessions and passwords\<close>

text \<open>\<open>INSERT\<close> into \<open>operator_sessions\<close> or \<open>password_reset_tokens\<close>: the primary key and the user.\<close>

definition insert_user_token :: "accounts \<Rightarrow> user_token \<Rightarrow> user_token list \<Rightarrow> (user_token list) res" where
  "insert_user_token st t ts =
     (if \<not> has_row (\<lambda>u. u_id u = ut_user_id t) (users (base st)) then Inl (ErrConstraint ''foreign key'')
      else insert_row ut_token_hash t ts)"

definition CreateOperatorSession :: "time \<Rightarrow> string \<Rightarrow> string \<Rightarrow> time \<Rightarrow> accounts \<Rightarrow> accounts res" where
  "CreateOperatorSession now tokenHash userID expiresAt st =
     bindE (insert_user_token st
              \<lparr>ut_token_hash = tokenHash, ut_user_id = userID, ut_expires_at = expiresAt, ut_created_at = now\<rparr>
              (operator_sessions st))
       (\<lambda>ts. Inr (st\<lparr>operator_sessions := ts\<rparr>))"

text \<open>The account of a live token: the join with the users that are not disabled.\<close>

definition token_user :: "env \<Rightarrow> time \<Rightarrow> string \<Rightarrow> user_token list \<Rightarrow> accounts \<Rightarrow> user option" where
  "token_user E now tokenHash ts st =
     (case find_row (\<lambda>t. ut_token_hash t = tokenHash) ts of
        None \<Rightarrow> None
      | Some t \<Rightarrow>
          if julianday E (ut_expires_at t) > julianday E now
          then find_row (\<lambda>u. u_id u = ut_user_id t \<and> \<not> u_disabled u) (users (base st)) else None)"

definition AuthorizeOperatorSession :: "env \<Rightarrow> time \<Rightarrow> string \<Rightarrow> accounts \<Rightarrow> user option" where
  "AuthorizeOperatorSession E now tokenHash st = map_option scanUser (token_user E now tokenHash (operator_sessions st) st)"

definition RevokeOperatorSession :: "string \<Rightarrow> accounts \<Rightarrow> accounts" where
  "RevokeOperatorSession tokenHash st =
     st\<lparr>operator_sessions := del_where (\<lambda>t. ut_token_hash t = tokenHash) (operator_sessions st)\<rparr>"

definition UpdateOwnPassword :: "time \<Rightarrow> string \<Rightarrow> string \<Rightarrow> string \<Rightarrow> accounts \<Rightarrow> accounts" where
  "UpdateOwnPassword now userID passwordHash currentSessionHash st =
     (let st = update_user userID (\<lambda>u. u\<lparr>u_password_hash := passwordHash, u_updated_at := now\<rparr>) st
      in st\<lparr>operator_sessions :=
           (if currentSessionHash = [] then del_where (\<lambda>t. ut_user_id t = userID) (operator_sessions st)
            else del_where (\<lambda>t. ut_user_id t = userID \<and> ut_token_hash t \<noteq> currentSessionHash) (operator_sessions st))\<rparr>)"

definition RevokeUserSessions :: "string \<Rightarrow> accounts \<Rightarrow> accounts" where
  "RevokeUserSessions userID st =
     st\<lparr>operator_sessions := del_where (\<lambda>t. ut_user_id t = userID) (operator_sessions st)\<rparr>"

definition GetUserForPasswordReset :: "string \<Rightarrow> accounts \<Rightarrow> user option" where
  "GetUserForPasswordReset ident st =
     (let ident = ToLower (TrimSpace ident) in
      case take 2 (filter (\<lambda>u. \<not> u_disabled u \<and>
             (nocase_eq (u_username u) ident \<or> (u_email u \<noteq> [] \<and> nocase_eq (u_email u) ident))) (users (base st))) of
        [u] \<Rightarrow> if u_email u = [] then None else Some (scanUser u)
      | _ \<Rightarrow> None)"

definition CreatePasswordReset :: "time \<Rightarrow> string \<Rightarrow> string \<Rightarrow> time \<Rightarrow> accounts \<Rightarrow> accounts res" where
  "CreatePasswordReset now userID tokenHash expiresAt st =
     bindE (insert_user_token st
              \<lparr>ut_token_hash = tokenHash, ut_user_id = userID, ut_expires_at = expiresAt, ut_created_at = now\<rparr>
              (del_where (\<lambda>t. ut_user_id t = userID) (password_reset_tokens st)))
       (\<lambda>ts. Inr (st\<lparr>password_reset_tokens := ts\<rparr>))"

definition ResetPassword :: "env \<Rightarrow> time \<Rightarrow> string \<Rightarrow> string \<Rightarrow> accounts \<Rightarrow> bool \<times> accounts" where
  "ResetPassword E now tokenHash passwordHash st =
     (case token_user E now tokenHash (password_reset_tokens st) st of
        None \<Rightarrow> (False, st)
      | Some user \<Rightarrow>
          let userID = u_id user;
              st = set_users (upd_where (\<lambda>u. u_id u = userID \<and> \<not> u_disabled u)
                     (\<lambda>u. u\<lparr>u_password_hash := passwordHash, u_updated_at := now\<rparr>) (users (base st))) st;
              st = st\<lparr>operator_sessions := del_where (\<lambda>t. ut_user_id t = userID) (operator_sessions st)\<rparr>;
              st = st\<lparr>password_reset_tokens := del_where (\<lambda>t. ut_user_id t = userID) (password_reset_tokens st)\<rparr>
          in (True, st))"

section \<open>Enrolment grants\<close>

definition live_grant :: "env \<Rightarrow> time \<Rightarrow> enrollment_grant \<Rightarrow> bool" where
  "live_grant E now g \<longleftrightarrow> eg_used_at g = None \<and> julianday E (eg_expires_at g) > julianday E now"

definition CreateEnrollmentGrant ::
  "env \<Rightarrow> time \<Rightarrow> string \<Rightarrow> string \<Rightarrow> string \<Rightarrow> time \<Rightarrow> accounts \<Rightarrow> (enrollment_grant \<times> accounts) res" where
  "CreateEnrollmentGrant E now userID dnsLabel tokenHash expiresAt st =
     (if count_where (\<lambda>g. eg_user_id g = userID \<and> live_grant E now g) (enrollment_grants st) \<ge> 10
      then Inl (ErrMsg ''active enrollment grant limit reached'')
      else if dnsLabel \<noteq> [] \<and>
         (has_row (\<lambda>d. d_dns_label d = dnsLabel) (devices (base st)) \<or>
          has_row (\<lambda>g. eg_dns_label g = dnsLabel \<and> live_grant E now g) (enrollment_grants st))
      then Inl (ErrMsg ''dns label is already in use'')
      else let (id, st) = draw E ''eng'' st;
               grant = \<lparr>eg_id = id, eg_token_hash = tokenHash, eg_user_id = userID, eg_dns_label = dnsLabel,
                        eg_expires_at = expiresAt, eg_used_at = None, eg_created_at = now\<rparr>
        in if \<not> has_row (\<lambda>u. u_id u = userID) (users (base st)) then Inl (ErrConstraint ''foreign key'')
           else if has_row (\<lambda>g. eg_token_hash g = tokenHash) (enrollment_grants st) then Inl (ErrConstraint ''token_hash'')
           else bindE (insert_row eg_id grant (enrollment_grants st)) (\<lambda>gs. Inr (grant, st\<lparr>enrollment_grants := gs\<rparr>)))"

section \<open>Expiry\<close>

definition PurgeExpiredSecurityData :: "env \<Rightarrow> time \<Rightarrow> accounts \<Rightarrow> accounts" where
  "PurgeExpiredSecurityData E now st =
     (let over = (\<lambda>t. julianday E t \<le> julianday E now) in
      on_base (\<lambda>b. b\<lparr>device_access_grants := del_where (\<lambda>t. over (at_expires_at t)) (device_access_grants b),
                     device_access_sessions := del_where (\<lambda>t. over (at_expires_at t)) (device_access_sessions b)\<rparr>)
        (st\<lparr>operator_sessions := del_where (\<lambda>t. over (ut_expires_at t)) (operator_sessions st),
            password_reset_tokens := del_where (\<lambda>t. over (ut_expires_at t)) (password_reset_tokens st),
            enrollment_grants := del_where (\<lambda>g. over (eg_expires_at g)) (enrollment_grants st)\<rparr>))"

text \<open>With the number of rows deleted.\<close>

definition PurgeMetricSamplesBefore :: "env \<Rightarrow> time \<Rightarrow> accounts \<Rightarrow> nat \<times> accounts" where
  "PurgeMetricSamplesBefore E cutoff st =
     (let old = (\<lambda>m. julianday E (ms_created_at m) < julianday E cutoff) in
      (count_where old (metric_samples (base st)),
       on_base (\<lambda>b. b\<lparr>metric_samples := del_where old (metric_samples b)\<rparr>) st))"

section \<open>Lemmas\<close>

lemma base_simps [simp]:
  "base (on_base f st) = f (base st)" "operator_sessions (on_base f st) = operator_sessions st"
  "password_reset_tokens (on_base f st) = password_reset_tokens st" "enrollment_grants (on_base f st) = enrollment_grants st"
  "users (base (set_users us st)) = us" "operator_sessions (set_users us st) = operator_sessions st"
  "password_reset_tokens (set_users us st) = password_reset_tokens st" "enrollment_grants (set_users us st) = enrollment_grants st"
  by (simp_all add: on_base_def set_users_def)

lemma users_update_user [simp]: "users (base (update_user i f st)) = upd_where (\<lambda>u. u_id u = i) f (users (base st))"
  "operator_sessions (update_user i f st) = operator_sessions st"
  "password_reset_tokens (update_user i f st) = password_reset_tokens st"
  by (simp_all add: update_user_def)

lemma draw_simps [simp]: "users (base (snd (draw E p st))) = users (base st)"
  by (simp add: draw_def randomID_def)

text \<open>The invariant of the accounts: their keys are distinct, and one of them is an active administrator.\<close>

definition administrated :: "accounts \<Rightarrow> bool" where
  "administrated st \<longleftrightarrow> distinct (map u_id (users (base st))) \<and> has_row active_admin (users (base st))"

lemma administrated_update:
  assumes "administrated st" "\<And>u. u_id (f u) = u_id u" "\<And>u. active_admin u \<Longrightarrow> u_id u = i \<Longrightarrow> active_admin (f u)"
  shows "administrated (update_user i f st)"
proof -
  have "map u_id (upd_where (\<lambda>u. u_id u = i) f (users (base st))) = map u_id (users (base st))"
    by (rule map_upd_where) (rule assms(2))
  moreover have "has_row active_admin (upd_where (\<lambda>u. u_id u = i) f (users (base st)))"
  proof -
    obtain u where u: "u \<in> set (users (base st))" "active_admin u" using assms(1) by (auto simp: administrated_def has_row_iff)
    then have "active_admin (if u_id u = i then f u else u)" using assms(3) by simp
    with u show ?thesis unfolding has_row_iff set_upd_where by blast
  qed
  ultimately show ?thesis using assms(1) by (simp add: administrated_def)
qed

lemma administrated_insert: "insert_user u st = Inr st' \<Longrightarrow> administrated st \<Longrightarrow> administrated st'"
proof -
  assume i: "insert_user u st = Inr st'" and a: "administrated st"
  from i have "users (base st') = users (base st) @ [u]" "u_id u \<notin> u_id ` set (users (base st))"
    by (auto simp: insert_user_def insert_row_def bindE_eq_Inr has_row_iff split: if_splits)
  with a show "administrated st'" by (auto simp: administrated_def has_row_iff)
qed

lemma users_assign_devices: "users (base (snd (assign_devices i ds st))) = users (base st)"
  by (induction i ds st rule: assign_devices.induct) (auto simp: Let_def)

lemma administrated_users: "users (base st') = users (base st) \<Longrightarrow> administrated st' \<longleftrightarrow> administrated st"
  by (simp add: administrated_def)

lemma administrated_bootstrap: "administrated st \<Longrightarrow> administrated (snd (EnsureBootstrapUser E now n h st))"
proof -
  assume a: "administrated st"
  have assign: "administrated (snd (assignLegacyDevices i s)) \<longleftrightarrow> administrated s" for i s
    by (rule administrated_users) (simp add: assignLegacyDevices_def users_assign_devices)
  have promoted: "administrated (update_user i (\<lambda>u. u\<lparr>u_role := ''admin'', u_disabled := False, u_updated_at := now\<rparr>) st)" for i
    by (rule administrated_update [OF a]) (auto simp: active_admin_def)
  have drawn: "administrated (snd (draw E ''usr'' st))" using a administrated_users [OF draw_simps] by blast
  show ?thesis
    using a promoted drawn assign administrated_insert
    by (auto simp: EnsureBootstrapUser_def Let_def split_def split: option.splits sum.splits prod.splits)
qed

lemma administrated_create: "CreateUser E now n d e h r st = Inr (u, st') \<Longrightarrow> administrated st \<Longrightarrow> administrated st'"
  using administrated_users [OF draw_simps, of E "''usr''" st]
  by (auto simp: CreateUser_def Let_def split_def res_simps split: if_splits dest: administrated_insert)

lemma count_two:
  assumes "1 < count_where p xs" "distinct (map key xs)"
  shows "\<exists>x \<in> set xs. p x \<and> key x \<noteq> k"
proof (rule ccontr)
  assume "\<not> ?thesis"
  then have "filter p xs = filter (\<lambda>x. p x \<and> key x = k) xs" by (intro filter_cong) auto
  moreover have "length (filter (\<lambda>x. key x = k) xs) \<le> 1"
    using assms(2) by (induction xs) (auto simp: filter_empty_conv image_iff)
  moreover have "length (filter (\<lambda>x. p x \<and> key x = k) xs) \<le> length (filter (\<lambda>x. key x = k) xs)"
    by (induction xs) auto
  ultimately show False using assms(1) by (simp add: count_where_def)
qed

text \<open>An active administrator other than the one that is changed.\<close>

definition other_admin :: "string \<Rightarrow> accounts \<Rightarrow> bool" where
  "other_admin i st \<longleftrightarrow> distinct (map u_id (users (base st))) \<and> has_row (\<lambda>u. active_admin u \<and> u_id u \<noteq> i) (users (base st))"

lemma other_admin_administrated: "other_admin i st \<Longrightarrow> administrated st"
  by (auto simp: other_admin_def administrated_def has_row_iff)

lemma other_admin_update:
  assumes "other_admin i st" "\<And>u. u_id (f u) = u_id u"
  shows "other_admin i (update_user i f st)"
proof -
  obtain u where u: "u \<in> set (users (base st))" "active_admin u" "u_id u \<noteq> i" using assms(1) by (auto simp: other_admin_def has_row_iff)
  have "map u_id (upd_where (\<lambda>u. u_id u = i) f (users (base st))) = map u_id (users (base st))"
    by (rule map_upd_where) (rule assms(2))
  moreover have "u \<in> set (upd_where (\<lambda>u. u_id u = i) f (users (base st)))" using u by (force simp: set_upd_where)
  ultimately show ?thesis using assms(1) u by (auto simp: other_admin_def has_row_iff)
qed

lemma administrated_security:
  assumes "UpdateUserSecurity now i disabled h role st = Inr (u, st')" "administrated st"
  shows "administrated st'"
proof (cases "find_row (\<lambda>u. u_id u = i) (users (base st))")
  case None
  then show ?thesis using assms by (auto simp: UpdateUserSecurity_def Let_def split: if_splits)
next
  case (Some c)
  define r where "r = ToLower (TrimSpace role)"
  define s1 where "s1 = (case disabled of None \<Rightarrow> st | Some flag \<Rightarrow> update_user i (\<lambda>u. u\<lparr>u_disabled := flag, u_updated_at := now\<rparr>) st)"
  define s2 where "s2 = (if h \<noteq> [] then update_user i (\<lambda>u. u\<lparr>u_password_hash := h, u_updated_at := now\<rparr>) s1 else s1)"
  define s3 where "s3 = (if r \<noteq> [] then update_user i (\<lambda>u. u\<lparr>u_role := r, u_updated_at := now\<rparr>) s2 else s2)"
  have guard: "\<not> (active_admin c \<and> (disabled = Some True \<or> r = ''user'') \<and> count_where active_admin (users (base st)) \<le> 1)"
    and role: "r = [] \<or> r = ''admin'' \<or> r = ''user''"
    using assms(1) Some by (auto simp: UpdateUserSecurity_def r_def Let_def split: if_splits)
  have "users (base st') = users (base s3)"
    using assms(1) Some by (auto simp: UpdateUserSecurity_def s3_def s2_def s1_def r_def Let_def split: if_splits)
  then have goal: "administrated st' \<longleftrightarrow> administrated s3" by (rule administrated_users)
  have dist: "distinct (map u_id (users (base st)))" using assms(2) by (simp add: administrated_def)
  have c: "c \<in> set (users (base st))" "u_id c = i" using Some by (auto simp: find_row_def find_Some_iff)
  show ?thesis
  proof (cases "active_admin c \<and> \<not> (disabled = Some True \<or> r = ''user'')")
    case True
    have "administrated s1" using assms(2) True unfolding s1_def
      by (auto split: option.splits intro!: administrated_update simp: active_admin_def)
    then have "administrated s2" unfolding s2_def by (auto intro!: administrated_update simp: active_admin_def)
    then have "administrated s3" using True role unfolding s3_def by (auto intro!: administrated_update simp: active_admin_def)
    with goal show ?thesis by blast
  next
    case False
    have "\<exists>u \<in> set (users (base st)). active_admin u \<and> u_id u \<noteq> i"
    proof (cases "active_admin c")
      case True
      with False guard have "1 < count_where active_admin (users (base st))" by auto
      from count_two [OF this dist] show ?thesis .
    next
      case idle: False
      obtain u where u: "u \<in> set (users (base st))" "active_admin u" using assms(2) by (auto simp: administrated_def has_row_iff)
      with idle c dist have "u_id u \<noteq> i" by (metis (no_types, lifting) distinct_map inj_onD)
      with u show ?thesis by blast
    qed
    then have "other_admin i st" using dist by (simp add: other_admin_def has_row_iff)
    then have "other_admin i s1" unfolding s1_def by (auto split: option.splits intro!: other_admin_update)
    then have "other_admin i s2" unfolding s2_def by (auto intro!: other_admin_update)
    then have "other_admin i s3" unfolding s3_def by (auto intro!: other_admin_update)
    with goal other_admin_administrated show ?thesis by blast
  qed
qed

lemma administrated_profile:
  assumes "UpdateUserProfile now i d e st = Inr (u, st')" "administrated st"
  shows "administrated st'"
proof -
  have "administrated (update_user i (\<lambda>u. u\<lparr>u_display_name := TrimSpace d, u_email := ToLower (TrimSpace e), u_updated_at := now\<rparr>) st)"
    using assms(2) by (rule administrated_update) (auto simp: active_admin_def)
  then show ?thesis using assms by (auto simp: UpdateUserProfile_def Let_def split: if_splits)
qed

lemma administrated_password: "administrated st \<Longrightarrow> administrated (UpdateOwnPassword now i h c st)"
proof -
  assume "administrated st"
  then have "administrated (update_user i (\<lambda>u. u\<lparr>u_password_hash := h, u_updated_at := now\<rparr>) st)"
    by (rule administrated_update) (auto simp: active_admin_def)
  then show ?thesis by (subst administrated_users) (auto simp: UpdateOwnPassword_def Let_def)
qed

lemma administrated_reset: "administrated st \<Longrightarrow> administrated (snd (ResetPassword E now t h st))"
proof (cases "token_user E now t (password_reset_tokens st) st")
  case (Some u)
  assume a: "administrated st"
  let ?us = "upd_where (\<lambda>v. u_id v = u_id u \<and> \<not> u_disabled v) (\<lambda>v. v\<lparr>u_password_hash := h, u_updated_at := now\<rparr>) (users (base st))"
  obtain v where v: "v \<in> set (users (base st))" "active_admin v" using a by (auto simp: administrated_def has_row_iff)
  let ?v = "if u_id v = u_id u \<and> \<not> u_disabled v then v\<lparr>u_password_hash := h, u_updated_at := now\<rparr> else v"
  have "?v \<in> set ?us" using v(1) unfolding set_upd_where by blast
  moreover have "active_admin ?v" using v(2) by (simp add: active_admin_def)
  ultimately have "\<exists>w \<in> set ?us. active_admin w" by blast
  moreover have "map u_id ?us = map u_id (users (base st))" by (rule map_upd_where) simp
  ultimately show ?thesis using a Some by (simp add: ResetPassword_def Let_def administrated_def has_row_iff)
qed (simp add: ResetPassword_def)

section \<open>Every operation keeps an administrator\<close>

text \<open>
  The operations on accounts, and whatever another component does, none of which writes \<open>users\<close>.
\<close>

inductive account_step :: "env \<Rightarrow> accounts \<Rightarrow> accounts \<Rightarrow> bool" for E where
  bootstrap: "account_step E st (snd (EnsureBootstrapUser E now n h st))"
| create: "CreateUser E now n d e h r st = Inr (u, st') \<Longrightarrow> account_step E st st'"
| security: "UpdateUserSecurity now i disabled h r st = Inr (u, st') \<Longrightarrow> account_step E st st'"
| profile: "UpdateUserProfile now i d e st = Inr (u, st') \<Longrightarrow> account_step E st st'"
| password: "account_step E st (UpdateOwnPassword now i h c st)"
| reset: "account_step E st (snd (ResetPassword E now t h st))"
| session: "CreateOperatorSession now t i x st = Inr st' \<Longrightarrow> account_step E st st'"
| logout: "account_step E st (RevokeOperatorSession t st)"
| logout_all: "account_step E st (RevokeUserSessions i st)"
| request_reset: "CreatePasswordReset now i t x st = Inr st' \<Longrightarrow> account_step E st st'"
| grant: "CreateEnrollmentGrant E now i l t x st = Inr (g, st') \<Longrightarrow> account_step E st st'"
| purge: "account_step E st (PurgeExpiredSecurityData E now st)"
| other: "users (base st') = users (base st) \<Longrightarrow> account_step E st st'"

lemma administrated_unchanged:
  "administrated (RevokeOperatorSession t st) \<longleftrightarrow> administrated st" "administrated (RevokeUserSessions i st) \<longleftrightarrow> administrated st"
  "administrated (PurgeExpiredSecurityData E now st) \<longleftrightarrow> administrated st"
  by (simp_all add: RevokeOperatorSession_def RevokeUserSessions_def PurgeExpiredSecurityData_def Let_def administrated_def)

lemma account_step_keeps: "account_step E st st' \<Longrightarrow> administrated st \<Longrightarrow> administrated st'"
proof (induction rule: account_step.induct)
  case (session now t i x st st')
  then have "users (base st') = users (base st)" by (auto simp: CreateOperatorSession_def bindE_eq_Inr)
  then show ?case using session(2) administrated_users by blast
next
  case (request_reset now i t x st st')
  then have "users (base st') = users (base st)" by (auto simp: CreatePasswordReset_def bindE_eq_Inr)
  then show ?case using request_reset(2) administrated_users by blast
next
  case (grant now i l t x st g st')
  then have "users (base st') = users (base st)"
    by (auto simp: CreateEnrollmentGrant_def Let_def split_def bindE_eq_Inr split: if_splits)
  then show ?case using grant(2) administrated_users by blast
next
  case (other st' st)
  then show ?case using administrated_users by blast
qed (auto intro: administrated_bootstrap administrated_password administrated_reset administrated_create administrated_security
      administrated_profile simp: administrated_unchanged)

text \<open>
  C7. The server can always be administrated: once there is an active administrator, one remains after any
  sequence of operations, whoever disables, demotes or edits accounts, changes passwords or resets them.
\<close>

theorem administrator_remains:
  assumes "administrated st" and "(account_step E)\<^sup>*\<^sup>* st st'"
  shows "\<exists>u \<in> set (users (base st')). u_role u = ''admin'' \<and> \<not> u_disabled u"
proof -
  from assms(2,1) have "administrated st'" by (induction) (auto dest: account_step_keeps)
  then show ?thesis by (auto simp: administrated_def has_row_iff active_admin_def)
qed

text \<open>The store after the first start with one administrator, who tries to demote himself.\<close>

definition sample_admin :: user where
  "sample_admin = \<lparr>u_id = ''usr_1'', u_username = ''root'', u_display_name = [], u_email = ''root@rmm.test'', u_password_hash = ''h'',
     u_role = ''admin'', u_disabled = False, u_created_at = 0, u_updated_at = 0\<rparr>"

definition sample_accounts :: accounts where
  "sample_accounts = \<lparr>base = (empty_store sample_key)\<lparr>users := [sample_admin]\<rparr>,
     operator_sessions = [\<lparr>ut_token_hash = ''s1'', ut_user_id = ''usr_1'', ut_expires_at = 3600 * second, ut_created_at = 0\<rparr>],
     password_reset_tokens = [\<lparr>ut_token_hash = ''p1'', ut_user_id = ''usr_1'', ut_expires_at = 3600 * second, ut_created_at = 0\<rparr>],
     enrollment_grants = [\<lparr>eg_id = ''eng_1'', eg_token_hash = ''g1'', eg_user_id = ''usr_1'', eg_dns_label = ''office'',
       eg_expires_at = 3600 * second, eg_used_at = None, eg_created_at = 0\<rparr>],
     device_dns_records = [], dns_address_history = [], lan_clients = [], security_metadata = []\<rparr>"

lemma sample_administrated: "administrated sample_accounts"
  by (simp add: administrated_def sample_accounts_def sample_admin_def active_admin_def has_row_iff)

theorem administrator_remains_witness:
  "\<exists>u \<in> set (users (base (snd (ResetPassword sample_env second ''p1'' ''new'' sample_accounts)))). u_role u = ''admin'' \<and> \<not> u_disabled u"
proof -
  have "account_step sample_env sample_accounts (snd (ResetPassword sample_env second ''p1'' ''new'' sample_accounts))"
    by (rule account_step.reset)
  then have "(account_step sample_env)\<^sup>*\<^sup>* sample_accounts (snd (ResetPassword sample_env second ''p1'' ''new'' sample_accounts))"
    by (rule r_into_rtranclp)
  then show ?thesis by (rule administrator_remains [OF sample_administrated])
qed

text \<open>The last active administrator can be neither disabled nor demoted, by nobody.\<close>

lemma last_admin_stays:
  assumes "find_row (\<lambda>u. u_id u = i) (users (base st)) = Some c" "active_admin c" "count_where active_admin (users (base st)) = 1"
    and "disabled = Some True \<or> ToLower (TrimSpace role) = ''user''"
  shows "\<exists>m. UpdateUserSecurity now i disabled h role st = Inl (ErrMsg m)"
  using assms by (auto simp: UpdateUserSecurity_def Let_def)

section \<open>A changed password ends the sessions\<close>

lemma token_user_Some:
  assumes "token_user E now h ts st = Some u"
  shows "u \<in> set (users (base st)) \<and> \<not> u_disabled u \<and>
    (\<exists>t \<in> set ts. ut_token_hash t = h \<and> ut_user_id t = u_id u \<and> julianday E (ut_expires_at t) > julianday E now)"
  using assms by (auto simp: token_user_def split: option.splits if_splits dest!: find_row_Some)

text \<open>
  C11. A password reset takes a token that has not expired and belongs to an active account; it sets the
  password of exactly that account, and from then on no session of the account and no reset token of it is
  accepted: whoever held the old password is out, and the token cannot be used again. Without such a token
  nothing changes.
\<close>

theorem ResetPassword_revokes:
  assumes "ResetPassword E now tokenHash passwordHash st = (ok, st')"
    and "distinct (map u_id (users (base st)))"
  shows "if ok then
      \<exists>u. token_user E now tokenHash (password_reset_tokens st) st = Some u \<and>
        users (base st') = upd_where (\<lambda>v. u_id v = u_id u) (\<lambda>v. v\<lparr>u_password_hash := passwordHash, u_updated_at := now\<rparr>) (users (base st)) \<and>
        (\<forall>s later v. AuthorizeOperatorSession E later s st' = Some v \<longrightarrow> u_id v \<noteq> u_id u) \<and>
        (\<forall>t later v. token_user E later t (password_reset_tokens st') st' = Some v \<longrightarrow> u_id v \<noteq> u_id u)
    else st' = st"
proof (cases "token_user E now tokenHash (password_reset_tokens st) st")
  case None
  then show ?thesis using assms(1) by (auto simp: ResetPassword_def)
next
  case (Some u)
  have u: "u \<in> set (users (base st))" "\<not> u_disabled u"
    using token_user_Some [OF Some] by auto
  have same: "v = u" if "v \<in> set (users (base st))" "u_id v = u_id u" for v
    using that u assms(2) by (metis (no_types, lifting) distinct_map inj_onD)
  have upd: "upd_where (\<lambda>v. u_id v = u_id u \<and> \<not> u_disabled v) f (users (base st)) = upd_where (\<lambda>v. u_id v = u_id u) f (users (base st))" for f
    unfolding upd_where_def by (rule map_cong) (use same u in auto)
  have st': "ok" "users (base st') = upd_where (\<lambda>v. u_id v = u_id u) (\<lambda>v. v\<lparr>u_password_hash := passwordHash, u_updated_at := now\<rparr>) (users (base st))"
    "operator_sessions st' = del_where (\<lambda>t. ut_user_id t = u_id u) (operator_sessions st)"
    "password_reset_tokens st' = del_where (\<lambda>t. ut_user_id t = u_id u) (password_reset_tokens st)"
    using assms(1) Some by (auto simp: ResetPassword_def Let_def upd)
  have "u_id v \<noteq> u_id u" if "token_user E later h (del_where (\<lambda>t. ut_user_id t = u_id u) ts) st' = Some v" for later h ts v
    using token_user_Some [OF that] by (auto simp: set_del_where)
  with st' Some show ?thesis by (auto simp: AuthorizeOperatorSession_def scanUser_def)
qed

theorem ResetPassword_revokes_witness:
  "fst (ResetPassword sample_env second ''p1'' ''new'' sample_accounts) \<and>
   AuthorizeOperatorSession sample_env second ''s1'' sample_accounts = Some (scanUser sample_admin) \<and>
   AuthorizeOperatorSession sample_env second ''s1'' (snd (ResetPassword sample_env second ''p1'' ''new'' sample_accounts)) = None"
proof -
  let ?r = "ResetPassword sample_env second ''p1'' ''new'' sample_accounts"
  have live: "token_user sample_env second ''p1'' (password_reset_tokens sample_accounts) sample_accounts = Some sample_admin"
    "AuthorizeOperatorSession sample_env second ''s1'' sample_accounts = Some (scanUser sample_admin)"
    by (simp_all add: token_user_def AuthorizeOperatorSession_def sample_accounts_def sample_admin_def sample_env_def crypto.defs)
  then have ok: "fst ?r" by (simp add: ResetPassword_def Let_def)
  have "distinct (map u_id (users (base sample_accounts)))" by (simp add: sample_accounts_def)
  from ResetPassword_revokes [OF prod.collapse [symmetric, of ?r] this] ok live(1)
  have "\<forall>s later v. AuthorizeOperatorSession sample_env later s (snd ?r) = Some v \<longrightarrow> u_id v \<noteq> u_id sample_admin"
    and us: "users (base (snd ?r)) = upd_where (\<lambda>v. u_id v = u_id sample_admin) (\<lambda>v. v\<lparr>u_password_hash := ''new'', u_updated_at := second\<rparr>) (users (base sample_accounts))"
    by auto
  moreover have "u_id v = u_id sample_admin" if a: "AuthorizeOperatorSession sample_env later s (snd ?r) = Some v" for s later v
  proof -
    obtain u where "u \<in> set (users (base (snd ?r)))" "u_id v = u_id u"
      using a token_user_Some by (fastforce simp: AuthorizeOperatorSession_def scanUser_def)
    then show ?thesis unfolding us by (auto simp: sample_accounts_def)
  qed
  ultimately show ?thesis using ok live(2) by (metis not_Some_eq)
qed

text \<open>Changing one's own password ends every other session of the account.\<close>

lemma UpdateOwnPassword_revokes:
  assumes "AuthorizeOperatorSession E later s (UpdateOwnPassword now i h current st) = Some v" "u_id v = i"
  shows "s = current \<and> current \<noteq> []"
  using assms
  by (auto simp: AuthorizeOperatorSession_def token_user_def UpdateOwnPassword_def Let_def scanUser_def set_del_where
      split: option.splits if_splits dest!: find_row_Some)

section \<open>Generated labels\<close>

text \<open>A host label as DNS wants it.\<close>

definition dns_label_ok :: "string \<Rightarrow> bool" where
  "dns_label_ok l \<longleftrightarrow> l \<noteq> [] \<and> length l \<le> 63 \<and> list_all (\<lambda>c. label_char c \<or> c = CHR ''-'') l \<and>
     hd l \<noteq> CHR ''-'' \<and> last l \<noteq> CHR ''-''"

lemma label_loop_ok:
  "length b < 48 \<Longrightarrow> list_all (\<lambda>c. label_char c \<or> c = CHR ''-'') b \<Longrightarrow>
   length (label_loop s b d) \<le> 48 \<and> list_all (\<lambda>c. label_char c \<or> c = CHR ''-'') (label_loop s b d)"
  by (induction s b d rule: label_loop.induct) (auto simp: Let_def)

lemma trim_dashes_ok:
  "length (trim_dashes s) \<le> length s" "set (trim_dashes s) \<subseteq> set s"
  "trim_dashes s \<noteq> [] \<Longrightarrow> hd (trim_dashes s) \<noteq> CHR ''-'' \<and> last (trim_dashes s) \<noteq> CHR ''-''"
proof -
  let ?d = "\<lambda>c. c = CHR ''-''"
  let ?u = "dropWhile ?d s"
  have le: "length (dropWhile ?d x) \<le> length x" for x by (induction x) auto
  show "length (trim_dashes s) \<le> length s" using le [of "rev ?u"] le [of s] by (simp add: trim_dashes_def)
  have "set (trim_dashes s) \<subseteq> set ?u" unfolding trim_dashes_def by (auto dest: set_dropWhileD)
  then show "set (trim_dashes s) \<subseteq> set s" by (auto dest: set_dropWhileD)
  assume ne: "trim_dashes s \<noteq> []"
  then have v: "dropWhile ?d (rev ?u) \<noteq> []" by (simp add: trim_dashes_def)
  have "last (trim_dashes s) = hd (dropWhile ?d (rev ?u))" using v by (simp add: trim_dashes_def last_rev)
  then have l: "last (trim_dashes s) \<noteq> CHR ''-''" using hd_dropWhile [OF v] by metis
  have u: "?u \<noteq> []" using v by (cases ?u) simp_all
  have "rev (takeWhile ?d (rev ?u) @ dropWhile ?d (rev ?u)) = ?u" by (simp del: rev_append)
  then have "trim_dashes s @ rev (takeWhile ?d (rev ?u)) = ?u" by (simp only: trim_dashes_def rev_append)
  then have "hd (trim_dashes s) = hd ?u" using ne by (metis hd_append2)
  then have "hd (trim_dashes s) \<noteq> CHR ''-''" using hd_dropWhile [OF u] by metis
  with l show "hd (trim_dashes s) \<noteq> CHR ''-'' \<and> last (trim_dashes s) \<noteq> CHR ''-''" by (rule conjI [rotated])
qed

lemma trim_dashes_id:
  assumes "s \<noteq> []" "hd s \<noteq> CHR ''-''" "last s \<noteq> CHR ''-''"
  shows "trim_dashes s = s"
proof -
  have "dropWhile (\<lambda>c. c = CHR ''-'') x = x" if "x \<noteq> []" "hd x \<noteq> CHR ''-''" for x using that by (cases x) auto
  with assms show ?thesis by (simp add: trim_dashes_def hd_rev)
qed

lemma hex_label: "list_all label_char (hex_EncodeToString s)"
proof -
  have "label_char (hex_digit k)" if "k < 16" for k
  proof -
    have "hex_digit k \<in> set ''0123456789abcdef''" unfolding hex_digit_def by (rule nth_mem) (use that in simp)
    then show ?thesis by (auto simp: label_char_def digit_char_def)
  qed
  then show ?thesis by (auto simp: hex_EncodeToString_def list_all_iff bytes_of_def less_mult_imp_div_less)
qed

text \<open>
  C0. Whatever host name a router reports, the label generated for it from a device identifier of the server
  is a valid DNS label: not empty, at most 63 letters, digits and inner dashes.
\<close>

theorem generatedDNSLabel_valid:
  assumes "rand_ok E"
  shows "dns_label_ok (generatedDNSLabel hostname (fst (randomID E ''dev'' st)))"
proof -
  let ?hex = "hex_EncodeToString (rand_Read E (draws st) 16)"
  let ?ok = "\<lambda>c. label_char c \<or> c = CHR ''-''"
  define loop where "loop = label_loop (dns_lower (TrimSpace hostname)) [] False"
  define stem where "stem = (if trim_dashes loop = [] then ''router'' else trim_dashes loop)"
  have loop: "length loop \<le> 48" "list_all ?ok loop" using label_loop_ok [of "[]"] by (simp_all add: loop_def)
  have "list_all ?ok (trim_dashes loop)" using loop(2) trim_dashes_ok(2) [of loop] by (auto simp: list_all_iff)
  then have stem: "stem \<noteq> []" "length stem \<le> 48" "list_all ?ok stem" "hd stem \<noteq> CHR ''-''"
    using loop(1) trim_dashes_ok(1,3) [of loop] by (auto simp: stem_def label_char_def)
  have "length ?hex = 32" using assms by (simp add: rand_ok_def hex_EncodeToString_def bytes_of_def length_concat comp_def sum_list_triv)
  then have suffix: "length (take 8 ?hex) = 8" "list_all label_char (take 8 ?hex)" "take 8 ?hex \<noteq> []"
    using hex_label [of "rand_Read E (draws st) 16"] by (auto simp: list_all_iff dest: in_set_takeD)
  then have last: "label_char (last (take 8 ?hex))" by (simp add: list_all_iff del: take_eq_Nil)
  have "\<not> label_char (CHR ''-'')" by code_simp
  with last have dash: "last (take 8 ?hex) \<noteq> CHR ''-''" by metis
  let ?l = "stem @ ''-'' @ take 8 ?hex"
  have "generatedDNSLabel hostname (''dev_'' @ ?hex) = trim_dashes ?l"
  proof -
    have "CutPrefix (''dev_'' @ ?hex) ''dev_'' = Some ?hex" by (simp add: CutPrefix_Some)
    with \<open>length ?hex = 32\<close> show ?thesis
      unfolding generatedDNSLabel_def by (simp only: Let_def option.case stem_def loop_def) simp
  qed
  also have "\<dots> = ?l" using stem suffix dash by (intro trim_dashes_id) auto
  finally have "generatedDNSLabel hostname (fst (randomID E ''dev'' st)) = ?l" by (simp add: randomID_def)
  moreover have "dns_label_ok ?l" using stem suffix dash by (auto simp: dns_label_ok_def list_all_iff)
  ultimately show ?thesis by simp
qed

theorem generatedDNSLabel_valid_witness:
  "dns_label_ok (generatedDNSLabel ''My Router'' (fst (randomID sample_env ''dev'' (empty_store sample_key))))"
  by (rule generatedDNSLabel_valid) (rule sample_env_ok(2))

end
