(* ===== verification/LanClients.thy ===== *)
theory LanClients
  imports Accounts
begin

text \<open>
  The clients seen in the network of a router (\<open>clients.go\<close>): leases, neighbours, wireless stations and probes
  of an inventory are merged by client, stored, and listed with their status.
\<close>

section \<open>Package net\<close>

text \<open>\<open>net.ParseMAC\<close> and \<open>HardwareAddr.String\<close>.\<close>

definition xtoi2 :: "string \<Rightarrow> char \<Rightarrow> nat option" where
  "xtoi2 s e =
     (if length s > 2 \<and> s ! 2 \<noteq> e then None
      else case s of
        a # b # _ \<Rightarrow> (case (hex_value a, hex_value b) of (Some x, Some y) \<Rightarrow> Some (16 * x + y) | _ \<Rightarrow> None)
      | _ \<Rightarrow> None)"

fun mac_groups :: "nat \<Rightarrow> char \<Rightarrow> string \<Rightarrow> nat list option" where
  "mac_groups 0 e s = Some []"
| "mac_groups (Suc n) e s = Option.bind (xtoi2 s e) (\<lambda>b. map_option ((#) b) (mac_groups n e (drop 3 s)))"

fun mac_pairs :: "nat \<Rightarrow> string \<Rightarrow> nat list option" where
  "mac_pairs 0 s = Some []"
| "mac_pairs (Suc n) s =
     Option.bind (xtoi2 (take 2 s) (CHR 0x00)) (\<lambda>a. Option.bind (xtoi2 (drop 2 s) (CHR ''.'')) (\<lambda>b.
       map_option (\<lambda>r. a # b # r) (mac_pairs n (drop 5 s))))"

definition ParseMAC :: "string \<Rightarrow> nat list option" where
  "ParseMAC s =
     (if length s < 14 then None
      else if s ! 2 = CHR '':'' \<or> s ! 2 = CHR ''-'' then
        (let n = (length s + 1) div 3 in
         if (length s + 1) mod 3 \<noteq> 0 \<or> n \<notin> {6, 8, 20} then None else mac_groups n (s ! 2) s)
      else if s ! 4 = CHR ''.'' then
        (let n = 2 * (length s + 1) div 5 in
         if (length s + 1) mod 5 \<noteq> 0 \<or> n \<notin> {6, 8, 20} then None else mac_pairs (n div 2) s)
      else None)"

fun mac_String :: "nat list \<Rightarrow> string" where
  "mac_String [] = []"
| "mac_String [b] = [hex_digit (b div 16), hex_digit (b mod 16)]"
| "mac_String (b # bs) = [hex_digit (b div 16), hex_digit (b mod 16)] @ '':'' @ mac_String bs"

text \<open>
  \<open>net.ParseIP\<close> is a parameter: whether the text is an IPv4 address (\<open>To4\<close> is not nil), and its canonical text.
\<close>

type_synonym parse_ip = "string \<Rightarrow> (bool \<times> string) option"

section \<open>Names\<close>

definition clientKey :: "parse_ip \<Rightarrow> string \<Rightarrow> string \<Rightarrow> string" where
  "clientKey ParseIP mac ip =
     (if mac \<noteq> [] then ''mac:'' @ ToLower mac
      else case ParseIP ip of Some (True, text) \<Rightarrow> ''ip:'' @ text | _ \<Rightarrow> [])"

definition activeNeighborState :: "string \<Rightarrow> bool" where
  "activeNeighborState state \<longleftrightarrow> ToUpper (TrimSpace state) \<in> set [''REACHABLE'', ''DELAY'', ''PROBE'']"

definition wan_name :: "string \<Rightarrow> bool" where
  "wan_name name \<longleftrightarrow> name = ''wan'' \<or> name = ''wan6'' \<or> HasPrefix name ''wan.'' \<or> HasPrefix name ''wan_'' \<or>
     HasPrefix name ''pppoe-wan'' \<or> HasPrefix name ''wwan''"

definition isWANClientInterface :: "string \<Rightarrow> bool" where
  "isWANClientInterface value = wan_name (ToLower (TrimSpace value))"

definition preferredClientIP :: "parse_ip \<Rightarrow> string \<Rightarrow> string \<Rightarrow> string" where
  "preferredClientIP ParseIP current candidate =
     (let current = TrimSpace current; candidate = TrimSpace candidate in
      if current = [] then candidate
      else case (ParseIP current, ParseIP candidate) of
        (Some (False, _), Some (True, text)) \<Rightarrow> text
      | _ \<Rightarrow> current)"

definition normalizeMAC :: "string \<Rightarrow> string" where
  "normalizeMAC value = (case ParseMAC (TrimSpace value) of None \<Rightarrow> [] | Some mac \<Rightarrow> ToLower (mac_String mac))"

definition cleanHostname :: "string \<Rightarrow> string" where
  "cleanHostname value =
     (let value = TrimSpace value in
      if value = ''*'' then [] else if length value > 253 then take 253 value else value)"

section \<open>Merging an inventory\<close>

record clientInventory =
  ci_DHCPLeases :: "(string \<times> string) list list"
  ci_Neighbors :: "(string \<times> string) list list"
  ci_WiFi :: "(string \<times> string) list list"
  ci_Probes :: "(string \<times> string) list list"

definition to_maps :: "(string \<times> string) list list \<Rightarrow> json \<Rightarrow> (string \<times> string) list list option" where
  "to_maps old v = (case v of JArr vs \<Rightarrow> all_some (map to_string_map vs) | JNull \<Rightarrow> Some [] | _ \<Rightarrow> None)"

definition decode_clients :: "RawMessage \<Rightarrow> clientInventory option" where
  "decode_clients raw =
     Option.bind (json_unmarshal raw) (\<lambda>j.
     Option.bind (decode_field to_maps ''dhcp_leases'' [] j) (\<lambda>leases.
     Option.bind (decode_field to_maps ''neighbors'' [] j) (\<lambda>neighbors.
     Option.bind (decode_field to_maps ''wifi_clients'' [] j) (\<lambda>wifi.
     Option.bind (decode_field to_maps ''client_probes'' [] j) (\<lambda>probes.
       Some \<lparr>ci_DHCPLeases = leases, ci_Neighbors = neighbors, ci_WiFi = wifi, ci_Probes = probes\<rparr>)))))"

record observed =
  ob_key :: string
  ob_mac :: string
  ob_ip :: string
  ob_hostname :: string
  ob_iface :: string
  ob_connection :: string
  ob_confirmation :: string
  ob_confirmed :: bool

definition new_observed :: "string \<Rightarrow> string \<Rightarrow> string \<Rightarrow> observed" where
  "new_observed key mac ip =
     \<lparr>ob_key = key, ob_mac = mac, ob_ip = ip, ob_hostname = [], ob_iface = [], ob_connection = [], ob_confirmation = [], ob_confirmed = False\<rparr>"

text \<open>The map \<open>byKey\<close> as the list of its values, in the order the keys came in.\<close>

definition put_observed :: "observed \<Rightarrow> observed list \<Rightarrow> observed list" where
  "put_observed item = upsert_row ob_key (\<lambda>old new. new) item"

definition observe_lease :: "parse_ip \<Rightarrow> (string \<times> string) list \<Rightarrow> observed list \<Rightarrow> observed list" where
  "observe_lease ParseIP lease byKey =
     (let mac = normalizeMAC (map_get lease ''mac''); ip = TrimSpace (map_get lease ''ip''); key = clientKey ParseIP mac ip in
      if key = [] then byKey
      else put_observed ((new_observed key mac ip)\<lparr>ob_hostname := cleanHostname (map_get lease ''hostname''),
             ob_connection := ''dhcp'', ob_confirmation := ''lease''\<rparr>) byKey)"

definition observe_neighbor :: "parse_ip \<Rightarrow> (string \<times> string) list \<Rightarrow> observed list \<Rightarrow> observed list" where
  "observe_neighbor ParseIP neighbor byKey =
     (let iface = TrimSpace (map_get neighbor ''interface'') in
      if isWANClientInterface iface then byKey
      else let mac = normalizeMAC (map_get neighbor ''mac''); ip = TrimSpace (map_get neighbor ''ip''); key = clientKey ParseIP mac ip in
        if key = [] then byKey
        else let state = ToUpper (TrimSpace (map_get neighbor ''state''));
                 found = find_row (\<lambda>x. ob_key x = key) byKey in
          if found = None \<and> (mac = [] \<or> \<not> activeNeighborState state) then byKey
          else let item = (case found of Some x \<Rightarrow> x | None \<Rightarrow> new_observed key mac ip);
                   item = item\<lparr>ob_ip := preferredClientIP ParseIP (ob_ip item) ip, ob_iface := iface\<rparr>;
                   item = (if activeNeighborState state
                           then item\<lparr>ob_confirmed := True, ob_confirmation := ''neighbor:'' @ ToLower state, ob_connection := ''wired''\<rparr>
                           else item)
            in put_observed item byKey)"

definition observe_station :: "parse_ip \<Rightarrow> (string \<times> string) list \<Rightarrow> observed list \<Rightarrow> observed list" where
  "observe_station ParseIP station byKey =
     (let mac = normalizeMAC (map_get station ''mac''); key = clientKey ParseIP mac [] in
      if key = [] then byKey
      else let item = (case find_row (\<lambda>x. ob_key x = key) byKey of Some x \<Rightarrow> x | None \<Rightarrow> new_observed key mac [])
        in put_observed (item\<lparr>ob_iface := TrimSpace (map_get station ''interface''), ob_connection := ''wifi'',
             ob_confirmation := ''wifi'', ob_confirmed := True\<rparr>) byKey)"

definition observe_probe :: "parse_ip \<Rightarrow> (string \<times> string) list \<Rightarrow> observed list \<Rightarrow> observed list" where
  "observe_probe ParseIP probe byKey =
     (if ToLower (map_get probe ''reachable'') \<noteq> ''true'' then byKey
      else let mac = normalizeMAC (map_get probe ''mac''); ip = TrimSpace (map_get probe ''ip''); key = clientKey ParseIP mac ip in
        if key = [] then byKey
        else let item = (case find_row (\<lambda>x. ob_key x = key) byKey of Some x \<Rightarrow> x | None \<Rightarrow> new_observed key mac ip);
                 item = item\<lparr>ob_confirmed := True, ob_confirmation := ''active_probe''\<rparr>;
                 item = (if ob_connection item = [] \<or> ob_connection item = ''dhcp'' then item\<lparr>ob_connection := ''wired''\<rparr> else item)
          in put_observed item byKey)"

definition observe :: "parse_ip \<Rightarrow> clientInventory \<Rightarrow> observed list" where
  "observe ParseIP payload =
     fold (observe_probe ParseIP) (ci_Probes payload)
       (fold (observe_station ParseIP) (ci_WiFi payload)
         (fold (observe_neighbor ParseIP) (ci_Neighbors payload)
           (fold (observe_lease ParseIP) (ci_DHCPLeases payload) [])))"

section \<open>Storing\<close>

definition client_row :: "string \<Rightarrow> time \<Rightarrow> observed \<Rightarrow> lan_client" where
  "client_row deviceID now item =
     \<lparr>lc_device_id = deviceID, lc_client_key = ob_key item, lc_mac = ob_mac item, lc_ip = ob_ip item, lc_hostname = ob_hostname item,
      lc_interface = ob_iface item, lc_connection = ob_connection item, lc_confirmation = ob_confirmation item,
      lc_first_seen_at = now, lc_last_seen_at = (if ob_confirmed item then Some now else None), lc_last_checked_at = now\<rparr>"

definition newer :: "string \<Rightarrow> string \<Rightarrow> string" where
  "newer new old = (if new \<noteq> [] then new else old)"

definition merge_client :: "lan_client \<Rightarrow> lan_client \<Rightarrow> lan_client" where
  "merge_client old new =
     old\<lparr>lc_mac := newer (lc_mac new) (lc_mac old), lc_ip := newer (lc_ip new) (lc_ip old),
         lc_hostname := newer (lc_hostname new) (lc_hostname old), lc_interface := newer (lc_interface new) (lc_interface old),
         lc_connection := newer (lc_connection new) (lc_connection old),
         lc_confirmation := newer (lc_confirmation new) (lc_confirmation old),
         lc_last_seen_at := (case lc_last_seen_at new of Some t \<Rightarrow> Some t | None \<Rightarrow> lc_last_seen_at old),
         lc_last_checked_at := lc_last_checked_at new\<rparr>"

text \<open>
  The keys of \<open>byKey\<close> are distinct, so the order in which Go walks the map only decides the order of new rows. A
  device that does not exist violates the foreign key of the first row.
\<close>

definition SyncLANClients ::
  "env \<Rightarrow> parse_ip \<Rightarrow> string \<Rightarrow> RawMessage \<Rightarrow> time \<Rightarrow> accounts \<Rightarrow> unit res \<times> accounts" where
  "SyncLANClients E ParseIP deviceID inventory checkedAt st =
     (case decode_clients inventory of
        None \<Rightarrow> (Inr (), st)
      | Some payload \<Rightarrow>
          let byKey = observe ParseIP payload;
              clients = del_where (\<lambda>c. lc_device_id c = deviceID \<and> wan_name (ToLower (lc_interface c))) (lan_clients st);
              clients = del_where (\<lambda>c. lc_device_id c = deviceID \<and> lc_last_seen_at c = None \<and> lc_confirmation c \<noteq> ''lease'') clients
          in if byKey \<noteq> [] \<and> \<not> has_row (\<lambda>d. d_id d = deviceID) (devices (base st))
             then (Inl (ErrConstraint ''foreign key''), st\<lparr>lan_clients := clients\<rparr>)
             else let
               clients = fold (\<lambda>item. upsert_row (\<lambda>c. (lc_device_id c, lc_client_key c)) merge_client (client_row deviceID checkedAt item))
                 byKey clients;
               cutoff = checkedAt - 24 * hour
             in (Inr (), st\<lparr>lan_clients :=
                   del_where (\<lambda>c. lc_device_id c = deviceID \<and> lc_last_seen_at c = None \<and> \<not> ts_le E cutoff (lc_last_checked_at c)) clients\<rparr>))"

section \<open>Listing\<close>

definition client_status :: "time \<Rightarrow> time \<Rightarrow> lan_client \<Rightarrow> string" where
  "client_status now recentFor c =
     (case lc_last_seen_at c of
        None \<Rightarrow> ''unconfirmed''
      | Some t \<Rightarrow> if now - t \<le> 2 * minute then ''online'' else if now - t \<le> recentFor then ''recent'' else ''unconfirmed'')"

definition client_le :: "env \<Rightarrow> lan_client \<Rightarrow> lan_client \<Rightarrow> bool" where
  "client_le E x y =
     (case (lc_last_seen_at x, lc_last_seen_at y) of
        (Some _, None) \<Rightarrow> True
      | (None, Some _) \<Rightarrow> False
      | (Some s, Some t) \<Rightarrow>
          if \<not> ts_le E s t then True else if \<not> ts_le E t s then False
          else (lc_hostname x, lc_ip x) = (lc_hostname y, lc_ip y) \<or> lc_hostname x < lc_hostname y \<or>
               (lc_hostname x = lc_hostname y \<and> lc_ip x \<le> lc_ip y)
      | (None, None) \<Rightarrow> lc_hostname x < lc_hostname y \<or> (lc_hostname x = lc_hostname y \<and> lc_ip x \<le> lc_ip y))"

definition ListLANClients :: "env \<Rightarrow> time \<Rightarrow> string \<Rightarrow> time \<Rightarrow> accounts \<Rightarrow> (lan_client \<times> string) list option" where
  "ListLANClients E now deviceID recentFor st =
     (if \<not> has_row (\<lambda>d. d_id d = deviceID) (devices (base st)) then None
      else Some (map (\<lambda>c. (c, client_status now recentFor c))
             (order_by (client_le E) (filter (\<lambda>c. lc_device_id c = deviceID) (lan_clients st)))))"

section \<open>Lemmas\<close>

text \<open>
  What was observed but not confirmed comes from a lease: a failed or stale neighbour never makes a client.
\<close>

definition leased :: "observed \<Rightarrow> bool" where
  "leased item \<longleftrightarrow> ob_confirmed item \<or> ob_confirmation item = ''lease''"

lemma put_leased: "list_all leased byKey \<Longrightarrow> leased item \<Longrightarrow> list_all leased (put_observed item byKey)"
  by (auto simp: put_observed_def upsert_row_def list_all_iff set_upd_where)

lemma found_leased: "list_all leased byKey \<Longrightarrow> find_row p byKey = Some item \<Longrightarrow> leased item"
  by (auto simp: list_all_iff dest: find_row_Some)

lemma lease_leased: "list_all leased byKey \<Longrightarrow> list_all leased (observe_lease ParseIP l byKey)"
  by (auto simp: observe_lease_def Let_def leased_def intro: put_leased)

lemma neighbor_leased:
  assumes "list_all leased byKey"
  shows "list_all leased (observe_neighbor ParseIP l byKey)"
  using assms found_leased [OF assms]
  by (auto simp: observe_neighbor_def Let_def leased_def split: option.splits intro!: put_leased)

lemma station_leased: "list_all leased byKey \<Longrightarrow> list_all leased (observe_station ParseIP l byKey)"
  by (auto simp: observe_station_def Let_def leased_def intro!: put_leased)

lemma probe_leased: "list_all leased byKey \<Longrightarrow> list_all leased (observe_probe ParseIP l byKey)"
  by (auto simp: observe_probe_def Let_def leased_def intro!: put_leased)

lemma observe_leased: "list_all leased (observe ParseIP payload)"
proof -
  have fold: "list_all leased (fold f xs ys)" if "list_all leased ys" "\<And>l zs. list_all leased zs \<Longrightarrow> list_all leased (f l zs)" for f xs ys
    using that by (induction xs arbitrary: ys) auto
  show ?thesis unfolding observe_def
    by (intro fold) (simp_all add: lease_leased neighbor_leased station_leased probe_leased)
qed

end
