(* ===== verification/FieldCrypto.thy ===== *)
theory FieldCrypto
  imports Db
begin

text \<open>
  Encryption of sensitive columns (\<open>internal/fieldcrypto/fieldcrypto.go\<close>) over AES-GCM, which is a parameter: texts with
  a prefix that marks them as encrypted, so that encrypting again changes nothing, and byte strings. The key file is
  input and output and left out.
\<close>

section \<open>Ciphers\<close>

text \<open>\<open>cipher.AEAD\<close>: nonce, text and context; \<open>Open\<close> fails when the text was not sealed under them.\<close>

record aead =
  ae_Seal :: "string \<Rightarrow> string \<Rightarrow> string \<Rightarrow> string"
  ae_Open :: "string \<Rightarrow> string \<Rightarrow> string \<Rightarrow> string option"

abbreviation NonceSize :: nat where "NonceSize \<equiv> 12"

text \<open>Documented behaviour: what was sealed opens under the same nonce and context.\<close>

definition aead_ok :: "aead \<Rightarrow> bool" where
  "aead_ok a \<longleftrightarrow> (\<forall>n p x. length n = NonceSize \<longrightarrow> ae_Open a n (ae_Seal a n p x) x = Some p)"

record Cipher =
  cf_aead :: aead
  cf_keyID :: string

text \<open>\<open>gcm\<close> is \<open>cipher.NewGCM\<close> of the AES cipher of a key.\<close>

definition NewCipher :: "'a crypto_scheme \<Rightarrow> (string \<Rightarrow> aead) \<Rightarrow> string \<Rightarrow> Cipher res" where
  "NewCipher C gcm key =
     (if length key \<noteq> 32 then Inl (ErrMsg ''data encryption key must be 32 bytes'')
      else Inr \<lparr>cf_aead = gcm key, cf_keyID = hex_EncodeToString (take 8 (sha256_Sum C key))\<rparr>)"

definition enc_prefix :: string where
  "enc_prefix = ''enc:v1:''"

definition IsEncrypted :: "string \<Rightarrow> bool" where
  "IsEncrypted value = HasPrefix (TrimSpace value) enc_prefix"

section \<open>Byte strings\<close>

text \<open>The nonce is the argument; it is drawn at random.\<close>

definition EncryptBytesWithContext :: "Cipher \<Rightarrow> string \<Rightarrow> string \<Rightarrow> string \<Rightarrow> string" where
  "EncryptBytesWithContext c nonce context value = nonce @ ae_Seal (cf_aead c) nonce value context"

definition DecryptBytesWithContext :: "Cipher \<Rightarrow> string \<Rightarrow> string \<Rightarrow> string res" where
  "DecryptBytesWithContext c context value =
     (if length value < NonceSize then Inl (ErrMsg ''encrypted data is malformed'')
      else case ae_Open (cf_aead c) (take NonceSize value) (drop NonceSize value) context of
        None \<Rightarrow> Inl (ErrMsg ''encrypted data authentication failed'')
      | Some plain \<Rightarrow> Inr plain)"

section \<open>Texts\<close>

definition DecryptWithContext :: "Cipher \<Rightarrow> string \<Rightarrow> string \<Rightarrow> string res" where
  "DecryptWithContext c context value =
     (if value = [] \<or> \<not> IsEncrypted value then Inr value
      else case b64_DecodeString url_alphabet (case CutPrefix (TrimSpace value) enc_prefix of Some r \<Rightarrow> r | None \<Rightarrow> TrimSpace value) of
        None \<Rightarrow> Inl (ErrMsg ''encrypted field is malformed'')
      | Some raw \<Rightarrow>
          if length raw < NonceSize then Inl (ErrMsg ''encrypted field is malformed'')
          else case ae_Open (cf_aead c) (take NonceSize raw) (drop NonceSize raw) context of
            None \<Rightarrow> Inl (ErrMsg ''encrypted field authentication failed'')
          | Some plain \<Rightarrow> Inr plain)"

definition EncryptWithContext :: "Cipher \<Rightarrow> string \<Rightarrow> string \<Rightarrow> string \<Rightarrow> string res" where
  "EncryptWithContext c nonce context value =
     (if value = [] then Inr value
      else if IsEncrypted value then bindE (DecryptWithContext c context value) (\<lambda>_. Inr value)
      else Inr (enc_prefix @ b64_EncodeToString url_alphabet (nonce @ ae_Seal (cf_aead c) nonce value context)))"

section \<open>Lemmas\<close>

lemma DecryptBytes_Encrypt:
  assumes "aead_ok (cf_aead c)" "length nonce = NonceSize"
  shows "DecryptBytesWithContext c context (EncryptBytesWithContext c nonce context value) = Inr value"
  using assms by (simp add: DecryptBytesWithContext_def EncryptBytesWithContext_def aead_ok_def)

lemma encrypted_text:
  "TrimSpace (enc_prefix @ b64_EncodeToString url_alphabet s) = enc_prefix @ b64_EncodeToString url_alphabet s"
proof (rule TrimSpace_plain)
  show "list_all plain_char (enc_prefix @ b64_EncodeToString url_alphabet s)"
    by (simp add: enc_prefix_def raw_url.encode_plain) (simp add: plain_char_def ascii_space_def)
qed

lemma encrypted_is: "IsEncrypted (enc_prefix @ b64_EncodeToString url_alphabet s)"
  by (auto simp: IsEncrypted_def encrypted_text HasPrefix_iff)

text \<open>
  What is encrypted is read back under the same context, is marked, and is left alone by a second encryption, as
  \<open>MigrateSensitiveData\<close> relies on.
\<close>

lemma Encrypt_Decrypt:
  assumes "aead_ok (cf_aead c)" "length nonce = NonceSize" "\<not> IsEncrypted value"
  obtains s where "EncryptWithContext c nonce context value = Inr s" "DecryptWithContext c context s = Inr value"
    "value \<noteq> [] \<longrightarrow> IsEncrypted s" "EncryptWithContext c nonce' context s = Inr s"
proof (cases "value = []")
  case True
  then show ?thesis using that [of "[]"] by (simp add: EncryptWithContext_def DecryptWithContext_def)
next
  case False
  define raw where "raw = nonce @ ae_Seal (cf_aead c) nonce value context"
  define s where "s = enc_prefix @ b64_EncodeToString url_alphabet raw"
  have enc: "EncryptWithContext c nonce context value = Inr s" using False assms(3) by (simp add: EncryptWithContext_def s_def raw_def)
  have ne: "s \<noteq> []" by (simp add: s_def enc_prefix_def)
  have marked: "IsEncrypted s" unfolding s_def by (rule encrypted_is)
  have cut: "CutPrefix (TrimSpace s) enc_prefix = Some (b64_EncodeToString url_alphabet raw)"
    by (simp add: s_def encrypted_text CutPrefix_Some)
  have opens: "ae_Open (cf_aead c) (take NonceSize raw) (drop NonceSize raw) context = Some value" "\<not> length raw < NonceSize"
    using assms(1,2) by (simp_all add: raw_def aead_ok_def)
  have dec: "DecryptWithContext c context s = Inr value"
    using ne marked cut opens by (simp add: DecryptWithContext_def raw_url.decode_encode)
  have "EncryptWithContext c nonce' context s = Inr s" using ne marked dec by (simp add: EncryptWithContext_def)
  with enc dec marked show ?thesis using that by blast
qed

section \<open>Sensitive columns of the store\<close>

text \<open>
  \<open>sensitiveContext\<close>, \<open>encryptSensitive\<close> and \<open>decryptSensitive\<close> of \<open>sqlite.go\<close>. \<open>seal\<close> and \<open>unseal\<close> stand for the
  cipher that is set; \<open>cipher_env\<close> below is the environment of a given one.
\<close>

definition sensitiveContext :: "string \<Rightarrow> string \<Rightarrow> string \<Rightarrow> string" where
  "sensitiveContext recordType recordID field = recordType @ [CHR 0x00] @ recordID @ [CHR 0x00] @ field"

definition decryptSensitive :: "env \<Rightarrow> string \<Rightarrow> string \<Rightarrow> string res" where
  "decryptSensitive E context value =
     (if seal E = None \<or> value = [] \<or> \<not> IsEncrypted value then Inr value
      else case unseal E context value of Some plain \<Rightarrow> Inr plain | None \<Rightarrow> Inl (ErrMsg ''decrypt''))"

definition encryptSensitive :: "env \<Rightarrow> string \<Rightarrow> string \<Rightarrow> string res" where
  "encryptSensitive E context value =
     (case seal E of None \<Rightarrow> Inr value
      | Some f \<Rightarrow> if value = [] then Inr value
          else if IsEncrypted value then bindE (decryptSensitive E context value) (\<lambda>_. Inr value)
          else Inr (f context value))"

text \<open>What the store relies on: a sealed value is marked as encrypted and opens under the same context.\<close>

definition cipher_ok :: "env \<Rightarrow> bool" where
  "cipher_ok E \<longleftrightarrow> (\<forall>f context value. seal E = Some f \<and> value \<noteq> [] \<and> \<not> IsEncrypted value \<longrightarrow>
     IsEncrypted (f context value) \<and> unseal E context (f context value) = Some value)"

lemma IsEncrypted_Nil [simp]: "\<not> IsEncrypted []"
  by (simp add: IsEncrypted_def enc_prefix_def)

lemma encryptSensitive_plain:
  assumes "seal E = Some f" "value \<noteq> []" "\<not> IsEncrypted value"
  shows "encryptSensitive E context value = Inr (f context value)"
  using assms by (simp add: encryptSensitive_def)

lemma decrypt_encryptSensitive:
  assumes "cipher_ok E" "\<not> IsEncrypted value" "encryptSensitive E context value = Inr s"
  shows "decryptSensitive E context s = Inr value"
proof (cases "seal E")
  case None
  with assms(3) show ?thesis by (simp add: encryptSensitive_def decryptSensitive_def)
next
  case (Some f)
  show ?thesis
  proof (cases "value = []")
    case True
    with Some assms(3) show ?thesis by (simp add: encryptSensitive_def decryptSensitive_def)
  next
    case False
    with Some assms(2,3) have s: "s = f context value" by (simp add: encryptSensitive_def)
    with Some False assms(1,2) have "IsEncrypted s" "unseal E context s = Some value" by (auto simp: cipher_ok_def)
    moreover from this have "s \<noteq> []" by auto
    ultimately show ?thesis using Some by (simp add: decryptSensitive_def)
  qed
qed

text \<open>The environment of a cipher, with the nonce of the call; the operations of the store are then those of the cipher.\<close>

definition cipher_env :: "Cipher \<Rightarrow> string \<Rightarrow> env \<Rightarrow> env" where
  "cipher_env c nonce E = E\<lparr>seal := Some (\<lambda>context value. case EncryptWithContext c nonce context value of Inr s \<Rightarrow> s | Inl _ \<Rightarrow> []),
     unseal := (\<lambda>context value. case DecryptWithContext c context value of Inr s \<Rightarrow> Some s | Inl _ \<Rightarrow> None)\<rparr>"

lemma cipher_env_fields:
  "seal (cipher_env c nonce E) = Some (\<lambda>context value. case EncryptWithContext c nonce context value of Inr s \<Rightarrow> s | Inl _ \<Rightarrow> [])"
  "unseal (cipher_env c nonce E) = (\<lambda>context value. case DecryptWithContext c context value of Inr s \<Rightarrow> Some s | Inl _ \<Rightarrow> None)"
  by (simp_all add: cipher_env_def)

lemma decryptSensitive_cipher:
  "map_sum (\<lambda>_. ()) (\<lambda>s. s) (decryptSensitive (cipher_env c nonce E) context value) =
   map_sum (\<lambda>_. ()) (\<lambda>s. s) (DecryptWithContext c context value)"
proof (cases "value = [] \<or> \<not> IsEncrypted value")
  case True
  then show ?thesis by (auto simp: decryptSensitive_def DecryptWithContext_def)
next
  case False
  then show ?thesis
    by (cases "DecryptWithContext c context value") (simp_all add: decryptSensitive_def cipher_env_fields)
qed

lemma encryptSensitive_cipher:
  "map_sum (\<lambda>_. ()) (\<lambda>s. s) (encryptSensitive (cipher_env c nonce E) context value) =
   map_sum (\<lambda>_. ()) (\<lambda>s. s) (EncryptWithContext c nonce context value)"
proof (cases "IsEncrypted value")
  case True
  then have ne: "value \<noteq> []" by auto
  from decryptSensitive_cipher [of c nonce E "context" "value"] True ne show ?thesis
    by (cases "decryptSensitive (cipher_env c nonce E) context value"; cases "DecryptWithContext c context value")
      (simp_all add: encryptSensitive_def EncryptWithContext_def cipher_env_fields)
next
  case False
  then show ?thesis by (simp add: encryptSensitive_def EncryptWithContext_def cipher_env_fields)
qed

theorem field_cipher_ok:
  assumes "aead_ok (cf_aead c)" "length nonce = NonceSize"
  shows "cipher_ok (cipher_env c nonce E)"
  unfolding cipher_ok_def
proof (intro allI impI)
  fix f and ctx "value" :: string
  assume a: "seal (cipher_env c nonce E) = Some f \<and> value \<noteq> [] \<and> \<not> IsEncrypted value"
  then obtain s where s: "EncryptWithContext c nonce ctx value = Inr s" "DecryptWithContext c ctx s = Inr value" "IsEncrypted s"
    using Encrypt_Decrypt [OF assms(1,2), of "value" ctx nonce] by blast
  with a show "IsEncrypted (f ctx value) \<and> unseal (cipher_env c nonce E) ctx (f ctx value) = Some value"
    by (auto simp: cipher_env_fields)
qed

lemma sample_seal:
  "seal sample_env = Some (\<lambda>context value. enc_prefix @ b64_EncodeToString url_alphabet (context @ value))"
  "unseal sample_env = (\<lambda>context value. case CutPrefix value enc_prefix of None \<Rightarrow> None
     | Some text \<Rightarrow> (case b64_DecodeString url_alphabet text of None \<Rightarrow> None | Some raw \<Rightarrow> CutPrefix raw context))"
  by (simp_all add: sample_env_def crypto.defs enc_prefix_def)

lemma sample_cipher_ok: "cipher_ok sample_env"
proof -
  have "CutPrefix (p @ s) p = Some s" for p s by (simp add: CutPrefix_Some)
  then show ?thesis by (simp add: cipher_ok_def sample_seal raw_url.decode_encode encrypted_is)
qed

end
