(* ===== verification/Devices.thy ===== *)
theory Devices
  imports LanClients Rollouts FieldCrypto
begin

text \<open>
  Devices (\<open>sqlite.go\<close>, \<open>security.go\<close>): enrolment with and without a grant, the credential of a device with its
  rotation and revocation, heartbeats, groups and tags, ownership and its transfer, deletion, the keys pinned to the
  database, and the grants and sessions that let a browser reach a device.
\<close>

section \<open>Keys pinned to the database\<close>

definition pinSecurityKey :: "string \<Rightarrow> string \<Rightarrow> accounts \<Rightarrow> unit res \<times> accounts" where
  "pinSecurityKey name keyID st =
     (if TrimSpace name = [] \<or> TrimSpace keyID = [] then (Inl (ErrMsg ''security key metadata is incomplete''), st)
      else let rows = (if map_of (security_metadata st) name = None then security_metadata st @ [(name, keyID)] else security_metadata st);
               st = st\<lparr>security_metadata := rows\<rparr>
        in if map_of rows name \<noteq> Some keyID
           then (Inl (ErrMsg (name @ '' mismatch: restore the key that belongs to this database'')), st)
           else (Inr (), st))"

definition SetCommandSigningKey :: "env \<Rightarrow> string \<Rightarrow> accounts \<Rightarrow> unit res \<times> accounts" where
  "SetCommandSigningKey E privateKey st =
     (if length privateKey \<noteq> PrivateKeySize then (Inl (ErrMsg ''invalid command signing key''), st)
      else case pinSecurityKey ''command_signing_key_id'' (KeyID E (ed_Public E privateKey)) st of
        (Inl e, st) \<Rightarrow> (Inl e, st)
      | (Inr _, st) \<Rightarrow> (Inr (), on_base (\<lambda>b. b\<lparr>signing_key := privateKey\<rparr>) st))"

section \<open>Enrolment\<close>

definition redacted :: "string \<Rightarrow> string" where
  "redacted deviceID = ''redacted:'' @ deviceID"

definition text_or :: "string \<Rightarrow> string \<Rightarrow> string" where
  "text_or fallback value = (let value = TrimSpace value in if value = [] then fallback else value)"

text \<open>The row of \<open>INSERT INTO devices\<close> with the defaults of its other columns.\<close>

definition device_row :: "string \<Rightarrow> string \<Rightarrow> string \<Rightarrow> string \<Rightarrow> string \<Rightarrow> string \<Rightarrow> time \<Rightarrow> device" where
  "device_row deviceID token_hash owner dnsLabel hostname version now =
     \<lparr>d_id = deviceID, d_token = redacted deviceID, d_token_hash = token_hash, d_next_token_hash = [], d_next_token_ciphertext = [],
      d_token_epoch = 1, d_tunnel_public_key = [], d_tunnel_key_fingerprint = [], d_tunnel_key_epoch = 1,
      d_tunnel_credential_updated_at = None, d_owner_user_id = owner, d_dns_label = dnsLabel, d_hostname = hostname,
      d_openwrt_version = version, d_inventory_json = ''{}'', d_metrics_json = ''{}'', d_group_name = [], d_tags = [],
      d_last_seen_at = None, d_created_at = now\<rparr>"

text \<open>The primary key, the unique token and the unique label.\<close>

definition insert_device :: "device \<Rightarrow> accounts \<Rightarrow> accounts res" where
  "insert_device d st =
     (if has_row (\<lambda>x. d_token x = d_token d) (devices (base st)) then Inl (ErrConstraint ''token'')
      else if d_dns_label d \<noteq> [] \<and> has_row (\<lambda>x. d_dns_label x = d_dns_label d) (devices (base st)) then Inl (ErrConstraint ''dns_label'')
      else bindE (insert_row d_id d (devices (base st))) (\<lambda>ds. Inr (on_base (\<lambda>b. b\<lparr>devices := ds\<rparr>) st)))"

text \<open>The device identifier and its token; the epoch is 1.\<close>

definition EnrollDevice :: "env \<Rightarrow> time \<Rightarrow> string \<Rightarrow> string \<Rightarrow> accounts \<Rightarrow> ((string \<times> string) \<times> accounts) res" where
  "EnrollDevice E now hostname openwrtVersion st =
     (let (id, st) = draw E ''dev'' st; (token, st) = draw E ''tok'' st;
          hostname = text_or ''unknown'' hostname; openwrtVersion = text_or ''unknown'' openwrtVersion;
          admins = order_by (\<lambda>x y. ts_le E (u_created_at x) (u_created_at y)) (filter active_admin (users (base st)));
          owner = (case admins of [] \<Rightarrow> [] | u # _ \<Rightarrow> u_id u);
          dnsLabel = (if owner \<noteq> [] then generatedDNSLabel hostname id else [])
      in bindE (insert_device (device_row id (TokenHash E token) owner dnsLabel hostname openwrtVersion now) st)
           (\<lambda>st. Inr ((id, token), st)))"

definition EnrollDeviceWithGrant ::
  "env \<Rightarrow> time \<Rightarrow> string \<Rightarrow> string \<Rightarrow> string \<Rightarrow> accounts \<Rightarrow> ((string \<times> string) option \<times> accounts) res" where
  "EnrollDeviceWithGrant E now tokenHash hostname openwrtVersion st0 =
     (case find_row (\<lambda>g. eg_token_hash g = tokenHash \<and> live_grant E now g) (enrollment_grants st0) of
        None \<Rightarrow> Inr (None, st0)
      | Some g \<Rightarrow>
          if \<not> has_row (\<lambda>u. u_id u = eg_user_id g \<and> \<not> u_disabled u) (users (base st0)) then Inr (None, st0)
          else let (id, st) = draw E ''dev'' st0; (token, st) = draw E ''tok'' st;
                   hostname = text_or ''unknown'' hostname; openwrtVersion = text_or ''unknown'' openwrtVersion;
                   dnsLabel = (if eg_dns_label g = [] then generatedDNSLabel hostname id else eg_dns_label g)
            in if count_where (\<lambda>x. eg_id x = eg_id g \<and> eg_used_at x = None) (enrollment_grants st) \<noteq> 1 then Inr (None, st0)
               else let st = st\<lparr>enrollment_grants :=
                      upd_where (\<lambda>x. eg_id x = eg_id g \<and> eg_used_at x = None) (\<lambda>x. x\<lparr>eg_used_at := Some now\<rparr>) (enrollment_grants st)\<rparr>
                 in bindE (insert_device (device_row id (TokenHash E token) (eg_user_id g) dnsLabel hostname openwrtVersion now) st)
                      (\<lambda>st. Inr (Some (id, token), st)))"

section \<open>The credential of a device\<close>

definition update_devices :: "(device \<Rightarrow> bool) \<Rightarrow> (device \<Rightarrow> device) \<Rightarrow> accounts \<Rightarrow> accounts" where
  "update_devices p f = on_base (\<lambda>b. b\<lparr>devices := upd_where p f (devices b)\<rparr>)"

text \<open>
  The second token replaces the first once it is used. The update fails when another row holds the redacted token.
\<close>

definition AuthorizeDevice :: "env \<Rightarrow> string \<Rightarrow> string \<Rightarrow> accounts \<Rightarrow> (bool \<times> accounts) res" where
  "AuthorizeDevice E deviceID token st =
     (if TrimSpace deviceID = [] \<or> TrimSpace token = [] then Inr (False, st)
      else case find_row (\<lambda>d. d_id d = deviceID) (devices (base st)) of
        None \<Rightarrow> Inr (False, st)
      | Some d \<Rightarrow>
          let presented = TokenHash E token in
          if presented = d_token_hash d \<and> d_token_hash d \<noteq> [] then Inr (True, st)
          else if presented \<noteq> d_next_token_hash d \<or> d_next_token_hash d = [] then Inr (False, st)
          else if has_row (\<lambda>x. d_id x \<noteq> deviceID \<and> d_token x = redacted deviceID) (devices (base st)) then Inl (ErrConstraint ''token'')
          else let rows = (\<lambda>x. d_id x = deviceID \<and> d_next_token_hash x = d_next_token_hash d) in
            Inr (count_where rows (devices (base st)) = 1,
                 update_devices rows (\<lambda>x. x\<lparr>d_token_hash := d_next_token_hash x, d_next_token_hash := [],
                   d_next_token_ciphertext := [], d_token := redacted deviceID\<rparr>) st))"

text \<open>The new epoch, \<open>None\<close> when the device has no credential.\<close>

definition RotateDeviceCredential :: "env \<Rightarrow> string \<Rightarrow> accounts \<Rightarrow> (int option) res \<times> accounts" where
  "RotateDeviceCredential E deviceID st =
     (if seal E = None then (Inl (ErrMsg ''sensitive data encryption is unavailable''), st)
      else let (token, st) = draw E ''tok'' st;
               rows = (\<lambda>d. d_id d = TrimSpace deviceID \<and> d_token_hash d \<noteq> [])
        in case encryptSensitive E (sensitiveContext ''device'' deviceID ''next_token'') token of
          Inl e \<Rightarrow> (Inl e, st)
        | Inr encrypted \<Rightarrow>
           if \<not> has_row rows (devices (base st)) then (Inr None, st)
           else let st = update_devices rows (\<lambda>d. d\<lparr>d_next_token_hash := TokenHash E token, d_next_token_ciphertext := encrypted,
                  d_token_epoch := d_token_epoch d + 1\<rparr>) st
             in case find_row (\<lambda>d. d_id d = deviceID) (devices (base st)) of
                  None \<Rightarrow> (Inl ErrNoRows, st)
                | Some d \<Rightarrow> (Inr (Some (d_token_epoch d)), st))"

definition PendingDeviceCredential :: "env \<Rightarrow> string \<Rightarrow> accounts \<Rightarrow> (string \<times> int) res" where
  "PendingDeviceCredential E deviceID st =
     (case find_row (\<lambda>d. d_id d = deviceID) (devices (base st)) of
        None \<Rightarrow> Inl ErrNoRows
      | Some d \<Rightarrow>
          if d_next_token_ciphertext d = [] then Inr ([], d_token_epoch d)
          else bindE (decryptSensitive E (sensitiveContext ''device'' deviceID ''next_token'') (d_next_token_ciphertext d))
                 (\<lambda>token. Inr (token, d_token_epoch d)))"

definition RevokeDeviceCredential :: "time \<Rightarrow> string \<Rightarrow> accounts \<Rightarrow> bool \<times> accounts" where
  "RevokeDeviceCredential now deviceID st =
     (let rows = (\<lambda>d. d_id d = TrimSpace deviceID) in
      if \<not> has_row rows (devices (base st)) then (False, st)
      else (True, on_base (\<lambda>b. b\<lparr>
          devices := upd_where rows (\<lambda>d. d\<lparr>d_token_hash := [], d_next_token_hash := [], d_next_token_ciphertext := [],
            d_token_epoch := d_token_epoch d + 1, d_tunnel_key_epoch := d_tunnel_key_epoch d + 1,
            d_tunnel_public_key := [], d_tunnel_key_fingerprint := []\<rparr>) (devices b),
          remote_sessions := upd_where (\<lambda>s. rs_device_id s = deviceID \<and> open_status (rs_status s)) (close_session now) (remote_sessions b),
          device_access_grants := del_where (\<lambda>t. at_device_id t = deviceID) (device_access_grants b),
          device_access_sessions := del_where (\<lambda>t. at_device_id t = deviceID) (device_access_sessions b)\<rparr>) st))"

text \<open>
  At every start on SQLite (\<open>Migrate\<close>): a device without a token hash gets the hash of its \<open>token\<close> column. The rows
  are updated one by one; an update fails when another row holds the redacted token.
\<close>

fun migrate_tokens :: "env \<Rightarrow> (string \<times> string) list \<Rightarrow> accounts \<Rightarrow> unit res \<times> accounts" where
  "migrate_tokens E [] st = (Inr (), st)"
| "migrate_tokens E ((deviceID, token) # legacy) st =
     (if has_row (\<lambda>d. d_id d \<noteq> deviceID \<and> d_token d = redacted deviceID) (devices (base st)) then (Inl (ErrConstraint ''token''), st)
      else migrate_tokens E legacy
             (update_devices (\<lambda>d. d_id d = deviceID) (\<lambda>d. d\<lparr>d_token := redacted deviceID, d_token_hash := TokenHash E token\<rparr>) st))"

definition migrateDeviceTokens :: "env \<Rightarrow> accounts \<Rightarrow> unit res \<times> accounts" where
  "migrateDeviceTokens E st =
     migrate_tokens E (map (\<lambda>d. (d_id d, d_token d)) (filter (\<lambda>d. d_token_hash d = []) (devices (base st)))) st"

section \<open>Reading devices\<close>

text \<open>\<open>model.Device\<close>.\<close>

record Device =
  D_ID :: string
  D_OwnerUserID :: string
  D_DNSLabel :: string
  D_Hostname :: string
  D_OpenWrtVersion :: string
  D_LastSeenAt :: "time option"
  D_CreatedAt :: time
  D_Inventory :: RawMessage
  D_Metrics :: RawMessage
  D_Group :: string
  D_Tags :: "string list"
  D_ActiveAlerts :: nat
  D_Online :: bool

definition scanDevice :: "time \<Rightarrow> accounts \<Rightarrow> device \<Rightarrow> Device" where
  "scanDevice now st d =
     \<lparr>D_ID = d_id d, D_OwnerUserID = d_owner_user_id d, D_DNSLabel = d_dns_label d, D_Hostname = d_hostname d,
      D_OpenWrtVersion = d_openwrt_version d, D_LastSeenAt = d_last_seen_at d, D_CreatedAt = d_created_at d,
      D_Inventory = d_inventory_json d, D_Metrics = d_metrics_json d, D_Group = d_group_name d, D_Tags = d_tags d,
      D_ActiveAlerts = count_where (\<lambda>a. a_device_id a = d_id d \<and> a_status a \<in> set [''active'', ''acknowledged'']) (alerts (base st)),
      D_Online = (case d_last_seen_at d of None \<Rightarrow> False | Some t \<Rightarrow> now - t < 2 * minute)\<rparr>"

definition newest_first :: "env \<Rightarrow> device list \<Rightarrow> device list" where
  "newest_first E = order_by (\<lambda>x y. ts_le E (d_created_at y) (d_created_at x))"

definition ListDevices :: "env \<Rightarrow> time \<Rightarrow> accounts \<Rightarrow> Device list" where
  "ListDevices E now st = map (scanDevice now st) (newest_first E (devices (base st)))"

definition GetDevice :: "time \<Rightarrow> string \<Rightarrow> accounts \<Rightarrow> Device option" where
  "GetDevice now deviceID st = map_option (scanDevice now st) (find_row (\<lambda>d. d_id d = deviceID) (devices (base st)))"

definition GetDeviceByDNSLabel :: "time \<Rightarrow> string \<Rightarrow> accounts \<Rightarrow> Device option" where
  "GetDeviceByDNSLabel now dnsLabel st = map_option (scanDevice now st) (find_row (\<lambda>d. d_dns_label d = dnsLabel) (devices (base st)))"

definition ListDevicesForUser :: "env \<Rightarrow> time \<Rightarrow> string \<Rightarrow> bool \<Rightarrow> accounts \<Rightarrow> Device list" where
  "ListDevicesForUser E now userID admin st =
     (if admin then map (scanDevice now st) (newest_first E (devices (base st)))
      else map (scanDevice now st)
             (filter (\<lambda>d. CheckPermission (base st) userID (d_id d) ''view'' = Inr ())
               (newest_first E (filter (\<lambda>d. d_owner_user_id d = userID) (devices (base st))))))"

definition DeviceAccessible :: "string \<Rightarrow> string \<Rightarrow> bool \<Rightarrow> accounts \<Rightarrow> bool" where
  "DeviceAccessible deviceID userID admin st \<longleftrightarrow>
     (if admin then has_row (\<lambda>d. d_id d = deviceID) (devices (base st))
      else has_row (\<lambda>d. d_id d = deviceID \<and> d_owner_user_id d = userID) (devices (base st)) \<and>
           CheckPermission (base st) userID deviceID ''view'' = Inr ())"

section \<open>Heartbeats and metadata\<close>

definition AddMetricSample :: "env \<Rightarrow> string \<Rightarrow> RawMessage \<Rightarrow> RawMessage \<Rightarrow> time \<Rightarrow> accounts \<Rightarrow> unit res \<times> accounts" where
  "AddMetricSample E deviceID inventory metrics createdAt st =
     (let (id, st) = draw E ''met'' st in
      if \<not> has_row (\<lambda>d. d_id d = deviceID) (devices (base st)) then (Inl (ErrConstraint ''foreign key''), st)
      else case insert_row ms_id \<lparr>ms_id = id, ms_device_id = deviceID, ms_inventory_json = inventory, ms_metrics_json = metrics,
                  ms_created_at = createdAt\<rparr> (metric_samples (base st)) of
        Inl e \<Rightarrow> (Inl e, st)
      | Inr ms \<Rightarrow> (Inr (), on_base (\<lambda>b. b\<lparr>metric_samples := ms\<rparr>) st))"

definition ListMetricSamples :: "env \<Rightarrow> string \<Rightarrow> int \<Rightarrow> accounts \<Rightarrow> metric_sample list option" where
  "ListMetricSamples E deviceID limit st =
     (if \<not> has_row (\<lambda>d. d_id d = deviceID) (devices (base st)) then None
      else Some (take (nat (if limit \<le> 0 \<or> limit > 500 then 100 else limit))
             (order_by (\<lambda>x y. ts_le E (ms_created_at y) (ms_created_at x))
               (filter (\<lambda>m. ms_device_id m = deviceID) (metric_samples (base st))))))"

text \<open>At most five commands are claimed; the counter is the room that is left.\<close>

primrec claim_loop :: "env \<Rightarrow> time \<Rightarrow> string \<Rightarrow> nat \<Rightarrow> command list \<Rightarrow> store \<Rightarrow> (command list) res \<times> store" where
  "claim_loop E now deviceID 0 cs st = (Inr cs, st)"
| "claim_loop E now deviceID (Suc n) cs st =
     (case ClaimNextCommand E now deviceID st of
        (Inl e, st) \<Rightarrow> (Inl e, st)
      | (Inr None, st) \<Rightarrow> (Inr cs, st)
      | (Inr (Some c), st) \<Rightarrow> claim_loop E now deviceID n (cs @ [c]) st)"

definition SaveHeartbeat ::
  "env \<Rightarrow> parse_ip \<Rightarrow> time \<Rightarrow> string \<Rightarrow> RawMessage \<Rightarrow> RawMessage \<Rightarrow> accounts \<Rightarrow> (command list) res \<times> accounts" where
  "SaveHeartbeat E ParseIP now deviceID inventory metrics st =
     (let st = on_base (ExpireClaimedCommands E now (2 * minute)) st;
          inventory = NormalizeRawJSON inventory; metrics = NormalizeRawJSON metrics;
          st = update_devices (\<lambda>d. d_id d = deviceID)
                 (\<lambda>d. d\<lparr>d_inventory_json := inventory, d_metrics_json := metrics, d_last_seen_at := Some now\<rparr>) st
      in case AddMetricSample E deviceID inventory metrics now st of
           (Inl e, st) \<Rightarrow> (Inl e, st)
         | (Inr _, st) \<Rightarrow>
             (case SyncLANClients E ParseIP deviceID inventory now st of
                (Inl e, st) \<Rightarrow> (Inl e, st)
              | (Inr _, st) \<Rightarrow>
                  (case confirmAgentPackageOperation E now deviceID inventory (base st) of
                     (Some e, b) \<Rightarrow> (Inl e, st\<lparr>base := b\<rparr>)
                   | (None, b) \<Rightarrow>
                       (case claim_loop E now deviceID 5 [] b of (r, b) \<Rightarrow> (r, st\<lparr>base := b\<rparr>)))))"

fun normalize_tags :: "string list \<Rightarrow> string list \<Rightarrow> string list" where
  "normalize_tags seen [] = []"
| "normalize_tags seen (tag # tags) =
     (let tag = TrimSpace tag in
      if tag = [] \<or> tag \<in> set seen then normalize_tags seen tags else tag # normalize_tags (tag # seen) tags)"

definition normalizeTags :: "string list \<Rightarrow> string list" where
  "normalizeTags tags = normalize_tags [] tags"

definition UpdateDeviceFleet :: "time \<Rightarrow> string \<Rightarrow> string \<Rightarrow> string list \<Rightarrow> accounts \<Rightarrow> Device option \<times> accounts" where
  "UpdateDeviceFleet now deviceID groupName tags st =
     (if \<not> has_row (\<lambda>d. d_id d = deviceID) (devices (base st)) then (None, st)
      else let st = update_devices (\<lambda>d. d_id d = deviceID) (\<lambda>d. d\<lparr>d_group_name := TrimSpace groupName, d_tags := normalizeTags tags\<rparr>) st
        in (GetDevice now deviceID st, st))"

section \<open>Deletion and transfer\<close>

text \<open>
  \<open>DELETE FROM devices\<close> with what the foreign keys delete: on \<open>devices\<close> (backups, rollout devices, notifications, LAN
  clients, operation items, assets, access policies, rule states and events, incidents with their events, incident
  sources) and on \<open>commands\<close> (backups, permissions). An access token of another device on a session of this one would
  violate its foreign key.
\<close>

definition delete_device_rows :: "string \<Rightarrow> store \<Rightarrow> store" where
  "delete_device_rows i b =
     (let gone_commands = (\<lambda>c. has_row (\<lambda>x. c_id x = c \<and> c_device_id x = i) (commands b));
          gone_incidents = (\<lambda>n. has_row (\<lambda>x. i_id x = n \<and> i_device_id x = i) (incidents b))
      in b\<lparr>devices := del_where (\<lambda>d. d_id d = i) (devices b),
           commands := del_where (\<lambda>c. c_device_id c = i) (commands b),
           command_permissions := del_where (\<lambda>p. gone_commands (cp_command_id p)) (command_permissions b),
           device_backups := del_where (\<lambda>x. b_device_id x = i \<or> gone_commands (b_command_id x)) (device_backups b),
           agent_rollout_devices := del_where (\<lambda>x. rd_device_id x = i) (agent_rollout_devices b),
           metric_samples := del_where (\<lambda>x. ms_device_id x = i) (metric_samples b),
           remote_sessions := del_where (\<lambda>x. rs_device_id x = i) (remote_sessions b),
           audit_events := del_where (\<lambda>x. ae_device_id x = i) (audit_events b),
           device_access_grants := del_where (\<lambda>x. at_device_id x = i) (device_access_grants b),
           device_access_sessions := del_where (\<lambda>x. at_device_id x = i) (device_access_sessions b),
           fleet_assets := del_where (\<lambda>x. fa_device_id x = i) (fleet_assets b),
           fleet_operation_items := del_where (\<lambda>x. fi_device_id x = i) (fleet_operation_items b),
           fleet_rule_states := del_where (\<lambda>x. st_device_id x = i) (fleet_rule_states b),
           fleet_rule_events := del_where (\<lambda>x. ev_device_id x = i) (fleet_rule_events b),
           inbox_notifications := del_where (\<lambda>x. in_device_id x = Some i) (inbox_notifications b),
           incident_events := del_where (\<lambda>x. gone_incidents (ie_incident_id x)) (incident_events b),
           incidents := del_where (\<lambda>x. i_device_id x = i) (incidents b),
           incident_sources := del_where (\<lambda>x. is_device_id x = i) (incident_sources b),
           alerts := del_where (\<lambda>x. a_device_id x = i) (alerts b),
           access_policies := del_where (\<lambda>x. ap_device_id x = i) (access_policies b)\<rparr>)"

definition DeleteDevice :: "string \<Rightarrow> accounts \<Rightarrow> (bool \<times> accounts) res" where
  "DeleteDevice device st =
     (let i = TrimSpace device in
      if i = [] \<or> \<not> has_row (\<lambda>d. d_id d = i) (devices (base st)) then Inr (False, st)
      else if has_row (\<lambda>t. at_device_id t \<noteq> i \<and> has_row (\<lambda>s. rs_id s = at_remote_session_id t \<and> rs_device_id s = i) (remote_sessions (base st)))
                (device_access_grants (base st) @ device_access_sessions (base st))
      then Inl (ErrConstraint ''foreign key'')
      else Inr (True, on_base (delete_device_rows i)
             (st\<lparr>dns_address_history := del_where (\<lambda>x. da_device_id x = i) (dns_address_history st),
                 device_dns_records := del_where (\<lambda>x. dr_device_id x = i) (device_dns_records st),
                 lan_clients := del_where (\<lambda>x. lc_device_id x = i) (lan_clients st)\<rparr>)))"

definition transfer_rows :: "time \<Rightarrow> string \<Rightarrow> store \<Rightarrow> store" where
  "transfer_rows now deviceID b =
     b\<lparr>device_access_grants := del_where (\<lambda>t. at_device_id t = deviceID) (device_access_grants b),
       device_access_sessions := del_where (\<lambda>t. at_device_id t = deviceID) (device_access_sessions b),
       commands := upd_where (\<lambda>c. c_device_id c = deviceID \<and> c_status c \<in> set [''queued'', ''claimed''] \<and>
             has_row (\<lambda>s. rs_command_id s = c_id c \<and> rs_device_id s = deviceID) (remote_sessions b))
           (\<lambda>c. c\<lparr>c_status := ''cancelled'', c_cancelled_at := Some now\<rparr>) (commands b),
       remote_sessions := upd_where (\<lambda>s. rs_device_id s = deviceID \<and> open_status (rs_status s)) (close_session now) (remote_sessions b)\<rparr>"

definition TransferDevice ::
  "time \<Rightarrow> string \<Rightarrow> string \<Rightarrow> string \<Rightarrow> bool \<Rightarrow> accounts \<Rightarrow> (Device option \<times> accounts) res" where
  "TransferDevice now deviceID targetUserID requesterUserID admin st =
     (if \<not> has_row (\<lambda>u. u_id u = targetUserID \<and> \<not> u_disabled u) (users (base st)) then Inl (ErrMsg ''target user is unavailable'')
      else let rows = (\<lambda>d. d_id d = deviceID \<and> d_owner_user_id d \<noteq> targetUserID \<and> (admin \<or> d_owner_user_id d = requesterUserID)) in
        if \<not> has_row rows (devices (base st)) then Inr (None, st)
        else let st = update_devices rows (\<lambda>d. d\<lparr>d_owner_user_id := targetUserID, d_tunnel_public_key := [], d_tunnel_key_fingerprint := [],
                   d_tunnel_key_epoch := d_tunnel_key_epoch d + 1, d_tunnel_credential_updated_at := Some now\<rparr>) st;
                 st = on_base (transfer_rows now deviceID) st;
                 st = st\<lparr>dns_address_history := del_where (\<lambda>x. da_device_id x = deviceID) (dns_address_history st),
                         device_dns_records := upd_where (\<lambda>x. dr_device_id x = deviceID)
                           (\<lambda>x. x\<lparr>dr_ipv4 := [], dr_ipv6 := [], dr_enabled := False, dr_last_agent_update_at := None, dr_updated_at := now\<rparr>)
                           (device_dns_records st)\<rparr>
          in Inr (GetDevice now deviceID st, st))"

section \<open>Access from a browser\<close>

record AccessRoute =
  ar_UserID :: string
  ar_DeviceID :: string
  ar_DNSLabel :: string
  ar_RemoteSessionID :: string
  ar_ExpiresAt :: time

text \<open>\<open>INSERT\<close> into one of the two token tables: the primary key and the three foreign keys.\<close>

definition insert_access_token :: "store \<Rightarrow> access_token \<Rightarrow> access_token list \<Rightarrow> (access_token list) res" where
  "insert_access_token b t ts =
     (if \<not> has_row (\<lambda>u. u_id u = at_user_id t) (users b) \<or> \<not> has_row (\<lambda>d. d_id d = at_device_id t) (devices b) \<or>
         \<not> has_row (\<lambda>s. rs_id s = at_remote_session_id t) (remote_sessions b)
      then Inl (ErrConstraint ''foreign key'') else insert_row at_token_hash t ts)"

definition CreateDeviceAccessGrant ::
  "env \<Rightarrow> time \<Rightarrow> string \<Rightarrow> string \<Rightarrow> string \<Rightarrow> string \<Rightarrow> time \<Rightarrow> accounts \<Rightarrow> accounts res" where
  "CreateDeviceAccessGrant E now tokenHash userID deviceID remoteSessionID expiresAt st =
     bindE (enforceFleetAccess now userID deviceID False True expiresAt (base st)) (\<lambda>_.
       if count_where (\<lambda>t. at_user_id t = userID \<and> julianday E (at_expires_at t) > julianday E now) (device_access_grants (base st)) \<ge> 20
       then Inl (ErrMsg ''active device access grant limit reached'')
       else bindE (insert_access_token (base st)
              \<lparr>at_token_hash = tokenHash, at_user_id = userID, at_device_id = deviceID, at_remote_session_id = remoteSessionID,
               at_expires_at = expiresAt, at_created_at = now\<rparr> (device_access_grants (base st)))
         (\<lambda>ts. Inr (on_base (\<lambda>b. b\<lparr>device_access_grants := ts\<rparr>) st)))"

text \<open>
  The join both statements share: a live token, its device under the requested label, its user, not disabled, and its
  remote session on that device, active and not over.
\<close>

definition access_row ::
  "env \<Rightarrow> time \<Rightarrow> string \<Rightarrow> string \<Rightarrow> access_token list \<Rightarrow> store \<Rightarrow> (access_token \<times> device \<times> remote_session) option" where
  "access_row E now tokenHash dnsLabel ts b =
     Option.bind (find_row (\<lambda>t. at_token_hash t = tokenHash \<and> julianday E (at_expires_at t) > julianday E now) ts) (\<lambda>t.
     Option.bind (find_row (\<lambda>d. d_id d = at_device_id t \<and> d_dns_label d = dnsLabel) (devices b)) (\<lambda>d.
     Option.bind (find_row (\<lambda>u. u_id u = at_user_id t \<and> \<not> u_disabled u) (users b)) (\<lambda>u.
     Option.bind (find_row (\<lambda>s. rs_id s = at_remote_session_id t \<and> rs_device_id s = at_device_id t \<and>
         rs_status s = ''active'' \<and> julianday E (rs_expires_at s) > julianday E now) (remote_sessions b)) (\<lambda>s. Some (t, d, s)))))"

definition access_route :: "access_token \<Rightarrow> device \<Rightarrow> time \<Rightarrow> AccessRoute" where
  "access_route t d expiresAt =
     \<lparr>ar_UserID = at_user_id t, ar_DeviceID = at_device_id t, ar_DNSLabel = d_dns_label d,
      ar_RemoteSessionID = at_remote_session_id t, ar_ExpiresAt = expiresAt\<rparr>"

definition ConsumeDeviceAccessGrant ::
  "env \<Rightarrow> time \<Rightarrow> string \<Rightarrow> string \<Rightarrow> string \<Rightarrow> time \<Rightarrow> accounts \<Rightarrow> (AccessRoute option \<times> accounts) res" where
  "ConsumeDeviceAccessGrant E now grantHash sessionHash dnsLabel sessionExpiresAt st =
     (case access_row E now grantHash dnsLabel (device_access_grants (base st)) (base st) of
        None \<Rightarrow> Inr (None, st)
      | Some (t, d, s) \<Rightarrow>
          bindE (fleetPrincipal (base st) (at_user_id t)) (\<lambda>admin.
          case permissionAllowed (base st) (at_user_id t) (at_device_id t) ''remote'' admin of
            Inl ErrFleetAccess \<Rightarrow> Inr (None, st)
          | Inl e \<Rightarrow> Inl e
          | Inr _ \<Rightarrow>
              let expires = (if sessionExpiresAt > rs_expires_at s then rs_expires_at s else sessionExpiresAt);
                  rows = (\<lambda>g. at_token_hash g = grantHash) in
              if count_where rows (device_access_grants (base st)) \<noteq> 1 then Inr (None, st)
              else let st = on_base (\<lambda>b. b\<lparr>device_access_grants := del_where rows (device_access_grants b)\<rparr>) st
                in bindE (insert_access_token (base st) (t\<lparr>at_token_hash := sessionHash, at_expires_at := expires, at_created_at := now\<rparr>)
                            (device_access_sessions (base st)))
                     (\<lambda>ts. Inr (Some (access_route t d expires), on_base (\<lambda>b. b\<lparr>device_access_sessions := ts\<rparr>) st))))"

definition AuthorizeDeviceAccessSession :: "env \<Rightarrow> time \<Rightarrow> string \<Rightarrow> string \<Rightarrow> accounts \<Rightarrow> (AccessRoute option) res" where
  "AuthorizeDeviceAccessSession E now sessionHash dnsLabel st =
     (case access_row E now sessionHash dnsLabel (device_access_sessions (base st)) (base st) of
        None \<Rightarrow> Inr None
      | Some (t, d, s) \<Rightarrow>
          (case CheckPermission (base st) (at_user_id t) (at_device_id t) ''remote'' of
             Inl ErrFleetAccess \<Rightarrow> Inr None
           | Inl e \<Rightarrow> Inl e
           | Inr _ \<Rightarrow> Inr (Some (access_route t d (at_expires_at t)))))"

section \<open>Lemmas\<close>

lemma device_of_id:
  assumes "distinct (map d_id ds)" "d \<in> set ds"
  shows "find_row (\<lambda>x. d_id x = d_id d) ds = Some d"
proof (cases "find_row (\<lambda>x. d_id x = d_id d) ds")
  case None
  with assms(2) show ?thesis by (auto simp: find_row_None)
next
  case (Some x)
  then have "x \<in> set ds" "d_id x = d_id d" by (auto dest: find_row_Some)
  with assms have "x = d" by (metis (no_types, lifting) distinct_map inj_onD)
  with Some show ?thesis by simp
qed

lemma find_row_upd_where:
  assumes "find_row p xs = Some x" "\<And>y. p (f y) \<longleftrightarrow> p y"
  shows "find_row p (upd_where q f xs) = Some (if q x then f x else x)"
  using assms(1) by (induction xs) (auto simp: assms(2) split: if_splits)

lemma count_upd_where:
  assumes "\<And>y. p (f y) \<longleftrightarrow> p y"
  shows "count_where p (upd_where q f xs) = count_where p xs"
  by (induction xs) (auto simp: assms)

lemma devices_update [simp]: "devices (base (update_devices p f st)) = upd_where p f (devices (base st))"
  by (simp add: update_devices_def)

lemma draw_devices [simp]: "devices (base (snd (draw E p st))) = devices (base st)"
  by (simp add: draw_def randomID_def)

definition new_token :: "env \<Rightarrow> nat \<Rightarrow> string" where
  "new_token E n = ''tok_'' @ hex_EncodeToString (rand_Read E n 16)"

lemma new_token_trim: "TrimSpace (new_token E n) \<noteq> []"
proof -
  have "list_all plain_char (new_token E n)"
    by (simp add: new_token_def hex_plain) (simp add: plain_char_def ascii_space_def)
  then have "TrimSpace (new_token E n) = new_token E n" by (rule TrimSpace_plain)
  then show ?thesis by (simp add: new_token_def)
qed

lemma new_token_nonempty: "new_token E n \<noteq> []"
  by (simp add: new_token_def)

lemma new_token_unmarked: "\<not> IsEncrypted (new_token E n)"
proof -
  have "list_all plain_char (new_token E n)"
    by (simp add: new_token_def hex_plain) (simp add: plain_char_def ascii_space_def)
  then have "TrimSpace (new_token E n) = new_token E n" by (rule TrimSpace_plain)
  then show ?thesis by (simp add: IsEncrypted_def new_token_def enc_prefix_def)
qed

lemma TokenHash_nonempty:
  assumes "sha256_Sum E t \<noteq> []"
  shows "TokenHash E t \<noteq> []"
  using assms by (cases "sha256_Sum E t") (auto simp: TokenHash_def hex_EncodeToString_def bytes_of_def)

text \<open>A device with a credential, addressed by its identifier, whose redacted token no other row holds.\<close>

definition credentialed :: "accounts \<Rightarrow> device \<Rightarrow> bool" where
  "credentialed st d \<longleftrightarrow> find_row (\<lambda>x. d_id x = d_id d) (devices (base st)) = Some d \<and> d_token_hash d \<noteq> [] \<and>
     TrimSpace (d_id d) = d_id d \<and> d_id d \<noteq> [] \<and>
     count_where (\<lambda>x. d_id x = d_id d) (devices (base st)) = 1 \<and>
     list_all (\<lambda>x. d_id x = d_id d \<or> d_token x \<noteq> redacted (d_id d)) (devices (base st))"

text \<open>The row after a rotation.\<close>

definition rotated :: "env \<Rightarrow> string \<Rightarrow> string \<Rightarrow> device \<Rightarrow> device" where
  "rotated E i token d = d\<lparr>d_next_token_hash := TokenHash E token,
     d_next_token_ciphertext := the (seal E) (sensitiveContext ''device'' i ''next_token'') token, d_token_epoch := d_token_epoch d + 1\<rparr>"

lemma rotated_fields [simp]:
  "d_id (rotated E i t d) = d_id d" "d_token (rotated E i t d) = d_token d" "d_token_hash (rotated E i t d) = d_token_hash d"
  "d_next_token_hash (rotated E i t d) = TokenHash E t" "d_token_epoch (rotated E i t d) = d_token_epoch d + 1"
  "d_next_token_ciphertext (rotated E i t d) = the (seal E) (sensitiveContext ''device'' i ''next_token'') t"
  by (simp_all add: rotated_def)

lemma RotateDeviceCredential_row:
  assumes "RotateDeviceCredential E i st = (Inr (Some epoch), st')" "find_row (\<lambda>x. d_id x = i) (devices (base st)) = Some d"
    and "TrimSpace i = i" "d_token_hash d \<noteq> []"
  shows "devices (base st') = upd_where (\<lambda>x. d_id x = i \<and> d_token_hash x \<noteq> []) (rotated E i (new_token E (draws (base st)))) (devices (base st))"
    and "find_row (\<lambda>x. d_id x = i) (devices (base st')) = Some (rotated E i (new_token E (draws (base st))) d)"
    and "epoch = d_token_epoch d + 1" and "\<exists>f. seal E = Some f"
proof -
  let ?f = "rotated E i (new_token E (draws (base st)))"
  have t: "fst (draw E ''tok'' st) = new_token E (draws (base st))" by (simp add: draw_def randomID_def new_token_def)
  have row: "find_row (\<lambda>x. d_id x = i) (upd_where (\<lambda>x. d_id x = i \<and> d_token_hash x \<noteq> []) ?f (devices (base st))) = Some (?f d)"
    using find_row_upd_where [OF assms(2), of ?f "\<lambda>x. d_id x = i \<and> d_token_hash x \<noteq> []"] find_row_Some [OF assms(2)] assms(4) by simp
  have eta: "(\<lambda>x. x\<lparr>d_next_token_hash := TokenHash E token, d_next_token_ciphertext := the (seal E) (sensitiveContext ''device'' i ''next_token'') token,
      d_token_epoch := d_token_epoch x + 1\<rparr>) = rotated E i token" for token by (auto simp: rotated_def fun_eq_iff)
  have has: "has_row (\<lambda>x. d_id x = i \<and> d_token_hash x \<noteq> []) (devices (base st))"
    using find_row_Some [OF assms(2)] assms(4) by (auto simp: has_row_iff)
  have s: "seal E \<noteq> None" using assms(1) by (cases "seal E") (simp_all add: RotateDeviceCredential_def)
  then obtain g where g: "seal E = Some g" by auto
  have enc: "encryptSensitive E (sensitiveContext ''device'' i ''next_token'') (new_token E (draws (base st))) =
      Inr (the (seal E) (sensitiveContext ''device'' i ''next_token'') (new_token E (draws (base st))))"
    using encryptSensitive_plain [OF g new_token_nonempty new_token_unmarked] g by simp
  have "RotateDeviceCredential E i st = (Inr (Some (d_token_epoch (?f d))), update_devices (\<lambda>x. d_id x = i \<and> d_token_hash x \<noteq> []) ?f (snd (draw E ''tok'' st)))"
    using has row s enc by (simp add: RotateDeviceCredential_def Let_def split_def assms(3) eta t)
  with assms(1) row s show "devices (base st') = upd_where (\<lambda>x. d_id x = i \<and> d_token_hash x \<noteq> []) ?f (devices (base st))"
    "find_row (\<lambda>x. d_id x = i) (devices (base st')) = Some (?f d)" "epoch = d_token_epoch d + 1" "\<exists>f. seal E = Some f" by auto
qed

text \<open>Documented behaviour of SHA-256: 32 bytes.\<close>

definition sha256_ok :: "env \<Rightarrow> bool" where
  "sha256_ok E \<longleftrightarrow> (\<forall>s. length (sha256_Sum E s) = 32)"

lemma TokenHash_ok: "sha256_ok E \<Longrightarrow> TokenHash E t \<noteq> []"
  by (rule TokenHash_nonempty) (metis sha256_ok_def list.size(3) zero_neq_numeral)

lemma AuthorizeDevice_current:
  assumes "find_row (\<lambda>x. d_id x = i) (devices (base st)) = Some d" "TrimSpace i \<noteq> []" "TrimSpace t \<noteq> []"
    and "TokenHash E t = d_token_hash d" "d_token_hash d \<noteq> []"
  shows "AuthorizeDevice E i t st = Inr (True, st)"
  using assms by (simp add: AuthorizeDevice_def)

lemma AuthorizeDevice_neither:
  assumes "find_row (\<lambda>x. d_id x = i) (devices (base st)) = Some d"
    and "d_token_hash d = [] \<or> TokenHash E t \<noteq> d_token_hash d" "d_next_token_hash d = [] \<or> TokenHash E t \<noteq> d_next_token_hash d"
  shows "AuthorizeDevice E i t st = Inr (False, st)"
  using assms by (auto simp: AuthorizeDevice_def Let_def)

lemma AuthorizeDevice_next:
  assumes "find_row (\<lambda>x. d_id x = i) (devices (base st)) = Some d" "TrimSpace i \<noteq> []" "TrimSpace t \<noteq> []"
    and "count_where (\<lambda>x. d_id x = i) (devices (base st)) = 1"
    and "list_all (\<lambda>x. d_id x = i \<or> d_token x \<noteq> redacted i) (devices (base st))"
    and "TokenHash E t \<noteq> d_token_hash d" "TokenHash E t = d_next_token_hash d" "d_next_token_hash d \<noteq> []"
  shows "\<exists>st'. AuthorizeDevice E i t st = Inr (True, st') \<and>
    find_row (\<lambda>x. d_id x = i) (devices (base st')) =
      Some (d\<lparr>d_token_hash := d_next_token_hash d, d_next_token_hash := [], d_next_token_ciphertext := [], d_token := redacted i\<rparr>)"
proof -
  let ?rows = "\<lambda>x. d_id x = i \<and> d_next_token_hash x = d_next_token_hash d"
  let ?f = "\<lambda>x. x\<lparr>d_token_hash := d_next_token_hash x, d_next_token_hash := [], d_next_token_ciphertext := [], d_token := redacted i\<rparr>"
  have d: "d \<in> set (devices (base st))" "d_id d = i" using find_row_Some [OF assms(1)] by auto
  have "filter (\<lambda>x. d_id x = i) (devices (base st)) = [d]"
  proof -
    obtain y where "filter (\<lambda>x. d_id x = i) (devices (base st)) = [y]" using assms(4) by (auto simp: count_where_def length_Suc_conv)
    moreover have "d \<in> set (filter (\<lambda>x. d_id x = i) (devices (base st)))" using d by simp
    ultimately show ?thesis by simp
  qed
  moreover have "filter ?rows (devices (base st)) = filter (\<lambda>x. d_next_token_hash x = d_next_token_hash d) (filter (\<lambda>x. d_id x = i) (devices (base st)))"
    by (simp add: filter_filter)
  ultimately have "filter ?rows (devices (base st)) = [d]" by simp
  then have one: "count_where ?rows (devices (base st)) = 1" by (simp add: count_where_def)
  have free: "\<not> has_row (\<lambda>x. d_id x \<noteq> i \<and> d_token x = redacted i) (devices (base st))"
    using assms(5) by (auto simp: has_row_iff list_all_iff)
  have "AuthorizeDevice E i t st = Inr (True, update_devices ?rows ?f st)"
    using assms(1,2,3,6-8) one free by (simp add: AuthorizeDevice_def Let_def)
  moreover have "find_row (\<lambda>x. d_id x = i) (upd_where ?rows ?f (devices (base st))) = Some (?f d)"
    using find_row_upd_where [OF assms(1), of ?f ?rows] d by simp
  ultimately show ?thesis by simp
qed

text \<open>
  C8. Rotating the credential of a device never locks it out: after a rotation the old token still works, the pending
  token the next heartbeat hands out works too, and from its first use on it is the only one.
\<close>

theorem rotation_keeps_access:
  assumes "cipher_ok E" "sha256_ok E" "credentialed st d" "TokenHash E old = d_token_hash d" "TrimSpace old \<noteq> []"
    and "RotateDeviceCredential E (d_id d) st = (Inr (Some epoch), st')"
    and "TokenHash E (new_token E (draws (base st))) \<noteq> d_token_hash d"
  shows "\<exists>new st''. PendingDeviceCredential E (d_id d) st' = Inr (new, epoch) \<and>
    AuthorizeDevice E (d_id d) old st' = Inr (True, st') \<and> AuthorizeDevice E (d_id d) new st' = Inr (True, st'') \<and>
    AuthorizeDevice E (d_id d) new st'' = Inr (True, st'') \<and> AuthorizeDevice E (d_id d) old st'' = Inr (False, st'') \<and>
    PendingDeviceCredential E (d_id d) st'' = Inr ([], epoch)"
proof -
  let ?i = "d_id d"
  let ?new = "new_token E (draws (base st))"
  let ?c = "sensitiveContext ''device'' ?i ''next_token''"
  have c: "find_row (\<lambda>x. d_id x = ?i) (devices (base st)) = Some d" "d_token_hash d \<noteq> []" "TrimSpace ?i = ?i" "?i \<noteq> []"
    "count_where (\<lambda>x. d_id x = ?i) (devices (base st)) = 1" "list_all (\<lambda>x. d_id x = ?i \<or> d_token x \<noteq> redacted ?i) (devices (base st))"
    using assms(3) by (auto simp: credentialed_def)
  note r = RotateDeviceCredential_row [OF assms(6) c(1,3,2)]
  let ?d' = "rotated E ?i ?new d"
  obtain f where f: "seal E = Some f" using r(4) by auto
  have pend: "PendingDeviceCredential E ?i st' = Inr (?new, epoch)"
  proof -
    have "encryptSensitive E ?c ?new = Inr (f ?c ?new)" by (rule encryptSensitive_plain [OF f new_token_nonempty new_token_unmarked])
    then have dec: "decryptSensitive E ?c (f ?c ?new) = Inr ?new" by (rule decrypt_encryptSensitive [OF assms(1) new_token_unmarked])
    have "IsEncrypted (f ?c ?new)" using assms(1) f new_token_nonempty new_token_unmarked unfolding cipher_ok_def by blast
    then have "f ?c ?new \<noteq> []" by auto
    then show ?thesis using r(2,3) f dec by (simp add: PendingDeviceCredential_def)
  qed
  have ids: "count_where (\<lambda>x. d_id x = ?i) (devices (base st')) = 1" "list_all (\<lambda>x. d_id x = ?i \<or> d_token x \<noteq> redacted ?i) (devices (base st'))"
    unfolding r(1) using c(5,6) by (auto simp: count_upd_where list_all_iff set_upd_where)
  have old: "AuthorizeDevice E ?i old st' = Inr (True, st')"
    by (rule AuthorizeDevice_current [OF r(2)]) (use assms(4,5) c(2-4) in simp_all)
  have h: "TokenHash E ?new \<noteq> []" by (rule TokenHash_ok [OF assms(2)])
  have "\<exists>st''. AuthorizeDevice E ?i ?new st' = Inr (True, st'') \<and> find_row (\<lambda>x. d_id x = ?i) (devices (base st'')) =
      Some (?d'\<lparr>d_token_hash := d_next_token_hash ?d', d_next_token_hash := [], d_next_token_ciphertext := [], d_token := redacted ?i\<rparr>)"
    by (rule AuthorizeDevice_next [OF r(2) _ new_token_trim ids]) (use assms(7) h c(3,4) in simp_all)
  then obtain st'' where st'': "AuthorizeDevice E ?i ?new st' = Inr (True, st'')"
    "find_row (\<lambda>x. d_id x = ?i) (devices (base st'')) = Some (?d'\<lparr>d_token_hash := TokenHash E ?new, d_next_token_hash := [], d_next_token_ciphertext := [], d_token := redacted ?i\<rparr>)"
    unfolding rotated_fields by blast
  have "AuthorizeDevice E ?i ?new st'' = Inr (True, st'')"
    by (rule AuthorizeDevice_current [OF st''(2)]) (use c(3,4) new_token_trim h in simp_all)
  moreover have "AuthorizeDevice E ?i old st'' = Inr (False, st'')"
    by (rule AuthorizeDevice_neither [OF st''(2)]) (use assms(4,7) in auto)
  moreover have "PendingDeviceCredential E ?i st'' = Inr ([], epoch)"
    using st''(2) r(3) by (simp add: PendingDeviceCredential_def)
  ultimately show ?thesis using pend old st''(1) by blast
qed

text \<open>
  Two rotations in a row do lock it out: the agent keeps only the token of the first reply, which the second rotation
  overwrites before it was used.
\<close>

lemma second_rotation_locks_out:
  assumes "credentialed st d" "RotateDeviceCredential E (d_id d) st = (Inr (Some e1), st1)" "PendingDeviceCredential E (d_id d) st1 = Inr (token, e1)"
    and "RotateDeviceCredential E (d_id d) st1 = (Inr (Some e2), st2)"
    and "TokenHash E token \<noteq> d_token_hash d" "TokenHash E token \<noteq> TokenHash E (new_token E (draws (base st1)))"
  shows "AuthorizeDevice E (d_id d) token st2 = Inr (False, st2)"
proof -
  have c: "find_row (\<lambda>x. d_id x = d_id d) (devices (base st)) = Some d" "d_token_hash d \<noteq> []" "TrimSpace (d_id d) = d_id d"
    using assms(1) by (auto simp: credentialed_def)
  note r1 = RotateDeviceCredential_row [OF assms(2) c(1,3,2)]
  note r2 = RotateDeviceCredential_row [OF assms(4) r1(2) c(3)]
  show ?thesis
    by (rule AuthorizeDevice_neither [OF r2(2)]) (use c(2) assms(5,6) in auto)
qed

text \<open>Rows as this server writes them: distinct identifiers, and no token in the clear.\<close>

definition tokens_redacted :: "accounts \<Rightarrow> bool" where
  "tokens_redacted st \<longleftrightarrow> distinct (map d_id (devices (base st))) \<and> list_all (\<lambda>d. d_token d = redacted (d_id d)) (devices (base st))"

lemma tokens_redacted_update:
  assumes "tokens_redacted st" "\<And>d. d_id (f d) = d_id d" "\<And>d. d_token d = redacted (d_id d) \<Longrightarrow> d_token (f d) = redacted (d_id d)"
  shows "tokens_redacted (update_devices p f st)"
proof -
  have "map d_id (upd_where p f (devices (base st))) = map d_id (devices (base st))" by (rule map_upd_where) (rule assms(2))
  with assms show ?thesis by (auto simp: tokens_redacted_def list_all_iff set_upd_where)
qed

lemma redacted_inj [simp]: "redacted i = redacted j \<longleftrightarrow> i = j"
  by (simp add: redacted_def)

text \<open>The migration succeeds and gives each device it takes the hash of its redacted token.\<close>

lemma migrate_tokens_hashes:
  "tokens_redacted st \<Longrightarrow> list_all (\<lambda>(i, t). t = redacted i) legacy \<Longrightarrow>
   find_row (\<lambda>x. d_id x = i) (devices (base st)) = Some d \<Longrightarrow>
   \<exists>st'. migrate_tokens E legacy st = (Inr (), st') \<and>
     (\<exists>d'. find_row (\<lambda>x. d_id x = i) (devices (base st')) = Some d' \<and>
       d_token_hash d' = (if i \<in> fst ` set legacy then TokenHash E (redacted i) else d_token_hash d))"
proof (induction legacy arbitrary: st d)
  case (Cons l legacy)
  obtain j t where l: "l = (j, t)" by (cases l)
  with Cons.prems(2) have t: "t = redacted j" by simp
  let ?f = "\<lambda>d. d\<lparr>d_token := redacted j, d_token_hash := TokenHash E t\<rparr>"
  let ?st = "update_devices (\<lambda>d. d_id d = j) ?f st"
  have free: "\<not> has_row (\<lambda>d. d_id d \<noteq> j \<and> d_token d = redacted j) (devices (base st))"
    using Cons.prems(1) by (auto simp: tokens_redacted_def list_all_iff has_row_iff)
  have red: "tokens_redacted ?st"
  proof -
    have "?st = update_devices (\<lambda>d. d_id d = j) (\<lambda>d. d\<lparr>d_token := redacted (d_id d), d_token_hash := TokenHash E t\<rparr>) st"
      by (auto simp: update_devices_def on_base_def upd_where_def intro!: arg_cong [of _ _ "\<lambda>b. st\<lparr>base := b\<rparr>"])
    then show ?thesis using Cons.prems(1) by (simp add: tokens_redacted_update)
  qed
  have row: "find_row (\<lambda>x. d_id x = i) (devices (base ?st)) = Some (if d_id d = j then ?f d else d)"
    using find_row_upd_where [OF Cons.prems(3), of ?f] by simp
  have i: "d_id d = i" using find_row_Some [OF Cons.prems(3)] by simp
  from Cons.IH [OF red _ row] Cons.prems(2) obtain st' d' where s: "migrate_tokens E legacy ?st = (Inr (), st')"
    "find_row (\<lambda>x. d_id x = i) (devices (base st')) = Some d'"
    "d_token_hash d' = (if i \<in> fst ` set legacy then TokenHash E (redacted i) else d_token_hash (if d_id d = j then ?f d else d))" by auto
  then show ?case using free l t i by auto
qed simp

text \<open>
  C9. A revoked credential does not stay revoked on SQLite. After \<open>RevokeDeviceCredential\<close> no token is accepted for
  the device; but the next start of the server (\<open>Migrate\<close>, \<open>migrateDeviceTokens\<close>) takes the empty hash of the
  revoked row for a row that was never hashed, and from then on the public string \<open>redacted:\<close> followed by the device
  identifier is its token.
\<close>

theorem revocation_undone_by_restart:
  assumes "sha256_ok E" "tokens_redacted st" "d \<in> set (devices (base st))" "list_all plain_char (d_id d)" "d_id d \<noteq> []"
    and "RevokeDeviceCredential now (d_id d) st = (revoked, st1)"
  shows "revoked \<and> (\<forall>t. AuthorizeDevice E (d_id d) t st1 = Inr (False, st1)) \<and>
    (\<exists>st2. migrateDeviceTokens E st1 = (Inr (), st2) \<and> AuthorizeDevice E (d_id d) (''redacted:'' @ d_id d) st2 = Inr (True, st2))"
proof -
  let ?i = "d_id d"
  let ?f = "\<lambda>d. d\<lparr>d_token_hash := [], d_next_token_hash := [], d_next_token_ciphertext := [],
            d_token_epoch := d_token_epoch d + 1, d_tunnel_key_epoch := d_tunnel_key_epoch d + 1,
            d_tunnel_public_key := [], d_tunnel_key_fingerprint := []\<rparr>"
  have d: "find_row (\<lambda>x. d_id x = ?i) (devices (base st)) = Some d"
    using assms(2,3) by (intro device_of_id) (simp_all add: tokens_redacted_def)
  have has: "has_row (\<lambda>x. d_id x = ?i) (devices (base st))" using assms(3) by (auto simp: has_row_iff)
  have trim: "TrimSpace ?i = ?i" using assms(4) by (rule TrimSpace_plain)
  have st1: revoked "devices (base st1) = upd_where (\<lambda>x. d_id x = ?i) ?f (devices (base st))"
    using trim assms(6) has by (auto simp: RevokeDeviceCredential_def Let_def)
  have row: "find_row (\<lambda>x. d_id x = ?i) (devices (base st1)) = Some (?f d)"
    unfolding st1(2) using find_row_upd_where [OF d, of ?f] by simp
  have refused: "AuthorizeDevice E ?i t st1 = Inr (False, st1)" for t
    by (rule AuthorizeDevice_neither [OF row]) simp_all
  have red: "tokens_redacted st1"
  proof -
    have "tokens_redacted (update_devices (\<lambda>x. d_id x = ?i) ?f st)" by (rule tokens_redacted_update [OF assms(2)]) simp_all
    then show ?thesis by (simp add: tokens_redacted_def st1(2))
  qed
  let ?legacy = "map (\<lambda>d. (d_id d, d_token d)) (filter (\<lambda>d. d_token_hash d = []) (devices (base st1)))"
  have leg: "list_all (\<lambda>(i, t). t = redacted i) ?legacy" using red by (auto simp: tokens_redacted_def list_all_iff)
  have "?f d \<in> set (devices (base st1))" using find_row_Some [OF row] by simp
  then have "?f d \<in> set (filter (\<lambda>d. d_token_hash d = []) (devices (base st1)))" by simp
  then have "(d_id (?f d), d_token (?f d)) \<in> set ?legacy" unfolding set_map by (rule imageI)
  then have "fst (d_id (?f d), d_token (?f d)) \<in> fst ` set ?legacy" by (rule imageI)
  moreover have "fst (d_id (?f d), d_token (?f d)) = ?i" by simp
  ultimately have mem: "?i \<in> fst ` set ?legacy" by (rule back_subst [where P = "\<lambda>x. x \<in> fst ` set ?legacy"])
  obtain st2 d' where s: "migrateDeviceTokens E st1 = (Inr (), st2)" "find_row (\<lambda>x. d_id x = ?i) (devices (base st2)) = Some d'"
    "d_token_hash d' = TokenHash E (redacted ?i)"
    using migrate_tokens_hashes [OF red leg row, of E] mem by (auto simp: migrateDeviceTokens_def)
  have "list_all plain_char (redacted ?i)" using assms(4) by (simp add: redacted_def) (simp add: plain_char_def ascii_space_def)
  then have "TrimSpace (redacted ?i) \<noteq> []" using TrimSpace_plain by (metis append_is_Nil_conv list.distinct(1) redacted_def)
  then have "AuthorizeDevice E ?i (redacted ?i) st2 = Inr (True, st2)"
    by (intro AuthorizeDevice_current [OF s(2)]) (use trim assms(5) s(3) TokenHash_ok [OF assms(1)] in simp_all)
  then show ?thesis using st1(1) refused s(1) by (auto simp: redacted_def)
qed

section \<open>A concrete device\<close>

definition sample_device :: device where
  "sample_device = device_row ''dev_1'' (TokenHash sample_env ''tok'') ''usr_1'' ''office'' ''router'' ''23.05'' 0"

definition sample_devices :: accounts where
  "sample_devices = on_base (\<lambda>b. b\<lparr>devices := [sample_device]\<rparr>) sample_accounts"

lemma sample_device_ids: "TrimSpace ''dev_1'' = ''dev_1''" "TrimSpace ''tok'' = ''tok''" "list_all plain_char ''dev_1''"
  by code_simp+

lemma sample_device_fields:
  "d_id sample_device = ''dev_1''" "d_token sample_device = redacted ''dev_1''" "d_token_hash sample_device = TokenHash sample_env ''tok''"
  "devices (base sample_devices) = [sample_device]" "users (base sample_devices) = [sample_admin]"
  "draws (base sample_devices) = 0" "enrollment_grants sample_devices = enrollment_grants sample_accounts"
  by (simp_all add: sample_device_def device_row_def sample_devices_def on_base_def sample_accounts_def empty_store_def)

lemma sample_sha256: "sha256_ok sample_env"
  by (simp add: sha256_ok_def sample_env_def sample_crypto_def crypto.defs)

lemma sample_credentialed: "credentialed sample_devices sample_device"
  using TokenHash_ok [OF sample_sha256, of "''tok''"] by (simp add: credentialed_def sample_device_fields sample_device_ids)

theorem revocation_undone_by_restart_witness:
  "\<exists>st1 st2. RevokeDeviceCredential second ''dev_1'' sample_devices = (True, st1) \<and>
     AuthorizeDevice sample_env ''dev_1'' ''tok'' st1 = Inr (False, st1) \<and> migrateDeviceTokens sample_env st1 = (Inr (), st2) \<and>
     AuthorizeDevice sample_env ''dev_1'' ''redacted:dev_1'' st2 = Inr (True, st2)"
proof -
  obtain r st1 where rev: "RevokeDeviceCredential second ''dev_1'' sample_devices = (r, st1)" by (rule prod.exhaust)
  have "tokens_redacted sample_devices" by (simp add: tokens_redacted_def sample_device_fields)
  from revocation_undone_by_restart [OF sample_sha256 this, of sample_device second r st1]
  show ?thesis using rev sample_device_ids(3) by (auto simp: sample_device_fields)
qed

theorem rotation_keeps_access_witness:
  "\<exists>epoch st' new. RotateDeviceCredential sample_env ''dev_1'' sample_devices = (Inr (Some epoch), st') \<and>
     PendingDeviceCredential sample_env ''dev_1'' st' = Inr (new, epoch) \<and> AuthorizeDevice sample_env ''dev_1'' ''tok'' st' = Inr (True, st')"
proof -
  have tok: "fst (draw sample_env ''tok'' sample_devices) = new_token sample_env 0"
    by (simp add: draw_def randomID_def new_token_def sample_device_fields)
  have enc: "\<exists>s. encryptSensitive sample_env context (new_token sample_env 0) = Inr s" for "context"
    by (rule exI, rule encryptSensitive_plain [OF sample_seal(1) new_token_nonempty new_token_unmarked])
  obtain s where s: "encryptSensitive sample_env (sensitiveContext ''device'' ''dev_1'' ''next_token'') (new_token sample_env 0) = Inr s"
    using enc by blast
  have "\<exists>epoch st'. RotateDeviceCredential sample_env ''dev_1'' sample_devices = (Inr (Some epoch), st')"
    using s sample_seal(1) TokenHash_ok [OF sample_sha256, of "''tok''"]
    by (auto simp: tok RotateDeviceCredential_def Let_def split_def sample_device_fields sample_device_ids has_row_iff)
  then obtain epoch st' where r: "RotateDeviceCredential sample_env ''dev_1'' sample_devices = (Inr (Some epoch), st')" by blast
  have "TokenHash sample_env (new_token sample_env 0) \<noteq> TokenHash sample_env ''tok''" by code_simp
  then show ?thesis
    using rotation_keeps_access [OF sample_cipher_ok sample_sha256 sample_credentialed, of "''tok''" epoch st'] r
    by (auto simp: sample_device_fields sample_device_ids)
qed


section \<open>Enrolment with a grant\<close>

lemma insert_device_Inr:
  "insert_device d st = Inr st' \<longleftrightarrow>
     \<not> has_row (\<lambda>x. d_token x = d_token d) (devices (base st)) \<and>
     \<not> (d_dns_label d \<noteq> [] \<and> has_row (\<lambda>x. d_dns_label x = d_dns_label d) (devices (base st))) \<and>
     d_id d \<notin> d_id ` set (devices (base st)) \<and> st' = on_base (\<lambda>b. b\<lparr>devices := devices (base st) @ [d]\<rparr>) st"
  by (auto simp: insert_device_def insert_row_def bindE_eq_Inr has_row_iff image_iff eq_commute [of "d_id d"] split: if_splits)

lemma drawn_trim: "TrimSpace (p @ ''_'' @ hex_EncodeToString s) \<noteq> []" if "list_all plain_char p"
proof -
  have "list_all plain_char (p @ ''_'' @ hex_EncodeToString s)"
    using that by (simp add: hex_plain) (simp add: plain_char_def ascii_space_def)
  then have "TrimSpace (p @ ''_'' @ hex_EncodeToString s) = p @ ''_'' @ hex_EncodeToString s" by (rule TrimSpace_plain)
  then show ?thesis by simp
qed

lemma EnrollDeviceWithGrant_Inr:
  assumes "EnrollDeviceWithGrant E now tokenHash hostname version st = Inr (Some (i, token), st')"
  obtains g d where "find_row (\<lambda>g. eg_token_hash g = tokenHash \<and> live_grant E now g) (enrollment_grants st) = Some g"
    "has_row (\<lambda>u. u_id u = eg_user_id g \<and> \<not> u_disabled u) (users (base st))"
    "d_id d = i" "d_owner_user_id d = eg_user_id g" "d_token_hash d = TokenHash E token" "d_next_token_hash d = []"
    "d_dns_label d = (if eg_dns_label g = [] then generatedDNSLabel (text_or ''unknown'' hostname) i else eg_dns_label g)"
    "devices (base st') = devices (base st) @ [d]" "i \<notin> d_id ` set (devices (base st))"
    "enrollment_grants st' = upd_where (\<lambda>x. eg_id x = eg_id g \<and> eg_used_at x = None) (\<lambda>x. x\<lparr>eg_used_at := Some now\<rparr>) (enrollment_grants st)"
    "TrimSpace i \<noteq> []" "TrimSpace token \<noteq> []"
proof -
  obtain g where g: "find_row (\<lambda>g. eg_token_hash g = tokenHash \<and> live_grant E now g) (enrollment_grants st) = Some g"
    using assms by (cases "find_row (\<lambda>g. eg_token_hash g = tokenHash \<and> live_grant E now g) (enrollment_grants st)") (auto simp: EnrollDeviceWithGrant_def)
  have u: "has_row (\<lambda>u. u_id u = eg_user_id g \<and> \<not> u_disabled u) (users (base st))"
    using assms g by (auto simp: EnrollDeviceWithGrant_def split: if_splits)
  define r where "r = draw E ''dev'' st"
  define r2 where "r2 = draw E ''tok'' (snd r)"
  have ids: "TrimSpace (fst r) \<noteq> []" "TrimSpace (fst r2) \<noteq> []"
    using drawn_trim [of "''dev''"] drawn_trim [of "''tok''"]
    by (simp_all add: r_def r2_def draw_def randomID_def plain_char_def ascii_space_def)
  have same: "devices (base (snd r2)) = devices (base st)" "enrollment_grants (snd r2) = enrollment_grants st"
    by (simp_all add: r_def r2_def draw_def randomID_def)
  define d where "d = device_row (fst r) (TokenHash E (fst r2)) (eg_user_id g)
    (if eg_dns_label g = [] then generatedDNSLabel (text_or ''unknown'' hostname) (fst r) else eg_dns_label g)
    (text_or ''unknown'' hostname) (text_or ''unknown'' version) now"
  define gs where "gs = upd_where (\<lambda>x. eg_id x = eg_id g \<and> eg_used_at x = None) (\<lambda>x. x\<lparr>eg_used_at := Some now\<rparr>) (enrollment_grants st)"
  have "EnrollDeviceWithGrant E now tokenHash hostname version st =
     (if count_where (\<lambda>x. eg_id x = eg_id g \<and> eg_used_at x = None) (enrollment_grants st) \<noteq> 1 then Inr (None, st)
      else bindE (insert_device d ((snd r2)\<lparr>enrollment_grants := gs\<rparr>)) (\<lambda>st. Inr (Some (fst r, fst r2), st)))"
    using g u by (simp add: EnrollDeviceWithGrant_def Let_def split_def same r_def [symmetric] r2_def [symmetric] d_def gs_def)
  with assms have "i = fst r" "token = fst r2" "insert_device d ((snd r2)\<lparr>enrollment_grants := gs\<rparr>) = Inr st'"
    by (auto simp: bindE_eq_Inr split: if_splits)
  then show ?thesis
    using that [OF g u, of d] ids same by (auto simp: insert_device_Inr d_def device_row_def gs_def)
qed

text \<open>
  C10. A grant enrols one device and no more: enrolment succeeds only with an unused grant that has not expired and whose
  user is active; the new device belongs to that user, its token is accepted, and the grant never enrols again.
\<close>

theorem EnrollDeviceWithGrant_once:
  assumes "sha256_ok E" "distinct (map eg_token_hash (enrollment_grants st))"
    and "EnrollDeviceWithGrant E now tokenHash hostname version st = Inr (Some (i, token), st')"
  shows "(\<exists>g \<in> set (enrollment_grants st). eg_token_hash g = tokenHash \<and> live_grant E now g \<and>
       has_row (\<lambda>u. u_id u = eg_user_id g \<and> \<not> u_disabled u) (users (base st)) \<and>
       (\<exists>d. devices (base st') = devices (base st) @ [d] \<and> d_id d = i \<and> d_owner_user_id d = eg_user_id g)) \<and>
    AuthorizeDevice E i token st' = Inr (True, st') \<and>
    (\<forall>later h v. EnrollDeviceWithGrant E later tokenHash h v st' = Inr (None, st'))"
proof -
  obtain g d where g: "find_row (\<lambda>g. eg_token_hash g = tokenHash \<and> live_grant E now g) (enrollment_grants st) = Some g"
    "has_row (\<lambda>u. u_id u = eg_user_id g \<and> \<not> u_disabled u) (users (base st))"
    and d: "d_id d = i" "d_owner_user_id d = eg_user_id g" "d_token_hash d = TokenHash E token" "d_next_token_hash d = []"
      "devices (base st') = devices (base st) @ [d]" "i \<notin> d_id ` set (devices (base st))"
    and gs: "enrollment_grants st' = upd_where (\<lambda>x. eg_id x = eg_id g \<and> eg_used_at x = None) (\<lambda>x. x\<lparr>eg_used_at := Some now\<rparr>) (enrollment_grants st)"
    and trim: "TrimSpace i \<noteq> []" "TrimSpace token \<noteq> []"
    by (rule EnrollDeviceWithGrant_Inr [OF assms(3)]) blast
  have g': "g \<in> set (enrollment_grants st)" "eg_token_hash g = tokenHash" "live_grant E now g" using find_row_Some [OF g(1)] by auto
  have "find_row (\<lambda>x. d_id x = i) (devices (base st)) = None" using d(6) by (auto simp: find_row_None)
  then have "find_row (\<lambda>x. d_id x = i) (devices (base st')) = Some d" using d(1,5) by (simp add: find_row_append)
  then have ok: "AuthorizeDevice E i token st' = Inr (True, st')"
    by (rule AuthorizeDevice_current) (use trim d(3) TokenHash_ok [OF assms(1)] in simp_all)
  have "eg_used_at x \<noteq> None" if x: "x \<in> set (enrollment_grants st')" and hash: "eg_token_hash x = tokenHash" for x
  proof -
    obtain y where y: "y \<in> set (enrollment_grants st)" "x = (if eg_id y = eg_id g \<and> eg_used_at y = None then y\<lparr>eg_used_at := Some now\<rparr> else y)"
      using x unfolding gs set_upd_where by blast
    then have "eg_token_hash y = tokenHash" using hash by (auto split: if_splits)
    then have "y = g" using y(1) g' assms(2) by (metis (no_types, lifting) distinct_map inj_onD)
    with y(2) show ?thesis by auto
  qed
  then have none: "find_row (\<lambda>x. eg_token_hash x = tokenHash \<and> live_grant E later x) (enrollment_grants st') = None" for later
    by (auto simp: find_row_None live_grant_def)
  then have "EnrollDeviceWithGrant E later tokenHash h v st' = Inr (None, st')" for later h v
    by (simp add: EnrollDeviceWithGrant_def)
  with g' g(2) d ok show ?thesis by blast
qed

theorem EnrollDeviceWithGrant_once_witness:
  "\<exists>i token st'. EnrollDeviceWithGrant sample_env second ''g1'' ''router'' ''23.05'' sample_accounts = Inr (Some (i, token), st') \<and>
     AuthorizeDevice sample_env i token st' = Inr (True, st') \<and>
     EnrollDeviceWithGrant sample_env second ''g1'' ''other'' ''23.05'' st' = Inr (None, st')"
proof -
  have "\<exists>i token st'. EnrollDeviceWithGrant sample_env second ''g1'' ''router'' ''23.05'' sample_accounts = Inr (Some (i, token), st')"
    by (simp add: EnrollDeviceWithGrant_def sample_accounts_def live_grant_def sample_admin_def has_row_iff draw_def randomID_def Let_def
        insert_device_def insert_row_def device_row_def empty_store_def sample_env_def crypto.defs)
  then obtain i token st' where e: "EnrollDeviceWithGrant sample_env second ''g1'' ''router'' ''23.05'' sample_accounts = Inr (Some (i, token), st')"
    by blast
  have "distinct (map eg_token_hash (enrollment_grants sample_accounts))" by (simp add: sample_accounts_def)
  from EnrollDeviceWithGrant_once [OF sample_sha256 this e] e show ?thesis by blast
qed


section \<open>Access tokens\<close>

lemma access_row_Some:
  assumes "access_row E now h l ts b = Some (t, d, s)"
  shows "t \<in> set ts" "at_token_hash t = h" "julianday E (at_expires_at t) > julianday E now"
    "d \<in> set (devices b)" "d_id d = at_device_id t" "d_dns_label d = l"
    "has_row (\<lambda>u. u_id u = at_user_id t \<and> \<not> u_disabled u) (users b)"
    "s \<in> set (remote_sessions b)" "rs_id s = at_remote_session_id t" "rs_device_id s = at_device_id t"
    "rs_status s = ''active''" "julianday E (rs_expires_at s) > julianday E now"
  using assms by (auto simp: access_row_def bind_eq_Some_conv has_row_iff dest!: find_row_Some)

lemma ConsumeDeviceAccessGrant_Inr:
  assumes "ConsumeDeviceAccessGrant E now grantHash sessionHash l x st = Inr (Some route, st')"
  obtains t d s where "access_row E now grantHash l (device_access_grants (base st)) (base st) = Some (t, d, s)"
    "CheckPermission (base st) (at_user_id t) (at_device_id t) ''remote'' = Inr ()"
    "route = access_route t d (min x (rs_expires_at s))"
    "sessionHash \<notin> at_token_hash ` set (device_access_sessions (base st))"
    "st' = on_base (\<lambda>b. b\<lparr>device_access_grants := del_where (\<lambda>g. at_token_hash g = grantHash) (device_access_grants b),
       device_access_sessions := device_access_sessions b @ [t\<lparr>at_token_hash := sessionHash, at_expires_at := min x (rs_expires_at s), at_created_at := now\<rparr>]\<rparr>) st"
proof (cases "access_row E now grantHash l (device_access_grants (base st)) (base st)")
  case None
  with assms show ?thesis by (simp add: ConsumeDeviceAccessGrant_def)
next
  case (Some y)
  obtain t d s where y: "y = (t, d, s)" by (cases y)
  let ?x = "if x > rs_expires_at s then rs_expires_at s else x"
  have m: "?x = min x (rs_expires_at s)" by simp
  obtain admin where p: "fleetPrincipal (base st) (at_user_id t) = Inr admin"
    using assms Some y by (cases "fleetPrincipal (base st) (at_user_id t)") (simp_all add: ConsumeDeviceAccessGrant_def)
  have q: "permissionAllowed (base st) (at_user_id t) (at_device_id t) ''remote'' admin = Inr ()"
    using assms Some y p by (cases "permissionAllowed (base st) (at_user_id t) (at_device_id t) ''remote'' admin")
      (auto simp: ConsumeDeviceAccessGrant_def split: err.splits)
  let ?st = "on_base (\<lambda>b. b\<lparr>device_access_grants := del_where (\<lambda>g. at_token_hash g = grantHash) (device_access_grants b)\<rparr>) st"
  let ?t = "t\<lparr>at_token_hash := sessionHash, at_expires_at := ?x, at_created_at := now\<rparr>"
  obtain ts where i: "insert_access_token (base ?st) ?t (device_access_sessions (base ?st)) = Inr ts"
    and r: "route = access_route t d ?x" "st' = on_base (\<lambda>b. b\<lparr>device_access_sessions := ts\<rparr>) ?st"
    using assms Some y p q by (auto simp: ConsumeDeviceAccessGrant_def Let_def bindE_eq_Inr split: if_splits)
  from i have "sessionHash \<notin> at_token_hash ` set (device_access_sessions (base st))" "ts = device_access_sessions (base st) @ [?t]"
    by (auto simp: insert_access_token_def insert_row_def has_row_iff image_iff split: if_splits)
  with r m show ?thesis using that [of t d s] Some y p q by (simp add: CheckPermission_def on_base_def)
qed

text \<open>
  C13. A device access grant opens one session and no more, for the user it was issued to while he may use the device
  remotely and its remote session is active; the session is accepted right away under the same label, it never outlives
  the remote session, and the grant cannot be used again.
\<close>

theorem ConsumeDeviceAccessGrant_once:
  assumes "ConsumeDeviceAccessGrant E now grantHash sessionHash l x st = Inr (Some route, st')"
    and "julianday E x > julianday E now"
  shows "CheckPermission (base st) (ar_UserID route) (ar_DeviceID route) ''remote'' = Inr () \<and> ar_ExpiresAt route \<le> x \<and>
    (\<exists>s \<in> set (remote_sessions (base st)). rs_id s = ar_RemoteSessionID route \<and> rs_device_id s = ar_DeviceID route \<and>
       rs_status s = ''active'' \<and> ar_ExpiresAt route \<le> rs_expires_at s) \<and>
    AuthorizeDeviceAccessSession E now sessionHash l st' = Inr (Some route) \<and>
    (\<forall>later h k y. ConsumeDeviceAccessGrant E later grantHash h k y st' = Inr (None, st'))"
proof -
  obtain t d s where a: "access_row E now grantHash l (device_access_grants (base st)) (base st) = Some (t, d, s)"
    and perm: "CheckPermission (base st) (at_user_id t) (at_device_id t) ''remote'' = Inr ()"
    and route: "route = access_route t d (min x (rs_expires_at s))"
    and new: "sessionHash \<notin> at_token_hash ` set (device_access_sessions (base st))"
    and st': "st' = on_base (\<lambda>b. b\<lparr>device_access_grants := del_where (\<lambda>g. at_token_hash g = grantHash) (device_access_grants b),
       device_access_sessions := device_access_sessions b @ [t\<lparr>at_token_hash := sessionHash, at_expires_at := min x (rs_expires_at s), at_created_at := now\<rparr>]\<rparr>) st"
    by (rule ConsumeDeviceAccessGrant_Inr [OF assms(1)])
  note row = access_row_Some [OF a]
  let ?t = "t\<lparr>at_token_hash := sessionHash, at_expires_at := min x (rs_expires_at s), at_created_at := now\<rparr>"
  have live: "julianday E (min x (rs_expires_at s)) > julianday E now" using assms(2) row(12) by (simp add: min_def)
  have "find_row (\<lambda>t. at_token_hash t = sessionHash \<and> julianday E (at_expires_at t) > julianday E now) (device_access_sessions (base st)) = None"
    using new by (auto simp: find_row_None)
  then have found: "find_row (\<lambda>t. at_token_hash t = sessionHash \<and> julianday E (at_expires_at t) > julianday E now) (device_access_sessions (base st')) = Some ?t"
    using live by (simp add: st' find_row_append)
  have same: "devices (base st') = devices (base st)" "users (base st') = users (base st)" "remote_sessions (base st') = remote_sessions (base st)"
    "management_permissions (base st') = management_permissions (base st)" "fleet_assets (base st') = fleet_assets (base st)"
    by (simp_all add: st')
  have "access_row E now sessionHash l (device_access_sessions (base st')) (base st') = Some (?t, d, s)"
    using a found by (auto simp: access_row_def same bind_eq_Some_conv)
  moreover have "CheckPermission (base st') (at_user_id t) (at_device_id t) ''remote'' = Inr ()"
    using perm access_cong [OF same(2,1,4,5)] by (simp add: CheckPermission_def)
  ultimately have auth: "AuthorizeDeviceAccessSession E now sessionHash l st' = Inr (Some route)"
    by (simp add: AuthorizeDeviceAccessSession_def route access_route_def)
  have "find_row (\<lambda>t. at_token_hash t = grantHash \<and> julianday E (at_expires_at t) > julianday E later) (device_access_grants (base st')) = None" for later
    by (auto simp: find_row_None st' set_del_where)
  then have "ConsumeDeviceAccessGrant E later grantHash h k y st' = Inr (None, st')" for later h k y
    by (simp add: ConsumeDeviceAccessGrant_def access_row_def)
  with perm auth row show ?thesis by (auto simp: route access_route_def)
qed

definition sample_session :: remote_session where
  "sample_session = \<lparr>rs_id = ''rs_1'', rs_device_id = ''dev_1'', rs_target = ''luci'', rs_status = ''active'', rs_server_host = ''rmm.test'', rs_server_port = 22,
     rs_remote_port = 0, rs_luci_port = 20001, rs_luci_scheme = ''http'', rs_local_host = ''127.0.0.1'', rs_local_port = 80, rs_command_id = ''cmd_1'',
     rs_created_at = 0, rs_expires_at = 900 * second, rs_started_at = Some 0, rs_closed_at = None, rs_updated_at = 0\<rparr>"

definition sample_access :: accounts where
  "sample_access = on_base (\<lambda>b. b\<lparr>remote_sessions := [sample_session],
     device_access_grants := [\<lparr>at_token_hash = ''ga'', at_user_id = ''usr_1'', at_device_id = ''dev_1'', at_remote_session_id = ''rs_1'',
       at_expires_at = 60 * second, at_created_at = 0\<rparr>]\<rparr>) sample_devices"

lemma sample_access_tables:
  "users (base sample_access) = [sample_admin]" "devices (base sample_access) = [sample_device]" "remote_sessions (base sample_access) = [sample_session]"
  "device_access_sessions (base sample_access) = []"
  "device_access_grants (base sample_access) = [\<lparr>at_token_hash = ''ga'', at_user_id = ''usr_1'', at_device_id = ''dev_1'', at_remote_session_id = ''rs_1'',
       at_expires_at = 60 * second, at_created_at = 0\<rparr>]"
  by (simp_all add: sample_access_def sample_devices_def on_base_def sample_accounts_def empty_store_def)

theorem ConsumeDeviceAccessGrant_once_witness:
  "\<exists>route st'. ConsumeDeviceAccessGrant sample_env second ''ga'' ''sa'' ''office'' (3600 * second) sample_access = Inr (Some route, st') \<and>
     ar_ExpiresAt route \<le> 900 * second \<and> AuthorizeDeviceAccessSession sample_env second ''sa'' ''office'' st' = Inr (Some route) \<and>
     ConsumeDeviceAccessGrant sample_env second ''ga'' ''sb'' ''office'' (3600 * second) st' = Inr (None, st')"
proof -
  have lab: "d_dns_label sample_device = ''office''" by (simp add: sample_device_def device_row_def)
  have jd: "julianday sample_env t = t div 1000000" for t by (simp add: sample_env_def crypto.defs)
  have "fleetPrincipal (base sample_access) ''usr_1'' = Inr True"
    by (simp add: fleetPrincipal_def sample_access_tables) (simp add: sample_admin_def)
  then have "\<exists>route st'. ConsumeDeviceAccessGrant sample_env second ''ga'' ''sa'' ''office'' (3600 * second) sample_access = Inr (Some route, st')"
    by (simp add: ConsumeDeviceAccessGrant_def access_row_def sample_access_tables sample_device_fields lab jd permissionAllowed_def Let_def
        insert_access_token_def insert_row_def has_row_iff) (simp add: sample_admin_def sample_session_def)
  then obtain route st' where c: "ConsumeDeviceAccessGrant sample_env second ''ga'' ''sa'' ''office'' (3600 * second) sample_access = Inr (Some route, st')"
    by blast
  from ConsumeDeviceAccessGrant_once [OF c] jd have "ar_ExpiresAt route \<le> 900 * second" by (auto simp: sample_access_tables sample_session_def)
  with ConsumeDeviceAccessGrant_once [OF c] jd c show ?thesis by auto
qed




section \<open>Heartbeats and deletion\<close>

lemma ClaimNextCommand_device:
  assumes "ClaimNextCommand E now i st = (Inr (Some c), st')"
  shows "c_device_id c = i \<and> c_status c = ''claimed''"
proof -
  have "c_device_id x = i" if "claim_candidate E now i b = Some x" for x b
    using claim_candidate_Some [OF that] by (auto simp: claimable_def)
  then show ?thesis using assms by (auto simp: ClaimNextCommand_def Let_def split: option.splits sum.splits)
qed

lemma claim_loop_bounded:
  "claim_loop E now i n cs st = (Inr ds, st') \<Longrightarrow> list_all (\<lambda>c. c_device_id c = i \<and> c_status c = ''claimed'') cs \<Longrightarrow>
   length ds \<le> length cs + n \<and> list_all (\<lambda>c. c_device_id c = i \<and> c_status c = ''claimed'') ds"
proof (induction n arbitrary: cs st)
  case (Suc n)
  obtain r b where c: "ClaimNextCommand E now i st = (r, b)" by (rule prod.exhaust)
  show ?case
  proof (cases r)
    case (Inr o')
    show ?thesis
    proof (cases o')
      case None
      then show ?thesis using Suc.prems c Inr by simp
    next
      case (Some d)
      then have "claim_loop E now i n (cs @ [d]) b = (Inr ds, st')" using Suc.prems(1) c Inr by simp
      from Suc.IH [OF this] ClaimNextCommand_device [of E now i st d b] c Inr Some Suc.prems(2) show ?thesis by simp
    qed
  qed (use Suc.prems c in simp)
qed simp

text \<open>A heartbeat hands out at most five commands, all of them claimed and of that device.\<close>

lemma SaveHeartbeat_bounded:
  assumes "SaveHeartbeat E ParseIP now i inventory metrics st = (Inr cs, st')"
  shows "length cs \<le> 5 \<and> list_all (\<lambda>c. c_device_id c = i \<and> c_status c = ''claimed'') cs"
proof -
  have "\<exists>b b'. claim_loop E now i 5 [] b = (Inr cs, b')"
    using assms by (auto simp: SaveHeartbeat_def Let_def simp del: claim_loop.simps split: prod.splits sum.splits option.splits)
  then show ?thesis using claim_loop_bounded [of E now i 5 "[]"] by fastforce
qed

text \<open>After a deletion no table refers to the device.\<close>

lemma DeleteDevice_clean:
  assumes "DeleteDevice device st = Inr (True, st')"
  shows "i = TrimSpace device \<Longrightarrow> \<not> has_row (\<lambda>d. d_id d = i) (devices (base st'))"
    and "i = TrimSpace device \<Longrightarrow> \<not> has_row (\<lambda>c. c_device_id c = i) (commands (base st'))"
    and "i = TrimSpace device \<Longrightarrow> \<not> has_row (\<lambda>s. rs_device_id s = i) (remote_sessions (base st'))"
    and "i = TrimSpace device \<Longrightarrow> \<not> has_row (\<lambda>t. at_device_id t = i) (device_access_grants (base st') @ device_access_sessions (base st'))"
    and "i = TrimSpace device \<Longrightarrow> \<not> has_row (\<lambda>x. i_device_id x = i) (incidents (base st'))"
    and "i = TrimSpace device \<Longrightarrow> \<not> has_row (\<lambda>x. lc_device_id x = i) (lan_clients st')"
proof -
  have st': "base st' = delete_device_rows (TrimSpace device) (base st)" "lan_clients st' = del_where (\<lambda>x. lc_device_id x = TrimSpace device) (lan_clients st)"
    using assms by (auto simp: DeleteDevice_def Let_def on_base_def split: if_splits)
  show "i = TrimSpace device \<Longrightarrow> \<not> has_row (\<lambda>d. d_id d = i) (devices (base st'))"
    "i = TrimSpace device \<Longrightarrow> \<not> has_row (\<lambda>c. c_device_id c = i) (commands (base st'))"
    "i = TrimSpace device \<Longrightarrow> \<not> has_row (\<lambda>s. rs_device_id s = i) (remote_sessions (base st'))"
    "i = TrimSpace device \<Longrightarrow> \<not> has_row (\<lambda>t. at_device_id t = i) (device_access_grants (base st') @ device_access_sessions (base st'))"
    "i = TrimSpace device \<Longrightarrow> \<not> has_row (\<lambda>x. i_device_id x = i) (incidents (base st'))"
    "i = TrimSpace device \<Longrightarrow> \<not> has_row (\<lambda>x. lc_device_id x = i) (lan_clients st')"
    by (auto simp: st' delete_device_rows_def Let_def has_row_iff set_del_where)
qed

text \<open>A database keeps the signing key it was first opened with.\<close>

lemma signing_key_pinned:
  assumes "SetCommandSigningKey E k st = (Inr (), st1)" "SetCommandSigningKey E k' st1 = (Inr (), st2)"
  shows "KeyID E (ed_Public E k') = KeyID E (ed_Public E k)"
  using assms
  by (auto simp: SetCommandSigningKey_def pinSecurityKey_def Let_def on_base_def map_of_append split: if_splits prod.splits sum.splits option.splits)

end
