(* ===== verification/DeviceBackups.thy ===== *)
theory DeviceBackups
  imports Devices FieldCrypto
begin

text \<open>
  Backups of devices on the server (\<open>store/backups.go\<close>): requesting one with a signed command, storing the encrypted
  archive the agent uploads, reading it back, deleting and ageing. Snapshots of the database itself are file input and
  output and left out.
\<close>

section \<open>Requesting\<close>

text \<open>The row of a new backup; the other columns have their defaults.\<close>

definition new_backup :: "string \<Rightarrow> string \<Rightarrow> string \<Rightarrow> time \<Rightarrow> device_backup" where
  "new_backup backupID deviceID commandID createdAt =
     \<lparr>b_id = backupID, b_device_id = deviceID, b_command_id = commandID, b_status = ''creating'', b_archive = None, b_size_bytes = 0,
      b_sha256 = [], b_openwrt_version = [], b_target = [], b_model = [], b_manifest_json = ''[]'', b_error = [],
      b_created_at = createdAt, b_completed_at = None\<rparr>"

text \<open>
  \<open>INSERT INTO device_backups\<close>: the primary key, the unique command and the unique index on the device of a backup that
  is being created.
\<close>

definition insert_device_backup :: "device_backup \<Rightarrow> store \<Rightarrow> store res" where
  "insert_device_backup x b =
     (if \<not> has_row (\<lambda>d. d_id d = b_device_id x) (devices b) \<or> \<not> has_row (\<lambda>c. c_id c = b_command_id x) (commands b)
      then Inl (ErrConstraint ''foreign key'')
      else if has_row (\<lambda>y. b_command_id y = b_command_id x) (device_backups b) then Inl (ErrConstraint ''command_id'')
      else if b_status x = ''creating'' \<and> has_row (\<lambda>y. b_device_id y = b_device_id x \<and> b_status y = ''creating'') (device_backups b)
      then Inl (ErrConstraint ''one_creating'')
      else bindE (insert_row b_id x (device_backups b)) (\<lambda>bs. Inr (b\<lparr>device_backups := bs\<rparr>)))"

text \<open>\<open>None\<close> when there is no such device.\<close>

definition RequestDeviceBackup :: "env \<Rightarrow> time \<Rightarrow> string \<Rightarrow> store \<Rightarrow> ((device_backup \<times> command) option \<times> store) res" where
  "RequestDeviceBackup E now deviceID st =
     bindE (newCommand E now deviceID ''system_backup_create'' ''{}'' (24 * hour) st) (\<lambda>(c, st1).
       let (backupID, st1) = randomID E ''bkp'' st1 in
       if \<not> has_row (\<lambda>d. d_id d = deviceID) (devices st1) then Inr (None, st1)
       else if has_row (\<lambda>x. b_device_id x = deviceID \<and> b_status x = ''creating'') (device_backups st1) then Inl ErrDeviceBackupInProgress
       else bindE (insert_command (c_max_attempts c) c st1) (\<lambda>st1.
         let x = new_backup backupID deviceID (c_id c) (c_created_at c) in
         bindE (insert_device_backup x st1) (\<lambda>st1. Inr (Some (x, c), st1))))"

section \<open>Storing\<close>

record DeviceBackupMetadata =
  bm_OpenWrtVersion :: string
  bm_Target :: string
  bm_Model :: string
  bm_Manifest :: RawMessage

definition backup_context :: "string \<Rightarrow> string \<Rightarrow> string" where
  "backup_context deviceID commandID = sensitiveContext ''device_backup'' (deviceID @ '':'' @ commandID) ''archive''"

definition stored_backup ::
  "env \<Rightarrow> time \<Rightarrow> Cipher \<Rightarrow> string \<Rightarrow> string \<Rightarrow> string \<Rightarrow> string \<Rightarrow> DeviceBackupMetadata \<Rightarrow> device_backup \<Rightarrow> device_backup" where
  "stored_backup E now c nonce deviceID commandID archive metadata x =
     x\<lparr>b_status := ''ready'', b_archive := Some (EncryptBytesWithContext c nonce (backup_context deviceID commandID) archive),
       b_size_bytes := int (length archive), b_sha256 := hex_EncodeToString (sha256_Sum E archive),
       b_openwrt_version := TrimSpace (bm_OpenWrtVersion metadata), b_target := TrimSpace (bm_Target metadata),
       b_model := TrimSpace (bm_Model metadata),
       b_manifest_json := (if bm_Manifest metadata = [] then ''[]'' else NormalizeRawJSON (bm_Manifest metadata)),
       b_error := [], b_completed_at := Some now\<rparr>"

text \<open>\<open>model.DeviceBackup\<close> has no archive.\<close>

definition scanDeviceBackup :: "device_backup \<Rightarrow> device_backup" where
  "scanDeviceBackup x = x\<lparr>b_archive := None\<rparr>"

definition GetDeviceBackup :: "string \<Rightarrow> string \<Rightarrow> bool \<Rightarrow> store \<Rightarrow> device_backup option" where
  "GetDeviceBackup deviceID idOrCommand allowCommandID st =
     map_option scanDeviceBackup
       (find_row (\<lambda>x. b_device_id x = deviceID \<and> (b_id x = idOrCommand \<or> (allowCommandID \<and> b_command_id x = idOrCommand))) (device_backups st))"

text \<open>The cipher may be missing; the nonce is the random one of this call.\<close>

definition SaveDeviceBackup ::
  "env \<Rightarrow> time \<Rightarrow> Cipher option \<Rightarrow> string \<Rightarrow> string \<Rightarrow> string \<Rightarrow> string \<Rightarrow> DeviceBackupMetadata \<Rightarrow> store \<Rightarrow> (device_backup option \<times> store) res" where
  "SaveDeviceBackup E now cipher nonce deviceID commandID archive metadata st =
     (case cipher of
        None \<Rightarrow> Inl (ErrMsg ''backup encryption is unavailable'')
      | Some c \<Rightarrow>
          let rows = (\<lambda>x. b_device_id x = deviceID \<and> b_command_id x = commandID \<and> b_status x = ''creating'') in
          if \<not> has_row rows (device_backups st) then Inr (None, st)
          else let st = st\<lparr>device_backups :=
                 upd_where rows (stored_backup E now c nonce deviceID commandID archive metadata) (device_backups st)\<rparr>
            in Inr (GetDeviceBackup deviceID commandID True st, st))"

section \<open>Reading and deleting\<close>

definition ListDeviceBackups :: "env \<Rightarrow> string \<Rightarrow> store \<Rightarrow> device_backup list option" where
  "ListDeviceBackups E deviceID st =
     (if \<not> has_row (\<lambda>d. d_id d = deviceID) (devices st) then None
      else Some (map scanDeviceBackup (take 50
             (order_by (\<lambda>x y. ts_le E (b_created_at y) (b_created_at x)) (filter (\<lambda>x. b_device_id x = deviceID) (device_backups st))))))"

text \<open>
  The backup with its archive when it is ready; without a cipher the code dereferences a nil pointer, and a ready row has
  an archive.
\<close>

definition DeviceBackupArchive :: "Cipher option \<Rightarrow> string \<Rightarrow> string \<Rightarrow> store \<Rightarrow> (device_backup \<times> string option) option res" where
  "DeviceBackupArchive cipher deviceID backupID st =
     (case GetDeviceBackup deviceID backupID False st of
        None \<Rightarrow> Inr None
      | Some x \<Rightarrow>
          if b_status x \<noteq> ''ready'' then Inr (Some (x, None))
          else (case find_row (\<lambda>y. b_id y = backupID \<and> b_device_id y = deviceID) (device_backups st) of
                  None \<Rightarrow> Inl ErrNoRows
                | Some y \<Rightarrow>
                    (case cipher of
                       None \<Rightarrow> Inl (Panic ''nil pointer dereference'')
                     | Some c \<Rightarrow>
                         bindE (DecryptBytesWithContext c (backup_context deviceID (b_command_id x)) (case b_archive y of Some a \<Rightarrow> a | None \<Rightarrow> []))
                           (\<lambda>archive. Inr (Some (x, Some archive))))))"

definition DeleteDeviceBackup :: "string \<Rightarrow> string \<Rightarrow> store \<Rightarrow> bool \<times> store" where
  "DeleteDeviceBackup deviceID backupID st =
     (let rows = (\<lambda>x. b_id x = backupID \<and> b_device_id x = deviceID) in
      (count_where rows (device_backups st) = 1, st\<lparr>device_backups := del_where rows (device_backups st)\<rparr>))"

definition PurgeDeviceBackupsBefore :: "env \<Rightarrow> time \<Rightarrow> store \<Rightarrow> nat \<times> store" where
  "PurgeDeviceBackupsBefore E cutoff st =
     (let rows = (\<lambda>x. b_status x \<in> set [''ready'', ''failed''] \<and> \<not> ts_le E cutoff (b_created_at x)) in
      (count_where rows (device_backups st), st\<lparr>device_backups := del_where rows (device_backups st)\<rparr>))"

section \<open>Lemmas\<close>

lemma RequestDeviceBackup_Inr:
  assumes "RequestDeviceBackup E now i st = Inr (Some (x, c), st')"
  obtains st1 b2 where "newCommand E now i ''system_backup_create'' ''{}'' (24 * hour) st = Inr (c, st1)"
    "\<not> has_row (\<lambda>y. b_device_id y = i \<and> b_status y = ''creating'') (device_backups st)"
    "x = new_backup b2 i (c_id c) (c_created_at c)" "device_backups st' = device_backups st @ [x]"
    "\<forall>y \<in> set (device_backups st). b_id y \<noteq> b2 \<and> b_command_id y \<noteq> c_id c" "commands st' = commands st @ [c]"
proof -
  obtain c' st1 where n: "newCommand E now i ''system_backup_create'' ''{}'' (24 * hour) st = Inr (c', st1)"
    using assms by (auto simp: RequestDeviceBackup_def bindE_eq_Inr)
  have st1: "st1 = st\<lparr>draws := draws st + 2\<rparr>" using newCommand_Inr [OF n] by blast
  obtain b2 s where r: "randomID E ''bkp'' st1 = (b2, s)" "s = st1\<lparr>draws := draws st1 + 1\<rparr>" by (simp add: randomID_def)
  show ?thesis
    using assms n r st1 that [of st1 b2]
    by (auto simp: RequestDeviceBackup_def Let_def bindE_eq_Inr insert_command_Inr insert_device_backup_def insert_row_def new_backup_def has_row_iff
        split: if_splits)
qed

text \<open>The keys of the table, and the unique index on a device with a backup that is being created.\<close>

definition backups_wf :: "store \<Rightarrow> bool" where
  "backups_wf st \<longleftrightarrow> distinct (map b_id (device_backups st)) \<and> distinct (map b_command_id (device_backups st)) \<and>
     distinct (map b_device_id (filter (\<lambda>x. b_status x = ''creating'') (device_backups st)))"

lemma RequestDeviceBackup_wf:
  assumes "RequestDeviceBackup E now i st = Inr (r, st')" "backups_wf st"
  shows "backups_wf st'"
proof (cases r)
  case None
  then have "device_backups st' = device_backups st"
    using assms(1) newCommand_Inr
    by (fastforce simp: RequestDeviceBackup_def Let_def bindE_eq_Inr randomID_def split: if_splits)
  with assms(2) show ?thesis by (simp add: backups_wf_def)
next
  case (Some p)
  obtain x c where "p = (x, c)" by (cases p)
  with Some assms(1) have req: "RequestDeviceBackup E now i st = Inr (Some (x, c), st')" by simp
  obtain b2 where b2: "x = new_backup b2 i (c_id c) (c_created_at c)"
    "\<not> has_row (\<lambda>y. b_device_id y = i \<and> b_status y = ''creating'') (device_backups st)"
    "device_backups st' = device_backups st @ [x]" "\<forall>y \<in> set (device_backups st). b_id y \<noteq> b2 \<and> b_command_id y \<noteq> c_id c"
    by (rule RequestDeviceBackup_Inr [OF req]) blast
  have "b_device_id x = i" "b_id x = b2" "b_command_id x = c_id c" using b2(1) by (simp_all add: new_backup_def)
  with b2(2-4) assms(2) show ?thesis by (auto simp: backups_wf_def has_row_iff)
qed

lemma distinct_filter_upd:
  assumes "distinct (map k (filter q xs))" "\<And>x. k (f x) = k x" "\<And>x. p x \<Longrightarrow> \<not> q (f x)"
  shows "distinct (map k (filter q (upd_where p f xs)))"
  using assms(1) by (induction xs) (auto simp: upd_where_def assms(2,3) split: if_splits)

text \<open>Storing an archive keeps the keys, and only touches the backup that was being created for that command.\<close>

lemma SaveDeviceBackup_wf:
  assumes "SaveDeviceBackup E now k nonce i commandID archive m st = Inr (r, st')" "backups_wf st"
  shows "backups_wf st'"
proof (cases "device_backups st' = device_backups st")
  case True
  with assms(2) show ?thesis by (simp add: backups_wf_def)
next
  case False
  obtain c where c: "device_backups st' = upd_where (\<lambda>x. b_device_id x = i \<and> b_command_id x = commandID \<and> b_status x = ''creating'')
      (stored_backup E now c nonce i commandID archive m) (device_backups st)"
    using assms(1) False by (auto simp: SaveDeviceBackup_def Let_def split: option.splits if_splits)
  have ids: "b_id (stored_backup E now c nonce i commandID archive m x) = b_id x" "b_command_id (stored_backup E now c nonce i commandID archive m x) = b_command_id x"
    "b_device_id (stored_backup E now c nonce i commandID archive m x) = b_device_id x" "b_status (stored_backup E now c nonce i commandID archive m x) = ''ready''" for x
    by (simp_all add: stored_backup_def)
  show ?thesis
    using assms(2) unfolding backups_wf_def c by (simp add: map_upd_where ids distinct_filter_upd)
qed

text \<open>
  The archive an agent uploads is the one that is restored: it is stored encrypted under the device and the command, and
  reading the backup with the same cipher gives it back.
\<close>

theorem device_backup_round_trip:
  assumes "aead_ok (cf_aead c)" "length nonce = NonceSize" "backups_wf st" "x \<in> set (device_backups st)" "b_status x = ''creating''"
  shows "\<exists>r st'. SaveDeviceBackup E now (Some c) nonce (b_device_id x) (b_command_id x) archive m st = Inr (r, st') \<and>
    (\<exists>y. DeviceBackupArchive (Some c) (b_device_id x) (b_id x) st' = Inr (Some (y, Some archive)) \<and>
       b_size_bytes y = int (length archive) \<and> b_sha256 y = hex_EncodeToString (sha256_Sum E archive))"
proof -
  let ?p = "\<lambda>y. b_device_id y = b_device_id x \<and> b_command_id y = b_command_id x \<and> b_status y = ''creating''"
  let ?f = "stored_backup E now c nonce (b_device_id x) (b_command_id x) archive m"
  let ?st = "st\<lparr>device_backups := upd_where ?p ?f (device_backups st)\<rparr>"
  let ?r = "GetDeviceBackup (b_device_id x) (b_command_id x) True ?st"
  have "has_row ?p (device_backups st)" using assms(4,5) by (auto simp: has_row_iff)
  then have save: "SaveDeviceBackup E now (Some c) nonce (b_device_id x) (b_command_id x) archive m st = Inr (?r, ?st)"
    by (simp add: SaveDeviceBackup_def Let_def)
  have dist: "distinct (map b_id (device_backups ?st))" using assms(3) by (simp add: backups_wf_def map_upd_where stored_backup_def)
  have mem: "?f x \<in> set (device_backups ?st)" using assms(4,5) by (auto simp: set_upd_where)
  have flds: "b_id (?f x) = b_id x" "b_device_id (?f x) = b_device_id x" "b_command_id (?f x) = b_command_id x" "b_status (?f x) = ''ready''"
    "b_archive (?f x) = Some (EncryptBytesWithContext c nonce (backup_context (b_device_id x) (b_command_id x)) archive)"
    "b_size_bytes (?f x) = int (length archive)" "b_sha256 (?f x) = hex_EncodeToString (sha256_Sum E archive)"
    by (simp_all add: stored_backup_def)
  have uniq: "y = ?f x" if "y \<in> set (device_backups ?st)" "b_id y = b_id x" for y
    using dist mem that flds(1) unfolding distinct_map by (simp add: inj_on_def)
  have found: "find_row q (device_backups ?st) = Some (?f x)" if q: "q (?f x)" "\<And>y. q y \<Longrightarrow> b_id y = b_id x" for q
  proof (cases "find_row q (device_backups ?st)")
    case None
    with mem q(1) show ?thesis by (auto simp: find_row_None)
  next
    case (Some y)
    with uniq q(2) find_row_Some [OF Some] show ?thesis by blast
  qed
  have g1: "find_row (\<lambda>y. b_device_id y = b_device_id x \<and> b_id y = b_id x) (device_backups ?st) = Some (?f x)"
    by (rule found) (simp_all add: flds)
  have g2: "find_row (\<lambda>y. b_id y = b_id x \<and> b_device_id y = b_device_id x) (device_backups ?st) = Some (?f x)"
    by (rule found) (simp_all add: flds)
  have dec: "DecryptBytesWithContext c (backup_context (b_device_id x) (b_command_id x)) (the (b_archive (?f x))) = Inr archive"
    using DecryptBytes_Encrypt [OF assms(1,2)] by (simp add: flds)
  have "DeviceBackupArchive (Some c) (b_device_id x) (b_id x) ?st = Inr (Some (scanDeviceBackup (?f x), Some archive))"
    using g1 g2 dec by (simp add: DeviceBackupArchive_def GetDeviceBackup_def scanDeviceBackup_def flds)
  with save show ?thesis by (auto simp: scanDeviceBackup_def flds)
qed

lemma PurgeDeviceBackups_keeps_running:
  assumes "x \<in> set (device_backups st)" "b_status x = ''creating''"
  shows "x \<in> set (device_backups (snd (PurgeDeviceBackupsBefore E cutoff st)))"
  using assms by (simp add: PurgeDeviceBackupsBefore_def Let_def set_del_where)

end
