(* ===== verification/Passwords.thy ===== *)
theory Passwords
  imports GoTime
begin

text \<open>
  Hashes of passwords and verification codes (\<open>authn/password.go\<close>): the text of an Argon2id hash with its parameters,
  and its verification, which bounds every parameter it reads. Argon2id itself is a parameter.
\<close>

section \<open>Hashing and verifying\<close>

text \<open>\<open>argon2.IDKey\<close>: password, salt, time, memory, threads and length of the key.\<close>

type_synonym argon2 = "string \<Rightarrow> string \<Rightarrow> int \<Rightarrow> int \<Rightarrow> int \<Rightarrow> nat \<Rightarrow> string"

text \<open>Documented behaviour: the key has the length that was asked for.\<close>

definition argon2_ok :: "argon2 \<Rightarrow> bool" where
  "argon2_ok IDKey \<longleftrightarrow> (\<forall>password salt t m p n. length (IDKey password salt t m p n) = n)"

definition argonTime :: int where "argonTime = 2"
definition argonMemory :: int where "argonMemory = 32 * 1024"
definition argonThreads :: int where "argonThreads = 1"
definition argonKeyLen :: nat where "argonKeyLen = 32"
definition saltLen :: nat where "saltLen = 16"

text \<open>The salt is drawn at random and \<open>None\<close> when that fails.\<close>

definition HashPassword :: "argon2 \<Rightarrow> string option \<Rightarrow> string \<Rightarrow> string res" where
  "HashPassword IDKey random password =
     (if length password < 12 then Inl (ErrMsg ''password must contain at least 12 characters'')
      else if length password > 1024 then Inl (ErrMsg ''password must not exceed 1024 bytes'')
      else case random of
        None \<Rightarrow> Inl (ErrMsg ''rand'')
      | Some salt \<Rightarrow>
          Inr (''$argon2id$v=19$m='' @ dec_digits argonMemory @ '',t='' @ dec_digits argonTime @ '',p='' @ dec_digits argonThreads @ ''$''
            @ b64_EncodeToString std_alphabet salt @ ''$''
            @ b64_EncodeToString std_alphabet (IDKey password salt argonTime argonMemory argonThreads argonKeyLen)))"

text \<open>\<open>strconv.ParseUint(raw, 10, 32)\<close>.\<close>

definition ParseUint32 :: "string \<Rightarrow> int option" where
  "ParseUint32 s = (if s \<noteq> [] \<and> list_all digit_char s \<and> dec_val s < 2 ^ 32 then Some (dec_val s) else None)"

definition parseParam :: "string \<Rightarrow> string \<Rightarrow> int option" where
  "parseParam text prefix = Option.bind (CutPrefix text prefix) ParseUint32"

definition param_in :: "string \<Rightarrow> string \<Rightarrow> int \<Rightarrow> int \<Rightarrow> int option" where
  "param_in text prefix lo hi = (case parseParam text prefix of None \<Rightarrow> None | Some n \<Rightarrow> if n < lo \<or> n > hi then None else Some n)"

definition bytes_in :: "string \<Rightarrow> string option" where
  "bytes_in text = (case b64_DecodeString std_alphabet text of None \<Rightarrow> None
     | Some raw \<Rightarrow> if length raw < 16 \<or> length raw > 64 then None else Some raw)"

definition VerifyPassword :: "argon2 \<Rightarrow> string \<Rightarrow> string \<Rightarrow> bool" where
  "VerifyPassword IDKey encoded password =
     (if length password > 1024 then False
      else case Split (CHR ''$'') encoded of
        [_, kind, version, costs, salt, hash] \<Rightarrow>
          if kind \<noteq> ''argon2id'' \<or> version \<noteq> ''v=19'' then False
          else (case Split (CHR '','') costs of
            [m, t, p] \<Rightarrow>
              (case (param_in m ''m='' (8 * 1024) (256 * 1024), param_in t ''t='' 1 10, param_in p ''p='' 1 16, bytes_in salt, bytes_in hash) of
                 (Some memory, Some timeCost, Some threads, Some salt, Some expected) \<Rightarrow>
                   IDKey password salt timeCost memory threads (length expected) = expected
               | _ \<Rightarrow> False)
          | _ \<Rightarrow> False)
      | _ \<Rightarrow> False)"

section \<open>Lemmas\<close>

lemma split_cons: "c \<notin> set a \<Longrightarrow> Split c (a @ c # b) = a # Split c b"
  by (induction a) auto

lemma split_one: "c \<notin> set a \<Longrightarrow> Split c a = [a]"
  by (induction a) auto

lemma b64_no_dollar: "CHR ''$'' \<notin> set (b64_EncodeToString std_alphabet s)"
proof -
  have "\<forall>x \<in> set (sextets (bytes_of s)). x < 64" using sextets_bound [of "bytes_of s"] bytes_of_bound by auto
  then have "set (b64_EncodeToString std_alphabet s) \<subseteq> set std_alphabet"
    using raw_std.length_alphabet by (auto simp: b64_EncodeToString_def)
  moreover have "CHR ''$'' \<notin> set std_alphabet" by (simp add: std_alphabet_def)
  ultimately show ?thesis by blast
qed

text \<open>A password verifies against its own hash, and only when Argon2id gives the same key for the stored salt.\<close>

lemma VerifyPassword_hash:
  assumes "argon2_ok IDKey" "HashPassword IDKey (Some salt) password = Inr encoded" "length salt = saltLen"
  shows "VerifyPassword IDKey encoded other \<longleftrightarrow> length other \<le> 1024 \<and>
    IDKey other salt argonTime argonMemory argonThreads argonKeyLen = IDKey password salt argonTime argonMemory argonThreads argonKeyLen"
proof -
  let ?h = "IDKey password salt argonTime argonMemory argonThreads argonKeyLen"
  let ?costs = "''m=32768,t=2,p=1''"
  have digits: "dec_digits argonMemory = ''32768''" "dec_digits argonTime = ''2''" "dec_digits argonThreads = ''1''" by code_simp+
  have len: "length password \<le> 1024" and enc: "encoded = [] @ CHR ''$'' # ''argon2id'' @ CHR ''$'' # ''v=19'' @ CHR ''$'' # ?costs @ CHR ''$''
      # b64_EncodeToString std_alphabet salt @ CHR ''$'' # b64_EncodeToString std_alphabet ?h"
    using assms(2) by (auto simp: HashPassword_def digits split: if_splits)
  have parts: "Split (CHR ''$'') encoded = [[], ''argon2id'', ''v=19'', ?costs, b64_EncodeToString std_alphabet salt, b64_EncodeToString std_alphabet ?h]"
    unfolding enc using b64_no_dollar by (subst split_cons, simp)+ (simp add: split_one)
  have costs: "Split (CHR '','') ?costs = [''m=32768'', ''t=2'', ''p=1'']" by simp
  have params: "param_in ''m=32768'' ''m='' (8 * 1024) (256 * 1024) = Some argonMemory" "param_in ''t=2'' ''t='' 1 10 = Some argonTime"
    "param_in ''p=1'' ''p='' 1 16 = Some argonThreads"
    by code_simp+
  have bytes: "bytes_in (b64_EncodeToString std_alphabet salt) = Some salt" "bytes_in (b64_EncodeToString std_alphabet ?h) = Some ?h"
    using assms(1,3) by (simp_all add: bytes_in_def raw_std.decode_encode argon2_ok_def argonKeyLen_def saltLen_def)
  have "length ?h = argonKeyLen" using assms(1) by (simp add: argon2_ok_def)
  then show ?thesis
    unfolding VerifyPassword_def parts using costs params bytes by auto
qed

lemma VerifyPassword_own:
  assumes "argon2_ok IDKey" "HashPassword IDKey (Some salt) password = Inr encoded" "length salt = saltLen"
  shows "VerifyPassword IDKey encoded password"
  using VerifyPassword_hash [OF assms, of password] assms(2) by (auto simp: HashPassword_def split: if_splits)

end
