(* ===== verification/Notifications.thy ===== *)
theory Notifications
  imports Devices Passwords
begin

text \<open>
  Notifications in the store (\<open>store/notifications.go\<close>, \<open>notification_center.go\<close>, \<open>verification.go\<close>,
  \<open>sensitive_data.go\<close>): settings of a user and of a device, the verification of addresses, the inbox, and the queue of
  outgoing deliveries with attempts, leases and dead letters. Deciding what to queue and sending it
  (\<open>httpapi/notifications.go\<close>) is not part of it. The queue is a state machine over its rows; no delivery is
  handed out more often than its attempts allow, to two workers at a time, or after it was sent or given up.
\<close>

section \<open>Tables\<close>

text \<open>
  \<open>model.NotificationSettings\<close>. A row of \<open>notification_settings\<close> is one whose chat, URL and secret are the stored texts;
  \<open>NS_Configured\<close> and \<open>NS_WebhookSecretConfigured\<close> are not columns.
\<close>

record NotificationSettings =
  NS_UserID :: string
  NS_Configured :: bool
  NS_EmailEnabled :: bool
  NS_TelegramEnabled :: bool
  NS_TelegramChatID :: string
  NS_NotifyWarning :: bool
  NS_NotifyCritical :: bool
  NS_NotifyResolved :: bool
  NS_MemoryThresholdPercent :: int
  NS_DiskThresholdPercent :: int
  NS_PacketLossPercent :: int
  NS_LatencyThresholdMS :: int
  NS_RepeatMinutes :: int
  NS_Timezone :: string
  NS_QuietHoursEnabled :: bool
  NS_QuietHoursStart :: string
  NS_QuietHoursEnd :: string
  NS_AlertsPausedUntil :: "time option"
  NS_WebhookEnabled :: bool
  NS_WebhookURL :: string
  NS_WebhookSecret :: string
  NS_WebhookSecretConfigured :: bool
  NS_CreatedAt :: time
  NS_UpdatedAt :: time

text \<open>\<open>model.NotificationDelivery\<close>.\<close>

record NotificationDelivery =
  ND_ID :: string
  ND_UserID :: string
  ND_DeviceID :: string
  ND_AlertID :: string
  ND_Event :: string
  ND_Severity :: string
  ND_Channel :: string
  ND_Status :: string
  ND_Title :: string
  ND_Body :: string
  ND_Destination :: string
  ND_DestinationMasked :: string
  ND_Error :: string
  ND_AttemptCount :: int
  ND_MaxAttempts :: int
  ND_CreatedAt :: time
  ND_LastAttemptAt :: "time option"
  ND_NextAttemptAt :: "time option"
  ND_SentAt :: "time option"

text \<open>A row of \<open>notification_deliveries\<close>; an empty \<open>next_attempt_at\<close> is \<open>None\<close>.\<close>

record delivery =
  q_id :: string
  q_user_id :: string
  q_device_id :: "string option"
  q_alert_id :: string
  q_dedupe_key :: string
  q_event :: string
  q_channel :: string
  q_status :: string
  q_title :: string
  q_body :: string
  q_destination :: string
  q_destination_masked :: string
  q_error :: string
  q_attempt_count :: int
  q_max_attempts :: int
  q_created_at :: time
  q_last_attempt_at :: "time option"
  q_next_attempt_at :: "time option"
  q_lease_expires_at :: "time option"
  q_sent_at :: "time option"
  q_updated_at :: time

text \<open>\<open>model.DeviceNotificationSettings\<close> with its user; \<open>updated_at\<close> is the zero time when there is no row.\<close>

record DeviceNotificationSettings =
  DN_UserID :: string
  DN_DeviceID :: string
  DN_Enabled :: bool
  DN_NotifyWarning :: bool
  DN_NotifyCritical :: bool
  DN_NotifyResolved :: bool
  DN_PausedUntil :: "time option"
  DN_UpdatedAt :: time

record contact_verification =
  cv_user_id :: string
  cv_channel :: string
  cv_destination :: string
  cv_code_hash :: string
  cv_expires_at :: time
  cv_verified_at :: "time option"
  cv_created_at :: time

text \<open>The database with these tables.\<close>

record outbox =
  accts :: accounts
  notification_settings :: "NotificationSettings list"
  notification_deliveries :: "delivery list"
  device_notification_settings :: "DeviceNotificationSettings list"
  contact_verifications :: "contact_verification list"

definition on_acc :: "(store \<Rightarrow> store) \<Rightarrow> outbox \<Rightarrow> outbox" where
  "on_acc f st = st\<lparr>accts := on_base f (accts st)\<rparr>"

definition known_user :: "string \<Rightarrow> outbox \<Rightarrow> bool" where
  "known_user userID st = has_row (\<lambda>u. u_id u = userID) (users (base (accts st)))"

definition known_device :: "string \<Rightarrow> outbox \<Rightarrow> bool" where
  "known_device deviceID st = has_row (\<lambda>d. d_id d = deviceID) (devices (base (accts st)))"

section \<open>Settings of a user\<close>

definition DefaultNotificationSettings :: "string \<Rightarrow> NotificationSettings" where
  "DefaultNotificationSettings userID =
     \<lparr>NS_UserID = userID, NS_Configured = False, NS_EmailEnabled = False, NS_TelegramEnabled = False, NS_TelegramChatID = [],
      NS_NotifyWarning = True, NS_NotifyCritical = True, NS_NotifyResolved = True, NS_MemoryThresholdPercent = 85,
      NS_DiskThresholdPercent = 85, NS_PacketLossPercent = 20, NS_LatencyThresholdMS = 200, NS_RepeatMinutes = 0,
      NS_Timezone = ''UTC'', NS_QuietHoursEnabled = False, NS_QuietHoursStart = ''22:00'', NS_QuietHoursEnd = ''08:00'',
      NS_AlertsPausedUntil = None, NS_WebhookEnabled = False, NS_WebhookURL = [], NS_WebhookSecret = [],
      NS_WebhookSecretConfigured = False, NS_CreatedAt = zero_time, NS_UpdatedAt = zero_time\<rparr>"

definition settings_context :: "string \<Rightarrow> string \<Rightarrow> string" where
  "settings_context userID field = sensitiveContext ''notification_settings'' userID field"

text \<open>The settings and whether there is a row.\<close>

definition GetNotificationSettings :: "env \<Rightarrow> string \<Rightarrow> outbox \<Rightarrow> (NotificationSettings \<times> bool) res" where
  "GetNotificationSettings E userID st =
     (case find_row (\<lambda>s. NS_UserID s = userID) (notification_settings st) of
        None \<Rightarrow> Inr (DefaultNotificationSettings userID, False)
      | Some s \<Rightarrow>
          bindE (decryptSensitive E (settings_context userID ''telegram_chat_id'') (NS_TelegramChatID s)) (\<lambda>telegram.
          bindE (decryptSensitive E (settings_context userID ''webhook_url'') (NS_WebhookURL s)) (\<lambda>webhookURL.
          bindE (decryptSensitive E (settings_context userID ''webhook_secret'') (NS_WebhookSecret s)) (\<lambda>webhookSecret.
            Inr (s\<lparr>NS_TelegramChatID := telegram, NS_WebhookURL := webhookURL, NS_WebhookSecret := webhookSecret,
                   NS_Configured := True, NS_WebhookSecretConfigured := webhookSecret \<noteq> []\<rparr>, True)))))"

definition nullableTime :: "time option \<Rightarrow> time option" where
  "nullableTime t = (if t = Some zero_time then None else t)"

definition merge_settings :: "NotificationSettings \<Rightarrow> NotificationSettings \<Rightarrow> NotificationSettings" where
  "merge_settings old new =
     new\<lparr>NS_WebhookSecret := (if NS_WebhookSecret new \<noteq> [] then NS_WebhookSecret new else NS_WebhookSecret old),
         NS_CreatedAt := NS_CreatedAt old\<rparr>"

definition UpsertNotificationSettings ::
  "env \<Rightarrow> time \<Rightarrow> NotificationSettings \<Rightarrow> outbox \<Rightarrow> NotificationSettings res \<times> outbox" where
  "UpsertNotificationSettings E now s st =
     (let userID = NS_UserID s;
          stored = bindE (encryptSensitive E (settings_context userID ''telegram_chat_id'') (TrimSpace (NS_TelegramChatID s))) (\<lambda>telegram.
            bindE (encryptSensitive E (settings_context userID ''webhook_url'') (TrimSpace (NS_WebhookURL s))) (\<lambda>webhookURL.
            bindE (encryptSensitive E (settings_context userID ''webhook_secret'') (TrimSpace (NS_WebhookSecret s))) (\<lambda>webhookSecret.
            if \<not> known_user userID st then Inl (ErrConstraint ''foreign key'')
            else let row = s\<lparr>NS_TelegramChatID := telegram, NS_WebhookURL := webhookURL, NS_WebhookSecret := webhookSecret,
                   NS_Configured := False, NS_WebhookSecretConfigured := False,
                   NS_AlertsPausedUntil := nullableTime (NS_AlertsPausedUntil s), NS_CreatedAt := now, NS_UpdatedAt := now\<rparr>
              in Inr (st\<lparr>notification_settings := upsert_row NS_UserID merge_settings row (notification_settings st)\<rparr>))))
      in case stored of
           Inl e \<Rightarrow> (Inl e, st)
         | Inr st \<Rightarrow> (bindE (GetNotificationSettings E userID st) (\<lambda>(s, _). Inr s), st))"

section \<open>The queue of deliveries\<close>

definition delivery_context :: "string \<Rightarrow> string \<Rightarrow> string" where
  "delivery_context i field = sensitiveContext ''notification_delivery'' i field"

text \<open>
  \<open>INSERT OR IGNORE\<close>: a taken identifier or deduplication key is ignored, a missing user or device is an error. The result
  is \<open>None\<close> when nothing was inserted.
\<close>

definition CreateNotificationDelivery ::
  "env \<Rightarrow> time \<Rightarrow> NotificationDelivery \<Rightarrow> string \<Rightarrow> outbox \<Rightarrow> (NotificationDelivery option \<times> outbox) res" where
  "CreateNotificationDelivery E now delivery dedupeKey st =
     (let (i, accounts) = draw E ''ntf'' (accts st);
          st = st\<lparr>accts := accounts\<rparr>;
          maxAttempts = (if ND_MaxAttempts delivery \<le> 0 then 5 else ND_MaxAttempts delivery);
          deviceID = (if TrimSpace (ND_DeviceID delivery) \<noteq> [] then Some (ND_DeviceID delivery) else None)
      in bindE (encryptSensitive E (delivery_context i ''title'') (ND_Title delivery)) (\<lambda>title.
         bindE (encryptSensitive E (delivery_context i ''body'') (ND_Body delivery)) (\<lambda>body.
         bindE (encryptSensitive E (delivery_context i ''destination'') (ND_Destination delivery)) (\<lambda>destination.
           if has_row (\<lambda>q. q_id q = i \<or> q_dedupe_key q = dedupeKey) (notification_deliveries st) then Inr (None, st)
           else if \<not> known_user (ND_UserID delivery) st \<or> (case deviceID of None \<Rightarrow> False | Some d \<Rightarrow> \<not> known_device d st)
           then Inl (ErrConstraint ''foreign key'')
           else let row = \<lparr>q_id = i, q_user_id = ND_UserID delivery, q_device_id = deviceID, q_alert_id = ND_AlertID delivery,
                  q_dedupe_key = dedupeKey, q_event = ND_Event delivery, q_channel = ND_Channel delivery, q_status = ''queued'',
                  q_title = title, q_body = body, q_destination = destination, q_destination_masked = ND_DestinationMasked delivery,
                  q_error = [], q_attempt_count = 0, q_max_attempts = maxAttempts, q_created_at = now, q_last_attempt_at = None,
                  q_next_attempt_at = Some now, q_lease_expires_at = None, q_sent_at = None, q_updated_at = now\<rparr>
             in Inr (Some (delivery\<lparr>ND_ID := i, ND_Status := ''queued'', ND_MaxAttempts := maxAttempts, ND_CreatedAt := now,
                        ND_NextAttemptAt := Some now\<rparr>),
                     st\<lparr>notification_deliveries := notification_deliveries st @ [row]\<rparr>)))))"

definition CompleteNotificationDelivery ::
  "time \<Rightarrow> string \<Rightarrow> string \<Rightarrow> string \<Rightarrow> time option \<Rightarrow> outbox \<Rightarrow> outbox res" where
  "CompleteNotificationDelivery now i status errorMessage nextAttemptAt st =
     (let status = TrimSpace status; rows = (\<lambda>q. q_id q = i \<and> q_status q = ''sending'') in
      if status \<noteq> ''sent'' \<and> status \<noteq> ''retry'' \<and> status \<noteq> ''dead_letter'' then Inl (ErrMsg ''invalid notification delivery status'')
      else if status = ''retry'' \<and> nextAttemptAt = None
      then Inl (ErrMsg ''retry notification delivery requires next attempt time'')
      else if \<not> has_row rows (notification_deliveries st) then Inl (ErrMsg ''notification delivery is not claimed'')
      else Inr (st\<lparr>notification_deliveries := upd_where rows
        (\<lambda>q. q\<lparr>q_status := status, q_error := TrimSpace errorMessage, q_sent_at := (if status = ''sent'' then Some now else None),
               q_next_attempt_at := (if status = ''sent'' then None else nextAttemptAt), q_lease_expires_at := None, q_updated_at := now\<rparr>)
        (notification_deliveries st)\<rparr>))"

text \<open>The Russian error of an exhausted delivery, in UTF-8.\<close>

definition exhausted_text :: string where
  "exhausted_text = of_bytes
     [208,159,208,190,208,191,209,139,209,130,208,186,208,184,32,208,180,208,190,209,129,209,130,208,176,208,
      178,208,186,208,184,32,208,184,209,129,209,135,208,181,209,128,208,191,208,176,208,189,209,139,46,32,208,
      159,209,128,208,190,208,178,208,181,209,128,209,140,209,130,208,181,32,208,189,208,176,209,129,209,130,
      209,128,208,190,208,185,208,186,208,184,32,208,186,208,176,208,189,208,176,208,187,208,176,46]"

definition exhausted :: "env \<Rightarrow> time \<Rightarrow> delivery \<Rightarrow> bool" where
  "exhausted E now q \<longleftrightarrow> q_status q \<in> set [''retry'', ''sending''] \<and> q_attempt_count q \<ge> q_max_attempts q \<and>
     (q_status q = ''retry'' \<or> (case q_lease_expires_at q of None \<Rightarrow> True | Some t \<Rightarrow> ts_le E t now))"

definition give_up :: "time \<Rightarrow> delivery \<Rightarrow> delivery" where
  "give_up now q = q\<lparr>q_status := ''dead_letter'', q_error := (if q_error q = [] then exhausted_text else q_error q),
     q_next_attempt_at := None, q_lease_expires_at := None, q_updated_at := now\<rparr>"

definition ready_delivery :: "env \<Rightarrow> time \<Rightarrow> delivery \<Rightarrow> bool" where
  "ready_delivery E now q \<longleftrightarrow> q_attempt_count q < q_max_attempts q \<and>
     ((q_status q \<in> set [''queued'', ''retry''] \<and> (case q_next_attempt_at q of None \<Rightarrow> True | Some t \<Rightarrow> ts_le E t now)) \<or>
      (q_status q = ''sending'' \<and> (case q_lease_expires_at q of None \<Rightarrow> False | Some t \<Rightarrow> ts_le E t now)))"

definition claim_row :: "time \<Rightarrow> time \<Rightarrow> delivery \<Rightarrow> delivery" where
  "claim_row now lease q = q\<lparr>q_status := ''sending'', q_attempt_count := q_attempt_count q + 1, q_last_attempt_at := Some now,
     q_lease_expires_at := Some lease, q_next_attempt_at := None, q_updated_at := now\<rparr>"

definition scanNotificationDelivery :: "delivery \<Rightarrow> NotificationDelivery" where
  "scanNotificationDelivery q =
     \<lparr>ND_ID = q_id q, ND_UserID = q_user_id q, ND_DeviceID = (case q_device_id q of None \<Rightarrow> [] | Some d \<Rightarrow> d), ND_AlertID = q_alert_id q,
      ND_Event = q_event q, ND_Severity = [], ND_Channel = q_channel q, ND_Status = q_status q, ND_Title = q_title q, ND_Body = q_body q,
      ND_Destination = q_destination q, ND_DestinationMasked = q_destination_masked q, ND_Error = q_error q,
      ND_AttemptCount = q_attempt_count q, ND_MaxAttempts = q_max_attempts q, ND_CreatedAt = q_created_at q,
      ND_LastAttemptAt = q_last_attempt_at q, ND_NextAttemptAt = q_next_attempt_at q, ND_SentAt = q_sent_at q\<rparr>"

definition decryptNotificationDelivery :: "env \<Rightarrow> NotificationDelivery \<Rightarrow> NotificationDelivery res" where
  "decryptNotificationDelivery E d =
     bindE (decryptSensitive E (delivery_context (ND_ID d) ''title'') (ND_Title d)) (\<lambda>title.
     bindE (decryptSensitive E (delivery_context (ND_ID d) ''body'') (ND_Body d)) (\<lambda>body.
     bindE (decryptSensitive E (delivery_context (ND_ID d) ''destination'') (ND_Destination d)) (\<lambda>destination.
       Inr (d\<lparr>ND_Title := title, ND_Body := body, ND_Destination := destination\<rparr>))))"

text \<open>The loop over the selected identifiers.\<close>

fun claim_each :: "env \<Rightarrow> time \<Rightarrow> time \<Rightarrow> string list \<Rightarrow> delivery list \<Rightarrow> (NotificationDelivery list \<times> delivery list) res" where
  "claim_each E now lease [] rows = Inr ([], rows)"
| "claim_each E now lease (i # ids) rows =
     (if \<not> has_row (\<lambda>q. q_id q = i \<and> ready_delivery E now q) rows then claim_each E now lease ids rows
      else let rows = upd_where (\<lambda>q. q_id q = i \<and> ready_delivery E now q) (claim_row now lease) rows
        in case find_row (\<lambda>q. q_id q = i) rows of
             None \<Rightarrow> Inl ErrNoRows
           | Some q \<Rightarrow>
               bindE (decryptNotificationDelivery E (scanNotificationDelivery q)) (\<lambda>d.
               bindE (claim_each E now lease ids rows) (\<lambda>(ds, rows). Inr (d # ds, rows))))"

definition claimNotificationDeliveries ::
  "env \<Rightarrow> string \<Rightarrow> time \<Rightarrow> time \<Rightarrow> int \<Rightarrow> outbox \<Rightarrow> (NotificationDelivery list \<times> outbox) res" where
  "claimNotificationDeliveries E onlyID now leaseDuration limit st =
     (let limit = (if limit \<le> 0 \<or> limit > 100 then 10 else limit);
          lease = now + (if leaseDuration \<le> 0 then 3 * minute else leaseDuration);
          rows = upd_where (exhausted E now) (give_up now) (notification_deliveries st);
          ids = map q_id (take (nat limit) (order_by (\<lambda>x y. ts_le E (q_created_at x) (q_created_at y))
            (filter (\<lambda>q. ready_delivery E now q \<and> (onlyID \<noteq> [] \<longrightarrow> q_id q = onlyID)) rows)))
      in bindE (claim_each E now lease ids rows) (\<lambda>(claimed, rows). Inr (claimed, st\<lparr>notification_deliveries := rows\<rparr>)))"

definition ClaimNotificationDelivery ::
  "env \<Rightarrow> string \<Rightarrow> time \<Rightarrow> time \<Rightarrow> outbox \<Rightarrow> (NotificationDelivery option \<times> outbox) res" where
  "ClaimNotificationDelivery E i now leaseDuration st =
     bindE (claimNotificationDeliveries E (TrimSpace i) now leaseDuration 1 st) (\<lambda>(ds, st).
       Inr (case ds of [] \<Rightarrow> None | d # _ \<Rightarrow> Some d, st))"

definition ClaimNotificationDeliveries ::
  "env \<Rightarrow> time \<Rightarrow> time \<Rightarrow> int \<Rightarrow> outbox \<Rightarrow> (NotificationDelivery list \<times> outbox) res" where
  "ClaimNotificationDeliveries E now leaseDuration limit st = claimNotificationDeliveries E [] now leaseDuration limit st"

definition PurgeNotificationDeliveriesBefore :: "env \<Rightarrow> time \<Rightarrow> outbox \<Rightarrow> nat \<times> outbox" where
  "PurgeNotificationDeliveriesBefore E cutoff st =
     (let rows = (\<lambda>q. q_status q \<in> set [''sent'', ''dead_letter'', ''failed''] \<and> \<not> ts_le E cutoff (q_updated_at q)) in
      (count_where rows (notification_deliveries st),
       st\<lparr>notification_deliveries := del_where rows (notification_deliveries st)\<rparr>))"

definition LatestNotificationDelivery ::
  "env \<Rightarrow> string \<Rightarrow> string \<Rightarrow> string \<Rightarrow> outbox \<Rightarrow> (NotificationDelivery option) res" where
  "LatestNotificationDelivery E userID alertID channel st =
     (case order_by (\<lambda>x y. ts_le E (q_created_at y) (q_created_at x))
        (filter (\<lambda>q. q_user_id q = userID \<and> q_alert_id q = alertID \<and> q_channel q = channel \<and> q_event q \<in> set [''active'', ''repeat''])
          (notification_deliveries st)) of
        [] \<Rightarrow> Inr None
      | q # _ \<Rightarrow> bindE (decryptNotificationDelivery E (scanNotificationDelivery q)) (\<lambda>d. Inr (Some d)))"

text \<open>\<open>NotificationListOptions\<close> with its fields in order; the severity comes from the alert of the delivery.\<close>

definition ListNotificationDeliveries ::
  "env \<Rightarrow> string \<Rightarrow> string \<Rightarrow> string \<Rightarrow> string \<Rightarrow> string \<Rightarrow> string \<Rightarrow> int \<Rightarrow> outbox \<Rightarrow> (NotificationDelivery list) res" where
  "ListNotificationDeliveries E userID deviceID severity event channel status limit st =
     (let limit = (if limit \<le> 0 \<or> limit > 200 then 50 else limit);
          severity_of = (\<lambda>q. map_option a_severity (find_row (\<lambda>a. a_id a = q_alert_id q) (alerts (base (accts st)))));
          rows = take (nat limit) (order_by (\<lambda>x y. ts_le E (q_created_at y) (q_created_at x))
            (filter (\<lambda>q. q_user_id q = userID \<and> (deviceID \<noteq> [] \<longrightarrow> q_device_id q = Some deviceID) \<and>
               (severity \<noteq> [] \<longrightarrow> severity_of q = Some severity) \<and> (event \<noteq> [] \<longrightarrow> q_event q = event) \<and>
               (channel \<noteq> [] \<longrightarrow> q_channel q = channel) \<and> (status \<noteq> [] \<longrightarrow> q_status q = status)) (notification_deliveries st)))
      in foldE (\<lambda>q ds. bindE (decryptNotificationDelivery E (scanNotificationDelivery q
             \<lparr>ND_Severity := (case severity_of q of None \<Rightarrow> [] | Some s \<Rightarrow> s)\<rparr>)) (\<lambda>d. Inr (ds @ [d]))) rows [])"

section \<open>The inbox\<close>

text \<open>\<open>INSERT OR IGNORE\<close>; whether a row was inserted.\<close>

definition CreateInboxNotification ::
  "env \<Rightarrow> time \<Rightarrow> inbox_notification \<Rightarrow> string \<Rightarrow> outbox \<Rightarrow> (bool \<times> outbox) res" where
  "CreateInboxNotification E now n dedupeKey st =
     (let (i, accounts) = draw E ''inb'' (accts st); st = st\<lparr>accts := accounts\<rparr>;
          row = n\<lparr>in_id := i, in_dedupe_key := dedupeKey, in_read_at := None, in_created_at := now\<rparr>
      in if has_row (\<lambda>x. in_id x = i \<or> in_dedupe_key x = dedupeKey) (inbox_notifications (base (accts st))) then Inr (False, st)
         else if \<not> known_user (in_user_id n) st \<or> (case in_device_id n of None \<Rightarrow> False | Some d \<Rightarrow> \<not> known_device d st)
         then Inl (ErrConstraint ''foreign key'')
         else Inr (True, on_acc (\<lambda>b. b\<lparr>inbox_notifications := inbox_notifications b @ [row]\<rparr>) st))"

definition ListInboxNotifications :: "env \<Rightarrow> string \<Rightarrow> int \<Rightarrow> outbox \<Rightarrow> inbox_notification list \<times> nat" where
  "ListInboxNotifications E userID limit st =
     (let limit = (if limit \<le> 0 \<or> limit > 100 then 30 else limit); rows = inbox_notifications (base (accts st))
      in (take (nat limit) (order_by (\<lambda>x y. ts_le E (in_created_at y) (in_created_at x)) (filter (\<lambda>n. in_user_id n = userID) rows)),
          count_where (\<lambda>n. in_user_id n = userID \<and> in_read_at n = None) rows))"

definition read_inbox :: "time \<Rightarrow> (inbox_notification \<Rightarrow> bool) \<Rightarrow> outbox \<Rightarrow> outbox" where
  "read_inbox now rows = on_acc (\<lambda>b. b\<lparr>inbox_notifications := upd_where rows
     (\<lambda>n. n\<lparr>in_read_at := (case in_read_at n of None \<Rightarrow> Some now | Some t \<Rightarrow> Some t)\<rparr>) (inbox_notifications b)\<rparr>)"

definition MarkInboxNotificationRead :: "time \<Rightarrow> string \<Rightarrow> string \<Rightarrow> outbox \<Rightarrow> bool \<times> outbox" where
  "MarkInboxNotificationRead now userID i st =
     (let rows = (\<lambda>n. in_id n = i \<and> in_user_id n = userID) in
      (has_row rows (inbox_notifications (base (accts st))), read_inbox now rows st))"

definition MarkAllInboxNotificationsRead :: "time \<Rightarrow> string \<Rightarrow> outbox \<Rightarrow> outbox" where
  "MarkAllInboxNotificationsRead now userID st = read_inbox now (\<lambda>n. in_user_id n = userID) st"

section \<open>Settings of a device\<close>

definition GetDeviceNotificationSettings :: "string \<Rightarrow> string \<Rightarrow> outbox \<Rightarrow> DeviceNotificationSettings \<times> bool" where
  "GetDeviceNotificationSettings userID deviceID st =
     (case find_row (\<lambda>s. DN_UserID s = userID \<and> DN_DeviceID s = deviceID) (device_notification_settings st) of
        None \<Rightarrow> (\<lparr>DN_UserID = userID, DN_DeviceID = deviceID, DN_Enabled = True, DN_NotifyWarning = True, DN_NotifyCritical = True,
                  DN_NotifyResolved = True, DN_PausedUntil = None, DN_UpdatedAt = zero_time\<rparr>, False)
      | Some s \<Rightarrow> (s, True))"

definition UpsertDeviceNotificationSettings ::
  "time \<Rightarrow> string \<Rightarrow> DeviceNotificationSettings \<Rightarrow> outbox \<Rightarrow> (DeviceNotificationSettings \<times> outbox) res" where
  "UpsertDeviceNotificationSettings now userID s st =
     (if \<not> known_user userID st \<or> \<not> known_device (DN_DeviceID s) st then Inl (ErrConstraint ''foreign key'')
      else let row = s\<lparr>DN_UserID := userID, DN_PausedUntil := nullableTime (DN_PausedUntil s), DN_UpdatedAt := now\<rparr>;
               st = st\<lparr>device_notification_settings := upsert_row (\<lambda>s. (DN_UserID s, DN_DeviceID s)) (\<lambda>_ new. new) row
                 (device_notification_settings st)\<rparr>
        in Inr (fst (GetDeviceNotificationSettings userID (DN_DeviceID s) st), st))"

section \<open>Verification of addresses\<close>

definition verification_context :: "string \<Rightarrow> string \<Rightarrow> string" where
  "verification_context userID channel = sensitiveContext ''contact_verification'' (userID @ '':'' @ channel) ''destination''"

definition VerificationCodeHash :: "argon2 \<Rightarrow> string option \<Rightarrow> string \<Rightarrow> string res" where
  "VerificationCodeHash IDKey random code = HashPassword IDKey random (''verification:'' @ TrimSpace code)"

definition BeginContactVerification ::
  "env \<Rightarrow> time \<Rightarrow> string \<Rightarrow> string \<Rightarrow> string \<Rightarrow> string \<Rightarrow> time \<Rightarrow> outbox \<Rightarrow> outbox res" where
  "BeginContactVerification E now userID channel destination codeHash expiresAt st =
     bindE (encryptSensitive E (verification_context userID channel) (TrimSpace destination)) (\<lambda>encrypted.
       if \<not> known_user userID st then Inl (ErrConstraint ''foreign key'')
       else let row = \<lparr>cv_user_id = userID, cv_channel = channel, cv_destination = encrypted, cv_code_hash = codeHash,
              cv_expires_at = expiresAt, cv_verified_at = None, cv_created_at = now\<rparr>
         in Inr (st\<lparr>contact_verifications := upsert_row (\<lambda>c. (cv_user_id c, cv_channel c)) (\<lambda>_ new. new) row (contact_verifications st)\<rparr>))"

text \<open>The confirmed destination.\<close>

definition ConfirmContactVerification ::
  "env \<Rightarrow> argon2 \<Rightarrow> time \<Rightarrow> string \<Rightarrow> string \<Rightarrow> string \<Rightarrow> outbox \<Rightarrow> (string option \<times> outbox) res" where
  "ConfirmContactVerification E IDKey now userID channel code st =
     (case find_row (\<lambda>c. cv_user_id c = userID \<and> cv_channel c = channel \<and> cv_verified_at c = None) (contact_verifications st) of
        None \<Rightarrow> Inr (None, st)
      | Some c \<Rightarrow>
          bindE (decryptSensitive E (verification_context userID channel) (cv_destination c)) (\<lambda>destination.
            if now > cv_expires_at c \<or> \<not> VerifyPassword IDKey (cv_code_hash c) (''verification:'' @ TrimSpace code) then Inr (None, st)
            else Inr (Some destination, st\<lparr>contact_verifications :=
              upd_where (\<lambda>c. cv_user_id c = userID \<and> cv_channel c = channel) (\<lambda>c. c\<lparr>cv_verified_at := Some now\<rparr>) (contact_verifications st)\<rparr>)))"

text \<open>With an error the code still returns a comparison, with the empty text; its callers ignore the error.\<close>

definition ContactVerified :: "env \<Rightarrow> string \<Rightarrow> string \<Rightarrow> string \<Rightarrow> outbox \<Rightarrow> bool" where
  "ContactVerified E userID channel destination st =
     (case find_row (\<lambda>c. cv_user_id c = userID \<and> cv_channel c = channel \<and> cv_verified_at c \<noteq> None) (contact_verifications st) of
        None \<Rightarrow> False
      | Some c \<Rightarrow> TrimSpace destination = (case decryptSensitive E (verification_context userID channel) (cv_destination c) of
          Inl _ \<Rightarrow> [] | Inr d \<Rightarrow> d))"

section \<open>Encrypting old rows\<close>

text \<open>\<open>MigrateSensitiveData\<close>: the loops are not in a transaction, so what was written before an error stays.\<close>

definition encrypt_settings :: "env \<Rightarrow> NotificationSettings \<Rightarrow> NotificationSettings res" where
  "encrypt_settings E s =
     bindE (encryptSensitive E (settings_context (NS_UserID s) ''telegram_chat_id'') (NS_TelegramChatID s)) (\<lambda>telegram.
     bindE (encryptSensitive E (settings_context (NS_UserID s) ''webhook_url'') (NS_WebhookURL s)) (\<lambda>webhookURL.
     bindE (encryptSensitive E (settings_context (NS_UserID s) ''webhook_secret'') (NS_WebhookSecret s)) (\<lambda>webhookSecret.
       Inr (s\<lparr>NS_TelegramChatID := telegram, NS_WebhookURL := webhookURL, NS_WebhookSecret := webhookSecret\<rparr>))))"

definition encrypt_delivery :: "env \<Rightarrow> delivery \<Rightarrow> delivery res" where
  "encrypt_delivery E q =
     bindE (encryptSensitive E (delivery_context (q_id q) ''title'') (q_title q)) (\<lambda>title.
     bindE (encryptSensitive E (delivery_context (q_id q) ''body'') (q_body q)) (\<lambda>body.
     bindE (encryptSensitive E (delivery_context (q_id q) ''destination'') (q_destination q)) (\<lambda>destination.
       Inr (q\<lparr>q_title := title, q_body := body, q_destination := destination\<rparr>))))"

definition encrypt_verification :: "env \<Rightarrow> contact_verification \<Rightarrow> contact_verification res" where
  "encrypt_verification E c =
     bindE (encryptSensitive E (verification_context (cv_user_id c) (cv_channel c)) (cv_destination c)) (\<lambda>destination.
       Inr (c\<lparr>cv_destination := destination\<rparr>))"

text \<open>Rewrites the rows in order, up to the first error.\<close>

fun migrate_rows :: "('r \<Rightarrow> 'r res) \<Rightarrow> 'r list \<Rightarrow> unit res \<times> 'r list" where
  "migrate_rows f [] = (Inr (), [])"
| "migrate_rows f (r # rs) =
     (case f r of
        Inl e \<Rightarrow> (Inl e, r # rs)
      | Inr r' \<Rightarrow> (case migrate_rows f rs of (u, rs') \<Rightarrow> (u, r' # rs')))"

definition MigrateSensitiveData :: "env \<Rightarrow> outbox \<Rightarrow> unit res \<times> outbox" where
  "MigrateSensitiveData E st =
     (if seal E = None then (Inl (ErrMsg ''sensitive data cipher is not configured''), st)
      else case migrate_rows (encrypt_settings E) (notification_settings st) of
        (Inl e, rows) \<Rightarrow> (Inl e, st\<lparr>notification_settings := rows\<rparr>)
      | (Inr _, settings) \<Rightarrow>
          (case migrate_rows (encrypt_delivery E) (notification_deliveries st) of
             (Inl e, rows) \<Rightarrow> (Inl e, st\<lparr>notification_settings := settings, notification_deliveries := rows\<rparr>)
           | (Inr _, deliveries) \<Rightarrow>
               (case migrate_rows (encrypt_verification E) (contact_verifications st) of
                  (u, verifications) \<Rightarrow> (u, st\<lparr>notification_settings := settings, notification_deliveries := deliveries,
                     contact_verifications := verifications\<rparr>))))"

section \<open>The queue as a state machine\<close>

text \<open>The steps of the queue with the deliveries each hands out, and runs of them with all that was handed out.\<close>

inductive queue_step :: "env \<Rightarrow> outbox \<Rightarrow> string list \<Rightarrow> outbox \<Rightarrow> bool" for E where
  Create: "CreateNotificationDelivery E now d key st = Inr (r, st') \<Longrightarrow> queue_step E st [] st'"
| Claim: "claimNotificationDeliveries E only now lease limit st = Inr (ds, st') \<Longrightarrow> queue_step E st (map ND_ID ds) st'"
| Complete: "CompleteNotificationDelivery now i status e next st = Inr st' \<Longrightarrow> queue_step E st [] st'"

inductive queue_run :: "env \<Rightarrow> outbox \<Rightarrow> string list \<Rightarrow> outbox \<Rightarrow> bool" for E where
  Start: "queue_run E st [] st"
| Step: "queue_run E st ids st' \<Longrightarrow> queue_step E st' ids' st'' \<Longrightarrow> queue_run E st (ids @ ids') st''"

definition queue_wf :: "outbox \<Rightarrow> bool" where
  "queue_wf st \<longleftrightarrow> distinct (map q_id (notification_deliveries st)) \<and> distinct (map q_dedupe_key (notification_deliveries st))"

definition closed_delivery :: "string \<Rightarrow> bool" where
  "closed_delivery status \<longleftrightarrow> status \<in> set [''sent'', ''dead_letter'', ''failed'']"

text \<open>\<open>q'\<close> is \<open>q\<close> after it was handed out \<open>n\<close> times.\<close>

definition handed_out :: "nat \<Rightarrow> delivery \<Rightarrow> delivery \<Rightarrow> bool" where
  "handed_out n q q' \<longleftrightarrow> q_id q' = q_id q \<and> q_dedupe_key q' = q_dedupe_key q \<and> q_title q' = q_title q \<and> q_body q' = q_body q \<and>
     q_destination q' = q_destination q \<and> q_channel q' = q_channel q \<and> q_max_attempts q' = q_max_attempts q \<and>
     q_attempt_count q' = q_attempt_count q + int n \<and> (0 < n \<longrightarrow> q_attempt_count q' \<le> q_max_attempts q') \<and>
     (closed_delivery (q_status q) \<longrightarrow> q' = q)"

lemma handed_out_refl: "handed_out 0 q q"
  by (simp add: handed_out_def)

lemma handed_out_trans:
  assumes "handed_out m q q'" "handed_out n q' q''"
  shows "handed_out (m + n) q q''"
  using assms by (auto simp: handed_out_def)

lemma handed_out_claim:
  assumes "ready_delivery E now q"
  shows "handed_out 1 q (claim_row now lease q)"
proof -
  have "\<not> closed_delivery (q_status q)" "q_attempt_count q < q_max_attempts q"
    using assms by (auto simp: ready_delivery_def closed_delivery_def)
  then show ?thesis by (simp add: handed_out_def claim_row_def)
qed

lemma handed_out_give_up:
  assumes "exhausted E now q"
  shows "handed_out 0 q (give_up now q)"
proof -
  have "\<not> closed_delivery (q_status q)" using assms by (auto simp: exhausted_def closed_delivery_def)
  then show ?thesis by (simp add: handed_out_def give_up_def)
qed

lemma claim_row_fields [simp]: "q_id (claim_row now lease q) = q_id q" "q_dedupe_key (claim_row now lease q) = q_dedupe_key q"
  by (simp_all add: claim_row_def)

lemma give_up_fields [simp]: "q_id (give_up now q) = q_id q" "q_dedupe_key (give_up now q) = q_dedupe_key q"
  by (simp_all add: give_up_def)

interpretation deliveries_table: keyed_table q_id .

text \<open>A loop over identifiers of ready rows claims each of them once.\<close>

lemma decrypt_ID: "decryptNotificationDelivery E d = Inr d' \<Longrightarrow> ND_ID d' = ND_ID d"
  by (auto simp: decryptNotificationDelivery_def bindE_eq_Inr)

lemma claim_each_spec:
  assumes "claim_each E now lease ids rows = Inr (ds, rows')" "distinct ids" "distinct (map q_id rows)"
    and "\<forall>i \<in> set ids. has_row (\<lambda>q. q_id q = i \<and> ready_delivery E now q) rows"
  shows "map ND_ID ds = ids \<and> rows' = upd_where (\<lambda>q. q_id q \<in> set ids \<and> ready_delivery E now q) (claim_row now lease) rows \<and>
    (\<forall>d \<in> set ds. \<exists>q \<in> set rows. q_id q = ND_ID d \<and> ready_delivery E now q \<and>
      decryptNotificationDelivery E (scanNotificationDelivery (claim_row now lease q)) = Inr d)"
  using assms
proof (induction ids arbitrary: rows ds)
  case Nil
  then show ?case by (simp add: upd_where_def)
next
  case (Cons i ids)
  let ?rows = "upd_where (\<lambda>q. q_id q = i \<and> ready_delivery E now q) (claim_row now lease) rows"
  obtain q where q: "q \<in> set rows" "q_id q = i" "ready_delivery E now q" using Cons.prems(4) by (auto simp: has_row_iff)
  have dist: "distinct (map q_id ?rows)" using Cons.prems(3) by (simp add: map_upd_where)
  have "claim_row now lease q \<in> set ?rows" using q by (auto simp: set_upd_where)
  moreover have "q_id (claim_row now lease q) = i" using q(2) by simp
  ultimately have found: "find_row (\<lambda>q. q_id q = i) ?rows = Some (claim_row now lease q)"
    using deliveries_table.find_key [OF dist [folded deliveries_table.wf_def]] by blast
  obtain d ds' where d: "decryptNotificationDelivery E (scanNotificationDelivery (claim_row now lease q)) = Inr d" "ds = d # ds'"
    "claim_each E now lease ids ?rows = Inr (ds', rows')"
    using Cons.prems(1,4) found by (auto simp: Let_def bindE_eq_Inr)
  have other: "q_id x \<noteq> i \<Longrightarrow> x \<in> set ?rows \<longleftrightarrow> x \<in> set rows" for x by (auto simp: set_upd_where split: if_splits)
  have "\<forall>j \<in> set ids. has_row (\<lambda>q. q_id q = j \<and> ready_delivery E now q) ?rows"
    using Cons.prems(2,4) other by (fastforce simp: has_row_iff)
  moreover have "distinct ids" using Cons.prems(2) by simp
  ultimately have ih: "map ND_ID ds' = ids" "rows' = upd_where (\<lambda>q. q_id q \<in> set ids \<and> ready_delivery E now q) (claim_row now lease) ?rows"
    "\<forall>d \<in> set ds'. \<exists>q \<in> set ?rows. q_id q = ND_ID d \<and> ready_delivery E now q \<and>
      decryptNotificationDelivery E (scanNotificationDelivery (claim_row now lease q)) = Inr d"
    using Cons.IH [OF d(3) _ dist] by simp_all
  have "upd_where (\<lambda>q. q_id q \<in> set ids \<and> ready_delivery E now q) (claim_row now lease) ?rows =
      upd_where (\<lambda>q. q_id q \<in> set (i # ids) \<and> ready_delivery E now q) (claim_row now lease) rows"
    using Cons.prems(2) by (auto simp: upd_where_def)
  moreover have "ND_ID d = i" using decrypt_ID [OF d(1)] q(2) by (simp add: scanNotificationDelivery_def)
  moreover have "\<exists>q \<in> set rows. q_id q = ND_ID e \<and> ready_delivery E now q \<and>
      decryptNotificationDelivery E (scanNotificationDelivery (claim_row now lease q)) = Inr e" if e: "e \<in> set ds'" for e
  proof -
    have "ND_ID e \<noteq> i" using e ih(1) Cons.prems(2) by auto
    with ih(3) other e show ?thesis by metis
  qed
  ultimately show ?case using ih d q by auto
qed

lemma claim_spec:
  assumes "claimNotificationDeliveries E only now leaseDuration limit st = Inr (ds, st')" "queue_wf st"
  obtains lease ids where "lease = now + (if leaseDuration \<le> 0 then 3 * minute else leaseDuration)"
    "map ND_ID ds = ids" "distinct ids" "length ids \<le> 100"
    "notification_deliveries st' = map (\<lambda>q. if exhausted E now q then give_up now q
       else if q_id q \<in> set ids then claim_row now lease q else q) (notification_deliveries st)"
    "\<forall>d \<in> set ds. \<exists>q \<in> set (notification_deliveries st). q_id q = ND_ID d \<and> ready_delivery E now q \<and>
       decryptNotificationDelivery E (scanNotificationDelivery (claim_row now lease q)) = Inr d"
    "\<forall>q \<in> set (notification_deliveries st). q_id q \<in> set ids \<longrightarrow> ready_delivery E now q"
proof -
  define lease where "lease = now + (if leaseDuration \<le> 0 then 3 * minute else leaseDuration)"
  define rows where "rows = upd_where (exhausted E now) (give_up now) (notification_deliveries st)"
  define picked where "picked = take (nat (if limit \<le> 0 \<or> limit > 100 then 10 else limit))
    (order_by (\<lambda>x y. ts_le E (q_created_at x) (q_created_at y)) (filter (\<lambda>q. ready_delivery E now q \<and> (only \<noteq> [] \<longrightarrow> q_id q = only)) rows))"
  define ids where "ids = map q_id picked"
  obtain rows' where c: "claim_each E now lease ids rows = Inr (ds, rows')" "st' = st\<lparr>notification_deliveries := rows'\<rparr>"
    using assms(1) unfolding claimNotificationDeliveries_def Let_def lease_def rows_def ids_def picked_def by (auto simp: bindE_eq_Inr)
  have dr: "distinct (map q_id rows)" using assms(2) by (simp add: rows_def queue_wf_def map_upd_where)
  then have di: "distinct ids" unfolding ids_def picked_def
    unfolding take_map [symmetric] by (intro distinct_take) (simp add: distinct_map_filter)
  have picked: "set picked \<subseteq> {q \<in> set rows. ready_delivery E now q}"
    unfolding picked_def using set_take_subset by fastforce
  then have has: "\<forall>i \<in> set ids. has_row (\<lambda>q. q_id q = i \<and> ready_delivery E now q) rows" by (auto simp: ids_def has_row_iff)
  note s = claim_each_spec [OF c(1) di dr has]
  have alive: "ready_delivery E now q" if q: "q \<in> set rows" "q_id q \<in> set ids" for q
  proof -
    obtain p where "p \<in> set picked" "q_id p = q_id q" using q(2) by (auto simp: ids_def)
    with picked deliveries_table.wf_unique [OF dr [folded deliveries_table.wf_def]] q(1) show ?thesis by blast
  qed
  have old: "q \<in> set (notification_deliveries st)" if "q \<in> set rows" "ready_delivery E now q" for q
    using that by (auto simp: rows_def set_upd_where give_up_def ready_delivery_def split: if_splits)
  have noexh: "\<not> ready_delivery E now q" if "exhausted E now q" for q using that by (auto simp: exhausted_def ready_delivery_def)
  have gone: "q_id q \<notin> set ids" if "q \<in> set (notification_deliveries st)" "exhausted E now q" for q
  proof
    assume "q_id q \<in> set ids"
    moreover have "give_up now q \<in> set rows" using that by (auto simp: rows_def set_upd_where)
    ultimately have "ready_delivery E now (give_up now q)" using alive [of "give_up now q"] by simp
    then show False by (simp add: ready_delivery_def give_up_def)
  qed
  have "rows' = upd_where (\<lambda>q. q_id q \<in> set ids \<and> ready_delivery E now q) (claim_row now lease) rows" using s by blast
  also have "\<dots> = upd_where (\<lambda>q. q_id q \<in> set ids) (claim_row now lease) rows"
    unfolding upd_where_def by (rule map_cong) (use alive in auto)
  also have "\<dots> = map (\<lambda>q. if exhausted E now q then give_up now q
       else if q_id q \<in> set ids then claim_row now lease q else q) (notification_deliveries st)"
    unfolding rows_def upd_where_def map_map by (rule map_cong) (use gone in auto)
  finally have rows': "notification_deliveries st' = map (\<lambda>q. if exhausted E now q then give_up now q
       else if q_id q \<in> set ids then claim_row now lease q else q) (notification_deliveries st)" using c(2) by simp
  have "\<forall>d \<in> set ds. \<exists>q \<in> set (notification_deliveries st). q_id q = ND_ID d \<and> ready_delivery E now q \<and>
       decryptNotificationDelivery E (scanNotificationDelivery (claim_row now lease q)) = Inr d"
  proof
    fix d assume "d \<in> set ds"
    then obtain q where q: "q \<in> set rows" "ready_delivery E now q"
       "decryptNotificationDelivery E (scanNotificationDelivery (claim_row now lease q)) = Inr d" using s by blast
    have "ND_ID d = q_id q" using decrypt_ID [OF q(3)] by (simp add: scanNotificationDelivery_def)
    with q old show "\<exists>q \<in> set (notification_deliveries st). q_id q = ND_ID d \<and> ready_delivery E now q \<and>
       decryptNotificationDelivery E (scanNotificationDelivery (claim_row now lease q)) = Inr d" by auto
  qed
  moreover have "length ids \<le> 100" by (auto simp: ids_def picked_def min_def)
  moreover have "ready_delivery E now q" if q: "q \<in> set (notification_deliveries st)" "q_id q \<in> set ids" for q
    using alive gone q by (auto simp: rows_def set_upd_where)
  ultimately show ?thesis using that [OF lease_def _ di _ rows'] s by blast
qed

lemma count_distinct: "distinct xs \<Longrightarrow> count_list xs x = (if x \<in> set xs then 1 else 0)"
  by (induction xs) auto

lemma queue_step_wf:
  assumes "queue_step E st ids st'" "queue_wf st"
  shows "queue_wf st'"
  using assms
proof cases
  case (Create now d key r)
  then show ?thesis
    using assms(2) by (auto simp: CreateNotificationDelivery_def Let_def bindE_eq_Inr queue_wf_def has_row_iff split: if_splits prod.splits)
next
  case (Claim only now lease limit ds)
  obtain f where f: "notification_deliveries st' = map f (notification_deliveries st)" "\<forall>q. q_id (f q) = q_id q \<and> q_dedupe_key (f q) = q_dedupe_key q"
    by (rule claim_spec [OF Claim(2) assms(2)]) (rule that, assumption, simp)
  then have "map q_id (map f xs) = map q_id xs" "map q_dedupe_key (map f xs) = map q_dedupe_key xs" for xs by simp_all
  then show ?thesis using assms(2) unfolding queue_wf_def f(1) by presburger
next
  case (Complete now i status e "next")
  then show ?thesis
    using assms(2) by (auto simp: CompleteNotificationDelivery_def Let_def queue_wf_def map_upd_where split: if_splits)
qed

lemma queue_step_life:
  assumes "queue_step E st ids st'" "queue_wf st" "q \<in> set (notification_deliveries st)"
  shows "\<exists>q' \<in> set (notification_deliveries st'). handed_out (count_list ids (q_id q)) q q'"
  using assms
proof cases
  case (Create now d key r)
  then have "q \<in> set (notification_deliveries st')"
    using assms(3) by (auto simp: CreateNotificationDelivery_def Let_def bindE_eq_Inr split: if_splits prod.splits)
  with Create(1) handed_out_refl show ?thesis by auto
next
  case (Claim only now leaseDuration limit ds)
  obtain lease where c: "distinct ids" "notification_deliveries st' = map (\<lambda>q. if exhausted E now q then give_up now q
       else if q_id q \<in> set ids then claim_row now lease q else q) (notification_deliveries st)"
    "\<forall>q \<in> set (notification_deliveries st). q_id q \<in> set ids \<longrightarrow> ready_delivery E now q"
    by (rule claim_spec [OF Claim(2) assms(2)]) (use Claim(1) in blast)
  have "\<not> exhausted E now q" if "q_id q \<in> set ids" using c(3) assms(3) that by (auto simp: exhausted_def ready_delivery_def)
  then have "handed_out (count_list ids (q_id q)) q (if exhausted E now q then give_up now q
       else if q_id q \<in> set ids then claim_row now lease q else q)"
    using c(1,3) assms(3) handed_out_claim handed_out_give_up handed_out_refl by (auto simp: count_distinct)
  then show ?thesis unfolding c(2) set_map by (rule bexI) (rule imageI [OF assms(3)])
next
  case (Complete now i status e "next")
  then have "\<exists>f. notification_deliveries st' = upd_where (\<lambda>q. q_id q = i \<and> q_status q = ''sending'') f (notification_deliveries st) \<and>
      (\<forall>q. q_status q = ''sending'' \<longrightarrow> handed_out 0 q (f q))"
    by (auto simp: CompleteNotificationDelivery_def Let_def handed_out_def closed_delivery_def split: if_splits)
  then obtain f where "notification_deliveries st' = upd_where (\<lambda>q. q_id q = i \<and> q_status q = ''sending'') f (notification_deliveries st)"
    "\<forall>q. q_status q = ''sending'' \<longrightarrow> handed_out 0 q (f q)" by blast
  then show ?thesis using assms(3) handed_out_refl Complete(1) by (auto simp: set_upd_where)
qed

lemma queue_run_wf:
  assumes "queue_run E st ids st'" "queue_wf st"
  shows "queue_wf st'"
  using assms by (induction rule: queue_run.induct) (auto intro: queue_step_wf)

text \<open>
  Whatever creates, claims and completes deliveries in any order: a delivery is handed out at most as often as it has
  attempts left, its content and destination never change, and one that was sent or given up is never handed out again.
\<close>

theorem queue_attempts:
  assumes "queue_run E st ids st'" "queue_wf st" "q \<in> set (notification_deliveries st)"
  shows "\<exists>q' \<in> set (notification_deliveries st'). handed_out (count_list ids (q_id q)) q q'"
  using assms
proof (induction rule: queue_run.induct)
  case (Start st)
  then show ?case using handed_out_refl by auto
next
  case (Step st ids st' ids' st'')
  then obtain q' where q': "q' \<in> set (notification_deliveries st')" "handed_out (count_list ids (q_id q)) q q'" by blast
  then have "q_id q' = q_id q" by (simp add: handed_out_def)
  with queue_step_life [OF Step.hyps(2) queue_run_wf [OF Step.hyps(1) Step.prems(1)] q'(1)] handed_out_trans [OF q'(2)]
  show ?case by auto
qed

text \<open>A delivery that is being sent is not handed out to a second worker before its lease has expired.\<close>

lemma leased_not_claimed:
  assumes "claimNotificationDeliveries E only now leaseDuration limit st = Inr (ds, st')" "queue_wf st"
    and "q \<in> set (notification_deliveries st)" "q_status q = ''sending''" "q_lease_expires_at q = Some t" "\<not> ts_le E t now"
  shows "q_id q \<notin> ND_ID ` set ds" and "q \<in> set (notification_deliveries st')"
proof -
  obtain ids lease where c: "map ND_ID ds = ids" "notification_deliveries st' = map (\<lambda>q. if exhausted E now q then give_up now q
       else if q_id q \<in> set ids then claim_row now lease q else q) (notification_deliveries st)"
    "\<forall>q \<in> set (notification_deliveries st). q_id q \<in> set ids \<longrightarrow> ready_delivery E now q"
    by (rule claim_spec [OF assms(1,2)]) blast
  have "\<not> ready_delivery E now q" "\<not> exhausted E now q" using assms(4-6) by (simp_all add: ready_delivery_def exhausted_def)
  with c(3) assms(3) have "q_id q \<notin> set ids" by blast
  then show "q_id q \<notin> ND_ID ` set ds" using c(1) by auto
  have "q = (if exhausted E now q then give_up now q else if q_id q \<in> set ids then claim_row now lease q else q)"
    using \<open>\<not> exhausted E now q\<close> \<open>q_id q \<notin> set ids\<close> by simp
  then show "q \<in> set (notification_deliveries st')" unfolding c(2) set_map using assms(3) by (rule image_eqI)
qed

lemma CreateNotificationDelivery_row:
  assumes "CreateNotificationDelivery E now x key st = Inr (Some d, st')"
  obtains q where "q \<in> set (notification_deliveries st')" "q_id q = ND_ID d" "q_attempt_count q = 0" "q_max_attempts q = ND_MaxAttempts d"
    "0 < ND_MaxAttempts d" "q_channel q = ND_Channel x" "q_dedupe_key q = key" "\<not> closed_delivery (q_status q)"
    "encryptSensitive E (delivery_context (q_id q) ''title'') (ND_Title x) = Inr (q_title q)"
    "encryptSensitive E (delivery_context (q_id q) ''body'') (ND_Body x) = Inr (q_body q)"
    "encryptSensitive E (delivery_context (q_id q) ''destination'') (ND_Destination x) = Inr (q_destination q)"
proof -
  obtain i a where i: "draw E ''ntf'' (accts st) = (i, a)" by (rule prod.exhaust)
  obtain title body destination where e: "encryptSensitive E (delivery_context i ''title'') (ND_Title x) = Inr title"
    "encryptSensitive E (delivery_context i ''body'') (ND_Body x) = Inr body"
    "encryptSensitive E (delivery_context i ''destination'') (ND_Destination x) = Inr destination"
    using assms by (auto simp: CreateNotificationDelivery_def Let_def i bindE_eq_Inr)
  show ?thesis
    using assms e by (auto simp: CreateNotificationDelivery_def Let_def i closed_delivery_def intro!: that split: if_splits)
qed

text \<open>
  C15. From the moment it is created, whatever else is created, claimed and completed in between: every time a delivery is
  handed out, it carries the title, body, destination and channel it was created with, and it was handed out less often
  before than it has attempts.
\<close>

theorem delivery_end_to_end:
  assumes "cipher_ok E" "queue_wf st" "\<not> IsEncrypted (ND_Title x)" "\<not> IsEncrypted (ND_Body x)" "\<not> IsEncrypted (ND_Destination x)"
    and "CreateNotificationDelivery E now x key st = Inr (Some d, st1)" "queue_run E st1 ids st2"
    and "claimNotificationDeliveries E only later lease limit st2 = Inr (ds, st3)" "e \<in> set ds" "ND_ID e = ND_ID d"
  shows "ND_Title e = ND_Title x \<and> ND_Body e = ND_Body x \<and> ND_Destination e = ND_Destination x \<and> ND_Channel e = ND_Channel x \<and>
    int (count_list ids (ND_ID d)) < ND_MaxAttempts d"
proof -
  obtain q where q: "q \<in> set (notification_deliveries st1)" "q_id q = ND_ID d" "q_attempt_count q = 0" "q_max_attempts q = ND_MaxAttempts d"
    "q_channel q = ND_Channel x"
    "encryptSensitive E (delivery_context (q_id q) ''title'') (ND_Title x) = Inr (q_title q)"
    "encryptSensitive E (delivery_context (q_id q) ''body'') (ND_Body x) = Inr (q_body q)"
    "encryptSensitive E (delivery_context (q_id q) ''destination'') (ND_Destination x) = Inr (q_destination q)"
    by (rule CreateNotificationDelivery_row [OF assms(6)]) blast
  have wf1: "queue_wf st1" by (rule queue_step_wf [OF queue_step.Create [OF assms(6)] assms(2)])
  have wf2: "queue_wf st2" by (rule queue_run_wf [OF assms(7) wf1])
  obtain q2 where q2: "q2 \<in> set (notification_deliveries st2)" "handed_out (count_list ids (ND_ID d)) q q2"
    using queue_attempts [OF assms(7) wf1 q(1)] q(2) by auto
  obtain l p where p: "p \<in> set (notification_deliveries st2)" "q_id p = ND_ID e" "ready_delivery E later p"
    "decryptNotificationDelivery E (scanNotificationDelivery (claim_row later l p)) = Inr e"
    by (rule claim_spec [OF assms(8) wf2]) (use assms(9) in blast)
  have "q_id p = q_id q2" using p(2) q2(2) q(2) assms(10) by (simp add: handed_out_def)
  then have pq: "p = q2" using wf2 p(1) q2(1) by (auto simp: queue_wf_def distinct_map inj_on_def)
  have same: "q_title p = q_title q" "q_body p = q_body q" "q_destination p = q_destination q" "q_channel p = q_channel q" "q_id p = q_id q"
    "q_attempt_count p = int (count_list ids (ND_ID d))" "q_max_attempts p = ND_MaxAttempts d"
    using q2(2) q(3,4) unfolding pq by (simp_all add: handed_out_def)
  note dec = decrypt_encryptSensitive [OF assms(1)]
  have "ND_Title e = ND_Title x" "ND_Body e = ND_Body x" "ND_Destination e = ND_Destination x" "ND_Channel e = ND_Channel x"
    using p(4) dec [OF assms(3) q(6)] dec [OF assms(4) q(7)] dec [OF assms(5) q(8)] q(5) same(1-5)
    by (simp_all add: decryptNotificationDelivery_def scanNotificationDelivery_def claim_row_def) (auto simp: q(5) same)
  moreover have "int (count_list ids (ND_ID d)) < ND_MaxAttempts d" using p(3) same(6,7) by (simp add: ready_delivery_def)
  ultimately show ?thesis by blast
qed

definition sample_outbox :: outbox where
  "sample_outbox = \<lparr>accts = sample_accounts, notification_settings = [], notification_deliveries = [], device_notification_settings = [],
     contact_verifications = []\<rparr>"

definition sample_message :: NotificationDelivery where
  "sample_message = \<lparr>ND_ID = [], ND_UserID = u_id sample_admin, ND_DeviceID = [], ND_AlertID = [], ND_Event = ''test'', ND_Severity = [],
     ND_Channel = ''email'', ND_Status = [], ND_Title = ''title'', ND_Body = ''body'', ND_Destination = ''a@b'', ND_DestinationMasked = [],
     ND_Error = [], ND_AttemptCount = 0, ND_MaxAttempts = 3, ND_CreatedAt = 0, ND_LastAttemptAt = None, ND_NextAttemptAt = None,
     ND_SentAt = None\<rparr>"

lemma sample_plain:
  "\<not> IsEncrypted (ND_Title sample_message)" "\<not> IsEncrypted (ND_Body sample_message)" "\<not> IsEncrypted (ND_Destination sample_message)"
  by code_simp+

lemma sample_created:
  "\<exists>d st1 title body destination. CreateNotificationDelivery sample_env second sample_message ''key'' sample_outbox = Inr (Some d, st1) \<and>
     notification_deliveries st1 = [\<lparr>q_id = ND_ID d, q_user_id = u_id sample_admin, q_device_id = None, q_alert_id = [],
       q_dedupe_key = ''key'', q_event = ''test'', q_channel = ''email'', q_status = ''queued'', q_title = title, q_body = body,
       q_destination = destination, q_destination_masked = [], q_error = [], q_attempt_count = 0, q_max_attempts = 3,
       q_created_at = second, q_last_attempt_at = None, q_next_attempt_at = Some second, q_lease_expires_at = None, q_sent_at = None,
       q_updated_at = second\<rparr>] \<and>
     decryptSensitive sample_env (delivery_context (ND_ID d) ''title'') title = Inr ''title'' \<and>
     decryptSensitive sample_env (delivery_context (ND_ID d) ''body'') body = Inr ''body'' \<and>
     decryptSensitive sample_env (delivery_context (ND_ID d) ''destination'') destination = Inr ''a@b''"
proof -
  obtain i a where i: "draw sample_env ''ntf'' (accts sample_outbox) = (i, a)" by (rule prod.exhaust)
  have a: "users (base a) = [sample_admin]" using i by (auto simp: sample_outbox_def draw_def sample_accounts_def randomID_def Let_def)
  have enc: "\<exists>s. encryptSensitive sample_env c v = Inr s \<and> decryptSensitive sample_env c s = Inr v" if v: "v \<noteq> []" "\<not> IsEncrypted v" for c v
    using encryptSensitive_plain [OF sample_seal(1) v, of c] decrypt_encryptSensitive [OF sample_cipher_ok v(2)] by blast
  have rows: "notification_deliveries sample_outbox = []" by (simp add: sample_outbox_def)
  have ne: "ND_Title sample_message \<noteq> []" "ND_Body sample_message \<noteq> []" "ND_Destination sample_message \<noteq> []" by (simp_all add: sample_message_def)
  obtain title body destination where e: "encryptSensitive sample_env (delivery_context i ''title'') (ND_Title sample_message) = Inr title"
    "decryptSensitive sample_env (delivery_context i ''title'') title = Inr (ND_Title sample_message)"
    "encryptSensitive sample_env (delivery_context i ''body'') (ND_Body sample_message) = Inr body"
    "decryptSensitive sample_env (delivery_context i ''body'') body = Inr (ND_Body sample_message)"
    "encryptSensitive sample_env (delivery_context i ''destination'') (ND_Destination sample_message) = Inr destination"
    "decryptSensitive sample_env (delivery_context i ''destination'') destination = Inr (ND_Destination sample_message)"
    using enc [OF ne(1) sample_plain(1)] enc [OF ne(2) sample_plain(2)] enc [OF ne(3) sample_plain(3)] by metis
  show ?thesis
    using e by (simp add: CreateNotificationDelivery_def Let_def i a rows sample_message_def known_user_def has_row_iff)
qed

lemma sample_claimed:
  "\<exists>d st1 e ds st3. CreateNotificationDelivery sample_env second sample_message ''key'' sample_outbox = Inr (Some d, st1) \<and>
     claimNotificationDeliveries sample_env [] second minute 10 st1 = Inr (ds, st3) \<and> e \<in> set ds \<and> ND_ID e = ND_ID d"
proof -
  obtain d st1 title body destination where c: "CreateNotificationDelivery sample_env second sample_message ''key'' sample_outbox = Inr (Some d, st1)"
    "notification_deliveries st1 = [\<lparr>q_id = ND_ID d, q_user_id = u_id sample_admin, q_device_id = None, q_alert_id = [],
       q_dedupe_key = ''key'', q_event = ''test'', q_channel = ''email'', q_status = ''queued'', q_title = title, q_body = body,
       q_destination = destination, q_destination_masked = [], q_error = [], q_attempt_count = 0, q_max_attempts = 3,
       q_created_at = second, q_last_attempt_at = None, q_next_attempt_at = Some second, q_lease_expires_at = None, q_sent_at = None,
       q_updated_at = second\<rparr>]"
    "decryptSensitive sample_env (delivery_context (ND_ID d) ''title'') title = Inr ''title''"
    "decryptSensitive sample_env (delivery_context (ND_ID d) ''body'') body = Inr ''body''"
    "decryptSensitive sample_env (delivery_context (ND_ID d) ''destination'') destination = Inr ''a@b''"
    using sample_created by blast
  have "\<exists>e st3. claimNotificationDeliveries sample_env [] second minute 10 st1 = Inr ([e], st3) \<and> ND_ID e = ND_ID d"
    by (simp add: claimNotificationDeliveries_def Let_def c(2-5) exhausted_def ready_delivery_def ts_le_def text_le_def claim_row_def has_row_iff
        scanNotificationDelivery_def decryptNotificationDelivery_def)
  then show ?thesis using c(1) by (metis list.set_intros(1))
qed

theorem delivery_end_to_end_witness:
  "\<exists>d st1 ds st3 e. CreateNotificationDelivery sample_env second sample_message ''key'' sample_outbox = Inr (Some d, st1) \<and>
     claimNotificationDeliveries sample_env [] second minute 10 st1 = Inr (ds, st3) \<and> e \<in> set ds \<and>
     ND_Title e = ''title'' \<and> ND_Destination e = ''a@b''"
proof -
  obtain d st1 e ds st3 where c: "CreateNotificationDelivery sample_env second sample_message ''key'' sample_outbox = Inr (Some d, st1)"
    "claimNotificationDeliveries sample_env [] second minute 10 st1 = Inr (ds, st3)" "e \<in> set ds" "ND_ID e = ND_ID d"
    using sample_claimed by blast
  have wf: "queue_wf sample_outbox" by (simp add: queue_wf_def sample_outbox_def)
  from delivery_end_to_end [OF sample_cipher_ok wf sample_plain c(1) queue_run.Start c(2-4)] c
  show ?thesis by (auto simp: sample_message_def)
qed

end
