(* ===== verification/Machine.thy ===== *)
theory Machine
  imports GoTime Json "HOL-Library.State_Monad"
begin

text \<open>
  The router as the agent sees it through Go's standard library: files with their modification
  times, a clock, the programs it starts, the requests it sends and the timers that are running
  (when, for which tunnel session, which process). What the router, its
  programs and the network answer is a record of functions of the whole state, so nothing is
  assumed about it; the state keeps the trace of programs and requests. The operations are
  those of \<open>os\<close>, \<open>path/filepath\<close>, \<open>os/exec\<close> and \<open>net/http\<close> the agent calls, as actions of the
  state monad.
\<close>

section \<open>State and answers\<close>

record stored_file =
  f_data :: string
  f_mtime :: time

record program =
  p_name :: string
  p_args :: "string list"
  p_env :: "string list"
  p_input :: string
  p_timeout :: time

record request =
  rq_method :: string
  rq_url :: string
  rq_headers :: "(string \<times> string) list"
  rq_body :: string

record machine =
  m_files :: "(string \<times> stored_file) list"
  m_clock :: time
  m_trace :: "program list"
  m_requests :: "request list"
  m_timers :: "(time \<times> string \<times> int) list"

text \<open>
  How a program ended: its exit code (-1 when a signal ended it), the deadline passed, or it
  could not be run. How a request ended: an error, or a status, the bytes read of the body and
  whether the body could be read to its end.
\<close>

datatype exit = Exited int | TimedOut | NotRun string

datatype ip = IPv4 nat nat nat nat | IPv6 string

datatype reply = NetError string | Reply int string bool

datatype fs_op = OpMkdir | OpRead | OpWrite | OpCreate | OpRename | OpRemove | OpReadDir | OpChmod | OpStat

text \<open>
  The answers: the error of a file operation if it fails, the number of bytes a failed write
  left (\<open>None\<close> when the file was not opened), a program's output, end, the files it leaves and
  the time it takes, a reply and the time it takes, whether a program is on the path, whether
  the process is being stopped, the random number in a temporary file's name, the mode of a file,
  the addresses of a host, the number of a program started in the background or its error, the
  numbered processes with their command lines in the order of \<open>/proc\<close>, the addresses of the
  network interfaces, whether an SSH service answers on a port, and \<open>net.ParseIP(s).IsLoopback\<close>.
\<close>

record host =
  h_fault :: "machine \<Rightarrow> fs_op \<Rightarrow> string \<Rightarrow> string option"
  h_short :: "machine \<Rightarrow> string \<Rightarrow> nat option"
  h_exec :: "machine \<Rightarrow> program \<Rightarrow> string \<times> exit \<times> (string \<times> stored_file) list \<times> time"
  h_http :: "machine \<Rightarrow> request \<Rightarrow> reply \<times> time"
  h_look :: "machine \<Rightarrow> string \<Rightarrow> bool"
  h_cancelled :: "machine \<Rightarrow> bool"
  h_random :: "machine \<Rightarrow> nat"
  h_regular :: "machine \<Rightarrow> string \<Rightarrow> bool"
  h_executable :: "machine \<Rightarrow> string \<Rightarrow> bool"
  h_addresses :: "machine \<Rightarrow> string \<Rightarrow> string list option"
  h_start :: "machine \<Rightarrow> program \<Rightarrow> string + int"
  h_processes :: "machine \<Rightarrow> (int \<times> string) list"
  h_interfaces :: "machine \<Rightarrow> (string \<times> ip) list"
  h_reachable :: "machine \<Rightarrow> string \<Rightarrow> int \<Rightarrow> bool"
  h_loopback :: "string \<Rightarrow> bool"

type_synonym 'a act = "(machine, 'a) state"

datatype os_error = ErrNotExist string | ErrExist string | ErrOther string

fun Error :: "os_error \<Rightarrow> string" where
  "Error (ErrNotExist s) = s"
| "Error (ErrExist s) = s"
| "Error (ErrOther s) = s"

section \<open>Paths\<close>

text \<open>The elements of a cleaned path, last first.\<close>

definition clean_step :: "bool \<Rightarrow> string \<Rightarrow> string list \<Rightarrow> string list" where
  "clean_step rooted c out =
     (if c = [] \<or> c = ''.'' then out
      else if c = ''..'' then
        (case out of
           [] \<Rightarrow> if rooted then [] else [c]
         | d # ds \<Rightarrow> if d = ''..'' then c # out else ds)
      else c # out)"

definition rooted :: "string \<Rightarrow> bool" where
  "rooted p \<longleftrightarrow> take 1 p = ''/''"

definition render_path :: "bool \<Rightarrow> string list \<Rightarrow> string" where
  "render_path r cs = (if r then CHR ''/'' # Join (CHR ''/'') cs else if cs = [] then ''.'' else Join (CHR ''/'') cs)"

definition clean_elements :: "string \<Rightarrow> string list" where
  "clean_elements p = rev (fold (clean_step (rooted p)) (Split (CHR ''/'') p) [])"

definition Clean :: "string \<Rightarrow> string" where
  "Clean p = render_path (rooted p) (clean_elements p)"

definition filepath_Join :: "string \<Rightarrow> string \<Rightarrow> string" where
  "filepath_Join dir name =
     (if dir = [] then (if name = [] then [] else Clean name)
      else if name = [] then Clean dir else Clean (dir @ ''/'' @ name))"

definition filepath_Dir :: "string \<Rightarrow> string" where
  "filepath_Dir p = Clean (rev (dropWhile (\<lambda>c. c \<noteq> CHR ''/'') (rev p)))"

definition filepath_Base :: "string \<Rightarrow> string" where
  "filepath_Base p =
     (if p = [] then ''.''
      else let q = rev (dropWhile (\<lambda>c. c = CHR ''/'') (rev p))
           in if q = [] then ''/'' else rev (takeWhile (\<lambda>c. c \<noteq> CHR ''/'') (rev q)))"

section \<open>Files\<close>

definition file_at :: "machine \<Rightarrow> string \<Rightarrow> stored_file option" where
  "file_at m p = map_of (m_files m) p"

definition put_file :: "string \<Rightarrow> stored_file \<Rightarrow> machine \<Rightarrow> machine" where
  "put_file p f m = m\<lparr>m_files := (p, f) # filter (\<lambda>(q, _). q \<noteq> p) (m_files m)\<rparr>"

definition del_file :: "string \<Rightarrow> machine \<Rightarrow> machine" where
  "del_file p m = m\<lparr>m_files := filter (\<lambda>(q, _). q \<noteq> p) (m_files m)\<rparr>"

definition store_data :: "string \<Rightarrow> string \<Rightarrow> machine \<Rightarrow> machine" where
  "store_data p d m = put_file p \<lparr>f_data = d, f_mtime = m_clock m\<rparr> m"

definition no_such_file :: "string \<Rightarrow> os_error" where
  "no_such_file p = ErrNotExist (''open '' @ p @ '': no such file or directory'')"

definition time_Now :: "time act" where
  "time_Now = do { m \<leftarrow> State_Monad.get; State_Monad.return (m_clock m) }"

definition sleep :: "time \<Rightarrow> unit act" where
  "sleep d = do { m \<leftarrow> State_Monad.get; State_Monad.set (m\<lparr>m_clock := m_clock m + d\<rparr>) }"

definition ask :: "(machine \<Rightarrow> 'a) \<Rightarrow> 'a act" where
  "ask f = do { m \<leftarrow> State_Monad.get; State_Monad.return (f m) }"

definition change :: "(machine \<Rightarrow> machine) \<Rightarrow> unit act" where
  "change f = do { m \<leftarrow> State_Monad.get; State_Monad.set (f m) }"

definition os_MkdirAll :: "host \<Rightarrow> string \<Rightarrow> (os_error option) act" where
  "os_MkdirAll H p = ask (\<lambda>m. map_option ErrOther (h_fault H m OpMkdir p))"

definition os_Chmod :: "host \<Rightarrow> string \<Rightarrow> (os_error option) act" where
  "os_Chmod H p = ask (\<lambda>m. case h_fault H m OpChmod p of
      Some e \<Rightarrow> Some (ErrOther e)
    | None \<Rightarrow> if file_at m p = None then Some (no_such_file p) else None)"

definition os_ReadFile :: "host \<Rightarrow> string \<Rightarrow> (os_error + string) act" where
  "os_ReadFile H p = ask (\<lambda>m. case h_fault H m OpRead p of
      Some e \<Rightarrow> Inl (ErrOther e)
    | None \<Rightarrow> (case file_at m p of None \<Rightarrow> Inl (no_such_file p) | Some f \<Rightarrow> Inr (f_data f)))"

definition os_WriteFile :: "host \<Rightarrow> string \<Rightarrow> string \<Rightarrow> (os_error option) act" where
  "os_WriteFile H p d = do {
     m \<leftarrow> State_Monad.get;
     case h_fault H m OpWrite p of
       None \<Rightarrow> do { change (store_data p d); State_Monad.return None }
     | Some e \<Rightarrow> do {
         (case h_short H m p of None \<Rightarrow> State_Monad.return () | Some n \<Rightarrow> change (store_data p (take n d)));
         State_Monad.return (Some (ErrOther e)) }
   }"

text \<open>\<open>os.OpenFile\<close> with \<open>O_CREATE|O_EXCL\<close>: an empty file that did not exist before.\<close>

definition os_CreateExcl :: "host \<Rightarrow> string \<Rightarrow> (os_error option) act" where
  "os_CreateExcl H p = do {
     m \<leftarrow> State_Monad.get;
     case h_fault H m OpCreate p of
       Some e \<Rightarrow> State_Monad.return (Some (ErrOther e))
     | None \<Rightarrow>
         if file_at m p \<noteq> None then State_Monad.return (Some (ErrExist (''open '' @ p @ '': file exists'')))
         else do { change (store_data p []); State_Monad.return None }
   }"

definition os_Rename :: "host \<Rightarrow> string \<Rightarrow> string \<Rightarrow> (os_error option) act" where
  "os_Rename H p q = do {
     m \<leftarrow> State_Monad.get;
     case h_fault H m OpRename p of
       Some e \<Rightarrow> State_Monad.return (Some (ErrOther e))
     | None \<Rightarrow> (case file_at m p of
           None \<Rightarrow> State_Monad.return (Some (no_such_file p))
         | Some f \<Rightarrow> do { change (\<lambda>m. put_file q f (del_file p m)); State_Monad.return None })
   }"

definition os_Remove :: "host \<Rightarrow> string \<Rightarrow> (os_error option) act" where
  "os_Remove H p = do {
     m \<leftarrow> State_Monad.get;
     case h_fault H m OpRemove p of
       Some e \<Rightarrow> State_Monad.return (Some (ErrOther e))
     | None \<Rightarrow>
         if file_at m p = None then State_Monad.return (Some (no_such_file p))
         else do { change (del_file p); State_Monad.return None }
   }"

text \<open>The names of the files directly in a directory, sorted; directories are not listed.\<close>

definition dir_names :: "string \<Rightarrow> machine \<Rightarrow> string list" where
  "dir_names dir m =
     sort (remdups (concat (map (\<lambda>(p, _). let n = filepath_Base p in if filepath_Join dir n = p then [n] else []) (m_files m))))"

definition os_ReadDir :: "host \<Rightarrow> string \<Rightarrow> (os_error + string list) act" where
  "os_ReadDir H dir = ask (\<lambda>m. case h_fault H m OpReadDir dir of
      Some e \<Rightarrow> Inl (ErrOther e)
    | None \<Rightarrow> Inr (dir_names dir m))"

text \<open>\<open>os.CreateTemp\<close>; a taken name stands for the error after ten thousand attempts.\<close>

definition os_CreateTemp :: "host \<Rightarrow> string \<Rightarrow> string \<Rightarrow> string \<Rightarrow> (os_error + string) act" where
  "os_CreateTemp H dir prefix suffix = do {
     m \<leftarrow> State_Monad.get;
     let p = filepath_Join dir (prefix @ dec_digits (int (h_random H m)) @ suffix);
     e \<leftarrow> os_CreateExcl H p;
     State_Monad.return (case e of None \<Rightarrow> Inr p | Some e \<Rightarrow> Inl e)
   }"

definition fileExists :: "host \<Rightarrow> string \<Rightarrow> bool act" where
  "fileExists H p = ask (\<lambda>m. h_fault H m OpStat p = None \<and> file_at m p \<noteq> None)"

definition readFileString :: "host \<Rightarrow> string \<Rightarrow> string act" where
  "readFileString H p = do {
     r \<leftarrow> os_ReadFile H p;
     State_Monad.return (case r of Inl _ \<Rightarrow> [] | Inr d \<Rightarrow> d)
   }"

section \<open>Programs and requests\<close>

definition run_program :: "host \<Rightarrow> program \<Rightarrow> (string \<times> exit) act" where
  "run_program H p = do {
     m \<leftarrow> State_Monad.get;
     let (out, ended, files, took) = h_exec H m p;
     State_Monad.set (m\<lparr>m_files := files, m_clock := m_clock m + took, m_trace := m_trace m @ [p]\<rparr>);
     State_Monad.return (out, ended)
   }"

definition http_do :: "host \<Rightarrow> request \<Rightarrow> reply act" where
  "http_do H rq = do {
     m \<leftarrow> State_Monad.get;
     let (reply, took) = h_http H m rq;
     State_Monad.set (m\<lparr>m_clock := m_clock m + took, m_requests := m_requests m @ [rq]\<rparr>);
     State_Monad.return reply
   }"

definition exec_result :: "string \<Rightarrow> exit \<Rightarrow> string \<times> int" where
  "exec_result output ended =
     (case ended of
        TimedOut \<Rightarrow> (output @ [CHR 0x0A] @ ''command timed out'' @ [CHR 0x0A], 124)
      | Exited c \<Rightarrow> (output, c)
      | NotRun e \<Rightarrow> if output \<noteq> [] then (output, 1) else (e @ [CHR 0x0A], 1))"

definition execCommandWithEnv :: "host \<Rightarrow> time \<Rightarrow> string list \<Rightarrow> string \<Rightarrow> string list \<Rightarrow> (string \<times> int) act" where
  "execCommandWithEnv H timeout environment name args = do {
     (output, ended) \<leftarrow> run_program H \<lparr>p_name = name, p_args = args, p_env = environment, p_input = [], p_timeout = timeout\<rparr>;
     State_Monad.return (exec_result output ended)
   }"

definition execCommand :: "host \<Rightarrow> time \<Rightarrow> string \<Rightarrow> string list \<Rightarrow> (string \<times> int) act" where
  "execCommand H timeout name args = execCommandWithEnv H timeout [] name args"

definition execCommandWithInput :: "host \<Rightarrow> time \<Rightarrow> string \<Rightarrow> string \<Rightarrow> string list \<Rightarrow> (string \<times> int) act" where
  "execCommandWithInput H timeout input name args = do {
     (output, ended) \<leftarrow> run_program H \<lparr>p_name = name, p_args = args, p_env = [], p_input = input, p_timeout = timeout\<rparr>;
     State_Monad.return (exec_result output ended)
   }"

definition commandOutput :: "host \<Rightarrow> string \<Rightarrow> string list \<Rightarrow> string act" where
  "commandOutput H name args = do {
     (output, _) \<leftarrow> run_program H \<lparr>p_name = name, p_args = args, p_env = [], p_input = [], p_timeout = 10 * second\<rparr>;
     State_Monad.return output
   }"


section \<open>Running actions\<close>

lemma run_time_Now [simp]: "run_state time_Now m = (m_clock m, m)"
  by (simp add: time_Now_def)

lemma run_ask [simp]: "run_state (ask f) m = (f m, m)"
  by (simp add: ask_def)

lemma run_change [simp]: "run_state (change f) m = ((), f m)"
  by (simp add: change_def)

lemma run_sleep [simp]: "run_state (sleep d) m = ((), m\<lparr>m_clock := m_clock m + d\<rparr>)"
  by (simp add: sleep_def)

lemma map_of_without:
  "map_of (filter (\<lambda>(r, _). r \<noteq> p) xs) q = (if q = p then None else map_of xs q)"
  by (induction xs) auto

lemma file_at_put [simp]: "file_at (put_file p f m) q = (if q = p then Some f else file_at m q)"
  by (simp add: file_at_def put_file_def map_of_without)

lemma file_at_del [simp]: "file_at (del_file p m) q = (if q = p then None else file_at m q)"
  by (simp add: file_at_def del_file_def map_of_without)

lemma file_at_store [simp]:
  "file_at (store_data p d m) q = (if q = p then Some \<lparr>f_data = d, f_mtime = m_clock m\<rparr> else file_at m q)"
  by (simp add: store_data_def)

lemma frame_put [simp]:
  "m_clock (put_file p f m) = m_clock m" "m_trace (put_file p f m) = m_trace m" "m_requests (put_file p f m) = m_requests m"
  by (simp_all add: put_file_def)

lemma frame_del [simp]:
  "m_clock (del_file p m) = m_clock m" "m_trace (del_file p m) = m_trace m" "m_requests (del_file p m) = m_requests m"
  by (simp_all add: del_file_def)

lemma frame_store [simp]:
  "m_clock (store_data p d m) = m_clock m" "m_trace (store_data p d m) = m_trace m" "m_requests (store_data p d m) = m_requests m"
  by (simp_all add: store_data_def)

text \<open>
  An action keeps a property of the machine. The rules decompose the actions of the agent, so
  that a property of them all reduces to the calls that touch it.
\<close>

named_theorems keeps_intros \<open>rules for actions that keep a property\<close>

definition keeps :: "(machine \<Rightarrow> bool) \<Rightarrow> 'a act \<Rightarrow> bool" where
  "keeps P a \<longleftrightarrow> (\<forall>m. P m \<longrightarrow> P (snd (run_state a m)))"

lemma keepsI: "(\<And>m. P m \<Longrightarrow> P (snd (run_state a m))) \<Longrightarrow> keeps P a"
  by (simp add: keeps_def)

lemma keepsD: "keeps P a \<Longrightarrow> P m \<Longrightarrow> P (snd (run_state a m))"
  by (simp add: keeps_def)

lemma keeps_bind [keeps_intros]:
  "keeps P a \<Longrightarrow> (\<And>x. keeps P (f x)) \<Longrightarrow> keeps P (State_Monad.bind a f)"
  by (simp add: keeps_def split: prod.split) (metis snd_conv)

lemma keeps_return [keeps_intros]: "keeps P (State_Monad.return x)"
  by (simp add: keeps_def)

lemma keeps_get [keeps_intros]: "keeps P State_Monad.get"
  by (simp add: keeps_def)

lemma keeps_ask [keeps_intros]: "keeps P (ask f)"
  by (simp add: keeps_def)

lemma keeps_Now [keeps_intros]: "keeps P time_Now"
  by (simp add: keeps_def)

lemma keeps_if [keeps_intros]: "keeps P a \<Longrightarrow> keeps P b \<Longrightarrow> keeps P (if c then a else b)"
  by simp

lemma keeps_option [keeps_intros]:
  "keeps P a \<Longrightarrow> (\<And>x. keeps P (f x)) \<Longrightarrow> keeps P (case v of None \<Rightarrow> a | Some x \<Rightarrow> f x)"
  by (cases v) simp_all

lemma keeps_sum [keeps_intros]:
  "(\<And>x. keeps P (f x)) \<Longrightarrow> (\<And>x. keeps P (g x)) \<Longrightarrow> keeps P (case v of Inl x \<Rightarrow> f x | Inr x \<Rightarrow> g x)"
  by (cases v) simp_all

lemma keeps_prod [keeps_intros]: "(\<And>x y. keeps P (f x y)) \<Longrightarrow> keeps P (case v of (x, y) \<Rightarrow> f x y)"
  by (cases v) simp

lemma keeps_Let [keeps_intros]: "(\<And>x. keeps P (f x)) \<Longrightarrow> keeps P (let x = v in f x)"
  by simp

lemma keeps_traverse [keeps_intros]: "(\<And>x. x \<in> set xs \<Longrightarrow> keeps P (f x)) \<Longrightarrow> keeps P (State_Monad.traverse_list f xs)"
  by (induction xs) (auto intro!: keeps_intros)

lemmas read_only_defs = os_MkdirAll_def os_Chmod_def os_ReadFile_def os_ReadDir_def fileExists_def readFileString_def

lemma keeps_reads [keeps_intros]:
  "keeps P (os_MkdirAll H p)" "keeps P (os_Chmod H p)" "keeps P (os_ReadFile H p)" "keeps P (os_ReadDir H p)"
  "keeps P (fileExists H p)" "keeps P (readFileString H p)"
  by (auto simp: read_only_defs intro!: keeps_intros)

text \<open>What started programs can change is their answer; the trace only grows.\<close>

definition trace_grows :: "program list \<Rightarrow> machine \<Rightarrow> bool" where
  "trace_grows tr m \<longleftrightarrow> (\<exists>more. m_trace m = tr @ more)"

section \<open>Paths of files in a directory\<close>

definition plain_name :: "string \<Rightarrow> bool" where
  "plain_name n \<longleftrightarrow> n \<noteq> [] \<and> n \<noteq> ''.'' \<and> n \<noteq> ''..'' \<and> CHR ''/'' \<notin> set n"

lemma Split_no_sep: "c \<notin> set s \<Longrightarrow> Split c s = [s]"
  by (induction s) auto

lemma Split_append: "c \<notin> set n \<Longrightarrow> Split c (s @ c # n) = Split c s @ [n]"
  by (induction s) (auto simp: Split_no_sep split: list.split)

lemma clean_elements_Join:
  assumes "plain_name n"
  shows "clean_elements n = [n]"
    and "d \<noteq> [] \<Longrightarrow> clean_elements (d @ ''/'' @ n) = clean_elements d @ [n]"
proof -
  have step: "clean_step r n out = n # out" for r out
    using assms by (simp add: plain_name_def clean_step_def)
  have sep: "CHR ''/'' \<notin> set n" using assms by (simp add: plain_name_def)
  show "clean_elements n = [n]"
    using Split_no_sep [OF sep] by (simp add: clean_elements_def step)
  show "clean_elements (d @ ''/'' @ n) = clean_elements d @ [n]" if "d \<noteq> []"
    using Split_append [OF sep, of d] that by (cases d) (simp_all add: clean_elements_def step rooted_def)
qed

lemma Join_snoc: "Join c (xs @ [n]) = (if xs = [] then n else Join c xs @ c # n)"
  by (induction c xs rule: Join.induct) auto

text \<open>The last element of a joined path is the name.\<close>

lemma filepath_Join_last:
  assumes "plain_name n"
  obtains p where "filepath_Join dir n = p @ n" "p = [] \<or> last p = CHR ''/''"
proof -
  have ne: "n \<noteq> []" using assms by (simp add: plain_name_def)
  show ?thesis
  proof (cases "dir = []")
    case True
    have "rooted n = False" using assms by (cases n) (auto simp: rooted_def plain_name_def)
    then show ?thesis using that [of "[]"] True ne clean_elements_Join(1) [OF assms]
      by (simp add: filepath_Join_def Clean_def render_path_def)
  next
    case False
    define r where "r = rooted (dir @ ''/'' @ n)"
    have "filepath_Join dir n = render_path r (clean_elements dir @ [n])"
      using False ne clean_elements_Join(2) [OF assms False] by (simp add: filepath_Join_def Clean_def r_def)
    also have "\<dots> = ((if r then ''/'' else []) @ (if clean_elements dir = [] then [] else Join (CHR ''/'') (clean_elements dir) @ ''/'')) @ n"
      by (simp add: render_path_def Join_snoc)
    finally show ?thesis by (rule that) simp
  qed
qed

lemma takeWhile_name:
  assumes "p = [] \<or> last p = c" "c \<notin> set n"
  shows "takeWhile (\<lambda>x. x \<noteq> c) (rev (p @ n)) = rev n"
proof -
  have n: "takeWhile (\<lambda>x. x \<noteq> c) (rev n) = rev n" using assms(2) by (auto simp: takeWhile_eq_all_conv)
  show ?thesis
  proof (cases p rule: rev_cases)
    case Nil
    then show ?thesis using n by simp
  next
    case (snoc p' d)
    then have "d = c" using assms(1) by simp
    then show ?thesis using n takeWhile_tail [of "\<lambda>x. x \<noteq> c" c "rev n" "rev p'"] snoc by simp
  qed
qed

lemma suffix_name_eq:
  assumes "p @ n = q @ n'" "p = [] \<or> last p = c" "q = [] \<or> last q = c" "c \<notin> set n" "c \<notin> set n'"
  shows "n = n'"
  using takeWhile_name [OF assms(2,4)] takeWhile_name [OF assms(3,5)] assms(1) by simp

lemma filepath_Join_name:
  assumes "plain_name n" "plain_name n'" "filepath_Join d n = filepath_Join d' n'"
  shows "n = n'"
proof -
  obtain p q where "filepath_Join d n = p @ n" "p = [] \<or> last p = CHR ''/''"
    "filepath_Join d' n' = q @ n'" "q = [] \<or> last q = CHR ''/''"
    using filepath_Join_last assms by metis
  then show ?thesis using suffix_name_eq [of p n q n'] assms by (auto simp: plain_name_def)
qed

lemma filepath_Base_Join: "plain_name n \<Longrightarrow> filepath_Base (filepath_Join d n) = n"
proof -
  assume n: "plain_name n"
  then obtain p where p: "filepath_Join d n = p @ n" "p = [] \<or> last p = CHR ''/''"
    by (rule filepath_Join_last)
  have ne: "n \<noteq> []" "CHR ''/'' \<notin> set n" using n by (auto simp: plain_name_def)
  obtain n' c where c: "n = n' @ [c]" using ne(1) by (cases n rule: rev_cases) auto
  then have dw: "dropWhile (\<lambda>c. c = CHR ''/'') (rev (p @ n)) = rev (p @ n)"
    using ne by auto
  have "takeWhile (\<lambda>c. c \<noteq> CHR ''/'') (rev (p @ n)) = rev n"
    by (rule takeWhile_name [OF p(2) ne(2)])
  then show ?thesis using p(1) ne dw by (simp add: filepath_Base_def Let_def)
qed


text \<open>
  Triples: from a state with the first property the action ends with a result and a state that
  have the second.
\<close>

definition triple :: "(machine \<Rightarrow> bool) \<Rightarrow> 'a act \<Rightarrow> ('a \<Rightarrow> machine \<Rightarrow> bool) \<Rightarrow> bool" where
  "triple P a Q \<longleftrightarrow> (\<forall>m x m'. P m \<longrightarrow> run_state a m = (x, m') \<longrightarrow> Q x m')"

lemma tripleI: "(\<And>m x m'. P m \<Longrightarrow> run_state a m = (x, m') \<Longrightarrow> Q x m') \<Longrightarrow> triple P a Q"
  by (auto simp: triple_def)

lemma tripleD: "triple P a Q \<Longrightarrow> P m \<Longrightarrow> run_state a m = (x, m') \<Longrightarrow> Q x m'"
  by (auto simp: triple_def)

lemma triple_bind: "triple P a R \<Longrightarrow> (\<And>x. triple (R x) (f x) Q) \<Longrightarrow> triple P (State_Monad.bind a f) Q"
  by (simp add: triple_def split: prod.split) blast

lemma triple_return: "(\<And>m. P m \<Longrightarrow> Q x m) \<Longrightarrow> triple P (State_Monad.return x) Q"
  by (simp add: triple_def)

lemma triple_conseq: "triple P' a Q' \<Longrightarrow> (\<And>m. P m \<Longrightarrow> P' m) \<Longrightarrow> (\<And>x m. Q' x m \<Longrightarrow> Q x m) \<Longrightarrow> triple P a Q"
  by (simp add: triple_def) blast

lemma triple_if: "(c \<Longrightarrow> triple P a Q) \<Longrightarrow> (\<not> c \<Longrightarrow> triple P b Q) \<Longrightarrow> triple P (if c then a else b) Q"
  by simp

lemma triple_option:
  "(v = None \<Longrightarrow> triple P a Q) \<Longrightarrow> (\<And>x. v = Some x \<Longrightarrow> triple P (f x) Q) \<Longrightarrow> triple P (case v of None \<Rightarrow> a | Some x \<Rightarrow> f x) Q"
  by (cases v) simp_all

lemma triple_sum:
  "(\<And>x. v = Inl x \<Longrightarrow> triple P (f x) Q) \<Longrightarrow> (\<And>x. v = Inr x \<Longrightarrow> triple P (g x) Q) \<Longrightarrow>
   triple P (case v of Inl x \<Rightarrow> f x | Inr x \<Rightarrow> g x) Q"
  by (cases v) simp_all

lemma triple_prod: "(\<And>x y. v = (x, y) \<Longrightarrow> triple P (f x y) Q) \<Longrightarrow> triple P (case v of (x, y) \<Rightarrow> f x y) Q"
  by (cases v) simp

lemma keeps_triple: "keeps P a \<Longrightarrow> triple P a (\<lambda>_. P)"
  by (auto simp: keeps_def triple_def)

lemma keepsD_run: "keeps P a \<Longrightarrow> P m \<Longrightarrow> run_state a m = (x, m') \<Longrightarrow> P m'"
  by (auto simp: keeps_def)

text \<open>Programs that leave some files alone.\<close>

definition spares :: "host \<Rightarrow> (program \<Rightarrow> string \<Rightarrow> bool) \<Rightarrow> bool" where
  "spares H S \<longleftrightarrow> (\<forall>m p q out ended files took.
     h_exec H m p = (out, ended, files, took) \<longrightarrow> S p q \<longrightarrow> map_of files q = file_at m q)"

lemma run_program_file:
  assumes "spares H S" "S p q" "run_state (run_program H p) m = (x, m')"
  shows "file_at m' q = file_at m q"
proof -
  obtain out ended files took where ex: "h_exec H m p = (out, ended, files, took)" by (metis prod_cases4)
  have "map_of files q = file_at m q" using assms(1,2) ex unfolding spares_def by blast
  then show ?thesis using ex assms(3) by (auto simp: run_program_def file_at_def)
qed

lemma execCommand_file:
  assumes "spares H S" "\<And>e i t. S \<lparr>p_name = name, p_args = args, p_env = e, p_input = i, p_timeout = t\<rparr> q"
    "run_state (execCommand H timeout name args) m = (x, m')"
  shows "file_at m' q = file_at m q"
  using assms(3) run_program_file [OF assms(1,2)]
  by (auto simp: execCommand_def execCommandWithEnv_def split: prod.splits)

text \<open>A file whose name does not begin with a dot, unlike the temporary ones.\<close>

definition visible :: "string \<Rightarrow> bool" where
  "visible q \<longleftrightarrow> (\<exists>dir n. q = filepath_Join dir n \<and> plain_name n \<and> take 1 n \<noteq> ''.'')"

lemma visible_Join: "plain_name n \<Longrightarrow> take 1 n \<noteq> ''.'' \<Longrightarrow> visible (filepath_Join dir n)"
  by (auto simp: visible_def)

lemma plain_temp: "plain_name (''.profile-'' @ dec_digits (int k))"
  using digits_dec_digits [of "int k"]
  by (auto simp: plain_name_def list_all_iff digit_char_def)

lemma temp_not_visible: "visible q \<Longrightarrow> q \<noteq> filepath_Join dir (''.profile-'' @ dec_digits (int k))"
  using filepath_Join_name plain_temp by (fastforce simp: visible_def)


section \<open>What the operations do\<close>

named_theorems os_runs \<open>the result and the next state of the file operations\<close>

lemma run_MkdirAll [os_runs]: "run_state (os_MkdirAll H p) m = (map_option ErrOther (h_fault H m OpMkdir p), m)"
  by (simp add: os_MkdirAll_def)

lemma run_ReadFile [os_runs]:
  "run_state (os_ReadFile H p) m =
     (case h_fault H m OpRead p of
        Some e \<Rightarrow> Inl (ErrOther e)
      | None \<Rightarrow> (case file_at m p of None \<Rightarrow> Inl (no_such_file p) | Some f \<Rightarrow> Inr (f_data f)), m)"
  by (simp add: os_ReadFile_def)

lemma run_WriteFile [os_runs]:
  "run_state (os_WriteFile H p d) m =
     (case h_fault H m OpWrite p of
        None \<Rightarrow> (None, store_data p d m)
      | Some e \<Rightarrow> (Some (ErrOther e), case h_short H m p of None \<Rightarrow> m | Some n \<Rightarrow> store_data p (take n d) m))"
  by (simp add: os_WriteFile_def split: option.split)

lemma run_CreateExcl [os_runs]:
  "run_state (os_CreateExcl H p) m =
     (case h_fault H m OpCreate p of
        Some e \<Rightarrow> (Some (ErrOther e), m)
      | None \<Rightarrow> if file_at m p \<noteq> None then (Some (ErrExist (''open '' @ p @ '': file exists'')), m)
               else (None, store_data p [] m))"
  by (simp add: os_CreateExcl_def split: option.split)

lemma run_Rename [os_runs]:
  "run_state (os_Rename H p q) m =
     (case h_fault H m OpRename p of
        Some e \<Rightarrow> (Some (ErrOther e), m)
      | None \<Rightarrow> (case file_at m p of
            None \<Rightarrow> (Some (no_such_file p), m)
          | Some f \<Rightarrow> (None, put_file q f (del_file p m))))"
  by (simp add: os_Rename_def split: option.split)

lemma run_Remove [os_runs]:
  "run_state (os_Remove H p) m =
     (case h_fault H m OpRemove p of
        Some e \<Rightarrow> (Some (ErrOther e), m)
      | None \<Rightarrow> if file_at m p = None then (Some (no_such_file p), m) else (None, del_file p m))"
  by (simp add: os_Remove_def split: option.split)

lemma run_CreateTemp [os_runs]:
  "run_state (os_CreateTemp H dir prefix suffix) m =
     (let p = filepath_Join dir (prefix @ dec_digits (int (h_random H m)) @ suffix)
      in case run_state (os_CreateExcl H p) m of (e, m') \<Rightarrow> (case e of None \<Rightarrow> Inr p | Some e \<Rightarrow> Inl e, m'))"
  by (simp add: os_CreateTemp_def Let_def split: prod.split)

lemma run_execCommandWithEnv [os_runs]:
  "run_state (execCommandWithEnv H timeout environment name args) m =
     (case run_state (run_program H \<lparr>p_name = name, p_args = args, p_env = environment, p_input = [], p_timeout = timeout\<rparr>) m of
        ((output, ended), m') \<Rightarrow> (exec_result output ended, m'))"
  by (simp add: execCommandWithEnv_def split: prod.split)

end
