(* ===== verification/Agent.thy ===== *)
theory Agent
  imports Commands GoUrl Machine
begin

text \<open>
  The agent on the router (\<open>agent/go/cmd/rmm-agent/main.go\<close>): pinning the server's signing key,
  checking a signed command, reading its arguments, choosing what to run, and the bookkeeping that
  keeps a command from running twice. Programs, files and the network are a machine whose
  answers are parameters; the trace of started programs is part of its state.
\<close>

section \<open>Configuration and commands\<close>

record agent_config =
  a_ServerURL :: string
  a_EnrollmentToken :: string
  a_IntervalSeconds :: int
  a_CheckIntervalSeconds :: int
  a_DeviceID :: string
  a_DeviceToken :: string
  a_DeviceTokenEpoch :: int
  a_LockFile :: string
  a_SpoolDir :: string
  a_BackupDir :: string
  a_TunnelIdentity :: string
  a_TunnelKeyEpoch :: int
  a_TunnelStateDir :: string
  a_UpdatePublicKey :: string
  a_CommandSigningPublicKey :: string
  a_CommandSigningKeyID :: string
  a_CommandStateDir :: string
  a_RecoveryDir :: string
  a_CheckTargets :: "string list"
  a_HostnameOverride :: string
  a_HostnameSuffix :: string
  a_ConfigFile :: string

record agent_command =
  ac_ID :: string
  ac_DeviceID :: string
  ac_Type :: string
  ac_Args :: RawMessage
  ac_CreatedAt :: time
  ac_ExpiresAt :: "time option"
  ac_Nonce :: string
  ac_SignatureKeyID :: string
  ac_Signature :: string

definition pinCommandSigningKey ::
  "env \<Rightarrow> agent_config \<Rightarrow> string \<Rightarrow> string \<Rightarrow> (bool \<times> agent_config) res" where
  "pinCommandSigningKey E cfg encodedPublicKey keyID =
     (let encodedPublicKey = TrimSpace encodedPublicKey; keyID = TrimSpace keyID in
      if encodedPublicKey = [] \<or> keyID = [] then Inl (ErrMsg ''server did not provide a command signing key'')
      else bindE (ParsePublicKey encodedPublicKey) (\<lambda>publicKey.
        if KeyID E publicKey \<noteq> keyID then Inl (ErrMsg ''server command signing key ID does not match the public key'')
        else if a_CommandSigningPublicKey cfg = [] \<and> a_CommandSigningKeyID cfg = [] then
          Inr (True, cfg\<lparr>a_CommandSigningPublicKey := encodedPublicKey, a_CommandSigningKeyID := keyID\<rparr>)
        else if a_CommandSigningPublicKey cfg \<noteq> encodedPublicKey \<or> a_CommandSigningKeyID cfg \<noteq> keyID then
          Inl (ErrMsg ''server command signing key changed; explicit agent re-enrollment is required'')
        else Inr (False, cfg)))"

section \<open>Checked texts\<close>

text \<open>
  The loops go over runes; a byte outside ASCII is part of a rune that no case accepts, so the
  bytes can be checked one by one.
\<close>

definition word_char :: "char \<Rightarrow> bool" where
  "word_char c \<longleftrightarrow> alpha_char c \<or> digit_char c"

definition safe_text :: "nat \<Rightarrow> string \<Rightarrow> string \<Rightarrow> bool" where
  "safe_text limit extra value \<longleftrightarrow>
     value \<noteq> [] \<and> length value \<le> limit \<and> list_all (\<lambda>c. word_char c \<or> c \<in> set extra) value"

definition safeHostName :: "string \<Rightarrow> bool" where
  "safeHostName = safe_text 255 ''.-_:[]''"

definition safeUserName :: "string \<Rightarrow> bool" where
  "safeUserName = safe_text 128 ''_.@-''"

definition safeSessionID :: "string \<Rightarrow> bool" where
  "safeSessionID = safe_text 128 ''_-''"

definition safePackageName :: "string \<Rightarrow> bool" where
  "safePackageName = safe_text 128 ''_.+-''"

definition safeServiceName :: "string \<Rightarrow> bool" where
  "safeServiceName value \<longleftrightarrow> value \<in> set [''network'', ''firewall'', ''dnsmasq'', ''dropbear'', ''uhttpd'']"

definition safeUCIConfig :: "string \<Rightarrow> bool" where
  "safeUCIConfig value \<longleftrightarrow> value \<in> set [''network'', ''wireless'', ''dhcp'', ''firewall'', ''system'']"

definition safeUCISection :: "string \<Rightarrow> bool" where
  "safeUCISection = safe_text 128 ''_.@[]-''"

definition safeUCIOption :: "string \<Rightarrow> bool" where
  "safeUCIOption = safe_text 128 ''_-''"

definition valueDefault :: "string \<Rightarrow> string \<Rightarrow> string" where
  "valueDefault value fallback = (let value = TrimSpace value in if value = [] then fallback else value)"

text \<open>\<open>strconv.Atoi\<close> for 64 bit.\<close>

definition Atoi :: "string \<Rightarrow> int option" where
  "Atoi s =
     (let (sign, ds) = (case s of
            c # r \<Rightarrow> if c = CHR ''-'' then (-1, r) else if c = CHR ''+'' then (1, r) else (1, s)
          | [] \<Rightarrow> (1, s));
          n = sign * dec_val ds
      in if ds \<noteq> [] \<and> list_all digit_char ds \<and> - (2 ^ 63) \<le> n \<and> n < 2 ^ 63 then Some n else None)"

definition parsePort :: "string \<Rightarrow> int \<Rightarrow> int \<times> bool" where
  "parsePort value fallback =
     (let value = (if TrimSpace value = [] then (if fallback < 0 then CHR ''-'' # dec_digits (- fallback) else dec_digits fallback) else value)
      in case Atoi (TrimSpace value) of
           None \<Rightarrow> (0, False)
         | Some port \<Rightarrow> if port < 1 \<or> port > 65535 then (0, False) else (port, True))"

definition parseOptionalPort :: "string \<Rightarrow> int" where
  "parseOptionalPort value =
     (if TrimSpace value = [] then 0 else case parsePort value 1 of (port, ok) \<Rightarrow> if ok then port else 0)"

definition parseDurationSeconds :: "string \<Rightarrow> int \<Rightarrow> int \<times> bool" where
  "parseDurationSeconds value fallback = parsePort value fallback"

definition intDefault :: "string \<Rightarrow> int \<Rightarrow> int" where
  "intDefault value fallback = (case Atoi (TrimSpace value) of None \<Rightarrow> fallback | Some n \<Rightarrow> n)"

definition commandTarget :: "(string \<times> string) list \<Rightarrow> string \<Rightarrow> string" where
  "commandTarget args fallback = (let target = TrimSpace (map_get args ''target'') in if target = [] then fallback else target)"

section \<open>Checking a command\<close>

definition agent_envelope :: "agent_command \<Rightarrow> time \<Rightarrow> Envelope" where
  "agent_envelope cmd expiresAt =
     \<lparr>e_ID = ac_ID cmd, e_DeviceID = ac_DeviceID cmd, e_Type = ac_Type cmd, e_Args = ac_Args cmd,
      e_CreatedAt = ac_CreatedAt cmd, e_ExpiresAt = expiresAt, e_Nonce = ac_Nonce cmd\<rparr>"

definition validateSignedCommand :: "env \<Rightarrow> agent_config \<Rightarrow> agent_command \<Rightarrow> time \<Rightarrow> unit res" where
  "validateSignedCommand E cfg cmd now =
     (if \<not> safeSessionID (ac_ID cmd) then Inl (ErrMsg ''command ID is invalid'')
      else if ac_DeviceID cmd \<noteq> a_DeviceID cfg then Inl (ErrMsg ''command is bound to another device'')
      else case ac_ExpiresAt cmd of
        None \<Rightarrow> Inl (ErrMsg ''command validity period is missing'')
      | Some expires \<Rightarrow>
          if IsZero (ac_CreatedAt cmd) then Inl (ErrMsg ''command validity period is missing'')
          else if now > expires then Inl (ErrMsg ''command has expired'')
          else if ac_CreatedAt cmd > now + 5 * minute then Inl (ErrMsg ''command creation time is in the future'')
          else if \<not> expires > ac_CreatedAt cmd \<or> expires - ac_CreatedAt cmd > 25 * hour
          then Inl (ErrMsg ''command validity period is invalid'')
          else if ac_SignatureKeyID cmd = [] \<or> ac_SignatureKeyID cmd \<noteq> a_CommandSigningKeyID cfg
          then Inl (ErrMsg ''command signing key ID is not trusted'')
          else bindE (ParsePublicKey (a_CommandSigningPublicKey cfg)) (\<lambda>publicKey.
            Verify E publicKey (agent_envelope cmd expires) (ac_Signature cmd)))"

section \<open>Arguments\<close>

text \<open>
  \<open>json.Unmarshal\<close> into a map of strings whose error is ignored: nothing of a text that is not an
  object, the empty string for a member that is not a string.
\<close>

definition args_map :: "RawMessage \<Rightarrow> (string \<times> string) list" where
  "args_map raw =
     (case json_unmarshal raw of
        Some (JObj ms) \<Rightarrow> rev (map (\<lambda>(k, v). (k, case v of JStr s \<Rightarrow> s | _ \<Rightarrow> [])) ms)
      | _ \<Rightarrow> [])"

record uciTarget =
  ut_Config :: string
  ut_Section :: string
  ut_Option :: string
  ut_Value :: string

definition uciConfigArg :: "(string \<times> string) list \<Rightarrow> string \<times> bool" where
  "uciConfigArg args =
     (let config = TrimSpace (map_get args ''config''); config = (if config = [] then ''network'' else config)
      in (config, safeUCIConfig config))"

definition newline :: char where "newline = CHR 0x0A"

definition uciTargetArgs :: "(string \<times> string) list \<Rightarrow> string + uciTarget" where
  "uciTargetArgs args =
     (case uciConfigArg args of (config, ok) \<Rightarrow>
        if \<not> ok then Inl (''uci config is not allowlisted'' @ [newline])
        else let section = TrimSpace (map_get args ''section''); option = TrimSpace (map_get args ''option'')
             in if \<not> safeUCISection section \<or> \<not> safeUCIOption option then Inl (''uci section or option is invalid'' @ [newline])
                else Inr \<lparr>ut_Config = config, ut_Section = section, ut_Option = option, ut_Value = map_get args ''value''\<rparr>)"

record remoteSSHArgs =
  ra_SessionID :: string
  ra_ServerHost :: string
  ra_ServerPort :: int
  ra_RemotePort :: int
  ra_LuCIPort :: int
  ra_LuCILocalPort :: int
  ra_LocalHost :: string
  ra_LocalPort :: int
  ra_ServerUser :: string
  ra_ServerHostKey :: string
  ra_CredentialMode :: string
  ra_DurationSeconds :: int

text \<open>
  \<open>ParseAuthorizedKey\<close> of \<open>golang.org/x/crypto/ssh\<close> is a parameter: the key type and the rest of
  the text, \<open>None\<close> on an error.
\<close>

definition validSSHHostPublicKey :: "(string \<Rightarrow> (string \<times> string) option) \<Rightarrow> string \<Rightarrow> bool" where
  "validSSHHostPublicKey ParseAuthorizedKey value \<longleftrightarrow>
     value \<noteq> [] \<and> length value \<le> 1024 \<and> CHR 0x0D \<notin> set value \<and> newline \<notin> set value \<and>
     (case ParseAuthorizedKey value of
        None \<Rightarrow> False
      | Some (kind, rest) \<Rightarrow> TrimSpace rest = [] \<and> (kind = ''ssh-ed25519'' \<or> kind = ''ssh-rsa''))"

definition parseRemoteSSHArgs ::
  "(string \<Rightarrow> (string \<times> string) option) \<Rightarrow> (string \<times> string) list \<Rightarrow> string + remoteSSHArgs" where
  "parseRemoteSSHArgs ParseAuthorizedKey args =
     (let bad = ''remote tunnel port or duration is invalid'' @ [newline];
          (serverPort, ok1) = parsePort (map_get args ''server_port'') 22;
          (remotePort, ok2) = parsePort (map_get args ''remote_port'') 0;
          (luciPort, ok3) = parsePort (map_get args ''luci_port'') 0;
          (luciLocalPort, ok4) = parsePort (map_get args ''luci_local_port'') 80;
          (localPort, ok5) = parsePort (map_get args ''local_port'') 22;
          (duration, ok6) = parseDurationSeconds (map_get args ''duration_seconds'') 900;
          p = \<lparr>ra_SessionID = map_get args ''session_id'', ra_ServerHost = map_get args ''server_host'',
               ra_ServerPort = serverPort, ra_RemotePort = remotePort, ra_LuCIPort = luciPort,
               ra_LuCILocalPort = luciLocalPort, ra_LocalHost = valueDefault (map_get args ''local_host'') ''127.0.0.1'',
               ra_LocalPort = localPort, ra_ServerUser = valueDefault (map_get args ''server_user'') ''rmm-tunnel'',
               ra_ServerHostKey = TrimSpace (map_get args ''server_host_key''),
               ra_CredentialMode = valueDefault (map_get args ''credential_mode'') ''legacy'',
               ra_DurationSeconds = duration\<rparr>
      in if \<not> ok1 then Inl bad
         else if \<not> ok2 \<and> map_get args ''remote_port'' \<noteq> ''0'' then Inl bad
         else if \<not> ok3 \<and> map_get args ''luci_port'' \<noteq> ''0'' then Inl bad
         else if remotePort = 0 \<and> luciPort = 0 then Inl (''no remote forwarding target'' @ [newline])
         else if \<not> ok4 then Inl bad
         else if \<not> ok5 then Inl bad
         else if \<not> ok6 then Inl bad
         else if \<not> safeSessionID (ra_SessionID p) \<or> \<not> safeHostName (ra_ServerHost p) \<or> \<not> safeHostName (ra_LocalHost p) \<or>
                 \<not> safeUserName (ra_ServerUser p) then Inl (''remote tunnel host or user is invalid'' @ [newline])
         else if ra_CredentialMode p \<noteq> ''legacy'' \<and> ra_CredentialMode p \<noteq> ''device''
         then Inl (''remote tunnel credential mode is invalid'' @ [newline])
         else if ra_CredentialMode p = ''device'' \<and> \<not> validSSHHostPublicKey ParseAuthorizedKey (ra_ServerHostKey p)
         then Inl (''remote tunnel host key is invalid'' @ [newline])
         else Inr p)"

end
