(* ===== verification/FleetProfile.thy ===== *)
theory FleetProfile
  imports Agent
begin

text \<open>
  Declarative UCI profiles (\<open>internal/fleetprofile/profile.go\<close>), shared by the server and the
  agent: which profiles are valid, which options hold credentials and how they are masked.
\<close>

section \<open>Profiles\<close>

record profile_option =
  po_Section :: string
  po_Option :: string
  po_Value :: string

record Profile =
  pf_Config :: string
  pf_Options :: "profile_option list"

text \<open>The two regular expressions.\<close>

definition ident_head :: "char \<Rightarrow> bool" where
  "ident_head c \<longleftrightarrow> word_char c \<or> c = CHR ''_''"

definition ident_tail :: "char \<Rightarrow> bool" where
  "ident_tail c \<longleftrightarrow> ident_head c \<or> c = CHR ''-''"

definition profile_identifier :: "string \<Rightarrow> bool" where
  "profile_identifier s \<longleftrightarrow> (case s of [] \<Rightarrow> False | c # r \<Rightarrow> ident_head c \<and> length r \<le> 63 \<and> list_all ident_tail r)"

definition anonymous_section :: "string \<Rightarrow> bool" where
  "anonymous_section r =
     (let name = takeWhile ident_tail r; rest = dropWhile ident_tail r; digits = takeWhile digit_char (drop 1 rest)
      in (case name of [] \<Rightarrow> False | c # t \<Rightarrow> (alpha_char c \<or> c = CHR ''_'') \<and> length t \<le> 63) \<and>
         take 1 rest = ''['' \<and> 1 \<le> length digits \<and> length digits \<le> 3 \<and>
         dropWhile digit_char (drop 1 rest) = '']'')"

definition sectionIdentifier :: "string \<Rightarrow> bool" where
  "sectionIdentifier s \<longleftrightarrow> profile_identifier s \<or> (case s of [] \<Rightarrow> False | c # r \<Rightarrow> c = CHR ''@'' \<and> anonymous_section r)"

definition option_key :: "profile_option \<Rightarrow> string" where
  "option_key o' = po_Section o' @ ''.'' @ po_Option o'"

definition option_valid :: "profile_option \<Rightarrow> bool" where
  "option_valid o' \<longleftrightarrow>
     sectionIdentifier (po_Section o') \<and> profile_identifier (po_Option o') \<and> length (po_Value o') \<le> 2048 \<and>
     CHR 0x00 \<notin> set (po_Value o') \<and> CHR 0x0D \<notin> set (po_Value o') \<and> CHR 0x0A \<notin> set (po_Value o')"

fun validate_options :: "string list \<Rightarrow> profile_option list \<Rightarrow> unit res" where
  "validate_options seen [] = Inr ()"
| "validate_options seen (o' # os) =
     (if \<not> option_valid o' \<or> option_key o' \<in> set seen then Inl (ErrMsg ''invalid or duplicate UCI option'')
      else validate_options (option_key o' # seen) os)"

definition Validate :: "Profile \<Rightarrow> unit res" where
  "Validate profile =
     (if pf_Config profile \<notin> set [''system'', ''network'', ''wireless'', ''dhcp'', ''firewall'']
      then Inl (ErrMsg ''unsupported UCI configuration'')
      else if pf_Options profile = [] \<or> length (pf_Options profile) > 32
      then Inl (ErrMsg ''profile needs 1 to 32 options'')
      else validate_options [] (pf_Options profile))"

definition Sensitive :: "string \<Rightarrow> bool" where
  "Sensitive option =
     list_ex (Contains (ToLower option))
       [''password'', ''passwd'', ''secret'', ''token'', ''key'', ''psk'', ''credential'']"

definition Mask :: "Profile \<Rightarrow> Profile" where
  "Mask profile = profile\<lparr>pf_Options :=
     map (\<lambda>o'. if Sensitive (po_Option o') then o'\<lparr>po_Value := ''[redacted]''\<rparr> else o') (pf_Options profile)\<rparr>"

section \<open>JSON\<close>

definition decode_option :: "profile_option \<Rightarrow> json \<Rightarrow> profile_option option" where
  "decode_option old j =
     Option.bind (decode_field to_string ''section'' (po_Section old) j) (\<lambda>s.
     Option.bind (decode_field to_string ''option'' (po_Option old) j) (\<lambda>n.
     Option.bind (decode_field to_string ''value'' (po_Value old) j) (\<lambda>v.
       Some \<lparr>po_Section = s, po_Option = n, po_Value = v\<rparr>)))"

definition empty_option :: profile_option where
  "empty_option = \<lparr>po_Section = [], po_Option = [], po_Value = []\<rparr>"

text \<open>An array decoded again keeps what its elements held.\<close>

fun decode_elements :: "profile_option list \<Rightarrow> json list \<Rightarrow> profile_option list option" where
  "decode_elements olds [] = Some []"
| "decode_elements olds (v # vs) =
     Option.bind (decode_option (case olds of [] \<Rightarrow> empty_option | old # _ \<Rightarrow> old) v) (\<lambda>x.
       map_option ((#) x) (decode_elements (drop 1 olds) vs))"

definition to_options :: "profile_option list \<Rightarrow> json \<Rightarrow> profile_option list option" where
  "to_options olds v = (case v of JArr vs \<Rightarrow> decode_elements olds vs | JNull \<Rightarrow> Some [] | _ \<Rightarrow> None)"

definition decode_profile :: "json \<Rightarrow> Profile option" where
  "decode_profile j =
     Option.bind (string_field ''config'' j) (\<lambda>c.
     Option.bind (decode_field to_options ''options'' [] j) (\<lambda>os.
       Some \<lparr>pf_Config = c, pf_Options = os\<rparr>))"

definition option_json :: "profile_option \<Rightarrow> json" where
  "option_json o' = JObj [(''section'', JStr (po_Section o')), (''option'', JStr (po_Option o')), (''value'', JStr (po_Value o'))]"

definition profile_json :: "Profile \<Rightarrow> json" where
  "profile_json p = JObj [(''config'', JStr (pf_Config p)), (''options'', JArr (map option_json (pf_Options p)))]"

end
