(* ===== verification/AgentConfig.thy ===== *)
theory AgentConfig
  imports Agent
begin

text \<open>
  The agent's configuration file (\<open>agent/go/cmd/rmm-agent/main.go\<close>): reading it over the
  environment, writing it back, and the identity it carries across restarts.
\<close>

section \<open>Reading\<close>

definition Itoa :: "int \<Rightarrow> string" where
  "Itoa n = (if n < 0 then CHR ''-'' # dec_digits (- n) else dec_digits n)"

definition quote_char :: "char \<Rightarrow> bool" where
  "quote_char c \<longleftrightarrow> c = dquote \<or> c = CHR 0x27"

definition trim_quotes :: "string \<Rightarrow> string" where
  "trim_quotes s = rev (dropWhile quote_char (rev (dropWhile quote_char s)))"

text \<open>The assignment on a line: everything up to the first \<open>=\<close> is the key.\<close>

definition shell_line :: "string \<Rightarrow> (string \<times> string) list" where
  "shell_line line =
     (let line = TrimSpace line in
      if line = [] \<or> HasPrefix line ''#'' then []
      else case Cut (CHR ''='') line of
        (_, None) \<Rightarrow> []
      | (k, Some v) \<Rightarrow>
          let key = TrimSpace k; value = trim_quotes (TrimSpace v)
          in if key = [] then [] else [(key, value)])"

text \<open>The last assignment of a key counts, so it comes first.\<close>

definition parseShellConfig :: "string \<Rightarrow> (string \<times> string) list" where
  "parseShellConfig d = rev (concat (map shell_line (Split newline d)))"

definition splitWords :: "string \<Rightarrow> string list" where
  "splitWords value = Fields value"

definition envDefault :: "(string \<Rightarrow> string) \<Rightarrow> string \<Rightarrow> string \<Rightarrow> string" where
  "envDefault getenv key fallback = (let v = TrimSpace (getenv key) in if v \<noteq> [] then v else fallback)"

definition env_config :: "(string \<Rightarrow> string) \<Rightarrow> string \<Rightarrow> agent_config" where
  "env_config getenv path =
     \<lparr>a_ServerURL = envDefault getenv ''SERVER_URL'' ''https://rmm.example.com'',
      a_EnrollmentToken = getenv ''ENROLLMENT_TOKEN'',
      a_IntervalSeconds = intDefault (getenv ''INTERVAL_SECONDS'') 30,
      a_CheckIntervalSeconds = intDefault (getenv ''CONNECTIVITY_CHECK_INTERVAL_SECONDS'') 300,
      a_DeviceID = getenv ''DEVICE_ID'',
      a_DeviceToken = getenv ''DEVICE_TOKEN'',
      a_DeviceTokenEpoch = intDefault (getenv ''DEVICE_TOKEN_EPOCH'') 1,
      a_LockFile = envDefault getenv ''LOCK_FILE'' ''/tmp/rmm-agent-go.lock'',
      a_SpoolDir = envDefault getenv ''SPOOL_DIR'' ''/tmp/rmm-agent-go-results'',
      a_BackupDir = envDefault getenv ''BACKUP_DIR'' ''/tmp/rmm-agent-backups'',
      a_TunnelIdentity = envDefault getenv ''TUNNEL_DEVICE_IDENTITY_FILE'' ''/etc/rmm-agent/tunnel_device_key'',
      a_TunnelKeyEpoch = intDefault (getenv ''TUNNEL_KEY_EPOCH'') 1,
      a_TunnelStateDir = envDefault getenv ''TUNNEL_STATE_DIR'' ''/tmp/rmm-agent-tunnels'',
      a_UpdatePublicKey = envDefault getenv ''UPDATE_MANIFEST_PUBLIC_KEY'' ''/etc/rmm-agent/update-manifest.pem'',
      a_CommandSigningPublicKey = getenv ''COMMAND_SIGNING_PUBLIC_KEY'',
      a_CommandSigningKeyID = getenv ''COMMAND_SIGNING_KEY_ID'',
      a_CommandStateDir = envDefault getenv ''COMMAND_STATE_DIR'' ''/etc/rmm-agent/command-state'',
      a_RecoveryDir = envDefault getenv ''RECOVERY_DIR'' ''/etc/rmm-agent/recovery'',
      a_CheckTargets = splitWords (envDefault getenv ''CHECK_TARGETS'' ''1.1.1.1 8.8.8.8''),
      a_HostnameOverride = getenv ''HOSTNAME_OVERRIDE'',
      a_HostnameSuffix = getenv ''HOSTNAME_SUFFIX'',
      a_ConfigFile = path\<rparr>"

definition text_value :: "(string \<times> string) list \<Rightarrow> string \<Rightarrow> string \<Rightarrow> string" where
  "text_value values key old = (let v = map_get values key in if v \<noteq> [] then v else old)"

definition int_value :: "(string \<times> string) list \<Rightarrow> string \<Rightarrow> int \<Rightarrow> int" where
  "int_value values key old = (let v = map_get values key in if v \<noteq> [] then intDefault v old else old)"

definition overlay :: "(string \<times> string) list \<Rightarrow> agent_config \<Rightarrow> agent_config" where
  "overlay values c =
     c\<lparr>a_ServerURL := text_value values ''SERVER_URL'' (a_ServerURL c),
       a_EnrollmentToken := text_value values ''ENROLLMENT_TOKEN'' (a_EnrollmentToken c),
       a_IntervalSeconds := int_value values ''INTERVAL_SECONDS'' (a_IntervalSeconds c),
       a_CheckIntervalSeconds := int_value values ''CONNECTIVITY_CHECK_INTERVAL_SECONDS'' (a_CheckIntervalSeconds c),
       a_DeviceID := text_value values ''DEVICE_ID'' (a_DeviceID c),
       a_DeviceToken := text_value values ''DEVICE_TOKEN'' (a_DeviceToken c),
       a_DeviceTokenEpoch := int_value values ''DEVICE_TOKEN_EPOCH'' (a_DeviceTokenEpoch c),
       a_LockFile := text_value values ''LOCK_FILE'' (a_LockFile c),
       a_SpoolDir := text_value values ''SPOOL_DIR'' (a_SpoolDir c),
       a_BackupDir := text_value values ''BACKUP_DIR'' (a_BackupDir c),
       a_TunnelIdentity := text_value values ''TUNNEL_DEVICE_IDENTITY_FILE'' (a_TunnelIdentity c),
       a_TunnelKeyEpoch := int_value values ''TUNNEL_KEY_EPOCH'' (a_TunnelKeyEpoch c),
       a_TunnelStateDir := text_value values ''TUNNEL_STATE_DIR'' (a_TunnelStateDir c),
       a_UpdatePublicKey := text_value values ''UPDATE_MANIFEST_PUBLIC_KEY'' (a_UpdatePublicKey c),
       a_CommandSigningPublicKey := text_value values ''COMMAND_SIGNING_PUBLIC_KEY'' (a_CommandSigningPublicKey c),
       a_CommandSigningKeyID := text_value values ''COMMAND_SIGNING_KEY_ID'' (a_CommandSigningKeyID c),
       a_CommandStateDir := text_value values ''COMMAND_STATE_DIR'' (a_CommandStateDir c),
       a_RecoveryDir := text_value values ''RECOVERY_DIR'' (a_RecoveryDir c),
       a_CheckTargets := (let v = map_get values ''CHECK_TARGETS'' in if v \<noteq> [] then splitWords v else a_CheckTargets c),
       a_HostnameOverride := text_value values ''HOSTNAME_OVERRIDE'' (a_HostnameOverride c),
       a_HostnameSuffix := text_value values ''HOSTNAME_SUFFIX'' (a_HostnameSuffix c)\<rparr>"

definition TrimRightSlash :: "string \<Rightarrow> string" where
  "TrimRightSlash s = rev (dropWhile (\<lambda>c. c = CHR ''/'') (rev s))"

definition finish_config :: "agent_config \<Rightarrow> agent_config" where
  "finish_config c =
     (let c = c\<lparr>a_ServerURL := TrimRightSlash (a_ServerURL c)\<rparr>;
          c = (if a_IntervalSeconds c \<le> 0 then c\<lparr>a_IntervalSeconds := 30\<rparr> else c)
      in if a_CheckIntervalSeconds c \<le> 0 then c\<lparr>a_CheckIntervalSeconds := 300\<rparr> else c)"

definition loadConfig :: "host \<Rightarrow> (string \<Rightarrow> string) \<Rightarrow> string \<Rightarrow> (os_error + agent_config) act" where
  "loadConfig H getenv path = do {
     r \<leftarrow> os_ReadFile H path;
     State_Monad.return (case r of
       Inl (ErrNotExist _) \<Rightarrow> Inr (env_config getenv path)
     | Inl e \<Rightarrow> Inl e
     | Inr d \<Rightarrow> Inr (finish_config (overlay (parseShellConfig d) (env_config getenv path))))
   }"

section \<open>Writing\<close>

definition escape_quotes :: "string \<Rightarrow> string" where
  "escape_quotes v = concat (map (\<lambda>c. if c = dquote then [backslash, dquote] else [c]) v)"

definition writeConfigLine :: "string \<Rightarrow> string \<Rightarrow> string" where
  "writeConfigLine key value = key @ ''='' @ [dquote] @ escape_quotes value @ [dquote, newline]"

definition config_lines :: "agent_config \<Rightarrow> (string \<times> string) list" where
  "config_lines c =
     [(''SERVER_URL'', a_ServerURL c), (''ENROLLMENT_TOKEN'', a_EnrollmentToken c),
      (''INTERVAL_SECONDS'', Itoa (a_IntervalSeconds c)),
      (''CONNECTIVITY_CHECK_INTERVAL_SECONDS'', Itoa (a_CheckIntervalSeconds c)),
      (''CHECK_TARGETS'', Join (CHR '' '') (a_CheckTargets c)), (''BACKUP_DIR'', a_BackupDir c),
      (''TUNNEL_DEVICE_IDENTITY_FILE'', a_TunnelIdentity c), (''TUNNEL_KEY_EPOCH'', Itoa (a_TunnelKeyEpoch c)),
      (''TUNNEL_STATE_DIR'', a_TunnelStateDir c), (''UPDATE_MANIFEST_PUBLIC_KEY'', a_UpdatePublicKey c),
      (''COMMAND_SIGNING_PUBLIC_KEY'', a_CommandSigningPublicKey c), (''COMMAND_SIGNING_KEY_ID'', a_CommandSigningKeyID c),
      (''COMMAND_STATE_DIR'', a_CommandStateDir c), (''RECOVERY_DIR'', a_RecoveryDir c)] @
     (if a_HostnameOverride c \<noteq> [] then [(''HOSTNAME_OVERRIDE'', a_HostnameOverride c)] else []) @
     (if a_HostnameSuffix c \<noteq> [] then [(''HOSTNAME_SUFFIX'', a_HostnameSuffix c)] else []) @
     [(''DEVICE_ID'', a_DeviceID c), (''DEVICE_TOKEN'', a_DeviceToken c), (''DEVICE_TOKEN_EPOCH'', Itoa (a_DeviceTokenEpoch c))]"

definition config_text :: "agent_config \<Rightarrow> string" where
  "config_text c = concat (map (\<lambda>(k, v). writeConfigLine k v) (config_lines c))"

definition saveConfig :: "host \<Rightarrow> agent_config \<Rightarrow> (os_error option) act" where
  "saveConfig H cfg = do {
     e \<leftarrow> os_WriteFile H (a_ConfigFile cfg @ ''.tmp'') (config_text cfg);
     case e of Some e \<Rightarrow> State_Monad.return (Some e)
     | None \<Rightarrow> os_Rename H (a_ConfigFile cfg @ ''.tmp'') (a_ConfigFile cfg)
   }"

section \<open>What survives a restart\<close>

definition tidy :: "string \<Rightarrow> bool" where
  "tidy v \<longleftrightarrow> dquote \<notin> set v \<and> newline \<notin> set v \<and> take 1 v \<noteq> [CHR 0x27] \<and> take 1 (rev v) \<noteq> [CHR 0x27]"

definition plain_key :: "string \<Rightarrow> bool" where
  "plain_key k \<longleftrightarrow> k \<noteq> [] \<and> list_all (\<lambda>c. word_char c \<or> c = CHR ''_'') k"

lemma escape_quotes_tidy: "dquote \<notin> set v \<Longrightarrow> escape_quotes v = v"
  by (induction v) (auto simp: escape_quotes_def)

lemma trim_quotes_tidy:
  assumes "tidy v"
  shows "trim_quotes (dquote # v @ [dquote]) = v"
proof (cases v rule: rev_cases)
  case Nil
  then show ?thesis by (simp add: trim_quotes_def quote_char_def)
next
  case (snoc u d)
  obtain c w where cw: "v = c # w" using snoc by (metis append_is_Nil_conv list.exhaust not_Cons_self2)
  have "\<not> quote_char c" using assms cw by (auto simp: tidy_def quote_char_def)
  moreover have "\<not> quote_char d" using assms snoc by (auto simp: tidy_def quote_char_def)
  ultimately have "dropWhile quote_char (dquote # (c # w) @ [dquote]) = (c # w) @ [dquote]"
    "dropWhile quote_char (dquote # d # rev u) = d # rev u"
    by (simp_all add: quote_char_def)
  moreover have "rev (v @ [dquote]) = dquote # d # rev u" using snoc by simp
  ultimately have "dropWhile quote_char (dquote # v @ [dquote]) = v @ [dquote]" "dropWhile quote_char (rev (v @ [dquote])) = rev v"
    using cw snoc by simp_all
  then show ?thesis by (simp add: trim_quotes_def)
qed


lemma space_len_head:
  assumes "plain_char c" and "\<And>w. w \<in> set ws \<Longrightarrow> \<exists>c r. w = c # r \<and> \<not> plain_char c"
  shows "space_len ws (c # s) = 0"
proof -
  have "find_row (HasPrefix (c # s)) ws = None"
    using assms by (fastforce simp: find_row_None)
  with assms(1) show ?thesis by (simp add: space_len_def plain_char_def)
qed

lemma TrimSpace_ends:
  assumes "plain_char c" "plain_char d"
  shows "TrimSpace (c # s @ [d]) = c # s @ [d]"
proof -
  have "space_len wide_spaces (c # s @ [d]) = 0" by (rule space_len_head [OF assms(1)]) (rule wide_spaces_wide(1))
  moreover have "space_len (map rev wide_spaces) (d # rev s @ [c]) = 0"
    by (rule space_len_head [OF assms(2)]) (use wide_spaces_wide(2) in auto)
  ultimately show ?thesis by (simp add: TrimSpace_def TrimLeftSpace_def TrimRightSpace_def drop_space_fix)
qed

lemma key_char_plain: "word_char c \<or> c = CHR ''_'' \<Longrightarrow> plain_char c \<and> c \<noteq> CHR ''='' \<and> c \<noteq> CHR ''#'' \<and> c \<noteq> newline"
  by (auto simp: word_char_def alpha_char_def digit_char_def plain_char_def ascii_space_def newline_def less_eq_char_def)

lemma shell_line_written:
  assumes k: "plain_key k" and v: "tidy v"
  shows "shell_line (k @ ''='' @ [dquote] @ v @ [dquote]) = [(k, v)]"
proof -
  obtain c r where cr: "k = c # r" using k by (cases k) (auto simp: plain_key_def)
  have key: "list_all plain_char k" "CHR ''='' \<notin> set k" "c \<noteq> CHR ''#''" "plain_char c"
    using k key_char_plain by (auto simp: plain_key_def list_all_iff cr)
  have quote: "plain_char dquote" by (simp add: plain_char_def dquote_def ascii_space_def)
  have "TrimSpace (k @ ''='' @ [dquote] @ v @ [dquote]) = k @ ''='' @ [dquote] @ v @ [dquote]"
    using TrimSpace_ends [OF key(4) quote, of "r @ ''='' @ [dquote] @ v"] by (simp add: cr)
  moreover have "Cut (CHR ''='') (k @ ''='' @ [dquote] @ v @ [dquote]) = (k, Some (dquote # v @ [dquote]))"
  proof -
    have "takeWhile (\<lambda>x. x \<noteq> CHR ''='') k = k" "dropWhile (\<lambda>x. x \<noteq> CHR ''='') k = []"
      using key(2) by (auto simp: takeWhile_eq_all_conv dropWhile_eq_Nil_conv)
    then show ?thesis
      using takeWhile_tail [of "\<lambda>x. x \<noteq> CHR ''=''" "CHR ''=''" k]
        dropWhile_append3 [of "\<lambda>x. x \<noteq> CHR ''=''" "CHR ''=''" k "dquote # v @ [dquote]"]
      by (simp add: Cut_def)
  qed
  moreover have "TrimSpace (dquote # v @ [dquote]) = dquote # v @ [dquote]" by (rule TrimSpace_ends [OF quote quote])
  ultimately show ?thesis
    using TrimSpace_plain [OF key(1)] trim_quotes_tidy [OF v] key(3)
    by (simp add: shell_line_def Let_def cr)
qed

lemma Split_line: "c \<notin> set a \<Longrightarrow> Split c (a @ c # b) = a # Split c b"
  by (induction a) auto

lemma plain_key_no_newline: "plain_key k \<Longrightarrow> newline \<notin> set k"
  using key_char_plain by (auto simp: plain_key_def list_all_iff)

lemma parse_written:
  assumes "\<forall>(k, v) \<in> set kvs. plain_key k \<and> tidy v"
  shows "parseShellConfig (concat (map (\<lambda>(k, v). writeConfigLine k v) kvs)) = rev kvs"
proof -
  have "concat (map shell_line (Split newline (concat (map (\<lambda>(k, v). writeConfigLine k v) kvs)))) = kvs"
    using assms
  proof (induction kvs)
    case Nil
    then show ?case by (simp add: shell_line_def)
  next
    case (Cons kv kvs)
    obtain k v where kv: "kv = (k, v)" by fastforce
    have ok: "plain_key k" "tidy v" using Cons.prems kv by auto
    define a where "a = k @ ''='' @ [dquote] @ v @ [dquote]"
    have "newline \<notin> set a"
      using plain_key_no_newline [OF ok(1)] ok(2) by (auto simp: a_def tidy_def newline_def dquote_def)
    moreover have "writeConfigLine k v = a @ [newline]"
      using escape_quotes_tidy ok(2) by (simp add: writeConfigLine_def a_def tidy_def)
    ultimately show ?case
      using Cons shell_line_written [OF ok, folded a_def] by (simp add: kv Split_line)
  qed
  then show ?thesis by (simp add: parseShellConfig_def)
qed


lemma config_keys: "\<forall>(k, v) \<in> set (config_lines c). plain_key k"
proof -
  have "list_all plain_key [''SERVER_URL'', ''ENROLLMENT_TOKEN'', ''INTERVAL_SECONDS'', ''CONNECTIVITY_CHECK_INTERVAL_SECONDS'',
    ''CHECK_TARGETS'', ''BACKUP_DIR'', ''TUNNEL_DEVICE_IDENTITY_FILE'', ''TUNNEL_KEY_EPOCH'', ''TUNNEL_STATE_DIR'',
    ''UPDATE_MANIFEST_PUBLIC_KEY'', ''COMMAND_SIGNING_PUBLIC_KEY'', ''COMMAND_SIGNING_KEY_ID'', ''COMMAND_STATE_DIR'', ''RECOVERY_DIR'',
    ''HOSTNAME_OVERRIDE'', ''HOSTNAME_SUFFIX'', ''DEVICE_ID'', ''DEVICE_TOKEN'', ''DEVICE_TOKEN_EPOCH'']" by code_simp
  then show ?thesis by (auto simp: config_lines_def split: if_splits)
qed

lemma Atoi_Itoa: "0 \<le> n \<Longrightarrow> n < 2 ^ 63 \<Longrightarrow> Atoi (dec_digits n) = Some n"
proof -
  assume n: "0 \<le> n" "n < 2 ^ 63"
  have "dec_digits n \<noteq> []" by (subst dec_digits.simps) simp
  then obtain c r where cr: "dec_digits n = c # r" by (cases "dec_digits n") auto
  have "digit_char c" using digits_dec_digits [OF n(1)] cr by simp
  then have "c \<noteq> CHR ''-''" "c \<noteq> CHR ''+''" by (auto simp: digit_char_def)
  then show ?thesis using n digits_dec_digits [OF n(1)] dec_val_digits [OF n(1)] cr by (simp add: Atoi_def)
qed

lemma digits_plain: "list_all digit_char s \<Longrightarrow> list_all plain_char s"
  using key_char_plain by (auto simp: list_all_iff word_char_def)

lemma int_value_saved:
  assumes "map_get values key = Itoa n" "0 \<le> n" "n < 2 ^ 63"
  shows "int_value values key old = n"
proof -
  have "dec_digits n \<noteq> []" by (subst dec_digits.simps) simp
  moreover have "TrimSpace (dec_digits n) = dec_digits n"
    using digits_dec_digits [OF assms(2)] by (intro TrimSpace_plain digits_plain)
  ultimately show ?thesis using assms Atoi_Itoa by (simp add: int_value_def intDefault_def Itoa_def)
qed

text \<open>Who the router is for the server, and where it keeps its own state.\<close>

definition identity :: "agent_config \<Rightarrow> string list \<times> int \<times> int" where
  "identity c = ([a_ServerURL c, a_DeviceID c, a_DeviceToken c, a_CommandSigningPublicKey c, a_CommandSigningKeyID c,
      a_CommandStateDir c, a_RecoveryDir c, a_TunnelIdentity c], a_DeviceTokenEpoch c, a_TunnelKeyEpoch c)"

definition saveable :: "agent_config \<Rightarrow> bool" where
  "saveable c \<longleftrightarrow> list_all (\<lambda>(k, v). tidy v) (config_lines c) \<and> [] \<notin> set (fst (identity c)) \<and>
     last (a_ServerURL c) \<noteq> CHR ''/'' \<and> 0 \<le> a_DeviceTokenEpoch c \<and> a_DeviceTokenEpoch c < 2 ^ 63 \<and>
     0 \<le> a_TunnelKeyEpoch c \<and> a_TunnelKeyEpoch c < 2 ^ 63"

lemma identity_reloaded:
  assumes "saveable c"
  shows "identity (finish_config (overlay (parseShellConfig (config_text c)) c0)) = identity c"
proof -
  define V where "V = parseShellConfig (config_text c)"
  have V: "V = rev (config_lines c)"
    unfolding V_def config_text_def
    by (rule parse_written) (use assms config_keys [of c] in \<open>auto simp: saveable_def list_all_iff\<close>)
  have ints: "int_value V ''DEVICE_TOKEN_EPOCH'' x = a_DeviceTokenEpoch c" "int_value V ''TUNNEL_KEY_EPOCH'' x = a_TunnelKeyEpoch c" for x
    by (rule int_value_saved; use assms in \<open>simp add: V saveable_def config_lines_def map_get_def\<close>)+
  have texts: "text_value V ''SERVER_URL'' x = a_ServerURL c" "text_value V ''DEVICE_ID'' x = a_DeviceID c"
    "text_value V ''DEVICE_TOKEN'' x = a_DeviceToken c" "text_value V ''COMMAND_SIGNING_PUBLIC_KEY'' x = a_CommandSigningPublicKey c"
    "text_value V ''COMMAND_SIGNING_KEY_ID'' x = a_CommandSigningKeyID c" "text_value V ''COMMAND_STATE_DIR'' x = a_CommandStateDir c"
    "text_value V ''RECOVERY_DIR'' x = a_RecoveryDir c" "text_value V ''TUNNEL_DEVICE_IDENTITY_FILE'' x = a_TunnelIdentity c" for x
    using assms by (auto simp: V saveable_def identity_def config_lines_def map_get_def text_value_def Let_def)
  have "TrimRightSlash (a_ServerURL c) = a_ServerURL c"
  proof -
    obtain u d where "a_ServerURL c = u @ [d]" using assms by (cases "a_ServerURL c" rule: rev_cases) (auto simp: saveable_def identity_def)
    then show ?thesis using assms by (simp add: TrimRightSlash_def saveable_def)
  qed
  then show ?thesis
    unfolding V_def [symmetric] by (simp add: identity_def finish_config_def overlay_def Let_def texts ints)
qed

lemma saveConfig_run:
  assumes "run_state (saveConfig H cfg) m = (e, m')"
  shows "map_option f_data (file_at m' (a_ConfigFile cfg)) =
     (if e = None then Some (config_text cfg) else map_option f_data (file_at m (a_ConfigFile cfg)))"
  using assms by (auto simp: saveConfig_def os_runs split: option.splits)

section \<open>Properties\<close>

text \<open>
  C39. The identity of the router survives a save and a restart: when \<open>saveConfig\<close> reports no
  error, the next \<open>loadConfig\<close> of that file returns the same server, device credentials and
  epochs, signing key and state directories, whatever the environment says; when it reports an
  error the file still holds what it held before.
\<close>

theorem saved_identity_survives:
  assumes "saveable cfg"
  shows "case run_state (saveConfig H cfg) m of (e, m1) \<Rightarrow>
     if e = None then
       (case fst (run_state (loadConfig H getenv (a_ConfigFile cfg)) m1) of
          Inl (ErrOther _) \<Rightarrow> True
        | Inl _ \<Rightarrow> False
        | Inr cfg' \<Rightarrow> identity cfg' = identity cfg)
     else map_option f_data (file_at m1 (a_ConfigFile cfg)) = map_option f_data (file_at m (a_ConfigFile cfg))"
proof -
  obtain e m1 where run: "run_state (saveConfig H cfg) m = (e, m1)" by fastforce
  have "fst (run_state (loadConfig H getenv (a_ConfigFile cfg)) m1) =
      (case h_fault H m1 OpRead (a_ConfigFile cfg) of
         Some x \<Rightarrow> Inl (ErrOther x)
       | None \<Rightarrow> Inr (finish_config (overlay (parseShellConfig (config_text cfg)) (env_config getenv (a_ConfigFile cfg)))))" if "e = None"
    using saveConfig_run [OF run] that by (auto simp: loadConfig_def run_ReadFile split: option.splits)
  then show ?thesis
    using identity_reloaded [OF assms] saveConfig_run [OF run] run by (auto split: option.splits)
qed

definition example_config :: agent_config where
  "example_config = (env_config (\<lambda>_. []) ''/etc/rmm-agent.conf'')
     \<lparr>a_DeviceID := ''d1'', a_DeviceToken := ''tok'', a_CommandSigningPublicKey := ''key'', a_CommandSigningKeyID := ''id''\<rparr>"

definition broken_host :: host where
  "broken_host = \<lparr>h_fault = (\<lambda>_ _ _. None), h_short = (\<lambda>_ _. None), h_exec = (\<lambda>m _. ([], NotRun ''no programs'', m_files m, 0)),
     h_http = (\<lambda>_ _. (NetError ''offline'', 0)), h_look = (\<lambda>_ _. False), h_cancelled = (\<lambda>_. False), h_random = (\<lambda>_. 0),
     h_regular = (\<lambda>_ _. False), h_executable = (\<lambda>_ _. False), h_addresses = (\<lambda>_ _. None),
     h_start = (\<lambda>_ _. Inl ''no programs''), h_processes = (\<lambda>_. []), h_interfaces = (\<lambda>_. []),
     h_reachable = (\<lambda>_ _ _. False), h_loopback = (\<lambda>_. False)\<rparr>"

definition blank_machine :: machine where
  "blank_machine = \<lparr>m_files = [], m_clock = 0, m_trace = [], m_requests = [], m_timers = []\<rparr>"

theorem saved_identity_survives_witness:
  "case run_state (saveConfig broken_host example_config) blank_machine of (e, m1) \<Rightarrow>
     if e = None then
       (case fst (run_state (loadConfig broken_host (\<lambda>_. ''x'') (a_ConfigFile example_config)) m1) of
          Inl (ErrOther _) \<Rightarrow> True
        | Inl _ \<Rightarrow> False
        | Inr cfg' \<Rightarrow> identity cfg' = identity example_config)
     else map_option f_data (file_at m1 (a_ConfigFile example_config)) = map_option f_data (file_at blank_machine (a_ConfigFile example_config))"
  by (rule saved_identity_survives) code_simp

text \<open>
  Not everything survives: the lock file and the spool directory are read but never written, and
  a quotation mark in a value comes back with the backslash it was written with.
\<close>

lemma spool_dir_lost:
  "a_SpoolDir (finish_config (overlay (parseShellConfig (config_text (example_config\<lparr>a_SpoolDir := ''/mnt/spool''\<rparr>))) (env_config (\<lambda>_. []) [])))
    = ''/tmp/rmm-agent-go-results''"
  by code_simp

lemma quote_not_unescaped:
  "a_DeviceToken (finish_config (overlay (parseShellConfig (config_text (example_config\<lparr>a_DeviceToken := [CHR ''a'', dquote, CHR ''b'']\<rparr>)))
     (env_config (\<lambda>_. []) []))) = [CHR ''a'', backslash, dquote, CHR ''b'']"
  by code_simp

end
