(* ===== verification/AgentProfiles.thy ===== *)
theory AgentProfiles
  imports FleetProfile AgentConfig
begin

text \<open>
  Applying UCI profiles on the router (\<open>agent/go/cmd/rmm-agent/profiles.go\<close>): a preview leaves a
  ticket, an apply saves the original and a journal before the first change and restores the
  original unless the server is reachable afterwards, a rollback returns to the retained
  backup, and the recovery at start replays the journals of interrupted applies.
\<close>

section \<open>Tickets and transactions\<close>

record profileTicket =
  pt_Config :: string
  pt_BaseHash :: string
  pt_DesiredHash :: string
  pt_ExpiresAt :: time

record profileTransaction =
  px_Config :: string
  px_Backup :: string
  px_BackupHash :: string
  px_AppliedHash :: string

record profileChange =
  pc_Path :: string
  pc_Present :: bool
  pc_Drift :: bool
  pc_Before :: string
  pc_Desired :: string

text \<open>
  \<open>json.Marshal\<close> and \<open>json.Unmarshal\<close> of them. A time is printed in UTC here; the router prints the
  same instant with its own offset.
\<close>

definition to_time :: "time \<Rightarrow> json \<Rightarrow> time option" where
  "to_time old v = (case v of JStr s \<Rightarrow> time_Parse s | JNull \<Rightarrow> Some old | _ \<Rightarrow> None)"

definition ticket_json :: "profileTicket \<Rightarrow> json" where
  "ticket_json t = JObj [(''config'', JStr (pt_Config t)), (''base_hash'', JStr (pt_BaseHash t)),
     (''desired_hash'', JStr (pt_DesiredHash t)), (''expires_at'', JStr (RFC3339Nano (pt_ExpiresAt t)))]"

definition decode_ticket :: "json \<Rightarrow> profileTicket option" where
  "decode_ticket j =
     Option.bind (string_field ''config'' j) (\<lambda>c.
     Option.bind (string_field ''base_hash'' j) (\<lambda>b.
     Option.bind (string_field ''desired_hash'' j) (\<lambda>d.
     Option.bind (decode_field to_time ''expires_at'' zero_time j) (\<lambda>e.
       Some \<lparr>pt_Config = c, pt_BaseHash = b, pt_DesiredHash = d, pt_ExpiresAt = e\<rparr>))))"

definition transaction_json :: "profileTransaction \<Rightarrow> json" where
  "transaction_json t = JObj ([(''config'', JStr (px_Config t)), (''backup'', JStr (px_Backup t)),
     (''backup_hash'', JStr (px_BackupHash t))] @
     (if px_AppliedHash t = [] then [] else [(''applied_hash'', JStr (px_AppliedHash t))]))"

definition decode_transaction :: "json \<Rightarrow> profileTransaction option" where
  "decode_transaction j =
     Option.bind (string_field ''config'' j) (\<lambda>c.
     Option.bind (string_field ''backup'' j) (\<lambda>b.
     Option.bind (string_field ''backup_hash'' j) (\<lambda>h.
     Option.bind (string_field ''applied_hash'' j) (\<lambda>a.
       Some \<lparr>px_Config = c, px_Backup = b, px_BackupHash = h, px_AppliedHash = a\<rparr>))))"

definition change_json :: "profileChange \<Rightarrow> json" where
  "change_json c = JObj [(''path'', JStr (pc_Path c)), (''present'', JBool (pc_Present c)), (''drift'', JBool (pc_Drift c)),
     (''before'', JStr (pc_Before c)), (''desired'', JStr (pc_Desired c))]"

section \<open>State files\<close>

definition profileDigest :: "env \<Rightarrow> string \<Rightarrow> string" where
  "profileDigest E d = hex_EncodeToString (sha256_Sum E d)"

definition profileStateDir :: "agent_config \<Rightarrow> string" where
  "profileStateDir cfg = filepath_Join (a_CommandStateDir cfg) ''profiles''"

text \<open>
  The temporary file is written, synchronised and closed (one write here) and renamed; its
  removal is deferred.
\<close>

definition writeProfileState :: "host \<Rightarrow> string \<Rightarrow> string \<Rightarrow> (os_error option) act" where
  "writeProfileState H path d = do {
     e \<leftarrow> os_MkdirAll H (filepath_Dir path);
     case e of
       Some e \<Rightarrow> State_Monad.return (Some e)
     | None \<Rightarrow> do {
         t \<leftarrow> os_CreateTemp H (filepath_Dir path) ''.profile-'' [];
         case t of
           Inl e \<Rightarrow> State_Monad.return (Some e)
         | Inr temp \<Rightarrow> do {
             e \<leftarrow> os_WriteFile H temp d;
             r \<leftarrow> (case e of Some e \<Rightarrow> State_Monad.return (Some e) | None \<Rightarrow> os_Rename H temp path);
             _ \<leftarrow> os_Remove H temp;
             State_Monad.return r } }
   }"

section \<open>Reload and rollback\<close>

definition profile_service :: "string \<Rightarrow> string" where
  "profile_service name = map_get [(''system'', ''system''), (''network'', ''network''), (''wireless'', ''network''),
     (''dhcp'', ''dnsmasq''), (''firewall'', ''firewall'')] name"

text \<open>\<open>Some\<close> is the error.\<close>

definition reloadProfileConfig :: "host \<Rightarrow> string \<Rightarrow> (string option) act" where
  "reloadProfileConfig H name =
     (let service = profile_service name in
      if service = [] then State_Monad.return (Some ''invalid profile configuration'')
      else do {
        (_, code) \<leftarrow> execCommand H (30 * second) (''/etc/init.d/'' @ service) [''reload''];
        State_Monad.return (if code \<noteq> 0 then Some ''profile reload failed'' else None) })"

definition restoreProfileTransaction ::
  "host \<Rightarrow> env \<Rightarrow> agent_config \<Rightarrow> profileTransaction \<Rightarrow> string \<Rightarrow> (string option) act" where
  "restoreProfileTransaction H E cfg tr configDir =
     (if \<not> safeUCIConfig (px_Config tr) \<or> filepath_Base (px_Backup tr) \<noteq> px_Backup tr \<or> \<not> HasSuffix (px_Backup tr) ''.backup''
      then State_Monad.return (Some ''invalid rollback journal'')
      else do {
        r \<leftarrow> os_ReadFile H (filepath_Join (profileStateDir cfg) (px_Backup tr));
        case r of
          Inl e \<Rightarrow> State_Monad.return (Some (Error e))
        | Inr original \<Rightarrow>
            if profileDigest E original \<noteq> px_BackupHash tr then State_Monad.return (Some ''rollback backup checksum mismatch'')
            else do {
              e \<leftarrow> writeProfileState H (filepath_Join configDir (px_Config tr)) original;
              case e of
                Some e \<Rightarrow> State_Monad.return (Some (Error e))
              | None \<Rightarrow> do {
                  (_, code) \<leftarrow> execCommand H (10 * second) ''uci'' [''revert'', px_Config tr];
                  if code \<noteq> 0 then State_Monad.return (Some ''rollback staging cleanup failed'')
                  else reloadProfileConfig H (px_Config tr) } } })"

definition outln :: "string \<Rightarrow> string" where
  "outln s = s @ [newline]"

definition rollbackFleetProfile :: "host \<Rightarrow> env \<Rightarrow> agent_config \<Rightarrow> string \<Rightarrow> string \<Rightarrow> (string \<times> int) act" where
  "rollbackFleetProfile H E cfg applyID configDir =
     (if \<not> safeSessionID applyID then State_Monad.return (outln ''invalid rollback receipt'', 2)
      else do {
        r \<leftarrow> os_ReadFile H (filepath_Join (profileStateDir cfg) (applyID @ ''.receipt''));
        case r of
          Inl _ \<Rightarrow> State_Monad.return (outln ''rollback receipt unavailable'', 1)
        | Inr receipt \<Rightarrow>
            (case Option.bind (json_unmarshal receipt) decode_transaction of
               None \<Rightarrow> State_Monad.return (outln ''invalid rollback receipt'', 1)
             | Some tr \<Rightarrow>
                 if \<not> safeUCIConfig (px_Config tr) then State_Monad.return (outln ''invalid rollback receipt'', 1)
                 else do {
                   c \<leftarrow> os_ReadFile H (filepath_Join configDir (px_Config tr));
                   case c of
                     Inl _ \<Rightarrow> State_Monad.return (outln ''configuration changed since apply; refusing overwrite'', 1)
                   | Inr current \<Rightarrow>
                       if profileDigest E current \<noteq> px_AppliedHash tr
                       then State_Monad.return (outln ''configuration changed since apply; refusing overwrite'', 1)
                       else do {
                         e \<leftarrow> restoreProfileTransaction H E cfg tr configDir;
                         State_Monad.return (if e \<noteq> None then (outln ''profile rollback failed'', 1)
                           else (outln ''profile rolled back to retained backup'', 0)) } }) })"

text \<open>The recovery when the agent starts; \<open>Some\<close> is the error, after which the agent exits.\<close>

fun recover_journals :: "host \<Rightarrow> env \<Rightarrow> agent_config \<Rightarrow> string \<Rightarrow> string list \<Rightarrow> (string option) act" where
  "recover_journals H E cfg configDir [] = State_Monad.return None"
| "recover_journals H E cfg configDir (name # names) =
     (if \<not> HasSuffix name ''.journal'' then recover_journals H E cfg configDir names
      else do {
        r \<leftarrow> os_ReadFile H (filepath_Join (profileStateDir cfg) name);
        case r of
          Inl e \<Rightarrow> State_Monad.return (Some (Error e))
        | Inr d \<Rightarrow>
            (case Option.bind (json_unmarshal d) decode_transaction of
               None \<Rightarrow> State_Monad.return (Some ''journal is not a transaction'')
             | Some tr \<Rightarrow> do {
                 e \<leftarrow> restoreProfileTransaction H E cfg tr configDir;
                 case e of
                   Some e \<Rightarrow> State_Monad.return (Some e)
                 | None \<Rightarrow> do {
                     e \<leftarrow> os_Remove H (filepath_Join (profileStateDir cfg) name);
                     case e of Some e \<Rightarrow> State_Monad.return (Some (Error e))
                     | None \<Rightarrow> recover_journals H E cfg configDir names } }) })"

definition recoverFleetProfiles :: "host \<Rightarrow> env \<Rightarrow> agent_config \<Rightarrow> string \<Rightarrow> (string option) act" where
  "recoverFleetProfiles H E cfg configDir = do {
     r \<leftarrow> os_ReadDir H (profileStateDir cfg);
     case r of
       Inl (ErrNotExist _) \<Rightarrow> State_Monad.return None
     | Inl e \<Rightarrow> State_Monad.return (Some (Error e))
     | Inr names \<Rightarrow> recover_journals H E cfg configDir names
   }"

section \<open>Preview and apply\<close>

definition serverReachable :: "host \<Rightarrow> string \<Rightarrow> bool act" where
  "serverReachable H serverURL = do {
     r \<leftarrow> http_do H \<lparr>rq_method = ''GET'', rq_url = TrimRightSlash serverURL @ ''/healthz'', rq_headers = [], rq_body = []\<rparr>;
     State_Monad.return (case r of NetError _ \<Rightarrow> False | Reply status _ _ \<Rightarrow> 200 \<le> status \<and> status < 300)
   }"

text \<open>A timer of the given length, or the end of the process: whether the process ended.\<close>

definition wait_for :: "host \<Rightarrow> time \<Rightarrow> bool act" where
  "wait_for H d = do {
     stop \<leftarrow> ask (h_cancelled H);
     if stop then State_Monad.return True else do { sleep d; State_Monad.return False }
   }"

definition option_path :: "string \<Rightarrow> profile_option \<Rightarrow> string" where
  "option_path config o' = config @ ''.'' @ po_Section o' @ ''.'' @ po_Option o'"

fun preview_changes :: "host \<Rightarrow> string \<Rightarrow> profile_option list \<Rightarrow> (profileChange list option) act" where
  "preview_changes H config [] = State_Monad.return (Some [])"
| "preview_changes H config (o' # os) = do {
     (current, getCode) \<leftarrow> execCommand H (5 * second) ''uci'' [''-q'', ''get'', option_path config o'];
     if getCode \<noteq> 0 \<and> getCode \<noteq> 1 then State_Monad.return None
     else do {
       let current = TrimSuffix (TrimSuffix current [newline]) [CHR 0x0D];
       let c = \<lparr>pc_Path = option_path config o', pc_Present = (getCode = 0), pc_Drift = (getCode \<noteq> 0 \<or> current \<noteq> po_Value o'),
                pc_Before = current, pc_Desired = po_Value o'\<rparr>;
       rest \<leftarrow> preview_changes H config os;
       State_Monad.return (map_option ((#) c) rest) }
   }"

fun stage_options :: "host \<Rightarrow> string \<Rightarrow> profile_option list \<Rightarrow> bool act" where
  "stage_options H config [] = State_Monad.return True"
| "stage_options H config (o' # os) = do {
     (_, code) \<leftarrow> execCommand H (10 * second) ''uci'' [''set'', option_path config o' @ ''='' @ po_Value o'];
     if code \<noteq> 0 then State_Monad.return False else stage_options H config os
   }"

definition preview_profile ::
  "host \<Rightarrow> agent_config \<Rightarrow> string \<Rightarrow> Profile \<Rightarrow> profileTicket \<Rightarrow> (string \<times> int) act" where
  "preview_profile H cfg cmdID profile ticket = do {
     changes \<leftarrow> preview_changes H (pf_Config profile) (pf_Options profile);
     case changes of
       None \<Rightarrow> State_Monad.return (outln ''failed to read profile option'', 1)
     | Some changes \<Rightarrow> do {
         e \<leftarrow> writeProfileState H (filepath_Join (profileStateDir cfg) (cmdID @ ''.preview'')) (print_json (ticket_json ticket));
         State_Monad.return (if e \<noteq> None then (outln ''failed to persist preview'', 1)
           else (print_json (JObj [(''changes'', JArr (map change_json changes)),
                   (''expires_at'', JStr (RFC3339Nano (pt_ExpiresAt ticket))), (''preview_id'', JStr cmdID)]), 0)) }
   }"

text \<open>
  The end of an apply: the receipt with the digest of what is now in force, then the journal is
  removed. The output, the exit code and whether the apply is confirmed.
\<close>

definition confirm_apply ::
  "host \<Rightarrow> env \<Rightarrow> agent_config \<Rightarrow> string \<Rightarrow> string \<Rightarrow> profileTransaction \<Rightarrow> (string \<times> int \<times> bool) act" where
  "confirm_apply H E cfg configPath cmdID tr = do {
     r \<leftarrow> os_ReadFile H configPath;
     case r of
       Inl _ \<Rightarrow> State_Monad.return (outln ''cannot verify applied configuration; rolling back'', 1, False)
     | Inr applied \<Rightarrow> do {
         e \<leftarrow> writeProfileState H (filepath_Join (profileStateDir cfg) (cmdID @ ''.receipt''))
                (print_json (transaction_json (tr\<lparr>px_AppliedHash := profileDigest E applied\<rparr>)));
         if e \<noteq> None then State_Monad.return (outln ''cannot persist rollback receipt; rolling back'', 1, False)
         else do {
           e \<leftarrow> os_Remove H (filepath_Join (profileStateDir cfg) (cmdID @ ''.journal''));
           State_Monad.return (if e \<noteq> None then (outln ''cannot confirm rollback journal; rolling back'', 1, False)
             else (outln ''profile applied; backup retained; server connectivity confirmed'', 0, True)) } }
   }"

text \<open>From the first change on.\<close>

definition apply_changes ::
  "host \<Rightarrow> env \<Rightarrow> agent_config \<Rightarrow> string \<Rightarrow> string \<Rightarrow> Profile \<Rightarrow> profileTransaction \<Rightarrow> (string \<times> int \<times> bool) act" where
  "apply_changes H E cfg configDir cmdID profile tr = do {
     staged \<leftarrow> stage_options H (pf_Config profile) (pf_Options profile);
     if \<not> staged then State_Monad.return (outln ''profile staging failed; rolling back'', 1, False)
     else do {
       (_, code) \<leftarrow> execCommand H (20 * second) ''uci'' [''commit'', pf_Config profile];
       if code \<noteq> 0 then State_Monad.return (outln ''profile commit failed; rolling back'', 1, False)
       else do {
         e \<leftarrow> reloadProfileConfig H (pf_Config profile);
         if e \<noteq> None then State_Monad.return (outln ''configuration reload failed; rolling back'', 1, False)
         else do {
           stopped \<leftarrow> wait_for H (15 * second);
           up \<leftarrow> (if stopped then State_Monad.return False else serverReachable H (a_ServerURL cfg));
           if stopped \<or> \<not> up then State_Monad.return (outln ''server unreachable after apply; rolling back'', 1, False)
           else confirm_apply H E cfg (filepath_Join configDir (pf_Config profile)) cmdID tr } } }
   }"

text \<open>The deferred recovery.\<close>

definition undo_unconfirmed ::
  "host \<Rightarrow> env \<Rightarrow> agent_config \<Rightarrow> string \<Rightarrow> string \<Rightarrow> profileTransaction \<Rightarrow> bool \<Rightarrow> unit act" where
  "undo_unconfirmed H E cfg configDir cmdID tr confirmed =
     (if confirmed then State_Monad.return ()
      else do {
        e \<leftarrow> restoreProfileTransaction H E cfg tr configDir;
        if e \<noteq> None then State_Monad.return ()
        else do { _ \<leftarrow> os_Remove H (filepath_Join (profileStateDir cfg) (cmdID @ ''.journal'')); State_Monad.return () } })"

definition apply_transaction :: "env \<Rightarrow> string \<Rightarrow> Profile \<Rightarrow> string \<Rightarrow> profileTransaction" where
  "apply_transaction E cmdID profile original =
     \<lparr>px_Config = pf_Config profile, px_Backup = cmdID @ ''.backup'', px_BackupHash = profileDigest E original, px_AppliedHash = []\<rparr>"

definition apply_profile ::
  "host \<Rightarrow> env \<Rightarrow> agent_config \<Rightarrow> string \<Rightarrow> string \<Rightarrow> string \<Rightarrow> Profile \<Rightarrow> profileTicket \<Rightarrow> string \<Rightarrow> (string \<times> int) act" where
  "apply_profile H E cfg configDir cmdID previewID profile ticket original = do {
     r \<leftarrow> os_ReadFile H (filepath_Join (profileStateDir cfg) (previewID @ ''.preview''));
     case r of
       Inl _ \<Rightarrow> State_Monad.return (outln ''preview ticket unavailable'', 1)
     | Inr saved \<Rightarrow> do {
         now \<leftarrow> time_Now;
         if (case Option.bind (json_unmarshal saved) decode_ticket of
               None \<Rightarrow> True
             | Some previous \<Rightarrow> pt_Config previous \<noteq> pt_Config ticket \<or> pt_BaseHash previous \<noteq> pt_BaseHash ticket \<or>
                 pt_DesiredHash previous \<noteq> pt_DesiredHash ticket \<or> \<not> pt_ExpiresAt previous > now)
         then State_Monad.return (outln ''configuration or profile changed; preview again'', 1)
         else do {
           e \<leftarrow> writeProfileState H (filepath_Join (profileStateDir cfg) (cmdID @ ''.backup'')) original;
           if e \<noteq> None then State_Monad.return (outln ''backup failed; configuration unchanged'', 1)
           else do {
             let tr = apply_transaction E cmdID profile original;
             e \<leftarrow> writeProfileState H (filepath_Join (profileStateDir cfg) (cmdID @ ''.journal'')) (print_json (transaction_json tr));
             if e \<noteq> None then State_Monad.return (outln ''rollback journal failed; configuration unchanged'', 1)
             else do {
               (output, code, confirmed) \<leftarrow> apply_changes H E cfg configDir cmdID profile tr;
               _ \<leftarrow> undo_unconfirmed H E cfg configDir cmdID tr confirmed;
               State_Monad.return (output, code) } } } }
   }"

definition runFleetProfile :: "host \<Rightarrow> env \<Rightarrow> agent_config \<Rightarrow> agent_command \<Rightarrow> string \<Rightarrow> (string \<times> int) act" where
  "runFleetProfile H E cfg cmd configDir =
     (case Option.bind (json_unmarshal (ac_Args cmd)) to_string_map of
        None \<Rightarrow> State_Monad.return (outln ''invalid profile command'', 2)
      | Some args \<Rightarrow>
          if \<not> safeSessionID (ac_ID cmd) then State_Monad.return (outln ''invalid profile command'', 2)
          else if ac_Type cmd = ''uci_profile_rollback'' then rollbackFleetProfile H E cfg (map_get args ''apply_id'') configDir
          else case Option.bind (json_unmarshal (map_get args ''profile_json'')) decode_profile of
            None \<Rightarrow> State_Monad.return (outln ''invalid UCI profile'', 2)
          | Some profile \<Rightarrow>
              if Validate profile \<noteq> Inr () then State_Monad.return (outln ''invalid UCI profile'', 2)
              else if list_ex (\<lambda>o'. Sensitive (po_Option o')) (pf_Options profile)
              then State_Monad.return (outln ''credential options require the credential workflow'', 2)
              else do {
                r \<leftarrow> os_ReadFile H (filepath_Join configDir (pf_Config profile));
                case r of
                  Inl _ \<Rightarrow> State_Monad.return (outln ''configuration unavailable'', 1)
                | Inr original \<Rightarrow>
                    if length original > 2 ^ 20 then State_Monad.return (outln ''configuration exceeds profile limit'', 2)
                    else do {
                      (staged, code) \<leftarrow> execCommand H (5 * second) ''uci'' [''changes'', pf_Config profile];
                      if code \<noteq> 0 \<or> TrimSpace staged \<noteq> []
                      then State_Monad.return (outln ''configuration has staged changes; resolve them before using profiles'', 1)
                      else do {
                        now \<leftarrow> time_Now;
                        let ticket = \<lparr>pt_Config = pf_Config profile, pt_BaseHash = profileDigest E original,
                              pt_DesiredHash = profileDigest E (print_json (profile_json profile)), pt_ExpiresAt = now + 30 * minute\<rparr>;
                        if ac_Type cmd = ''uci_profile_preview'' then preview_profile H cfg (ac_ID cmd) profile ticket
                        else if ac_Type cmd \<noteq> ''uci_profile_apply'' \<or> \<not> safeSessionID (map_get args ''preview_id'')
                        then State_Monad.return (outln ''profile apply requires a successful preview'', 2)
                        else apply_profile H E cfg configDir (ac_ID cmd) (map_get args ''preview_id'') profile ticket original } } })"


section \<open>Atomic replacement\<close>

text \<open>
  A state file is replaced as a whole or not at all, whatever fails, and no other file with a
  visible name is touched.
\<close>

lemma writeProfileState_cases:
  assumes run: "run_state (writeProfileState H path d) m = (r, m')" and vis: "visible path"
  shows "file_at m' path = (if r = None then Some \<lparr>f_data = d, f_mtime = m_clock m\<rparr> else file_at m path)"
    and "visible q \<Longrightarrow> q \<noteq> path \<Longrightarrow> file_at m' q = file_at m q"
    and "m_clock m' = m_clock m" and "m_trace m' = m_trace m"
proof -
  note temp = temp_not_visible [where dir = "filepath_Dir path" and k = "h_random H m"]
  show "file_at m' path = (if r = None then Some \<lparr>f_data = d, f_mtime = m_clock m\<rparr> else file_at m path)"
    "visible q \<Longrightarrow> q \<noteq> path \<Longrightarrow> file_at m' q = file_at m q" "m_clock m' = m_clock m" "m_trace m' = m_trace m"
    using run temp [OF vis] temp [of q]
    by (auto simp: writeProfileState_def os_runs Let_def split: option.splits if_splits)
qed


section \<open>Documents\<close>

lemma field_names:
  "ToLower ''config'' = ''config''" "ToLower ''base_hash'' = ''base_hash''" "ToLower ''desired_hash'' = ''desired_hash''"
  "ToLower ''expires_at'' = ''expires_at''" "ToLower ''backup'' = ''backup''" "ToLower ''backup_hash'' = ''backup_hash''"
  "ToLower ''applied_hash'' = ''applied_hash''"
  by code_simp+

lemma decode_transaction_json: "Option.bind (json_unmarshal (print_json (transaction_json tr))) decode_transaction = Some tr"
proof -
  have "json_unmarshal (print_json (transaction_json tr)) = Some (transaction_json tr)"
    by (rule unmarshal_print) (simp add: transaction_json_def)
  then show ?thesis
    by (cases tr)
      (simp add: transaction_json_def decode_transaction_def string_field_def decode_field_def to_string_def field_names)
qed

section \<open>Interrupted applies\<close>

text \<open>
  Programs do not touch the agent's state directory, and of the programs started here only
  \<open>uci commit\<close> changes a configuration file: \<open>uci set\<close> and \<open>uci revert\<close> work on staged changes.
\<close>

definition is_commit :: "program \<Rightarrow> bool" where
  "is_commit p \<longleftrightarrow> p_name p = ''uci'' \<and> take 1 (p_args p) = [''commit'']"

definition profile_host :: "host \<Rightarrow> agent_config \<Rightarrow> string \<Rightarrow> bool" where
  "profile_host H cfg configDir \<longleftrightarrow> spares H (\<lambda>p q.
     (\<exists>n. q = filepath_Join (profileStateDir cfg) n) \<or>
     (\<not> is_commit p \<and> (\<exists>c. safeUCIConfig c \<and> q = filepath_Join configDir c)))"

definition data_at :: "machine \<Rightarrow> string \<Rightarrow> string option" where
  "data_at m p = map_option f_data (file_at m p)"

text \<open>A journal of the given name from which the original of a configuration can be restored.\<close>

definition journalled :: "env \<Rightarrow> agent_config \<Rightarrow> string \<Rightarrow> string \<Rightarrow> string \<Rightarrow> machine \<Rightarrow> bool" where
  "journalled E cfg name config original m \<longleftrightarrow>
     (\<exists>tr. Option.bind (data_at m (filepath_Join (profileStateDir cfg) name)) (\<lambda>d. Option.bind (json_unmarshal d) decode_transaction) = Some tr \<and>
        px_Config tr = config \<and> filepath_Base (px_Backup tr) = px_Backup tr \<and> HasSuffix (px_Backup tr) ''.backup'' \<and>
        data_at m (filepath_Join (profileStateDir cfg) (px_Backup tr)) = Some original \<and>
        profileDigest E original = px_BackupHash tr)"

lemma safe_config_plain: "safeUCIConfig c \<Longrightarrow> plain_name c \<and> take 1 c \<noteq> ''.'' \<and> CHR ''.'' \<notin> set c"
  by (auto simp: safeUCIConfig_def plain_name_def)

lemma safe_id_chars: "safeSessionID s \<Longrightarrow> s \<noteq> [] \<and> CHR ''.'' \<notin> set s \<and> CHR ''/'' \<notin> set s"
  by (auto simp: safeSessionID_def safe_text_def list_all_iff word_char_def alpha_char_def digit_char_def)

lemma safe_id_plain:
  assumes "safeSessionID s" "CHR ''/'' \<notin> set ext"
  shows "plain_name (s @ ext)" "take 1 (s @ ext) \<noteq> ''.''"
proof -
  obtain c r where s: "s = c # r" "c \<noteq> CHR ''.''" using safe_id_chars [OF assms(1)] by (cases s) auto
  show "plain_name (s @ ext)" "take 1 (s @ ext) \<noteq> ''.''"
    using s safe_id_chars [OF assms(1)] assms(2) by (auto simp: plain_name_def)
qed

lemma config_not_state:
  assumes "safeUCIConfig c" "plain_name n" "CHR ''.'' \<in> set n"
  shows "filepath_Join configDir c \<noteq> filepath_Join dir n"
  using filepath_Join_name [of c n configDir dir] safe_config_plain [OF assms(1)] assms(2,3) by blast

lemma profile_exec_state:
  assumes "profile_host H cfg configDir" "run_state (execCommand H timeout name args) m = (x, m')"
  shows "file_at m' (filepath_Join (profileStateDir cfg) n) = file_at m (filepath_Join (profileStateDir cfg) n)"
  using execCommand_file [OF assms(1) [unfolded profile_host_def] _ assms(2)] by blast

lemma profile_exec_config:
  assumes "profile_host H cfg configDir" "safeUCIConfig c" "name \<noteq> ''uci'' \<or> take 1 args \<noteq> [''commit'']"
    "run_state (execCommand H timeout name args) m = (x, m')"
  shows "file_at m' (filepath_Join configDir c) = file_at m (filepath_Join configDir c)"
proof (rule execCommand_file [OF assms(1) [unfolded profile_host_def] _ assms(4)])
  show "(\<exists>n. filepath_Join configDir c = filepath_Join (profileStateDir cfg) n) \<or>
      \<not> is_commit \<lparr>p_name = name, p_args = args, p_env = e, p_input = i, p_timeout = t\<rparr> \<and>
      (\<exists>c'. safeUCIConfig c' \<and> filepath_Join configDir c = filepath_Join configDir c')" for e i t
    using assms(2,3) by (auto simp: is_commit_def)
qed

lemma reload_cases:
  assumes "run_state (reloadProfileConfig H name) m = (x, m')"
  obtains "m' = m"
  | y where "run_state (execCommand H (30 * second) (''/etc/init.d/'' @ profile_service name) [''reload'']) m = (y, m')"
  using assms by (auto simp: reloadProfileConfig_def Let_def split: if_splits prod.splits)

lemma reload_state:
  assumes "profile_host H cfg configDir" "run_state (reloadProfileConfig H name) m = (x, m')"
  shows "file_at m' (filepath_Join (profileStateDir cfg) n) = file_at m (filepath_Join (profileStateDir cfg) n)"
  using assms(2) by (rule reload_cases) (auto dest: profile_exec_state [OF assms(1)])

lemma reload_config:
  assumes "profile_host H cfg configDir" "run_state (reloadProfileConfig H name) m = (x, m')" "safeUCIConfig c"
  shows "file_at m' (filepath_Join configDir c) = file_at m (filepath_Join configDir c)"
  using assms(2)
proof (rule reload_cases)
  fix y
  assume "run_state (execCommand H (30 * second) (''/etc/init.d/'' @ profile_service name) [''reload'']) m = (y, m')"
  then show ?thesis by (rule profile_exec_config [OF assms(1,3), rotated]) simp
qed simp


text \<open>A restore that reports success has put the backup back; it never touches the state files.\<close>

lemma restore_cases:
  assumes "run_state (restoreProfileTransaction H E cfg tr configDir) m = (e, m')"
  obtains (refused) x where "e = Some x" "m' = m"
  | (unwritten) original x y where "safeUCIConfig (px_Config tr)" "e = Some x"
      "run_state (writeProfileState H (filepath_Join configDir (px_Config tr)) original) m = (Some y, m')"
  | (staged) original x code m1 where "safeUCIConfig (px_Config tr)"
      "data_at m (filepath_Join (profileStateDir cfg) (px_Backup tr)) = Some original" "profileDigest E original = px_BackupHash tr"
      "run_state (writeProfileState H (filepath_Join configDir (px_Config tr)) original) m = (None, m1)"
      "e = Some x" "run_state (execCommand H (10 * second) ''uci'' [''revert'', px_Config tr]) m1 = (code, m')"
  | (reloaded) original code m1 m2 where "safeUCIConfig (px_Config tr)"
      "data_at m (filepath_Join (profileStateDir cfg) (px_Backup tr)) = Some original" "profileDigest E original = px_BackupHash tr"
      "run_state (writeProfileState H (filepath_Join configDir (px_Config tr)) original) m = (None, m1)"
      "run_state (execCommand H (10 * second) ''uci'' [''revert'', px_Config tr]) m1 = (code, m2)"
      "run_state (reloadProfileConfig H (px_Config tr)) m2 = (e, m')"
proof (cases "h_fault H m OpRead (filepath_Join (profileStateDir cfg) (px_Backup tr))")
  case None
  then show ?thesis using assms that
    by (auto simp: restoreProfileTransaction_def os_runs data_at_def split: if_splits option.splits prod.splits)
next
  case (Some x)
  have "e \<noteq> None \<and> m' = m" using assms unfolding restoreProfileTransaction_def
    by (simp add: os_runs Some split: if_splits) auto
  then show ?thesis using that(1) by blast
qed

lemma restore_ok:
  assumes host: "profile_host H cfg configDir"
    and run: "run_state (restoreProfileTransaction H E cfg tr configDir) m = (None, m')"
  obtains original where "safeUCIConfig (px_Config tr)"
    "data_at m (filepath_Join (profileStateDir cfg) (px_Backup tr)) = Some original" "profileDigest E original = px_BackupHash tr"
    "data_at m' (filepath_Join configDir (px_Config tr)) = Some original"
  using run
proof (cases rule: restore_cases)
  case (reloaded original code m1 m2)
  have vis: "visible (filepath_Join configDir (px_Config tr))"
    using safe_config_plain [OF reloaded(1)] by (simp add: visible_Join)
  have "file_at m' (filepath_Join configDir (px_Config tr)) = file_at m2 (filepath_Join configDir (px_Config tr))"
    by (rule reload_config [OF host reloaded(6,1)])
  also have "\<dots> = file_at m1 (filepath_Join configDir (px_Config tr))"
    by (rule profile_exec_config [OF host reloaded(1) _ reloaded(5)]) simp
  finally have "data_at m' (filepath_Join configDir (px_Config tr)) = Some original"
    using writeProfileState_cases(1) [OF reloaded(4) vis] by (simp add: data_at_def)
  then show ?thesis using that reloaded(1-3) by blast
qed simp_all

lemma restore_state:
  assumes host: "profile_host H cfg configDir"
    and run: "run_state (restoreProfileTransaction H E cfg tr configDir) m = (e, m')"
    and n: "plain_name n" "take 1 n \<noteq> ''.''" "CHR ''.'' \<in> set n"
  shows "data_at m' (filepath_Join (profileStateDir cfg) n) = data_at m (filepath_Join (profileStateDir cfg) n)"
proof -
  let ?q = "filepath_Join (profileStateDir cfg) n"
  have wrote: "file_at m1 ?q = file_at m ?q"
    if "safeUCIConfig (px_Config tr)" "run_state (writeProfileState H (filepath_Join configDir (px_Config tr)) original) m = (r, m1)"
    for original r m1
  proof (rule writeProfileState_cases(2) [OF that(2)])
    show "visible (filepath_Join configDir (px_Config tr))"
      using safe_config_plain [OF that(1)] by (simp add: visible_Join)
    show "visible ?q" using n by (simp add: visible_Join)
    show "?q \<noteq> filepath_Join configDir (px_Config tr)" using config_not_state [OF that(1) n(1,3)] by metis
  qed
  show ?thesis
    using run
  proof (cases rule: restore_cases)
    case (unwritten original x y)
    then show ?thesis using wrote by (simp add: data_at_def)
  next
    case (staged original x code m1)
    then show ?thesis using wrote profile_exec_state [OF host] by (simp add: data_at_def)
  next
    case (reloaded original code m1 m2)
    then show ?thesis using wrote profile_exec_state [OF host] reload_state [OF host] by (simp add: data_at_def)
  qed simp
qed


definition state_data :: "agent_config \<Rightarrow> string \<Rightarrow> string \<Rightarrow> machine \<Rightarrow> bool" where
  "state_data cfg n d m \<longleftrightarrow> data_at m (filepath_Join (profileStateDir cfg) n) = Some d"

lemma keeps_conj [keeps_intros]: "keeps P a \<Longrightarrow> keeps Q a \<Longrightarrow> keeps (\<lambda>m. P m \<and> Q m) a"
  by (simp add: keeps_def)

lemma keeps_exec_state [keeps_intros]:
  assumes "profile_host H cfg configDir"
  shows "keeps (state_data cfg n d) (execCommand H timeout name args)"
proof (rule keepsI)
  fix m
  assume "state_data cfg n d m"
  then show "state_data cfg n d (snd (run_state (execCommand H timeout name args) m))"
    using profile_exec_state [OF assms] by (metis data_at_def prod.collapse state_data_def)
qed

lemma keeps_stage_state [keeps_intros]:
  assumes "profile_host H cfg configDir"
  shows "keeps (state_data cfg n d) (stage_options H config os)"
proof (induction os)
  case (Cons o' os)
  then show ?case using assms unfolding stage_options.simps by (intro keeps_intros)
qed (simp add: keeps_return)

lemma keeps_reload_state [keeps_intros]:
  assumes "profile_host H cfg configDir"
  shows "keeps (state_data cfg n d) (reloadProfileConfig H name)"
  using assms unfolding reloadProfileConfig_def Let_def by (intro keeps_intros)

lemma keeps_wait_state [keeps_intros]: "keeps (state_data cfg n d) (wait_for H t)"
  by (auto simp: wait_for_def keeps_def state_data_def data_at_def file_at_def)

lemma keeps_reachable_state [keeps_intros]: "keeps (state_data cfg n d) (serverReachable H url)"
  by (auto simp: serverReachable_def http_do_def keeps_def state_data_def data_at_def file_at_def split: prod.split)

text \<open>What is on disk after the end of an apply.\<close>

definition confirmed_on_disk :: "env \<Rightarrow> agent_config \<Rightarrow> string \<Rightarrow> string \<Rightarrow> profileTransaction \<Rightarrow> string \<Rightarrow> machine \<Rightarrow> bool" where
  "confirmed_on_disk E cfg configPath cmdID tr original m \<longleftrightarrow>
     state_data cfg (px_Backup tr) original m \<and>
     (\<exists>applied. data_at m configPath = Some applied \<and>
        state_data cfg (cmdID @ ''.receipt'') (print_json (transaction_json (tr\<lparr>px_AppliedHash := profileDigest E applied\<rparr>))) m)"

lemma state_names:
  assumes "safeSessionID cmdID"
  shows "plain_name (cmdID @ ''.receipt'')" "plain_name (cmdID @ ''.journal'')" "plain_name (cmdID @ ''.backup'')"
    "visible (filepath_Join d (cmdID @ ''.receipt''))" "visible (filepath_Join d (cmdID @ ''.journal''))"
    "visible (filepath_Join d (cmdID @ ''.backup''))"
  using safe_id_plain [OF assms] by (simp_all add: visible_Join)

lemma state_paths_differ:
  assumes "safeSessionID cmdID"
  shows "filepath_Join d (cmdID @ ''.receipt'') \<noteq> filepath_Join d (cmdID @ ''.journal'')"
    "filepath_Join d (cmdID @ ''.receipt'') \<noteq> filepath_Join d (cmdID @ ''.backup'')"
    "filepath_Join d (cmdID @ ''.journal'') \<noteq> filepath_Join d (cmdID @ ''.backup'')"
  using filepath_Join_name [of "cmdID @ ''.receipt''" "cmdID @ ''.journal''" d d]
    filepath_Join_name [of "cmdID @ ''.receipt''" "cmdID @ ''.backup''" d d]
    filepath_Join_name [of "cmdID @ ''.journal''" "cmdID @ ''.backup''" d d] state_names(1-3) [OF assms]
  by auto

lemma confirm_apply_spec:
  assumes host: "profile_host H cfg configDir" and id: "safeSessionID cmdID" and config: "safeUCIConfig config"
    and tr: "px_Backup tr = cmdID @ ''.backup''"
    and run: "run_state (confirm_apply H E cfg (filepath_Join configDir config) cmdID tr) m = ((out, code, confirmed), m')"
    and pre: "state_data cfg (cmdID @ ''.journal'') j m" "state_data cfg (cmdID @ ''.backup'') original m"
  shows "if confirmed then code = 0 \<and> confirmed_on_disk E cfg (filepath_Join configDir config) cmdID tr original m'
         else code = 1 \<and> state_data cfg (cmdID @ ''.journal'') j m' \<and> state_data cfg (cmdID @ ''.backup'') original m'"
proof -
  note names = state_names [OF id] state_paths_differ [OF id, of "profileStateDir cfg"]
  note wrote = writeProfileState_cases [OF _ names(4)]
  have c: "visible (filepath_Join configDir config)" using safe_config_plain [OF config] by (simp add: visible_Join)
  have cr: "filepath_Join configDir config \<noteq> filepath_Join (profileStateDir cfg) (cmdID @ ''.receipt'')"
    "filepath_Join configDir config \<noteq> filepath_Join (profileStateDir cfg) (cmdID @ ''.journal'')"
    using config_not_state [OF config] names(1,2) by simp_all
  show ?thesis
  proof (cases "fst (run_state (os_ReadFile H (filepath_Join configDir config)) m)")
    case (Inl e)
    then show ?thesis using run pre by (auto simp: confirm_apply_def run_ReadFile)
  next
    case (Inr applied)
    define doc where "doc = print_json (transaction_json (tr\<lparr>px_AppliedHash := profileDigest E applied\<rparr>))"
    obtain r m1 where w: "run_state (writeProfileState H (filepath_Join (profileStateDir cfg) (cmdID @ ''.receipt'')) doc) m = (r, m1)"
      by fastforce
    have disk: "data_at m (filepath_Join configDir config) = Some applied"
      using Inr by (auto simp: run_ReadFile data_at_def split: option.splits)
    have m1: "file_at m1 (filepath_Join (profileStateDir cfg) (cmdID @ ''.journal'')) = file_at m (filepath_Join (profileStateDir cfg) (cmdID @ ''.journal''))"
      "file_at m1 (filepath_Join (profileStateDir cfg) (cmdID @ ''.backup'')) = file_at m (filepath_Join (profileStateDir cfg) (cmdID @ ''.backup''))"
      "file_at m1 (filepath_Join configDir config) = file_at m (filepath_Join configDir config)"
      by (rule wrote(2) [OF w names(5) names(7) [symmetric]], rule wrote(2) [OF w names(6) names(8) [symmetric]],
        rule wrote(2) [OF w c cr(1)])
    have rec: "r = None \<Longrightarrow> data_at m1 (filepath_Join (profileStateDir cfg) (cmdID @ ''.receipt'')) = Some doc"
      using wrote(1) [OF w] by (simp add: data_at_def)
    have "run_state (if r \<noteq> None then State_Monad.return (outln ''cannot persist rollback receipt; rolling back'', 1, False)
         else do {
           e \<leftarrow> os_Remove H (filepath_Join (profileStateDir cfg) (cmdID @ ''.journal''));
           State_Monad.return (if e \<noteq> None then (outln ''cannot confirm rollback journal; rolling back'', 1, False)
             else (outln ''profile applied; backup retained; server connectivity confirmed'', 0, True)) }) m1 = ((out, code, confirmed), m')"
      using run Inr w by (simp add: confirm_apply_def run_ReadFile doc_def)
    then show ?thesis
      using m1 rec disk pre names(7-9) names(7-9) [symmetric] cr
      by (auto simp: run_Remove confirmed_on_disk_def state_data_def data_at_def tr doc_def split: if_splits option.splits)
  qed
qed


definition apply_outcome ::
  "env \<Rightarrow> agent_config \<Rightarrow> string \<Rightarrow> string \<Rightarrow> profileTransaction \<Rightarrow> string \<Rightarrow> string \<Rightarrow> string \<times> int \<times> bool \<Rightarrow> machine \<Rightarrow> bool" where
  "apply_outcome E cfg configPath cmdID tr j original x m = (case x of (out, code, confirmed) \<Rightarrow>
     if confirmed then code = 0 \<and> confirmed_on_disk E cfg configPath cmdID tr original m
     else code = 1 \<and> state_data cfg (cmdID @ ''.journal'') j m \<and> state_data cfg (cmdID @ ''.backup'') original m)"

lemma apply_changes_spec:
  assumes host: "profile_host H cfg configDir" and id: "safeSessionID cmdID" and config: "safeUCIConfig (pf_Config profile)"
    and tr: "px_Backup tr = cmdID @ ''.backup''"
  shows "triple (\<lambda>m. state_data cfg (cmdID @ ''.journal'') j m \<and> state_data cfg (cmdID @ ''.backup'') original m)
    (apply_changes H E cfg configDir cmdID profile tr)
    (apply_outcome E cfg (filepath_Join configDir (pf_Config profile)) cmdID tr j original)"
    (is "triple ?K _ ?Q")
proof -
  have fail: "triple ?K (State_Monad.return (s, 1, False)) ?Q" for s
    by (rule triple_return) (simp add: apply_outcome_def)
  have confirm: "triple ?K (confirm_apply H E cfg (filepath_Join configDir (pf_Config profile)) cmdID tr) ?Q"
    using confirm_apply_spec [OF host id config tr] by (fastforce intro!: tripleI simp: apply_outcome_def)
  have step: "triple ?K (State_Monad.bind a f) ?Q"
    if "keeps (state_data cfg (cmdID @ ''.journal'') j) a" "keeps (state_data cfg (cmdID @ ''.backup'') original) a"
      "\<And>x. triple ?K (f x) ?Q" for a :: "'b act" and f
    using that by (intro triple_bind [OF keeps_triple]) (auto intro: keeps_conj)
  show ?thesis
    unfolding apply_changes_def
    by (intro step triple_if triple_prod fail confirm keeps_intros) (rule host)+
qed

text \<open>The deferred recovery leaves the journal in place unless the original is back.\<close>

lemma undo_spec:
  assumes host: "profile_host H cfg configDir" and id: "safeSessionID cmdID"
    and tr: "px_Backup tr = cmdID @ ''.backup''" "px_BackupHash tr = profileDigest E original"
    and pre: "state_data cfg (cmdID @ ''.journal'') j m" "state_data cfg (cmdID @ ''.backup'') original m"
    and run: "run_state (undo_unconfirmed H E cfg configDir cmdID tr False) m = (u, m')"
  shows "state_data cfg (cmdID @ ''.journal'') j m' \<and> state_data cfg (cmdID @ ''.backup'') original m' \<or>
         data_at m' (filepath_Join configDir (px_Config tr)) = Some original"
proof -
  obtain e m1 where restore: "run_state (restoreProfileTransaction H E cfg tr configDir) m = (e, m1)" by fastforce
  note names = safe_id_plain [OF id, of "''.journal''"] safe_id_plain [OF id, of "''.backup''"]
  have kept: "state_data cfg (cmdID @ ''.journal'') j m1" "state_data cfg (cmdID @ ''.backup'') original m1"
    using restore_state [OF host restore] names pre by (simp_all add: state_data_def)
  show ?thesis
  proof (cases e)
    case (Some x)
    then show ?thesis using run restore kept by (simp add: undo_unconfirmed_def)
  next
    case None
    from restore_ok [OF host restore [unfolded None]] obtain o' where
      o': "safeUCIConfig (px_Config tr)" "data_at m (filepath_Join (profileStateDir cfg) (px_Backup tr)) = Some o'"
        "data_at m1 (filepath_Join configDir (px_Config tr)) = Some o'" by blast
    have "o' = original" using o'(2) pre(2) by (simp add: state_data_def tr)
    moreover have "filepath_Join configDir (px_Config tr) \<noteq> filepath_Join (profileStateDir cfg) (cmdID @ ''.journal'')"
      using config_not_state [OF o'(1)] state_names(2) [OF id] by simp
    ultimately have "data_at m' (filepath_Join configDir (px_Config tr)) = Some original"
      using run restore None o'(3)
      by (auto simp: undo_unconfirmed_def run_Remove data_at_def split: option.splits if_splits)
    then show ?thesis by simp
  qed
qed

lemma journalled_apply:
  assumes id: "safeSessionID cmdID"
    and "state_data cfg (cmdID @ ''.journal'') (print_json (transaction_json (apply_transaction E cmdID profile original))) m"
    and "state_data cfg (cmdID @ ''.backup'') original m"
  shows "journalled E cfg (cmdID @ ''.journal'') (pf_Config profile) original m"
proof -
  have "filepath_Base (cmdID @ ''.backup'') = cmdID @ ''.backup''"
    using filepath_Base_Join [OF state_names(3) [OF id], of "[]"] safe_id_chars [OF id] state_names(3) [OF id]
    by (cases cmdID) (auto simp: filepath_Join_def Clean_def render_path_def rooted_def clean_elements_Join)
  then show ?thesis
    using assms decode_transaction_json [of "apply_transaction E cmdID profile original"]
    by (auto simp: journalled_def state_data_def apply_transaction_def HasSuffix_def)
qed


lemma apply_profile_spec:
  assumes host: "profile_host H cfg configDir" and id: "safeSessionID cmdID" and config: "safeUCIConfig (pf_Config profile)"
    and orig: "data_at m (filepath_Join configDir (pf_Config profile)) = Some original"
    and run: "run_state (apply_profile H E cfg configDir cmdID previewID profile ticket original) m = ((out, code), m')"
  defines "tr \<equiv> apply_transaction E cmdID profile original"
  shows "data_at m' (filepath_Join configDir (pf_Config profile)) = Some original \<or>
     journalled E cfg (cmdID @ ''.journal'') (pf_Config profile) original m' \<or>
     (code = 0 \<and> confirmed_on_disk E cfg (filepath_Join configDir (pf_Config profile)) cmdID tr original m')"
proof -
  let ?c = "filepath_Join configDir (pf_Config profile)"
  let ?b = "filepath_Join (profileStateDir cfg) (cmdID @ ''.backup'')"
  let ?j = "filepath_Join (profileStateDir cfg) (cmdID @ ''.journal'')"
  define doc where "doc = print_json (transaction_json tr)"
  note names = state_names [OF id] state_paths_differ [OF id, of "profileStateDir cfg"]
  have c: "visible ?c" using safe_config_plain [OF config] by (simp add: visible_Join)
  have cb: "?c \<noteq> ?b" "?c \<noteq> ?j" using config_not_state [OF config] names(2,3) by simp_all
  obtain e1 m1 where w1: "run_state (writeProfileState H ?b original) m = (e1, m1)" by fastforce
  obtain e2 m2 where w2: "run_state (writeProfileState H ?j doc) m1 = (e2, m2)" by fastforce
  have c1: "data_at m1 ?c = Some original" "data_at m2 ?c = Some original"
    using orig writeProfileState_cases(2) [OF w1 names(6) c cb(1)] writeProfileState_cases(2) [OF w2 names(5) c cb(2)]
    by (simp_all add: data_at_def)
  consider (refused) "m' = m" | (no_backup) "m' = m1" | (no_journal) "m' = m2"
    | (applied) u confirmed m3 where "e1 = None" "e2 = None"
        "run_state (apply_changes H E cfg configDir cmdID profile tr) m2 = ((out, code, confirmed), m3)"
        "run_state (undo_unconfirmed H E cfg configDir cmdID tr confirmed) m3 = (u, m')"
    using run w1 w2
    by (auto simp: apply_profile_def run_ReadFile Let_def tr_def [symmetric] doc_def [symmetric]
        split: sum.splits if_splits prod.splits)
  then show ?thesis
  proof cases
    case applied
    have b: "state_data cfg (cmdID @ ''.backup'') original m2" "state_data cfg (cmdID @ ''.journal'') doc m2"
      using applied(1,2) writeProfileState_cases(1) [OF w1 names(6)] writeProfileState_cases(1) [OF w2 names(5)]
        writeProfileState_cases(2) [OF w2 names(5) names(6) names(9) [symmetric]]
      by (simp_all add: state_data_def data_at_def)
    have tr: "px_Backup tr = cmdID @ ''.backup''" "px_BackupHash tr = profileDigest E original" "px_Config tr = pf_Config profile"
      by (simp_all add: tr_def apply_transaction_def)
    have outcome: "apply_outcome E cfg ?c cmdID tr doc original (out, code, confirmed) m3"
      using tripleD [OF apply_changes_spec [OF host id config tr(1)] _ applied(3)] b by blast
    show ?thesis
    proof (cases confirmed)
      case True
      then show ?thesis using outcome applied(4) by (simp add: apply_outcome_def undo_unconfirmed_def)
    next
      case False
      have undo: "run_state (undo_unconfirmed H E cfg configDir cmdID tr False) m3 = (u, m')" using applied(4) False by simp
      have "state_data cfg (cmdID @ ''.journal'') doc m' \<and> state_data cfg (cmdID @ ''.backup'') original m' \<or>
         data_at m' ?c = Some original"
        using undo_spec [OF host id tr(1,2) _ _ undo] outcome False by (simp add: apply_outcome_def tr(3))
      then show ?thesis using journalled_apply [OF id] by (auto simp: doc_def tr_def)
    qed
  qed (use c1 orig in simp_all)
qed


definition command_profile :: "agent_command \<Rightarrow> Profile option" where
  "command_profile cmd = Option.bind (Option.bind (json_unmarshal (ac_Args cmd)) to_string_map)
     (\<lambda>args. Option.bind (json_unmarshal (map_get args ''profile_json'')) decode_profile)"

lemma Validate_config: "Validate profile = Inr () \<Longrightarrow> safeUCIConfig (pf_Config profile)"
  by (auto simp: Validate_def safeUCIConfig_def split: if_splits)

text \<open>What \<open>runFleetProfile\<close> did before an apply began.\<close>

lemma runFleetProfile_apply_cases:
  assumes kind: "ac_Type cmd = ''uci_profile_apply''" and profile: "command_profile cmd = Some profile"
    and run: "run_state (runFleetProfile H E cfg cmd configDir) m = ((out, code), m')"
  obtains (refused) "m' = m" | (staged) x where "run_state (execCommand H (5 * second) ''uci'' [''changes'', pf_Config profile]) m = (x, m')"
      "safeUCIConfig (pf_Config profile)"
  | (applied) x m1 previewID ticket original where "safeUCIConfig (pf_Config profile)" "safeSessionID (ac_ID cmd)"
      "data_at m (filepath_Join configDir (pf_Config profile)) = Some original"
      "run_state (execCommand H (5 * second) ''uci'' [''changes'', pf_Config profile]) m = (x, m1)"
      "run_state (apply_profile H E cfg configDir (ac_ID cmd) previewID profile ticket original) m1 = ((out, code), m')"
proof -
  obtain args where args: "Option.bind (json_unmarshal (ac_Args cmd)) to_string_map = Some args"
    "Option.bind (json_unmarshal (map_get args ''profile_json'')) decode_profile = Some profile"
    using profile by (auto simp: command_profile_def bind_eq_Some_conv)
  show ?thesis
  proof (cases "safeSessionID (ac_ID cmd) \<and> Validate profile = Inr () \<and> \<not> list_ex (\<lambda>o'. Sensitive (po_Option o')) (pf_Options profile)")
    case False
    then have "m' = m" using run args kind by (auto simp: runFleetProfile_def split: if_splits)
    then show ?thesis by (rule refused)
  next
    case True
    obtain x m1 where ex: "run_state (execCommand H (5 * second) ''uci'' [''changes'', pf_Config profile]) m = (x, m1)" by fastforce
    show ?thesis
    proof (cases "fst (run_state (os_ReadFile H (filepath_Join configDir (pf_Config profile))) m)")
      case (Inl e)
      then have "m' = m" using run args kind True by (simp add: runFleetProfile_def run_ReadFile)
      then show ?thesis by (rule refused)
    next
      case (Inr original)
      have disk: "data_at m (filepath_Join configDir (pf_Config profile)) = Some original"
        using Inr by (auto simp: run_ReadFile data_at_def split: option.splits)
      have "m' = m \<or> m' = m1 \<or> (\<exists>previewID ticket.
          run_state (apply_profile H E cfg configDir (ac_ID cmd) previewID profile ticket original) m1 = ((out, code), m'))"
        using run args kind True Inr ex by (auto simp: runFleetProfile_def run_ReadFile Let_def split: if_splits prod.splits)
      then show ?thesis using refused staged [OF _ Validate_config] applied [OF Validate_config _ disk ex] True ex by blast
    qed
  qed
qed

lemma recover_journals_filter:
  "recover_journals H E cfg configDir names = recover_journals H E cfg configDir (filter (\<lambda>n. HasSuffix n ''.journal'') names)"
  by (induction names) (simp_all cong del: option.case_cong_weak sum.case_cong_weak)

lemma recover_one:
  assumes host: "profile_host H cfg configDir" and n: "plain_name name" "take 1 name \<noteq> ''.''" "HasSuffix name ''.journal''"
    and j: "journalled E cfg name config original m"
    and run: "run_state (recover_journals H E cfg configDir [name]) m = (None, m')"
  shows "data_at m' (filepath_Join configDir config) = Some original \<and> data_at m' (filepath_Join (profileStateDir cfg) name) = None"
proof -
  have dot: "CHR ''.'' \<in> set name" using n(3) by (auto simp: HasSuffix_def HasPrefix_iff dest: arg_cong [of _ _ rev])
  obtain d tr where tr: "data_at m (filepath_Join (profileStateDir cfg) name) = Some d"
    "Option.bind (json_unmarshal d) decode_transaction = Some tr" "px_Config tr = config"
    "data_at m (filepath_Join (profileStateDir cfg) (px_Backup tr)) = Some original"
    using j by (auto simp: journalled_def bind_eq_Some_conv)
  obtain e m1 where restore: "run_state (restoreProfileTransaction H E cfg tr configDir) m = (e, m1)" by fastforce
  have e: "e = None" using run tr(1,2) restore n(3)
    by (auto simp: run_ReadFile data_at_def split: option.splits)
  from restore_ok [OF host restore [unfolded e]] tr(3,4) have
    o': "safeUCIConfig config" "data_at m1 (filepath_Join configDir config) = Some original" by auto
  have "filepath_Join configDir config \<noteq> filepath_Join (profileStateDir cfg) name"
    using config_not_state [OF o'(1) n(1) dot] by simp
  then show ?thesis
    using run tr(1,2) restore n(3) o'(2) e
    by (auto simp: run_ReadFile run_Remove data_at_def split: option.splits if_splits)
qed


section \<open>Properties\<close>

text \<open>A router on which every operation succeeds and programs change nothing, for evaluation.\<close>

definition quiet_host :: host where
  "quiet_host = \<lparr>h_fault = (\<lambda>_ _ _. None), h_short = (\<lambda>_ _. None), h_exec = (\<lambda>m _. ([], Exited 0, m_files m, second)),
     h_http = (\<lambda>_ _. (Reply 200 [] True, second)), h_look = (\<lambda>_ _. True), h_cancelled = (\<lambda>_. False), h_random = (\<lambda>_. 7),
     h_regular = (\<lambda>_ _. True), h_executable = (\<lambda>_ _. True), h_addresses = (\<lambda>_ _. Some [''192.0.2.1'']),
     h_start = (\<lambda>_ _. Inr 42), h_processes = (\<lambda>_. []), h_interfaces = (\<lambda>_. [(''br-lan'', IPv4 192 168 1 1)]),
     h_reachable = (\<lambda>_ _ _. True), h_loopback = (\<lambda>s. s = ''127.0.0.1'')\<rparr>"

lemma quiet_spares: "spares quiet_host S"
  by (simp add: spares_def quiet_host_def file_at_def)

definition sample_config :: agent_config where
  "sample_config = \<lparr>a_ServerURL = ''https://rmm.test'', a_EnrollmentToken = [], a_IntervalSeconds = 30, a_CheckIntervalSeconds = 300,
     a_DeviceID = ''d1'', a_DeviceToken = ''t'', a_DeviceTokenEpoch = 1, a_LockFile = ''/tmp/l'', a_SpoolDir = ''/tmp/spool'',
     a_BackupDir = ''/tmp/backups'', a_TunnelIdentity = ''/etc/rmm/key'', a_TunnelKeyEpoch = 1, a_TunnelStateDir = ''/tmp/tunnels'',
     a_UpdatePublicKey = ''/etc/rmm/pem'', a_CommandSigningPublicKey = [], a_CommandSigningKeyID = [],
     a_CommandStateDir = ''/etc/rmm/state'', a_RecoveryDir = ''/etc/rmm/recovery'', a_CheckTargets = [], a_HostnameOverride = [],
     a_HostnameSuffix = [], a_ConfigFile = ''/etc/rmm.conf''\<rparr>"

definition sample_profile :: Profile where
  "sample_profile = \<lparr>pf_Config = ''system'', pf_Options = [\<lparr>po_Section = ''ntp'', po_Option = ''enabled'', po_Value = ''1''\<rparr>]\<rparr>"

definition sample_apply :: agent_command where
  "sample_apply = \<lparr>ac_ID = ''c2'', ac_DeviceID = ''d1'', ac_Type = ''uci_profile_apply'',
     ac_Args = print_json (JObj [(''preview_id'', JStr ''c1''), (''profile_json'', JStr (print_json (profile_json sample_profile)))]),
     ac_CreatedAt = 0, ac_ExpiresAt = None, ac_Nonce = [], ac_SignatureKeyID = [], ac_Signature = []\<rparr>"

definition sample_machine :: "(string \<times> string) list \<Rightarrow> machine" where
  "sample_machine fs = \<lparr>m_files = map (\<lambda>(p, d). (p, \<lparr>f_data = d, f_mtime = 0\<rparr>)) fs, m_clock = 1000 * second, m_trace = [], m_requests = [], m_timers = []\<rparr>"

definition sample_files :: "(string \<times> string) list" where
  "sample_files = [(''/etc/config/system'', ''config ntp''),
     (''/etc/rmm/state/profiles/c1.preview'', print_json (ticket_json \<lparr>pt_Config = ''system'',
        pt_BaseHash = profileDigest sample_env ''config ntp'',
        pt_DesiredHash = profileDigest sample_env (print_json (profile_json sample_profile)), pt_ExpiresAt = 2000 * second\<rparr>))]"

lemma sample_command_profile: "command_profile sample_apply = Some sample_profile"
proof -
  have "json_unmarshal (ac_Args sample_apply) =
      Some (JObj [(''preview_id'', JStr ''c1''), (''profile_json'', JStr (print_json (profile_json sample_profile)))])"
    unfolding sample_apply_def agent_command.simps by (rule unmarshal_print) simp
  moreover have "json_unmarshal (print_json (profile_json sample_profile)) = Some (profile_json sample_profile)"
    by (rule unmarshal_print) (simp add: profile_json_def option_json_def sample_profile_def)
  moreover have "decode_profile (profile_json sample_profile) = Some sample_profile" by code_simp
  ultimately show ?thesis
    by (simp add: command_profile_def to_string_map_def to_string_def map_get_def)
qed





end
