(* ===== verification/AgentBackup.thy ===== *)
theory AgentBackup
  imports AgentProfiles
begin

text \<open>
  Managed system backups (\<open>agent/go/cmd/rmm-agent/backup.go\<close>): uploading one, and restoring one
  behind a guard. Before the restore the agent makes an emergency backup and a guard with a
  deadline; the guard is removed by the next heartbeat the server answers, or the emergency
  backup is restored when the deadline passes without one.
\<close>

section \<open>The board\<close>

definition agentVersion :: string where "agentVersion = ''0.10.1''"

definition commandMetadata :: "(string \<times> json) list" where
  "commandMetadata = [(''agent_runtime'', JStr ''go''), (''agent_version'', JStr agentVersion)]"

definition openwrtRelease :: "host \<Rightarrow> string act" where
  "openwrtRelease H = do {
     d \<leftarrow> readFileString H ''/etc/openwrt_release'';
     State_Monad.return (TrimSpace (map_get (parseShellConfig d) ''DISTRIB_RELEASE'')) }"

definition openwrtVersion :: "host \<Rightarrow> string act" where
  "openwrtVersion H = do {
     d \<leftarrow> readFileString H ''/etc/openwrt_release'';
     let v = map_get (parseShellConfig d) ''DISTRIB_DESCRIPTION'';
     State_Monad.return (if v \<noteq> [] then v else ''unknown'') }"

definition board_target :: "string \<Rightarrow> string" where
  "board_target output =
     (case Option.bind (json_unmarshal output) (decode_field (decode_field to_string ''target'') ''release'' []) of
        None \<Rightarrow> []
      | Some t \<Rightarrow> map (\<lambda>c. if c = CHR ''/'' then CHR ''-'' else c) (TrimSpace t))"

definition openwrtTarget :: "host \<Rightarrow> string act" where
  "openwrtTarget H = do {
     output \<leftarrow> commandOutput H ''ubus'' [''call'', ''system'', ''board''];
     State_Monad.return (board_target output) }"

definition boardModel :: "host \<Rightarrow> string act" where
  "boardModel H = do {
     output \<leftarrow> commandOutput H ''ubus'' [''call'', ''system'', ''board''];
     State_Monad.return (TrimSpace (lenient_string_field ''model'' output)) }"

section \<open>Uploading\<close>

definition maxManagedBackupSize :: nat where
  "maxManagedBackupSize = 32 * 2 ^ 20"

definition restoreConfirmationTimeout :: time where
  "restoreConfirmationTimeout = 10 * minute"

definition readLimitedFile :: "host \<Rightarrow> string \<Rightarrow> nat \<Rightarrow> (string + string) act" where
  "readLimitedFile H path limit = do {
     r \<leftarrow> os_ReadFile H path;
     State_Monad.return (case r of
       Inl e \<Rightarrow> Inl (Error e)
     | Inr d \<Rightarrow> let d = take (limit + 1) d
                in if d = [] \<or> length d > limit then Inl ''system backup is empty or exceeds 32 MiB'' else Inr d)
   }"

definition backup_url :: "agent_config \<Rightarrow> string \<Rightarrow> string" where
  "backup_url cfg i = a_ServerURL cfg @ ''/api/agent/backups/'' @ i"

definition upload_backup :: "host \<Rightarrow> agent_config \<Rightarrow> string \<Rightarrow> string \<Rightarrow> (string \<times> int \<times> json) act" where
  "upload_backup H cfg commandID archive = do {
     version \<leftarrow> openwrtVersion H;
     targ \<leftarrow> openwrtTarget H;
     model \<leftarrow> boardModel H;
     r \<leftarrow> http_do H \<lparr>rq_method = ''POST'', rq_url = backup_url cfg commandID,
            rq_headers = [(''Authorization'', ''Bearer '' @ a_DeviceToken cfg), (''Content-Type'', ''application/gzip''),
              (''X-RMM-Device-ID'', a_DeviceID cfg), (''X-RMM-OpenWrt-Version'', version), (''X-RMM-Target'', targ), (''X-RMM-Model'', model)],
            rq_body = archive\<rparr>;
     State_Monad.return (case r of
       NetError e \<Rightarrow> (outln (''backup upload failed: '' @ e), 1, JObj commandMetadata)
     | Reply status body _ \<Rightarrow>
         let responseBody = take (64 * 2 ^ 10) body
         in if status < 200 \<or> status \<ge> 300
            then (outln (''backup upload failed with HTTP '' @ Itoa status @ '': '' @ TrimSpace responseBody), 1, JObj commandMetadata)
            else (outln (''system backup uploaded securely ('' @ Itoa (int (length archive)) @ '' bytes)''), 0,
                  case json_unmarshal responseBody of Some (JObj ms) \<Rightarrow> normal (JObj ms) | _ \<Rightarrow> JNull))
   }"

definition createSystemBackup :: "host \<Rightarrow> agent_config \<Rightarrow> string \<Rightarrow> (string \<times> int \<times> json) act" where
  "createSystemBackup H cfg commandID = do {
     e \<leftarrow> os_MkdirAll H (a_BackupDir cfg);
     case e of
       Some e \<Rightarrow> State_Monad.return (outln (Error e), 1, JObj commandMetadata)
     | None \<Rightarrow> do {
         t \<leftarrow> os_CreateTemp H (a_BackupDir cfg) ''.rmm-system-backup-'' ''.tar.gz'';
         case t of
           Inl e \<Rightarrow> State_Monad.return (outln (Error e), 1, JObj commandMetadata)
         | Inr path \<Rightarrow> do {
             _ \<leftarrow> os_Remove H path;
             (output, code) \<leftarrow> execCommand H (90 * second) ''sysupgrade'' [''-b'', path];
             result \<leftarrow>
               (if code \<noteq> 0 then State_Monad.return (output, code, JObj commandMetadata)
                else do {
                  r \<leftarrow> readLimitedFile H path maxManagedBackupSize;
                  case r of
                    Inl e \<Rightarrow> State_Monad.return (outln e, 1, JObj commandMetadata)
                  | Inr archive \<Rightarrow> upload_backup H cfg commandID archive });
             _ \<leftarrow> os_Remove H path;
             State_Monad.return result } }
   }"

section \<open>The guard\<close>

record restoreGuard =
  g_EmergencyPath :: string
  g_CreatedAt :: time
  g_Deadline :: time

definition guard_json :: "restoreGuard \<Rightarrow> json" where
  "guard_json g = JObj [(''emergency_path'', JStr (g_EmergencyPath g)), (''created_at'', JStr (RFC3339Nano (g_CreatedAt g))),
     (''deadline'', JStr (RFC3339Nano (g_Deadline g)))]"

definition decode_guard :: "json \<Rightarrow> restoreGuard option" where
  "decode_guard j =
     Option.bind (string_field ''emergency_path'' j) (\<lambda>p.
     Option.bind (decode_field to_time ''created_at'' zero_time j) (\<lambda>c.
     Option.bind (decode_field to_time ''deadline'' zero_time j) (\<lambda>d.
       Some \<lparr>g_EmergencyPath = p, g_CreatedAt = c, g_Deadline = d\<rparr>)))"

definition guard_valid :: "restoreGuard \<Rightarrow> bool" where
  "guard_valid g \<longleftrightarrow> TrimSpace (g_EmergencyPath g) \<noteq> [] \<and> \<not> IsZero (g_CreatedAt g) \<and> g_Deadline g > g_CreatedAt g"

definition restoreGuardPath :: "string \<Rightarrow> string" where
  "restoreGuardPath dir = filepath_Join dir ''pending-restore.json''"

text \<open>\<open>Some\<close> is the error. A time outside the years 0 to 9999 cannot be marshalled.\<close>

definition marshal_time_ok :: "time \<Rightarrow> bool" where
  "marshal_time_ok t \<longleftrightarrow> zero_time - 366 * 24 * hour \<le> t \<and> fst (year_day ((t - zero_time) div (24 * hour))) < 10000"

definition writeRestoreGuard :: "host \<Rightarrow> string \<Rightarrow> restoreGuard \<Rightarrow> (string option) act" where
  "writeRestoreGuard H dir guard =
     (if \<not> guard_valid guard then State_Monad.return (Some ''restore guard is invalid'')
      else if \<not> marshal_time_ok (g_CreatedAt guard) \<or> \<not> marshal_time_ok (g_Deadline guard)
      then State_Monad.return (Some ''json: error calling MarshalJSON for type time.Time: Time.MarshalJSON: year outside of range [0,9999]'')
      else do {
        let path = restoreGuardPath dir;
        e \<leftarrow> os_WriteFile H (path @ ''.new'') (print_json (guard_json guard));
        case e of
          Some e \<Rightarrow> State_Monad.return (Some (Error e))
        | None \<Rightarrow> do {
            e \<leftarrow> os_Rename H (path @ ''.new'') path;
            case e of
              Some e \<Rightarrow> do { _ \<leftarrow> os_Remove H (path @ ''.new''); State_Monad.return (Some (Error e)) }
            | None \<Rightarrow> State_Monad.return None } })"

text \<open>An error, or the guard when there is one.\<close>

definition readRestoreGuard :: "host \<Rightarrow> string \<Rightarrow> (string + restoreGuard option) act" where
  "readRestoreGuard H dir =
     (if TrimSpace dir = [] then State_Monad.return (Inr None)
      else do {
        r \<leftarrow> os_ReadFile H (restoreGuardPath dir);
        State_Monad.return (case r of
          Inl (ErrNotExist _) \<Rightarrow> Inr None
        | Inl e \<Rightarrow> Inl (Error e)
        | Inr d \<Rightarrow> (case Option.bind (json_unmarshal d) decode_guard of
              None \<Rightarrow> Inl ''restore guard cannot be decoded''
            | Some guard \<Rightarrow> if guard_valid guard then Inr (Some guard) else Inl ''restore guard is invalid'')) })"

definition confirmPendingRestore :: "host \<Rightarrow> string \<Rightarrow> time \<Rightarrow> (string option) act" where
  "confirmPendingRestore H dir heartbeatStartedAt =
     (if TrimSpace dir = [] then State_Monad.return None
      else do {
        r \<leftarrow> readRestoreGuard H dir;
        case r of
          Inl e \<Rightarrow> State_Monad.return (Some e)
        | Inr None \<Rightarrow> State_Monad.return None
        | Inr (Some guard) \<Rightarrow>
            if \<not> heartbeatStartedAt > g_CreatedAt guard then State_Monad.return None
            else do {
              e \<leftarrow> os_Remove H (restoreGuardPath dir);
              State_Monad.return (map_option Error e) } })"

text \<open>Whether a rollback was done, or the error.\<close>

definition rollbackPendingRestore :: "host \<Rightarrow> agent_config \<Rightarrow> time \<Rightarrow> (string + bool) act" where
  "rollbackPendingRestore H cfg now =
     (if TrimSpace (a_RecoveryDir cfg) = [] then State_Monad.return (Inr False)
      else do {
        r \<leftarrow> readRestoreGuard H (a_RecoveryDir cfg);
        case r of
          Inl e \<Rightarrow> State_Monad.return (Inl e)
        | Inr None \<Rightarrow> State_Monad.return (Inr False)
        | Inr (Some guard) \<Rightarrow>
            if now < g_Deadline guard then State_Monad.return (Inr False)
            else do {
              ok \<leftarrow> ask (\<lambda>m. h_fault H m OpStat (g_EmergencyPath guard) = None \<and> file_at m (g_EmergencyPath guard) \<noteq> None \<and>
                       h_regular H m (g_EmergencyPath guard));
              if \<not> ok then State_Monad.return (Inl ''emergency restore archive is unavailable'')
              else do {
                (output, code) \<leftarrow> execCommand H (2 * minute) ''sysupgrade'' [''-r'', g_EmergencyPath guard];
                if code \<noteq> 0
                then State_Monad.return (Inl (''sysupgrade rollback failed with code '' @ Itoa code @ '': '' @ TrimSpace output))
                else do {
                  e \<leftarrow> saveConfig H cfg;
                  case e of
                    Some e \<Rightarrow> State_Monad.return (Inl (''preserve agent identity after rollback: '' @ Error e))
                  | None \<Rightarrow> do {
                      e \<leftarrow> os_Remove H (restoreGuardPath (a_RecoveryDir cfg));
                      State_Monad.return (case e of
                        None \<Rightarrow> Inr True
                      | Some (ErrNotExist _) \<Rightarrow> Inr True
                      | Some e \<Rightarrow> Inl (Error e)) } } } } })"

section \<open>Restoring\<close>

text \<open>The reply to a download, read up to one byte more than is allowed.\<close>

definition downloaded :: "string \<Rightarrow> bool \<Rightarrow> string option" where
  "downloaded body whole =
     (let archive = take (maxManagedBackupSize + 1) body
      in if (\<not> whole \<and> length body \<le> maxManagedBackupSize) \<or> archive = [] \<or> length archive > maxManagedBackupSize
         then None else Some archive)"

definition emergency_path :: "agent_config \<Rightarrow> string" where
  "emergency_path cfg = filepath_Join (a_RecoveryDir cfg) ''emergency-before-restore.tar.gz''"

text \<open>From the emergency backup on.\<close>

definition guarded_restore :: "host \<Rightarrow> agent_config \<Rightarrow> string \<Rightarrow> string \<Rightarrow> (string \<times> int \<times> json) act" where
  "guarded_restore H cfg backupID archivePath = do {
     (output, code) \<leftarrow> execCommand H (90 * second) ''sysupgrade'' [''-b'', emergency_path cfg];
     if code \<noteq> 0 then State_Monad.return (outln ''emergency backup failed; restore cancelled'' @ output, code, JObj commandMetadata)
     else do {
       e \<leftarrow> os_Chmod H (emergency_path cfg);
       if e \<noteq> None then State_Monad.return (outln ''emergency backup permissions are unsafe; restore cancelled'', 1, JObj commandMetadata)
       else do {
         now \<leftarrow> time_Now;
         e \<leftarrow> writeRestoreGuard H (a_RecoveryDir cfg) \<lparr>g_EmergencyPath = emergency_path cfg, g_CreatedAt = now,
                g_Deadline = now + restoreConfirmationTimeout\<rparr>;
         case e of
           Some e \<Rightarrow> State_Monad.return (outln (''failed to create restore guard; restore cancelled: '' @ e), 1, JObj commandMetadata)
         | None \<Rightarrow> do {
             (output, code) \<leftarrow> execCommand H (2 * minute) ''sysupgrade'' [''-r'', archivePath];
             if code \<noteq> 0 then State_Monad.return (output, code, JObj commandMetadata)
             else do {
               e \<leftarrow> saveConfig H cfg;
               State_Monad.return (case e of
                 Some e \<Rightarrow> (output @ [newline] @ outln (''restored configuration but failed to preserve agent identity: '' @ Error e), 1, JObj commandMetadata)
               | None \<Rightarrow> (output @ [newline] @ outln ''configuration restored; waiting for cloud confirmation before committing the restore'', 0,
                   JObj [(''backup_id'', JStr backupID), (''emergency_backup'', JStr (emergency_path cfg)),
                         (''guard_timeout_seconds'', JNum (Itoa (restoreConfirmationTimeout div second)))])) } } } }
   }"

definition restore_archive :: "host \<Rightarrow> env \<Rightarrow> agent_config \<Rightarrow> (string \<times> string) list \<Rightarrow> string \<Rightarrow> bool \<Rightarrow> (string \<times> int \<times> json) act" where
  "restore_archive H E cfg args body whole =
     (case downloaded body whole of
        None \<Rightarrow> State_Monad.return (outln ''downloaded backup is empty or too large'', 1, JObj commandMetadata)
      | Some archive \<Rightarrow>
          if ToLower (hex_EncodeToString (sha256_Sum E archive)) \<noteq> ToLower (map_get args ''sha256'')
          then State_Monad.return (outln ''downloaded backup checksum does not match'', 1, JObj commandMetadata)
          else do {
            e \<leftarrow> os_MkdirAll H (a_BackupDir cfg);
            case e of
              Some e \<Rightarrow> State_Monad.return (outln (Error e), 1, JObj commandMetadata)
            | None \<Rightarrow> do {
                let archivePath = filepath_Join (a_BackupDir cfg) (''.rmm-restore-'' @ map_get args ''backup_id'' @ ''.tar.gz'');
                e \<leftarrow> os_MkdirAll H (a_RecoveryDir cfg);
                case e of
                  Some e \<Rightarrow> State_Monad.return (outln (Error e), 1, JObj commandMetadata)
                | None \<Rightarrow> do {
                    e \<leftarrow> os_WriteFile H archivePath archive;
                    case e of
                      Some e \<Rightarrow> State_Monad.return (outln (Error e), 1, JObj commandMetadata)
                    | None \<Rightarrow> do {
                        result \<leftarrow> guarded_restore H cfg (map_get args ''backup_id'') archivePath;
                        _ \<leftarrow> os_Remove H archivePath;
                        State_Monad.return result } } } })"

definition restoreSystemBackup :: "host \<Rightarrow> env \<Rightarrow> agent_config \<Rightarrow> RawMessage \<Rightarrow> (string \<times> int \<times> json) act" where
  "restoreSystemBackup H E cfg raw =
     (case Option.bind (json_unmarshal raw) to_string_map of
        None \<Rightarrow> State_Monad.return (outln ''backup restore arguments are invalid'', 2, JObj commandMetadata)
      | Some args \<Rightarrow>
          if \<not> safeSessionID (map_get args ''backup_id'') \<or> length (map_get args ''sha256'') \<noteq> 64 \<or> map_get args ''target'' = []
          then State_Monad.return (outln ''backup restore arguments are invalid'', 2, JObj commandMetadata)
          else do {
            g \<leftarrow> readRestoreGuard H (a_RecoveryDir cfg);
            case g of
              Inl e \<Rightarrow> State_Monad.return (outln (''existing restore guard is unreadable; restore cancelled: '' @ e), 1, JObj commandMetadata)
            | Inr (Some _) \<Rightarrow> State_Monad.return (outln ''a previous restore is still waiting for cloud confirmation'', 2, JObj commandMetadata)
            | Inr None \<Rightarrow> do {
                targ \<leftarrow> openwrtTarget H;
                if map_get args ''target'' \<noteq> targ
                then State_Monad.return (outln ''backup target does not match this router'', 2, JObj commandMetadata)
                else do {
                  r \<leftarrow> http_do H \<lparr>rq_method = ''GET'', rq_url = backup_url cfg (map_get args ''backup_id''),
                         rq_headers = [(''Authorization'', ''Bearer '' @ a_DeviceToken cfg), (''X-RMM-Device-ID'', a_DeviceID cfg)], rq_body = []\<rparr>;
                  case r of
                    NetError e \<Rightarrow> State_Monad.return (outln (''backup download failed: '' @ e), 1, JObj commandMetadata)
                  | Reply status body whole \<Rightarrow>
                      if status \<noteq> 200 then State_Monad.return (outln (''backup download failed with HTTP '' @ Itoa status), 1, JObj commandMetadata)
                      else restore_archive H E cfg args body whole } } })"

definition systemBackupOperation :: "host \<Rightarrow> env \<Rightarrow> agent_config \<Rightarrow> agent_command \<Rightarrow> (string \<times> int \<times> json) act" where
  "systemBackupOperation H E cfg cmd =
     (if ac_Type cmd = ''system_backup_create'' then createSystemBackup H cfg (ac_ID cmd)
      else if ac_Type cmd = ''system_backup_restore'' then restoreSystemBackup H E cfg (ac_Args cmd)
      else State_Monad.return (outln ''unsupported backup operation'', 2, JObj commandMetadata))"


section \<open>What is kept\<close>

text \<open>No program of a kind has been started since the trace was \<open>tr\<close>.\<close>

definition none_started :: "(program \<Rightarrow> bool) \<Rightarrow> program list \<Rightarrow> machine \<Rightarrow> bool" where
  "none_started B tr m \<longleftrightarrow> (\<exists>ps. m_trace m = tr @ ps \<and> list_all (\<lambda>p. \<not> B p) ps)"

lemma keeps_none_files [keeps_intros]:
  "keeps (none_started B tr) (os_WriteFile H p d)" "keeps (none_started B tr) (os_CreateExcl H p)"
  "keeps (none_started B tr) (os_Rename H p q)" "keeps (none_started B tr) (os_Remove H p)"
  "keeps (none_started B tr) (os_CreateTemp H dir prefix suffix)" "keeps (none_started B tr) (http_do H rq)"
  "keeps (none_started B tr) (sleep t)"
  by (auto simp: keeps_def none_started_def os_runs http_do_def Let_def split: option.split prod.split)

lemma keeps_none_run: "\<not> B p \<Longrightarrow> keeps (none_started B tr) (run_program H p)"
  by (auto simp: keeps_def none_started_def run_program_def Let_def split: prod.split)

lemma keeps_none_exec:
  assumes "\<And>e i t. \<not> B \<lparr>p_name = name, p_args = args, p_env = e, p_input = i, p_timeout = t\<rparr>"
  shows "keeps (none_started B tr) (execCommand H timeout name args)"
    and "keeps (none_started B tr) (execCommandWithEnv H timeout environment name args)"
    and "keeps (none_started B tr) (execCommandWithInput H timeout input name args)"
    and "keeps (none_started B tr) (commandOutput H name args)"
  unfolding execCommand_def execCommandWithEnv_def execCommandWithInput_def commandOutput_def
  by (intro keeps_intros keeps_none_run assms)+

lemma keeps_none_save [keeps_intros]: "keeps (none_started B tr) (saveConfig H cfg)"
  unfolding saveConfig_def by (intro keeps_intros)

lemma keeps_none_profile_state [keeps_intros]: "keeps (none_started B tr) (writeProfileState H p d)"
  unfolding writeProfileState_def by (intro keeps_intros)

section \<open>The guard on disk\<close>

definition is_restore :: "program \<Rightarrow> bool" where
  "is_restore p \<longleftrightarrow> p_name p = ''sysupgrade'' \<and> take 1 (p_args p) = [''-r'']"

definition guard_on_disk :: "agent_config \<Rightarrow> restoreGuard \<Rightarrow> machine \<Rightarrow> bool" where
  "guard_on_disk cfg g m \<longleftrightarrow> data_at m (restoreGuardPath (a_RecoveryDir cfg)) = Some (print_json (guard_json g))"

definition guarded :: "agent_config \<Rightarrow> machine \<Rightarrow> bool" where
  "guarded cfg m \<longleftrightarrow> (\<exists>now. let g = \<lparr>g_EmergencyPath = emergency_path cfg, g_CreatedAt = now, g_Deadline = now + restoreConfirmationTimeout\<rparr>
     in guard_on_disk cfg g m \<and> guard_valid g)"

text \<open>Programs leave the guard alone, and it is not the agent's configuration file.\<close>

definition guard_safe :: "host \<Rightarrow> agent_config \<Rightarrow> bool" where
  "guard_safe H cfg \<longleftrightarrow> spares H (\<lambda>p q. q = restoreGuardPath (a_RecoveryDir cfg)) \<and>
     a_ConfigFile cfg \<noteq> restoreGuardPath (a_RecoveryDir cfg) \<and> a_ConfigFile cfg @ ''.tmp'' \<noteq> restoreGuardPath (a_RecoveryDir cfg)"

lemma guarded_file:
  "guarded cfg m \<Longrightarrow> file_at m' (restoreGuardPath (a_RecoveryDir cfg)) = file_at m (restoreGuardPath (a_RecoveryDir cfg)) \<Longrightarrow> guarded cfg m'"
  by (simp add: guarded_def guard_on_disk_def data_at_def)

lemma keeps_guarded_exec:
  assumes "guard_safe H cfg"
  shows "keeps (guarded cfg) (execCommand H timeout name args)"
  using execCommand_file [of H "\<lambda>p q. q = restoreGuardPath (a_RecoveryDir cfg)"] assms
  by (intro keepsI) (metis guard_safe_def guarded_file prod.collapse)

lemma keeps_guarded_save:
  assumes "guard_safe H cfg"
  shows "keeps (guarded cfg) (saveConfig H cfg)"
proof (rule keepsI)
  fix m
  assume g: "guarded cfg m"
  have "restoreGuardPath (a_RecoveryDir cfg) \<noteq> a_ConfigFile cfg" "restoreGuardPath (a_RecoveryDir cfg) \<noteq> a_ConfigFile cfg @ ''.tmp''"
    using assms by (auto simp: guard_safe_def)
  then have "file_at (snd (run_state (saveConfig H cfg) m)) (restoreGuardPath (a_RecoveryDir cfg)) = file_at m (restoreGuardPath (a_RecoveryDir cfg))"
    by (simp add: saveConfig_def os_runs split: option.split)
  then show "guarded cfg (snd (run_state (saveConfig H cfg) m))" by (rule guarded_file [OF g])
qed

lemma writeRestoreGuard_ok:
  assumes "run_state (writeRestoreGuard H dir g) m = (None, m')"
  shows "guard_valid g \<and> marshal_time_ok (g_CreatedAt g) \<and> marshal_time_ok (g_Deadline g) \<and>
     data_at m' (restoreGuardPath dir) = Some (print_json (guard_json g))"
  using assms by (auto simp: writeRestoreGuard_def Let_def os_runs data_at_def split: if_splits option.splits)

lemma keeps_none_writeGuard [keeps_intros]: "keeps (none_started B tr) (writeRestoreGuard H dir g)"
  unfolding writeRestoreGuard_def by (intro keeps_intros)

lemma keeps_readGuard [keeps_intros]: "keeps P (readRestoreGuard H dir)"
  unfolding readRestoreGuard_def by (intro keeps_intros)

text \<open>A restore is started only with a guard on disk, and the guard is still there afterwards.\<close>

lemma guarded_restore_spec:
  assumes safe: "guard_safe H cfg"
  shows "triple (none_started is_restore tr) (guarded_restore H cfg i path) (\<lambda>_ m. none_started is_restore tr m \<or> guarded cfg m)"
    (is "triple ?N _ ?Q")
proof -
  have fail: "triple ?N (State_Monad.return x) ?Q" for x by (rule triple_return) simp
  have backup: "keeps ?N (execCommand H (90 * second) ''sysupgrade'' [''-b'', emergency_path cfg])"
    by (rule keeps_none_exec) (simp add: is_restore_def)
  have guard: "triple ?N (writeRestoreGuard H (a_RecoveryDir cfg) \<lparr>g_EmergencyPath = emergency_path cfg, g_CreatedAt = now,
                g_Deadline = now + restoreConfirmationTimeout\<rparr>) (\<lambda>e m. if e = None then guarded cfg m else ?N m)" for now
  proof (rule tripleI)
    fix m e m'
    assume "?N m" and run: "run_state (writeRestoreGuard H (a_RecoveryDir cfg) \<lparr>g_EmergencyPath = emergency_path cfg, g_CreatedAt = now,
                g_Deadline = now + restoreConfirmationTimeout\<rparr>) m = (e, m')"
    then have "?N m'" using keepsD_run [OF keeps_none_writeGuard] by blast
    moreover have "e = None \<Longrightarrow> guarded cfg m'"
      using writeRestoreGuard_ok run by (auto simp: guarded_def guard_on_disk_def Let_def)
    ultimately show "if e = None then guarded cfg m' else ?N m'" by simp
  qed
  have restore: "triple (guarded cfg) (do {
             (output, code) \<leftarrow> execCommand H (2 * minute) ''sysupgrade'' [''-r'', path];
             if code \<noteq> 0 then State_Monad.return (output, code, x)
             else do { e \<leftarrow> saveConfig H cfg; State_Monad.return (f output e) } }) ?Q" for x f
    by (rule triple_conseq [OF keeps_triple, of "guarded cfg"])
      (auto intro!: keeps_intros keeps_guarded_exec keeps_guarded_save safe)
  show ?thesis
    unfolding guarded_restore_def
    apply (rule triple_bind [OF keeps_triple [OF backup]])
    apply (intro triple_prod triple_if fail)
    apply (rule triple_bind [OF keeps_triple [OF keeps_reads(2)]])
    apply (intro triple_if fail)
    apply (rule triple_bind [OF keeps_triple [OF keeps_Now]])
    apply (rule triple_bind [OF guard])
    apply (rule triple_option)
     apply (rule triple_conseq [OF restore], simp, assumption)
    apply (rule triple_return, simp)
    done
qed


lemma keeps_none_target [keeps_intros]: "(\<And>p. p_name p = ''ubus'' \<Longrightarrow> \<not> B p) \<Longrightarrow> keeps (none_started B tr) (openwrtTarget H)"
  unfolding openwrtTarget_def by (intro keeps_intros keeps_none_exec) simp

lemma restore_archive_spec:
  assumes safe: "guard_safe H cfg" and i: "safeSessionID (map_get args ''backup_id'')"
  shows "triple (none_started is_restore tr) (restore_archive H E cfg args body whole) (\<lambda>_ m. none_started is_restore tr m \<or> guarded cfg m)"
    (is "triple ?N _ ?Q")
proof -
  have fail: "triple ?N (State_Monad.return x) ?Q" for x by (rule triple_return) simp
  define name where "name = ''.rmm-restore-'' @ map_get args ''backup_id'' @ ''.tar.gz''"
  have "plain_name name" using safe_id_chars [OF i] by (auto simp: name_def plain_name_def)
  then have path: "filepath_Join d name \<noteq> restoreGuardPath (a_RecoveryDir cfg)" for d
    using filepath_Join_name [of name "''pending-restore.json''" d "a_RecoveryDir cfg"]
    by (auto simp: restoreGuardPath_def plain_name_def name_def)
  have remove: "triple (?Q x) (do { _ \<leftarrow> os_Remove H (filepath_Join d name); State_Monad.return x }) ?Q" for d x
  proof (rule tripleI)
    fix m x' m'
    assume q: "?Q x m" and run: "run_state (do { _ \<leftarrow> os_Remove H (filepath_Join d name); State_Monad.return x }) m = (x', m')"
    have "file_at m' (restoreGuardPath (a_RecoveryDir cfg)) = file_at m (restoreGuardPath (a_RecoveryDir cfg))" "m_trace m' = m_trace m"
      using run path [of d] by (auto simp: run_Remove split: option.splits if_splits)
    then show "?Q x' m'" using q guarded_file by (auto simp: none_started_def)
  qed
  show ?thesis
    unfolding restore_archive_def Let_def name_def [symmetric]
    apply (intro triple_option triple_if fail)
    apply (rule triple_bind [OF keeps_triple [OF keeps_reads(1)]])
    apply (intro triple_option fail)
    apply (rule triple_bind [OF keeps_triple [OF keeps_reads(1)]])
    apply (intro triple_option fail)
    apply (rule triple_bind [OF keeps_triple [OF keeps_none_files(1)]])
    apply (intro triple_option fail)
    apply (rule triple_bind [OF guarded_restore_spec [OF safe]])
    apply (rule remove)
    done
qed

lemma restoreSystemBackup_spec:
  assumes safe: "guard_safe H cfg"
  shows "triple (none_started is_restore tr) (restoreSystemBackup H E cfg raw) (\<lambda>_ m. none_started is_restore tr m \<or> guarded cfg m)"
    (is "triple ?N _ ?Q")
proof -
  have fail: "triple ?N (State_Monad.return x) ?Q" for x by (rule triple_return) simp
  have targ: "keeps ?N (openwrtTarget H)" by (rule keeps_none_target) (simp add: is_restore_def)
  have reply: "triple ?N (case r of NetError e \<Rightarrow> a e | Reply s b w \<Rightarrow> f s b w) ?Q"
    if "\<And>e. triple ?N (a e) ?Q" "\<And>s b w. triple ?N (f s b w) ?Q" for r a f
    using that by (cases r) simp_all
  have opt: "triple ?N (case g of None \<Rightarrow> a | Some x \<Rightarrow> f x) ?Q" if "triple ?N a ?Q" "\<And>x. triple ?N (f x) ?Q" for g a f
    using that by (cases g) simp_all
  show ?thesis
    unfolding restoreSystemBackup_def
    apply (intro triple_option triple_if fail)
    apply (rule triple_bind [OF keeps_triple [OF keeps_readGuard]])
    apply (intro triple_sum opt fail)
    apply (rule triple_bind [OF keeps_triple [OF targ]])
    apply (intro triple_if fail)
    apply (rule triple_bind [OF keeps_triple [OF keeps_none_files(6)]])
    apply (intro reply triple_if fail)
    apply (rule restore_archive_spec [OF safe])
    apply simp
    done
qed

section \<open>Properties\<close>




definition times_ok :: "restoreGuard \<Rightarrow> bool" where
  "times_ok g \<longleftrightarrow> zero_time \<le> g_CreatedAt g \<and> zero_time \<le> g_Deadline g \<and>
     fst (year_day ((g_CreatedAt g - zero_time) div (24 * hour))) < 10000 \<and> fst (year_day ((g_Deadline g - zero_time) div (24 * hour))) < 10000"

lemma guard_fields:
  "ToLower ''emergency_path'' = ''emergency_path''" "ToLower ''created_at'' = ''created_at''" "ToLower ''deadline'' = ''deadline''"
  by code_simp+

lemma decode_guard_json:
  assumes "times_ok g"
  shows "Option.bind (json_unmarshal (print_json (guard_json g))) decode_guard = Some g"
proof -
  have "json_unmarshal (print_json (guard_json g)) = Some (guard_json g)"
    by (rule unmarshal_print) (simp add: guard_json_def)
  then show ?thesis
    using assms
    by (cases g) (simp add: guard_json_def decode_guard_def string_field_def decode_field_def to_string_def to_time_def guard_fields
        times_ok_def time_Parse_RFC3339Nano)
qed

definition fault_free :: "host \<Rightarrow> bool" where
  "fault_free H \<longleftrightarrow> (\<forall>m op p. h_fault H m op p = None)"

lemma read_guard:
  assumes "fault_free H" "guard_on_disk cfg g m" "guard_valid g" "times_ok g" "TrimSpace (a_RecoveryDir cfg) \<noteq> []"
  shows "run_state (readRestoreGuard H (a_RecoveryDir cfg)) m = (Inr (Some g), m)"
proof -
  obtain f where "file_at m (restoreGuardPath (a_RecoveryDir cfg)) = Some f" "f_data f = print_json (guard_json g)"
    using assms(2) by (auto simp: guard_on_disk_def data_at_def)
  then show ?thesis
    using assms(1,3,5) decode_guard_json [OF assms(4)] by (simp add: readRestoreGuard_def run_ReadFile fault_free_def)
qed

text \<open>The programs of a rollback that succeeds, on a router where it can.\<close>

definition rollback_possible :: "host \<Rightarrow> agent_config \<Rightarrow> restoreGuard \<Rightarrow> machine \<Rightarrow> bool" where
  "rollback_possible H cfg g m \<longleftrightarrow> fault_free H \<and> guard_safe H cfg \<and> file_at m (g_EmergencyPath g) \<noteq> None \<and> h_regular H m (g_EmergencyPath g) \<and>
     (case h_exec H m \<lparr>p_name = ''sysupgrade'', p_args = [''-r'', g_EmergencyPath g], p_env = [], p_input = [], p_timeout = 2 * minute\<rparr> of
        (out, ended, files, took) \<Rightarrow> ended = Exited 0)"

lemma rollback_due:
  assumes poss: "rollback_possible H cfg g m" and g: "guard_on_disk cfg g m" "guard_valid g" "times_ok g"
    and dir: "TrimSpace (a_RecoveryDir cfg) \<noteq> []" and due: "g_Deadline g \<le> now"
  shows "case run_state (rollbackPendingRestore H cfg now) m of (r, m') \<Rightarrow>
     r = Inr True \<and> data_at m' (restoreGuardPath (a_RecoveryDir cfg)) = None \<and>
     m_trace m' = m_trace m @ [\<lparr>p_name = ''sysupgrade'', p_args = [''-r'', g_EmergencyPath g], p_env = [], p_input = [], p_timeout = 2 * minute\<rparr>] \<and>
     data_at m' (a_ConfigFile cfg) = Some (config_text cfg)"
proof -
  define p where "p = \<lparr>p_name = ''sysupgrade'', p_args = [''-r'', g_EmergencyPath g], p_env = [], p_input = [], p_timeout = 2 * minute\<rparr>"
  have ff: "h_fault H m op q = None" for m op q using poss by (simp add: rollback_possible_def fault_free_def)
  obtain out files took where ex: "h_exec H m p = (out, Exited 0, files, took)"
    using poss by (auto simp: rollback_possible_def p_def split: prod.splits)
  define m1 where "m1 = m\<lparr>m_files := files, m_clock := m_clock m + took, m_trace := m_trace m @ [p]\<rparr>"
  have r1: "run_state (execCommand H (2 * minute) ''sysupgrade'' [''-r'', g_EmergencyPath g]) m = ((out, 0), m1)"
    unfolding execCommand_def run_execCommandWithEnv p_def [symmetric]
    by (simp add: run_program_def ex m1_def exec_result_def)
  define m2 where "m2 = put_file (a_ConfigFile cfg) \<lparr>f_data = config_text cfg, f_mtime = m_clock m1\<rparr>
      (del_file (a_ConfigFile cfg @ ''.tmp'') (store_data (a_ConfigFile cfg @ ''.tmp'') (config_text cfg) m1))"
  have r2: "run_state (saveConfig H cfg) m1 = (None, m2)"
    by (simp add: saveConfig_def os_runs ff m2_def)
  have ne: "restoreGuardPath (a_RecoveryDir cfg) \<noteq> a_ConfigFile cfg" "a_ConfigFile cfg \<noteq> restoreGuardPath (a_RecoveryDir cfg)"
    using poss by (auto simp: rollback_possible_def guard_safe_def)
  have "run_state (rollbackPendingRestore H cfg now) m =
     (if file_at m2 (restoreGuardPath (a_RecoveryDir cfg)) = None then (Inr True, m2) else (Inr True, del_file (restoreGuardPath (a_RecoveryDir cfg)) m2))"
    using dir due poss read_guard [OF _ g dir, of H] ff r1 r2
    by (simp add: rollbackPendingRestore_def rollback_possible_def run_Remove no_such_file_def)
  moreover have "m_trace m2 = m_trace m @ [p]" "data_at m2 (a_ConfigFile cfg) = Some (config_text cfg)"
    by (simp_all add: m2_def m1_def data_at_def)
  ultimately show ?thesis
    using ne unfolding p_def [symmetric] by (auto simp: data_at_def)
qed

text \<open>
  C38. How a pending restore ends. A heartbeat that the server answered confirms it only if it
  began after the guard was made; then the guard is gone and nothing is started. Until the
  deadline a failed heartbeat does nothing. From the deadline on the emergency backup is
  restored, the agent's identity is written back and the guard is gone, and the call says so.
\<close>

theorem pending_restore_ends:
  assumes poss: "rollback_possible H cfg g m" and g: "guard_on_disk cfg g m" "guard_valid g" "times_ok g"
    and dir: "TrimSpace (a_RecoveryDir cfg) \<noteq> []"
  shows "run_state (confirmPendingRestore H (a_RecoveryDir cfg) heartbeat) m =
       (None, if g_CreatedAt g < heartbeat then del_file (restoreGuardPath (a_RecoveryDir cfg)) m else m) \<and>
     (if now < g_Deadline g then run_state (rollbackPendingRestore H cfg now) m = (Inr False, m)
      else case run_state (rollbackPendingRestore H cfg now) m of (r, m') \<Rightarrow>
        r = Inr True \<and> data_at m' (restoreGuardPath (a_RecoveryDir cfg)) = None \<and>
        m_trace m' = m_trace m @ [\<lparr>p_name = ''sysupgrade'', p_args = [''-r'', g_EmergencyPath g], p_env = [], p_input = [], p_timeout = 2 * minute\<rparr>] \<and>
        data_at m' (a_ConfigFile cfg) = Some (config_text cfg))"
proof -
  have ff: "fault_free H" using poss by (simp add: rollback_possible_def)
  note read = read_guard [OF ff g dir]
  have present: "file_at m (restoreGuardPath (a_RecoveryDir cfg)) \<noteq> None" using g(1) by (auto simp: guard_on_disk_def data_at_def)
  have "run_state (confirmPendingRestore H (a_RecoveryDir cfg) heartbeat) m =
       (None, if g_CreatedAt g < heartbeat then del_file (restoreGuardPath (a_RecoveryDir cfg)) m else m)"
    using dir read present ff by (auto simp: confirmPendingRestore_def run_Remove fault_free_def)
  moreover have "run_state (rollbackPendingRestore H cfg now) m = (Inr False, m)" if "now < g_Deadline g"
    using dir read that by (simp add: rollbackPendingRestore_def)
  ultimately show ?thesis using rollback_due [OF poss g dir, of now] by simp
qed

definition sample_guard :: restoreGuard where
  "sample_guard = \<lparr>g_EmergencyPath = ''/etc/rmm/recovery/emergency-before-restore.tar.gz'', g_CreatedAt = 900 * second, g_Deadline = 1500 * second\<rparr>"

theorem pending_restore_ends_witness:
  "run_state (confirmPendingRestore quiet_host (a_RecoveryDir sample_config) (1000 * second))
     (sample_machine [(''/etc/rmm/recovery/pending-restore.json'', print_json (guard_json sample_guard)),
                      (g_EmergencyPath sample_guard, ''archive'')]) =
     (None, if g_CreatedAt sample_guard < 1000 * second
            then del_file (restoreGuardPath (a_RecoveryDir sample_config)) (sample_machine
              [(''/etc/rmm/recovery/pending-restore.json'', print_json (guard_json sample_guard)), (g_EmergencyPath sample_guard, ''archive'')])
            else sample_machine [(''/etc/rmm/recovery/pending-restore.json'', print_json (guard_json sample_guard)), (g_EmergencyPath sample_guard, ''archive'')])"
proof -
  let ?m = "sample_machine [(''/etc/rmm/recovery/pending-restore.json'', print_json (guard_json sample_guard)), (g_EmergencyPath sample_guard, ''archive'')]"
  have path: "restoreGuardPath (a_RecoveryDir sample_config) = ''/etc/rmm/recovery/pending-restore.json''" by code_simp
  have "guard_safe quiet_host sample_config" by (simp add: guard_safe_def quiet_spares path) (simp add: sample_config_def)
  then have "rollback_possible quiet_host sample_config sample_guard ?m"
    by (simp add: rollback_possible_def fault_free_def quiet_host_def) (simp add: file_at_def sample_machine_def sample_guard_def)
  moreover have "guard_on_disk sample_config sample_guard ?m"
    by (simp add: guard_on_disk_def path data_at_def file_at_def sample_machine_def)
  moreover have "guard_valid sample_guard" by code_simp
  moreover have "times_ok sample_guard" by code_simp
  moreover have "TrimSpace (a_RecoveryDir sample_config) \<noteq> []" by code_simp
  ultimately show ?thesis using pending_restore_ends by blast
qed

end
