(* ===== verification/AgentTools.thy ===== *)
theory AgentTools
  imports AgentBackup
begin

text \<open>
  The tools behind the agent's commands (\<open>agent/go/cmd/rmm-agent/main.go\<close> and
  \<open>diagnostics.go\<close>): redaction of secrets in output, the package manager, reading and changing
  UCI settings, and the diagnostic report.
\<close>

section \<open>Redaction\<close>

definition redact_words :: "string list" where
  "redact_words = [''private_key'', ''password'', ''passwd'', ''secret'', ''psk'', ''token'']"

definition redactLine :: "string \<Rightarrow> string" where
  "redactLine line = (case Index line ''='' of Some i \<Rightarrow> take (i + 1) line @ ''[redacted]'' | None \<Rightarrow> ''[redacted]'')"

definition redact_one :: "string \<Rightarrow> string" where
  "redact_one line = (if list_ex (Contains (ToLower line)) redact_words then redactLine line else line)"

definition redactSensitiveOutput :: "string \<Rightarrow> string" where
  "redactSensitiveOutput output = Join newline (map redact_one (Split newline output))"

section \<open>Packages\<close>

definition packageManager :: "host \<Rightarrow> string act" where
  "packageManager H = ask (\<lambda>m. if h_look H m ''apk'' then ''apk'' else if h_look H m ''opkg'' then ''opkg'' else ''none'')"

text \<open>The package is empty when the action has none.\<close>

definition runPackageCommand :: "host \<Rightarrow> string \<Rightarrow> string \<Rightarrow> (string \<times> int) act" where
  "runPackageCommand H action pkg = do {
     pm \<leftarrow> packageManager H;
     let k = pm @ '':'' @ action;
     if k = ''apk:list_installed'' then execCommand H (30 * second) ''apk'' [''list'', ''-I'']
     else if k = ''apk:update'' then execCommand H (60 * second) ''apk'' [''update'']
     else if k = ''apk:list_upgradable'' then execCommand H (30 * second) ''apk'' [''list'', ''--upgradeable'']
     else if k = ''apk:install'' then execCommand H (120 * second) ''apk'' [''add'', pkg]
     else if k = ''apk:remove'' then execCommand H (120 * second) ''apk'' [''del'', pkg]
     else if k = ''opkg:list_installed'' then execCommand H (30 * second) ''opkg'' [''list-installed'']
     else if k = ''opkg:update'' then execCommand H (60 * second) ''opkg'' [''update'']
     else if k = ''opkg:list_upgradable'' then execCommand H (30 * second) ''opkg'' [''list-upgradable'']
     else if k = ''opkg:install'' then execCommand H (120 * second) ''opkg'' [''install'', pkg]
     else if k = ''opkg:remove'' then execCommand H (120 * second) ''opkg'' [''remove'', pkg]
     else State_Monad.return (outln ''no supported package manager found'', 2)
   }"

section \<open>UCI\<close>

definition export_path :: "string \<Rightarrow> string \<Rightarrow> string" where
  "export_path backupDir config = filepath_Join backupDir (config @ ''.export'')"

definition uciBackupOutput :: "host \<Rightarrow> string \<Rightarrow> string \<Rightarrow> (string \<times> int) act" where
  "uciBackupOutput H config backupDir = do {
     (backup, exitCode) \<leftarrow> execCommand H (10 * second) ''uci'' [''export'', config];
     (if exitCode = 0 then do {
        _ \<leftarrow> os_MkdirAll H backupDir;
        _ \<leftarrow> os_WriteFile H (export_path backupDir config) backup;
        State_Monad.return () }
      else State_Monad.return ());
     State_Monad.return (outln (''BACKUP '' @ config) @ backup, exitCode)
   }"

text \<open>The two temporary files are closed before \<open>diff\<close> runs and removed afterwards.\<close>

definition unifiedDiff :: "host \<Rightarrow> string \<Rightarrow> string \<Rightarrow> string act" where
  "unifiedDiff H before after = do {
     have_diff \<leftarrow> ask (\<lambda>m. h_look H m ''diff'');
     if \<not> have_diff then State_Monad.return []
     else do {
       b \<leftarrow> os_CreateTemp H ''/tmp'' ''rmm-agent-before-'' [];
       case b of
         Inl _ \<Rightarrow> State_Monad.return []
       | Inr beforeFile \<Rightarrow> do {
           a \<leftarrow> os_CreateTemp H ''/tmp'' ''rmm-agent-after-'' [];
           case a of
             Inl _ \<Rightarrow> do { _ \<leftarrow> os_Remove H beforeFile; State_Monad.return [] }
           | Inr afterFile \<Rightarrow> do {
               _ \<leftarrow> os_WriteFile H beforeFile before;
               _ \<leftarrow> os_WriteFile H afterFile after;
               (output, _) \<leftarrow> execCommand H (10 * second) ''diff'' [''-u'', beforeFile, afterFile];
               _ \<leftarrow> os_Remove H afterFile;
               _ \<leftarrow> os_Remove H beforeFile;
               State_Monad.return output } } }
   }"

definition set_argument :: "uciTarget \<Rightarrow> string" where
  "set_argument t = ut_Config t @ ''.'' @ ut_Section t @ ''.'' @ ut_Option t @ ''='' @ ut_Value t"

definition section_text :: "string \<Rightarrow> string \<Rightarrow> string" where
  "section_text title body = [newline] @ outln title @ outln body"

definition preview_text :: "uciTarget \<Rightarrow> string \<Rightarrow> string \<Rightarrow> string \<Rightarrow> string \<Rightarrow> string" where
  "preview_text t diff backup before after =
     outln (''PREVIEW '' @ ut_Config t @ ''.'' @ ut_Section t @ ''.'' @ ut_Option t) @ section_text ''CHANGE'' (set_argument t) @
     (if diff \<noteq> [] then section_text ''DIFF'' diff else []) @ section_text ''BACKUP'' backup @ section_text ''BEFORE'' before @
     section_text ''AFTER'' after"

text \<open>The revert is deferred: it runs on every way out once the change has been staged.\<close>

definition uciPreviewOutput :: "host \<Rightarrow> uciTarget \<Rightarrow> string \<Rightarrow> (string \<times> int) act" where
  "uciPreviewOutput H t backupDir = do {
     (before, beforeCode) \<leftarrow> execCommand H (10 * second) ''uci'' [''show'', ut_Config t];
     if beforeCode \<noteq> 0 then State_Monad.return (before, beforeCode)
     else do {
       (backup, backupCode) \<leftarrow> execCommand H (10 * second) ''uci'' [''export'', ut_Config t];
       if backupCode \<noteq> 0 then State_Monad.return (backup, backupCode)
       else do {
         _ \<leftarrow> os_MkdirAll H backupDir;
         _ \<leftarrow> os_WriteFile H (export_path backupDir (ut_Config t)) backup;
         (setOutput, setCode) \<leftarrow> execCommand H (10 * second) ''uci'' [''set'', set_argument t];
         result \<leftarrow>
           (if setCode \<noteq> 0 then State_Monad.return (setOutput, setCode)
            else do {
              (after, afterCode) \<leftarrow> execCommand H (10 * second) ''uci'' [''show'', ut_Config t];
              if afterCode \<noteq> 0 then State_Monad.return (after, afterCode)
              else do {
                diff \<leftarrow> unifiedDiff H before after;
                State_Monad.return (preview_text t diff backup before after, 0) } });
         _ \<leftarrow> execCommand H (10 * second) ''uci'' [''revert'', ut_Config t];
         State_Monad.return result } }
   }"

definition uciSetOutput :: "host \<Rightarrow> uciTarget \<Rightarrow> string \<Rightarrow> bool \<Rightarrow> (string \<times> int) act" where
  "uciSetOutput H t backupDir commit = do {
     (backup, backupCode) \<leftarrow> execCommand H (10 * second) ''uci'' [''export'', ut_Config t];
     if backupCode \<noteq> 0 then State_Monad.return (backup, backupCode)
     else do {
       _ \<leftarrow> os_MkdirAll H backupDir;
       _ \<leftarrow> os_WriteFile H (export_path backupDir (ut_Config t)) backup;
       (setOutput, setCode) \<leftarrow> execCommand H (10 * second) ''uci'' [''set'', set_argument t];
       if setCode \<noteq> 0 then State_Monad.return (setOutput, setCode)
       else do {
         let b = outln ''BACKUP'' @ outln backup @ [newline];
         if commit then do {
           (commitOutput, commitCode) \<leftarrow> execCommand H (20 * second) ''uci'' [''commit'', ut_Config t];
           State_Monad.return (b @ commitOutput, commitCode) }
         else State_Monad.return
           (b @ outln (''uci set staged: '' @ ut_Config t @ ''.'' @ ut_Section t @ ''.'' @ ut_Option t), 0) } }
   }"

text \<open>\<open>time.Duration(seconds) * time.Second\<close> wraps around at 64 bits; a timer that is due fires at once.\<close>

definition wrap64 :: "int \<Rightarrow> int" where
  "wrap64 n = (n + 2 ^ 63) mod 2 ^ 64 - 2 ^ 63"

definition uciCommitConfirmedOutput :: "host \<Rightarrow> agent_config \<Rightarrow> string \<Rightarrow> int \<Rightarrow> (string \<times> int) act" where
  "uciCommitConfirmedOutput H cfg configName confirmSeconds = do {
     let confirmSeconds = (if confirmSeconds \<le> 0 then 15 else confirmSeconds);
     (commitOutput, commitCode) \<leftarrow> execCommand H (20 * second) ''uci'' [''commit'', configName];
     if commitCode \<noteq> 0 then State_Monad.return (commitOutput, commitCode)
     else do {
       stopped \<leftarrow> wait_for H (max 0 (wrap64 (confirmSeconds * second)));
       if stopped then State_Monad.return (commitOutput @ [newline] @ outln ''commit confirmation cancelled'', 1)
       else do {
         up \<leftarrow> serverReachable H (a_ServerURL cfg);
         if up then State_Monad.return
           (commitOutput @ outln (''commit confirmed: server reachable after '' @ Itoa confirmSeconds @ '' seconds''), 0)
         else do {
           r \<leftarrow> os_ReadFile H (export_path (a_BackupDir cfg) configName);
           case r of
             Inl _ \<Rightarrow> State_Monad.return (commitOutput @ outln (''server unreachable and no backup file found for '' @ configName), 1)
           | Inr backup \<Rightarrow> do {
               (importOutput, importCode) \<leftarrow> execCommandWithInput H (20 * second) backup ''uci'' [''import'', configName];
               (rollbackOutput, rollbackCode) \<leftarrow> execCommand H (20 * second) ''uci'' [''commit'', configName];
               let output = commitOutput @ importOutput @ rollbackOutput @
                     outln (''commit rolled back: server unreachable after '' @ Itoa confirmSeconds @ '' seconds'');
               State_Monad.return (if importCode \<noteq> 0 then (output, importCode)
                 else if rollbackCode \<noteq> 0 then (output, rollbackCode) else (output, 1)) } } } }
   }"

definition uciRestoreOutput :: "host \<Rightarrow> string \<Rightarrow> string \<Rightarrow> (string \<times> int) act" where
  "uciRestoreOutput H config backupDir = do {
     r \<leftarrow> os_ReadFile H (export_path backupDir config);
     case r of
       Inl _ \<Rightarrow> State_Monad.return (outln (''no backup file found for '' @ config), 1)
     | Inr backup \<Rightarrow> do {
         (importOutput, importCode) \<leftarrow> execCommandWithInput H (20 * second) backup ''uci'' [''import'', config];
         if importCode \<noteq> 0 then State_Monad.return (importOutput, importCode)
         else do {
           (commitOutput, commitCode) \<leftarrow> execCommand H (20 * second) ''uci'' [''commit'', config];
           State_Monad.return (importOutput @ commitOutput, commitCode) } }
   }"

section \<open>Diagnostics\<close>

record diagnosticCheck =
  dc_Name :: string
  dc_Status :: string
  dc_Summary :: string
  dc_Output :: string
  dc_DurationMS :: int

definition RFC3339 :: "time \<Rightarrow> string" where
  "RFC3339 t = RFC3339Nano (t div second * second)"

definition check_json :: "diagnosticCheck \<Rightarrow> json" where
  "check_json c = JObj ([(''name'', JStr (dc_Name c)), (''status'', JStr (dc_Status c)), (''summary'', JStr (dc_Summary c))] @
     (if dc_Output c = [] then [] else [(''output'', JStr (dc_Output c))]) @ [(''duration_ms'', JNum (Itoa (dc_DurationMS c)))])"

definition report_json :: "string \<Rightarrow> string \<Rightarrow> string \<Rightarrow> diagnosticCheck list \<Rightarrow> json" where
  "report_json started finished targ checks = JObj [(''started_at'', JStr started), (''finished_at'', JStr finished),
     (''target'', JStr targ), (''checks'', JArr (map check_json checks))]"

text \<open>The instances of a service and whether each is running, if it says so.\<close>

definition to_running :: "bool option \<Rightarrow> json \<Rightarrow> bool option option" where
  "to_running old v = (case v of JBool b \<Rightarrow> Some (Some b) | JNull \<Rightarrow> Some None | _ \<Rightarrow> None)"

definition to_instances :: "(string \<times> bool option) list \<Rightarrow> json \<Rightarrow> (string \<times> bool option) list option" where
  "to_instances old v =
     (case v of
        JObj ms \<Rightarrow> map_option (\<lambda>new. rev new @ old) (all_some (map (\<lambda>(k, w). map_option (Pair k) (decode_field to_running ''running'' None w)) ms))
      | JNull \<Rightarrow> Some []
      | _ \<Rightarrow> None)"

definition to_services :: "json \<Rightarrow> (string \<times> (string \<times> bool option) list) list option" where
  "to_services v =
     (case v of
        JObj ms \<Rightarrow> all_some (map (\<lambda>(k, w). map_option (Pair k) (decode_field to_instances ''instances'' [] w)) (rev ms))
      | JNull \<Rightarrow> Some []
      | _ \<Rightarrow> None)"

definition running_values :: "(string \<times> bool option) list \<Rightarrow> bool option list" where
  "running_values xs = map (\<lambda>k. case map_of xs k of Some v \<Rightarrow> v | None \<Rightarrow> None) (remdups (map fst xs))"

definition diagnosticServiceStatus :: "string \<Rightarrow> int \<Rightarrow> string \<Rightarrow> string \<times> string" where
  "diagnosticServiceStatus output code service =
     (case (if code \<noteq> 0 then None else Option.bind (json_unmarshal output) to_services) of
        None \<Rightarrow> (''warning'', ''Service state unavailable'')
      | Some services \<Rightarrow>
          (case running_values (case map_of services service of Some xs \<Rightarrow> xs | None \<Rightarrow> []) of
             [] \<Rightarrow> (''warning'', ''Service state unavailable'')
           | rs \<Rightarrow> if Some True \<in> set rs then (''passed'', ''Service reports running'')
                   else if None \<in> set rs then (''warning'', ''Service state unavailable'')
                   else (''failed'', ''Service reports no running instances'')))"

definition milliseconds :: "time \<Rightarrow> int" where
  "milliseconds d = (if d < 0 then - (- d div 1000000) else d div 1000000)"

fun run_checks :: "host \<Rightarrow> (string \<times> string \<times> string \<times> time \<times> string list) list \<Rightarrow> (diagnosticCheck list) act" where
  "run_checks H [] = State_Monad.return []"
| "run_checks H ((name, command, summary, timeout, args) # cs) = do {
     start \<leftarrow> time_Now;
     (output, code) \<leftarrow> execCommand H timeout command args;
     end_time \<leftarrow> time_Now;
     let output = (if length output > 16384 then take 16384 output @ [newline] @ ''[output truncated]'' else output);
     let c = \<lparr>dc_Name = name, dc_Status = (if code \<noteq> 0 then ''failed'' else ''passed''),
              dc_Summary = (if code \<noteq> 0 then summary @ '' unavailable or unsuccessful'' else summary @ '' checked''),
              dc_Output = output, dc_DurationMS = milliseconds (end_time - start)\<rparr>;
     rest \<leftarrow> run_checks H cs;
     State_Monad.return (c # rest)
   }"

fun service_checks :: "host \<Rightarrow> string list \<Rightarrow> (diagnosticCheck list) act" where
  "service_checks H [] = State_Monad.return []"
| "service_checks H (s # ss) = do {
     let service = TrimSpace s;
     start \<leftarrow> time_Now;
     (output, code) \<leftarrow> execCommand H (5 * second) ''ubus''
        [''call'', ''service'', ''list'', print_json (JObj [(''name'', JStr service)])];
     end_time \<leftarrow> time_Now;
     let (status, summary) = diagnosticServiceStatus output code service;
     rest \<leftarrow> service_checks H ss;
     State_Monad.return (\<lparr>dc_Name = ''service:'' @ service, dc_Status = status, dc_Summary = summary, dc_Output = [],
        dc_DurationMS = milliseconds (end_time - start)\<rparr> # rest)
   }"

definition network_checks :: "string \<Rightarrow> (string \<times> string \<times> string \<times> time \<times> string list) list" where
  "network_checks targ =
     [(''ping'', ''ping'', ''ICMP reachability'', 12 * second, [''-c'', ''3'', ''-W'', ''2'', targ]),
      (''route'', ''ip'', ''Routing table'', 5 * second, [''route'', ''show'']),
      (''interfaces'', ''ip'', ''Interface addresses'', 5 * second, [''-o'', ''addr'', ''show'']),
      (''traceroute'', ''traceroute'', ''Network path'', 20 * second, [''-m'', ''8'', ''-w'', ''1'', targ])]"

definition dns_check :: "string list option \<Rightarrow> diagnosticCheck" where
  "dns_check addresses = \<lparr>dc_Name = ''dns'', dc_Status = (if addresses = None then ''failed'' else ''passed''),
     dc_Summary = (if addresses = None then ''DNS name could not be resolved'' else ''DNS name resolved''),
     dc_Output = (case addresses of None \<Rightarrow> [] | Some as \<Rightarrow> Join newline as), dc_DurationMS = 0\<rparr>"

definition runDiagnostics :: "host \<Rightarrow> (string \<times> string) list \<Rightarrow> (string \<times> int) act" where
  "runDiagnostics H args =
     (let targ = commandTarget args ''1.1.1.1''; domain = valueDefault (map_get args ''dns_name'') ''openwrt.org'' in
      if \<not> safeHostName targ \<or> \<not> safeHostName domain then State_Monad.return (outln ''diagnostic target is invalid'', 2)
      else let value = TrimSpace (map_get args ''services'');
               services = (if value \<noteq> [] then Split (CHR '','') value else [''dnsmasq'', ''uhttpd''])
           in if value \<noteq> [] \<and> length services > 5 then State_Monad.return (outln ''too many diagnostic services'', 2)
              else if \<not> list_all (\<lambda>s. safeServiceName (TrimSpace s)) services
              then State_Monad.return (outln ''diagnostic service is not allowlisted'', 2)
              else do {
                started \<leftarrow> time_Now;
                addresses \<leftarrow> ask (\<lambda>m. h_addresses H m domain);
                checks \<leftarrow> run_checks H (network_checks targ);
                services \<leftarrow> service_checks H services;
                now \<leftarrow> time_Now;
                uptime \<leftarrow> readFileString H ''/proc/uptime'';
                let all_checks = dns_check addresses # checks @ services @ [\<lparr>dc_Name = ''time'', dc_Status = ''unknown'',
                      dc_Summary = ''Router UTC time; NTP synchronization is not inferred'',
                      dc_Output = RFC3339 now @ [newline] @ ''uptime: '' @ TrimSpace uptime, dc_DurationMS = 0\<rparr>];
                State_Monad.return (print_json (report_json (RFC3339 started) (RFC3339 now) targ all_checks),
                  if list_ex (\<lambda>c. dc_Status c = ''failed'') all_checks then 1 else 0) })"


section \<open>Properties of redaction\<close>

lemma Split_Join:
  assumes "xs \<noteq> []" "\<forall>x \<in> set xs. c \<notin> set x"
  shows "Split c (Join c xs) = xs"
  using assms
proof (induction c xs rule: Join.induct)
  case (3 c x y ys)
  then show ?case by (simp add: Split_line)
qed (simp_all add: Split_no_sep)

lemma Split_parts: "x \<in> set (Split c s) \<Longrightarrow> c \<notin> set x"
  by (induction s arbitrary: x) (auto split: if_splits list.splits)

lemma Index_byte: "Index s [c] = Some i \<longleftrightarrow> i < length s \<and> s ! i = c \<and> c \<notin> set (take i s)"
proof (induction s arbitrary: i)
  case (Cons a s)
  show ?case
  proof (cases i)
    case (Suc j)
    then show ?thesis using Cons [of j] by auto
  qed auto
qed simp

lemma redactLine_idem: "redactLine (redactLine line) = redactLine line"
proof (cases "Index line ''=''")
  case (Some i)
  have i: "i < length line" "line ! i = CHR ''=''" "CHR ''='' \<notin> set (take i line)" using Some by (simp_all add: Index_byte)
  then have "Index (take (i + 1) line @ ''[redacted]'') ''='' = Some i"
    by (simp add: Index_byte nth_append min_def)
  then show ?thesis using Some i(1) by (simp add: redactLine_def)
qed (simp add: redactLine_def)

lemma redact_one_idem: "redact_one (redact_one line) = redact_one line"
  by (simp add: redact_one_def redactLine_idem)

lemma redact_one_lines: "newline \<notin> set line \<Longrightarrow> newline \<notin> set (redact_one line)"
  by (auto simp: redact_one_def redactLine_def newline_def split: option.splits dest: in_set_takeD)

lemma redacted_lines: "Split newline (redactSensitiveOutput output) = map redact_one (Split newline output)"
  unfolding redactSensitiveOutput_def
  by (rule Split_Join) (use Split_parts redact_one_lines in fastforce)+

text \<open>
  Redaction is final and complete over the words it knows: redacting an output again changes
  nothing (the agent redacts an output twice before it sends it), the lines stay in place, and
  a line that mentions one of the words shows nothing but the fixed mark after its first \<open>=\<close>,
  or at all when it has none.
\<close>

theorem redaction_final:
  "redactSensitiveOutput (redactSensitiveOutput output) = redactSensitiveOutput output \<and>
   length (Split newline (redactSensitiveOutput output)) = length (Split newline output) \<and>
   (\<forall>i < length (Split newline output). list_ex (Contains (ToLower (Split newline output ! i))) redact_words \<longrightarrow>
      (\<exists>name. Split newline (redactSensitiveOutput output) ! i = name @ ''[redacted]'' \<and>
         (name = [] \<or> (\<exists>n. name = n @ ''='' \<and> CHR ''='' \<notin> set n))))"
proof (intro conjI allI impI)
  show "redactSensitiveOutput (redactSensitiveOutput output) = redactSensitiveOutput output"
    unfolding redactSensitiveOutput_def [of "redactSensitiveOutput output"] redacted_lines
    by (simp add: redactSensitiveOutput_def redact_one_idem comp_def)
  show "length (Split newline (redactSensitiveOutput output)) = length (Split newline output)"
    by (simp add: redacted_lines)
  fix i
  assume i: "i < length (Split newline output)" "list_ex (Contains (ToLower (Split newline output ! i))) redact_words"
  define line where "line = Split newline output ! i"
  have "Split newline (redactSensitiveOutput output) ! i = redactLine line"
    using i by (simp add: redacted_lines redact_one_def line_def)
  moreover have "\<exists>name. redactLine line = name @ ''[redacted]'' \<and> (name = [] \<or> (\<exists>n. name = n @ ''='' \<and> CHR ''='' \<notin> set n))"
  proof (cases "Index line ''=''")
    case (Some i)
    then have "take (Suc i) line = take i line @ ''=''" "CHR ''='' \<notin> set (take i line)"
      by (simp_all add: Index_byte take_Suc_conv_app_nth)
    then show ?thesis using Some by (auto simp: redactLine_def)
  qed (simp add: redactLine_def)
  ultimately show "\<exists>name. Split newline (redactSensitiveOutput output) ! i = name @ ''[redacted]'' \<and>
         (name = [] \<or> (\<exists>n. name = n @ ''='' \<and> CHR ''='' \<notin> set n))" by simp
qed

theorem redaction_final_witness:
  "\<exists>name. Split newline (redactSensitiveOutput ''network.vpn.private_key=abc'') ! 0 = name @ ''[redacted]'' \<and>
         (name = [] \<or> (\<exists>n. name = n @ ''='' \<and> CHR ''='' \<notin> set n))"
proof -
  have lines: "Split newline ''network.vpn.private_key=abc'' = [''network.vpn.private_key=abc'']" by code_simp
  have "list_ex (Contains (ToLower (Split newline ''network.vpn.private_key=abc'' ! 0))) redact_words" by code_simp
  then show ?thesis using redaction_final [of "''network.vpn.private_key=abc''"] lines by auto
qed

text \<open>
  The words do not cover an option named \<open>key\<close>, where OpenWrt keeps a wireless passphrase; the
  server redacts it before it stores the output.
\<close>

lemma wireless_key:
  "redactSensitiveOutput ''wireless.default_radio0.key=hunter22'' = ''wireless.default_radio0.key=hunter22''"
  "redactSensitiveLine ''wireless.default_radio0.key=hunter22'' = ''wireless.default_radio0.key='' @ [CHR 0x27] @ ''[redacted]'' @ [CHR 0x27]"
  by code_simp+

end
