(* ===== verification/AgentTunnel.thy ===== *)
theory AgentTunnel
  imports AgentTools
begin

text \<open>
  Reverse SSH tunnels on the router (\<open>agent/go/cmd/rmm-agent/main.go\<close>): choosing the local host,
  the arguments of the SSH client, starting it in the background with a timer that stops it,
  and stopping a session.
\<close>

section \<open>The local host\<close>

fun unique_hosts :: "string list \<Rightarrow> string list \<Rightarrow> string list" where
  "unique_hosts seen [] = []"
| "unique_hosts seen (v # vs) =
     (let v = TrimSpace v in
      if v = [] \<or> v \<in> set seen then unique_hosts seen vs else v # unique_hosts (v # seen) vs)"

definition uniqueHostsInOrder :: "string list \<Rightarrow> string list" where
  "uniqueHostsInOrder values = unique_hosts [] values"

fun join_with :: "string \<Rightarrow> string list \<Rightarrow> string" where
  "join_with sep [] = []"
| "join_with sep [x] = x"
| "join_with sep (x # xs) = x @ sep @ join_with sep xs"

fun first_reachable :: "(string \<Rightarrow> bool) \<Rightarrow> string list \<Rightarrow> string list \<Rightarrow> string option" where
  "first_reachable ok seen [] = None"
| "first_reachable ok seen (host # hosts) =
     (let host = TrimSpace host in
      if host = [] \<or> host \<in> set seen then first_reachable ok seen hosts
      else if ok host then Some host else first_reachable ok (host # seen) hosts)"

definition selectRemoteSSHLocalHost ::
  "(string \<Rightarrow> bool) \<Rightarrow> string \<Rightarrow> int \<Rightarrow> string list \<Rightarrow> (string \<Rightarrow> bool) \<Rightarrow> string + string" where
  "selectRemoteSSHLocalHost loopback requestedHost port candidates reachable =
     (let hosts = requestedHost # (if loopback requestedHost then candidates else [])
      in case first_reachable reachable [] hosts of
           Some h \<Rightarrow> Inr h
         | None \<Rightarrow> Inl (''local SSH service is unavailable on port '' @ Itoa port @ '' (checked '' @
                       join_with '', '' (uniqueHostsInOrder hosts) @ '')''))"

fun ip_text :: "ip \<Rightarrow> string" where
  "ip_text (IPv4 a b c d) = dec_digits (int a) @ ''.'' @ dec_digits (int b) @ ''.'' @ dec_digits (int c) @ ''.'' @ dec_digits (int d)"
| "ip_text (IPv6 s) = s"

text \<open>A routable IPv4 address: not loopback, not 0.0.0.0, not 169.254.0.0/16.\<close>

fun usable_ip :: "ip \<Rightarrow> bool" where
  "usable_ip (IPv4 a b c d) \<longleftrightarrow> a \<noteq> 127 \<and> \<not> (a = 0 \<and> b = 0 \<and> c = 0 \<and> d = 0) \<and> \<not> (a = 169 \<and> b = 254)"
| "usable_ip (IPv6 s) \<longleftrightarrow> False"

fun candidate_hosts :: "string list \<Rightarrow> (string \<times> ip) list \<Rightarrow> (string \<times> nat) list" where
  "candidate_hosts seen [] = []"
| "candidate_hosts seen ((name, address) # vs) =
     (if \<not> usable_ip address then candidate_hosts seen vs
      else let host = ip_text address in
        if host \<in> set seen then candidate_hosts seen vs
        else (host, if name = ''br-lan'' \<or> name = ''lan'' then 0 else 10) # candidate_hosts (host # seen) vs)"

text \<open>The insertion sort moves a candidate only past strictly larger priorities, so it is stable.\<close>

definition orderLocalInterfaceIPv4Candidates :: "(string \<times> ip) list \<Rightarrow> string list" where
  "orderLocalInterfaceIPv4Candidates values = map fst (sort_key snd (candidate_hosts [] values))"

section \<open>The SSH client\<close>

definition remoteSSHPIDFile :: "agent_config \<Rightarrow> string \<Rightarrow> string" where
  "remoteSSHPIDFile cfg sessionID = filepath_Join (a_TunnelStateDir cfg) (sessionID @ ''.pid'')"

definition remoteSSHKnownHostsFile :: "agent_config \<Rightarrow> string \<Rightarrow> string" where
  "remoteSSHKnownHostsFile cfg sessionID = filepath_Join (a_TunnelStateDir cfg) (sessionID @ ''.known_hosts'')"

definition forward_args :: "remoteSSHArgs \<Rightarrow> string list" where
  "forward_args a =
     (if ra_RemotePort a > 0
      then [''-R'', ''0.0.0.0:'' @ Itoa (ra_RemotePort a) @ '':'' @ ra_LocalHost a @ '':'' @ Itoa (ra_LocalPort a)] else []) @
     (if ra_LuCIPort a > 0
      then [''-R'', ''0.0.0.0:'' @ Itoa (ra_LuCIPort a) @ '':127.0.0.1:'' @ Itoa (ra_LuCILocalPort a)] else []) @
     [''-p'', Itoa (ra_ServerPort a), ra_ServerUser a @ ''@'' @ ra_ServerHost a]"

text \<open>An error, or the program and its arguments.\<close>

definition remoteSSHCommand :: "host \<Rightarrow> agent_config \<Rightarrow> remoteSSHArgs \<Rightarrow> (string + string \<times> string list) act" where
  "remoteSSHCommand H cfg a = do {
     have_ssh \<leftarrow> ask (\<lambda>m. h_look H m ''ssh'');
     have_dbclient \<leftarrow> ask (\<lambda>m. h_look H m ''dbclient'');
     identity_file \<leftarrow> fileExists H (a_TunnelIdentity cfg);
     let identity_args = (if identity_file then [''-i'', a_TunnelIdentity cfg] else []);
     let base = [''-N'', ''-o'', ''ExitOnForwardFailure=yes'', ''-o'', ''ServerAliveInterval=15'', ''-o'', ''ServerAliveCountMax=2'',
                 ''-o'', ''IdentitiesOnly=yes''];
     if have_ssh then
       (if ra_CredentialMode a = ''device'' then
          (if \<not> identity_file then State_Monad.return (Inl ''per-device tunnel identity is unavailable'')
           else do {
             let knownHosts = remoteSSHKnownHostsFile cfg (ra_SessionID a);
             let hostPattern = (if ra_ServerPort a \<noteq> 22 then ''['' @ ra_ServerHost a @ '']:'' @ Itoa (ra_ServerPort a) else ra_ServerHost a);
             e \<leftarrow> os_WriteFile H knownHosts (hostPattern @ '' '' @ ra_ServerHostKey a @ [newline]);
             State_Monad.return (case e of
               Some e \<Rightarrow> Inl (''write pinned tunnel host key: '' @ Error e)
             | None \<Rightarrow> Inr (''ssh'', base @ [''-o'', ''StrictHostKeyChecking=yes'', ''-o'', ''UserKnownHostsFile='' @ knownHosts] @
                         identity_args @ forward_args a)) })
        else State_Monad.return (Inr (''ssh'', base @ [''-o'', ''StrictHostKeyChecking=accept-new''] @ identity_args @ forward_args a)))
     else if ra_CredentialMode a = ''device'' then State_Monad.return (Inl ''secure remote tunnel requires OpenSSH client'')
     else if have_dbclient then State_Monad.return (Inr (''dbclient'', [''-N'', ''-y''] @ identity_args @ forward_args a))
     else State_Monad.return (Inl ''remote ssh reverse requires ssh or dbclient on router'')
   }"

section \<open>Stopping\<close>

text \<open>Whether the signal could not be sent.\<close>

definition signalProcess :: "host \<Rightarrow> int \<Rightarrow> string \<Rightarrow> bool act" where
  "signalProcess H pid sig = do {
     (_, ended) \<leftarrow> run_program H \<lparr>p_name = ''kill'', p_args = [''-'' @ sig, Itoa pid], p_env = [], p_input = [], p_timeout = 0\<rparr>;
     State_Monad.return (ended \<noteq> Exited 0) }"

definition processRunning :: "host \<Rightarrow> int \<Rightarrow> bool act" where
  "processRunning H pid =
     (if pid \<le> 0 then State_Monad.return False
      else do { failed \<leftarrow> signalProcess H pid ''0''; State_Monad.return (\<not> failed) })"

definition remoteSSHStopPID :: "host \<Rightarrow> agent_config \<Rightarrow> string \<Rightarrow> int \<Rightarrow> unit act" where
  "remoteSSHStopPID H cfg sessionID pid = do {
     (if pid \<le> 0 then State_Monad.return () else do { _ \<leftarrow> signalProcess H pid ''TERM''; State_Monad.return () });
     _ \<leftarrow> os_Remove H (remoteSSHPIDFile cfg sessionID);
     _ \<leftarrow> os_Remove H (remoteSSHKnownHostsFile cfg sessionID);
     State_Monad.return () }"

definition findRemoteSSHProcessByPort :: "host \<Rightarrow> int \<Rightarrow> int act" where
  "findRemoteSSHProcessByPort H remotePort = ask (\<lambda>m.
     case find_row (\<lambda>(pid, cmdline).
         let cmdline = map (\<lambda>c. if c = CHR 0x00 then CHR '' '' else c) cmdline
         in (Contains cmdline ''ssh '' \<or> Contains cmdline ''dbclient '') \<and> Contains cmdline ('' -R '' @ Itoa remotePort @ '':''))
       (h_processes H m) of
       None \<Rightarrow> 0
     | Some (pid, _) \<Rightarrow> pid)"

definition pid_of :: "string \<Rightarrow> int" where
  "pid_of d = (case Atoi (TrimSpace d) of None \<Rightarrow> 0 | Some n \<Rightarrow> n)"

definition remoteSSHStopSession :: "host \<Rightarrow> agent_config \<Rightarrow> string \<Rightarrow> int \<Rightarrow> (string \<times> int) act" where
  "remoteSSHStopSession H cfg sessionID remotePort =
     (if \<not> safeSessionID sessionID then State_Monad.return (outln ''remote session id is invalid'', 2)
      else do {
        r \<leftarrow> os_ReadFile H (remoteSSHPIDFile cfg sessionID);
        case r of
          Inr d \<Rightarrow> do {
            remoteSSHStopPID H cfg sessionID (pid_of d);
            State_Monad.return (outln ''remote ssh session stopped'', 0) }
        | Inl _ \<Rightarrow> do {
            pid \<leftarrow> (if remotePort > 0 then findRemoteSSHProcessByPort H remotePort else State_Monad.return 0);
            if pid > 0 then do {
              _ \<leftarrow> signalProcess H pid ''TERM'';
              State_Monad.return (outln ''remote ssh session stopped by port'', 0) }
            else State_Monad.return (outln ''remote ssh session is already stopped'', 0) } })"

definition remoteSSHCloseOutput :: "host \<Rightarrow> agent_config \<Rightarrow> (string \<times> string) list \<Rightarrow> (string \<times> int) act" where
  "remoteSSHCloseOutput H cfg args =
     remoteSSHStopSession H cfg (TrimSpace (map_get args ''session_id'')) (parseOptionalPort (map_get args ''remote_port''))"

definition stop_entry :: "host \<Rightarrow> agent_config \<Rightarrow> string \<Rightarrow> unit act" where
  "stop_entry H cfg name =
     (let sessionID = TrimSuffix name ''.pid'' in
      if \<not> HasSuffix name ''.pid'' \<or> \<not> safeSessionID sessionID then State_Monad.return ()
      else do {
        r \<leftarrow> os_ReadFile H (filepath_Join (a_TunnelStateDir cfg) name);
        case r of
          Inl _ \<Rightarrow> State_Monad.return ()
        | Inr d \<Rightarrow> remoteSSHStopPID H cfg sessionID (pid_of d) })"

definition stopAllRemoteSSHSessions :: "host \<Rightarrow> agent_config \<Rightarrow> unit act" where
  "stopAllRemoteSSHSessions H cfg = do {
     r \<leftarrow> os_ReadDir H (a_TunnelStateDir cfg);
     case r of
       Inl _ \<Rightarrow> State_Monad.return ()
     | Inr names \<Rightarrow> do { _ \<leftarrow> State_Monad.traverse_list (stop_entry H cfg) names; State_Monad.return () }
   }"

section \<open>Starting\<close>

text \<open>A program started in the background; its number, or the error.\<close>

definition start_program :: "host \<Rightarrow> program \<Rightarrow> (string + int) act" where
  "start_program H p = do {
     m \<leftarrow> State_Monad.get;
     State_Monad.set (m\<lparr>m_trace := m_trace m @ [p]\<rparr>);
     State_Monad.return (h_start H m p) }"

definition tunnel_text :: "remoteSSHArgs \<Rightarrow> int \<Rightarrow> string \<Rightarrow> string" where
  "tunnel_text a pid logFile =
     outln ''remote ssh reverse started'' @
     outln (''session='' @ ra_SessionID a @ '' pid='' @ Itoa pid) @
     outln (''operator endpoint: '' @ ra_ServerHost a @ '':'' @ Itoa (ra_RemotePort a) @ '' -> '' @ ra_LocalHost a @ '':'' @ Itoa (ra_LocalPort a)) @
     outln (''LuCI proxy endpoint: '' @ ra_ServerHost a @ '':'' @ Itoa (ra_LuCIPort a) @ '' -> 127.0.0.1:'' @ Itoa (ra_LuCILocalPort a)) @
     outln (''log='' @ logFile)"

text \<open>From the start of the client on: its number is written down and its timer is set.\<close>

definition start_tunnel :: "host \<Rightarrow> agent_config \<Rightarrow> remoteSSHArgs \<Rightarrow> string \<Rightarrow> string \<Rightarrow> string list \<Rightarrow> (string \<times> int) act" where
  "start_tunnel H cfg a logFile sshPath sshArgs = do {
     started \<leftarrow> start_program H \<lparr>p_name = sshPath, p_args = sshArgs, p_env = [], p_input = [], p_timeout = 0\<rparr>;
     case started of
       Inl e \<Rightarrow> State_Monad.return (outln e, 1)
     | Inr pid \<Rightarrow> do {
         let pidFile = remoteSSHPIDFile cfg (ra_SessionID a);
         _ \<leftarrow> os_WriteFile H pidFile (Itoa pid @ [newline]);
         change (\<lambda>m. m\<lparr>m_timers := m_timers m @ [(m_clock m + ra_DurationSeconds a * second, ra_SessionID a, pid)]\<rparr>);
         sleep (2 * second);
         running \<leftarrow> processRunning H pid;
         if \<not> running then do {
           _ \<leftarrow> os_Remove H pidFile;
           logData \<leftarrow> readFileString H logFile;
           State_Monad.return (outln ''remote ssh reverse failed to stay running'' @ logData, 1) }
         else State_Monad.return (tunnel_text a pid logFile, 0) }
   }"

text \<open>The log file is opened for appending; what the client writes to it is not followed.\<close>

definition open_log :: "host \<Rightarrow> string \<Rightarrow> (os_error option) act" where
  "open_log H p = do {
     m \<leftarrow> State_Monad.get;
     case h_fault H m OpCreate p of
       Some e \<Rightarrow> State_Monad.return (Some (ErrOther e))
     | None \<Rightarrow> do {
         (if file_at m p = None then change (store_data p []) else State_Monad.return ());
         State_Monad.return None } }"

definition remoteSSHReverseOutput ::
  "host \<Rightarrow> (string \<Rightarrow> (string \<times> string) option) \<Rightarrow> agent_config \<Rightarrow> (string \<times> string) list \<Rightarrow> (string \<times> int) act" where
  "remoteSSHReverseOutput H ParseAuthorizedKey cfg args =
     (case parseRemoteSSHArgs ParseAuthorizedKey args of
        Inl validationOutput \<Rightarrow> State_Monad.return (validationOutput, 2)
      | Inr a \<Rightarrow> do {
          m \<leftarrow> State_Monad.get;
          case selectRemoteSSHLocalHost (h_loopback H) (ra_LocalHost a) (ra_LocalPort a)
                 (orderLocalInterfaceIPv4Candidates (h_interfaces H m)) (\<lambda>h. h_reachable H m h (ra_LocalPort a)) of
            Inl e \<Rightarrow> State_Monad.return (outln e, 1)
          | Inr localHost \<Rightarrow> do {
              let a = a\<lparr>ra_LocalHost := localHost\<rparr>;
              _ \<leftarrow> remoteSSHStopSession H cfg (ra_SessionID a) (ra_RemotePort a);
              e \<leftarrow> os_MkdirAll H (a_TunnelStateDir cfg);
              case e of
                Some e \<Rightarrow> State_Monad.return (outln (Error e), 1)
              | None \<Rightarrow> do {
                  let logFile = filepath_Join ''/tmp'' (''rmm-remote-'' @ ra_SessionID a @ ''.log'');
                  _ \<leftarrow> os_Remove H logFile;
                  c \<leftarrow> remoteSSHCommand H cfg a;
                  case c of
                    Inl e \<Rightarrow> State_Monad.return (outln e, 2)
                  | Inr (sshPath, sshArgs) \<Rightarrow> do {
                      e \<leftarrow> open_log H logFile;
                      case e of
                        Some e \<Rightarrow> State_Monad.return (outln (Error e), 1)
                      | None \<Rightarrow> start_tunnel H cfg a logFile sshPath sshArgs } } } })"

text \<open>A timer that is due stops the process it was set for, whatever session it belongs to by then.\<close>

fun fire_timers :: "host \<Rightarrow> agent_config \<Rightarrow> (time \<times> string \<times> int) list \<Rightarrow> unit act" where
  "fire_timers H cfg [] = State_Monad.return ()"
| "fire_timers H cfg ((due, sessionID, pid) # ts) = do { remoteSSHStopPID H cfg sessionID pid; fire_timers H cfg ts }"

definition expire_tunnels :: "host \<Rightarrow> agent_config \<Rightarrow> unit act" where
  "expire_tunnels H cfg = do {
     m \<leftarrow> State_Monad.get;
     let due = filter (\<lambda>(t, _). t \<le> m_clock m) (m_timers m);
     State_Monad.set (m\<lparr>m_timers := filter (\<lambda>(t, _). \<not> t \<le> m_clock m) (m_timers m)\<rparr>);
     fire_timers H cfg due }"


section \<open>Well-formed tunnels\<close>

definition port_ok :: "int \<Rightarrow> bool" where
  "port_ok p \<longleftrightarrow> 1 \<le> p \<and> p \<le> 65535"

definition tunnel_ok :: "(string \<Rightarrow> (string \<times> string) option) \<Rightarrow> remoteSSHArgs \<Rightarrow> bool" where
  "tunnel_ok P a \<longleftrightarrow>
     port_ok (ra_ServerPort a) \<and> port_ok (ra_LocalPort a) \<and> port_ok (ra_LuCILocalPort a) \<and> port_ok (ra_DurationSeconds a) \<and>
     (ra_RemotePort a = 0 \<or> port_ok (ra_RemotePort a)) \<and> (ra_LuCIPort a = 0 \<or> port_ok (ra_LuCIPort a)) \<and>
     (port_ok (ra_RemotePort a) \<or> port_ok (ra_LuCIPort a)) \<and>
     safeSessionID (ra_SessionID a) \<and> safeHostName (ra_ServerHost a) \<and> safeHostName (ra_LocalHost a) \<and> safeUserName (ra_ServerUser a) \<and>
     ra_CredentialMode a \<in> {''legacy'', ''device''} \<and>
     (ra_CredentialMode a = ''device'' \<longrightarrow> validSSHHostPublicKey P (ra_ServerHostKey a))"

lemma parsePort_range: "parsePort v d = (p, ok) \<Longrightarrow> (if ok then port_ok p else p = 0)"
  by (auto simp: parsePort_def port_ok_def Let_def split: option.splits if_splits)

lemma parseRemoteSSHArgs_Inr:
  assumes "parseRemoteSSHArgs P args = Inr a"
  shows "tunnel_ok P a"
proof -
  obtain p1 o1 p2 o2 p3 o3 p4 o4 p5 o5 p6 o6 where parts:
    "parsePort (map_get args ''server_port'') 22 = (p1, o1)" "parsePort (map_get args ''remote_port'') 0 = (p2, o2)"
    "parsePort (map_get args ''luci_port'') 0 = (p3, o3)" "parsePort (map_get args ''luci_local_port'') 80 = (p4, o4)"
    "parsePort (map_get args ''local_port'') 22 = (p5, o5)" "parseDurationSeconds (map_get args ''duration_seconds'') 900 = (p6, o6)"
    by (metis prod.exhaust)
  have ranges: "if o1 then port_ok p1 else p1 = 0" "if o2 then port_ok p2 else p2 = 0" "if o3 then port_ok p3 else p3 = 0"
    "if o4 then port_ok p4 else p4 = 0" "if o5 then port_ok p5 else p5 = 0" "if o6 then port_ok p6 else p6 = 0"
    using parts [unfolded parseDurationSeconds_def] by (auto dest!: parsePort_range)
  show ?thesis
    using assms ranges
    by (auto simp: parseRemoteSSHArgs_def parts tunnel_ok_def Let_def split: if_splits)
qed


text \<open>
  Stopping a session by its port looks for \<open>-R\<close> followed by the port, but the clients the agent
  starts are given the bind address first, so none of them is found.
\<close>

definition sample_tunnel_args :: remoteSSHArgs where
  "sample_tunnel_args = \<lparr>ra_SessionID = ''s1'', ra_ServerHost = ''rmm.test'', ra_ServerPort = 22, ra_RemotePort = 22001, ra_LuCIPort = 22101,
     ra_LuCILocalPort = 80, ra_LocalHost = ''127.0.0.1'', ra_LocalPort = 22, ra_ServerUser = ''rmm-tunnel'', ra_ServerHostKey = [],
     ra_CredentialMode = ''legacy'', ra_DurationSeconds = 900\<rparr>"

lemma own_tunnel_not_found_by_port:
  "fst (run_state (findRemoteSSHProcessByPort
     (quiet_host\<lparr>h_processes := (\<lambda>_. [(77, join_with [CHR 0x00] (''ssh'' # ''-N'' # forward_args sample_tunnel_args))])\<rparr>) 22001) blank_machine) = 0"
  by code_simp

text \<open>
  A timer outlives its session: after a close it still sends its signal, to whatever process has
  that number by then.
\<close>

lemma closed_session_still_signalled:
  "let cfg = sample_config; m = (sample_machine [(''/tmp/tunnels/s1.pid'', ''42'')])\<lparr>m_timers := [(1001 * second, ''s1'', 42)]\<rparr>;
       m1 = snd (run_state (remoteSSHCloseOutput quiet_host cfg [(''session_id'', ''s1'')]) m);
       m2 = snd (run_state (expire_tunnels quiet_host cfg) m1)
   in file_at m1 ''/tmp/tunnels/s1.pid'' = None \<and> m_timers m1 = m_timers m \<and>
      map p_args (m_trace m1) = [[''-TERM'', ''42'']] \<and> map p_args (m_trace m2) = [[''-TERM'', ''42''], [''-TERM'', ''42'']]"
  by code_simp

end
