(* ===== verification/AgentUpdate.thy ===== *)
theory AgentUpdate
  imports AgentTools
begin

text \<open>
  Updating the agent's own package (\<open>agent/go/cmd/rmm-agent/main.go\<close>) with the release matching of
  \<open>internal/openwrtcompat\<close>: the arguments, the signed manifest, the installation and the check
  of what was installed. \<open>encoding/pem\<close>, \<open>crypto/x509\<close> and \<open>crypto/ecdsa\<close> are parameters.
\<close>

section \<open>Releases and versions\<close>

definition is2512 :: "string \<Rightarrow> bool" where
  "is2512 release \<longleftrightarrow> release = ''25.12'' \<or>
     (case CutPrefix release ''25.12.'' of None \<Rightarrow> False | Some patch \<Rightarrow> patch \<noteq> [] \<and> list_all digit_char patch)"

definition ReleaseMatches :: "string \<Rightarrow> string \<Rightarrow> string \<Rightarrow> bool" where
  "ReleaseMatches feed device format \<longleftrightarrow> (feed = device \<and> feed \<noteq> []) \<or> (format = ''apk'' \<and> is2512 feed \<and> is2512 device)"

definition suffix_char :: "char \<Rightarrow> bool" where
  "suffix_char c \<longleftrightarrow> word_char c \<or> c = CHR ''.'' \<or> c = CHR ''-''"

text \<open>
  The regular expression of a version: three numbers, then \<open>-\<close> and a nonempty suffix and \<open>+\<close>
  and a nonempty suffix, both optional. A suffix has no \<open>+\<close>.
\<close>

definition version_numbers :: "string \<Rightarrow> bool" where
  "version_numbers s \<longleftrightarrow> (let ps = Split (CHR ''.'') s in length ps = 3 \<and> list_all (\<lambda>p. p \<noteq> [] \<and> list_all digit_char p) ps)"

definition stableVersion :: "string \<Rightarrow> bool" where
  "stableVersion s =
     (let (main, build) = Cut (CHR ''+'') s; (numbers, pre) = Cut (CHR ''-'') main in
      version_numbers numbers \<and>
      (case pre of None \<Rightarrow> True | Some t \<Rightarrow> t \<noteq> [] \<and> list_all suffix_char t) \<and>
      (case build of None \<Rightarrow> True | Some t \<Rightarrow> t \<noteq> [] \<and> list_all suffix_char t))"

definition safeAgentFeedURL :: "string \<Rightarrow> bool" where
  "safeAgentFeedURL raw =
     (case url_Parse (TrimSpace raw) of
        None \<Rightarrow> False
      | Some u \<Rightarrow> u_Scheme u = ''https'' \<and> u_Host u \<noteq> [] \<and> u_RawQuery u = [] \<and> u_Fragment u = [] \<and> \<not> Contains (u_Path u) ''..'')"

section \<open>The manifest\<close>

record manifest_crypto =
  mc_Decode :: "string \<Rightarrow> string option"
  mc_ParsePKIX :: "string \<Rightarrow> (bool \<times> string) option"
  mc_VerifyASN1 :: "string \<Rightarrow> string \<Rightarrow> string \<Rightarrow> bool"

record manifest_package =
  mp_OpenWrtRelease :: string
  mp_Target :: string
  mp_Format :: string
  mp_FeedURL :: string
  mp_PackageVersion :: string

record agentUpdateManifest =
  mf_Schema :: int
  mf_Channel :: string
  mf_AgentVersion :: string
  mf_Packages :: "manifest_package list"

definition to_int :: "int \<Rightarrow> json \<Rightarrow> int option" where
  "to_int old v = (case v of JNum s \<Rightarrow> Atoi s | JNull \<Rightarrow> Some old | _ \<Rightarrow> None)"

definition decode_package :: "json \<Rightarrow> manifest_package option" where
  "decode_package j =
     Option.bind (string_field ''openwrt_release'' j) (\<lambda>r.
     Option.bind (string_field ''target'' j) (\<lambda>t.
     Option.bind (string_field ''format'' j) (\<lambda>f.
     Option.bind (string_field ''feed_url'' j) (\<lambda>u.
     Option.bind (string_field ''package_version'' j) (\<lambda>v.
       Some \<lparr>mp_OpenWrtRelease = r, mp_Target = t, mp_Format = f, mp_FeedURL = u, mp_PackageVersion = v\<rparr>)))))"

text \<open>The array of packages; a second \<open>packages\<close> member replaces the first.\<close>

definition to_packages :: "manifest_package list \<Rightarrow> json \<Rightarrow> manifest_package list option" where
  "to_packages old v = (case v of JArr vs \<Rightarrow> all_some (map decode_package vs) | JNull \<Rightarrow> Some [] | _ \<Rightarrow> None)"

definition decode_manifest :: "json \<Rightarrow> agentUpdateManifest option" where
  "decode_manifest j =
     Option.bind (decode_field to_int ''schema'' 0 j) (\<lambda>s.
     Option.bind (string_field ''channel'' j) (\<lambda>c.
     Option.bind (decode_field (decode_field to_string ''version'') ''agent'' [] j) (\<lambda>a.
     Option.bind (decode_field to_packages ''packages'' [] j) (\<lambda>ps.
       Some \<lparr>mf_Schema = s, mf_Channel = c, mf_AgentVersion = a, mf_Packages = ps\<rparr>))))"

definition want_format :: "string \<Rightarrow> string" where
  "want_format manager = map_get [(''opkg'', ''ipk''), (''apk'', ''apk'')] manager"

definition package_matches :: "(string \<times> string) list \<Rightarrow> string \<Rightarrow> string \<Rightarrow> manifest_package \<Rightarrow> bool" where
  "package_matches args release targ pkg \<longleftrightarrow>
     (let f = want_format (map_get args ''package_manager'') in
      ReleaseMatches (mp_OpenWrtRelease pkg) release f \<and> mp_Target pkg = targ \<and> mp_Format pkg = f \<and>
      mp_FeedURL pkg = map_get args ''feed_url'' \<and> mp_PackageVersion pkg = map_get args ''package_version'')"

definition validateAgentUpdateManifest ::
  "manifest_crypto \<Rightarrow> env \<Rightarrow> string \<Rightarrow> string \<Rightarrow> string \<Rightarrow> (string \<times> string) list \<Rightarrow> string \<Rightarrow> string \<Rightarrow> string + unit" where
  "validateAgentUpdateManifest C E manifestData signature publicKeyData args release targ =
     (case mc_Decode C publicKeyData of
        None \<Rightarrow> Inl ''trusted public key is invalid''
      | Some block \<Rightarrow>
          (case mc_ParsePKIX C block of
             None \<Rightarrow> Inl ''trusted public key is invalid''
           | Some (ecdsa, publicKey) \<Rightarrow>
               if \<not> ecdsa then Inl ''trusted public key is not ECDSA''
               else if \<not> mc_VerifyASN1 C publicKey (sha256_Sum E manifestData) signature then Inl ''signature is invalid''
               else case Option.bind (json_unmarshal manifestData) decode_manifest of
                 None \<Rightarrow> Inl ''manifest identity does not match the requested version''
               | Some manifest \<Rightarrow>
                   if mf_Schema manifest \<noteq> 1 \<or> mf_AgentVersion manifest \<noteq> map_get args ''target_version''
                   then Inl ''manifest identity does not match the requested version''
                   else if list_ex (package_matches args release targ) (mf_Packages manifest) then Inr ()
                   else Inl ''signed manifest does not contain this exact package feed''))"

definition maxUpdateManifestSize :: nat where "maxUpdateManifestSize = 2 ^ 20"

definition fetchUpdateMetadata :: "host \<Rightarrow> string \<Rightarrow> (string + string) act" where
  "fetchUpdateMetadata H endpoint = do {
     r \<leftarrow> http_do H \<lparr>rq_method = ''GET'', rq_url = endpoint, rq_headers = [], rq_body = []\<rparr>;
     State_Monad.return (case r of
       NetError e \<Rightarrow> Inl e
     | Reply status body whole \<Rightarrow>
         if status \<noteq> 200 then Inl (''unexpected HTTP status '' @ Itoa status)
         else if \<not> whole \<and> length body \<le> maxUpdateManifestSize then Inl ''unexpected EOF''
         else let d = take (maxUpdateManifestSize + 1) body
              in if d = [] \<or> length d > maxUpdateManifestSize then Inl ''response is empty or too large'' else Inr d)
   }"

definition verifyAgentUpdateManifest ::
  "host \<Rightarrow> manifest_crypto \<Rightarrow> env \<Rightarrow> string \<Rightarrow> (string \<times> string) list \<Rightarrow> (string + unit) act" where
  "verifyAgentUpdateManifest H C E publicKeyPath args = do {
     k \<leftarrow> os_ReadFile H publicKeyPath;
     case k of
       Inl _ \<Rightarrow> State_Monad.return (Inl ''trusted public key is unavailable'')
     | Inr publicKeyData \<Rightarrow> do {
         r \<leftarrow> fetchUpdateMetadata H (map_get args ''manifest_url'');
         case r of
           Inl e \<Rightarrow> State_Monad.return (Inl (''download manifest: '' @ e))
         | Inr manifestData \<Rightarrow> do {
             r \<leftarrow> fetchUpdateMetadata H (map_get args ''signature_url'');
             case r of
               Inl e \<Rightarrow> State_Monad.return (Inl (''download signature: '' @ e))
             | Inr signature \<Rightarrow> do {
                 release \<leftarrow> openwrtRelease H;
                 targ \<leftarrow> openwrtTarget H;
                 State_Monad.return (validateAgentUpdateManifest C E manifestData signature publicKeyData args release targ) } } }
   }"

section \<open>Installing\<close>

definition validAgentPackageOperationArgs :: "(string \<times> string) list \<Rightarrow> bool" where
  "validAgentPackageOperationArgs args =
     list_all (\<lambda>(k, _). k \<in> set [''package'', ''target_version'', ''package_version'', ''feed_url'', ''package_manager'', ''manifest_url'',
       ''signature_url'', ''rollout_id'', ''channel'']) args"

definition update_args_ok :: "(string \<times> string) list \<Rightarrow> bool" where
  "update_args_ok args \<longleftrightarrow>
     validAgentPackageOperationArgs args \<and> map_get args ''package'' = ''rmm-agent-go-production'' \<and>
     stableVersion (map_get args ''target_version'') \<and> stableVersion (map_get args ''package_version'') \<and>
     safeAgentFeedURL (map_get args ''feed_url'') \<and> safeAgentFeedURL (map_get args ''manifest_url'') \<and>
     safeAgentFeedURL (map_get args ''signature_url'') \<and>
     (map_get args ''package_manager'' = ''opkg'' \<or> map_get args ''package_manager'' = ''apk'')"

definition rootAvailableKB :: "host \<Rightarrow> (int \<times> bool) act" where
  "rootAvailableKB H = do {
     output \<leftarrow> commandOutput H ''df'' [''-k'', ''/''];
     let lines = Split newline (TrimSpace output);
     let fields = Fields (last lines);
     State_Monad.return (if length lines < 2 \<or> length fields < 4 then (0, False)
       else case Atoi (fields ! 3) of None \<Rightarrow> (0, False) | Some n \<Rightarrow> (n, True))
   }"

definition managed_feed_path :: string where
  "managed_feed_path = ''/etc/opkg/rmm-agent-managed.conf''"

definition configureManagedOpkgFeed :: "host \<Rightarrow> string \<Rightarrow> (os_error option) act" where
  "configureManagedOpkgFeed H feedURL = do {
     e \<leftarrow> os_MkdirAll H (filepath_Dir managed_feed_path);
     case e of
       Some e \<Rightarrow> State_Monad.return (Some e)
     | None \<Rightarrow> do {
         e \<leftarrow> os_WriteFile H (managed_feed_path @ ''.tmp'') (''src/gz rmm-agent-managed '' @ feedURL @ [newline]);
         case e of
           Some e \<Rightarrow> State_Monad.return (Some e)
         | None \<Rightarrow> os_Rename H (managed_feed_path @ ''.tmp'') managed_feed_path }
   }"

definition first_line_with :: "(string \<Rightarrow> string option) \<Rightarrow> string list \<Rightarrow> string option" where
  "first_line_with f lines = (case List.find (\<lambda>l. f l \<noteq> None) lines of None \<Rightarrow> None | Some l \<Rightarrow> f l)"

definition parseInstalledPackageVersion :: "string \<Rightarrow> string \<Rightarrow> string \<Rightarrow> string \<times> bool" where
  "parseInstalledPackageVersion manager packageName output =
     (if manager = ''opkg'' then
        (case first_line_with (\<lambda>l. CutPrefix l ''Version:'') (Split newline output) of
           None \<Rightarrow> ([], False)
         | Some v \<Rightarrow> let v = TrimSpace v in (v, v \<noteq> []))
      else case first_line_with (\<lambda>l. CutPrefix (TrimSpace l) (packageName @ ''-'')) (Split newline output) of
           None \<Rightarrow> ([], False)
         | Some v \<Rightarrow> (v, True))"

definition installedAgentPackageVersion :: "host \<Rightarrow> string \<Rightarrow> string \<Rightarrow> (string \<times> bool) act" where
  "installedAgentPackageVersion H manager packageName = do {
     (output, code) \<leftarrow>
       (if manager = ''opkg'' then execCommand H (15 * second) ''opkg'' [''status'', packageName]
        else execCommand H (15 * second) ''apk'' [''info'', ''-v'', packageName]);
     State_Monad.return (if code \<noteq> 0 then ([], False) else parseInstalledPackageVersion manager packageName output)
   }"

definition with_details :: "(string \<times> json) list \<Rightarrow> (string \<times> json) list \<Rightarrow> (string \<times> json) list" where
  "with_details kvs base = fold (\<lambda>(k, v). put_member k v) kvs base"

definition finalizeAgentPackageOperation ::
  "host \<Rightarrow> (string \<times> string) list \<Rightarrow> string \<Rightarrow> int \<Rightarrow> (string \<times> json) list \<Rightarrow> (string \<times> int \<times> json) act" where
  "finalizeAgentPackageOperation H args output exitCode result =
     (if exitCode \<noteq> 0 then State_Monad.return (output, exitCode,
        JObj (with_details [(''reason'', JStr ''package manager failed''), (''health_status'', JStr ''install_failed'')] result))
      else do {
        (installed, ok) \<leftarrow> installedAgentPackageVersion H (map_get args ''package_manager'') (map_get args ''package'');
        if \<not> ok \<or> installed \<noteq> map_get args ''package_version''
        then State_Monad.return (output @ outln ''installed agent package version does not match the signed manifest'', 1,
          JObj (with_details [(''reason'', JStr ''installed package version mismatch''), (''health_status'', JStr ''package_health_failed'')] result))
        else do {
          runs \<leftarrow> ask (\<lambda>m. h_fault H m OpStat ''/usr/bin/rmm-agent'' = None \<and> file_at m ''/usr/bin/rmm-agent'' \<noteq> None \<and>
                     h_executable H m ''/usr/bin/rmm-agent'');
          State_Monad.return (if \<not> runs
            then (output @ outln ''installed agent binary is unavailable or not executable'', 1,
              JObj (with_details [(''reason'', JStr ''installed agent binary is unavailable''), (''health_status'', JStr ''package_health_failed'')] result))
            else (output, 0, JObj (with_details [(''installed_package_version'', JStr installed), (''package_health'', JStr ''verified'')] result))) } })"

definition package_argument :: "(string \<times> string) list \<Rightarrow> string" where
  "package_argument args = map_get args ''package'' @ ''='' @ map_get args ''package_version''"

text \<open>The installation proper, once the manifest is verified and there is room.\<close>

definition install_package ::
  "host \<Rightarrow> string \<Rightarrow> (string \<times> string) list \<Rightarrow> (string \<times> json) list \<Rightarrow> (string \<times> int \<times> json) act" where
  "install_package H operation args result =
     (if map_get args ''package_manager'' = ''apk'' then do {
        (output, code) \<leftarrow> execCommandWithEnv H (2 * minute) [''RMM_AGENT_SELF_UPDATE=1''] ''apk''
          [''add'', if operation = ''agent_rollback'' then ''--allow-downgrade'' else ''--upgrade'', ''--repository'', map_get args ''feed_url'',
           package_argument args];
        finalizeAgentPackageOperation H args output code result }
      else do {
        e \<leftarrow> configureManagedOpkgFeed H (map_get args ''feed_url'');
        case e of
          Some e \<Rightarrow> State_Monad.return (outln (Error e), 1, JObj (with_details [(''reason'', JStr ''configure managed feed'')] result))
        | None \<Rightarrow> do {
            (updateOutput, updateCode) \<leftarrow> execCommand H (90 * second) ''opkg'' [''update''];
            if updateCode \<noteq> 0 then State_Monad.return (updateOutput, updateCode, JObj result)
            else do {
              (installOutput, installCode) \<leftarrow> execCommandWithEnv H (2 * minute) [''RMM_AGENT_SELF_UPDATE=1''] ''opkg'' [''install'', package_argument args];
              finalizeAgentPackageOperation H args (updateOutput @ installOutput) installCode result } } })"

definition agentPackageOperation ::
  "host \<Rightarrow> manifest_crypto \<Rightarrow> env \<Rightarrow> agent_config \<Rightarrow> string \<Rightarrow> RawMessage \<Rightarrow> (string \<times> int \<times> json) act" where
  "agentPackageOperation H C E cfg operation raw =
     (let result = with_details [(''operation'', JStr operation)] commandMetadata;
          invalid = State_Monad.return (outln ''agent package operation arguments are invalid'', 2,
            JObj (with_details [(''reason'', JStr ''invalid package operation arguments'')] result))
      in case Option.bind (json_unmarshal raw) to_string_map of
        None \<Rightarrow> invalid
      | Some args \<Rightarrow>
          if (operation \<noteq> ''agent_update'' \<and> operation \<noteq> ''agent_rollback'') \<or> \<not> update_args_ok args then invalid
          else do {
            pm \<leftarrow> packageManager H;
            if pm \<noteq> map_get args ''package_manager''
            then State_Monad.return (outln ''agent package operation package manager does not match this router'', 2,
              JObj (with_details [(''reason'', JStr ''package manager does not match inventory'')] result))
            else do {
              v \<leftarrow> verifyAgentUpdateManifest H C E (a_UpdatePublicKey cfg) args;
              case v of
                Inl e \<Rightarrow> State_Monad.return (outln (''agent update manifest verification failed: '' @ e), 1,
                  JObj (with_details [(''reason'', JStr ''manifest verification failed'')] result))
              | Inr _ \<Rightarrow> do {
                  (availableKB, ok) \<leftarrow> rootAvailableKB H;
                  let result = with_details [(''manifest_verified'', JBool True), (''available_kb'', JNum (Itoa availableKB))] result;
                  if \<not> ok \<or> availableKB < 8192
                  then State_Monad.return (outln ''agent package operation requires at least 8192 KiB free on /'', 1,
                    JObj (with_details [(''reason'', JStr ''insufficient disk space'')] result))
                  else install_package H operation args (with_details
                    [(''feed_url'', JStr (map_get args ''feed_url'')), (''package'', JStr (map_get args ''package'')),
                     (''previous_version'', JStr agentVersion), (''target_version'', JStr (map_get args ''target_version'')),
                     (''package_version'', JStr (map_get args ''package_version'')), (''health_status'', JStr ''waiting_reconnect''),
                     (''requires_reconnect'', JBool True)] result) } } })"


section \<open>Only what the manifest signs is installed\<close>

definition is_install :: "program \<Rightarrow> bool" where
  "is_install p \<longleftrightarrow> (p_name p = ''apk'' \<and> take 1 (p_args p) = [''add'']) \<or> (p_name p = ''opkg'' \<and> take 1 (p_args p) = [''install''])"

definition other_install :: "string \<Rightarrow> program \<Rightarrow> bool" where
  "other_install arg p \<longleftrightarrow> is_install p \<and> last (p_args p) \<noteq> arg"

lemma keeps_none_fetch [keeps_intros]: "keeps (none_started B tr) (fetchUpdateMetadata H url)"
  unfolding fetchUpdateMetadata_def by (intro keeps_intros)

lemma keeps_packageManager [keeps_intros]: "keeps P (packageManager H)"
  unfolding packageManager_def by (intro keeps_intros)

lemma keeps_openwrtRelease [keeps_intros]: "keeps P (openwrtRelease H)"
  unfolding openwrtRelease_def by (intro keeps_intros)

lemma keeps_none_feed [keeps_intros]: "keeps (none_started B tr) (configureManagedOpkgFeed H url)"
  unfolding configureManagedOpkgFeed_def by (intro keeps_intros)

lemma keeps_none_disk:
  assumes "\<And>p. p_name p = ''df'' \<Longrightarrow> \<not> B p"
  shows "keeps (none_started B tr) (rootAvailableKB H)"
  unfolding rootAvailableKB_def by (intro keeps_intros keeps_none_exec) (simp add: assms)

lemma keeps_none_verify:
  assumes "\<And>p. p_name p = ''ubus'' \<Longrightarrow> \<not> B p"
  shows "keeps (none_started B tr) (verifyAgentUpdateManifest H C E path args)"
  unfolding verifyAgentUpdateManifest_def by (intro keeps_intros assms)

lemma install_kinds:
  "p_name p = ''ubus'' \<Longrightarrow> \<not> is_install p" "p_name p = ''df'' \<Longrightarrow> \<not> is_install p"
  "p_name p = ''ubus'' \<Longrightarrow> \<not> other_install arg p" "p_name p = ''df'' \<Longrightarrow> \<not> other_install arg p"
  by (auto simp: is_install_def other_install_def)

lemma keeps_none_finalize: "keeps (none_started (other_install arg) tr) (finalizeAgentPackageOperation H args output code result)"
  unfolding finalizeAgentPackageOperation_def installedAgentPackageVersion_def
  by (intro keeps_intros keeps_none_exec) (simp_all add: other_install_def is_install_def)

lemma keeps_none_install: "keeps (none_started (other_install (package_argument args)) tr) (install_package H operation args result)"
  unfolding install_package_def
  by (intro keeps_intros keeps_none_exec keeps_none_finalize) (simp_all add: other_install_def is_install_def)

lemma verify_Inr:
  assumes "run_state (verifyAgentUpdateManifest H C E path args) m = (Inr u, m')"
  obtains pem manifestData signature release targ where "data_at m path = Some pem"
    "validateAgentUpdateManifest C E manifestData signature pem args release targ = Inr ()"
  using assms
  by (auto simp: verifyAgentUpdateManifest_def run_ReadFile data_at_def split: sum.splits prod.splits option.splits)

lemma agentPackageOperation_cases:
  assumes run: "run_state (agentPackageOperation H C E cfg operation raw) m = (x, m')"
  obtains (nothing) "none_started is_install (m_trace m) m'"
  | (signed) args u m1 where "Option.bind (json_unmarshal raw) to_string_map = Some args" "update_args_ok args"
      "run_state (verifyAgentUpdateManifest H C E (a_UpdatePublicKey cfg) args) m = (Inr u, m1)"
      "none_started (other_install (package_argument args)) (m_trace m) m'"
proof (cases "Option.bind (json_unmarshal raw) to_string_map")
  case None
  then have "m' = m" using run by (simp add: agentPackageOperation_def Let_def)
  then have "none_started is_install (m_trace m) m'" by (simp add: none_started_def)
  then show ?thesis by (rule nothing)
next
  case (Some args)
  obtain v m1 where v: "run_state (verifyAgentUpdateManifest H C E (a_UpdatePublicKey cfg) args) m = (v, m1)" by fastforce
  have start: "none_started B (m_trace m) m" for B by (simp add: none_started_def)
  show ?thesis
  proof (cases "update_args_ok args \<and> isr v")
    case True
    have "keeps (none_started (other_install (package_argument args)) (m_trace m)) (agentPackageOperation H C E cfg operation raw)"
      unfolding agentPackageOperation_def Let_def Some
      by (simp only: option.case, intro keeps_intros keeps_none_verify keeps_none_disk keeps_none_install install_kinds)
    then have "none_started (other_install (package_argument args)) (m_trace m) m'"
      using start run by (rule keepsD_run)
    then show ?thesis using signed [OF Some] v True by (auto simp: isr_iff)
  next
    case False
    have m1: "none_started is_install (m_trace m) m1"
      using keeps_none_verify [OF install_kinds(1)] start v by (rule keepsD_run)
    have "m' = m \<or> m' = m1"
      using run Some False v
      by (cases v) (auto simp: agentPackageOperation_def Let_def packageManager_def isr_def split: if_splits)
    then have "none_started is_install (m_trace m) m'" using m1 start by auto
    then show ?thesis by (rule nothing)
  qed
qed


end
