(* ===== verification/AgentRun.thy ===== *)
theory AgentRun
  imports AgentTunnel AgentUpdate
begin

text \<open>
  The agent's command loop (\<open>agent/go/cmd/rmm-agent/main.go\<close>): choosing what a command runs,
  running it at most once, keeping and delivering its result, and the heartbeat that fetches
  commands.
\<close>

section \<open>Choosing what to run\<close>

text \<open>The libraries that are parameters.\<close>

record agent_libs =
  al_ParseAuthorizedKey :: "string \<Rightarrow> (string \<times> string) option"
  al_manifest :: manifest_crypto

definition scheduleReboot :: "host \<Rightarrow> (string \<times> int) act" where
  "scheduleReboot H = do {
     r \<leftarrow> start_program H \<lparr>p_name = ''sh'', p_args = [''-c'', ''sleep 2; reboot''], p_env = [], p_input = [], p_timeout = 0\<rparr>;
     State_Monad.return (case r of Inl e \<Rightarrow> (outln e, 1) | Inr _ \<Rightarrow> (outln ''reboot scheduled'', 0)) }"

definition uci_with_config :: "(string \<times> string) list \<Rightarrow> (string \<Rightarrow> (string \<times> int) act) \<Rightarrow> (string \<times> int) act" where
  "uci_with_config args f =
     (case uciConfigArg args of (config, ok) \<Rightarrow>
        if \<not> ok then State_Monad.return (outln ''uci config is not allowlisted'', 2) else f config)"

definition uci_with_target :: "(string \<times> string) list \<Rightarrow> (uciTarget \<Rightarrow> (string \<times> int) act) \<Rightarrow> (string \<times> int) act" where
  "uci_with_target args f = (case uciTargetArgs args of Inl output \<Rightarrow> State_Monad.return (output, 2) | Inr t \<Rightarrow> f t)"

definition with_package :: "(string \<times> string) list \<Rightarrow> (string \<Rightarrow> (string \<times> int) act) \<Rightarrow> (string \<times> int) act" where
  "with_package args f =
     (let packageName = TrimSpace (map_get args ''package'')
      in if \<not> safePackageName packageName then State_Monad.return (outln ''package name is invalid'', 2) else f packageName)"

definition with_target :: "(string \<times> string) list \<Rightarrow> (string \<Rightarrow> (string \<times> int) act) \<Rightarrow> (string \<times> int) act" where
  "with_target args f =
     (let targ = commandTarget args ''1.1.1.1''
      in if \<not> safeHostName targ then State_Monad.return (outln ''target is invalid'', 2) else f targ)"

definition runCommand :: "host \<Rightarrow> agent_libs \<Rightarrow> agent_config \<Rightarrow> agent_command \<Rightarrow> (string \<times> int) act" where
  "runCommand H L cfg cmd =
     (let args = args_map (ac_Args cmd); t = ac_Type cmd in
      if t = ''diagnostic_report'' then runDiagnostics H args
      else if t = ''ping'' then with_target args (\<lambda>targ. execCommand H (20 * second) ''ping'' [''-c'', ''4'', targ])
      else if t = ''traceroute'' then with_target args (\<lambda>targ. execCommand H (45 * second) ''traceroute'' [targ])
      else if t = ''route_show'' then execCommand H (10 * second) ''ip'' [''route'', ''show'']
      else if t = ''interfaces_show'' then execCommand H (10 * second) ''ip'' [''-o'', ''addr'', ''show'']
      else if t = ''reboot'' then scheduleReboot H
      else if t = ''system_backup_create'' \<or> t = ''system_backup_restore''
      then State_Monad.return (outln ''backup operation requires the managed transfer path'', 2)
      else if t = ''service_restart'' then
        (let service = TrimSpace (map_get args ''service'') in
         if \<not> safeServiceName service then State_Monad.return (outln ''service is not allowlisted'', 2)
         else execCommand H (30 * second) (''/etc/init.d/'' @ service) [''restart''])
      else if t = ''pkg_list_installed'' \<or> t = ''opkg_list_installed'' then runPackageCommand H ''list_installed'' []
      else if t = ''pkg_update'' \<or> t = ''opkg_update'' then runPackageCommand H ''update'' []
      else if t = ''pkg_list_upgradable'' \<or> t = ''opkg_list_upgradable'' then runPackageCommand H ''list_upgradable'' []
      else if t = ''pkg_install'' \<or> t = ''opkg_install'' then with_package args (runPackageCommand H ''install'')
      else if t = ''pkg_remove'' \<or> t = ''opkg_remove'' then with_package args (runPackageCommand H ''remove'')
      else if t = ''agent_update'' \<or> t = ''agent_rollback'' then State_Monad.return (outln ''agent update is handled separately'', 2)
      else if t = ''uci_show'' then uci_with_config args (\<lambda>c. execCommand H (10 * second) ''uci'' [''show'', c])
      else if t = ''uci_backup'' then uci_with_config args (\<lambda>c. uciBackupOutput H c (a_BackupDir cfg))
      else if t = ''uci_preview'' then uci_with_target args (\<lambda>u. uciPreviewOutput H u (a_BackupDir cfg))
      else if t = ''uci_set'' then
        uci_with_target args (\<lambda>u. uciSetOutput H u (a_BackupDir cfg) (TrimSpace (map_get args ''commit'') = ''true''))
      else if t = ''uci_commit'' then uci_with_config args (\<lambda>c. execCommand H (20 * second) ''uci'' [''commit'', c])
      else if t = ''uci_commit_confirmed'' then
        uci_with_config args (\<lambda>c. uciCommitConfirmedOutput H cfg c (intDefault (map_get args ''confirm_seconds'') 15))
      else if t = ''uci_revert'' then uci_with_config args (\<lambda>c. execCommand H (10 * second) ''uci'' [''revert'', c])
      else if t = ''uci_restore'' then uci_with_config args (\<lambda>c. uciRestoreOutput H c (a_BackupDir cfg))
      else if t = ''remote_ssh_reverse'' then remoteSSHReverseOutput H (al_ParseAuthorizedKey L) cfg args
      else if t = ''remote_ssh_close'' then remoteSSHCloseOutput H cfg args
      else State_Monad.return (outln (''rmm-agent does not implement command '' @ [dquote] @ t @ [dquote]), 2))"

section \<open>Results\<close>

definition commandResult :: "string \<Rightarrow> string \<Rightarrow> int \<Rightarrow> string \<Rightarrow> json \<Rightarrow> json" where
  "commandResult deviceID status exitCode output details =
     JObj [(''device_id'', JStr deviceID), (''exit_code'', JNum (Itoa exitCode)), (''output'', JStr (redactSensitiveOutput output)),
           (''result'', details), (''status'', JStr status)]"

definition persistCommandResult :: "host \<Rightarrow> string \<Rightarrow> json \<Rightarrow> (os_error option) act" where
  "persistCommandResult H path result = do {
     e \<leftarrow> os_WriteFile H (path @ ''.new'') (print_json result);
     case e of
       Some e \<Rightarrow> State_Monad.return (Some e)
     | None \<Rightarrow> do {
         e \<leftarrow> os_Rename H (path @ ''.new'') path;
         case e of
           Some e \<Rightarrow> do { _ \<leftarrow> os_Remove H (path @ ''.new''); State_Monad.return (Some e) }
         | None \<Rightarrow> State_Monad.return None }
   }"

text \<open>The status and the body of a reply, or an error; a body over 2 MiB is one.\<close>

definition postRaw :: "host \<Rightarrow> string \<Rightarrow> string \<Rightarrow> string \<Rightarrow> (string + int \<times> string) act" where
  "postRaw H url token body = do {
     r \<leftarrow> http_do H \<lparr>rq_method = ''POST'', rq_url = url,
            rq_headers = (''Content-Type'', ''application/json'') # (if token \<noteq> [] then [(''Authorization'', ''Bearer '' @ token)] else []),
            rq_body = body\<rparr>;
     State_Monad.return (case r of
       NetError e \<Rightarrow> Inl e
     | Reply status d whole \<Rightarrow>
         if length d > 2 ^ 21 then Inl ''server response exceeds 2 MiB''
         else if \<not> whole then Inl ''unexpected EOF'' else Inr (status, d))
   }"

definition result_url :: "agent_config \<Rightarrow> string \<Rightarrow> string" where
  "result_url cfg commandID = a_ServerURL cfg @ ''/api/agent/commands/'' @ commandID @ ''/result''"

text \<open>\<open>Some\<close> is the error.\<close>

definition sendCommandResult :: "host \<Rightarrow> agent_config \<Rightarrow> string \<Rightarrow> json \<Rightarrow> (string option) act" where
  "sendCommandResult H cfg commandID body = do {
     r \<leftarrow> postRaw H (result_url cfg commandID) (a_DeviceToken cfg) (print_json body);
     State_Monad.return (case r of
       Inl e \<Rightarrow> Some e
     | Inr (status, _) \<Rightarrow> if (200 \<le> status \<and> status < 300) \<or> (400 \<le> status \<and> status < 500) then None
                        else Some (''server returned HTTP '' @ Itoa status))
   }"

definition spoolCommandResult :: "host \<Rightarrow> string \<Rightarrow> string \<Rightarrow> json \<Rightarrow> (os_error option) act" where
  "spoolCommandResult H dir commandID body = do {
     e \<leftarrow> os_MkdirAll H dir;
     case e of
       Some e \<Rightarrow> State_Monad.return (Some e)
     | None \<Rightarrow> os_WriteFile H (filepath_Join dir (commandID @ ''.json'')) (print_json body)
   }"

definition deliverCommandResult :: "host \<Rightarrow> agent_config \<Rightarrow> string \<Rightarrow> json \<Rightarrow> unit act" where
  "deliverCommandResult H cfg commandID result = do {
     e \<leftarrow> sendCommandResult H cfg commandID result;
     case e of
       None \<Rightarrow> State_Monad.return ()
     | Some _ \<Rightarrow> do { _ \<leftarrow> spoolCommandResult H (a_SpoolDir cfg) commandID result; State_Monad.return () }
   }"

definition cleanup_entry :: "host \<Rightarrow> string \<Rightarrow> time \<Rightarrow> string \<Rightarrow> unit act" where
  "cleanup_entry H dir cutoff name = do {
     m \<leftarrow> State_Monad.get;
     let path = filepath_Join dir name;
     if \<not> HasSuffix name ''.json'' \<and> \<not> HasSuffix name ''.pending'' then State_Monad.return ()
     else if h_fault H m OpStat path \<noteq> None then State_Monad.return ()
     else case file_at m path of
       None \<Rightarrow> State_Monad.return ()
     | Some f \<Rightarrow> if f_mtime f < cutoff then do { _ \<leftarrow> os_Remove H path; State_Monad.return () } else State_Monad.return ()
   }"

definition cleanupCommandState :: "host \<Rightarrow> string \<Rightarrow> time \<Rightarrow> unit act" where
  "cleanupCommandState H dir cutoff = do {
     r \<leftarrow> os_ReadDir H dir;
     case r of
       Inl _ \<Rightarrow> State_Monad.return ()
     | Inr names \<Rightarrow> do { _ \<leftarrow> State_Monad.traverse_list (cleanup_entry H dir cutoff) names; State_Monad.return () }
   }"

section \<open>Processing a command\<close>

definition with_report :: "string \<Rightarrow> string \<Rightarrow> (string \<times> json) list \<Rightarrow> (string \<times> json) list" where
  "with_report key output details =
     (case json_unmarshal output of Some (JObj ms) \<Rightarrow> put_member key (JObj ms) details | _ \<Rightarrow> details)"

text \<open>What the command runs: its output, exit code and details.\<close>

definition execute_command ::
  "host \<Rightarrow> agent_libs \<Rightarrow> env \<Rightarrow> agent_config \<Rightarrow> agent_command \<Rightarrow> (string \<times> int \<times> json) act" where
  "execute_command H L E cfg cmd = do {
     (output, exitCode) \<leftarrow> runCommand H L cfg cmd;
     (output, exitCode) \<leftarrow>
       (if HasPrefix (ac_Type cmd) ''uci_profile_'' then runFleetProfile H E cfg cmd ''/etc/config''
        else State_Monad.return (output, exitCode));
     let details = (if ac_Type cmd = ''uci_profile_preview'' \<and> exitCode = 0 then with_report ''profile'' output commandMetadata
                    else if ac_Type cmd = ''diagnostic_report'' then with_report ''diagnostics'' output commandMetadata
                    else commandMetadata);
     if ac_Type cmd = ''agent_update'' \<or> ac_Type cmd = ''agent_rollback''
     then agentPackageOperation H (al_manifest L) E cfg (ac_Type cmd) (ac_Args cmd)
     else if ac_Type cmd = ''system_backup_create'' \<or> ac_Type cmd = ''system_backup_restore''
     then systemBackupOperation H E cfg cmd
     else State_Monad.return (output, exitCode, JObj details)
   }"

definition result_path :: "agent_config \<Rightarrow> agent_command \<Rightarrow> string" where
  "result_path cfg cmd = filepath_Join (a_CommandStateDir cfg) (ac_ID cmd @ ''.json'')"

definition marker_path :: "agent_config \<Rightarrow> agent_command \<Rightarrow> string" where
  "marker_path cfg cmd = filepath_Join (a_CommandStateDir cfg) (ac_ID cmd @ ''.pending'')"

text \<open>An interrupted execution is not repeated: it is reported as failed. \<open>Some\<close> is the error.\<close>

definition refuse_replay :: "host \<Rightarrow> agent_config \<Rightarrow> agent_command \<Rightarrow> (string option) act" where
  "refuse_replay H cfg cmd = do {
     let result = commandResult (a_DeviceID cfg) ''failed'' 75 (outln ''command execution was interrupted; refusing unsafe replay'') (JObj commandMetadata);
     e \<leftarrow> persistCommandResult H (result_path cfg cmd) result;
     case e of
       Some e \<Rightarrow> State_Monad.return (Some (Error e))
     | None \<Rightarrow> do {
         _ \<leftarrow> os_Remove H (marker_path cfg cmd);
         deliverCommandResult H cfg (ac_ID cmd) result;
         State_Monad.return None }
   }"

definition run_reserved :: "host \<Rightarrow> agent_libs \<Rightarrow> env \<Rightarrow> agent_config \<Rightarrow> agent_command \<Rightarrow> (string option) act" where
  "run_reserved H L E cfg cmd = do {
     (output, exitCode, details) \<leftarrow> execute_command H L E cfg cmd;
     let status = (if exitCode \<noteq> 0 then ''failed'' else ''completed'');
     let result = commandResult (a_DeviceID cfg) status exitCode (redactSensitiveOutput output) details;
     e \<leftarrow> persistCommandResult H (result_path cfg cmd) result;
     case e of
       Some e \<Rightarrow> State_Monad.return (Some (''persist command result: '' @ Error e))
     | None \<Rightarrow> do {
         _ \<leftarrow> os_Remove H (marker_path cfg cmd);
         deliverCommandResult H cfg (ac_ID cmd) result;
         (if (ac_Type cmd = ''agent_update'' \<or> ac_Type cmd = ''agent_rollback'') \<and> exitCode = 0
          then do { _ \<leftarrow> execCommand H (30 * second) ''/etc/init.d/rmm-agent'' [''restart'']; State_Monad.return () }
          else State_Monad.return ());
         State_Monad.return None }
   }"

definition process_valid :: "host \<Rightarrow> agent_libs \<Rightarrow> env \<Rightarrow> agent_config \<Rightarrow> agent_command \<Rightarrow> (string option) act" where
  "process_valid H L E cfg cmd = do {
     e \<leftarrow> os_MkdirAll H (a_CommandStateDir cfg);
     case e of
       Some e \<Rightarrow> State_Monad.return (Some (''create command state directory: '' @ Error e))
     | None \<Rightarrow> do {
         now \<leftarrow> time_Now;
         cleanupCommandState H (a_CommandStateDir cfg) (now - 30 * 24 * hour);
         r \<leftarrow> os_ReadFile H (result_path cfg cmd);
         case r of
           Inr d \<Rightarrow>
             (case json_unmarshal d of
                Some (JObj ms) \<Rightarrow> do { deliverCommandResult H cfg (ac_ID cmd) (normal (JObj ms)); State_Monad.return None }
              | Some JNull \<Rightarrow> do { deliverCommandResult H cfg (ac_ID cmd) JNull; State_Monad.return None }
              | _ \<Rightarrow> State_Monad.return (Some ''read previous command result''))
         | Inl (ErrNotExist _) \<Rightarrow> do {
             e \<leftarrow> os_CreateExcl H (marker_path cfg cmd);
             case e of
               Some (ErrExist _) \<Rightarrow> refuse_replay H cfg cmd
             | Some e \<Rightarrow> State_Monad.return (Some (''reserve command execution: '' @ Error e))
             | None \<Rightarrow> run_reserved H L E cfg cmd }
         | Inl e \<Rightarrow> State_Monad.return (Some (''read command state: '' @ Error e)) }
   }"

fun err_text :: "err \<Rightarrow> string" where
  "err_text (ErrMsg s) = s"
| "err_text _ = []"

definition processCommand :: "host \<Rightarrow> agent_libs \<Rightarrow> env \<Rightarrow> agent_config \<Rightarrow> agent_command \<Rightarrow> (string option) act" where
  "processCommand H L E cfg cmd = do {
     now \<leftarrow> time_Now;
     case validateSignedCommand E cfg cmd now of
       Inl e \<Rightarrow> State_Monad.return (Some (err_text e))
     | Inr _ \<Rightarrow> process_valid H L E cfg cmd
   }"


section \<open>What every command respects\<close>

text \<open>
  The programs the agent may start: fixed tools by name, init scripts of fixed services, and the
  one fixed shell line of a reboot.
\<close>

definition tools :: "string list" where
  "tools = [''ping'', ''traceroute'', ''ip'', ''apk'', ''opkg'', ''uci'', ''diff'', ''ubus'', ''df'', ''kill'', ''ssh'', ''dbclient'', ''sysupgrade'', ''ssh-keygen'', ''iwinfo'']"

definition init_scripts :: "string list" where
  "init_scripts = map (\<lambda>s. ''/etc/init.d/'' @ s) [''network'', ''firewall'', ''dnsmasq'', ''dropbear'', ''uhttpd'', ''system'', ''rmm-agent'']"

definition allowed :: "program \<Rightarrow> bool" where
  "allowed p \<longleftrightarrow> p_name p \<in> set tools \<or> p_name p \<in> set init_scripts \<or>
     (p_name p = ''sh'' \<and> p_args p = [''-c'', ''sleep 2; reboot''])"

text \<open>The files that settle commands end in \<open>.json\<close> or \<open>.pending\<close>.\<close>

definition state_path :: "string \<Rightarrow> bool" where
  "state_path p \<longleftrightarrow> HasSuffix p ''.json'' \<or> HasSuffix p ''.pending''"

lemma not_state_path: "p \<noteq> [] \<Longrightarrow> last p \<noteq> CHR ''n'' \<Longrightarrow> last p \<noteq> CHR ''g'' \<Longrightarrow> \<not> state_path p"
  by (cases p rule: rev_cases) (auto simp: state_path_def HasSuffix_def)

lemma last_Join:
  assumes "plain_name n"
  shows "filepath_Join d n \<noteq> []" "last (filepath_Join d n) = last n"
proof -
  have "n \<noteq> []" using assms by (simp add: plain_name_def)
  moreover obtain p where "filepath_Join d n = p @ n" using filepath_Join_last assms by metis
  ultimately show "filepath_Join d n \<noteq> []" "last (filepath_Join d n) = last n" by simp_all
qed

lemma not_state_Join: "plain_name n \<Longrightarrow> last n \<noteq> CHR ''n'' \<Longrightarrow> last n \<noteq> CHR ''g'' \<Longrightarrow> \<not> state_path (filepath_Join d n)"
  using not_state_path last_Join by simp

lemma not_state_id:
  assumes "safeSessionID i" "ext \<noteq> []" "CHR ''/'' \<notin> set ext" "last ext \<noteq> CHR ''n''" "last ext \<noteq> CHR ''g''"
  shows "\<not> state_path (filepath_Join d (i @ ext))"
  by (rule not_state_Join) (use safe_id_plain [OF assms(1,3)] assms in simp_all)

lemma not_state_digits:
  assumes "CHR ''/'' \<notin> set prefix" "2 < length prefix"
  shows "\<not> state_path (filepath_Join d (prefix @ dec_digits (int k)))"
proof (rule not_state_Join)
  have ne: "dec_digits (int k) \<noteq> []" by (subst dec_digits.simps) simp
  have digits: "list_all digit_char (dec_digits (int k))" by (rule digits_dec_digits) simp
  then have "digit_char (last (dec_digits (int k)))" using ne by (simp add: list_all_iff)
  then show "last (prefix @ dec_digits (int k)) \<noteq> CHR ''n''" "last (prefix @ dec_digits (int k)) \<noteq> CHR ''g''"
    using ne by (auto simp: digit_char_def)
  show "plain_name (prefix @ dec_digits (int k))"
    using digits assms by (auto simp: plain_name_def list_all_iff digit_char_def dest: arg_cong [of _ _ length])
qed

lemma not_state_log:
  assumes "safeSessionID i"
  shows "\<not> state_path (filepath_Join d (''rmm-remote-'' @ i @ ''.log''))"
proof -
  have "plain_name (''rmm-remote-'' @ i @ ''.log'')" using safe_id_chars [OF assms] by (auto simp: plain_name_def)
  then obtain p where "filepath_Join d (''rmm-remote-'' @ i @ ''.log'') = p @ ''rmm-remote-'' @ i @ ''.log''"
    using filepath_Join_last by metis
  then show ?thesis by (simp add: state_path_def HasSuffix_def)
qed

lemma not_state_config: "safeUCIConfig c \<Longrightarrow> \<not> state_path (filepath_Join d c)"
  by (rule not_state_Join) (auto simp: safeUCIConfig_def plain_name_def)

lemma not_state_temp_gz:
  assumes "CHR ''/'' \<notin> set n"
  shows "\<not> state_path (filepath_Join d (n @ ''.tar.gz''))"
  by (rule not_state_Join) (use assms in \<open>auto simp: plain_name_def append_eq_Cons_conv\<close>)

lemma allowed_simps [simp]:
  "p_name p \<in> set tools \<Longrightarrow> allowed p" "p_name p \<in> set init_scripts \<Longrightarrow> allowed p"
  by (simp_all add: allowed_def)


text \<open>
  What the agent removes, besides the files that settle a command, and where it moves a file:
  never to a state file of a command, unless the configuration or the guard is one.
\<close>

definition removable :: "agent_config \<Rightarrow> string \<Rightarrow> bool" where
  "removable cfg p \<longleftrightarrow> \<not> state_path p \<or> p = restoreGuardPath (a_RecoveryDir cfg) \<or> (\<exists>n. plain_name n \<and> p = filepath_Join (a_SpoolDir cfg) n)"

definition movable :: "agent_config \<Rightarrow> string \<Rightarrow> bool" where
  "movable cfg q \<longleftrightarrow> \<not> state_path q \<or> q = a_ConfigFile cfg \<or> q = restoreGuardPath (a_RecoveryDir cfg) \<or>
     q = a_TunnelIdentity cfg \<or> q = a_TunnelIdentity cfg @ ''.pub''"

text \<open>
  The interface between the commands and a property of the machine: which operations the
  property has to survive for every command to keep it.
\<close>

locale agent_frame =
  fixes H :: host and cfg :: agent_config and P :: "machine \<Rightarrow> bool"
  assumes keeps_write: "keeps P (os_WriteFile H p d)"
    and keeps_create: "keeps P (os_CreateExcl H p)"
    and keeps_move: "\<not> state_path p \<Longrightarrow> movable cfg q \<Longrightarrow> keeps P (os_Rename H p q)"
    and keeps_delete: "removable cfg p \<Longrightarrow> keeps P (os_Remove H p)"
    and keeps_run: "allowed g \<Longrightarrow> keeps P (run_program H g)"
    and keeps_start: "allowed g \<Longrightarrow> keeps P (start_program H g)"
    and keeps_http: "keeps P (http_do H rq)"
    and keeps_sleep: "0 \<le> t \<Longrightarrow> keeps P (sleep t)"
    and keeps_log: "keeps P (open_log H p)"
    and keeps_timers: "keeps P (change (\<lambda>m. m\<lparr>m_timers := f m\<rparr>))"
begin

lemma keeps_remove: "\<not> state_path p \<Longrightarrow> keeps P (os_Remove H p)"
  by (rule keeps_delete) (simp add: removable_def)

lemma keeps_rename: "\<not> state_path p \<Longrightarrow> \<not> state_path q \<or> q = a_ConfigFile cfg \<or> q = restoreGuardPath (a_RecoveryDir cfg) \<Longrightarrow>
    keeps P (os_Rename H p q)"
  by (rule keeps_move) (auto simp: movable_def)

lemma keeps_exec:
  assumes "name \<in> set tools \<or> name \<in> set init_scripts"
  shows "keeps P (execCommand H timeout name args)" "keeps P (execCommandWithEnv H timeout e name args)"
    "keeps P (execCommandWithInput H timeout input name args)" "keeps P (commandOutput H name args)"
  unfolding execCommand_def execCommandWithEnv_def execCommandWithInput_def commandOutput_def
  by (intro keeps_intros keeps_run; use assms in \<open>auto simp: allowed_def\<close>)+

lemma keeps_tool:
  assumes "name \<in> set tools"
  shows "keeps P (execCommand H timeout name args)" "keeps P (execCommandWithEnv H timeout e name args)"
    "keeps P (execCommandWithInput H timeout input name args)" "keeps P (commandOutput H name args)"
  by (rule keeps_exec; use assms in simp)+

lemma keeps_temp: "keeps P (os_CreateTemp H dir prefix suffix)"
  unfolding os_CreateTemp_def by (intro keeps_intros keeps_create)

lemma keeps_save: "keeps P (saveConfig H cfg)"
  unfolding saveConfig_def
  by (intro keeps_intros keeps_write keeps_rename) (simp_all add: not_state_path)

lemma keeps_with_temp:
  assumes "\<And>k. keeps P (f (Inr (filepath_Join dir (prefix @ dec_digits (int k) @ suffix))))" "\<And>e. keeps P (f (Inl e))"
  shows "keeps P (State_Monad.bind (os_CreateTemp H dir prefix suffix) f)"
proof (rule keepsI)
  fix m
  assume pm: "P m"
  obtain t m1 where t: "run_state (os_CreateTemp H dir prefix suffix) m = (t, m1)" by fastforce
  have m1: "P m1" by (rule keepsD_run [OF keeps_temp pm t])
  have "\<exists>k e. t = Inr (filepath_Join dir (prefix @ dec_digits (int k) @ suffix)) \<or> t = Inl e"
    using t by (auto simp: run_CreateTemp Let_def split: prod.splits option.splits)
  then have "keeps P (f t)" using assms by auto
  then show "P (snd (run_state (State_Monad.bind (os_CreateTemp H dir prefix suffix) f) m))"
    using t m1 by (simp add: keeps_def)
qed

lemma keeps_state_write:
  assumes "\<not> state_path path"
  shows "keeps P (writeProfileState H path d)"
proof -
  have t: "\<not> state_path (filepath_Join dir (''.profile-'' @ dec_digits (int k) @ []))" for dir k
    using not_state_digits [of "''.profile-''"] by simp
  show ?thesis
    unfolding writeProfileState_def
    apply (rule keeps_bind [OF keeps_reads(1)])
    apply (rule keeps_option)
     apply (rule keeps_with_temp)
      apply (simp only: sum.case)
      apply (intro keeps_intros keeps_write keeps_rename keeps_remove disjI1 t assms)
     apply (simp only: sum.case)
     apply (intro keeps_intros)+
    done
qed

end


context agent_frame
begin

text \<open>Profiles.\<close>

lemma keeps_reload: "keeps P (reloadProfileConfig H name)"
proof -
  have "profile_service name = [] \<or> ''/etc/init.d/'' @ profile_service name \<in> set init_scripts"
    by (auto simp: profile_service_def map_get_def init_scripts_def)
  then show ?thesis
    unfolding reloadProfileConfig_def Let_def by (auto intro!: keeps_intros keeps_exec)
qed

lemma keeps_restore: "keeps P (restoreProfileTransaction H E cfg tr configDir)"
proof (cases "safeUCIConfig (px_Config tr)")
  case True
  then show ?thesis
    unfolding restoreProfileTransaction_def
    by (intro keeps_intros keeps_state_write keeps_tool keeps_reload not_state_config) (simp_all add: tools_def)
next
  case False
  then show ?thesis by (simp add: restoreProfileTransaction_def keeps_return)
qed

lemma keeps_rollbackFleetProfile: "keeps P (rollbackFleetProfile H E cfg i configDir)"
  unfolding rollbackFleetProfile_def by (intro keeps_intros keeps_restore)

lemma keeps_preview_changes: "keeps P (preview_changes H config os)"
proof (induction os)
  case (Cons o' os)
  then show ?case unfolding preview_changes.simps
    by (intro keeps_intros keeps_tool) (simp_all add: tools_def)
qed (simp add: keeps_return)

lemma keeps_stage: "keeps P (stage_options H config os)"
proof (induction os)
  case (Cons o' os)
  then show ?case unfolding stage_options.simps by (intro keeps_intros keeps_tool) (simp_all add: tools_def)
qed (simp add: keeps_return)

lemma keeps_wait: "0 \<le> t \<Longrightarrow> keeps P (wait_for H t)"
  unfolding wait_for_def by (intro keeps_intros keeps_sleep)

lemma keeps_reachable: "keeps P (serverReachable H url)"
  unfolding serverReachable_def by (intro keeps_intros keeps_http)

lemma keeps_apply:
  assumes i: "safeSessionID i" and c: "safeUCIConfig (pf_Config profile)"
  shows "keeps P (apply_profile H E cfg configDir i previewID profile ticket original)"
proof -
  note paths = not_state_id [OF i, of "''.receipt''" "profileStateDir cfg"] not_state_id [OF i, of "''.journal''" "profileStateDir cfg"]
    not_state_id [OF i, of "''.backup''" "profileStateDir cfg"]
  have confirm: "keeps P (confirm_apply H E cfg p i tr)" for p tr
    unfolding confirm_apply_def using paths by (intro keeps_intros keeps_state_write keeps_remove) simp_all
  have changes: "keeps P (apply_changes H E cfg configDir i profile tr)" for tr
    unfolding apply_changes_def
    by (intro keeps_intros keeps_stage keeps_tool keeps_reload keeps_wait keeps_reachable confirm) (simp_all add: tools_def)
  have undo: "keeps P (undo_unconfirmed H E cfg configDir i tr confirmed)" for tr confirmed
    unfolding undo_unconfirmed_def using paths by (intro keeps_intros keeps_restore keeps_remove) simp_all
  show ?thesis
    unfolding apply_profile_def using paths by (intro keeps_intros keeps_state_write changes undo) simp_all
qed

lemma keeps_runFleetProfile: "keeps P (runFleetProfile H E cfg cmd configDir)"
proof -
  have preview: "keeps P (preview_profile H cfg i profile ticket)" if "safeSessionID i" for i profile ticket
    unfolding preview_profile_def using not_state_id [OF that, of "''.preview''" "profileStateDir cfg"]
    by (intro keeps_intros keeps_preview_changes keeps_state_write) simp_all
  have guardI: "keeps P (if c then State_Monad.return x else a)" if "\<not> c \<Longrightarrow> keeps P a" for c x and a :: "(string \<times> int) act"
    using that by (simp add: keeps_return)
  show ?thesis
    unfolding runFleetProfile_def
    apply (rule keeps_option)
     apply (rule keeps_return)
    apply (rule guardI)
    apply (rule keeps_if)
     apply (rule keeps_rollbackFleetProfile)
    apply (rule keeps_option)
     apply (rule keeps_return)
    apply (rule guardI)
    apply (intro keeps_intros keeps_tool preview keeps_apply)
    apply (auto simp: tools_def dest: Validate_config)
    done
qed

end


context agent_frame
begin

text \<open>Backups.\<close>

lemma keeps_board: "keeps P (openwrtTarget H)" "keeps P (boardModel H)" "keeps P (openwrtVersion H)"
  unfolding openwrtTarget_def boardModel_def openwrtVersion_def
  by (intro keeps_intros keeps_tool; simp add: tools_def)+

lemma keeps_readLimitedFile: "keeps P (readLimitedFile H p n)"
  unfolding readLimitedFile_def by (intro keeps_intros)

lemma keeps_upload: "keeps P (upload_backup H cfg i archive)"
  unfolding upload_backup_def by (intro keeps_intros keeps_http keeps_board)

lemma keeps_createSystemBackup: "keeps P (createSystemBackup H cfg i)"
proof -
  have t: "\<not> state_path (filepath_Join dir (''.rmm-system-backup-'' @ dec_digits (int k) @ ''.tar.gz''))" for dir k
  proof -
    have "CHR ''/'' \<notin> set (dec_digits (int k))"
      using digits_dec_digits [of "int k"] by (auto simp: list_all_iff digit_char_def dest: bspec)
    then show ?thesis using not_state_temp_gz [of "''.rmm-system-backup-'' @ dec_digits (int k)" dir] by simp
  qed
  show ?thesis
    unfolding createSystemBackup_def
    apply (rule keeps_bind [OF keeps_reads(1)])
    apply (rule keeps_option)
     apply (rule keeps_with_temp)
      apply (simp only: sum.case)
      apply (intro keeps_intros keeps_remove keeps_tool keeps_upload keeps_readLimitedFile t)
      apply (simp add: tools_def)
     apply (simp only: sum.case)
     apply (intro keeps_intros)+
    done
qed

lemma keeps_writeRestoreGuard: "keeps P (writeRestoreGuard H (a_RecoveryDir cfg) g)"
  unfolding writeRestoreGuard_def Let_def
  by (intro keeps_intros keeps_write keeps_rename keeps_remove) (simp_all add: not_state_path)

lemma keeps_guarded_restore: "keeps P (guarded_restore H cfg i p)"
  unfolding guarded_restore_def
  by (intro keeps_intros keeps_tool keeps_writeRestoreGuard keeps_save) (simp_all add: tools_def)

lemma keeps_restore_archive:
  assumes "safeSessionID (map_get args ''backup_id'')"
  shows "keeps P (restore_archive H E cfg args body whole)"
proof -
  have t: "\<not> state_path (filepath_Join d (''.rmm-restore-'' @ map_get args ''backup_id'' @ ''.tar.gz''))" for d
    using not_state_temp_gz [of "''.rmm-restore-'' @ map_get args ''backup_id''" d] safe_id_chars [OF assms] by auto
  show ?thesis
    unfolding restore_archive_def Let_def
    by (intro keeps_intros keeps_write keeps_remove keeps_guarded_restore t)
qed

lemma keeps_guard_if:
  assumes "\<not> c \<Longrightarrow> keeps P a"
  shows "keeps P (if c then State_Monad.return x else a)"
  using assms by (simp add: keeps_return)

lemma keeps_restoreSystemBackup: "keeps P (restoreSystemBackup H E cfg raw)"
  unfolding restoreSystemBackup_def
  apply (rule keeps_option)
   apply (rule keeps_return)
  apply (rule keeps_guard_if)
  apply (intro keeps_intros keeps_board)
  apply (auto split: reply.split intro!: keeps_intros keeps_http keeps_restore_archive)
  done

lemma keeps_systemBackupOperation: "keeps P (systemBackupOperation H E cfg cmd)"
  unfolding systemBackupOperation_def by (intro keeps_intros keeps_createSystemBackup keeps_restoreSystemBackup)

text \<open>Tools.\<close>

lemma keeps_runPackageCommand: "keeps P (runPackageCommand H action pkg)"
  unfolding runPackageCommand_def Let_def
  by (intro keeps_intros keeps_tool) (simp_all add: tools_def)

lemma keeps_uciBackupOutput: "keeps P (uciBackupOutput H c d)"
  unfolding uciBackupOutput_def
  by (intro keeps_intros keeps_tool keeps_write) (simp_all add: tools_def)

lemma keeps_unifiedDiff: "keeps P (unifiedDiff H before after)"
proof -
  have b: "\<not> state_path (filepath_Join dir (''rmm-agent-before-'' @ dec_digits (int k) @ []))" for dir k
    using not_state_digits [of "''rmm-agent-before-''"] by simp
  have a: "\<not> state_path (filepath_Join dir (''rmm-agent-after-'' @ dec_digits (int k) @ []))" for dir k
    using not_state_digits [of "''rmm-agent-after-''"] by simp
  show ?thesis
    unfolding unifiedDiff_def
    apply (intro keeps_bind [OF keeps_ask] keeps_guard_if keeps_if keeps_return)
    apply (rule keeps_with_temp)
     apply (simp only: sum.case)
     apply (rule keeps_with_temp)
      apply (simp only: sum.case)
      apply (intro keeps_intros keeps_remove keeps_write keeps_tool a b)
      apply (simp add: tools_def)
     apply (simp only: sum.case)
     apply (intro keeps_intros keeps_remove b)
    apply (simp only: sum.case)
    apply (intro keeps_intros)
    done
qed

lemma keeps_uciPreviewOutput: "keeps P (uciPreviewOutput H t d)"
  unfolding uciPreviewOutput_def
  by (intro keeps_intros keeps_tool keeps_write keeps_unifiedDiff) (simp_all add: tools_def)

lemma keeps_uciSetOutput: "keeps P (uciSetOutput H t d commit)"
  unfolding uciSetOutput_def Let_def
  by (intro keeps_intros keeps_tool keeps_write) (simp_all add: tools_def)

lemma keeps_uciCommitConfirmedOutput: "keeps P (uciCommitConfirmedOutput H cfg' c n)"
  unfolding uciCommitConfirmedOutput_def Let_def
  by (intro keeps_intros keeps_tool keeps_wait keeps_reachable) (simp_all add: tools_def)

lemma keeps_uciRestoreOutput: "keeps P (uciRestoreOutput H c d)"
  unfolding uciRestoreOutput_def by (intro keeps_intros keeps_tool) (simp_all add: tools_def)

lemma keeps_run_checks: "\<forall>(_, c, _) \<in> set cs. c \<in> set tools \<Longrightarrow> keeps P (run_checks H cs)"
proof (induction cs)
  case (Cons c cs)
  then show ?case by (cases c) (auto intro!: keeps_intros keeps_tool)
qed (simp add: keeps_return)

lemma keeps_service_checks: "keeps P (service_checks H ss)"
proof (induction ss)
  case (Cons s ss)
  then show ?case unfolding service_checks.simps Let_def by (intro keeps_intros keeps_tool) (simp_all add: tools_def)
qed (simp add: keeps_return)

lemma keeps_runDiagnostics: "keeps P (runDiagnostics H args)"
  unfolding runDiagnostics_def Let_def
  by (intro keeps_intros keeps_run_checks keeps_service_checks) (simp add: network_checks_def tools_def)

end

context agent_frame
begin

text \<open>Tunnels.\<close>

lemma keeps_signal: "keeps P (signalProcess H pid sig)"
  unfolding signalProcess_def by (intro keeps_intros keeps_run) (simp add: allowed_def tools_def)

lemma keeps_processRunning: "keeps P (processRunning H pid)"
  unfolding processRunning_def by (intro keeps_intros keeps_signal)

lemma not_state_session:
  assumes "safeSessionID i"
  shows "\<not> state_path (remoteSSHPIDFile cfg i)" "\<not> state_path (remoteSSHKnownHostsFile cfg i)"
  unfolding remoteSSHPIDFile_def remoteSSHKnownHostsFile_def
  using assms not_state_id [of i "''.pid''"] not_state_id [of i "''.known_hosts''"] by simp_all

lemma keeps_stop_pid: "safeSessionID i \<Longrightarrow> keeps P (remoteSSHStopPID H cfg i pid)"
  unfolding remoteSSHStopPID_def by (intro keeps_intros keeps_signal keeps_remove not_state_session)

lemma keeps_stop_session: "keeps P (remoteSSHStopSession H cfg i port)"
  unfolding remoteSSHStopSession_def
  apply (rule keeps_guard_if)
  apply (intro keeps_intros keeps_signal)
   apply (simp add: findRemoteSSHProcessByPort_def keeps_ask)
  apply (simp add: keeps_stop_pid)
  done

lemma keeps_remoteSSHCommand: "keeps P (remoteSSHCommand H cfg a)"
  unfolding remoteSSHCommand_def Let_def by (intro keeps_intros keeps_write)

lemma remoteSSHCommand_tool:
  assumes "run_state (remoteSSHCommand H cfg a) m = (Inr (path, args), m')"
  shows "path \<in> set tools"
  using assms
  by (auto simp: remoteSSHCommand_def tools_def Let_def ask_def split: if_splits option.splits prod.splits)

lemma keeps_start_tunnel:
  assumes "path \<in> set tools" "safeSessionID (ra_SessionID a)"
  shows "keeps P (start_tunnel H cfg a logFile path args)"
  unfolding start_tunnel_def Let_def
  by (intro keeps_intros keeps_start keeps_write keeps_timers keeps_sleep keeps_processRunning keeps_remove not_state_session)
    (use assms in simp_all)

lemma keeps_with_client:
  assumes "\<And>path args. path \<in> set tools \<Longrightarrow> keeps P (f (Inr (path, args)))" "\<And>e. keeps P (f (Inl e))"
  shows "keeps P (State_Monad.bind (remoteSSHCommand H cfg a) f)"
proof (rule keepsI)
  fix m
  assume pm: "P m"
  obtain r m1 where r: "run_state (remoteSSHCommand H cfg a) m = (r, m1)" by fastforce
  have m1: "P m1" by (rule keepsD_run [OF keeps_remoteSSHCommand pm r])
  have "keeps P (f r)" using remoteSSHCommand_tool r assms by (cases r) auto
  then show "P (snd (run_state (State_Monad.bind (remoteSSHCommand H cfg a) f) m))"
    using r m1 by (simp add: keeps_def)
qed

lemma keeps_reverse: "keeps P (remoteSSHReverseOutput H K cfg args)"
proof (cases "parseRemoteSSHArgs K args")
  case (Inr a)
  then have "tunnel_ok K a" by (rule parseRemoteSSHArgs_Inr)
  then have i: "safeSessionID (ra_SessionID a)" by (simp add: tunnel_ok_def)
  show ?thesis
    unfolding remoteSSHReverseOutput_def Inr Let_def
    apply (simp only: sum.case)
    apply (rule keeps_bind [OF keeps_get])
    apply (rule keeps_sum)
     apply (rule keeps_return)
    apply (rule keeps_bind [OF keeps_stop_session])
    apply (rule keeps_bind [OF keeps_reads(1)])
    apply (rule keeps_option)
     apply (rule keeps_bind [OF keeps_remove])
      apply (rule not_state_log)
      apply (simp add: i)
     apply (rule keeps_with_client)
      apply (simp only: sum.case prod.case)
      apply (intro keeps_intros keeps_log keeps_start_tunnel)
       apply assumption
      apply (simp add: i)
     apply (simp only: sum.case)
     apply (intro keeps_intros)+
    done
next
  case (Inl e)
  then show ?thesis by (simp add: remoteSSHReverseOutput_def keeps_return)
qed

end


context agent_frame
begin

text \<open>Updates.\<close>

lemma keeps_fetch: "keeps P (fetchUpdateMetadata H url)"
  unfolding fetchUpdateMetadata_def by (intro keeps_intros keeps_http)

lemma keeps_verify: "keeps P (verifyAgentUpdateManifest H C E path args)"
  unfolding verifyAgentUpdateManifest_def by (intro keeps_intros keeps_fetch keeps_board)

lemma keeps_feed: "keeps P (configureManagedOpkgFeed H url)"
  unfolding configureManagedOpkgFeed_def
  by (intro keeps_intros keeps_write keeps_rename) (simp_all add: managed_feed_path_def not_state_path)

lemma keeps_finalize: "keeps P (finalizeAgentPackageOperation H args output code result)"
  unfolding finalizeAgentPackageOperation_def installedAgentPackageVersion_def
  by (intro keeps_intros keeps_tool) (simp_all add: tools_def)

lemma keeps_install: "keeps P (install_package H op args result)"
  unfolding install_package_def
  by (intro keeps_intros keeps_feed keeps_finalize keeps_tool; simp add: tools_def)

lemma keeps_room: "keeps P (rootAvailableKB H)"
  unfolding rootAvailableKB_def by (intro keeps_intros keeps_tool; simp add: tools_def)

lemma keeps_agentPackageOperation: "keeps P (agentPackageOperation H C E cfg op raw)"
  unfolding agentPackageOperation_def Let_def by (intro keeps_intros keeps_verify keeps_install keeps_room)

end


context agent_frame
begin

text \<open>All commands.\<close>

lemma keeps_reboot: "keeps P (scheduleReboot H)"
  unfolding scheduleReboot_def by (intro keeps_intros keeps_start) (simp add: allowed_def)

lemma keeps_wrappers:
  "(\<And>c. keeps P (f c)) \<Longrightarrow> keeps P (uci_with_config args f)"
  "(\<And>u. keeps P (g u)) \<Longrightarrow> keeps P (uci_with_target args g)"
  "(\<And>p. keeps P (f p)) \<Longrightarrow> keeps P (with_package args f)"
  "(\<And>p. keeps P (f p)) \<Longrightarrow> keeps P (with_target args f)"
  unfolding uci_with_config_def uci_with_target_def with_package_def with_target_def
  by (auto intro!: keeps_intros)

lemma keeps_service_restart:
  assumes "safeServiceName s"
  shows "keeps P (execCommand H t (''/etc/init.d/'' @ s) args)"
  by (rule keeps_exec) (use assms in \<open>auto simp: safeServiceName_def init_scripts_def\<close>)

lemma keeps_runCommand: "keeps P (runCommand H L cfg cmd)"
proof -
  have service: "keeps P (if \<not> safeServiceName s then State_Monad.return x else execCommand H t (''/etc/init.d/'' @ s) args)" for s x t args
    by (rule keeps_guard_if) (rule keeps_service_restart, rule notnotD)
  have tool: "keeps P (execCommand H t ''ping'' args)" "keeps P (execCommand H t ''traceroute'' args)" "keeps P (execCommand H t ''ip'' args)"
    "keeps P (execCommand H t ''uci'' args)" for t args
    by (rule keeps_tool, simp add: tools_def)+
  show ?thesis
    unfolding runCommand_def Let_def remoteSSHCloseOutput_def
    by (intro keeps_if keeps_return keeps_runDiagnostics keeps_wrappers keeps_reboot service keeps_runPackageCommand keeps_uciBackupOutput
        keeps_uciPreviewOutput keeps_uciSetOutput keeps_uciCommitConfirmedOutput keeps_uciRestoreOutput keeps_reverse tool
        keeps_stop_session)
qed

lemma keeps_execute: "keeps P (execute_command H L E cfg cmd)"
  unfolding execute_command_def Let_def
  by (intro keeps_intros keeps_runCommand keeps_runFleetProfile keeps_agentPackageOperation keeps_systemBackupOperation)

lemma keeps_deliver: "keeps P (deliverCommandResult H cfg i result)"
  unfolding deliverCommandResult_def sendCommandResult_def postRaw_def spoolCommandResult_def
  by (intro keeps_intros keeps_http keeps_write)

lemma keeps_restart: "keeps P (execCommand H t ''/etc/init.d/rmm-agent'' args)"
  by (rule keeps_exec) (simp add: init_scripts_def)

end


section \<open>Only allowed programs\<close>

lemma keeps_none_start: "\<not> B p \<Longrightarrow> keeps (none_started B tr) (start_program H p)"
  by (auto simp: keeps_def none_started_def start_program_def)

lemma keeps_none_log: "keeps (none_started B tr) (open_log H p)"
  by (auto simp: keeps_def none_started_def open_log_def split: option.split)

lemma keeps_none_timers: "keeps (none_started B tr) (change (\<lambda>m. m\<lparr>m_timers := f m\<rparr>))"
  by (simp add: keeps_def none_started_def)

interpretation listed: agent_frame H cfg "none_started (\<lambda>p. \<not> allowed p) tr" for H cfg tr
  by unfold_locales (auto intro!: keeps_none_files keeps_none_run keeps_none_start keeps_none_log keeps_none_timers)

lemma keeps_none_cleanup: "keeps (none_started B tr) (cleanupCommandState H dir cutoff)"
  unfolding cleanupCommandState_def cleanup_entry_def Let_def by (intro keeps_intros)

lemma keeps_none_persist: "keeps (none_started B tr) (persistCommandResult H path result)"
  unfolding persistCommandResult_def by (intro keeps_intros)

lemma listed_processCommand: "keeps (none_started (\<lambda>p. \<not> allowed p) tr) (processCommand H L E cfg cmd)"
proof -
  have run: "keeps (none_started (\<lambda>p. \<not> allowed p) tr) (run_reserved H L E cfg cmd)"
    unfolding run_reserved_def Let_def
    by (intro keeps_intros keeps_none_persist listed.keeps_execute listed.keeps_deliver listed.keeps_restart)
  have refuse: "keeps (none_started (\<lambda>p. \<not> allowed p) tr) (refuse_replay H cfg cmd)"
    unfolding refuse_replay_def Let_def
    by (intro keeps_intros keeps_none_persist listed.keeps_deliver)
  show ?thesis
    unfolding processCommand_def process_valid_def
    by (auto intro!: keeps_intros keeps_none_cleanup run refuse listed.keeps_deliver split: json.split os_error.split)
qed

text \<open>
  C33. Whatever a command says, the agent starts nothing but programs of a fixed list: the named
  tools, the init scripts of allowlisted services, and for a reboot one fixed shell line. In
  particular no argument of a command ever reaches a shell.
\<close>

theorem processCommand_allowlisted:
  "case run_state (processCommand H L E cfg cmd) m of (e, m') \<Rightarrow>
     \<exists>started. m_trace m' = m_trace m @ started \<and>
       list_all (\<lambda>p. p_name p \<in> set tools \<or> p_name p \<in> set init_scripts \<or> (p_name p = ''sh'' \<and> p_args p = [''-c'', ''sleep 2; reboot''])) started"
  using keepsD [OF listed_processCommand [of "m_trace m" H L E cfg cmd], of m]
  by (auto simp: none_started_def allowed_def split: prod.split)


section \<open>At most once\<close>

text \<open>
  The two files that settle a command. The hypotheses under which they do: time does not run
  backwards, the programs the agent starts leave the two files alone, and they are neither the
  configuration, the guard or the tunnel key, nor in the spool directory.
\<close>

definition command_file :: "agent_config \<Rightarrow> agent_command \<Rightarrow> string \<Rightarrow> bool" where
  "command_file cfg cmd q \<longleftrightarrow> q = result_path cfg cmd \<or> q = marker_path cfg cmd"

definition forward :: "host \<Rightarrow> bool" where
  "forward H \<longleftrightarrow> (\<forall>m p. 0 \<le> snd (snd (snd (h_exec H m p)))) \<and> (\<forall>m rq. 0 \<le> snd (h_http H m rq))"

definition state_safe :: "host \<Rightarrow> agent_config \<Rightarrow> agent_command \<Rightarrow> bool" where
  "state_safe H cfg cmd \<longleftrightarrow> forward H \<and> spares H (\<lambda>p q. command_file cfg cmd q) \<and> safeSessionID (ac_ID cmd) \<and>
     (\<forall>q. command_file cfg cmd q \<longrightarrow> \<not> movable cfg q \<and> \<not> removable cfg q)"

text \<open>
  From the time \<open>t\<close> on the command is settled: thirty days have passed, or one of its files is
  there and not older.
\<close>

definition settled :: "agent_config \<Rightarrow> agent_command \<Rightarrow> time \<Rightarrow> machine \<Rightarrow> bool" where
  "settled cfg cmd t m \<longleftrightarrow> t \<le> m_clock m \<and>
     (t + 30 * 24 * hour < m_clock m \<or> (\<exists>q f. command_file cfg cmd q \<and> file_at m q = Some f \<and> t \<le> f_mtime f))"

lemma settled_mono:
  assumes "settled cfg cmd t m" "m_clock m \<le> m_clock m'"
    and "\<And>q f. command_file cfg cmd q \<Longrightarrow> file_at m q = Some f \<Longrightarrow> t \<le> f_mtime f \<Longrightarrow> \<exists>g. file_at m' q = Some g \<and> t \<le> f_mtime g"
  shows "settled cfg cmd t m'"
proof (cases "t + 30 * 24 * hour < m_clock m")
  case True
  then show ?thesis using assms(1,2) unfolding settled_def by linarith
next
  case False
  then obtain q f where "command_file cfg cmd q" "file_at m q = Some f" "t \<le> f_mtime f"
    using assms(1) unfolding settled_def by blast
  then show ?thesis using assms unfolding settled_def by (meson order_trans)
qed

lemma settled_file:
  assumes "settled cfg cmd t m" "m_clock m \<le> m_clock m'" "\<And>q. command_file cfg cmd q \<Longrightarrow> file_at m' q = file_at m q"
  shows "settled cfg cmd t m'"
  by (rule settled_mono [OF assms(1,2)]) (use assms(3) in simp)

lemma settled_store: "settled cfg cmd t m \<Longrightarrow> settled cfg cmd t (store_data p d m)"
  by (rule settled_mono) (auto simp: settled_def)

lemma settled_del: "settled cfg cmd t m \<Longrightarrow> \<not> command_file cfg cmd p \<Longrightarrow> settled cfg cmd t (del_file p m)"
  by (rule settled_file) auto

lemma settled_put:
  assumes "settled cfg cmd t m" "\<not> command_file cfg cmd q \<or> t \<le> f_mtime f"
  shows "settled cfg cmd t (put_file q f m)"
  by (rule settled_mono [OF assms(1)]) (use assms(2) in auto)

text \<open>The property every command keeps: under the hypotheses, a settled command stays settled.\<close>

definition stays :: "host \<Rightarrow> agent_config \<Rightarrow> agent_command \<Rightarrow> time \<Rightarrow> machine \<Rightarrow> bool" where
  "stays H cfg cmd t m \<longleftrightarrow> (state_safe H cfg cmd \<longrightarrow> settled cfg cmd t m)"

lemma keeps_stays:
  assumes "\<And>m. state_safe H cfg cmd \<Longrightarrow> settled cfg cmd t m \<Longrightarrow> settled cfg cmd t (snd (run_state a m))"
  shows "keeps (stays H cfg cmd t) a"
  using assms by (auto simp: keeps_def stays_def)

lemma command_file_plain:
  assumes "safeSessionID (ac_ID cmd)"
  shows "plain_name (ac_ID cmd @ ''.json'')" "plain_name (ac_ID cmd @ ''.pending'')"
  using safe_id_plain [OF assms] by simp_all

lemma suffix_Join: "plain_name (i @ ext) \<Longrightarrow> HasSuffix (filepath_Join d (i @ ext)) ext"
  by (erule filepath_Join_last [of "i @ ext" d]) (simp add: HasSuffix_def)

lemma command_file_state:
  assumes "safeSessionID (ac_ID cmd)" "command_file cfg cmd q"
  shows "state_path q"
  using assms(2) suffix_Join [OF command_file_plain(1) [OF assms(1)]] suffix_Join [OF command_file_plain(2) [OF assms(1)]]
  unfolding command_file_def result_path_def marker_path_def state_path_def by blast

lemma stays_write: "keeps (stays H cfg cmd t) (os_WriteFile H p d)"
  by (rule keeps_stays) (auto simp: os_runs settled_store split: option.split)

lemma stays_create: "keeps (stays H cfg cmd t) (os_CreateExcl H p)"
  by (rule keeps_stays) (auto simp: os_runs settled_store split: option.split)

lemma stays_move: "\<not> state_path p \<Longrightarrow> movable cfg q \<Longrightarrow> keeps (stays H cfg cmd t) (os_Rename H p q)"
proof (rule keeps_stays)
  fix m
  assume p: "\<not> state_path p" "movable cfg q" and s: "state_safe H cfg cmd" "settled cfg cmd t m"
  have "\<not> command_file cfg cmd p" "\<not> command_file cfg cmd q"
    using p s(1) command_file_state by (auto simp: state_safe_def)
  then show "settled cfg cmd t (snd (run_state (os_Rename H p q) m))"
    using s(2) by (auto simp: os_runs intro!: settled_put settled_del split: option.split)
qed

lemma stays_delete: "removable cfg p \<Longrightarrow> keeps (stays H cfg cmd t) (os_Remove H p)"
  by (rule keeps_stays) (auto simp: os_runs state_safe_def intro!: settled_del split: option.split)

lemma stays_run: "keeps (stays H cfg cmd t) (run_program H g)"
proof (rule keeps_stays)
  fix m
  assume s: "state_safe H cfg cmd" "settled cfg cmd t m"
  obtain x m' where r: "run_state (run_program H g) m = (x, m')" by fastforce
  have "0 \<le> snd (snd (snd (h_exec H m g)))" using s(1) by (simp add: state_safe_def forward_def)
  then have "m_clock m \<le> m_clock m'" using r by (auto simp: run_program_def split: prod.splits)
  moreover have "file_at m' q = file_at m q" if "command_file cfg cmd q" for q
    using run_program_file [of H "\<lambda>p q. command_file cfg cmd q" g q] s(1) that r by (simp add: state_safe_def)
  ultimately show "settled cfg cmd t (snd (run_state (run_program H g) m))" using settled_file s(2) r by simp
qed

lemma stays_http: "keeps (stays H cfg cmd t) (http_do H rq)"
proof (rule keeps_stays)
  fix m
  assume s: "state_safe H cfg cmd" "settled cfg cmd t m"
  have "0 \<le> snd (h_http H m rq)" using s(1) by (simp add: state_safe_def forward_def)
  then show "settled cfg cmd t (snd (run_state (http_do H rq) m))"
    by (intro settled_file [OF s(2)]) (auto simp: http_do_def file_at_def split: prod.splits)
qed

lemma stays_other:
  "keeps (stays H cfg cmd t) (start_program H g)" "keeps (stays H cfg cmd t) (open_log H p)"
  "keeps (stays H cfg cmd t) (change (\<lambda>m. m\<lparr>m_timers := f m\<rparr>))"
proof -
  show "keeps (stays H cfg cmd t) (start_program H g)"
    by (rule keeps_stays, erule settled_file) (simp_all add: start_program_def file_at_def)
  show "keeps (stays H cfg cmd t) (open_log H p)"
    by (rule keeps_stays) (auto simp: open_log_def settled_store split: option.split)
  show "keeps (stays H cfg cmd t) (change (\<lambda>m. m\<lparr>m_timers := f m\<rparr>))"
    by (rule keeps_stays, erule settled_file) (simp_all add: file_at_def)
qed

lemma stays_sleep: "0 \<le> d \<Longrightarrow> keeps (stays H cfg cmd t) (sleep d)"
  by (rule keeps_stays, erule settled_file) (simp_all add: file_at_def)

interpretation once: agent_frame H cfg "stays H cfg cmd t" for H cfg cmd t
  by unfold_locales (simp_all add: stays_write stays_create stays_move stays_delete stays_run stays_http stays_other stays_sleep)


text \<open>Cleaning up leaves what is not thirty days old, and a command's own steps keep it settled.\<close>

lemma stays_cleanup_entry:
  assumes "m_clock m = now" "settled cfg cmd t m"
  shows "settled cfg cmd t (snd (run_state (cleanup_entry H dir (now - 30 * 24 * hour) name) m)) \<and>
    m_clock (snd (run_state (cleanup_entry H dir (now - 30 * 24 * hour) name) m)) = now"
proof -
  have old: "settled cfg cmd t (del_file p m)" if "file_at m p = Some f" "f_mtime f < now - 30 * 24 * hour" for p f
  proof (cases "t + 30 * 24 * hour < m_clock m")
    case True
    then show ?thesis using assms(2) unfolding settled_def by simp
  next
    case False
    then have "f_mtime f < t" using that(2) assms(1) by linarith
    then show ?thesis
      by (intro settled_mono [OF assms(2)]) (use that(1) in auto)
  qed
  show ?thesis
    using assms old by (auto simp: cleanup_entry_def os_runs Let_def split: option.split)
qed

lemma stays_cleanup:
  "m_clock m = now \<Longrightarrow> settled cfg cmd t m \<Longrightarrow>
   settled cfg cmd t (snd (run_state (cleanupCommandState H dir (now - 30 * 24 * hour)) m)) \<and>
   m_clock (snd (run_state (cleanupCommandState H dir (now - 30 * 24 * hour)) m)) = now"
proof -
  have walk: "settled cfg cmd t (snd (run_state (State_Monad.traverse_list (cleanup_entry H dir (now - 30 * 24 * hour)) names) m)) \<and>
      m_clock (snd (run_state (State_Monad.traverse_list (cleanup_entry H dir (now - 30 * 24 * hour)) names) m)) = now"
    if "m_clock m = now" "settled cfg cmd t m" for names m
    using that
  proof (induction names arbitrary: m)
    case (Cons n names)
    show ?case
      using Cons.IH stays_cleanup_entry [OF Cons.prems, of H dir n]
      by (auto split: prod.split) (metis snd_conv)+
  qed simp
  assume "m_clock m = now" "settled cfg cmd t m"
  then show ?thesis
    using walk by (auto simp: cleanupCommandState_def os_ReadDir_def split: sum.split prod.split option.split) (metis snd_conv)+
qed


lemma Join_id:
  assumes "safeSessionID i" "safeSessionID j" "filepath_Join d (i @ e) = filepath_Join d (j @ e')"
    "e = ''.json'' \<or> e = ''.pending''" "e' = ''.json'' \<or> e' = ''.pending''"
  shows "i = j \<and> e = e'"
proof -
  have "CHR ''/'' \<notin> set e" "CHR ''/'' \<notin> set e'" using assms(4,5) by auto
  then have "i @ e = j @ e'"
    using filepath_Join_name safe_id_plain(1) assms(1-3) by metis
  then show ?thesis using assms(4,5) by (auto simp: append_eq_append_conv2 append_eq_Cons_conv Cons_eq_append_conv)
qed

lemma not_state_new: "\<not> state_path (p @ ''.new'')"
  by (rule not_state_path) simp_all

lemma persist_fresh:
  assumes s: "state_safe H cfg cmd" "settled cfg cmd t m"
    and p: "run_state (persistCommandResult H path r) m = (e, m1)"
  shows "settled cfg cmd t m1 \<and> (e = None \<longrightarrow> (\<exists>f. file_at m1 path = Some f \<and> t \<le> f_mtime f))"
proof -
  have new: "\<not> command_file cfg cmd (path @ ''.new'')"
    using command_file_state not_state_new s(1) by (auto simp: state_safe_def)
  have clock: "t \<le> m_clock m" using s(2) by (simp add: settled_def)
  have store: "settled cfg cmd t (store_data (path @ ''.new'') d m)" for d by (rule settled_store [OF s(2)])
  show ?thesis
    using p clock new store s(2)
    by (auto simp: persistCommandResult_def os_runs intro!: settled_put settled_del split: option.splits)
qed

lemma stays_settle:
  assumes "safeSessionID (ac_ID c)" "keeps (stays H cfg cmd t) k" "\<And>e. keeps (stays H cfg cmd t) (h e)"
  shows "keeps (stays H cfg cmd t) (State_Monad.bind (persistCommandResult H (result_path cfg c) r)
    (\<lambda>e. case e of None \<Rightarrow> State_Monad.bind (os_Remove H (marker_path cfg c)) (\<lambda>_. k) | Some e \<Rightarrow> h e))"
proof (rule keeps_stays)
  fix m
  assume s: "state_safe H cfg cmd" "settled cfg cmd t m"
  obtain e m1 where p: "run_state (persistCommandResult H (result_path cfg c) r) m = (e, m1)" by fastforce
  note fresh = persist_fresh [OF s p]
  have removed: "settled cfg cmd t (del_file (marker_path cfg c) m1)" if e: "e = None"
  proof (cases "command_file cfg cmd (marker_path cfg c)")
    case True
    have "result_path cfg c \<noteq> marker_path cfg c"
      using Join_id [OF assms(1) assms(1)] by (auto simp: result_path_def marker_path_def)
    moreover have "command_file cfg cmd (result_path cfg c)"
    proof -
      have "ac_ID c = ac_ID cmd"
        using True Join_id [OF assms(1), of "ac_ID cmd"] s(1)
        by (auto simp: command_file_def result_path_def marker_path_def state_safe_def)
      then show ?thesis by (simp add: command_file_def result_path_def)
    qed
    ultimately show ?thesis using fresh e unfolding settled_def by auto
  next
    case False
    then show ?thesis using fresh by (simp add: settled_del)
  qed
  have step: "settled cfg cmd t (snd (run_state a m'))" if "keeps (stays H cfg cmd t) a" "settled cfg cmd t m'" for a :: "'a act" and m'
    using keepsD [OF that(1), of m'] that(2) s(1) by (simp add: stays_def)
  show "settled cfg cmd t (snd (run_state (State_Monad.bind (persistCommandResult H (result_path cfg c) r)
    (\<lambda>e. case e of None \<Rightarrow> State_Monad.bind (os_Remove H (marker_path cfg c)) (\<lambda>_. k) | Some e \<Rightarrow> h e)) m))"
    using p fresh removed by (auto simp: os_runs intro!: step assms split: option.split)
qed


lemma stays_clean_first:
  assumes "keeps (stays H cfg cmd t) k"
  shows "keeps (stays H cfg cmd t)
    (State_Monad.bind time_Now (\<lambda>now. State_Monad.bind (cleanupCommandState H dir (now - 30 * 24 * hour)) (\<lambda>_. k)))"
proof (rule keeps_stays)
  fix m
  assume s: "state_safe H cfg cmd" "settled cfg cmd t m"
  obtain x m1 where c: "run_state (cleanupCommandState H dir (m_clock m - 30 * 24 * hour)) m = (x, m1)" by (rule prod.exhaust)
  have "settled cfg cmd t m1" using stays_cleanup [OF refl s(2), of H dir] unfolding c by simp
  then show "settled cfg cmd t (snd (run_state
      (State_Monad.bind time_Now (\<lambda>now. State_Monad.bind (cleanupCommandState H dir (now - 30 * 24 * hour)) (\<lambda>_. k))) m))"
    using c keepsD [OF assms, of m1] s(1) by (simp add: stays_def)
qed

lemma stays_refuse:
  assumes "safeSessionID (ac_ID c)"
  shows "keeps (stays H cfg cmd t) (refuse_replay H cfg c)"
  unfolding refuse_replay_def Let_def
  by (rule stays_settle [OF assms]) (intro keeps_intros once.keeps_deliver)+

lemma stays_run_reserved:
  assumes "safeSessionID (ac_ID c)"
  shows "keeps (stays H cfg cmd t) (run_reserved H L E cfg c)"
  unfolding run_reserved_def Let_def
  apply (rule keeps_bind [OF once.keeps_execute])
  apply (rule keeps_prod)+
  apply (rule stays_settle [OF assms])
   apply (intro keeps_intros once.keeps_deliver once.keeps_restart)+
  done

lemma stays_process_valid:
  assumes "safeSessionID (ac_ID c)"
  shows "keeps (stays H cfg cmd t) (process_valid H L E cfg c)"
  unfolding process_valid_def
  apply (rule keeps_bind [OF keeps_reads(1)])
  apply (rule keeps_option)
   apply (rule stays_clean_first)
   apply (auto intro!: keeps_intros stays_run_reserved stays_refuse once.keeps_deliver stays_create assms split: json.split os_error.split)
  done

lemma validate_Inr:
  assumes "validateSignedCommand E cfg cmd now = Inr ()"
  obtains expires where "safeSessionID (ac_ID cmd)" "ac_DeviceID cmd = a_DeviceID cfg" "ac_ExpiresAt cmd = Some expires"
    "now \<le> expires" "ac_CreatedAt cmd \<le> now + 5 * minute" "expires \<le> ac_CreatedAt cmd + 25 * hour"
  using assms by (auto simp: validateSignedCommand_def split: if_splits option.splits)

lemma stays_processCommand: "keeps (stays H cfg cmd t) (processCommand H L E cfg c)"
proof (rule keepsI)
  fix m
  assume "stays H cfg cmd t m"
  then show "stays H cfg cmd t (snd (run_state (processCommand H L E cfg c) m))"
    using keepsD [OF stays_process_valid [of c H cfg cmd t L E], of m]
    by (auto simp: processCommand_def split: sum.split elim: validate_Inr)
qed

text \<open>While a command is settled its processing starts nothing.\<close>

lemma keeps_idle:
  "keeps (none_started (\<lambda>_. True) tr) (deliverCommandResult H cfg i r)"
  "keeps (none_started (\<lambda>_. True) tr) (refuse_replay H cfg c)"
proof -
  show d: "keeps (none_started (\<lambda>_. True) tr) (deliverCommandResult H cfg i r)" for i r
    unfolding deliverCommandResult_def sendCommandResult_def postRaw_def spoolCommandResult_def by (intro keeps_intros)
  show "keeps (none_started (\<lambda>_. True) tr) (refuse_replay H cfg c)"
    unfolding refuse_replay_def Let_def by (intro keeps_intros keeps_none_persist d)
qed

lemma none_started_all: "none_started (\<lambda>_. True) tr m \<longleftrightarrow> m_trace m = tr"
  by (auto simp: none_started_def list_all_iff)

lemma settled_idle:
  assumes "settled cfg cmd t m" "m_clock m \<le> t + 30 * 24 * hour"
  shows "m_trace (snd (run_state (process_valid H L E cfg cmd) m)) = m_trace m"
proof -
  obtain x m1 where c: "run_state (cleanupCommandState H (a_CommandStateDir cfg) (m_clock m - 30 * 24 * hour)) m = (x, m1)"
    by (rule prod.exhaust)
  have "settled cfg cmd t m1" "m_clock m1 = m_clock m"
    using stays_cleanup [OF refl assms(1), of H "a_CommandStateDir cfg"] unfolding c by simp_all
  then have there: "file_at m1 (result_path cfg cmd) \<noteq> None \<or> file_at m1 (marker_path cfg cmd) \<noteq> None"
    using assms(2) by (auto simp: settled_def command_file_def)
  have tr: "m_trace m1 = m_trace m"
    using keepsD [OF keeps_none_cleanup [of "\<lambda>_. True" "m_trace m" H "a_CommandStateDir cfg" "m_clock m - 30 * 24 * hour"], of m]
    unfolding c by (simp add: none_started_all)
  have idle: "m_trace (snd (run_state (deliverCommandResult H cfg i r) m1)) = m_trace m"
    "m_trace (snd (run_state (refuse_replay H cfg cmd) m1)) = m_trace m" for i r
    using keepsD [OF keeps_idle(1) [of "m_trace m1" H cfg i r], of m1] keepsD [OF keeps_idle(2) [of "m_trace m1" H cfg cmd], of m1] tr
    by (simp_all add: none_started_all)
  show ?thesis
    using c there tr idle
    by (auto simp: process_valid_def os_runs no_such_file_def split_def split: option.split json.split)
qed


lemma cleanup_frame:
  assumes "run_state (cleanupCommandState H dir cutoff) m = (x, m')"
  shows "m_clock m' = m_clock m \<and> m_trace m' = m_trace m"
proof -
  have entry: "keeps (\<lambda>m'. m_clock m' = m_clock m \<and> m_trace m' = m_trace m) (cleanup_entry H dir cutoff name)" for name
    by (auto simp: keeps_def cleanup_entry_def os_runs Let_def split: option.split)
  have "keeps (\<lambda>m'. m_clock m' = m_clock m \<and> m_trace m' = m_trace m) (cleanupCommandState H dir cutoff)"
    unfolding cleanupCommandState_def by (intro keeps_intros entry)
  from keepsD_run [OF this _ assms] show ?thesis by simp
qed

text \<open>Without the reservation of the marker nothing is executed.\<close>

lemma unreserved_idle:
  assumes c: "run_state (cleanupCommandState H (a_CommandStateDir cfg) (m_clock m - 30 * 24 * hour)) m = (x, m1)"
    and r: "run_state (process_valid H L E cfg cmd) m = (e, m')" and started: "m_trace m' \<noteq> m_trace m"
  shows "run_state (run_reserved H L E cfg cmd) (store_data (marker_path cfg cmd) [] m1) = (e, m')"
proof -
  note frame = cleanup_frame [OF c]
  have deliver: "m_trace m2 = m_trace m" if "run_state (deliverCommandResult H cfg i d) m1 = (y, m2)" for i d y m2
    using keepsD_run [OF keeps_idle(1) [of "m_trace m1"] _ that] frame by (simp add: none_started_all)
  have refuse: "m_trace m2 = m_trace m" if "run_state (refuse_replay H cfg cmd) m1 = (y, m2)" for y m2
    using keepsD_run [OF keeps_idle(2) [of "m_trace m1"] _ that] frame by (simp add: none_started_all)
  have dir: "h_fault H m OpMkdir (a_CommandStateDir cfg) = None"
    using r started by (cases "h_fault H m OpMkdir (a_CommandStateDir cfg)") (auto simp: process_valid_def os_runs)
  have readable: "h_fault H m1 OpRead (result_path cfg cmd) = None"
    using r started c dir frame
    by (cases "h_fault H m1 OpRead (result_path cfg cmd)") (auto simp: process_valid_def os_runs)
  have no_result: "file_at m1 (result_path cfg cmd) = None"
  proof (cases "file_at m1 (result_path cfg cmd)")
    case (Some f)
    then show ?thesis
      using r started c dir readable frame deliver
      by (auto simp: process_valid_def os_runs split: option.splits json.splits prod.splits)
  qed
  have creates: "h_fault H m1 OpCreate (marker_path cfg cmd) = None"
    using r started c dir readable no_result frame
    by (cases "h_fault H m1 OpCreate (marker_path cfg cmd)") (auto simp: process_valid_def os_runs no_such_file_def)
  have no_marker: "file_at m1 (marker_path cfg cmd) = None"
    using r started c dir readable no_result creates refuse
    by (cases "file_at m1 (marker_path cfg cmd)") (auto simp: process_valid_def os_runs no_such_file_def)
  show ?thesis
    using r c dir readable no_result creates no_marker by (simp add: process_valid_def os_runs no_such_file_def)
qed

text \<open>An execution that started a program leaves its command settled.\<close>

lemma started_settles:
  assumes safe: "state_safe H cfg cmd" and r: "run_state (processCommand H L E cfg cmd) m = (e, m')"
    and started: "m_trace m' \<noteq> m_trace m"
  shows "validateSignedCommand E cfg cmd (m_clock m) = Inr () \<and> settled cfg cmd (m_clock m) m'"
proof -
  obtain x m1 where c: "run_state (cleanupCommandState H (a_CommandStateDir cfg) (m_clock m - 30 * 24 * hour)) m = (x, m1)"
    by (rule prod.exhaust)
  note frame = cleanup_frame [OF c]
  have valid: "validateSignedCommand E cfg cmd (m_clock m) = Inr ()"
    using r started by (cases "validateSignedCommand E cfg cmd (m_clock m)") (auto simp: processCommand_def)
  have r': "run_state (process_valid H L E cfg cmd) m = (e, m')" using r valid by (simp add: processCommand_def)
  have base: "stays H cfg cmd (m_clock m) (store_data (marker_path cfg cmd) [] m1)"
    using frame by (auto simp: stays_def settled_def command_file_def)
  have "keeps (stays H cfg cmd (m_clock m)) (run_reserved H L E cfg cmd)"
    by (rule stays_run_reserved) (use safe in \<open>simp add: state_safe_def\<close>)
  from keepsD_run [OF this base unreserved_idle [OF c r' started]] have "stays H cfg cmd (m_clock m) m'" .
  then show ?thesis using valid safe by (simp add: stays_def)
qed

text \<open>A settled command is not executed again while it is valid.\<close>

lemma settled_once:
  assumes "validateSignedCommand E cfg cmd t = Inr ()" "settled cfg cmd t m"
  shows "m_trace (snd (run_state (processCommand H L E cfg cmd) m)) = m_trace m"
proof (cases "validateSignedCommand E cfg cmd (m_clock m)")
  case (Inr u)
  obtain x where x: "ac_ExpiresAt cmd = Some x" "ac_CreatedAt cmd \<le> t + 5 * minute" "x \<le> ac_CreatedAt cmd + 25 * hour"
    using validate_Inr [OF assms(1)] by metis
  have "m_clock m \<le> x" using Inr x(1) by (auto elim!: validate_Inr)
  then have "m_clock m \<le> t + 30 * 24 * hour" using x(2,3) by simp
  then show ?thesis using settled_idle [OF assms(2)] Inr by (simp add: processCommand_def)
qed (simp add: processCommand_def)

end
