(* ===== verification/AgentInventory.thy ===== *)
theory AgentInventory
  imports AgentRun
begin

text \<open>
  What a heartbeat reports (\<open>agent/go/cmd/rmm-agent/main.go\<close>): the inventory of the router, its
  metrics, the sampled connectivity checks and the health of the agent itself. The host name,
  the link table, \<open>net.ParseIP\<close> and the conversion of floating point numbers are parameters.
\<close>

record inventory_libs =
  il_Hostname :: "machine \<Rightarrow> string option"
  il_links :: "machine \<Rightarrow> (string \<times> string \<times> bool) list"
  il_ParseIP :: "string \<Rightarrow> ip option"
  il_ParseFloat :: "string \<Rightarrow> rat option"
  il_FormatFloat :: "rat \<Rightarrow> string"

section \<open>Texts\<close>

text \<open>\<open>strconv.ParseInt\<close> with the error ignored: zero for no number, the nearest bound out of range.\<close>

definition ParseInt :: "string \<Rightarrow> int" where
  "ParseInt s =
     (let (sign, ds) = (case s of
            c # r \<Rightarrow> if c = CHR ''-'' then (-1, r) else if c = CHR ''+'' then (1, r) else (1, s)
          | [] \<Rightarrow> (1, s))
      in if ds = [] \<or> \<not> list_all digit_char ds then 0
         else max (- (2 ^ 63)) (min (2 ^ 63 - 1) (sign * dec_val ds)))"

definition firstLine :: "string \<Rightarrow> string" where
  "firstLine value = takeWhile (\<lambda>c. c \<noteq> newline) (TrimSpace value)"

definition intField :: "string list \<Rightarrow> nat \<Rightarrow> int" where
  "intField fs index = (if index \<ge> length fs then 0 else ParseInt (fs ! index))"

text \<open>An object that decodes, null as the nil map it gives, or an empty object.\<close>

definition jsonObjectOrEmpty :: "string \<Rightarrow> json" where
  "jsonObjectOrEmpty output =
     (case json_unmarshal output of Some (JObj ms) \<Rightarrow> normal (JObj ms) | Some JNull \<Rightarrow> JNull | _ \<Rightarrow> JObj [])"

definition num :: "int \<Rightarrow> json" where
  "num n = JNum (Itoa n)"

section \<open>Network\<close>

definition hostnameValue :: "inventory_libs \<Rightarrow> string act" where
  "hostnameValue N = ask (\<lambda>m. case il_Hostname N m of
      Some v \<Rightarrow> if TrimSpace v \<noteq> [] then TrimSpace v else ''unknown''
    | None \<Rightarrow> ''unknown'')"

definition displayHostname :: "inventory_libs \<Rightarrow> agent_config \<Rightarrow> string act" where
  "displayHostname N cfg =
     (if TrimSpace (a_HostnameOverride cfg) \<noteq> [] then State_Monad.return (TrimSpace (a_HostnameOverride cfg))
      else do { h \<leftarrow> hostnameValue N; State_Monad.return (h @ TrimSpace (a_HostnameSuffix cfg)) })"

definition bool_text :: "bool \<Rightarrow> string" where
  "bool_text b = (if b then ''true'' else ''false'')"

definition interface_entry :: "(string \<times> string \<times> bool) list \<Rightarrow> string \<Rightarrow> (string \<times> string) list option" where
  "interface_entry links line =
     (let fields = Fields line in
      if length fields < 4 then None
      else let name = TrimSuffix (fields ! 1) '':'';
               link = map_of (rev links) (fst (Cut (CHR ''@'') name))
           in Some ([(''name'', name), (''family'', fields ! 2), (''address'', fields ! 3)] @
                (case link of None \<Rightarrow> [] | Some (mac, up) \<Rightarrow> [(''mac'', mac), (''administrative_up'', bool_text up)])))"

definition interfaces :: "host \<Rightarrow> inventory_libs \<Rightarrow> json act" where
  "interfaces H N = do {
     output \<leftarrow> commandOutput H ''ip'' [''-o'', ''addr'', ''show''];
     links \<leftarrow> ask (il_links N);
     State_Monad.return (JArr (map string_map_json (List.map_filter (interface_entry links) (Split newline output)))) }"

fun after_dev :: "string list \<Rightarrow> string" where
  "after_dev (f # g # fs) = (if f = ''dev'' then g else after_dev (g # fs))"
| "after_dev _ = []"

definition wanIP :: "host \<Rightarrow> string act" where
  "wanIP H = do {
     route \<leftarrow> commandOutput H ''ip'' [''route'', ''show'', ''default''];
     let dev = after_dev (Fields (firstLine route));
     if dev = [] then State_Monad.return []
     else do {
       output \<leftarrow> commandOutput H ''ip'' [''-4'', ''-o'', ''addr'', ''show'', ''dev'', dev];
       let fields = Fields output;
       State_Monad.return (if length fields \<ge> 4 then fields ! 3 else []) } }"

definition lease :: "string \<Rightarrow> (string \<times> string) list option" where
  "lease line =
     (let fields = Fields line in
      if length fields < 5 then None
      else Some [(''expires'', fields ! 0), (''mac'', fields ! 1), (''ip'', fields ! 2), (''hostname'', fields ! 3), (''client_id'', fields ! 4)])"

definition dhcpLeases :: "host \<Rightarrow> ((string \<times> string) list list) act" where
  "dhcpLeases H = do {
     d \<leftarrow> readFileString H ''/tmp/dhcp.leases'';
     State_Monad.return (List.map_filter lease (Split newline d)) }"

text \<open>The last \<open>dev\<close> and \<open>lladdr\<close> of a line count.\<close>

fun neighbor_fields :: "string list \<Rightarrow> (string \<times> string) list \<Rightarrow> (string \<times> string) list" where
  "neighbor_fields (f # g # fs) acc =
     neighbor_fields (g # fs) (if f = ''dev'' then (''interface'', g) # acc else if f = ''lladdr'' then (''mac'', ToUpper g) # acc else acc)"
| "neighbor_fields _ acc = acc"

definition neighbor :: "string \<Rightarrow> (string \<times> string) list option" where
  "neighbor line =
     (let fields = Fields line in
      if length fields < 3 then None
      else let n = neighbor_fields (drop 1 fields) [(''ip'', fields ! 0), (''state'', ToUpper (last fields))]
           in if map_get n ''interface'' = [] then None else Some n)"

definition parseIPNeighbors :: "string \<Rightarrow> (string \<times> string) list list" where
  "parseIPNeighbors output = List.map_filter neighbor (Split newline output)"

definition neighbors :: "host \<Rightarrow> json act" where
  "neighbors H = do {
     output \<leftarrow> commandOutput H ''ip'' [''neigh'', ''show''];
     State_Monad.return (JArr (map string_map_json (parseIPNeighbors output))) }"

text \<open>\<open>net.IP.IsPrivate\<close> of an IPv4 address.\<close>

fun private_ip :: "ip \<Rightarrow> bool" where
  "private_ip (IPv4 a b c d) \<longleftrightarrow> a = 10 \<or> (a = 172 \<and> 16 \<le> b \<and> b < 32) \<or> (a = 192 \<and> b = 168)"
| "private_ip (IPv6 s) \<longleftrightarrow> False"

fun probe_targets :: "(string \<Rightarrow> ip option) \<Rightarrow> string list \<Rightarrow> nat \<Rightarrow> (string \<times> string) list list \<Rightarrow> (string \<times> string) list" where
  "probe_targets parse seen n [] = []"
| "probe_targets parse seen n (l # ls) =
     (case parse (TrimSpace (map_get l ''ip'')) of
        None \<Rightarrow> probe_targets parse seen n ls
      | Some address \<Rightarrow>
          if \<not> private_ip address \<or> ip_text address \<in> set seen then probe_targets parse seen n ls
          else (ip_text address, map_get l ''mac'') #
            (if n \<le> 1 then [] else probe_targets parse (ip_text address # seen) (n - 1) ls))"

definition probe :: "host \<Rightarrow> string \<times> string \<Rightarrow> ((string \<times> string) list) act" where
  "probe H target = do {
     (_, ended) \<leftarrow> run_program H \<lparr>p_name = ''ping'', p_args = [''-c'', ''1'', ''-W'', ''1'', fst target], p_env = [], p_input = [],
        p_timeout = 1500 * (second div 1000)\<rparr>;
     now \<leftarrow> time_Now;
     State_Monad.return [(''ip'', fst target), (''mac'', snd target), (''reachable'', bool_text (ended = Exited 0)), (''checked_at'', RFC3339Nano now)] }"

text \<open>Six probes run at a time; here they run in the order of the targets.\<close>

definition clientProbes :: "host \<Rightarrow> inventory_libs \<Rightarrow> json act" where
  "clientProbes H N = do {
     leases \<leftarrow> dhcpLeases H;
     results \<leftarrow> State_Monad.traverse_list (probe H) (probe_targets (il_ParseIP N) [] 32 leases);
     State_Monad.return (JArr (map string_map_json results)) }"

section \<open>Wireless\<close>

definition mac_char :: "char \<Rightarrow> bool" where
  "mac_char c \<longleftrightarrow> digit_char c \<or> (CHR ''a'' \<le> c \<and> c \<le> CHR ''f'') \<or> (CHR ''A'' \<le> c \<and> c \<le> CHR ''F'')"

definition looksLikeMAC :: "string \<Rightarrow> bool" where
  "looksLikeMAC value =
     (let value = TrimSuffix value '','' in
      length value = 17 \<and> list_all (\<lambda>i. if i mod 3 = 2 then value ! i = CHR '':'' else mac_char (value ! i)) [0..<17])"

definition flush_client :: "(string \<times> string) list option \<Rightarrow> (string \<times> string) list list \<Rightarrow> (string \<times> string) list list" where
  "flush_client current clients =
     (case current of None \<Rightarrow> clients | Some c \<Rightarrow> if map_get c ''mac'' \<noteq> [] then clients @ [c] else clients)"

definition assoc_line :: "string \<Rightarrow> string \<Rightarrow> (string \<times> string) list option \<times> (string \<times> string) list list \<Rightarrow>
    (string \<times> string) list option \<times> (string \<times> string) list list" where
  "assoc_line iface line st =
     (let (current, clients) = st; trimmed = TrimSpace line; fields = Fields trimmed in
      if trimmed = [] then st
      else if fields \<noteq> [] \<and> looksLikeMAC (fields ! 0) then
        (Some ([(''interface'', iface), (''mac'', TrimSuffix (fields ! 0) '','')] @
           (if length fields > 1 then [(''signal_dbm'', TrimSuffix (fields ! 1) '','')] else [])), flush_client current clients)
      else case current of
        None \<Rightarrow> st
      | Some c \<Rightarrow>
          if HasPrefix trimmed ''RX:'' then (Some ((''rx_rate'', TrimSpace (drop 3 trimmed)) # c), clients)
          else if HasPrefix trimmed ''TX:'' then (Some ((''tx_rate'', TrimSpace (drop 3 trimmed)) # c), clients)
          else st)"

definition parseIwinfoAssocList :: "string \<Rightarrow> string \<Rightarrow> (string \<times> string) list list" where
  "parseIwinfoAssocList iface output =
     (let (current, clients) = fold (assoc_line iface) (Split newline output) (None, []) in flush_client current clients)"

fun iface_names :: "string list \<Rightarrow> string list \<Rightarrow> string list" where
  "iface_names seen [] = []"
| "iface_names seen (line # lines) =
     (let fields = Fields line in
      if TrimSpace line = [] \<or> HasPrefix line '' '' \<or> HasPrefix line [CHR 0x09] \<or> fields = [] \<or> hd fields \<in> set seen
      then iface_names seen lines else hd fields # iface_names (hd fields # seen) lines)"

definition iwinfoInterfaces :: "host \<Rightarrow> (string list) act" where
  "iwinfoInterfaces H = do {
     output \<leftarrow> commandOutput H ''iwinfo'' [];
     State_Monad.return (iface_names [] (Split newline output)) }"

definition wifiClients :: "host \<Rightarrow> json act" where
  "wifiClients H = do {
     have_iwinfo \<leftarrow> ask (\<lambda>m. h_look H m ''iwinfo'');
     if \<not> have_iwinfo then State_Monad.return (JArr [])
     else do {
       names \<leftarrow> iwinfoInterfaces H;
       clients \<leftarrow> State_Monad.traverse_list (\<lambda>iface. do {
         assoc \<leftarrow> commandOutput H ''iwinfo'' [iface, ''assoclist''];
         State_Monad.return (parseIwinfoAssocList iface assoc) }) names;
       State_Monad.return (JArr (map string_map_json (concat clients))) } }"

section \<open>Metrics\<close>

definition int_get :: "(string \<times> int) list \<Rightarrow> string \<Rightarrow> int" where
  "int_get m k = (case map_of m k of Some v \<Rightarrow> v | None \<Rightarrow> 0)"

definition meminfo_values :: "string \<Rightarrow> (string \<times> int) list" where
  "meminfo_values text =
     rev (List.map_filter (\<lambda>line. let fields = Fields line in
       if length fields < 2 then None else Some (TrimSuffix (fields ! 0) '':'', ParseInt (fields ! 1))) (Split newline text))"

definition memory_json :: "(string \<times> int) list \<Rightarrow> json" where
  "memory_json values =
     (let total = int_get values ''MemTotal''; available = int_get values ''MemAvailable'';
          used = (if available = 0 then wrap64 (total - int_get values ''MemFree'' - int_get values ''Buffers'' - int_get values ''Cached'')
                  else wrap64 (total - available))
      in JObj [(''available_kb'', num available), (''free_kb'', num (int_get values ''MemFree'')), (''total_kb'', num total), (''used_kb'', num used)])"

definition memoryInfo :: "host \<Rightarrow> json act" where
  "memoryInfo H = do { d \<leftarrow> readFileString H ''/proc/meminfo''; State_Monad.return (memory_json (meminfo_values d)) }"

definition disk_json :: "string \<Rightarrow> json" where
  "disk_json output =
     (let lines = Split newline (TrimSpace output) in
      if length lines < 2 then JObj []
      else let fields = Fields (lines ! 1) in
        if length fields < 5 then JObj []
        else JObj [(''available_kb'', num (ParseInt (fields ! 3))), (''filesystem'', JStr (fields ! 0)), (''total_kb'', num (ParseInt (fields ! 1))),
               (''used_kb'', num (ParseInt (fields ! 2))), (''used_percent'', JStr (fields ! 4))])"

definition diskInfo :: "host \<Rightarrow> json act" where
  "diskInfo H = do { output \<leftarrow> commandOutput H ''df'' [''-k'', ''/'']; State_Monad.return (disk_json output) }"

definition counter_entry :: "string \<Rightarrow> json option" where
  "counter_entry line =
     (case Cut (CHR '':'') (TrimSpace line) of
        (_, None) \<Rightarrow> None
      | (name, Some rest) \<Rightarrow>
          let fields = Fields rest in
          if length fields < 12 then None
          else Some (JObj [(''name'', JStr (TrimSpace name)), (''rx_bytes'', num (intField fields 0)), (''rx_errors'', num (intField fields 2)),
            (''rx_packets'', num (intField fields 1)), (''tx_bytes'', num (intField fields 8)), (''tx_errors'', num (intField fields 10)),
            (''tx_packets'', num (intField fields 9))]))"

text \<open>The first two lines are headings; \<open>None\<close> is the panic when there are fewer.\<close>

definition interfaceCounters :: "host \<Rightarrow> (json option) act" where
  "interfaceCounters H = do {
     d \<leftarrow> readFileString H ''/proc/net/dev'';
     let lines = Split newline d;
     State_Monad.return (if length lines < 2 then None else Some (JArr (List.map_filter counter_entry (drop 2 lines)))) }"

definition packetLossNumber :: "string \<Rightarrow> string" where
  "packetLossNumber value =
     (case Index value ''%'' of
        None \<Rightarrow> []
      | Some percent \<Rightarrow> rev (takeWhile (\<lambda>c. digit_char c \<or> c = CHR ''.'') (rev (TrimSpace (take percent value)))))"

definition parsePacketLoss :: "inventory_libs \<Rightarrow> string \<Rightarrow> rat" where
  "parsePacketLoss N output =
     (case List.map_filter (\<lambda>part. if Contains part ''packet loss'' then il_ParseFloat N (packetLossNumber part) else None) (Split (CHR '','') output) of
        [] \<Rightarrow> 100
      | v # _ \<Rightarrow> v)"

definition latency_of :: "inventory_libs \<Rightarrow> string \<Rightarrow> rat option" where
  "latency_of N line =
     (if \<not> Contains line ''min/avg/max'' \<and> \<not> Contains line ''round-trip'' then None
      else let parts = Split (CHR ''='') line in
        if length parts < 2 then None
        else let values = Split (CHR ''/'') (TrimSpace (parts ! 1)) in
          if length values < 2 then None else il_ParseFloat N (TrimSpace (values ! 1)))"

definition parseLatency :: "inventory_libs \<Rightarrow> string \<Rightarrow> rat" where
  "parseLatency N output = (case List.map_filter (latency_of N) (Split newline output) of [] \<Rightarrow> 0 | v # _ \<Rightarrow> v)"

definition connectivity_check :: "host \<Rightarrow> inventory_libs \<Rightarrow> string \<Rightarrow> (json list) act" where
  "connectivity_check H N target =
     (let target = TrimSpace target in
      if target = [] then State_Monad.return []
      else do {
        output \<leftarrow> commandOutput H ''ping'' [''-c'', ''3'', ''-W'', ''2'', target];
        let loss = parsePacketLoss N output;
        State_Monad.return [JObj [(''latency_ms'', JNum (il_FormatFloat N (parseLatency N output))),
          (''packet_loss_percent'', JNum (il_FormatFloat N loss)), (''reachable'', JBool (loss < 100)), (''target'', JStr target)]] })"

definition connectivityChecks :: "host \<Rightarrow> inventory_libs \<Rightarrow> string list \<Rightarrow> (json list) act" where
  "connectivityChecks H N targets = do {
     checks \<leftarrow> State_Monad.traverse_list (connectivity_check H N) targets;
     State_Monad.return (concat checks) }"

fun clean_targets :: "string list \<Rightarrow> string list \<Rightarrow> string list" where
  "clean_targets seen [] = []"
| "clean_targets seen (t # ts) =
     (let t = TrimSpace t in if t = [] \<or> t \<in> set seen then clean_targets seen ts else t # clean_targets (t # seen) ts)"

definition effectiveCheckTargets :: "string list \<Rightarrow> string \<Rightarrow> string list" where
  "effectiveCheckTargets targets serverTarget =
     (let result = clean_targets [] targets
      in if serverTarget \<noteq> [] \<and> serverTarget \<notin> set result then result @ [serverTarget] else result)"

text \<open>\<open>url.URL.Hostname\<close>.\<close>

definition url_Hostname :: "URL \<Rightarrow> string" where
  "url_Hostname u =
     (let host = u_Host u;
          host = (case LastIndex (CHR '':'') host of
                    None \<Rightarrow> host
                  | Some i \<Rightarrow> if validOptionalPort (drop i host) then take i host else host)
      in if HasPrefix host ''['' \<and> HasSuffix host '']'' then butlast (tl host) else host)"

definition serverCheckTarget :: "inventory_libs \<Rightarrow> string \<Rightarrow> string" where
  "serverCheckTarget N serverURL =
     (case url_Parse (TrimSpace serverURL) of
        None \<Rightarrow> []
      | Some u \<Rightarrow>
          let host = (if url_Hostname u = [] then u_Host u else url_Hostname u)
          in if host = [] then [] else case il_ParseIP N host of Some address \<Rightarrow> ip_text address | None \<Rightarrow> TrimSpace host)"

record connectivitySampler =
  cs_checks :: "json list option"
  cs_targets :: "string list"
  cs_nextCheckAt :: time

definition current_checks :: "host \<Rightarrow> inventory_libs \<Rightarrow> connectivitySampler \<Rightarrow> time \<Rightarrow> time \<Rightarrow> string list \<Rightarrow> (json list \<times> connectivitySampler) act" where
  "current_checks H N s now interval targets =
     (case (if now \<ge> cs_nextCheckAt s \<or> cs_targets s \<noteq> targets then None else cs_checks s) of
        Some checks \<Rightarrow> State_Monad.return (checks, s)
      | None \<Rightarrow> do {
          checks \<leftarrow> connectivityChecks H N targets;
          State_Monad.return (checks, \<lparr>cs_checks = Some checks, cs_targets = targets, cs_nextCheckAt = now + interval\<rparr>) })"

section \<open>Health of the agent\<close>

record agentRuntimeHealth =
  ah_StartedAt :: time
  ah_ConsecutiveFailures :: int
  ah_LastHeartbeatError :: string
  ah_LastHeartbeatErrorAt :: time
  ah_LastHeartbeatSuccess :: time

definition recordFailure :: "string \<Rightarrow> time \<Rightarrow> agentRuntimeHealth \<Rightarrow> agentRuntimeHealth" where
  "recordFailure e now h = h\<lparr>ah_ConsecutiveFailures := ah_ConsecutiveFailures h + 1,
     ah_LastHeartbeatError := take 512 (TrimSpace e), ah_LastHeartbeatErrorAt := now\<rparr>"

definition recordSuccess :: "time \<Rightarrow> agentRuntimeHealth \<Rightarrow> agentRuntimeHealth" where
  "recordSuccess now h = h\<lparr>ah_ConsecutiveFailures := 0, ah_LastHeartbeatSuccess := now\<rparr>"

definition pendingResultCount :: "host \<Rightarrow> string \<Rightarrow> int act" where
  "pendingResultCount H dir = do {
     r \<leftarrow> os_ReadDir H dir;
     State_Monad.return (case r of Inl _ \<Rightarrow> 0 | Inr names \<Rightarrow> int (length (filter (\<lambda>n. HasSuffix n ''.json'') names))) }"

definition snapshot :: "host \<Rightarrow> string \<Rightarrow> agentRuntimeHealth \<Rightarrow> json act" where
  "snapshot H spoolDir h = do {
     pending \<leftarrow> pendingResultCount H spoolDir;
     State_Monad.return (JObj (with_details
       ((if \<not> IsZero (ah_LastHeartbeatSuccess h) then [(''last_heartbeat_success_at'', JStr (RFC3339 (ah_LastHeartbeatSuccess h)))] else []) @
        (if ah_LastHeartbeatError h \<noteq> [] then [(''last_heartbeat_error'', JStr (ah_LastHeartbeatError h)),
           (''last_heartbeat_error_at'', JStr (RFC3339 (ah_LastHeartbeatErrorAt h)))] else []))
       [(''consecutive_failures'', num (ah_ConsecutiveFailures h)), (''pending_results'', num pending), (''started_at'', JStr (RFC3339 (ah_StartedAt h)))])) }"

section \<open>The report\<close>

definition tunnelPublicKey :: "host \<Rightarrow> string \<Rightarrow> string act" where
  "tunnelPublicKey H identityPath = do {
     r \<leftarrow> os_ReadFile H (identityPath @ ''.pub'');
     State_Monad.return (case r of
       Inl _ \<Rightarrow> []
     | Inr d \<Rightarrow> let fields = Fields d in
         if length d > 1024 \<or> length fields < 2 \<or> fields ! 0 \<noteq> ''ssh-ed25519'' then [] else fields ! 0 @ '' '' @ fields ! 1) }"

definition rmm_features :: "string list" where
  "rmm_features = [''agent_update_release_line_25_12'', ''network_topology'', ''diagnostic_report'', ''remote_access_modes'',
     ''uci_profile_preview'', ''uci_profile_apply'', ''uci_profile_rollback'']"

definition buildInventory :: "host \<Rightarrow> inventory_libs \<Rightarrow> agent_config \<Rightarrow> json act" where
  "buildInventory H N cfg = do {
     hostname \<leftarrow> displayHostname N cfg;
     version \<leftarrow> openwrtVersion H;
     pm \<leftarrow> packageManager H;
     release \<leftarrow> openwrtRelease H;
     target \<leftarrow> openwrtTarget H;
     board \<leftarrow> commandOutput H ''ubus'' [''call'', ''system'', ''board''];
     links \<leftarrow> interfaces H N;
     route \<leftarrow> commandOutput H ''ip'' [''route'', ''show'', ''default''];
     wan \<leftarrow> wanIP H;
     leases \<leftarrow> dhcpLeases H;
     near \<leftarrow> neighbors H;
     wifi \<leftarrow> wifiClients H;
     probes \<leftarrow> clientProbes H N;
     key \<leftarrow> tunnelPublicKey H (a_TunnelIdentity cfg);
     State_Monad.return (JObj (with_details
       ([(''hostname'', JStr hostname), (''openwrt_version'', JStr version), (''agent_version'', JStr agentVersion), (''agent_runtime'', JStr ''go''),
         (''rmm_features'', JArr (map JStr rmm_features)), (''agent_package'', JStr ''rmm-agent-go-production''), (''package_manager'', JStr pm),
         (''openwrt_release'', JStr release), (''target'', JStr target), (''board'', jsonObjectOrEmpty board), (''interfaces'', links),
         (''default_route'', JStr (firstLine route)), (''wan_ip'', JStr wan), (''dhcp_leases'', JArr (map string_map_json leases)),
         (''neighbors'', near), (''wifi_clients'', wifi), (''client_probes'', probes)] @
        (if key \<noteq> [] then [(''tunnel_public_key'', JStr key), (''tunnel_key_epoch'', num (a_TunnelKeyEpoch cfg))] else [])) [])) }"

definition buildMetrics ::
  "host \<Rightarrow> inventory_libs \<Rightarrow> agent_config \<Rightarrow> json \<Rightarrow> connectivitySampler \<Rightarrow> (json option \<times> connectivitySampler) act" where
  "buildMetrics H N cfg agentHealth s = do {
     let serverTarget = serverCheckTarget N (a_ServerURL cfg);
     now \<leftarrow> time_Now;
     (checks, s) \<leftarrow> current_checks H N s now (wrap64 (a_CheckIntervalSeconds cfg * second)) (effectiveCheckTargets (a_CheckTargets cfg) serverTarget);
     system \<leftarrow> commandOutput H ''ubus'' [''call'', ''system'', ''info''];
     loadavg \<leftarrow> readFileString H ''/proc/loadavg'';
     uptime \<leftarrow> readFileString H ''/proc/uptime'';
     memory \<leftarrow> memoryInfo H;
     disk \<leftarrow> diskInfo H;
     counters \<leftarrow> interfaceCounters H;
     State_Monad.return (map_option (\<lambda>c. JObj (with_details
       [(''system'', jsonObjectOrEmpty system), (''loadavg'', JStr (TrimSpace loadavg)), (''uptime'', JStr (TrimSpace uptime)), (''memory'', memory),
        (''disk'', disk), (''interface_counters'', c), (''connectivity_checks'', JArr checks), (''server_check_target'', JStr serverTarget),
        (''agent_health'', agentHealth)] [])) counters, s) }"


section \<open>Bounds\<close>

text \<open>At most thirty-two clients are probed, each once.\<close>

lemma probe_targets_bounded:
  "0 < n \<Longrightarrow> length (probe_targets parse seen n ls) \<le> n \<and> distinct (map fst (probe_targets parse seen n ls)) \<and>
     set (map fst (probe_targets parse seen n ls)) \<inter> set seen = {}"
proof (induction parse seen n ls rule: probe_targets.induct)
  case (2 parse seen n l ls)
  show ?case
  proof (cases "parse (TrimSpace (map_get l ''ip''))")
    case None
    then show ?thesis using 2 by simp
  next
    case (Some a)
    show ?thesis
    proof (cases "\<not> private_ip a \<or> ip_text a \<in> set seen")
      case True
      then show ?thesis using 2 Some by auto
    next
      case False
      then show ?thesis using 2(3) [OF Some] 2(4) Some by (cases "n \<le> 1") auto
    qed
  qed
qed simp

text \<open>Without a readable counter table the agent does not survive its heartbeat.\<close>

lemma unreadable_counters_panic:
  assumes "h_fault H m OpRead ''/proc/net/dev'' = Some e"
  shows "run_state (interfaceCounters H) m = (None, m)"
  using assms by (simp add: interfaceCounters_def readFileString_def os_runs)

section \<open>What the report respects\<close>

context agent_frame
begin

lemma keeps_output: "name \<in> set tools \<Longrightarrow> keeps P (commandOutput H name args)"
  by (rule keeps_tool)

lemma keeps_probe: "keeps P (probe H t)"
  unfolding probe_def by (intro keeps_intros keeps_run) (simp add: allowed_def tools_def)

lemma keeps_network:
  "keeps P (interfaces H N)" "keeps P (wanIP H)" "keeps P (dhcpLeases H)" "keeps P (neighbors H)" "keeps P (clientProbes H N)"
  unfolding interfaces_def wanIP_def dhcpLeases_def neighbors_def clientProbes_def Let_def
  by (intro keeps_intros keeps_output keeps_probe; simp add: tools_def)+

lemma keeps_wireless: "keeps P (wifiClients H)"
  unfolding wifiClients_def iwinfoInterfaces_def by (intro keeps_intros keeps_output; simp add: tools_def)

lemma keeps_connectivity: "keeps P (current_checks H N s now interval targets)"
  unfolding current_checks_def connectivityChecks_def connectivity_check_def Let_def
  by (intro keeps_intros keeps_output; simp add: tools_def)

lemma keeps_readings:
  "keeps P (memoryInfo H)" "keeps P (diskInfo H)" "keeps P (interfaceCounters H)" "keeps P (tunnelPublicKey H p)"
  "keeps P (displayHostname N cfg')" "keeps P (snapshot H dir h)"
  unfolding memoryInfo_def diskInfo_def interfaceCounters_def tunnelPublicKey_def displayHostname_def hostnameValue_def
    snapshot_def pendingResultCount_def Let_def
  by (intro keeps_intros keeps_output; simp add: tools_def)+

lemma keeps_buildInventory: "keeps P (buildInventory H N cfg')"
  unfolding buildInventory_def
  by (intro keeps_intros keeps_network keeps_wireless keeps_readings keeps_board keeps_output; simp add: tools_def)

lemma keeps_buildMetrics: "keeps P (buildMetrics H N cfg' health s)"
  unfolding buildMetrics_def Let_def
  by (intro keeps_intros keeps_connectivity keeps_readings keeps_output; simp add: tools_def)

end

end
