(* ===== verification/AgentLoop.thy ===== *)
theory AgentLoop
  imports AgentInventory
begin

text \<open>
  The life of the agent (\<open>agent/go/cmd/rmm-agent/main.go\<close>): enrolment, the heartbeat with the
  rotation of its keys and credentials, spooled results, the wait between heartbeats, and what
  holds over a whole life: a command is executed at most once.
\<close>

section \<open>Requests\<close>

definition postJSON :: "host \<Rightarrow> string \<Rightarrow> string \<Rightarrow> json \<Rightarrow> (json \<Rightarrow> 'r option) \<Rightarrow> (string + 'r) act" where
  "postJSON H url token body decode = do {
     r \<leftarrow> postRaw H url token (print_json body);
     State_Monad.return (case r of
       Inl e \<Rightarrow> Inl e
     | Inr (status, d) \<Rightarrow>
         if status < 200 \<or> status \<ge> 300 then Inl (''HTTP '' @ Itoa status @ '': '' @ TrimSpace d)
         else case Option.bind (json_unmarshal d) decode of None \<Rightarrow> Inl ''json: cannot unmarshal'' | Some x \<Rightarrow> Inr x) }"

definition postRawJSONStatus :: "host \<Rightarrow> string \<Rightarrow> string \<Rightarrow> string \<Rightarrow> (string + int) act" where
  "postRawJSONStatus H url token d = do {
     r \<leftarrow> http_do H \<lparr>rq_method = ''POST'', rq_url = url,
            rq_headers = (''Content-Type'', ''application/json'') # (if token \<noteq> [] then [(''Authorization'', ''Bearer '' @ token)] else []),
            rq_body = d\<rparr>;
     State_Monad.return (case r of NetError e \<Rightarrow> Inl e | Reply status _ _ \<Rightarrow> Inr status) }"

section \<open>Spooled results\<close>

definition flush_entry :: "host \<Rightarrow> agent_config \<Rightarrow> string \<Rightarrow> unit act" where
  "flush_entry H cfg name =
     (if \<not> HasSuffix name ''.json'' then State_Monad.return ()
      else do {
        let path = filepath_Join (a_SpoolDir cfg) name;
        r \<leftarrow> os_ReadFile H path;
        case r of
          Inl _ \<Rightarrow> State_Monad.return ()
        | Inr d \<Rightarrow> do {
            r \<leftarrow> postRawJSONStatus H (result_url cfg (TrimSuffix name ''.json'')) (a_DeviceToken cfg) d;
            case r of
              Inl _ \<Rightarrow> State_Monad.return ()
            | Inr status \<Rightarrow>
                if (200 \<le> status \<and> status < 300) \<or> (400 \<le> status \<and> status < 500)
                then do { _ \<leftarrow> os_Remove H path; State_Monad.return () }
                else State_Monad.return () } })"

definition flushSpooledResults :: "host \<Rightarrow> agent_config \<Rightarrow> (os_error option) act" where
  "flushSpooledResults H cfg = do {
     r \<leftarrow> os_ReadDir H (a_SpoolDir cfg);
     case r of
       Inl (ErrNotExist _) \<Rightarrow> State_Monad.return None
     | Inl e \<Rightarrow> State_Monad.return (Some e)
     | Inr names \<Rightarrow> do { _ \<leftarrow> State_Monad.traverse_list (flush_entry H cfg) names; State_Monad.return None } }"

section \<open>The tunnel identity\<close>

text \<open>\<open>Some\<close> is the error.\<close>

definition rotateTunnelIdentity :: "host \<Rightarrow> string \<Rightarrow> (string option) act" where
  "rotateTunnelIdentity H path = do {
     e \<leftarrow> os_MkdirAll H (filepath_Dir path);
     case e of
       Some e \<Rightarrow> State_Monad.return (Some (Error e))
     | None \<Rightarrow> do {
         let temporary = path @ ''.new'';
         _ \<leftarrow> os_Remove H temporary;
         _ \<leftarrow> os_Remove H (temporary @ ''.pub'');
         (output, code) \<leftarrow> execCommand H (15 * second) ''ssh-keygen''
            [''-q'', ''-t'', ''ed25519'', ''-N'', [], ''-C'', ''rmm-device-tunnel'', ''-f'', temporary];
         if code \<noteq> 0 then State_Monad.return (Some (''generate Ed25519 tunnel key: '' @ TrimSpace output))
         else do {
           e \<leftarrow> os_Chmod H temporary;
           case e of
             Some e \<Rightarrow> State_Monad.return (Some (Error e))
           | None \<Rightarrow> do {
               e \<leftarrow> os_Chmod H (temporary @ ''.pub'');
               case e of
                 Some e \<Rightarrow> State_Monad.return (Some (Error e))
               | None \<Rightarrow> do {
                   e \<leftarrow> os_Rename H temporary path;
                   case e of
                     Some e \<Rightarrow> State_Monad.return (Some (Error e))
                   | None \<Rightarrow> do {
                       e \<leftarrow> os_Rename H (temporary @ ''.pub'') (path @ ''.pub'');
                       State_Monad.return (map_option Error e) } } } } }
   }"

definition ensureTunnelIdentity :: "host \<Rightarrow> string \<Rightarrow> (string option) act" where
  "ensureTunnelIdentity H path =
     (if TrimSpace path = [] then State_Monad.return (Some ''tunnel device identity path is empty'')
      else do {
        there \<leftarrow> fileExists H path;
        if \<not> there then rotateTunnelIdentity H path
        else do {
          _ \<leftarrow> os_Chmod H path;
          key \<leftarrow> tunnelPublicKey H path;
          if key \<noteq> [] then State_Monad.return None
          else do {
            (output, code) \<leftarrow> execCommand H (10 * second) ''ssh-keygen'' [''-y'', ''-f'', path];
            if code \<noteq> 0 then State_Monad.return (Some (''derive tunnel public key: '' @ TrimSpace output))
            else do {
              e \<leftarrow> os_WriteFile H (path @ ''.pub'') (TrimSpace output @ [newline]);
              State_Monad.return (map_option Error e) } } } })"

section \<open>Enrolment\<close>

record enrollResponse =
  er_DeviceID :: string
  er_DeviceToken :: string
  er_CommandSigningPublicKey :: string
  er_CommandSigningKeyID :: string
  er_DeviceTokenEpoch :: int

definition decode_enroll :: "json \<Rightarrow> enrollResponse option" where
  "decode_enroll j =
     Option.bind (string_field ''device_id'' j) (\<lambda>d.
     Option.bind (string_field ''device_token'' j) (\<lambda>t.
     Option.bind (string_field ''command_signing_public_key'' j) (\<lambda>k.
     Option.bind (string_field ''command_signing_key_id'' j) (\<lambda>i.
     Option.bind (decode_field to_int ''device_token_epoch'' 0 j) (\<lambda>e.
       Some \<lparr>er_DeviceID = d, er_DeviceToken = t, er_CommandSigningPublicKey = k, er_CommandSigningKeyID = i, er_DeviceTokenEpoch = e\<rparr>)))))"

definition accept_enrollment :: "env \<Rightarrow> agent_config \<Rightarrow> enrollResponse \<Rightarrow> string + agent_config" where
  "accept_enrollment E cfg resp =
     (if er_DeviceID resp = [] \<or> er_DeviceToken resp = [] then Inl ''server returned empty device credentials''
      else case pinCommandSigningKey E cfg (er_CommandSigningPublicKey resp) (er_CommandSigningKeyID resp) of
        Inl e \<Rightarrow> Inl (''command signing key: '' @ err_text e)
      | Inr (_, cfg) \<Rightarrow> Inr (cfg\<lparr>a_DeviceID := er_DeviceID resp, a_DeviceToken := er_DeviceToken resp,
          a_DeviceTokenEpoch := (if er_DeviceTokenEpoch resp \<le> 0 then 1 else er_DeviceTokenEpoch resp), a_EnrollmentToken := []\<rparr>))"

definition enroll :: "host \<Rightarrow> env \<Rightarrow> inventory_libs \<Rightarrow> agent_config \<Rightarrow> (string + agent_config) act" where
  "enroll H E N cfg = do {
     hostname \<leftarrow> displayHostname N cfg;
     version \<leftarrow> openwrtVersion H;
     r \<leftarrow> postJSON H (a_ServerURL cfg @ ''/api/agent/enroll'') []
       (string_map_json [(''enrollment_token'', a_EnrollmentToken cfg), (''hostname'', hostname), (''openwrt_version'', version)]) decode_enroll;
     State_Monad.return (bindE r (accept_enrollment E cfg)) }"

definition clearUCIEnrollmentGrant :: "host \<Rightarrow> unit act" where
  "clearUCIEnrollmentGrant H = do {
     have_uci \<leftarrow> ask (\<lambda>m. h_look H m ''uci'');
     if \<not> have_uci then State_Monad.return ()
     else do {
       _ \<leftarrow> run_program H \<lparr>p_name = ''uci'', p_args = [''-q'', ''delete'', ''rmm-agent.main.enrollment_token''], p_env = [], p_input = [], p_timeout = 0\<rparr>;
       _ \<leftarrow> run_program H \<lparr>p_name = ''uci'', p_args = [''-q'', ''commit'', ''rmm-agent''], p_env = [], p_input = [], p_timeout = 0\<rparr>;
       State_Monad.return () } }"

section \<open>Heartbeats\<close>

text \<open>
  The raw text of the arguments is represented by the compact text of its value; the agent only
  ever decodes it again.
\<close>

definition to_raw :: "RawMessage \<Rightarrow> json \<Rightarrow> RawMessage option" where
  "to_raw old v = Some (print_json v)"

definition to_time_pointer :: "time option \<Rightarrow> json \<Rightarrow> time option option" where
  "to_time_pointer old v = (case v of JStr s \<Rightarrow> map_option Some (time_Parse s) | JNull \<Rightarrow> Some None | _ \<Rightarrow> None)"

definition decode_command :: "json \<Rightarrow> agent_command option" where
  "decode_command j =
     Option.bind (string_field ''id'' j) (\<lambda>i.
     Option.bind (string_field ''device_id'' j) (\<lambda>d.
     Option.bind (string_field ''type'' j) (\<lambda>t.
     Option.bind (decode_field to_raw ''args'' [] j) (\<lambda>a.
     Option.bind (decode_field to_time ''created_at'' zero_time j) (\<lambda>c.
     Option.bind (decode_field to_time_pointer ''expires_at'' None j) (\<lambda>x.
     Option.bind (string_field ''nonce'' j) (\<lambda>n.
     Option.bind (string_field ''signature_key_id'' j) (\<lambda>k.
     Option.bind (string_field ''signature'' j) (\<lambda>s.
       Some \<lparr>ac_ID = i, ac_DeviceID = d, ac_Type = t, ac_Args = a, ac_CreatedAt = c, ac_ExpiresAt = x, ac_Nonce = n,
             ac_SignatureKeyID = k, ac_Signature = s\<rparr>)))))))))"

definition to_commands :: "agent_command list \<Rightarrow> json \<Rightarrow> agent_command list option" where
  "to_commands old v = (case v of JArr vs \<Rightarrow> all_some (map decode_command vs) | JNull \<Rightarrow> Some [] | _ \<Rightarrow> None)"

record heartbeatResponse =
  hr_Commands :: "agent_command list"
  hr_TunnelKeyEpoch :: int
  hr_CommandSigningPublicKey :: string
  hr_CommandSigningKeyID :: string
  hr_NextDeviceToken :: string
  hr_DeviceTokenEpoch :: int

definition decode_heartbeat :: "json \<Rightarrow> heartbeatResponse option" where
  "decode_heartbeat j =
     Option.bind (decode_field to_commands ''commands'' [] j) (\<lambda>c.
     Option.bind (decode_field to_int ''tunnel_key_epoch'' 0 j) (\<lambda>t.
     Option.bind (string_field ''command_signing_public_key'' j) (\<lambda>k.
     Option.bind (string_field ''command_signing_key_id'' j) (\<lambda>i.
     Option.bind (string_field ''next_device_token'' j) (\<lambda>n.
     Option.bind (decode_field to_int ''device_token_epoch'' 0 j) (\<lambda>e.
       Some \<lparr>hr_Commands = c, hr_TunnelKeyEpoch = t, hr_CommandSigningPublicKey = k, hr_CommandSigningKeyID = i,
             hr_NextDeviceToken = n, hr_DeviceTokenEpoch = e\<rparr>))))))"

text \<open>
  How a heartbeat ends. The settings change in memory as it goes on, whether or not they could be
  saved, so each part gives the settings as well.
\<close>

datatype beat = Beat | BeatFailed string | BeatPanic

definition adopt_key :: "host \<Rightarrow> env \<Rightarrow> agent_config \<Rightarrow> heartbeatResponse \<Rightarrow> (string option \<times> agent_config) act" where
  "adopt_key H E cfg resp =
     (case pinCommandSigningKey E cfg (hr_CommandSigningPublicKey resp) (hr_CommandSigningKeyID resp) of
        Inl e \<Rightarrow> State_Monad.return (Some (''command signing key: '' @ err_text e), cfg)
      | Inr (changed, cfg) \<Rightarrow>
          if \<not> changed then State_Monad.return (None, cfg)
          else do {
            e \<leftarrow> saveConfig H cfg;
            State_Monad.return (map_option (\<lambda>e. ''save command signing key: '' @ Error e) e, cfg) })"

definition adopt_token :: "host \<Rightarrow> agent_config \<Rightarrow> heartbeatResponse \<Rightarrow> (string option \<times> agent_config) act" where
  "adopt_token H cfg resp =
     (if hr_NextDeviceToken resp = [] then State_Monad.return (None, cfg)
      else if hr_DeviceTokenEpoch resp \<le> a_DeviceTokenEpoch cfg
      then State_Monad.return (Some ''server returned a stale device credential'', cfg)
      else do {
        let cfg = cfg\<lparr>a_DeviceToken := hr_NextDeviceToken resp, a_DeviceTokenEpoch := hr_DeviceTokenEpoch resp\<rparr>;
        e \<leftarrow> saveConfig H cfg;
        State_Monad.return (map_option (\<lambda>e. ''save rotated device credential: '' @ Error e) e, cfg) })"

definition adopt_tunnel_key :: "host \<Rightarrow> agent_config \<Rightarrow> heartbeatResponse \<Rightarrow> (string option \<times> agent_config) act" where
  "adopt_tunnel_key H cfg resp =
     (if hr_TunnelKeyEpoch resp \<le> 0 \<or> hr_TunnelKeyEpoch resp = a_TunnelKeyEpoch cfg then State_Monad.return (None, cfg)
      else do {
        stopAllRemoteSSHSessions H cfg;
        e \<leftarrow> rotateTunnelIdentity H (a_TunnelIdentity cfg);
        case e of
          Some e \<Rightarrow> State_Monad.return (Some (''rotate tunnel identity: '' @ e), cfg)
        | None \<Rightarrow> do {
            let cfg = cfg\<lparr>a_TunnelKeyEpoch := hr_TunnelKeyEpoch resp\<rparr>;
            e \<leftarrow> saveConfig H cfg;
            State_Monad.return (map_option (\<lambda>e. ''save tunnel key epoch: '' @ Error e) e, cfg) } })"

definition handle_response ::
  "host \<Rightarrow> agent_libs \<Rightarrow> env \<Rightarrow> agent_config \<Rightarrow> heartbeatResponse \<Rightarrow> (beat \<times> agent_config) act" where
  "handle_response H L E cfg resp = do {
     (e, cfg) \<leftarrow> adopt_key H E cfg resp;
     case e of Some e \<Rightarrow> State_Monad.return (BeatFailed e, cfg)
     | None \<Rightarrow> do {
         (e, cfg) \<leftarrow> adopt_token H cfg resp;
         case e of Some e \<Rightarrow> State_Monad.return (BeatFailed e, cfg)
         | None \<Rightarrow> do {
             (e, cfg) \<leftarrow> adopt_tunnel_key H cfg resp;
             case e of Some e \<Rightarrow> State_Monad.return (BeatFailed e, cfg)
             | None \<Rightarrow> do {
                 _ \<leftarrow> State_Monad.traverse_list (processCommand H L E cfg) (hr_Commands resp);
                 State_Monad.return (Beat, cfg) } } } }"

definition heartbeatOnce ::
  "host \<Rightarrow> agent_libs \<Rightarrow> env \<Rightarrow> inventory_libs \<Rightarrow> agent_config \<Rightarrow> json \<Rightarrow> connectivitySampler \<Rightarrow>
   (beat \<times> agent_config \<times> connectivitySampler) act" where
  "heartbeatOnce H L E N cfg agentHealth s = do {
     _ \<leftarrow> flushSpooledResults H cfg;
     inventory \<leftarrow> buildInventory H N cfg;
     (metrics, s) \<leftarrow> buildMetrics H N cfg agentHealth s;
     case metrics of
       None \<Rightarrow> State_Monad.return (BeatPanic, cfg, s)
     | Some metrics \<Rightarrow> do {
         r \<leftarrow> postJSON H (a_ServerURL cfg @ ''/api/agent/heartbeat'') (a_DeviceToken cfg)
           (JObj [(''device_id'', JStr (a_DeviceID cfg)), (''inventory'', inventory), (''metrics'', metrics)]) decode_heartbeat;
         case r of
           Inl e \<Rightarrow> State_Monad.return (BeatFailed e, cfg, s)
         | Inr resp \<Rightarrow> do {
             (b, cfg) \<leftarrow> handle_response H L E cfg resp;
             State_Monad.return (b, cfg, s) } } }"

section \<open>The loop\<close>

record agent_memory =
  am_cfg :: agent_config
  am_health :: agentRuntimeHealth
  am_sampler :: connectivitySampler
  am_backoff :: time

definition interval :: "agent_config \<Rightarrow> time" where
  "interval cfg = wrap64 (a_IntervalSeconds cfg * second)"

definition next_backoff :: "time \<Rightarrow> time" where
  "next_backoff backoff = min (5 * minute) (wrap64 (backoff * 2))"

text \<open>One turn of the loop, up to the wait; \<open>None\<close> when the agent panics.\<close>

definition agent_cycle :: "host \<Rightarrow> agent_libs \<Rightarrow> env \<Rightarrow> inventory_libs \<Rightarrow> agent_memory \<Rightarrow> (agent_memory option) act" where
  "agent_cycle H L E N a = do {
     heartbeatStartedAt \<leftarrow> time_Now;
     health \<leftarrow> snapshot H (a_SpoolDir (am_cfg a)) (am_health a);
     (b, cfg, s) \<leftarrow> heartbeatOnce H L E N (am_cfg a) health (am_sampler a);
     now \<leftarrow> time_Now;
     case b of
       BeatPanic \<Rightarrow> State_Monad.return None
     | BeatFailed e \<Rightarrow> do {
         rolledBack \<leftarrow> rollbackPendingRestore H cfg now;
         State_Monad.return (Some \<lparr>am_cfg = cfg, am_health = recordFailure e now (am_health a), am_sampler = s,
           am_backoff = (if rolledBack = Inr True then 5 * second else next_backoff (am_backoff a))\<rparr>) }
     | Beat \<Rightarrow> do {
         _ \<leftarrow> confirmPendingRestore H (a_RecoveryDir cfg) heartbeatStartedAt;
         State_Monad.return (Some \<lparr>am_cfg = cfg, am_health = recordSuccess now (am_health a), am_sampler = s, am_backoff = interval cfg\<rparr>) } }"

text \<open>From the settings to the loop; an error ends the process.\<close>

definition first_enrollment :: "host \<Rightarrow> env \<Rightarrow> inventory_libs \<Rightarrow> agent_config \<Rightarrow> (string + agent_config) act" where
  "first_enrollment H E N cfg =
     (if a_DeviceID cfg \<noteq> [] \<and> a_DeviceToken cfg \<noteq> [] then State_Monad.return (Inr cfg)
      else do {
        e \<leftarrow> rotateTunnelIdentity H (a_TunnelIdentity cfg);
        case e of
          Some e \<Rightarrow> State_Monad.return (Inl (''failed to prepare a new tunnel identity for enrollment: '' @ e))
        | None \<Rightarrow> do {
            r \<leftarrow> enroll H E N cfg;
            case r of
              Inl e \<Rightarrow> State_Monad.return (Inl (''enrollment failed: '' @ e))
            | Inr cfg \<Rightarrow> do {
                e \<leftarrow> saveConfig H cfg;
                case e of
                  Some e \<Rightarrow> State_Monad.return (Inl (''failed to save config: '' @ Error e))
                | None \<Rightarrow> do { clearUCIEnrollmentGrant H; State_Monad.return (Inr cfg) } } } })"

definition agent_start :: "host \<Rightarrow> env \<Rightarrow> inventory_libs \<Rightarrow> agent_config \<Rightarrow> (string + agent_memory) act" where
  "agent_start H E N cfg = do {
     e \<leftarrow> recoverFleetProfiles H E cfg ''/etc/config'';
     case e of
       Some e \<Rightarrow> State_Monad.return (Inl (''profile recovery failed: '' @ e))
     | None \<Rightarrow> do {
         r \<leftarrow> first_enrollment H E N cfg;
         case r of
           Inl e \<Rightarrow> State_Monad.return (Inl e)
         | Inr cfg \<Rightarrow> do {
             let cfg = (if a_TunnelKeyEpoch cfg \<le> 0 then cfg\<lparr>a_TunnelKeyEpoch := 1\<rparr> else cfg);
             _ \<leftarrow> ensureTunnelIdentity H (a_TunnelIdentity cfg);
             now \<leftarrow> time_Now;
             State_Monad.return (Inr \<lparr>am_cfg = cfg, am_health = \<lparr>ah_StartedAt = now, ah_ConsecutiveFailures = 0, ah_LastHeartbeatError = [],
                 ah_LastHeartbeatErrorAt = zero_time, ah_LastHeartbeatSuccess = zero_time\<rparr>,
               am_sampler = \<lparr>cs_checks = None, cs_targets = [], cs_nextCheckAt = zero_time\<rparr>, am_backoff = interval cfg\<rparr>) } } }"


section \<open>What a life of the agent respects\<close>

lemma dir_names_plain:
  assumes "n \<in> set (dir_names d m)" "2 < length n"
  shows "plain_name n"
proof -
  obtain p where p: "n = filepath_Base p" using assms(1) by (auto simp: dir_names_def Let_def split: if_splits)
  have "n \<noteq> ''/''" "n \<noteq> ''.''" "n \<noteq> ''..''" "n \<noteq> []" using assms(2) by auto
  then show ?thesis
    using p by (auto simp: filepath_Base_def plain_name_def Let_def split: if_splits dest: set_takeWhileD)
qed

lemma HasSuffix_length: "HasSuffix n e \<Longrightarrow> length e \<le> length n"
  by (auto simp: HasSuffix_def HasPrefix_iff dest!: arg_cong [of "rev n" _ length])

context agent_frame
begin

lemma keeps_list_dir:
  assumes "\<And>names. (\<And>n. n \<in> set names \<Longrightarrow> 2 < length n \<Longrightarrow> plain_name n) \<Longrightarrow> keeps P (f (Inr names))" "\<And>e. keeps P (f (Inl e))"
  shows "keeps P (State_Monad.bind (os_ReadDir H d) f)"
proof (rule keepsI)
  fix m
  assume "P m"
  moreover have "keeps P (f (Inr (dir_names d m)))" by (rule assms(1)) (rule dir_names_plain)
  ultimately show "P (snd (run_state (State_Monad.bind (os_ReadDir H d) f) m))"
    using keepsD assms(2) by (auto simp: os_ReadDir_def split: option.split)
qed

lemma keeps_flush: "keeps P (flushSpooledResults H cfg)"
proof -
  have entry: "keeps P (flush_entry H cfg n)" if "2 < length n \<Longrightarrow> plain_name n" for n
  proof (cases "HasSuffix n ''.json''")
    case True
    then have "removable cfg (filepath_Join (a_SpoolDir cfg) n)" using that HasSuffix_length [OF True] by (auto simp: removable_def)
    then show ?thesis
      unfolding flush_entry_def postRawJSONStatus_def Let_def by (intro keeps_intros keeps_http keeps_delete)
  qed (simp add: flush_entry_def keeps_return)
  show ?thesis
    unfolding flushSpooledResults_def
    apply (rule keeps_list_dir)
     apply (simp only: sum.case)
     apply (intro keeps_intros entry, blast)
    apply (auto intro!: keeps_intros split: os_error.split)
    done
qed

lemma keeps_rotate: "keeps P (rotateTunnelIdentity H (a_TunnelIdentity cfg))"
proof -
  have "\<not> state_path (a_TunnelIdentity cfg @ ''.new'')" "\<not> state_path ((a_TunnelIdentity cfg @ ''.new'') @ ''.pub'')"
    "movable cfg (a_TunnelIdentity cfg)" "movable cfg (a_TunnelIdentity cfg @ ''.pub'')"
    by (simp_all add: not_state_path movable_def)
  then show ?thesis
    unfolding rotateTunnelIdentity_def Let_def
    by (intro keeps_intros keeps_remove keeps_move keeps_tool; simp add: tools_def)
qed

lemma keeps_ensure: "keeps P (ensureTunnelIdentity H (a_TunnelIdentity cfg))"
  unfolding ensureTunnelIdentity_def
  by (intro keeps_intros keeps_rotate keeps_readings keeps_write keeps_tool; simp add: tools_def)

lemma keeps_stop_all: "keeps P (stopAllRemoteSSHSessions H cfg)"
proof -
  have "keeps P (stop_entry H cfg n)" for n
    unfolding stop_entry_def Let_def
    by (rule keeps_guard_if) (intro keeps_intros keeps_stop_pid, simp)
  then show ?thesis unfolding stopAllRemoteSSHSessions_def by (intro keeps_intros)
qed

lemma keeps_post: "keeps P (postJSON H url token body dec)"
  unfolding postJSON_def postRaw_def by (intro keeps_intros keeps_http)

lemma keeps_confirm: "keeps P (confirmPendingRestore H (a_RecoveryDir cfg) t)"
  unfolding confirmPendingRestore_def
  by (intro keeps_intros keeps_delete) (simp add: removable_def)

lemma keeps_rollbackPendingRestore: "keeps P (rollbackPendingRestore H cfg now)"
  unfolding rollbackPendingRestore_def
  by (intro keeps_intros keeps_delete keeps_save keeps_tool) (simp_all add: removable_def tools_def)

lemma keeps_recover_journals:
  "(\<And>n. n \<in> set ns \<Longrightarrow> 2 < length n \<Longrightarrow> plain_name n) \<Longrightarrow> keeps P (recover_journals H E cfg configDir ns)"
proof (induction ns)
  case (Cons n ns)
  have rest: "keeps P (recover_journals H E cfg configDir ns)" using Cons by simp
  show ?case
  proof (cases "HasSuffix n ''.journal''")
    case True
    have plain: "plain_name n" using Cons.prems HasSuffix_length [OF True] by simp
    have "last n = CHR ''l''" using True by (cases n rule: rev_cases) (auto simp: HasSuffix_def)
    then have "\<not> state_path (filepath_Join (profileStateDir cfg) n)" using plain by (intro not_state_Join) auto
    then show ?thesis
      unfolding recover_journals.simps by (intro keeps_intros rest keeps_restore keeps_remove)
  qed (simp add: rest)
qed (simp add: keeps_return)

lemma keeps_recover: "keeps P (recoverFleetProfiles H E cfg configDir)"
  unfolding recoverFleetProfiles_def
  apply (rule keeps_list_dir)
   apply (simp only: sum.case)
   apply (rule keeps_recover_journals, blast)
  apply (auto intro!: keeps_intros split: os_error.split)
  done

end


text \<open>The settings change during a life, but not where the agent keeps its state.\<close>

definition same_paths :: "agent_config \<Rightarrow> agent_config \<Rightarrow> bool" where
  "same_paths c c' \<longleftrightarrow> a_ConfigFile c' = a_ConfigFile c \<and> a_CommandStateDir c' = a_CommandStateDir c \<and>
     a_RecoveryDir c' = a_RecoveryDir c \<and> a_SpoolDir c' = a_SpoolDir c \<and> a_TunnelIdentity c' = a_TunnelIdentity c"

lemma same_paths_refl [simp]: "same_paths c c"
  by (simp add: same_paths_def)

lemma same_paths_trans [trans]: "same_paths a b \<Longrightarrow> same_paths b c \<Longrightarrow> same_paths a c"
  by (simp add: same_paths_def)

lemma same_paths_settings [simp]:
  "same_paths c (c'\<lparr>a_DeviceToken := t, a_DeviceTokenEpoch := n\<rparr>) \<longleftrightarrow> same_paths c c'"
  "same_paths c (c'\<lparr>a_TunnelKeyEpoch := n\<rparr>) \<longleftrightarrow> same_paths c c'"
  "same_paths c (c'\<lparr>a_CommandSigningPublicKey := k, a_CommandSigningKeyID := i\<rparr>) \<longleftrightarrow> same_paths c c'"
  "same_paths c (c'\<lparr>a_DeviceID := d, a_DeviceToken := t, a_DeviceTokenEpoch := n, a_EnrollmentToken := e\<rparr>) \<longleftrightarrow> same_paths c c'"
  by (simp_all add: same_paths_def)

lemma frame_paths: "same_paths c c' \<Longrightarrow> movable c' = movable c" "same_paths c c' \<Longrightarrow> removable c' = removable c"
  by (auto simp: fun_eq_iff same_paths_def movable_def removable_def)

lemma state_paths:
  assumes "same_paths c c'"
  shows "result_path c' = result_path c" "marker_path c' = marker_path c" "command_file c' cmd = command_file c cmd"
    "state_safe H c' cmd = state_safe H c cmd" "settled c' cmd t = settled c cmd t" "stays H c' cmd t = stays H c cmd t"
proof -
  show paths: "result_path c' = result_path c" "marker_path c' = marker_path c"
    using assms by (simp_all add: fun_eq_iff result_path_def marker_path_def same_paths_def)
  then show files: "command_file c' cmd = command_file c cmd" by (simp add: fun_eq_iff command_file_def)
  then show safe: "state_safe H c' cmd = state_safe H c cmd"
    using frame_paths [OF assms] by (simp add: state_safe_def)
  show settled: "settled c' cmd t = settled c cmd t" using files by (simp add: fun_eq_iff settled_def)
  show "stays H c' cmd t = stays H c cmd t" using safe settled by (simp add: fun_eq_iff stays_def)
qed

text \<open>What every result of an action has.\<close>

definition yields :: "'a act \<Rightarrow> ('a \<Rightarrow> bool) \<Rightarrow> bool" where
  "yields a R \<longleftrightarrow> (\<forall>m. R (fst (run_state a m)))"

lemma keeps_bind_yields:
  assumes "keeps P a" "yields a R" "\<And>x. R x \<Longrightarrow> keeps P (f x)"
  shows "keeps P (State_Monad.bind a f)"
proof (rule keepsI)
  fix m
  assume "P m"
  then show "P (snd (run_state (State_Monad.bind a f) m))"
    using keepsD [OF assms(1), of m] assms(2) keepsD [OF assms(3)]
    by (cases "run_state a m") (auto simp: yields_def, metis fst_conv)
qed

lemma pin_paths: "pinCommandSigningKey E c k i = Inr (b, c') \<Longrightarrow> same_paths c c'"
  by (auto simp: pinCommandSigningKey_def Let_def bindE_eq_Inr split: if_splits)

lemma adopt_paths:
  assumes "same_paths cfg c"
  shows "yields (adopt_key H E c resp) (\<lambda>(_, c'). same_paths cfg c')" "yields (adopt_token H c resp) (\<lambda>(_, c'). same_paths cfg c')"
    "yields (adopt_tunnel_key H c resp) (\<lambda>(_, c'). same_paths cfg c')"
  using assms
  by (auto simp: yields_def adopt_key_def adopt_token_def adopt_tunnel_key_def Let_def
      dest: pin_paths intro: same_paths_trans split: sum.split prod.split option.split)

text \<open>A property of the machine that processing any command keeps as well.\<close>

locale agent_life = agent_frame +
  assumes keeps_process: "same_paths cfg c \<Longrightarrow> keeps P (processCommand H L E c cmd)"
begin

lemma frame_at: "same_paths cfg c \<Longrightarrow> agent_frame H c P"
  by unfold_locales
    (simp_all add: frame_paths keeps_write keeps_create keeps_move keeps_delete keeps_run keeps_start keeps_http keeps_sleep keeps_log keeps_timers)

lemma keeps_adopt:
  assumes "same_paths cfg c"
  shows "keeps P (adopt_key H E c resp)" "keeps P (adopt_token H c resp)" "keeps P (adopt_tunnel_key H c resp)"
proof -
  have save: "keeps P (saveConfig H c')" if "same_paths cfg c'" for c' by (rule agent_frame.keeps_save [OF frame_at [OF that]])
  have rotate: "keeps P (rotateTunnelIdentity H (a_TunnelIdentity c))" by (rule agent_frame.keeps_rotate [OF frame_at [OF assms]])
  have stop: "keeps P (stopAllRemoteSSHSessions H c)" by (rule agent_frame.keeps_stop_all [OF frame_at [OF assms]])
  show "keeps P (adopt_key H E c resp)"
  proof (cases "pinCommandSigningKey E c (hr_CommandSigningPublicKey resp) (hr_CommandSigningKeyID resp)")
    case (Inr r)
    obtain b c' where r: "r = (b, c')" by (cases r)
    have "same_paths cfg c'" using same_paths_trans [OF assms pin_paths [OF Inr [unfolded r]]] .
    then show ?thesis unfolding adopt_key_def Inr r by (auto intro!: keeps_intros save)
  qed (simp add: adopt_key_def keeps_return)
  show "keeps P (adopt_token H c resp)"
    unfolding adopt_token_def Let_def by (intro keeps_intros save) (simp add: assms)
  show "keeps P (adopt_tunnel_key H c resp)"
    unfolding adopt_tunnel_key_def Let_def by (intro keeps_intros save stop rotate) (simp add: assms)
qed

lemma keeps_handle_response:
  assumes "same_paths cfg c"
  shows "keeps P (handle_response H L E c resp)"
  unfolding handle_response_def
  apply (rule keeps_bind_yields [OF keeps_adopt(1) adopt_paths(1)], rule assms, rule assms)
  apply (clarsimp split: option.split simp: keeps_return)
  apply (rule keeps_bind_yields [OF keeps_adopt(2) adopt_paths(2)], assumption, assumption)
  apply (clarsimp split: option.split simp: keeps_return)
  apply (rule keeps_bind_yields [OF keeps_adopt(3) adopt_paths(3)], assumption, assumption)
  apply (clarsimp split: option.split simp: keeps_return)
  apply (intro keeps_intros keeps_process)
  apply assumption
  done

end


section \<open>A life of the agent\<close>

text \<open>
  The steps of a life: a turn of the loop (which may end in a panic), time that passes, timers of
  tunnels that fire, and a new start with settings that keep the state where it was.
\<close>

inductive agent_step ::
  "host \<Rightarrow> agent_libs \<Rightarrow> env \<Rightarrow> inventory_libs \<Rightarrow> agent_memory \<times> machine \<Rightarrow> agent_memory \<times> machine \<Rightarrow> bool"
  for H :: host and L :: agent_libs and E :: env and N :: inventory_libs where
  Cycle: "run_state (agent_cycle H L E N a) m = (Some a', m') \<Longrightarrow> agent_step H L E N (a, m) (a', m')"
| Panic: "run_state (agent_cycle H L E N a) m = (None, m') \<Longrightarrow> agent_step H L E N (a, m) (a, m')"
| Wait: "0 \<le> d \<Longrightarrow> agent_step H L E N (a, m) (a, m\<lparr>m_clock := m_clock m + d\<rparr>)"
| Timers: "list_all (\<lambda>(_, i, _). safeSessionID i) (m_timers m) \<Longrightarrow> run_state (expire_tunnels H (am_cfg a)) m = (u, m') \<Longrightarrow>
    agent_step H L E N (a, m) (a, m')"
| Start: "same_paths (am_cfg a) cfg \<Longrightarrow> run_state (agent_start H E N cfg) m = (Inr a', m') \<Longrightarrow> agent_step H L E N (a, m) (a', m')"
| Start_failed: "same_paths (am_cfg a) cfg \<Longrightarrow> run_state (agent_start H E N cfg) m = (Inl e, m') \<Longrightarrow> agent_step H L E N (a, m) (a, m')"

inductive_cases agent_stepE: "agent_step H L E N (a, m) (b, m')"

lemma yields_bind: "(\<And>x. yields (f x) R) \<Longrightarrow> yields (State_Monad.bind a f) R"
  by (auto simp: yields_def split: prod.split)

lemma yields_bind_of: "yields a S \<Longrightarrow> (\<And>x. S x \<Longrightarrow> yields (f x) R) \<Longrightarrow> yields (State_Monad.bind a f) R"
  by (auto simp: yields_def split: prod.split) (metis fst_conv)

lemma yields_return: "R x \<Longrightarrow> yields (State_Monad.return x) R"
  by (simp add: yields_def)

lemma yields_option: "yields a R \<Longrightarrow> (\<And>x. yields (f x) R) \<Longrightarrow> yields (case v of None \<Rightarrow> a | Some x \<Rightarrow> f x) R"
  by (cases v) simp_all

lemma yields_sum: "(\<And>x. yields (f x) R) \<Longrightarrow> (\<And>x. yields (g x) R) \<Longrightarrow> yields (case v of Inl x \<Rightarrow> f x | Inr x \<Rightarrow> g x) R"
  by (cases v) simp_all

lemma handle_response_paths:
  assumes "same_paths cfg c"
  shows "yields (handle_response H L E c resp) (\<lambda>(_, c'). same_paths cfg c')"
  unfolding handle_response_def
  apply (rule yields_bind_of [OF adopt_paths(1) [OF assms]])
  apply (clarsimp split: option.split simp: yields_return)
  apply (rule yields_bind_of [OF adopt_paths(2)], assumption)
  apply (clarsimp split: option.split simp: yields_return)
  apply (rule yields_bind_of [OF adopt_paths(3)], assumption)
  apply (clarsimp split: option.split simp: yields_return)
  apply (rule yields_bind)
  apply (simp add: yields_return)
  done

lemma heartbeat_paths: "yields (heartbeatOnce H L E N c health s) (\<lambda>(_, c', _). same_paths c c')"
  unfolding heartbeatOnce_def
  apply (rule yields_bind)+
  apply (clarsimp split: option.split simp: yields_return)
  apply (rule yields_bind)
  apply (clarsimp split: sum.split simp: yields_return)
  apply (rule yields_bind_of [OF handle_response_paths [OF same_paths_refl]])
  apply (clarsimp simp: yields_return)
  done

lemma cycle_paths: "yields (agent_cycle H L E N a) (\<lambda>r. \<forall>a'. r = Some a' \<longrightarrow> same_paths (am_cfg a) (am_cfg a'))"
  unfolding agent_cycle_def
  apply (rule yields_bind)
  apply (rule yields_bind)
  apply (rule yields_bind_of [OF heartbeat_paths])
  apply clarsimp
  apply (rule yields_bind)
  apply (auto split: beat.split intro!: yields_bind yields_return)
  done

lemma accept_enrollment_paths:
  assumes "accept_enrollment E c resp = Inr c'"
  shows "same_paths c c'"
proof -
  obtain b c1 where "pinCommandSigningKey E c (er_CommandSigningPublicKey resp) (er_CommandSigningKeyID resp) = Inr (b, c1)"
    using assms by (auto simp: accept_enrollment_def split: if_splits sum.splits)
  then show ?thesis using assms pin_paths by (auto simp: accept_enrollment_def split: if_splits)
qed

lemma enroll_paths: "yields (enroll H E N c) (\<lambda>r. \<forall>c'. r = Inr c' \<longrightarrow> same_paths c c')"
  unfolding enroll_def by (intro yields_bind yields_return) (auto simp: bindE_eq_Inr dest: accept_enrollment_paths)

lemma first_enrollment_paths: "yields (first_enrollment H E N c) (\<lambda>r. \<forall>c'. r = Inr c' \<longrightarrow> same_paths c c')"
  unfolding first_enrollment_def
  apply (cases "a_DeviceID c \<noteq> [] \<and> a_DeviceToken c \<noteq> []")
   apply (simp add: yields_return)
  apply (simp only: if_False)
  apply (rule yields_bind)
  apply (rule yields_option)
   apply (rule yields_bind_of [OF enroll_paths])
   apply (clarsimp split: sum.split simp: yields_return)
   apply (auto intro!: yields_bind yields_option yields_return)
  done

lemma start_paths: "yields (agent_start H E N c) (\<lambda>r. \<forall>a'. r = Inr a' \<longrightarrow> same_paths c (am_cfg a'))"
  unfolding agent_start_def Let_def
  apply (rule yields_bind)
  apply (rule yields_option)
   apply (rule yields_bind_of [OF first_enrollment_paths])
   apply (clarsimp split: sum.split simp: yields_return)
   apply (intro conjI impI yields_bind yields_return)
    apply (simp_all add: yields_return)
  done


context agent_life
begin

lemma keeps_heartbeat:
  assumes "same_paths cfg c"
  shows "keeps P (heartbeatOnce H L E N c health s)"
proof -
  note at = frame_at [OF assms]
  show ?thesis
    unfolding heartbeatOnce_def
    by (intro keeps_intros keeps_handle_response [OF assms] agent_frame.keeps_flush [OF at] keeps_buildInventory keeps_buildMetrics
        keeps_post)
qed

lemma keeps_cycle:
  assumes "same_paths cfg (am_cfg a)"
  shows "keeps P (agent_cycle H L E N a)"
proof -
  have ends: "keeps P (rollbackPendingRestore H c now)" "keeps P (confirmPendingRestore H (a_RecoveryDir c) t)"
    if "same_paths (am_cfg a) c" for c now t
    using agent_frame.keeps_rollbackPendingRestore agent_frame.keeps_confirm frame_at [OF same_paths_trans [OF assms that]] by blast+
  show ?thesis
    unfolding agent_cycle_def
    apply (rule keeps_bind [OF keeps_Now])
    apply (rule keeps_bind [OF keeps_readings(6)])
    apply (rule keeps_bind_yields [OF keeps_heartbeat [OF assms] heartbeat_paths])
    apply clarsimp
    apply (rule keeps_bind [OF keeps_Now])
    apply (auto split: beat.split intro!: keeps_intros ends)
    done
qed

lemma keeps_first_enrollment:
  assumes "same_paths cfg c"
  shows "keeps P (first_enrollment H E N c)"
proof -
  have grant: "keeps P (clearUCIEnrollmentGrant H)"
    unfolding clearUCIEnrollmentGrant_def by (intro keeps_intros keeps_run; simp add: allowed_def tools_def)
  have enrolled: "keeps P (enroll H E N c)"
    unfolding enroll_def by (intro keeps_intros keeps_readings keeps_board keeps_post)
  have save: "keeps P (saveConfig H c')" if "same_paths c c'" for c'
    by (rule agent_frame.keeps_save [OF frame_at [OF same_paths_trans [OF assms that]]])
  show ?thesis
    unfolding first_enrollment_def
    apply (rule keeps_if)
     apply (rule keeps_return)
    apply (rule keeps_bind [OF agent_frame.keeps_rotate [OF frame_at [OF assms]]])
    apply (rule keeps_option)
     apply (rule keeps_bind_yields [OF enrolled enroll_paths])
     apply (auto split: sum.split intro!: keeps_intros save grant)
    done
qed

lemma keeps_agent_start:
  assumes "same_paths cfg c"
  shows "keeps P (agent_start H E N c)"
proof -
  have ensure: "keeps P (ensureTunnelIdentity H (a_TunnelIdentity c'))" if "same_paths c c'" for c'
    by (rule agent_frame.keeps_ensure [OF frame_at [OF same_paths_trans [OF assms that]]])
  show ?thesis
    unfolding agent_start_def Let_def
    apply (rule keeps_bind [OF agent_frame.keeps_recover [OF frame_at [OF assms]]])
    apply (rule keeps_option)
     apply (rule keeps_bind_yields [OF keeps_first_enrollment [OF assms] first_enrollment_paths])
     apply (auto split: sum.split intro!: keeps_intros ensure)
    done
qed

lemma keeps_fire:
  assumes "same_paths cfg c" "list_all (\<lambda>(_, i, _). safeSessionID i) ts"
  shows "keeps P (fire_timers H c ts)"
  using assms(2)
proof (induction ts)
  case (Cons t ts)
  then show ?case
    by (cases t) (auto intro!: keeps_intros agent_frame.keeps_stop_pid [OF frame_at [OF assms(1)]])
qed (simp add: keeps_return)

lemma expire_keeps:
  assumes "same_paths cfg c" "list_all (\<lambda>(_, i, _). safeSessionID i) (m_timers m)" "P m"
    "run_state (expire_tunnels H c) m = (u, m')"
  shows "P m'"
proof -
  define m1 where "m1 = m\<lparr>m_timers := filter (\<lambda>(t, _). \<not> t \<le> m_clock m) (m_timers m)\<rparr>"
  have "P m1" using keepsD [OF keeps_timers [of "\<lambda>m. filter (\<lambda>(t, _). \<not> t \<le> m_clock m) (m_timers m)"] assms(3)] by (simp add: m1_def)
  moreover have "list_all (\<lambda>(_, i, _). safeSessionID i) (filter (\<lambda>(t, _). t \<le> m_clock m) (m_timers m))"
    using assms(2) by (auto simp: list_all_iff)
  ultimately show ?thesis
    using keepsD_run [OF keeps_fire [OF assms(1)], of "filter (\<lambda>(t, _). t \<le> m_clock m) (m_timers m)" m1 u m'] assms(4)
    by (simp add: expire_tunnels_def m1_def)
qed

lemma step_keeps:
  assumes "agent_step H L E N (a, m) (b, m')" "same_paths cfg (am_cfg a)" "P m"
  shows "P m' \<and> same_paths cfg (am_cfg b)"
  using assms(1)
proof (rule agent_stepE, goal_cases)
  case 1
  then show ?thesis
    using keepsD_run [OF keeps_cycle [OF assms(2)] assms(3)] cycle_paths [of H L E N a] same_paths_trans [OF assms(2)]
    unfolding yields_def by (metis fst_conv)
next
  case 2
  then show ?thesis using keepsD_run [OF keeps_cycle [OF assms(2)] assms(3)] assms(2) by auto
next
  case (3 d)
  then show ?thesis using keepsD [OF keeps_sleep assms(3)] assms(2) by auto
next
  case 4
  then show ?thesis using expire_keeps [OF assms(2)] assms(2,3) by auto
next
  case (5 c)
  have c: "same_paths cfg c" using same_paths_trans assms(2) 5 by blast
  then show ?thesis
    using keepsD_run [OF keeps_agent_start [OF c] assms(3)] start_paths [of H E N c] same_paths_trans [OF c] 5
    unfolding yields_def by (metis fst_conv)
next
  case (6 c)
  have c: "same_paths cfg c" using same_paths_trans assms(2) 6 by blast
  then show ?thesis using keepsD_run [OF keeps_agent_start [OF c] assms(3)] assms(2) 6 by auto
qed

theorem life_keeps:
  assumes "(agent_step H L E N)\<^sup>*\<^sup>* (a, m) (b, m')" "same_paths cfg (am_cfg a)" "P m"
  shows "P m' \<and> same_paths cfg (am_cfg b)"
  using assms(1)
proof (induction "(b, m')" arbitrary: b m' rule: rtranclp_induct)
  case base
  then show ?case using assms(2,3) by simp
next
  case (step y)
  then show ?case using step_keeps by (cases y) blast
qed

end


interpretation listed_life: agent_life H cfg "none_started (\<lambda>p. \<not> allowed p) tr" for H cfg tr
  by unfold_locales (rule listed_processCommand)

lemma stays_life_process: "same_paths cfg c \<Longrightarrow> keeps (stays H cfg cmd t) (processCommand H L E c c')"
  using stays_processCommand [of H c cmd t L E c'] by (simp add: state_paths)

interpretation once_life: agent_life H cfg "stays H cfg cmd t" for H cfg cmd t
  by unfold_locales (rule stays_life_process)

lemma settled_elsewhere:
  assumes "validateSignedCommand E cfg cmd t = Inr ()" "settled cfg cmd t m" "same_paths cfg c"
  shows "m_trace (snd (run_state (processCommand H L E c cmd) m)) = m_trace m"
proof (cases "validateSignedCommand E c cmd (m_clock m)")
  case (Inr u)
  obtain x where x: "ac_ExpiresAt cmd = Some x" "ac_CreatedAt cmd \<le> t + 5 * minute" "x \<le> ac_CreatedAt cmd + 25 * hour"
    using validate_Inr [OF assms(1)] by metis
  have "m_clock m \<le> x" using Inr x(1) by (auto elim!: validate_Inr)
  then have "m_clock m \<le> t + 30 * 24 * hour" using x(2,3) by simp
  then show ?thesis using settled_idle [of c cmd t m] assms(2,3) Inr by (simp add: processCommand_def state_paths)
qed (simp add: processCommand_def)

text \<open>
  C32. A command is executed at most once. Once processing it has started a program, no later
  delivery of the same command starts anything, whatever the agent does in between: further
  heartbeats and commands, failed writes, panics, restarts, rotated credentials, tunnels, and
  any time that passes (the record of a command is kept for thirty days, a command is valid for
  at most twenty-five hours). The hypothesis \<open>state_safe\<close> says that time does not run backwards,
  that the programs the agent starts leave the two files of the command alone, and that these
  files are not also the agent's configuration, guard, tunnel key or spool.
\<close>

theorem executed_at_most_once:
  assumes "state_safe H cfg cmd"
    and "run_state (processCommand H L E cfg cmd) m = (e, m1)" and "m_trace m1 \<noteq> m_trace m"
    and "same_paths cfg (am_cfg a)" and "(agent_step H L E N)\<^sup>*\<^sup>* (a, m1) (b, m2)"
  shows "m_trace (snd (run_state (processCommand H L E (am_cfg b) cmd) m2)) = m_trace m2"
proof -
  have first: "validateSignedCommand E cfg cmd (m_clock m) = Inr ()" "settled cfg cmd (m_clock m) m1"
    using started_settles [OF assms(1-3)] by simp_all
  then have "stays H cfg cmd (m_clock m) m1" by (simp add: stays_def)
  from once_life.life_keeps [OF assms(5,4) this]
  have "settled cfg cmd (m_clock m) m2" "same_paths cfg (am_cfg b)" using assms(1) by (simp_all add: stays_def)
  then show ?thesis by (rule settled_elsewhere [OF first(1)])
qed


section \<open>A sample life\<close>

definition sample_reboot :: "string \<Rightarrow> agent_command" where
  "sample_reboot signature = \<lparr>ac_ID = ''c9'', ac_DeviceID = ''d1'', ac_Type = ''reboot'', ac_Args = ''{}'', ac_CreatedAt = 900 * second,
     ac_ExpiresAt = Some (1200 * second), ac_Nonce = ''n'', ac_SignatureKeyID = ''k1'', ac_Signature = signature\<rparr>"

definition pinned_config :: agent_config where
  "pinned_config = sample_config\<lparr>a_CommandSigningPublicKey := EncodePublicKey (ed_Public sample_env sample_key), a_CommandSigningKeyID := ''k1''\<rparr>"

definition sample_libs :: agent_libs where
  "sample_libs = \<lparr>al_ParseAuthorizedKey = (\<lambda>_. None),
     al_manifest = \<lparr>mc_Decode = (\<lambda>_. None), mc_ParsePKIX = (\<lambda>_. None), mc_VerifyASN1 = (\<lambda>_ _ _. False)\<rparr>\<rparr>"

definition sample_inventory :: inventory_libs where
  "sample_inventory = \<lparr>il_Hostname = (\<lambda>_. Some ''router''), il_links = (\<lambda>_. []), il_ParseIP = (\<lambda>_. None), il_ParseFloat = (\<lambda>_. None),
     il_FormatFloat = (\<lambda>_. ''0'')\<rparr>"

lemma sample_reboot_signed:
  obtains s where "Sign sample_env sample_key (agent_envelope (sample_reboot s') (1200 * second)) = Inr s"
proof -
  have t: "TrimSpace ''c9'' = ''c9''" "TrimSpace ''d1'' = ''d1''" "TrimSpace ''n'' = ''n''" by code_simp+
  have "\<exists>p. Canonical (agent_envelope (sample_reboot s') (1200 * second)) = Inr p"
    by (simp add: Canonical_Inr agent_envelope_def sample_reboot_def sample_texts t IsZero_def zero_time_def)
  then show ?thesis using that by (auto simp: Sign_def res_simps sample_key_def)
qed

lemma sample_reboot_valid:
  assumes "Sign sample_env sample_key (agent_envelope (sample_reboot []) (1200 * second)) = Inr s"
  shows "validateSignedCommand sample_env pinned_config (sample_reboot s) (1000 * second) = Inr ()"
proof -
  have "agent_envelope (sample_reboot s) (1200 * second) = agent_envelope (sample_reboot []) (1200 * second)"
    by (simp add: agent_envelope_def sample_reboot_def)
  then have "Verify sample_env (ed_Public sample_env sample_key) (agent_envelope (sample_reboot s) (1200 * second)) s = Inr ()"
    using Verify_Sign_lemma [OF sample_env_ok(1)] assms by simp
  moreover have "ParsePublicKey (EncodePublicKey (ed_Public sample_env sample_key)) = Inr (ed_Public sample_env sample_key)"
    by (rule ParsePublicKey_Encode) (simp add: sample_env_def sample_crypto_def crypto.defs sample_key_def)
  moreover have "safeSessionID ''c9''" by code_simp
  ultimately show ?thesis
    by (simp add: validateSignedCommand_def pinned_config_def sample_config_def sample_reboot_def IsZero_def zero_time_def)
qed

lemma quiet_forward: "forward quiet_host"
  by (simp add: forward_def quiet_host_def)

lemma sample_state_safe: "state_safe quiet_host pinned_config (sample_reboot s)"
proof -
  have files: "result_path pinned_config (sample_reboot s) = ''/etc/rmm/state/c9.json''" "marker_path pinned_config (sample_reboot s) = ''/etc/rmm/state/c9.pending''"
    "restoreGuardPath (a_RecoveryDir pinned_config) = ''/etc/rmm/recovery/pending-restore.json''"
    unfolding result_path_def marker_path_def pinned_config_def sample_config_def sample_reboot_def restoreGuardPath_def agent_config.simps agent_command.simps
    by code_simp+
  have spool: "filepath_Join ''/tmp/spool'' n = ''/tmp/spool/'' @ n" if "plain_name n" for n
  proof -
    have "clean_elements ''/tmp/spool'' = [''tmp'', ''spool'']" by code_simp
    then show ?thesis
      using clean_elements_Join(2) [OF that, of "''/tmp/spool''"] that
      by (simp add: filepath_Join_def Clean_def render_path_def plain_name_def rooted_def)
  qed
  have settings: "a_ConfigFile pinned_config = ''/etc/rmm.conf''" "a_SpoolDir pinned_config = ''/tmp/spool''"
    "a_TunnelIdentity pinned_config = ''/etc/rmm/key''" "ac_ID (sample_reboot s) = ''c9''"
    by (simp_all add: pinned_config_def sample_config_def sample_reboot_def)
  have "safeSessionID ''c9''" by code_simp
  then show ?thesis
    using quiet_forward quiet_spares
    by (auto simp: state_safe_def command_file_def files settings movable_def removable_def state_path_def HasSuffix_def spool)
qed

lemma sample_reboot_runs:
  assumes "validateSignedCommand sample_env pinned_config (sample_reboot s) (1000 * second) = Inr ()"
  shows "m_trace (snd (run_state (processCommand quiet_host sample_libs sample_env pinned_config (sample_reboot s)) (sample_machine []))) \<noteq> []"
proof -
  have clean: "run_state (cleanupCommandState quiet_host d t) (sample_machine []) = ((), sample_machine [])" for d t
    by (simp add: cleanupCommandState_def os_ReadDir_def dir_names_def sample_machine_def quiet_host_def)
  have ran: "run_state (execute_command quiet_host sample_libs sample_env pinned_config (sample_reboot s)) m =
      ((outln ''reboot scheduled'', 0, JObj commandMetadata), m\<lparr>m_trace := m_trace m @ [\<lparr>p_name = ''sh'', p_args = [''-c'', ''sleep 2; reboot''], p_env = [], p_input = [], p_timeout = 0\<rparr>]\<rparr>)" for m
    by (simp add: execute_command_def runCommand_def scheduleReboot_def start_program_def sample_reboot_def quiet_host_def Let_def)
  have fresh: "m_clock (sample_machine []) = 1000 * second" "file_at (sample_machine []) p = None" for p
    by (simp_all add: sample_machine_def file_at_def)
  have calm: "h_fault quiet_host m op p = None" "h_http quiet_host m rq = (Reply 200 [] True, second)" for m op p rq
    by (simp_all add: quiet_host_def)
  have kind: "ac_Type (sample_reboot s) = ''reboot''" by (simp add: sample_reboot_def)
  show ?thesis
    by (simp add: processCommand_def process_valid_def run_reserved_def persistCommandResult_def deliverCommandResult_def sendCommandResult_def
        postRaw_def http_do_def os_runs assms [simplified] clean ran fresh calm no_such_file_def kind Let_def split_def)
qed


definition sample_memory :: agent_memory where
  "sample_memory = \<lparr>am_cfg = pinned_config, am_health = \<lparr>ah_StartedAt = 0, ah_ConsecutiveFailures = 0, ah_LastHeartbeatError = [],
       ah_LastHeartbeatErrorAt = zero_time, ah_LastHeartbeatSuccess = zero_time\<rparr>,
     am_sampler = \<lparr>cs_checks = None, cs_targets = [], cs_nextCheckAt = zero_time\<rparr>, am_backoff = 30 * second\<rparr>"

theorem executed_at_most_once_witness:
  "\<exists>s m1. m1 = snd (run_state (processCommand quiet_host sample_libs sample_env pinned_config (sample_reboot s)) (sample_machine [])) \<and>
     m_trace m1 \<noteq> [] \<and>
     m_trace (snd (run_state (processCommand quiet_host sample_libs sample_env pinned_config (sample_reboot s)) (m1\<lparr>m_clock := m_clock m1 + minute\<rparr>))) =
     m_trace m1"
proof -
  obtain s where s: "Sign sample_env sample_key (agent_envelope (sample_reboot []) (1200 * second)) = Inr s"
    by (rule sample_reboot_signed)
  obtain e m1 where r: "run_state (processCommand quiet_host sample_libs sample_env pinned_config (sample_reboot s)) (sample_machine []) = (e, m1)"
    by (rule prod.exhaust)
  have ran: "m_trace m1 \<noteq> []" using sample_reboot_runs [OF sample_reboot_valid [OF s]] r by simp
  then have started: "m_trace m1 \<noteq> m_trace (sample_machine [])" by (simp add: sample_machine_def)
  have "(agent_step quiet_host sample_libs sample_env sample_inventory)\<^sup>*\<^sup>* (sample_memory, m1) (sample_memory, m1\<lparr>m_clock := m_clock m1 + minute\<rparr>)"
    by (intro r_into_rtranclp agent_step.Wait) simp
  from executed_at_most_once [OF sample_state_safe r started _ this]
  have "m_trace (snd (run_state (processCommand quiet_host sample_libs sample_env pinned_config (sample_reboot s)) (m1\<lparr>m_clock := m_clock m1 + minute\<rparr>))) =
      m_trace m1"
    by (simp add: sample_memory_def)
  then show ?thesis using r ran by (metis snd_conv)
qed

end
