(* ===== verification/PostgresDialect.thy ===== *)
theory PostgresDialect
  imports GoTime
begin

text \<open>
  The translation of the store's SQL to PostgreSQL (\<open>server/internal/store/postgres_dialect.go\<close>): the
  arguments of a statement, the rewriting of the SQLite idioms and the numbering of the parameter
  markers. The scanning loops are partial functions over the byte index, as the code has them, and
  a tokenizer over the remaining text is the reference they are compared with. The statements are
  literals of the store, so upper case is only needed for ASCII.
\<close>

section \<open>Arguments\<close>

text \<open>The dynamic type of an argument: the code only looks for \<open>bool\<close>.\<close>

datatype 'a sql_arg = BoolArg bool | Int16Arg int | OtherArg 'a

definition postgresArgs :: "'a sql_arg list \<Rightarrow> 'a sql_arg list" where
  "postgresArgs args = map (\<lambda>value. case value of BoolArg flag \<Rightarrow> Int16Arg (if flag then 1 else 0) | _ \<Rightarrow> value) args"

section \<open>Replacing\<close>

text \<open>
  All matches from the left, not overlapping: \<open>m\<close> gives the length of a match at the beginning of
  a text and what replaces it.
\<close>

function replace_matches :: "(string \<Rightarrow> (nat \<times> string) option) \<Rightarrow> string \<Rightarrow> string" where
  "replace_matches m [] = []"
| "replace_matches m (c # s) =
     (case m (c # s) of
        Some (Suc n, r) \<Rightarrow> r @ replace_matches m (drop n s)
      | _ \<Rightarrow> c # replace_matches m s)"
  by pat_completeness auto
termination by (relation "measure (length \<circ> snd)") auto

definition ReplaceAll :: "string \<Rightarrow> string \<Rightarrow> string \<Rightarrow> string" where
  "ReplaceAll s old new = replace_matches (\<lambda>t. if HasPrefix t old then Some (length old, new) else None) s"

text \<open>\<open>strings.Replace\<close> with the limit 1.\<close>

definition ReplaceFirst :: "string \<Rightarrow> string \<Rightarrow> string \<Rightarrow> string" where
  "ReplaceFirst s old new = (case Index s old of None \<Rightarrow> s | Some i \<Rightarrow> take i s @ new @ drop (i + length old) s)"

text \<open>
  What is left after a lower-case literal matched with the flag \<open>i\<close>; the letter \<open>s\<close> has the further
  case variant U+017F.
\<close>

fun fold_strip :: "string \<Rightarrow> string \<Rightarrow> string option" where
  "fold_strip [] s = Some s"
| "fold_strip (p # ps) [] = None"
| "fold_strip (p # ps) (c # s) =
     (if lower_char c = p then fold_strip ps s
      else if p = CHR ''s'' \<and> HasPrefix (c # s) [CHR 0xC5, CHR 0xBF] then fold_strip ps (drop 1 s)
      else None)"

definition regexp_space :: "char \<Rightarrow> bool" where
  "regexp_space c \<longleftrightarrow> c \<in> set [CHR 0x09, CHR 0x0A, CHR 0x0C, CHR 0x0D, CHR '' '']"

definition quote_char :: char where "quote_char = CHR 0x27"

definition dateOffsetPattern :: "string \<Rightarrow> nat option" where
  "dateOffsetPattern s =
     map_option (\<lambda>rest. length s - length rest)
       (Option.bind (fold_strip ''julianday(?,'' s)
          (\<lambda>r. fold_strip ([quote_char] @ ''-10 minutes'' @ [quote_char] @ '')'') (dropWhile regexp_space r)))"

definition julianDayPattern :: "string \<Rightarrow> (nat \<times> string) option" where
  "julianDayPattern s =
     Option.bind (fold_strip ''julianday('' s) (\<lambda>r.
       let group = takeWhile (\<lambda>c. c \<noteq> CHR ''('' \<and> c \<noteq> CHR '')'') r;
           rest = drop (length group) r
       in if group \<noteq> [] \<and> HasPrefix rest '')'' then Some (length s - length rest + 1, group) else None)"

section \<open>Numbering the parameters\<close>

partial_function (option) quote_end :: "string \<Rightarrow> char \<Rightarrow> nat \<Rightarrow> nat option" where
  "quote_end query quote i =
     (if i < length query then
        if query ! i = quote then
          if i + 1 < length query \<and> query ! (i + 1) = quote then quote_end query quote (i + 2) else Some (i + 1)
        else quote_end query quote (i + 1)
      else Some i)"

definition tag_char :: "char \<Rightarrow> bool" where
  "tag_char c \<longleftrightarrow> c = CHR ''_'' \<or> alpha_char c \<or> digit_char c"

partial_function (option) tag_end :: "string \<Rightarrow> nat \<Rightarrow> nat option" where
  "tag_end query e = (if e < length query \<and> tag_char (query ! e) then tag_end query (e + 1) else Some e)"

text \<open>A slice \<open>s[a:b]\<close>.\<close>

definition slice :: "string \<Rightarrow> nat \<Rightarrow> nat \<Rightarrow> string" where
  "slice s a b = take (b - a) (drop a s)"

partial_function (option) rebind_loop :: "string \<Rightarrow> nat \<Rightarrow> int \<Rightarrow> string \<Rightarrow> string option" where
  "rebind_loop query i parameter out =
     (if \<not> i < length query then Some out
      else if query ! i = quote_char \<or> query ! i = CHR 0x22 then
        Option.bind (quote_end query (query ! i) (i + 1)) (\<lambda>j. rebind_loop query j parameter (out @ slice query i j))
      else if HasPrefix (drop i query) ''--'' then
        (case Index (drop i query) [CHR 0x0A] of
           None \<Rightarrow> Some (out @ drop i query)
         | Some e \<Rightarrow> rebind_loop query (i + e + 1) parameter (out @ slice query i (i + e + 1)))
      else if HasPrefix (drop i query) ''/*'' then
        (case Index (drop (i + 2) query) ''*/'' of
           None \<Rightarrow> Some (out @ drop i query)
         | Some e \<Rightarrow> rebind_loop query (i + e + 4) parameter (out @ slice query i (i + e + 4)))
      else if query ! i = CHR ''$'' then
        Option.bind (tag_end query (i + 1)) (\<lambda>e.
          if e < length query \<and> query ! e = CHR ''$'' then
            case Index (drop (e + 1) query) (slice query i (e + 1)) of
              Some closeAt \<Rightarrow>
                rebind_loop query (e + 1 + closeAt + (e + 1 - i)) parameter (out @ slice query i (e + 1 + closeAt + (e + 1 - i)))
            | None \<Rightarrow> rebind_loop query (i + 1) parameter (out @ [query ! i])
          else rebind_loop query (i + 1) parameter (out @ [query ! i]))
      else if query ! i = CHR ''?'' then
        rebind_loop query (i + 1) (parameter + 1) (out @ ''$'' @ dec_digits (parameter + 1))
      else rebind_loop query (i + 1) parameter (out @ [query ! i]))"

definition rebindPostgres :: "string \<Rightarrow> string option" where
  "rebindPostgres query = rebind_loop query 0 0 []"

definition rewritePostgresSQL :: "string \<Rightarrow> string option" where
  "rewritePostgresSQL query =
     (let insertIgnore = HasPrefix (ToUpper (TrimSpace query)) ''INSERT OR IGNORE INTO '';
          query = (if insertIgnore then ReplaceFirst query ''INSERT OR IGNORE INTO '' ''INSERT INTO '' else query);
          query = ReplaceAll query ''username = ? COLLATE NOCASE'' ''lower(username) = lower(?)'';
          query = ReplaceAll query ''email = ? COLLATE NOCASE'' ''lower(email) = lower(?)'';
          query = ReplaceAll query ''ORDER BY username COLLATE NOCASE'' ''ORDER BY lower(username)'';
          query = replace_matches (\<lambda>s. map_option (\<lambda>n. (n,
            ''(?::timestamptz - interval '' @ [quote_char] @ ''10 minutes'' @ [quote_char] @ '')'')) (dateOffsetPattern s)) query;
          query = replace_matches (\<lambda>s. map_option (\<lambda>(n, g). (n, ''('' @ g @ ''::timestamptz)'')) (julianDayPattern s)) query;
          query = ReplaceAll query ''next_attempt_at <= ?''
            (''NULLIF(next_attempt_at, '' @ [quote_char, quote_char] @ '')::timestamptz <= ?::timestamptz'');
          query = (if insertIgnore then TrimSuffix (TrimSpace query) '';'' @ '' ON CONFLICT DO NOTHING'' else query)
      in rebindPostgres query)"

section \<open>The reference\<close>

text \<open>A marker, or text that is copied.\<close>

datatype sql_token = Marker | Copied string

primrec token_text :: "sql_token \<Rightarrow> string" where
  "token_text Marker = ''?''"
| "token_text (Copied s) = s"

text \<open>The rest of a quoted text, after the opening quote; a doubled quote does not end it.\<close>

fun quoted :: "char \<Rightarrow> string \<Rightarrow> nat" where
  "quoted q [] = 0"
| "quoted q (c # s) =
     (if c = q then (case s of [] \<Rightarrow> 1 | d # t \<Rightarrow> if d = q then 2 + quoted q t else 1)
      else 1 + quoted q s)"

text \<open>The length of the text opened at the beginning of \<open>s\<close>, if one is opened there.\<close>

definition opened :: "string \<Rightarrow> nat option" where
  "opened s =
     (case s of [] \<Rightarrow> None
      | c # t \<Rightarrow>
          if c = quote_char \<or> c = CHR 0x22 then Some (1 + quoted c t)
          else if HasPrefix s ''--'' then Some (case Index s [CHR 0x0A] of None \<Rightarrow> length s | Some e \<Rightarrow> e + 1)
          else if HasPrefix s ''/*'' then Some (case Index (drop 2 s) ''*/'' of None \<Rightarrow> length s | Some e \<Rightarrow> e + 4)
          else if c = CHR ''$'' then
            (let tag = takeWhile tag_char t; rest = drop (length tag) t; delimiter = ''$'' @ tag @ ''$''
             in if HasPrefix rest ''$''
                then map_option (\<lambda>e. 2 * length delimiter + e) (Index (drop 1 rest) delimiter)
                else None)
          else None)"

function sql_tokens :: "string \<Rightarrow> sql_token list" where
  "sql_tokens [] = []"
| "sql_tokens (c # s) =
     (case opened (c # s) of
        Some n \<Rightarrow> Copied (take n (c # s)) # sql_tokens (drop (n - 1) s)
      | None \<Rightarrow> (if c = CHR ''?'' then Marker else Copied [c]) # sql_tokens s)"
  by pat_completeness auto
termination by (relation "measure length") auto

text \<open>The statement for PostgreSQL: the markers become \<open>$1\<close>, \<open>$2\<close> and so on, in order.\<close>

fun numbered :: "int \<Rightarrow> sql_token list \<Rightarrow> string" where
  "numbered k [] = []"
| "numbered k (Marker # ts) = ''$'' @ dec_digits k @ numbered (k + 1) ts"
| "numbered k (Copied s # ts) = s @ numbered k ts"

text \<open>
  A question mark is left alone only inside a text that a quote, a comment or a dollar tag opens.
\<close>

definition lexeme :: "sql_token \<Rightarrow> bool" where
  "lexeme t \<longleftrightarrow>
     (case t of Marker \<Rightarrow> True
      | Copied s \<Rightarrow> CHR ''?'' \<notin> set s \<or> HasPrefix s [quote_char] \<or> HasPrefix s [CHR 0x22] \<or>
          HasPrefix s ''--'' \<or> HasPrefix s ''/*'' \<or> HasPrefix s ''$'')"

section \<open>The loops return\<close>

lemma quote_end_quoted:
  "i \<le> length q \<Longrightarrow> quote_end q c i = Some (i + quoted c (drop i q))"
proof (induction "length q - i" arbitrary: i rule: less_induct)
  case less
  show ?case
  proof (cases "i < length q")
    case True
    then have d: "drop i q = q ! i # drop (i + 1) q" by (simp add: Cons_nth_drop_Suc)
    have d2: "drop (i + 1) q = q ! (i + 1) # drop (i + 2) q" if "i + 1 < length q"
      using that by (simp add: Cons_nth_drop_Suc)
    show ?thesis
      using True less(1) [of "i + 1"] less(1) [of "i + 2"] d d2
      by (subst quote_end.simps) (cases "i + 1 < length q"; auto)
  qed (use less in \<open>simp add: quote_end.simps\<close>)
qed

lemma tag_end_takeWhile:
  "e \<le> length q \<Longrightarrow> tag_end q e = Some (e + length (takeWhile tag_char (drop e q)))"
proof (induction "length q - e" arbitrary: e rule: less_induct)
  case less
  show ?case
  proof (cases "e < length q")
    case True
    then have "drop e q = q ! e # drop (e + 1) q" by (simp add: Cons_nth_drop_Suc)
    with True less(1) [of "e + 1"] show ?thesis by (subst tag_end.simps) auto
  qed (use less in \<open>simp add: tag_end.simps\<close>)
qed

lemma Index_bound: "Index s p = Some e \<Longrightarrow> e + length p \<le> length s"
proof (induction s p arbitrary: e rule: Index.induct)
  case (2 c s p)
  then show ?case by (auto simp: HasPrefix_iff split: if_splits dest: arg_cong [of _ _ length])
qed (auto split: if_splits)

lemma quoted_bound: "quoted c s \<le> length s"
  by (induction c s rule: quoted.induct) (auto split: list.splits)

lemma tag_rest: "length t = length (takeWhile tag_char t) + length (drop (length (takeWhile tag_char t)) t)"
  using length_takeWhile_le [of tag_char t] by simp

definition quoting :: "char \<Rightarrow> bool" where
  "quoting c \<longleftrightarrow> c = quote_char \<or> c = CHR 0x22"

definition tag_of :: "string \<Rightarrow> string" where
  "tag_of t = takeWhile tag_char t"

definition after_tag :: "string \<Rightarrow> string" where
  "after_tag t = drop (length (tag_of t)) t"

lemma opened_quote: "quoting c \<Longrightarrow> opened (c # t) = Some (1 + quoted c t)"
  by (simp add: opened_def quoting_def)

lemma opened_line: "\<not> quoting c \<Longrightarrow> HasPrefix (c # t) ''--'' \<Longrightarrow>
    opened (c # t) = Some (case Index (c # t) [CHR 0x0A] of None \<Rightarrow> length (c # t) | Some e \<Rightarrow> e + 1)"
  by (simp only: opened_def quoting_def list.case if_False if_True)

lemma opened_block: "\<not> quoting c \<Longrightarrow> \<not> HasPrefix (c # t) ''--'' \<Longrightarrow> HasPrefix (c # t) ''/*'' \<Longrightarrow>
    opened (c # t) = Some (case Index (drop 2 (c # t)) ''*/'' of None \<Rightarrow> length (c # t) | Some e \<Rightarrow> e + 4)"
  by (simp only: opened_def quoting_def list.case if_False if_True)

lemma opened_dollar: "opened (CHR ''$'' # t) =
    (if HasPrefix (after_tag t) ''$''
     then map_option (\<lambda>e. 2 * (length (tag_of t) + 2) + e) (Index (drop 1 (after_tag t)) (''$'' @ tag_of t @ ''$'')) else None)"
  by (auto simp: opened_def quote_char_def Let_def tag_of_def after_tag_def intro: option.map_cong)

lemma opened_plain: "\<not> quoting c \<Longrightarrow> \<not> HasPrefix (c # t) ''--'' \<Longrightarrow> \<not> HasPrefix (c # t) ''/*'' \<Longrightarrow> c \<noteq> CHR ''$'' \<Longrightarrow>
    opened (c # t) = None"
  by (simp only: opened_def quoting_def list.case if_False)

lemma opened_bounds:
  assumes "opened s = Some n"
  shows "0 < n \<and> n \<le> length s"
proof (cases s)
  case (Cons c t)
  consider (quote) "quoting c" | (line) "\<not> quoting c" "HasPrefix (c # t) ''--''"
    | (block) "\<not> quoting c" "\<not> HasPrefix (c # t) ''--''" "HasPrefix (c # t) ''/*''" | (dollar) "c = CHR ''$''"
    | (plain) "\<not> quoting c" "\<not> HasPrefix (c # t) ''--''" "\<not> HasPrefix (c # t) ''/*''" "c \<noteq> CHR ''$''" by blast
  then show ?thesis
  proof cases
    case quote
    then have "n = 1 + quoted c t" using opened_quote [OF quote, of t] Cons assms by simp
    with quoted_bound [of c t] Cons show ?thesis by simp
  next
    case line
    with opened_line [OF line] Index_bound [of "c # t" "[CHR 0x0A]"] Cons assms show ?thesis
      by (auto simp del: Index.simps split: option.splits)
  next
    case block
    with opened_block [OF block] Index_bound [of "drop 2 (c # t)" "''*/''"] Cons assms show ?thesis
      by (auto simp del: Index.simps split: option.splits)
  next
    case dollar
    have h: "HasPrefix (after_tag t) ''$''" using assms Cons dollar opened_dollar [of t] by (cases "HasPrefix (after_tag t) ''$''") simp_all
    then obtain e where e: "Index (drop 1 (after_tag t)) (''$'' @ tag_of t @ ''$'') = Some e" "n = 2 * (length (tag_of t) + 2) + e"
      using assms Cons dollar opened_dollar [of t] by (cases "Index (drop 1 (after_tag t)) (''$'' @ tag_of t @ ''$'')") simp_all
    have "1 \<le> length (after_tag t)" using h by (cases "after_tag t") auto
    moreover have "length t = length (tag_of t) + length (after_tag t)" unfolding after_tag_def tag_of_def by (rule tag_rest)
    ultimately show ?thesis using e Index_bound [OF e(1)] Cons by simp
  next
    case plain
    with opened_plain [OF plain] Cons assms show ?thesis by simp
  qed
qed (use assms in \<open>simp add: opened_def\<close>)

text \<open>One step of the loop, case by case, at an index \<open>i\<close> with \<open>t\<close> the text after it.\<close>

lemma rebind_end: "rebind_loop q (i + length (drop i q)) k (out @ take (length (drop i q)) (drop i q)) = Some (out @ drop i q)"
  by (cases "i < length q") (subst rebind_loop.simps, simp)+

lemma rebind_quote:
  assumes "i < length q" "drop i q = q ! i # t" "quoting (q ! i)"
  shows "rebind_loop q i k out = rebind_loop q (i + (1 + quoted (q ! i) t)) k (out @ take (1 + quoted (q ! i) t) (drop i q))"
proof -
  have "drop (i + 1) q = t" using assms(2) by (metis Suc_eq_plus1 drop_Suc list.sel(3) tl_drop)
  then have "quote_end q (q ! i) (i + 1) = Some (i + 1 + quoted (q ! i) t)" using quote_end_quoted [of "i + 1" q] assms by simp
  with assms show ?thesis by (subst rebind_loop.simps) (simp add: slice_def quoting_def)
qed

lemma rebind_line:
  assumes "i < length q" "drop i q = q ! i # t" "\<not> quoting (q ! i)" "HasPrefix (q ! i # t) ''--''" "opened (drop i q) = Some n"
  shows "rebind_loop q i k out = rebind_loop q (i + n) k (out @ take n (drop i q))"
proof (cases "Index (q ! i # t) [CHR 0x0A]")
  case None
  then have "n = length (drop i q)" using opened_line [OF assms(3,4)] assms(2,5) by (simp del: Index.simps)
  with None assms(1-4) [unfolded quoting_def] rebind_end [of q i k out] show ?thesis
    by (subst rebind_loop.simps) (simp del: Index.simps HasPrefix.simps)
next
  case (Some e)
  then have "n = e + 1" using opened_line [OF assms(3,4)] assms(2,5) by (simp del: Index.simps)
  with Some assms(1-4) [unfolded quoting_def] show ?thesis
    by (subst rebind_loop.simps) (simp add: slice_def del: Index.simps HasPrefix.simps)
qed

lemma rebind_block:
  assumes "i < length q" "drop i q = q ! i # t" "\<not> quoting (q ! i)" "\<not> HasPrefix (q ! i # t) ''--''" "HasPrefix (q ! i # t) ''/*''"
    and "opened (drop i q) = Some n"
  shows "rebind_loop q i k out = rebind_loop q (i + n) k (out @ take n (drop i q))"
proof -
  have d: "drop 2 (q ! i # t) = drop (i + 2) q" using assms(2) by (metis add.commute drop_drop)
  note o = opened_block [OF assms(3-5), unfolded d]
  show ?thesis
  proof (cases "Index (drop (i + 2) q) ''*/''")
    case None
    then have "n = length (drop i q)" using o assms(2,6) by simp
    with None assms(1-5) [unfolded quoting_def] rebind_end [of q i k out] show ?thesis
      by (subst rebind_loop.simps) (simp del: Index.simps HasPrefix.simps)
  next
    case (Some e)
    then have "n = e + 4" using o assms(2,6) by simp
    with Some assms(1-5) [unfolded quoting_def] show ?thesis
      by (subst rebind_loop.simps) (simp add: slice_def add.assoc del: Index.simps HasPrefix.simps)
  qed
qed

lemma dollar_at:
  assumes "t = drop (i + 1) q" "e = i + 1 + length (tag_of t)"
  shows "drop e q = after_tag t" "drop (e + 1) q = drop 1 (after_tag t)"
    and "e < length q \<and> q ! e = CHR ''$'' \<longleftrightarrow> HasPrefix (after_tag t) ''$''"
proof -
  show rest: "drop e q = after_tag t" and "drop (e + 1) q = drop 1 (after_tag t)"
    by (simp_all add: assms after_tag_def add.commute)
  show "e < length q \<and> q ! e = CHR ''$'' \<longleftrightarrow> HasPrefix (after_tag t) ''$''"
  proof (cases "e < length q")
    case True
    then show ?thesis unfolding rest [symmetric] by (simp add: HasPrefix_iff Cons_nth_drop_Suc [symmetric])
  next
    case False
    then have "drop e q = []" by simp
    with False show ?thesis unfolding rest [symmetric] by simp
  qed
qed

lemma dollar_delimiter:
  assumes "drop i q = CHR ''$'' # t" "HasPrefix (after_tag t) ''$''"
  shows "slice q i (i + 1 + length (tag_of t) + 1) = ''$'' @ tag_of t @ ''$''"
proof -
  obtain u where "after_tag t = CHR ''$'' # u" using assms(2) by (auto simp: HasPrefix_iff)
  then have "t = tag_of t @ CHR ''$'' # u"
    unfolding after_tag_def tag_of_def by (metis append_take_drop_id takeWhile_eq_take)
  then have "drop i q = CHR ''$'' # tag_of t @ CHR ''$'' # u" using assms(1) by metis
  then show ?thesis by (simp add: slice_def)
qed

lemma rebind_dollar:
  assumes "i < length q" "drop i q = q ! i # t" "q ! i = CHR ''$''"
  shows "rebind_loop q i k out =
    (case opened (drop i q) of
       Some n \<Rightarrow> rebind_loop q (i + n) k (out @ take n (drop i q))
     | None \<Rightarrow> rebind_loop q (i + 1) k (out @ [q ! i]))"
proof -
  have t: "t = drop (i + 1) q" using assms(2) by (metis Suc_eq_plus1 drop_Suc list.sel(3) tl_drop)
  let ?e = "i + 1 + length (tag_of t)"
  note at = dollar_at [OF t refl]
  have tagged: "tag_end q (i + 1) = Some ?e" using assms(1) tag_end_takeWhile [of "i + 1" q] by (simp add: t tag_of_def)
  note o = opened_dollar [of t, folded at(2)]
  show ?thesis
  proof (cases "HasPrefix (after_tag t) ''$''")
    case True
    note dl = dollar_delimiter [OF assms(2) [unfolded assms(3)] True]
    show ?thesis
    proof (cases "Index (drop (?e + 1) q) (''$'' @ tag_of t @ ''$'')")
      case None
      then show ?thesis using assms True at(3) tagged dl o
        by (subst rebind_loop.simps) (simp add: quote_char_def)
    next
      case (Some e)
      define m where "m = 2 * (length (tag_of t) + 2) + e"
      have m: "?e + 1 + e + (?e + 1 - i) = i + m" by (simp add: m_def)
      have "opened (drop i q) = Some m" using o True Some assms by (simp add: m_def)
      moreover have "rebind_loop q i k out = rebind_loop q (?e + 1 + e + (?e + 1 - i)) k (out @ slice q i (?e + 1 + e + (?e + 1 - i)))"
        using assms True at(3) tagged dl Some by (subst rebind_loop.simps) (simp add: quote_char_def)
      ultimately show ?thesis unfolding m by (simp add: slice_def)
    qed
  next
    case False
    then show ?thesis using assms at(3) tagged o by (subst rebind_loop.simps) (auto simp: quote_char_def)
  qed
qed

lemma rebind_step:
  assumes "i < length q"
  shows "rebind_loop q i k out =
    (case opened (drop i q) of
       Some n \<Rightarrow> rebind_loop q (i + n) k (out @ take n (drop i q))
     | None \<Rightarrow> if q ! i = CHR ''?'' then rebind_loop q (i + 1) (k + 1) (out @ ''$'' @ dec_digits (k + 1))
         else rebind_loop q (i + 1) k (out @ [q ! i]))"
proof -
  define t where "t = drop (i + 1) q"
  have d: "drop i q = q ! i # t" using assms by (simp add: t_def Cons_nth_drop_Suc)
  consider (quote) "quoting (q ! i)" | (line) "\<not> quoting (q ! i)" "HasPrefix (q ! i # t) ''--''"
    | (block) "\<not> quoting (q ! i)" "\<not> HasPrefix (q ! i # t) ''--''" "HasPrefix (q ! i # t) ''/*''" | (dollar) "q ! i = CHR ''$''"
    | (plain) "\<not> quoting (q ! i)" "\<not> HasPrefix (q ! i # t) ''--''" "\<not> HasPrefix (q ! i # t) ''/*''" "q ! i \<noteq> CHR ''$''" by blast
  then show ?thesis
  proof cases
    case quote
    show ?thesis using rebind_quote [OF assms d quote] opened_quote [OF quote, of t] d by simp
  next
    case line
    then obtain n where n: "opened (drop i q) = Some n" using opened_line [OF line] d by simp
    show ?thesis using rebind_line [OF assms d line n] n by simp
  next
    case block
    then obtain n where n: "opened (drop i q) = Some n" using opened_block [OF block] d by simp
    show ?thesis using rebind_block [OF assms d block n] n by simp
  next
    case dollar
    then show ?thesis using rebind_dollar [OF assms d dollar, of k out] by simp
  next
    case plain
    then show ?thesis using assms opened_plain [OF plain] d
      by (subst rebind_loop.simps) (simp add: quoting_def del: HasPrefix.simps)
  qed
qed

lemma rebind_loop_tokens:
  "i \<le> length q \<Longrightarrow> rebind_loop q i k out = Some (out @ numbered (k + 1) (sql_tokens (drop i q)))"
proof (induction "length q - i" arbitrary: i k out rule: less_induct)
  case less
  show ?case
  proof (cases "i < length q")
    case False
    then show ?thesis by (subst rebind_loop.simps) simp
  next
    case True
    then have d: "drop i q = q ! i # drop (i + 1) q" by (simp add: Cons_nth_drop_Suc)
    show ?thesis
    proof (cases "opened (drop i q)")
      case None
      then show ?thesis using True less(1) [of "i + 1"] d by (simp add: rebind_step)
    next
      case (Some n)
      note n = opened_bounds [OF Some]
      have "drop (n - 1) (drop (i + 1) q) = drop (i + n) q" using n by (simp add: add.commute)
      moreover have "rebind_loop q (i + n) k out' = Some (out' @ numbered (k + 1) (sql_tokens (drop (i + n) q)))" for out'
        by (rule less(1)) (use True n in auto)
      ultimately show ?thesis using True Some d by (simp add: rebind_step)
    qed
  qed
qed

lemma tokens_text: "concat (map token_text (sql_tokens s)) = s"
proof (induction s rule: sql_tokens.induct)
  case (2 c s)
  show ?case
  proof (cases "opened (c # s)")
    case None
    with 2 show ?thesis by simp
  next
    case (Some n)
    note n = opened_bounds [OF Some]
    have "drop (n - 1) s = drop n (c # s)" using n by (cases n) simp_all
    with 2(2) [OF Some] Some show ?thesis by simp
  qed
qed simp

lemma opened_lexeme:
  assumes "opened s = Some n"
  shows "lexeme (Copied (take n s))"
proof (cases s)
  case (Cons c t)
  consider (quote) "quoting c" | (line) "\<not> quoting c" "HasPrefix (c # t) ''--''"
    | (block) "\<not> quoting c" "\<not> HasPrefix (c # t) ''--''" "HasPrefix (c # t) ''/*''" | (dollar) "c = CHR ''$''"
    | (plain) "\<not> quoting c" "\<not> HasPrefix (c # t) ''--''" "\<not> HasPrefix (c # t) ''/*''" "c \<noteq> CHR ''$''" by blast
  then show ?thesis
  proof cases
    case line
    then obtain u where u: "t = CHR ''-'' # u" "c = CHR ''-''" by (auto simp: HasPrefix_iff)
    then have "n \<noteq> 1" using opened_line [OF line] Cons assms by (auto split: option.splits)
    with opened_bounds [OF assms] obtain m where "n = Suc (Suc m)" by (metis One_nat_def gr0_implies_Suc not0_implies_Suc)
    with u Cons show ?thesis by (simp add: lexeme_def)
  next
    case block
    then obtain u where u: "t = CHR ''*'' # u" "c = CHR ''/''" by (auto simp: HasPrefix_iff)
    then have "n \<noteq> 1" using opened_block [OF block] Cons assms by (auto split: option.splits)
    with opened_bounds [OF assms] obtain m where "n = Suc (Suc m)" by (metis One_nat_def gr0_implies_Suc not0_implies_Suc)
    with u Cons show ?thesis by (simp add: lexeme_def)
  next
    case plain
    with opened_plain [OF plain] Cons assms show ?thesis by simp
  qed (use opened_bounds [OF assms] Cons in \<open>auto simp: lexeme_def quoting_def take_Cons' split: nat.splits\<close>)
qed (simp add: lexeme_def)

lemma tokens_lexemes: "list_all lexeme (sql_tokens s)"
proof (induction s rule: sql_tokens.induct)
  case (2 c s)
  then show ?case using opened_lexeme [of "c # s"] by (cases "opened (c # s)") (auto simp: lexeme_def)
qed simp

text \<open>
  C31. \<open>rebindPostgres\<close> returns for every statement, and what it returns is the statement with its
  parameter markers numbered from one in order and everything else as it was: the statement is cut
  into markers and copied text without losing a byte, and a question mark is copied only inside a text
  that a quote, a comment or a dollar tag opens.
\<close>

theorem rebindPostgres_numbers:
  "rebindPostgres q = Some (numbered 1 (sql_tokens q)) \<and> concat (map token_text (sql_tokens q)) = q \<and>
   list_all lexeme (sql_tokens q)"
  by (simp add: rebindPostgres_def rebind_loop_tokens tokens_text tokens_lexemes)

end
