(* ===== verification/Spec2Isabelle.thy ===== *)
theory Spec2Isabelle
  imports FleetRules Schedules DeviceBackups Notifications AgentLoop PostgresDialect
begin

text \<open>
  \<^bold>\<open>OpenWrt RMM\<close>: a server that manages OpenWrt routers, and the agent that runs on each of them.

  \<^bold>\<open>The program.\<close> The server (\<open>server/internal\<close>) keeps everything in one SQL database, SQLite or PostgreSQL: accounts,
  devices, a queue of signed commands per device, remote access sessions, alerts and incidents, fleet operations,
  schedules, reaction rules and agent rollouts. The agent (\<open>agent/go/cmd/rmm-agent\<close>) enrols once, pins the server's
  signing key, and then sends heartbeats. The reply to a heartbeat carries commands, a new device token and key epochs;
  the agent checks the signature of each command, runs it at most once, stores the result and delivers it. The two
  sides share the packages under \<open>internal\<close>: the command signature (\<open>commandsig\<close>) and the declarative configuration
  profiles (\<open>fleetprofile\<close>).

  \<^bold>\<open>Foundations.\<close> \<open>Prelude\<close> has instants, errors, the error monad, tables as lists of rows with the SQL statements the
  code issues (\<open>upd_where\<close>, \<open>del_where\<close>, \<open>find_row\<close>, \<open>insert_row\<close>, \<open>upsert_row\<close>, \<open>order_by\<close>) and the interfaces
  \<open>keyed_table\<close> and \<open>total_preorder\<close>. \<open>GoText\<close>, \<open>GoTime\<close>, \<open>GoUrl\<close> and \<open>Json\<close> model what the sources use of
  \<open>strings\<close>, \<open>encoding/hex\<close>, \<open>encoding/base64\<close>, \<open>time\<close>, \<open>net/url\<close> and \<open>encoding/json\<close>, with the round trips the
  components need. \<open>Db\<close> has one record per row type, the record \<open>store\<close> of the tables, and the record \<open>env\<close> of what
  is a parameter: Ed25519, SHA-256, \<open>crypto/rand\<close>, the cipher of sensitive columns, the date function and engine of the
  database, rounding to \<open>float64\<close> and the time zone database. What a theorem needs of them is a named hypothesis
  (\<open>ed25519_ok\<close>, \<open>rand_ok\<close>, \<open>julianday_mono\<close>, \<open>cipher_ok\<close>, \<open>sha256_ok\<close>), and \<open>sample_env\<close> satisfies them.

  \<^bold>\<open>The server, one theory per component.\<close>
  \<^item> \<open>CommandSig\<close> (\<open>commandsig.go\<close>): canonical text, signature, key texts. Equal canonical texts mean equal commands.
  \<^item> \<open>Permissions\<close> (\<open>permissions.go\<close>): who may do what on which device; the interface \<open>authorization\<close>.
  \<^item> \<open>Reactions\<close>, \<open>Commands\<close> (\<open>sqlite.go\<close>, \<open>authorized_commands.go\<close>): the queue. What is delivered, that it is still
    authorized at delivery, what expires, which results are taken.
  \<^item> \<open>RemoteSessions\<close> (\<open>sqlite.go\<close>, \<open>fleet_access.go\<close>, \<open>tunnel_security.go\<close>): sessions, ports, access policies, and
    the ports the SSH server lets a device forward.
  \<^item> \<open>Incidents\<close> (\<open>incidents.go\<close>): alerts and incidents as a refinement of an abstract board of conditions.
  \<^item> \<open>FleetOperations\<close>, \<open>Schedules\<close>, \<open>FleetRules\<close>, \<open>Rollouts\<close>: operations on many devices with bounded
    parallelism, the calendar that starts them, rules that act on their own within limits, and agent updates in waves.
  \<^item> \<open>Accounts\<close>, \<open>LanClients\<close>, \<open>Devices\<close> (\<open>security.go\<close>, \<open>clients.go\<close>, \<open>sqlite.go\<close>): accounts and their sessions,
    enrolment, device credentials and their rotation, heartbeats, transfer and deletion, access from a browser. The
    record \<open>accounts\<close> wraps \<open>store\<close> with the tables of this part.
  \<^item> \<open>FieldCrypto\<close>, \<open>Passwords\<close> (\<open>fieldcrypto.go\<close>, \<open>authn/password.go\<close>): encryption of sensitive columns over AES-GCM, and
    password hashes over Argon2id. What is encrypted is read back, what is hashed verifies, and the operations of the
    store are those of the cipher (\<open>encryptSensitive_cipher\<close>, \<open>decryptSensitive_cipher\<close>).
  \<^item> \<open>DeviceBackups\<close> (\<open>backups.go\<close>): backups of devices, from the request to the archive that is read back.
  \<^item> \<open>Notifications\<close> (\<open>notifications.go\<close>, \<open>notification_center.go\<close>, \<open>verification.go\<close>, \<open>sensitive_data.go\<close>): settings,
    inbox, verified addresses, and the queue of deliveries as a step relation: bounded attempts, leases, content that
    never changes. The record \<open>outbox\<close> wraps \<open>accounts\<close> with these tables.
  \<^item> \<open>PostgresDialect\<close> (\<open>postgres_dialect.go\<close>): the translation of statements to PostgreSQL, loops included.

  \<^bold>\<open>The agent.\<close> \<open>Machine\<close> is the router seen through \<open>os\<close>, \<open>os/exec\<close> and \<open>net/http\<close>: a state with files, a clock, timers
  and the trace of started programs and sent requests. What programs, the network and the file system answer is a
  record \<open>host\<close> of functions of the whole state, so nothing is assumed about them: any operation can fail at any moment,
  and a crash is a machine in which everything after it fails. The handlers are actions of the state monad over it.
  \<^item> \<open>Agent\<close>, \<open>AgentConfig\<close>: settings, argument checks, pinning, \<open>validateSignedCommand\<close>, the configuration file.
  \<^item> \<open>FleetProfile\<close>, \<open>AgentProfiles\<close>: profiles and their journalled application, rollback and recovery at start.
  \<^item> \<open>AgentBackup\<close>, \<open>AgentTools\<close>, \<open>AgentTunnel\<close>, \<open>AgentUpdate\<close>: system backups and the guarded restore, tools and
    diagnostics, reverse SSH tunnels, updates of the agent itself.
  \<^item> \<open>AgentInventory\<close>, \<open>AgentRun\<close>, \<open>AgentLoop\<close>: what is reported, how a command is run, and the life of the agent as a
    step relation. The locales \<open>agent_frame\<close> and \<open>agent_life\<close> state what every handler keeps; they are interpreted
    twice, for the allow list of programs and for the files that make execution happen at most once.

  This theory holds what spans both sides: the router accepts what the server signs (\<open>newCommand_accepted\<close>).

  \<^bold>\<open>What is shown.\<close> Safety: nothing is delivered, started or forwarded without the permission, key, policy or guard the
  code promises, grants and tokens work once, and an administrator always remains. Functional behaviour: the exact
  effect of the operations on all branches. Refinement and equivalence: incidents against their board, the calendar
  against the least matching instant, the parameter scanner against a tokenizer. Termination: the scanner returns for
  every statement; the other loops are structural or have a measure, and the calendar search is bounded by the days it
  looks at, as in the code. Errors are values of \<open>err\<close>, and the theorems about profiles and restores hold whatever fails.
  One theorem states a defect: a revoked credential comes back at the next start (\<open>revocation_undone_by_restart\<close>).

  \<^bold>\<open>Conventions and limits.\<close> One operation reads the clock once where the code calls \<open>nowText\<close> several times. An operation
  in a transaction returns either an error, and then the database is unchanged, or its result with the new database; one
  that is not in a transaction returns the database in both cases. Concurrent transactions are sequences of operations.
  A run-time panic is the error \<open>Panic\<close>, or \<open>None\<close> in the agent's inventory. Case conversion is for ASCII, except where
  the code uses its result as a name (\<open>dns_lower\<close>). Raw JSON is carried as its compact text; the escapes that
  \<open>json.Marshal\<close> adds on the way to the agent and the decoder removes are left out. In the agent a DNS lookup takes no
  time, client probes run in order, and the lock file, signals, logging and cancelled contexts are left out. On
  PostgreSQL the store's locks are implied by the sequence of operations.

  \<^bold>\<open>Not modelled.\<close> The HTTP handlers but \<open>handleCommandResult\<close>, the evaluation of alerts from metrics, deciding
  which notifications to queue and sending them by mail, Telegram or webhook, the LuCI proxy, snapshots of the database, the
  copy of a SQLite database to PostgreSQL, metrics and push events, start-up code, and the files in other languages: they
  decode requests, move bytes or call the operations modelled here. Libraries that are not part of the repository are
  parameters.
\<close>

section \<open>From the server's queue to the router\<close>

text \<open>
  The command an agent decodes from the reply of the poll: \<open>model.Command\<close> encoded by the server,
  of which the agent's \<open>command\<close> has these fields under the same JSON names. Decoding undoes the
  escapes the encoder adds to the raw arguments.
\<close>

definition delivered :: "command \<Rightarrow> agent_command" where
  "delivered c =
     \<lparr>ac_ID = c_id c, ac_DeviceID = c_device_id c, ac_Type = c_type c, ac_Args = c_args_json c,
      ac_CreatedAt = c_created_at c, ac_ExpiresAt = c_expires_at c, ac_Nonce = c_nonce c,
      ac_SignatureKeyID = c_signature_key_id c, ac_Signature = c_signature c\<rparr>"

lemma delivered_envelope: "agent_envelope (delivered c) t = command_envelope c t"
  by (simp add: agent_envelope_def command_envelope_def delivered_def)

lemma command_id_safe:
  assumes "rand_ok E"
  shows "safeSessionID (''cmd_'' @ hex_EncodeToString (rand_Read E n 16))"
proof -
  have hex: "word_char (hex_digit k)" if "k < 16" for k
  proof -
    have "hex_digit k \<in> set ''0123456789abcdef''" unfolding hex_digit_def by (rule nth_mem) (use that in simp)
    then show ?thesis by (auto simp: word_char_def alpha_char_def digit_char_def)
  qed
  have "list_all word_char (hex_EncodeToString s)" for s
    by (auto simp: hex_EncodeToString_def list_all_iff bytes_of_def less_mult_imp_div_less intro!: hex)
  then have "list_all (\<lambda>c. word_char c \<or> c \<in> set ''_-'') (hex_EncodeToString s)" for s
    by (auto simp: list_all_iff)
  moreover have "length (hex_EncodeToString s) = 2 * length s" for s
    by (simp add: hex_EncodeToString_def bytes_of_def length_concat comp_def sum_list_triv)
  ultimately show ?thesis
    using assms by (simp add: safeSessionID_def safe_text_def rand_ok_def word_char_def alpha_char_def)
qed

lemma pinned_key:
  assumes "length pk = PublicKeySize" "pinCommandSigningKey E cfg (EncodePublicKey pk) (KeyID E pk) = Inr (b, cfg')"
  shows "a_CommandSigningPublicKey cfg' = EncodePublicKey pk \<and> a_CommandSigningKeyID cfg' = KeyID E pk \<and>
    KeyID E pk \<noteq> [] \<and> a_DeviceID cfg' = a_DeviceID cfg"
proof -
  have "list_all plain_char (EncodePublicKey pk)"
    by (simp add: EncodePublicKey_def raw_std.encode_plain) (simp add: plain_char_def ascii_space_def)
  then have "TrimSpace (EncodePublicKey pk) = EncodePublicKey pk" by (rule TrimSpace_plain)
  moreover have "TrimSpace (KeyID E pk) = KeyID E pk" by (simp add: KeyID_def hex_plain TrimSpace_plain)
  ultimately show ?thesis
    using assms(2) ParsePublicKey_Encode [OF assms(1)]
    by (auto simp: pinCommandSigningKey_def Let_def split: if_splits)
qed

text \<open>
  C3. The agent accepts what the server signs: once a router has pinned the public key and key
  identifier the server sends at enrolment and in every heartbeat, each command \<open>newCommand\<close> makes for
  that router, with a lifetime of up to 25 hours, passes \<open>validateSignedCommand\<close> from five minutes before it
  was created (the tolerated clock difference) until it expires.
\<close>

theorem newCommand_accepted:
  assumes "ed25519_ok E" "rand_ok E"
    and "pinCommandSigningKey E cfg (EncodePublicKey (CommandSigningPublicKey E st)) (KeyID E (CommandSigningPublicKey E st)) = Inr (b, pinned)"
    and "newCommand E created (a_DeviceID cfg) ty args ttl st = Inr (c, st')"
    and "ttl \<le> 25 * hour" "c_expires_at c = Some expires" "created - 5 * minute \<le> now" "now \<le> expires"
  shows "validateSignedCommand E pinned (delivered c) now = Inr ()"
proof -
  note new = newCommand_Inr [OF assms(4)]
  let ?pk = "ed_Public E (signing_key st)"
  have pk: "length ?pk = PublicKeySize" using new assms(1) by (simp add: ed25519_ok_def)
  have key: "CommandSigningPublicKey E st = ?pk" using new by (simp add: CommandSigningPublicKey_def)
  note pin = pinned_key [OF pk assms(3) [unfolded key]]
  have "Sign E (signing_key st) (command_envelope c (the (c_expires_at c))) = Inr (c_signature c)" using new by blast
  then have sig: "Sign E (signing_key st) (command_envelope c expires) = Inr (c_signature c)" by (simp only: assms(6) option.sel)
  have "Verify E ?pk (agent_envelope (delivered c) expires) (ac_Signature (delivered c)) = Inr ()"
    using Verify_Sign_lemma [OF assms(1) sig] delivered_envelope by (simp add: delivered_def)
  moreover have "\<not> IsZero (c_created_at c)" "c_created_at c < expires"
    using sig by (auto simp: Sign_def Canonical_Inr command_envelope_def res_simps split: if_splits)
  moreover have "expires \<le> c_created_at c + ttl" "c_created_at c \<le> created"
    using new assms(6) Truncate_le [of microsecond] by auto
  moreover have "safeSessionID (c_id c)" using new command_id_safe [OF assms(2)] by simp
  ultimately show ?thesis
    using new pin assms(5-) ParsePublicKey_Encode [OF pk]
    by (simp add: validateSignedCommand_def delivered_def)
qed

lemma sample_config_fields: "a_DeviceID sample_config = ''d1''" "a_CommandSigningPublicKey sample_config = []" "a_CommandSigningKeyID sample_config = []"
  by (simp_all add: sample_config_def)

lemma sample_pinning:
  assumes "length pk = PublicKeySize" "KeyID E pk \<noteq> []"
  shows "\<exists>pinned. pinCommandSigningKey E sample_config (EncodePublicKey pk) (KeyID E pk) = Inr (True, pinned)"
proof -
  have "list_all plain_char (EncodePublicKey pk)"
    by (simp add: EncodePublicKey_def raw_std.encode_plain) (simp add: plain_char_def ascii_space_def)
  then have "TrimSpace (EncodePublicKey pk) = EncodePublicKey pk" by (rule TrimSpace_plain)
  moreover have "TrimSpace (KeyID E pk) = KeyID E pk" by (simp add: KeyID_def hex_plain TrimSpace_plain)
  moreover have "EncodePublicKey pk \<noteq> []" by (simp add: EncodePublicKey_def)
  ultimately show ?thesis
    using assms ParsePublicKey_Encode [OF assms(1)] by (simp add: pinCommandSigningKey_def Let_def sample_config_fields)
qed

theorem newCommand_accepted_witness:
  "\<exists>pinned c st'. pinCommandSigningKey sample_env sample_config (EncodePublicKey (CommandSigningPublicKey sample_env (empty_store sample_key)))
        (KeyID sample_env (CommandSigningPublicKey sample_env (empty_store sample_key))) = Inr (True, pinned) \<and>
      newCommand sample_env (1700000000 * second) (a_DeviceID sample_config) ''reboot'' ''{}'' (24 * hour) (empty_store sample_key) = Inr (c, st') \<and>
      validateSignedCommand sample_env pinned (delivered c) (1700000060 * second) = Inr ()"
proof -
  let ?st = "empty_store sample_key"
  let ?pk = "CommandSigningPublicKey sample_env ?st"
  have pk: "length ?pk = PublicKeySize"
    by (simp add: CommandSigningPublicKey_def empty_store_def sample_key_def sample_env_def sample_crypto_def crypto.defs)
  have "KeyID sample_env ?pk \<noteq> []"
    by (simp add: KeyID_def hex_EncodeToString_def bytes_of_def sample_env_def sample_crypto_def crypto.defs)
  with pk obtain pinned where pin: "pinCommandSigningKey sample_env sample_config (EncodePublicKey ?pk) (KeyID sample_env ?pk) = Inr (True, pinned)"
    using sample_pinning by blast
  have dev: "TrimSpace ''d1'' = ''d1''" by code_simp
  have "\<exists>c st'. newCommand sample_env (1700000000 * second) (a_DeviceID sample_config) ''reboot'' ''{}'' (24 * hour) ?st = Inr (c, st')"
    by (rule newCommand_defined [where a = "JObj []"])
      (simp_all add: sample_env_ok sample_texts dev sample_config_fields empty_store_def sample_key_def zero_time_def)
  then obtain c st' where c: "newCommand sample_env (1700000000 * second) (a_DeviceID sample_config) ''reboot'' ''{}'' (24 * hour) ?st = Inr (c, st')" by blast
  have x: "c_expires_at c = Some (Truncate (Truncate (1700000000 * second) microsecond + 24 * hour) microsecond)"
    using newCommand_Inr [OF c] by blast
  have "validateSignedCommand sample_env pinned (delivered c) (1700000060 * second) = Inr ()"
    by (rule newCommand_accepted [OF sample_env_ok(1,2) pin c _ x]) (simp_all add: Truncate_def zero_time_def)
  with pin c show ?thesis by blast
qed

end
